(* ===== verification/Prelude.thy ===== *)
theory Prelude
  imports Main "HOL-Library.Word" "HOL-Library.Sublist"
begin

text \<open>
  Shared vocabulary of the development: Go's byte strings and the string
  functions of its standard library that the backend uses, decimal numbers, 64-bit wrap-around,
  and the ``seen map plus result slice'' loop that the backend repeats in several places.

  A Go \<open>string\<close> is a sequence of bytes, and Isabelle's \<^typ>\<open>char\<close> is a byte, so
  \<^typ>\<open>string\<close> models it exactly: \<^term>\<open>length\<close> counts what Go's \<open>len\<close> counts. White space
  is Unicode white space in its UTF-8 encoding, as \<open>strings.TrimSpace\<close> sees it.
\<close>

named_theorems msg_defs \<open>definitions of constants of the message layer\<close>
named_theorems seen_loop \<open>facts on loops that skip values already seen\<close>
named_theorems deb_defs \<open>definitions of the debouncer's locked sections\<close>

section \<open>White space\<close>

definition ascii_spaces :: "string list" where
  "ascii_spaces = [[CHR 0x20], [CHR 0x0A], [CHR 0x09], [CHR 0x0D], [CHR 0x0B], [CHR 0x0C]]"

definition wide_spaces :: "string list" where
  "wide_spaces =
     [[CHR 0xC2, CHR 0x85], [CHR 0xC2, CHR 0xA0], [CHR 0xE1, CHR 0x9A, CHR 0x80],
      [CHR 0xE2, CHR 0x80, CHR 0x80], [CHR 0xE2, CHR 0x80, CHR 0x81], [CHR 0xE2, CHR 0x80, CHR 0x82],
      [CHR 0xE2, CHR 0x80, CHR 0x83], [CHR 0xE2, CHR 0x80, CHR 0x84], [CHR 0xE2, CHR 0x80, CHR 0x85],
      [CHR 0xE2, CHR 0x80, CHR 0x86], [CHR 0xE2, CHR 0x80, CHR 0x87], [CHR 0xE2, CHR 0x80, CHR 0x88],
      [CHR 0xE2, CHR 0x80, CHR 0x89], [CHR 0xE2, CHR 0x80, CHR 0x8A], [CHR 0xE2, CHR 0x80, CHR 0xA8],
      [CHR 0xE2, CHR 0x80, CHR 0xA9], [CHR 0xE2, CHR 0x80, CHR 0xAF], [CHR 0xE2, CHR 0x81, CHR 0x9F],
      [CHR 0xE3, CHR 0x80, CHR 0x80]]"

definition spaces :: "string list" where
  "spaces = ascii_spaces @ wide_spaces"

definition spaces_rev :: "string list" where
  "spaces_rev = map rev spaces"

text \<open>Drop leading occurrences of any of the given encodings.\<close>

function strip :: "string list \<Rightarrow> string \<Rightarrow> string" where
  "strip ps s =
     (case List.find (\<lambda>p. p \<noteq> [] \<and> prefix p s) ps of
        None \<Rightarrow> s
      | Some p \<Rightarrow> strip ps (drop (length p) s))"
  by pat_completeness auto
termination
proof (relation "measure (\<lambda>(ps, s). length s)", goal_cases)
  case (2 ps s p)
  then have "p \<noteq> []" "prefix p s" by (auto simp: find_Some_iff)
  then have "0 < length p" "length p \<le> length s" by (auto dest: prefix_length_le)
  then have "length s - length p < length s" by (intro diff_less) auto
  then show ?case by simp
qed simp

declare strip.simps [simp del]

definition trim_left :: "string \<Rightarrow> string" where
  "trim_left s = strip spaces s"

definition trim_right :: "string \<Rightarrow> string" where
  "trim_right s = rev (strip spaces_rev (rev s))"

definition trim_space :: "string \<Rightarrow> string" where
  "trim_space s = trim_right (trim_left s)"

definition no_lead :: "string list \<Rightarrow> string \<Rightarrow> bool" where
  "no_lead ps s \<longleftrightarrow> (\<forall>p \<in> set ps. p \<noteq> [] \<longrightarrow> \<not> prefix p s)"

lemma strip_no_lead: "no_lead ps (strip ps s)"
proof (induction ps s rule: strip.induct)
  case (1 ps s)
  show ?case
  proof (cases "List.find (\<lambda>p. p \<noteq> [] \<and> prefix p s) ps")
    case None
    moreover from None have "strip ps s = s" by (subst strip.simps) simp
    ultimately show ?thesis by (auto simp: no_lead_def find_None_iff)
  next
    case (Some p)
    with "1" show ?thesis by (simp add: strip.simps [of ps s])
  qed
qed

lemma strip_id: "no_lead ps s \<Longrightarrow> strip ps s = s"
  by (subst strip.simps) (auto simp: no_lead_def find_None_iff find_Some_iff split: option.splits)

lemma no_lead_prefix: "no_lead ps s \<Longrightarrow> prefix t s \<Longrightarrow> no_lead ps t"
  by (auto simp: no_lead_def dest: prefix_order.trans)

lemma suffix_strip: "suffix (strip ps s) s"
proof (induction ps s rule: strip.induct)
  case (1 ps s)
  show ?case
  proof (cases "List.find (\<lambda>p. p \<noteq> [] \<and> prefix p s) ps")
    case None
    then show ?thesis by (simp add: strip.simps [of ps s])
  next
    case (Some p)
    with "1" have "suffix (strip ps (drop (length p) s)) (drop (length p) s)" by simp
    with Some show ?thesis
      by (simp add: strip.simps [of ps s]) (meson suffix_drop suffix_order.trans)
  qed
qed

lemma prefix_trim_right: "prefix (trim_right s) s"
  using suffix_strip [of spaces_rev "rev s"] by (simp add: trim_right_def suffix_to_prefix)

lemma trim_space_trimmed:
  "no_lead spaces (trim_space s)" "no_lead spaces_rev (rev (trim_space s))"
proof -
  show "no_lead spaces (trim_space s)"
    unfolding trim_space_def
    by (rule no_lead_prefix [OF _ prefix_trim_right]) (simp add: trim_left_def strip_no_lead)
  show "no_lead spaces_rev (rev (trim_space s))"
    by (simp add: trim_space_def trim_right_def strip_no_lead)
qed

lemma trim_space_idem [simp]: "trim_space (trim_space s) = trim_space s"
proof -
  have "trim_left (trim_space s) = trim_space s"
    by (simp add: trim_left_def strip_id trim_space_trimmed)
  then show ?thesis
    by (simp add: trim_space_def [of "trim_space s"] trim_right_def strip_id trim_space_trimmed)
qed

lemma trim_space_Nil [simp]: "trim_space [] = []"
proof -
  have "strip ps [] = []" for ps :: "string list"
    by (rule strip_id) (simp add: no_lead_def)
  then show ?thesis by (simp add: trim_space_def trim_left_def trim_right_def)
qed

text \<open>
  A string that starts and ends with a printable ASCII byte has nothing to trim. The test is
  executable, so closed instances are decided by evaluation.
\<close>

definition graph_byte :: "char \<Rightarrow> bool" where
  "graph_byte c \<longleftrightarrow> 0x20 < (of_char c :: nat) \<and> (of_char c :: nat) < 0x80"

lemma graph_byte_no_lead:
  assumes "graph_byte c"
  shows "no_lead spaces (c # s)" "no_lead spaces_rev (c # s)"
proof -
  have hd_ok: "\<forall>p \<in> set spaces \<union> set spaces_rev. p \<noteq> [] \<and> \<not> graph_byte (hd p)"
    by (simp add: spaces_def spaces_rev_def ascii_spaces_def wide_spaces_def graph_byte_def)
  have "\<not> prefix p (c # s)" if "p \<in> set spaces \<union> set spaces_rev" for p
  proof -
    have "p \<noteq> []" "hd p \<noteq> c" using hd_ok that assms by blast+
    then show ?thesis by (cases p) auto
  qed
  then show "no_lead spaces (c # s)" "no_lead spaces_rev (c # s)"
    by (simp_all add: no_lead_def)
qed

lemma trim_space_graph:
  assumes "s \<noteq> []" "graph_byte (hd s)" "graph_byte (last s)"
  shows "trim_space s = s"
proof -
  have "no_lead spaces s" using assms graph_byte_no_lead(1) [of "hd s" "tl s"] by simp
  moreover have "rev s = last s # rev (butlast s)" using assms(1)
    by (metis append_butlast_last_id rev_eq_Cons_iff rev_rev_ident)
  then have "no_lead spaces_rev (rev s)" using assms(3) graph_byte_no_lead(2) by metis
  ultimately show ?thesis
    by (simp add: trim_space_def trim_left_def trim_right_def strip_id)
qed

section \<open>Case, search, join and split\<close>

definition ascii_lower :: "char \<Rightarrow> char" where
  "ascii_lower c =
     (let n = (of_char c :: nat) in if 65 \<le> n \<and> n \<le> 90 then char_of (n + 32) else c)"

text \<open>
  \<open>strings.ToLower\<close> lowers every rune. Besides \<open>A\<close> to \<open>Z\<close>, exactly two runes have an ASCII lower
  case: the dotted capital I (U+0130) and the Kelvin sign (U+212A). The model lowers these and
  keeps all other bytes, so it agrees with Go wherever the result is compared with, or searched
  for, an ASCII text: every use of it below.
\<close>

function to_lower :: "string \<Rightarrow> string" where
  "to_lower [] = []"
| "to_lower (c # cs) =
     (if c = CHR 0xC4 \<and> take 1 cs = [CHR 0xB0] then CHR ''i'' # to_lower (drop 1 cs)
      else if c = CHR 0xE2 \<and> take 2 cs = [CHR 0x84, CHR 0xAA] then CHR ''k'' # to_lower (drop 2 cs)
      else ascii_lower c # to_lower cs)"
  by pat_completeness auto
termination
  by (relation "measure length") auto

fun contains :: "string \<Rightarrow> string \<Rightarrow> bool" where
  "contains [] t \<longleftrightarrow> t = []"
| "contains (c # s) t \<longleftrightarrow> prefix t (c # s) \<or> contains s t"

lemma contains_iff: "contains s t \<longleftrightarrow> sublist t s"
  by (induction s) (auto simp: sublist_Cons_right)

fun join :: "string \<Rightarrow> string list \<Rightarrow> string" where
  "join sep [] = []"
| "join sep [x] = x"
| "join sep (x # y # ys) = x @ sep @ join sep (y # ys)"

lemma join_Cons: "xs \<noteq> [] \<Longrightarrow> join sep (x # xs) = x @ sep @ join sep xs"
  by (cases xs) auto

lemma length_join_snoc:
  "length (join sep (xs @ [x])) = (if xs = [] then length x else length (join sep xs) + length sep + length x)"
  by (induction xs rule: induct_list012) (auto simp: join_Cons)

section \<open>Decimal numbers\<close>

definition digit :: "nat \<Rightarrow> char" where
  "digit n = char_of (48 + n)"

definition is_digit :: "char \<Rightarrow> bool" where
  "is_digit c \<longleftrightarrow> 48 \<le> (of_char c :: nat) \<and> (of_char c :: nat) \<le> 57"

definition digit_val :: "char \<Rightarrow> nat" where
  "digit_val c = of_char c - 48"

fun show_nat :: "nat \<Rightarrow> string" where
  "show_nat n = (if n < 10 then [digit n] else show_nat (n div 10) @ [digit (n mod 10)])"

declare show_nat.simps [simp del]

definition nat_of_digits :: "string \<Rightarrow> nat" where
  "nat_of_digits s = fold (\<lambda>c n. 10 * n + digit_val c) s 0"

text \<open>\<open>strconv.ParseUint(s, 10, 64)\<close>: decimal digits only, and the value fits 64 bits.\<close>

definition parse_uint64 :: "string \<Rightarrow> nat option" where
  "parse_uint64 s =
     (if s \<noteq> [] \<and> list_all is_digit s \<and> nat_of_digits s < 2 ^ 64 then Some (nat_of_digits s) else None)"

lemma is_digit_digit: "n < 10 \<Longrightarrow> is_digit (digit n)"
  by (simp add: is_digit_def digit_def)

lemma digit_val_digit: "n < 10 \<Longrightarrow> digit_val (digit n) = n"
  by (simp add: digit_val_def digit_def)

lemma show_nat_digits: "list_all is_digit (show_nat n)"
proof (induction n rule: show_nat.induct)
  case (1 n)
  then show ?case by (subst show_nat.simps) (simp add: is_digit_digit)
qed

lemma show_nat_nonempty [simp]: "show_nat n \<noteq> []"
  by (subst show_nat.simps) simp

lemma nat_of_digits_show: "nat_of_digits (show_nat n) = n"
proof (induction n rule: show_nat.induct)
  case (1 n)
  then show ?case
    by (subst show_nat.simps) (simp add: nat_of_digits_def digit_val_digit)
qed

lemma parse_show_nat: "n < 2 ^ 64 \<Longrightarrow> parse_uint64 (show_nat n) = Some n"
  by (simp add: parse_uint64_def show_nat_digits nat_of_digits_show)

lemma show_nat_inj [simp]: "show_nat m = show_nat n \<longleftrightarrow> m = n"
  by (metis nat_of_digits_show)

lemma show_nat_no_dot [simp]: "CHR ''.'' \<notin> set (show_nat n)"
  using show_nat_digits [of n] by (auto simp: list_all_iff is_digit_def)

lemma show_nat_no_colon [simp]: "CHR '':'' \<notin> set (show_nat n)"
  using show_nat_digits [of n] by (auto simp: list_all_iff is_digit_def)

lemma trim_space_show_nat [simp]: "trim_space (show_nat n) = show_nat n"
proof (rule trim_space_graph)
  have d: "is_digit c \<Longrightarrow> graph_byte c" for c by (simp add: is_digit_def graph_byte_def)
  have "\<forall>c \<in> set (show_nat n). is_digit c" using show_nat_digits by (simp add: list_all_iff)
  then show "graph_byte (hd (show_nat n))" "graph_byte (last (show_nat n))" by (simp_all add: d)
qed simp

section \<open>Fixed-width integers\<close>

text \<open>
  Go's \<open>int64\<close> addition wraps; the model keeps the mathematical value in the signed range.
\<close>

definition wrap64 :: "int \<Rightarrow> int" where
  "wrap64 x = (x + 2 ^ 63) mod 2 ^ 64 - 2 ^ 63"

definition int64_range :: "int \<Rightarrow> bool" where
  "int64_range x \<longleftrightarrow> - (2 ^ 63) \<le> x \<and> x < 2 ^ 63"

lemma wrap64_range: "int64_range (wrap64 x)"
proof -
  have "(x + 2 ^ 63) mod 2 ^ 64 < (2 ^ 64 :: int)" and "0 \<le> (x + 2 ^ 63) mod (2 ^ 64 :: int)" by simp_all
  then show ?thesis by (simp add: wrap64_def int64_range_def)
qed

lemma wrap64_id: "int64_range x \<Longrightarrow> wrap64 x = x"
  by (simp add: wrap64_def int64_range_def)

section \<open>Loops that skip values already seen\<close>

text \<open>
  \<^verbatim>\<open>for _, x := range xs { y := norm(x); if skip { continue }; if seen[y] { continue }; seen[y] = ...; out = append(out, y) }\<close>
  \<open>norm\<close> returns \<open>None\<close> for the values the loop skips.
\<close>

fun uniq_loop :: "('a \<Rightarrow> 'b option) \<Rightarrow> 'b list \<Rightarrow> 'a list \<Rightarrow> 'b list" where
  "uniq_loop norm seen [] = []"
| "uniq_loop norm seen (x # xs) =
     (case norm x of
        None \<Rightarrow> uniq_loop norm seen xs
      | Some y \<Rightarrow>
          (if y \<in> set seen then uniq_loop norm seen xs
           else y # uniq_loop norm (y # seen) xs))"

lemma set_uniq_loop [seen_loop]:
  "set (uniq_loop norm seen xs) = {y. \<exists>x \<in> set xs. norm x = Some y} - set seen"
  by (induction xs arbitrary: seen) (auto split: option.splits)

lemma distinct_uniq_loop [seen_loop]: "distinct (uniq_loop norm seen xs)"
  by (induction xs arbitrary: seen) (auto simp: set_uniq_loop split: option.splits)

lemma uniq_loop_cong_seen: "set seen = set seen' \<Longrightarrow> uniq_loop norm seen xs = uniq_loop norm seen' xs"
proof (induction xs arbitrary: seen seen')
  case (Cons x xs)
  have "set (y # seen) = set (y # seen')" for y using Cons.prems by simp
  then show ?case
    using Cons.IH [of seen seen'] Cons.IH [of "_ # seen" "_ # seen'"] Cons.prems
    by (auto split: option.splits)
qed simp

lemma uniq_loop_append:
  "uniq_loop norm seen (xs @ ys) =
     uniq_loop norm seen xs @ uniq_loop norm (uniq_loop norm seen xs @ seen) ys"
proof (induction xs arbitrary: seen)
  case (Cons x xs)
  have shift: "uniq_loop norm (uniq_loop norm (y # seen) xs @ y # seen) ys =
      uniq_loop norm (y # uniq_loop norm (y # seen) xs @ seen) ys" for y
    by (rule uniq_loop_cong_seen) auto
  show ?case by (auto simp: Cons.IH shift split: option.splits)
qed simp

text \<open>A list that is already clean goes through the loop unchanged.\<close>

lemma uniq_loop_id:
  assumes "distinct ys" "\<forall>y \<in> set ys. norm y = Some y" "set ys \<inter> set seen = {}"
  shows "uniq_loop norm seen ys = ys"
  using assms
proof (induction ys arbitrary: seen)
  case (Cons y ys)
  then have "uniq_loop norm (y # seen) ys = ys" by (intro Cons.IH) auto
  with Cons.prems show ?case by simp
qed simp

lemma uniq_loop_idem:
  assumes "\<And>x y. norm x = Some y \<Longrightarrow> norm y = Some y"
  shows "uniq_loop norm [] (uniq_loop norm [] xs) = uniq_loop norm [] xs"
  using assms by (intro uniq_loop_id) (auto simp: seen_loop)

text \<open>The normalisation most of the loops use: trim, and skip what is then empty.\<close>

definition trim_id :: "string \<Rightarrow> string option" where
  "trim_id s = (let t = trim_space s in if t = [] then None else Some t)"

lemma trim_id_Some: "trim_id s = Some t \<longleftrightarrow> t = trim_space s \<and> t \<noteq> []"
  by (auto simp: trim_id_def Let_def)

lemma trim_id_idem: "trim_id s = Some t \<Longrightarrow> trim_id t = Some t"
  by (auto simp: trim_id_Some)

section \<open>Existential goals\<close>

lemma exI_conj: "P x \<Longrightarrow> Q x \<Longrightarrow> \<exists>x. P x \<and> Q x"
  by blast

end
