(* ===== verification/Subjects.thy ===== *)
theory Subjects
  imports Prelude
begin

text \<open>
  The subjects of the message bus (\<open>backend/pkg/messaging/subject.go\<close>) and the lanes that commands and run
  events are sent on (\<open>command.go\<close>, \<open>event.go\<close>): how a subject is built, which stream a subject belongs to,
  which lane a command type or a run event type is assigned to.

  Lemmas: a built subject is always assigned to the stream that was configured for it, and two
  run-event subjects are equal only for the same organisation, session and lane.
\<close>

section \<open>Command types and their lanes\<close>

definition CommandTypeRun :: string where [msg_defs]: "CommandTypeRun = ''agent.run''"
definition CommandTypeCancel :: string where [msg_defs]: "CommandTypeCancel = ''run.cancel''"
definition CommandTypeApprovalResolve :: string where
  [msg_defs]: "CommandTypeApprovalResolve = ''approval.resolve''"
definition CommandTypeQuestionAnswer :: string where
  [msg_defs]: "CommandTypeQuestionAnswer = ''question.answer''"
definition CommandTypeSkill :: string where [msg_defs]: "CommandTypeSkill = ''skill.manage''"

definition LaneRun :: string where [msg_defs]: "LaneRun = ''cmd.run''"
definition LaneControl :: string where [msg_defs]: "LaneControl = ''cmd.control''"
definition LaneInteraction :: string where [msg_defs]: "LaneInteraction = ''cmd.interaction''"
definition LaneSkill :: string where [msg_defs]: "LaneSkill = ''cmd.skill''"

definition CommandLane :: "string \<Rightarrow> string" where
  "CommandLane cmdType =
     (if cmdType = CommandTypeRun then LaneRun
      else if cmdType = CommandTypeCancel then LaneControl
      else if cmdType = CommandTypeApprovalResolve \<or> cmdType = CommandTypeQuestionAnswer then LaneInteraction
      else if cmdType = CommandTypeSkill then LaneSkill
      else LaneRun)"

section \<open>Run event types and their lanes\<close>

definition RunEventRunStarted :: string where [msg_defs]: "RunEventRunStarted = ''run.started''"
definition RunEventRunCompleted :: string where [msg_defs]: "RunEventRunCompleted = ''run.completed''"
definition RunEventRunFailed :: string where [msg_defs]: "RunEventRunFailed = ''run.failed''"
definition RunEventRunCancelled :: string where [msg_defs]: "RunEventRunCancelled = ''run.cancelled''"
definition RunEventArtifactDeclared :: string where
  [msg_defs]: "RunEventArtifactDeclared = ''artifact.declared''"
definition RunEventApprovalRequested :: string where
  [msg_defs]: "RunEventApprovalRequested = ''approval.requested''"
definition RunEventApprovalResolved :: string where
  [msg_defs]: "RunEventApprovalResolved = ''approval.resolved''"
definition RunEventQuestionAsked :: string where [msg_defs]: "RunEventQuestionAsked = ''question.asked''"
definition RunEventQuestionAnswered :: string where
  [msg_defs]: "RunEventQuestionAnswered = ''question.answered''"
definition RunEventWorkTitleUpdated :: string where
  [msg_defs]: "RunEventWorkTitleUpdated = ''work.title.updated''"
definition RunEventMessageDelta :: string where [msg_defs]: "RunEventMessageDelta = ''message.delta''"
definition RunEventReasoningDelta :: string where
  [msg_defs]: "RunEventReasoningDelta = ''reasoning.delta''"
definition RunEventMessageCompleted :: string where
  [msg_defs]: "RunEventMessageCompleted = ''message.completed''"
definition RunEventToolCallStarted :: string where
  [msg_defs]: "RunEventToolCallStarted = ''tool_call.started''"
definition RunEventToolCallFinished :: string where
  [msg_defs]: "RunEventToolCallFinished = ''tool_call.finished''"
definition RunEventTodoSnapshot :: string where [msg_defs]: "RunEventTodoSnapshot = ''todo.snapshot''"
definition RunEventTodoUpdated :: string where [msg_defs]: "RunEventTodoUpdated = ''todo.updated''"

definition RunEventLaneStream :: string where [msg_defs]: "RunEventLaneStream = ''run.stream''"
definition RunEventLaneState :: string where [msg_defs]: "RunEventLaneState = ''run.state''"

definition ClassifyRunEvent :: "string \<Rightarrow> string" where
  "ClassifyRunEvent eventType =
     (if eventType \<in> set [RunEventRunStarted, RunEventRunCompleted, RunEventRunFailed, RunEventRunCancelled,
           RunEventArtifactDeclared, RunEventApprovalRequested, RunEventApprovalResolved,
           RunEventQuestionAsked, RunEventQuestionAnswered, RunEventWorkTitleUpdated]
      then RunEventLaneState
      else if eventType \<in> set [RunEventMessageDelta, RunEventReasoningDelta, RunEventMessageCompleted,
           RunEventToolCallStarted, RunEventToolCallFinished, RunEventTodoSnapshot, RunEventTodoUpdated]
      then RunEventLaneStream
      else RunEventLaneStream)"

section \<open>Building subjects\<close>

datatype subject_error = OrgID_required | WorkerID_required | SessionID_required | Lane_required

definition WorkerCommandSubject :: "nat \<Rightarrow> nat \<Rightarrow> string \<Rightarrow> subject_error + string" where
  "WorkerCommandSubject orgID workerID lane =
     (if orgID = 0 then Inl OrgID_required
      else if workerID = 0 then Inl WorkerID_required
      else if lane = [] then Inl Lane_required
      else Inr (''org.'' @ show_nat orgID @ ''.worker.'' @ show_nat workerID @ ''.'' @ lane))"

definition RunEventSubject :: "nat \<Rightarrow> string \<Rightarrow> string \<Rightarrow> subject_error + string" where
  "RunEventSubject orgID sessionID lane =
     (if orgID = 0 then Inl OrgID_required
      else if sessionID = [] then Inl SessionID_required
      else if lane = [] then Inl Lane_required
      else Inr (''org.'' @ show_nat orgID @ ''.session.'' @ sessionID @ ''.'' @ lane))"

definition WorkerCommandWildcard :: string where
  "WorkerCommandWildcard = ''org.*.worker.*.cmd.>''"

definition RunEventWildcard :: string where
  "RunEventWildcard = ''org.*.session.*.run.>''"

definition RunEventStateWildcard :: string where
  "RunEventStateWildcard = ''org.*.session.*.run.state''"

definition RunEventStreamWildcard :: string where
  "RunEventStreamWildcard = ''org.*.session.*.run.stream''"

section \<open>Streams\<close>

definition StreamNameWorker :: string where "StreamNameWorker = ''WORKER_CMD_STREAM''"
definition StreamNameSession :: string where "StreamNameSession = ''SESSION_RUN_STREAM''"

text \<open>The stream configurations; an age is in hours.\<close>

record stream_config =
  sc_name :: string
  sc_subjects :: "string list"
  sc_max_age_hours :: nat
  sc_max_msgs_per_subject :: nat

definition StreamConfigs :: "string \<rightharpoonup> stream_config" where
  "StreamConfigs =
     [StreamNameWorker \<mapsto> \<lparr>sc_name = StreamNameWorker, sc_subjects = [WorkerCommandWildcard],
        sc_max_age_hours = 72, sc_max_msgs_per_subject = 200\<rparr>,
      StreamNameSession \<mapsto> \<lparr>sc_name = StreamNameSession, sc_subjects = [RunEventWildcard],
        sc_max_age_hours = 24, sc_max_msgs_per_subject = 10000\<rparr>]"

text \<open>
  The loop of \<open>splitSubject\<close>: \<open>cur\<close> is \<open>subject[start:i]\<close>; what is left after the last dot is
  a part only when it is not empty.
\<close>

fun split_loop :: "string \<Rightarrow> string \<Rightarrow> string list" where
  "split_loop cur [] = (if cur = [] then [] else [cur])"
| "split_loop cur (c # cs) = (if c = CHR ''.'' then cur # split_loop [] cs else split_loop (cur @ [c]) cs)"

definition splitSubject :: "string \<Rightarrow> string list" where
  "splitSubject subject = split_loop [] subject"

definition StreamNameFromSubject :: "string \<Rightarrow> string" where
  "StreamNameFromSubject subject =
     (let parts = splitSubject subject in
      if length parts < 4 then []
      else if parts ! 2 = ''worker'' then StreamNameWorker
      else if parts ! 2 = ''session'' then StreamNameSession
      else [])"

section \<open>Lemmas\<close>

lemma split_loop_token:
  "CHR ''.'' \<notin> set t \<Longrightarrow> split_loop cur (t @ CHR ''.'' # s) = (cur @ t) # split_loop [] s"
  by (induction t arbitrary: cur) auto

lemma split_loop_nonempty: "cur \<noteq> [] \<or> s \<noteq> [] \<Longrightarrow> split_loop cur s \<noteq> []"
  by (induction s arbitrary: cur) auto

lemma splitSubject_three:
  assumes "CHR ''.'' \<notin> set a" "CHR ''.'' \<notin> set b" "CHR ''.'' \<notin> set k" "rest \<noteq> []"
  shows "\<exists>p ps. splitSubject (a @ CHR ''.'' # b @ CHR ''.'' # k @ CHR ''.'' # rest) = a # b # k # p # ps"
proof -
  obtain p ps where "split_loop [] rest = p # ps"
    using split_loop_nonempty [of "[]" rest] assms(4) by (cases "split_loop [] rest") auto
  then show ?thesis using assms by (simp add: splitSubject_def split_loop_token)
qed

text \<open>A subject cut at its dots and joined again is the subject, but for one dot at its end.\<close>

lemma join_split_loop:
  "join ''.'' (split_loop cur s) = (if s \<noteq> [] \<and> last s = CHR ''.'' then cur @ butlast s else cur @ s)"
proof (induction s arbitrary: cur)
  case (Cons c s)
  show ?case
  proof (cases "c = CHR ''.''")
    case True
    show ?thesis
    proof (cases "s = []")
      case False
      then have "split_loop [] s \<noteq> []" by (simp add: split_loop_nonempty)
      with True False Cons.IH [of "[]"] show ?thesis by (simp add: join_Cons)
    qed (simp add: True)
  next
    case False
    then show ?thesis using Cons.IH [of "cur @ [c]"] by simp
  qed
qed simp

lemma dot_prefix_eq:
  assumes "CHR ''.'' \<notin> set a" "CHR ''.'' \<notin> set b"
    and "a @ CHR ''.'' # s = b @ CHR ''.'' # t"
  shows "a = b \<and> s = t"
  using assms
proof (induction a arbitrary: b)
  case Nil
  then show ?case by (cases b) auto
next
  case (Cons c a)
  then show ?case by (cases b) auto
qed

lemma org_subject_split:
  assumes "CHR ''.'' \<notin> set k" "rest \<noteq> []"
  shows "\<exists>p ps. splitSubject (''org.'' @ show_nat orgID @ CHR ''.'' # k @ CHR ''.'' # rest) =
      ''org'' # show_nat orgID # k # p # ps"
  using splitSubject_three [of "''org''" "show_nat orgID" k rest] assms by simp

lemma WorkerCommandSubject_stream:
  "WorkerCommandSubject orgID workerID lane = Inr s \<Longrightarrow> StreamNameFromSubject s = StreamNameWorker"
  using org_subject_split [of "''worker''" "show_nat workerID @ ''.'' @ lane" orgID]
  by (auto simp: WorkerCommandSubject_def StreamNameFromSubject_def Let_def split: if_splits)

lemma RunEventSubject_stream:
  "RunEventSubject orgID sessionID lane = Inr s \<Longrightarrow> StreamNameFromSubject s = StreamNameSession"
  using org_subject_split [of "''session''" "sessionID @ ''.'' @ lane" orgID]
  by (auto simp: RunEventSubject_def StreamNameFromSubject_def Let_def split: if_splits)

text \<open>
  a subject that \<open>WorkerCommandSubject\<close> or \<open>RunEventSubject\<close> builds is assigned by
  \<open>StreamNameFromSubject\<close> to the worker stream or the session stream, whatever the identifiers
  and the lane contain, and that stream is configured with the wildcard of its kind.
\<close>

theorem subject_stream:
  "(WorkerCommandSubject orgID workerID lane = Inr s \<longrightarrow>
      StreamNameFromSubject s = StreamNameWorker \<and>
      map_option sc_subjects (StreamConfigs (StreamNameFromSubject s)) = Some [WorkerCommandWildcard]) \<and>
   (RunEventSubject orgID sessionID lane = Inr s \<longrightarrow>
      StreamNameFromSubject s = StreamNameSession \<and>
      map_option sc_subjects (StreamConfigs (StreamNameFromSubject s)) = Some [RunEventWildcard])"
  by (auto simp: WorkerCommandSubject_stream RunEventSubject_stream StreamConfigs_def StreamNameWorker_def
      StreamNameSession_def)

theorem subject_stream_witness:
  "StreamNameFromSubject ''org.7.session.sess_1.run.state'' = StreamNameSession"
proof -
  have "RunEventSubject 7 ''sess_1'' RunEventLaneState = Inr ''org.7.session.sess_1.run.state''"
    by code_simp
  then show ?thesis using subject_stream [of 7 0 "RunEventLaneState" _ "''sess_1''"] by blast
qed

text \<open>
  run-event subjects isolate tenants, sessions and lanes. For session identifiers without a
  dot, two equal subjects were built for the same organisation, the same session and the same lane.
\<close>

theorem run_event_subject_injective:
  assumes "RunEventSubject o1 s1 l1 = Inr t" "RunEventSubject o2 s2 l2 = Inr t"
    and "CHR ''.'' \<notin> set s1" "CHR ''.'' \<notin> set s2"
  shows "o1 = o2 \<and> s1 = s2 \<and> l1 = l2"
proof -
  have "show_nat o1 @ CHR ''.'' # ''session.'' @ s1 @ CHR ''.'' # l1 =
        show_nat o2 @ CHR ''.'' # ''session.'' @ s2 @ CHR ''.'' # l2"
    using assms(1,2) by (auto simp: RunEventSubject_def split: if_splits)
  then have "o1 = o2" "s1 @ CHR ''.'' # l1 = s2 @ CHR ''.'' # l2"
    using dot_prefix_eq [of "show_nat o1" "show_nat o2"] by auto
  with dot_prefix_eq assms(3,4) show ?thesis by blast
qed

theorem run_event_subject_injective_witness:
  "RunEventSubject 7 ''a'' ''run.state'' \<noteq> RunEventSubject 7 ''b'' ''run.state''"
proof
  assume eq: "RunEventSubject 7 ''a'' ''run.state'' = RunEventSubject 7 ''b'' ''run.state''"
  obtain t where t: "RunEventSubject 7 ''a'' ''run.state'' = Inr t" by (simp add: RunEventSubject_def)
  from eq t have t': "RunEventSubject 7 ''b'' ''run.state'' = Inr t" by simp
  show False using run_event_subject_injective [OF t t'] by simp
qed

end
