(* ===== verification/Json.thy ===== *)
theory Json
  imports Prelude
begin

text \<open>
  The part of \<open>encoding/json\<close> the backend uses. Concrete syntax is not modelled: a
  \<open>json.RawMessage\<close> is empty, or bytes that are not JSON, or the tree of a JSON text. What
  \<open>Unmarshal\<close> does with a tree is modelled: keys match their field exactly or up to letter case, later
  occurrences of a key overwrite earlier ones, \<open>null\<close> leaves a scalar field as it is and clears a
  pointer, an object decoded into a pointer that already points somewhere adds to what is there, a value of
  the wrong type is an error, integers outside their width are an error. \<open>Marshal\<close> builds a tree, leaves out
  the empty fields marked \<open>omitempty\<close>, and fails on a raw message that is not JSON. A slice or
  map given twice in one object counts as given last.
\<close>

datatype json =
    JNull
  | JBool bool
  | JNum int
  | JFrac string
  | JStr string
  | JArr "json list"
  | JObj "(string \<times> json) list"

type_synonym obj = "(string \<times> json) list"

datatype raw = Raw_empty | Raw_bad string | Raw json

type_synonym 'a slice = "'a list option"

definition elems :: "'a slice \<Rightarrow> 'a list" where
  "elems s = (case s of None \<Rightarrow> [] | Some xs \<Rightarrow> xs)"

lemma elems_simps [simp]: "elems None = []" "elems (Some xs) = xs"
  by (simp_all add: elems_def)

section \<open>Looking up fields\<close>

text \<open>
  The folded form of a key: letters in lower case, and the two other runes whose simple
  folding is an ASCII letter (the Kelvin sign and the long s).
\<close>

function fold_key :: "string \<Rightarrow> string" where
  "fold_key [] = []"
| "fold_key (c # cs) =
     (if c = CHR 0xC5 \<and> take 1 cs = [CHR 0xBF] then CHR ''s'' # fold_key (drop 1 cs)
      else if c = CHR 0xE2 \<and> take 2 cs = [CHR 0x84, CHR 0xAA] then CHR ''k'' # fold_key (drop 2 cs)
      else ascii_lower c # fold_key cs)"
  by pat_completeness auto
termination
  by (relation "measure length") auto

definition vals_of :: "string \<Rightarrow> obj \<Rightarrow> json list" where
  "vals_of k kvs = map snd (filter (\<lambda>(k', v). fold_key k' = k) kvs)"

fun last_str :: "string \<Rightarrow> json list \<Rightarrow> string option" where
  "last_str acc [] = Some acc"
| "last_str acc (JNull # vs) = last_str acc vs"
| "last_str acc (JStr s # vs) = last_str s vs"
| "last_str acc (_ # vs) = None"

fun last_int :: "int \<Rightarrow> json list \<Rightarrow> int option" where
  "last_int acc [] = Some acc"
| "last_int acc (JNull # vs) = last_int acc vs"
| "last_int acc (JNum n # vs) = (if int64_range n then last_int n vs else None)"
| "last_int acc (_ # vs) = None"

fun last_uint :: "nat \<Rightarrow> json list \<Rightarrow> nat option" where
  "last_uint acc [] = Some acc"
| "last_uint acc (JNull # vs) = last_uint acc vs"
| "last_uint acc (JNum n # vs) = (if 0 \<le> n \<and> n < 2 ^ 64 then last_uint (nat n) vs else None)"
| "last_uint acc (_ # vs) = None"

fun last_bool :: "bool \<Rightarrow> json list \<Rightarrow> bool option" where
  "last_bool acc [] = Some acc"
| "last_bool acc (JNull # vs) = last_bool acc vs"
| "last_bool acc (JBool b # vs) = last_bool b vs"
| "last_bool acc (_ # vs) = None"

fun last_obj :: "obj option \<Rightarrow> json list \<Rightarrow> obj option option" where
  "last_obj acc [] = Some acc"
| "last_obj acc (JNull # vs) = last_obj None vs"
| "last_obj acc (JObj o' # vs) = last_obj (Some ((case acc of None \<Rightarrow> [] | Some o'' \<Rightarrow> o'') @ o')) vs"
| "last_obj acc (_ # vs) = None"

fun last_arr :: "json list option \<Rightarrow> json list \<Rightarrow> json list option option" where
  "last_arr acc [] = Some acc"
| "last_arr acc (JNull # vs) = last_arr None vs"
| "last_arr acc (JArr xs # vs) = last_arr (Some xs) vs"
| "last_arr acc (_ # vs) = None"

fun last_sub :: "obj \<Rightarrow> json list \<Rightarrow> obj option" where
  "last_sub acc [] = Some acc"
| "last_sub acc (JNull # vs) = last_sub acc vs"
| "last_sub acc (JObj o' # vs) = last_sub (acc @ o') vs"
| "last_sub acc (_ # vs) = None"

section \<open>Times\<close>

text \<open>
  A \<open>time.Time\<close> is what the code reads of it: the instant, in nanoseconds since 1970, and its RFC 3339
  text. In JSON a time is its text, and \<open>Unmarshal\<close> accepts a text only in this strict form: a
  date that exists, a time of day, an optional fraction after a period, \<open>Z\<close> or an offset.
\<close>

record go_time =
  tm_ns :: int
  tm_text :: string

definition zero_time_text :: string where
  "zero_time_text = ''0001-01-01T00:00:00Z''"

definition is_zero :: "go_time \<Rightarrow> bool" where
  "is_zero t \<longleftrightarrow> tm_ns t = - 62135596800 * 1000000000"

definition unix_milli :: "go_time \<Rightarrow> int" where
  "unix_milli t = tm_ns t div 1000000"

definition num_at :: "nat \<Rightarrow> nat \<Rightarrow> string \<Rightarrow> nat option" where
  "num_at i n s =
     (let t = take n (drop i s) in if length t = n \<and> list_all is_digit t then Some (nat_of_digits t) else None)"

definition in_range :: "nat option \<Rightarrow> nat \<Rightarrow> nat \<Rightarrow> bool" where
  "in_range v lo hi = (case v of None \<Rightarrow> False | Some n \<Rightarrow> lo \<le> n \<and> n \<le> hi)"

definition days_in :: "nat \<Rightarrow> nat \<Rightarrow> nat" where
  "days_in y m =
     (if m \<in> set [4, 6, 9, 11] then 30
      else if m = 2 then (if y mod 4 = 0 \<and> (y mod 100 \<noteq> 0 \<or> y mod 400 = 0) then 29 else 28)
      else 31)"

definition zone_ok :: "string \<Rightarrow> bool" where
  "zone_ok z \<longleftrightarrow>
     z = ''Z'' \<or>
     length z = 6 \<and> take 1 z \<in> set [''+'', ''-''] \<and> in_range (num_at 1 2 z) 0 23 \<and>
     take 1 (drop 3 z) = '':'' \<and> in_range (num_at 4 2 z) 0 59"

definition rfc3339_ok :: "string \<Rightarrow> bool" where
  "rfc3339_ok s \<longleftrightarrow>
     (case (num_at 0 4 s, num_at 5 2 s) of
        (Some y, Some m) \<Rightarrow> 1 \<le> m \<and> m \<le> 12 \<and> in_range (num_at 8 2 s) 1 (days_in y m)
      | _ \<Rightarrow> False) \<and>
     take 1 (drop 4 s) = ''-'' \<and> take 1 (drop 7 s) = ''-'' \<and> take 1 (drop 10 s) = ''T'' \<and>
     in_range (num_at 11 2 s) 0 23 \<and> take 1 (drop 13 s) = '':'' \<and> in_range (num_at 14 2 s) 0 59 \<and>
     take 1 (drop 16 s) = '':'' \<and> in_range (num_at 17 2 s) 0 59 \<and>
     (let r = drop 19 s in
      if take 1 r = ''.'' then takeWhile is_digit (tl r) \<noteq> [] \<and> zone_ok (dropWhile is_digit (tl r))
      else zone_ok r)"

fun last_time :: "string \<Rightarrow> json list \<Rightarrow> string option" where
  "last_time acc [] = Some acc"
| "last_time acc (JNull # vs) = last_time acc vs"
| "last_time acc (JStr s # vs) = (if rfc3339_ok s then last_time s vs else None)"
| "last_time acc (_ # vs) = None"

section \<open>Readers of fields\<close>

definition get_time :: "string \<Rightarrow> obj \<Rightarrow> string option" where
  "get_time k kvs = last_time zero_time_text (vals_of k kvs)"

definition get_str :: "string \<Rightarrow> obj \<Rightarrow> string option" where
  "get_str k kvs = last_str [] (vals_of k kvs)"

definition get_int :: "string \<Rightarrow> obj \<Rightarrow> int option" where
  "get_int k kvs = last_int 0 (vals_of k kvs)"

definition get_uint :: "string \<Rightarrow> obj \<Rightarrow> nat option" where
  "get_uint k kvs = last_uint 0 (vals_of k kvs)"

definition get_bool :: "string \<Rightarrow> obj \<Rightarrow> bool option" where
  "get_bool k kvs = last_bool False (vals_of k kvs)"

definition get_raw :: "string \<Rightarrow> obj \<Rightarrow> raw option" where
  "get_raw k kvs = (case vals_of k kvs of [] \<Rightarrow> Some Raw_empty | vs \<Rightarrow> Some (Raw (last vs)))"

text \<open>A field that is a pointer to a struct, and one that is a slice.\<close>

definition get_ptr :: "(obj \<Rightarrow> 'a option) \<Rightarrow> string \<Rightarrow> obj \<Rightarrow> 'a option option" where
  "get_ptr dec k kvs =
     (case last_obj None (vals_of k kvs) of
        None \<Rightarrow> None
      | Some None \<Rightarrow> Some None
      | Some (Some o') \<Rightarrow> map_option Some (dec o'))"

text \<open>A field that is itself a struct.\<close>

definition get_sub :: "(obj \<Rightarrow> 'a option) \<Rightarrow> string \<Rightarrow> obj \<Rightarrow> 'a option" where
  "get_sub dec k kvs = Option.bind (last_sub [] (vals_of k kvs)) dec"

fun dec_all :: "(json \<Rightarrow> 'a option) \<Rightarrow> json list \<Rightarrow> 'a list option" where
  "dec_all dec [] = Some []"
| "dec_all dec (v # vs) =
     (case dec v of
        None \<Rightarrow> None
      | Some x \<Rightarrow> map_option (\<lambda>xs. x # xs) (dec_all dec vs))"

definition get_slice :: "(json \<Rightarrow> 'a option) \<Rightarrow> string \<Rightarrow> obj \<Rightarrow> 'a slice option" where
  "get_slice dec k kvs =
     (case last_arr None (vals_of k kvs) of
        None \<Rightarrow> None
      | Some None \<Rightarrow> Some None
      | Some (Some vs) \<Rightarrow> map_option Some (dec_all dec vs))"

text \<open>A whole value decoded into a struct, a slice, or a string element of a slice or map.\<close>

definition dec_struct :: "(obj \<Rightarrow> 'a option) \<Rightarrow> json \<Rightarrow> 'a option" where
  "dec_struct dec j = (case j of JObj kvs \<Rightarrow> dec kvs | JNull \<Rightarrow> dec [] | _ \<Rightarrow> None)"

definition dec_slice :: "(json \<Rightarrow> 'a option) \<Rightarrow> json \<Rightarrow> 'a slice option" where
  "dec_slice dec j =
     (case j of JArr vs \<Rightarrow> map_option Some (dec_all dec vs) | JNull \<Rightarrow> Some None | _ \<Rightarrow> None)"

definition dec_str :: "json \<Rightarrow> string option" where
  "dec_str j = (case j of JStr s \<Rightarrow> Some s | JNull \<Rightarrow> Some [] | _ \<Rightarrow> None)"

text \<open>\<open>map[string]string\<close>, as an association list without duplicate keys.\<close>

fun dec_strmap :: "(string \<times> string) list \<Rightarrow> obj \<Rightarrow> (string \<times> string) list option" where
  "dec_strmap acc [] = Some acc"
| "dec_strmap acc ((k, v) # kvs) =
     (case dec_str v of
        None \<Rightarrow> None
      | Some s \<Rightarrow> dec_strmap (if k \<in> fst ` set acc then map (\<lambda>(k', s'). (k', if k' = k then s else s')) acc
                              else acc @ [(k, s)]) kvs)"

definition get_strmap :: "string \<Rightarrow> obj \<Rightarrow> (string \<times> string) list option" where
  "get_strmap k kvs =
     (case last_obj None (vals_of k kvs) of
        None \<Rightarrow> None
      | Some None \<Rightarrow> Some []
      | Some (Some o') \<Rightarrow> dec_strmap [] o')"

section \<open>Building objects\<close>

text \<open>
  The values a field contributes: one, or none for an empty field marked \<open>omitempty\<close>.
\<close>

definition str_ne :: "string \<Rightarrow> json list" where
  "str_ne s = (if s = [] then [] else [JStr s])"

definition int_ne :: "int \<Rightarrow> json list" where
  "int_ne n = (if n = 0 then [] else [JNum n])"

definition bool_ne :: "bool \<Rightarrow> json list" where
  "bool_ne b = (if b then [JBool True] else [])"

definition strmap_ne :: "(string \<times> string) list \<Rightarrow> json list" where
  "strmap_ne m = (if m = [] then [] else [JObj (map (\<lambda>(k, s). (k, JStr s)) m)])"

definition raw_ne :: "raw \<Rightarrow> json list" where
  "raw_ne r = (case r of Raw j \<Rightarrow> [j] | _ \<Rightarrow> [])"

definition ptr_ne :: "('a \<Rightarrow> json) \<Rightarrow> 'a option \<Rightarrow> json list" where
  "ptr_ne enc p = (case p of None \<Rightarrow> [] | Some x \<Rightarrow> [enc x])"

definition list_ne :: "('a \<Rightarrow> json) \<Rightarrow> 'a list \<Rightarrow> json list" where
  "list_ne enc xs = (if xs = [] then [] else [JArr (map enc xs)])"

definition slice_json :: "('a \<Rightarrow> json) \<Rightarrow> 'a slice \<Rightarrow> json" where
  "slice_json enc s = (case s of None \<Rightarrow> JNull | Some xs \<Rightarrow> JArr (map enc xs))"

definition put :: "string \<Rightarrow> json list \<Rightarrow> obj" where
  "put k vs = map (Pair k) vs"

text \<open>A raw message that is not JSON makes \<open>Marshal\<close> fail.\<close>

definition raw_ok :: "raw \<Rightarrow> bool" where
  "raw_ok r \<longleftrightarrow> (case r of Raw_bad _ \<Rightarrow> False | _ \<Rightarrow> True)"

lemma raw_ok_simps [simp]: "raw_ok Raw_empty" "\<not> raw_ok (Raw_bad s)" "raw_ok (Raw j)"
  by (simp_all add: raw_ok_def)

definition unmarshal :: "(json \<Rightarrow> 'a option) \<Rightarrow> raw \<Rightarrow> 'a option" where
  "unmarshal dec r = (case r of Raw j \<Rightarrow> dec j | _ \<Rightarrow> None)"

lemma unmarshal_simps [simp]:
  "unmarshal dec Raw_empty = None" "unmarshal dec (Raw_bad s) = None" "unmarshal dec (Raw j) = dec j"
  by (simp_all add: unmarshal_def)

section \<open>Reading back what was built\<close>

declare fold_key.simps [simp del]

lemma vals_of_Nil [simp]: "vals_of k [] = []"
  by (simp add: vals_of_def)

lemma vals_of_append [simp]: "vals_of k (xs @ ys) = vals_of k xs @ vals_of k ys"
  by (simp add: vals_of_def)

lemma vals_of_put [simp]: "vals_of k (put k' vs) = (if fold_key k' = k then vs else [])"
  by (induction vs) (auto simp: vals_of_def put_def)

lemma last_put [simp]:
  "last_str acc [JStr s] = Some s" "last_str [] (str_ne s) = Some s"
  "last_bool b0 [JBool b] = Some b" "last_bool False (bool_ne b) = Some b"
  "int64_range n \<Longrightarrow> last_int n0 [JNum n] = Some n" "int64_range n \<Longrightarrow> last_int 0 (int_ne n) = Some n"
  "last_sub [] [JObj o'] = Some o'"
  "rfc3339_ok s \<Longrightarrow> last_time acc [JStr s] = Some s"
  by (simp_all add: str_ne_def bool_ne_def int_ne_def int64_range_def)

lemma last_uint_put [simp]: "n < 2 ^ 64 \<Longrightarrow> last_uint acc [JNum (int n)] = Some n"
  by (simp add: of_nat_less_iff [where 'a = int, of n "2 ^ 64", symmetric] del: of_nat_less_iff)

definition read_raw :: "json list \<Rightarrow> raw" where
  "read_raw vs = (case vs of [] \<Rightarrow> Raw_empty | vs \<Rightarrow> Raw (last vs))"

lemma get_raw_read: "get_raw k kvs = Some (read_raw (vals_of k kvs))"
  by (simp add: get_raw_def read_raw_def split: list.splits)

lemma read_raw_ne [simp]: "raw_ok r \<Longrightarrow> read_raw (raw_ne r) = r"
  by (cases r) (simp_all add: read_raw_def raw_ne_def)

text \<open>The readers of composite fields, as functions of the values found for their key.\<close>

definition read_ptr :: "(obj \<Rightarrow> 'a option) \<Rightarrow> json list \<Rightarrow> 'a option option" where
  "read_ptr dec vs =
     (case last_obj None vs of None \<Rightarrow> None | Some None \<Rightarrow> Some None | Some (Some o') \<Rightarrow> map_option Some (dec o'))"

definition read_slice :: "(json \<Rightarrow> 'a option) \<Rightarrow> json list \<Rightarrow> 'a slice option" where
  "read_slice dec vs =
     (case last_arr None vs of None \<Rightarrow> None | Some None \<Rightarrow> Some None | Some (Some xs) \<Rightarrow> map_option Some (dec_all dec xs))"

definition read_strmap :: "json list \<Rightarrow> (string \<times> string) list option" where
  "read_strmap vs =
     (case last_obj None vs of None \<Rightarrow> None | Some None \<Rightarrow> Some [] | Some (Some o') \<Rightarrow> dec_strmap [] o')"

lemma get_ptr_read: "get_ptr dec k kvs = read_ptr dec (vals_of k kvs)"
  by (simp add: get_ptr_def read_ptr_def)

lemma get_slice_read: "get_slice dec k kvs = read_slice dec (vals_of k kvs)"
  by (simp add: get_slice_def read_slice_def)

lemma get_strmap_read: "get_strmap k kvs = read_strmap (vals_of k kvs)"
  by (simp add: get_strmap_def read_strmap_def)

lemmas get_defs =
  get_time_def get_str_def get_int_def get_uint_def get_bool_def get_sub_def get_raw_read get_ptr_read get_slice_read
  get_strmap_read

lemma read_empty [simp]:
  "read_raw [] = Raw_empty" "read_ptr dec [] = Some None" "read_slice dec' [] = Some None" "read_strmap [] = Some []"
  by (simp_all add: read_raw_def read_ptr_def read_slice_def read_strmap_def)

lemma read_ptr_ne [simp]:
  "read_ptr dec (ptr_ne (\<lambda>x. JObj (enc x)) p) =
     (case p of None \<Rightarrow> Some None | Some x \<Rightarrow> map_option Some (dec (enc x)))"
  by (simp add: read_ptr_def ptr_ne_def split: option.splits)

lemma dec_all_map: "(\<And>x. x \<in> set xs \<Longrightarrow> dec (enc x) = Some x) \<Longrightarrow> dec_all dec (map enc xs) = Some xs"
  by (induction xs) auto

lemma read_list_ne:
  assumes "\<And>x. x \<in> set xs \<Longrightarrow> dec (enc x) = Some x"
  shows "read_slice dec (list_ne enc xs) = Some (if xs = [] then None else Some xs)"
  using assms by (simp add: read_slice_def list_ne_def dec_all_map)

lemma read_slice_json:
  assumes "\<And>x. x \<in> set (elems s) \<Longrightarrow> dec (enc x) = Some x"
  shows "read_slice dec [slice_json enc s] = Some s"
  using assms by (cases s) (simp_all add: read_slice_def slice_json_def dec_all_map)

lemma dec_slice_json:
  assumes "\<And>x. x \<in> set (elems s) \<Longrightarrow> dec (enc x) = Some x"
  shows "dec_slice dec (slice_json enc s) = Some s"
  using assms by (cases s) (simp_all add: dec_slice_def slice_json_def dec_all_map)

lemma dec_str_JStr [simp]: "dec_str (JStr s) = Some s"
  by (simp add: dec_str_def)

lemma dec_struct_JObj [simp]: "dec_struct dec (JObj kvs) = dec kvs"
  by (simp add: dec_struct_def)

lemma dec_strmap_map:
  assumes "distinct (map fst (acc @ m))"
  shows "dec_strmap acc (map (\<lambda>(k, s). (k, JStr s)) m) = Some (acc @ m)"
  using assms
proof (induction m arbitrary: acc)
  case (Cons p m)
  obtain k s where p: "p = (k, s)" by (cases p)
  with Cons.prems have "k \<notin> fst ` set acc" "distinct (map fst ((acc @ [(k, s)]) @ m))" by auto
  with Cons.IH [of "acc @ [(k, s)]"] show ?case by (simp add: p dec_str_def)
qed simp

lemma read_strmap_ne [simp]: "distinct (map fst m) \<Longrightarrow> read_strmap (strmap_ne m) = Some m"
  using dec_strmap_map [of "[]" m] by (simp add: read_strmap_def strmap_ne_def)

lemma elems_if [simp]: "elems (if xs = [] then None else Some xs) = xs"
  by simp

text \<open>
  What a payload type promises to the code that sends it: what was marshalled is read back.
\<close>

locale codec =
  fixes wf :: "'a \<Rightarrow> bool"
    and enc :: "'a \<Rightarrow> json option"
    and dec :: "json \<Rightarrow> 'a option"
  assumes enc_wf: "wf x \<Longrightarrow> \<exists>j. enc x = Some j"
    and dec_enc: "wf x \<Longrightarrow> enc x = Some j \<Longrightarrow> dec j = Some x"
begin

text \<open>\<open>raw, _ := json.Marshal(x)\<close> and then \<open>json.Unmarshal(raw, &y)\<close>.\<close>

lemma unmarshal_marshal:
  assumes "wf x"
  shows "unmarshal dec (case enc x of None \<Rightarrow> Raw_empty | Some j \<Rightarrow> Raw j) = Some x"
  using enc_wf [OF assms] dec_enc [OF assms] by auto

lemma enc_inj: "wf x \<Longrightarrow> wf y \<Longrightarrow> enc x = enc y \<Longrightarrow> x = y"
  using enc_wf dec_enc by (metis option.inject)

end

end
