(* ===== verification/Commands.thy ===== *)
theory Commands
  imports Subjects Json "HOL-Library.Monad_Syntax"
begin

text \<open>
  The message envelope and the commands the server sends to a worker
  (\<open>backend/pkg/messaging/envelope.go\<close> and \<open>command.go\<close>): one record per Go struct with what
  \<open>json.Marshal\<close> writes (\<open>enc_\<dots>\<close>) and \<open>json.Unmarshal\<close> reads (\<open>dec_\<dots>\<close>), the builders of
  the five commands and \<open>DecodeCommandPayload\<close>. The lemmas show that a payload read back by the worker
  is the payload the server put in. Go's \<open>uint\<close> is a \<^typ>\<open>nat\<close> below \<open>2 ^ 64\<close>.
\<close>

section \<open>Envelope\<close>

definition MessageTypeWorkerCommand :: string where
  [msg_defs]: "MessageTypeWorkerCommand = ''worker.command''"

definition MessageTypeRunEvent :: string where
  [msg_defs]: "MessageTypeRunEvent = ''run.event''"

record trace_context =
  tx_trace_id :: string
  tx_request_id :: string
  tx_task_id :: string
  tx_run_id :: string
  tx_parent_id :: string

definition no_trace :: trace_context where
  "no_trace = \<lparr>tx_trace_id = [], tx_request_id = [], tx_task_id = [], tx_run_id = [], tx_parent_id = []\<rparr>"

record route_context =
  rt_org_id :: nat
  rt_session_id :: string
  rt_worker_id :: nat

record 'b envelope =
  env_id :: string
  env_type :: string
  env_created_at :: int
  env_trace :: trace_context
  env_route :: route_context
  env_body :: 'b
  env_metadata :: raw

record worker_command_body =
  wb_command_type :: string
  wb_payload :: raw
  wb_reply_to :: string

type_synonym worker_command = "worker_command_body envelope"

section \<open>Payloads\<close>

lemma fold_command_keys [simp]:
  "fold_key ''user_id'' = ''user_id''"
  "fold_key ''display_name'' = ''display_name''"
  "fold_key ''channel'' = ''channel''"
  "fold_key ''external_id'' = ''external_id''"
  "fold_key ''account_id'' = ''account_id''"
  "fold_key ''assistant_id'' = ''assistant_id''"
  "fold_key ''skills'' = ''skills''"
  "fold_key ''tools'' = ''tools''"
  "fold_key ''project_id'' = ''project_id''"
  "fold_key ''task_id'' = ''task_id''"
  "fold_key ''id'' = ''id''"
  "fold_key ''role'' = ''role''"
  "fold_key ''content'' = ''content''"
  "fold_key ''name'' = ''name''"
  "fold_key ''mime_type'' = ''mime_type''"
  "fold_key ''url'' = ''url''"
  "fold_key ''type'' = ''type''"
  "fold_key ''messages'' = ''messages''"
  "fold_key ''attachments'' = ''attachments''"
  "fold_key ''provider'' = ''provider''"
  "fold_key ''model'' = ''model''"
  "fold_key ''base_url'' = ''base_url''"
  "fold_key ''base_url_has_v1'' = ''base_url_has_v1''"
  "fold_key ''api_key'' = ''api_key''"
  "fold_key ''kind'' = ''kind''"
  "fold_key ''work_dir'' = ''work_dir''"
  "fold_key ''max_step'' = ''max_step''"
  "fold_key ''require_approval'' = ''require_approval''"
  "fold_key ''permission_mode'' = ''permission_mode''"
  "fold_key ''task_type'' = ''task_type''"
  "fold_key ''execution_mode'' = ''execution_mode''"
  "fold_key ''actor'' = ''actor''"
  "fold_key ''execution'' = ''execution''"
  "fold_key ''workspace'' = ''workspace''"
  "fold_key ''input'' = ''input''"
  "fold_key ''runtime'' = ''runtime''"
  "fold_key ''policy'' = ''policy''"
  "fold_key ''run_id'' = ''run_id''"
  "fold_key ''reason'' = ''reason''"
  "fold_key ''action'' = ''action''"
  "fold_key ''answers'' = ''answers''"
  "fold_key ''source'' = ''source''"
  "fold_key ''skill_id'' = ''skill_id''"
  "fold_key ''version'' = ''version''"
  "fold_key ''download_url'' = ''download_url''"
  "fold_key ''session_id'' = ''session_id''"
  "fold_key ''message_type'' = ''message_type''"
  "fold_key ''sequence'' = ''sequence''"
  by code_simp+

record actor_context =
  ac_user_id :: string
  ac_display_name :: string
  ac_channel :: string
  ac_external_id :: string
  ac_account_id :: string

definition enc_actor_context :: "actor_context \<Rightarrow> obj" where
  "enc_actor_context x =
     put ''user_id'' (str_ne (ac_user_id x)) @
     put ''display_name'' (str_ne (ac_display_name x)) @
     put ''channel'' (str_ne (ac_channel x)) @
     put ''external_id'' (str_ne (ac_external_id x)) @
     put ''account_id'' (str_ne (ac_account_id x))"

definition dec_actor_context :: "obj \<Rightarrow> actor_context option" where
  "dec_actor_context kvs = do {
     user_id' \<leftarrow> get_str ''user_id'' kvs;
     display_name' \<leftarrow> get_str ''display_name'' kvs;
     channel' \<leftarrow> get_str ''channel'' kvs;
     external_id' \<leftarrow> get_str ''external_id'' kvs;
     account_id' \<leftarrow> get_str ''account_id'' kvs;
     Some \<lparr>ac_user_id = user_id', ac_display_name = display_name', ac_channel = channel',
       ac_external_id = external_id', ac_account_id = account_id'\<rparr> }"

lemma dec_enc_actor_context [simp]: "dec_actor_context (enc_actor_context x) = Some x"
  by (cases x) (auto simp: enc_actor_context_def dec_actor_context_def get_defs split: option.splits)

record execution_target =
  et_assistant_id :: string
  et_skills :: "string list"
  et_tools :: "string list"

definition enc_execution_target :: "execution_target \<Rightarrow> obj" where
  "enc_execution_target x =
     put ''assistant_id'' (str_ne (et_assistant_id x)) @
     put ''skills'' (list_ne JStr (et_skills x)) @
     put ''tools'' (list_ne JStr (et_tools x))"

definition dec_execution_target :: "obj \<Rightarrow> execution_target option" where
  "dec_execution_target kvs = do {
     assistant_id' \<leftarrow> get_str ''assistant_id'' kvs;
     skills' \<leftarrow> map_option elems (get_slice dec_str ''skills'' kvs);
     tools' \<leftarrow> map_option elems (get_slice dec_str ''tools'' kvs);
     Some \<lparr>et_assistant_id = assistant_id', et_skills = skills', et_tools = tools'\<rparr> }"

lemma dec_enc_execution_target [simp]: "dec_execution_target (enc_execution_target x) = Some x"
  by (cases x) (auto simp: enc_execution_target_def dec_execution_target_def get_defs read_list_ne
       split: option.splits)

record workspace_options =
  wo_project_id :: string
  wo_task_id :: string

definition enc_workspace_options :: "workspace_options \<Rightarrow> obj" where
  "enc_workspace_options x =
     put ''project_id'' (str_ne (wo_project_id x)) @
     put ''task_id'' (str_ne (wo_task_id x))"

definition dec_workspace_options :: "obj \<Rightarrow> workspace_options option" where
  "dec_workspace_options kvs = do {
     project_id' \<leftarrow> get_str ''project_id'' kvs;
     task_id' \<leftarrow> get_str ''task_id'' kvs;
     Some \<lparr>wo_project_id = project_id', wo_task_id = task_id'\<rparr> }"

lemma dec_enc_workspace_options [simp]: "dec_workspace_options (enc_workspace_options x) = Some x"
  by (cases x) (auto simp: enc_workspace_options_def dec_workspace_options_def get_defs split:
       option.splits)

record chat_message =
  cm_id :: string
  cm_role :: string
  cm_content :: string

definition enc_chat_message :: "chat_message \<Rightarrow> obj" where
  "enc_chat_message x =
     put ''id'' (str_ne (cm_id x)) @
     put ''role'' [JStr (cm_role x)] @
     put ''content'' [JStr (cm_content x)]"

definition dec_chat_message :: "obj \<Rightarrow> chat_message option" where
  "dec_chat_message kvs = do {
     id' \<leftarrow> get_str ''id'' kvs;
     role' \<leftarrow> get_str ''role'' kvs;
     content' \<leftarrow> get_str ''content'' kvs;
     Some \<lparr>cm_id = id', cm_role = role', cm_content = content'\<rparr> }"

lemma dec_enc_chat_message [simp]: "dec_chat_message (enc_chat_message x) = Some x"
  by (cases x) (auto simp: enc_chat_message_def dec_chat_message_def get_defs split: option.splits)

record attachment =
  at_id :: string
  at_name :: string
  at_mime_type :: string
  at_url :: string

definition enc_attachment :: "attachment \<Rightarrow> obj" where
  "enc_attachment x =
     put ''id'' (str_ne (at_id x)) @
     put ''name'' (str_ne (at_name x)) @
     put ''mime_type'' (str_ne (at_mime_type x)) @
     put ''url'' (str_ne (at_url x))"

definition dec_attachment :: "obj \<Rightarrow> attachment option" where
  "dec_attachment kvs = do {
     id' \<leftarrow> get_str ''id'' kvs;
     name' \<leftarrow> get_str ''name'' kvs;
     mime_type' \<leftarrow> get_str ''mime_type'' kvs;
     url' \<leftarrow> get_str ''url'' kvs;
     Some \<lparr>at_id = id', at_name = name', at_mime_type = mime_type', at_url = url'\<rparr> }"

lemma dec_enc_attachment [simp]: "dec_attachment (enc_attachment x) = Some x"
  by (cases x) (auto simp: enc_attachment_def dec_attachment_def get_defs split: option.splits)

record task_input =
  ti_type :: string
  ti_messages :: "chat_message list"
  ti_attachments :: "attachment list"

definition enc_task_input :: "task_input \<Rightarrow> obj" where
  "enc_task_input x =
     put ''type'' [JStr (ti_type x)] @
     put ''messages'' (list_ne (\<lambda>y. JObj (enc_chat_message y)) (ti_messages x)) @
     put ''attachments'' (list_ne (\<lambda>y. JObj (enc_attachment y)) (ti_attachments x))"

definition dec_task_input :: "obj \<Rightarrow> task_input option" where
  "dec_task_input kvs = do {
     type' \<leftarrow> get_str ''type'' kvs;
     messages' \<leftarrow> map_option elems (get_slice (dec_struct dec_chat_message) ''messages'' kvs);
     attachments' \<leftarrow> map_option elems (get_slice (dec_struct dec_attachment) ''attachments'' kvs);
     Some \<lparr>ti_type = type', ti_messages = messages', ti_attachments = attachments'\<rparr> }"

lemma dec_enc_task_input [simp]: "dec_task_input (enc_task_input x) = Some x"
  by (cases x) (auto simp: enc_task_input_def dec_task_input_def get_defs read_list_ne
       dec_enc_chat_message dec_enc_attachment split: option.splits)

record model_options =
  mo_provider :: string
  mo_model :: string
  mo_base_url :: string
  mo_base_url_has_v1 :: bool
  mo_api_key :: string

definition enc_model_options :: "model_options \<Rightarrow> obj" where
  "enc_model_options x =
     put ''provider'' (str_ne (mo_provider x)) @
     put ''model'' (str_ne (mo_model x)) @
     put ''base_url'' (str_ne (mo_base_url x)) @
     put ''base_url_has_v1'' (bool_ne (mo_base_url_has_v1 x)) @
     put ''api_key'' (str_ne (mo_api_key x))"

definition dec_model_options :: "obj \<Rightarrow> model_options option" where
  "dec_model_options kvs = do {
     provider' \<leftarrow> get_str ''provider'' kvs;
     model' \<leftarrow> get_str ''model'' kvs;
     base_url' \<leftarrow> get_str ''base_url'' kvs;
     base_url_has_v1' \<leftarrow> get_bool ''base_url_has_v1'' kvs;
     api_key' \<leftarrow> get_str ''api_key'' kvs;
     Some \<lparr>mo_provider = provider', mo_model = model', mo_base_url = base_url',
       mo_base_url_has_v1 = base_url_has_v1', mo_api_key = api_key'\<rparr> }"

lemma dec_enc_model_options [simp]: "dec_model_options (enc_model_options x) = Some x"
  by (cases x) (auto simp: enc_model_options_def dec_model_options_def get_defs split: option.splits)

record runtime_options =
  ro_kind :: string
  ro_work_dir :: string
  ro_max_step :: int

definition enc_runtime_options :: "runtime_options \<Rightarrow> obj" where
  "enc_runtime_options x =
     put ''kind'' (str_ne (ro_kind x)) @
     put ''work_dir'' (str_ne (ro_work_dir x)) @
     put ''max_step'' (int_ne (ro_max_step x))"

definition dec_runtime_options :: "obj \<Rightarrow> runtime_options option" where
  "dec_runtime_options kvs = do {
     kind' \<leftarrow> get_str ''kind'' kvs;
     work_dir' \<leftarrow> get_str ''work_dir'' kvs;
     max_step' \<leftarrow> get_int ''max_step'' kvs;
     Some \<lparr>ro_kind = kind', ro_work_dir = work_dir', ro_max_step = max_step'\<rparr> }"

definition wf_runtime_options :: "runtime_options \<Rightarrow> bool" where
  "wf_runtime_options x \<longleftrightarrow>
     int64_range (ro_max_step x)"

lemma dec_enc_runtime_options [simp]: "wf_runtime_options x \<Longrightarrow> dec_runtime_options
       (enc_runtime_options x) = Some x"
  by (cases x) (auto simp: enc_runtime_options_def dec_runtime_options_def get_defs
       wf_runtime_options_def split: option.splits)

record task_policy =
  tp_require_approval :: bool
  tp_permission_mode :: string

definition enc_task_policy :: "task_policy \<Rightarrow> obj" where
  "enc_task_policy x =
     put ''require_approval'' (bool_ne (tp_require_approval x)) @
     put ''permission_mode'' (str_ne (tp_permission_mode x))"

definition dec_task_policy :: "obj \<Rightarrow> task_policy option" where
  "dec_task_policy kvs = do {
     require_approval' \<leftarrow> get_bool ''require_approval'' kvs;
     permission_mode' \<leftarrow> get_str ''permission_mode'' kvs;
     Some \<lparr>tp_require_approval = require_approval', tp_permission_mode = permission_mode'\<rparr> }"

lemma dec_enc_task_policy [simp]: "dec_task_policy (enc_task_policy x) = Some x"
  by (cases x) (auto simp: enc_task_policy_def dec_task_policy_def get_defs split: option.splits)

record run_command_payload =
  rc_task_type :: string
  rc_execution_mode :: string
  rc_actor :: actor_context
  rc_execution :: execution_target
  rc_workspace :: workspace_options
  rc_input :: task_input
  rc_model :: model_options
  rc_runtime :: runtime_options
  rc_policy :: task_policy

definition enc_run_command_payload :: "run_command_payload \<Rightarrow> obj" where
  "enc_run_command_payload x =
     put ''task_type'' [JStr (rc_task_type x)] @
     put ''execution_mode'' (str_ne (rc_execution_mode x)) @
     put ''actor'' [JObj (enc_actor_context (rc_actor x))] @
     put ''execution'' [JObj (enc_execution_target (rc_execution x))] @
     put ''workspace'' [JObj (enc_workspace_options (rc_workspace x))] @
     put ''input'' [JObj (enc_task_input (rc_input x))] @
     put ''model'' [JObj (enc_model_options (rc_model x))] @
     put ''runtime'' [JObj (enc_runtime_options (rc_runtime x))] @
     put ''policy'' [JObj (enc_task_policy (rc_policy x))]"

definition dec_run_command_payload :: "obj \<Rightarrow> run_command_payload option" where
  "dec_run_command_payload kvs = do {
     task_type' \<leftarrow> get_str ''task_type'' kvs;
     execution_mode' \<leftarrow> get_str ''execution_mode'' kvs;
     actor' \<leftarrow> get_sub dec_actor_context ''actor'' kvs;
     execution' \<leftarrow> get_sub dec_execution_target ''execution'' kvs;
     workspace' \<leftarrow> get_sub dec_workspace_options ''workspace'' kvs;
     input' \<leftarrow> get_sub dec_task_input ''input'' kvs;
     model' \<leftarrow> get_sub dec_model_options ''model'' kvs;
     runtime' \<leftarrow> get_sub dec_runtime_options ''runtime'' kvs;
     policy' \<leftarrow> get_sub dec_task_policy ''policy'' kvs;
     Some \<lparr>rc_task_type = task_type', rc_execution_mode = execution_mode', rc_actor = actor',
       rc_execution = execution', rc_workspace = workspace', rc_input = input', rc_model = model',
       rc_runtime = runtime', rc_policy = policy'\<rparr> }"

definition wf_run_command_payload :: "run_command_payload \<Rightarrow> bool" where
  "wf_run_command_payload x \<longleftrightarrow>
     wf_runtime_options (rc_runtime x)"

lemma dec_enc_run_command_payload [simp]: "wf_run_command_payload x \<Longrightarrow>
       dec_run_command_payload (enc_run_command_payload x) = Some x"
  by (cases x) (auto simp: enc_run_command_payload_def dec_run_command_payload_def get_defs
       wf_run_command_payload_def dec_enc_actor_context dec_enc_execution_target
       dec_enc_workspace_options dec_enc_task_input dec_enc_model_options dec_enc_runtime_options
       dec_enc_task_policy split: option.splits)

record cancel_run_payload =
  cr_run_id :: string
  cr_reason :: string

definition enc_cancel_run_payload :: "cancel_run_payload \<Rightarrow> obj" where
  "enc_cancel_run_payload x =
     put ''run_id'' [JStr (cr_run_id x)] @
     put ''reason'' (str_ne (cr_reason x))"

definition dec_cancel_run_payload :: "obj \<Rightarrow> cancel_run_payload option" where
  "dec_cancel_run_payload kvs = do {
     run_id' \<leftarrow> get_str ''run_id'' kvs;
     reason' \<leftarrow> get_str ''reason'' kvs;
     Some \<lparr>cr_run_id = run_id', cr_reason = reason'\<rparr> }"

lemma dec_enc_cancel_run_payload [simp]: "dec_cancel_run_payload (enc_cancel_run_payload x) = Some x"
  by (cases x) (auto simp: enc_cancel_run_payload_def dec_cancel_run_payload_def get_defs split:
       option.splits)

record approval_resolve_payload =
  ap_action :: string
  ap_reason :: string

definition enc_approval_resolve_payload :: "approval_resolve_payload \<Rightarrow> obj" where
  "enc_approval_resolve_payload x =
     put ''action'' [JStr (ap_action x)] @
     put ''reason'' (str_ne (ap_reason x))"

definition dec_approval_resolve_payload :: "obj \<Rightarrow> approval_resolve_payload option" where
  "dec_approval_resolve_payload kvs = do {
     action' \<leftarrow> get_str ''action'' kvs;
     reason' \<leftarrow> get_str ''reason'' kvs;
     Some \<lparr>ap_action = action', ap_reason = reason'\<rparr> }"

lemma dec_enc_approval_resolve_payload [simp]: "dec_approval_resolve_payload
       (enc_approval_resolve_payload x) = Some x"
  by (cases x) (auto simp: enc_approval_resolve_payload_def dec_approval_resolve_payload_def get_defs
       split: option.splits)

record question_answer_payload =
  qp_answers :: "string slice slice"

definition enc_question_answer_payload :: "question_answer_payload \<Rightarrow> obj" where
  "enc_question_answer_payload x =
     put ''answers'' [slice_json (slice_json JStr) (qp_answers x)]"

definition dec_question_answer_payload :: "obj \<Rightarrow> question_answer_payload option" where
  "dec_question_answer_payload kvs = do {
     answers' \<leftarrow> get_slice (dec_slice dec_str) ''answers'' kvs;
     Some \<lparr>qp_answers = answers'\<rparr> }"

lemma dec_enc_question_answer_payload [simp]: "dec_question_answer_payload (enc_question_answer_payload
       x) = Some x"
  by (cases x) (auto simp: enc_question_answer_payload_def dec_question_answer_payload_def get_defs
       read_slice_json dec_slice_json split: option.splits)

record skill_command_payload =
  sk_action :: string
  sk_source :: string
  sk_skill_id :: string
  sk_version :: string
  sk_name :: string
  sk_download_url :: string

definition enc_skill_command_payload :: "skill_command_payload \<Rightarrow> obj" where
  "enc_skill_command_payload x =
     put ''action'' [JStr (sk_action x)] @
     put ''source'' (str_ne (sk_source x)) @
     put ''skill_id'' (str_ne (sk_skill_id x)) @
     put ''version'' (str_ne (sk_version x)) @
     put ''name'' (str_ne (sk_name x)) @
     put ''download_url'' (str_ne (sk_download_url x))"

definition dec_skill_command_payload :: "obj \<Rightarrow> skill_command_payload option" where
  "dec_skill_command_payload kvs = do {
     action' \<leftarrow> get_str ''action'' kvs;
     source' \<leftarrow> get_str ''source'' kvs;
     skill_id' \<leftarrow> get_str ''skill_id'' kvs;
     version' \<leftarrow> get_str ''version'' kvs;
     name' \<leftarrow> get_str ''name'' kvs;
     download_url' \<leftarrow> get_str ''download_url'' kvs;
     Some \<lparr>sk_action = action', sk_source = source', sk_skill_id = skill_id', sk_version =
       version', sk_name = name', sk_download_url = download_url'\<rparr> }"

lemma dec_enc_skill_command_payload [simp]: "dec_skill_command_payload (enc_skill_command_payload x) =
       Some x"
  by (cases x) (auto simp: enc_skill_command_payload_def dec_skill_command_payload_def get_defs split:
       option.splits)

record run_command_metadata =
  rm_session_id :: string
  rm_message_type :: string
  rm_sequence :: int

definition enc_run_command_metadata :: "run_command_metadata \<Rightarrow> obj" where
  "enc_run_command_metadata x =
     put ''session_id'' (str_ne (rm_session_id x)) @
     put ''message_type'' (str_ne (rm_message_type x)) @
     put ''sequence'' (int_ne (rm_sequence x))"

section \<open>Builders and decoding\<close>

text \<open>\<open>raw, _ := json.Marshal(x)\<close>: the error is dropped and the message stays empty.\<close>

definition marshal_or_empty :: "json option \<Rightarrow> raw" where
  "marshal_or_empty m = (case m of None \<Rightarrow> Raw_empty | Some j \<Rightarrow> Raw j)"

lemma marshal_or_empty_simps [simp]:
  "marshal_or_empty None = Raw_empty" "marshal_or_empty (Some j) = Raw j"
  by (simp_all add: marshal_or_empty_def)

definition NewRunCommand ::
  "int \<Rightarrow> string \<Rightarrow> route_context \<Rightarrow> trace_context \<Rightarrow> run_command_payload \<Rightarrow>
   run_command_metadata option \<Rightarrow> worker_command" where
  "NewRunCommand now envID route trace payload metadata =
     \<lparr>env_id = envID, env_type = MessageTypeWorkerCommand, env_created_at = now,
      env_trace = trace, env_route = route,
      env_body = \<lparr>wb_command_type = CommandTypeRun,
        wb_payload = marshal_or_empty (Some (JObj (enc_run_command_payload payload))), wb_reply_to = []\<rparr>,
      env_metadata = (case metadata of None \<Rightarrow> Raw_empty
        | Some m \<Rightarrow> marshal_or_empty (Some (JObj (enc_run_command_metadata m))))\<rparr>"

definition NewCancelRunCommand ::
  "int \<Rightarrow> string \<Rightarrow> route_context \<Rightarrow> cancel_run_payload \<Rightarrow> string \<Rightarrow> worker_command" where
  "NewCancelRunCommand now envID route payload runID =
     \<lparr>env_id = envID, env_type = MessageTypeWorkerCommand, env_created_at = now,
      env_trace = no_trace\<lparr>tx_run_id := runID\<rparr>, env_route = route,
      env_body = \<lparr>wb_command_type = CommandTypeCancel,
        wb_payload = marshal_or_empty (Some (JObj (enc_cancel_run_payload payload))), wb_reply_to = []\<rparr>,
      env_metadata = Raw_empty\<rparr>"

definition NewApprovalResolveCommand ::
  "int \<Rightarrow> string \<Rightarrow> route_context \<Rightarrow> approval_resolve_payload \<Rightarrow> string \<Rightarrow> worker_command" where
  "NewApprovalResolveCommand now envID route payload requestID =
     \<lparr>env_id = envID, env_type = MessageTypeWorkerCommand, env_created_at = now,
      env_trace = no_trace\<lparr>tx_request_id := requestID\<rparr>, env_route = route,
      env_body = \<lparr>wb_command_type = CommandTypeApprovalResolve,
        wb_payload = marshal_or_empty (Some (JObj (enc_approval_resolve_payload payload))), wb_reply_to = []\<rparr>,
      env_metadata = Raw_empty\<rparr>"

definition NewQuestionAnswerCommand ::
  "int \<Rightarrow> string \<Rightarrow> route_context \<Rightarrow> question_answer_payload \<Rightarrow> string \<Rightarrow> worker_command" where
  "NewQuestionAnswerCommand now envID route payload requestID =
     \<lparr>env_id = envID, env_type = MessageTypeWorkerCommand, env_created_at = now,
      env_trace = no_trace\<lparr>tx_request_id := requestID\<rparr>, env_route = route,
      env_body = \<lparr>wb_command_type = CommandTypeQuestionAnswer,
        wb_payload = marshal_or_empty (Some (JObj (enc_question_answer_payload payload))), wb_reply_to = []\<rparr>,
      env_metadata = Raw_empty\<rparr>"

definition NewSkillCommand ::
  "int \<Rightarrow> string \<Rightarrow> route_context \<Rightarrow> skill_command_payload \<Rightarrow> string \<Rightarrow> worker_command" where
  "NewSkillCommand now envID route payload replyTo =
     \<lparr>env_id = envID, env_type = MessageTypeWorkerCommand, env_created_at = now,
      env_trace = no_trace, env_route = route,
      env_body = \<lparr>wb_command_type = CommandTypeSkill,
        wb_payload = marshal_or_empty (Some (JObj (enc_skill_command_payload payload))), wb_reply_to = replyTo\<rparr>,
      env_metadata = Raw_empty\<rparr>"

datatype payload_error = Payload_empty | Payload_malformed

definition DecodeCommandPayload ::
  "(json \<Rightarrow> 'a option) \<Rightarrow> worker_command_body option \<Rightarrow> payload_error + 'a" where
  "DecodeCommandPayload dec body =
     (case body of
        None \<Rightarrow> Inl Payload_empty
      | Some b \<Rightarrow>
          if wb_payload b = Raw_empty then Inl Payload_empty
          else (case unmarshal dec (wb_payload b) of None \<Rightarrow> Inl Payload_malformed | Some x \<Rightarrow> Inr x))"

context codec begin

lemma decode_built:
  assumes "wf x" "wb_payload b = marshal_or_empty (enc x)"
  shows "DecodeCommandPayload dec (Some b) = Inr x"
  using enc_wf [OF assms(1)] dec_enc [OF assms(1)] assms(2) by (auto simp: DecodeCommandPayload_def)

end

interpretation run_codec: codec wf_run_command_payload
  "\<lambda>x. Some (JObj (enc_run_command_payload x))" "dec_struct dec_run_command_payload"
  by unfold_locales auto

interpretation cancel_codec: codec "\<lambda>_. True"
  "\<lambda>x. Some (JObj (enc_cancel_run_payload x))" "dec_struct dec_cancel_run_payload"
  by unfold_locales auto

interpretation approval_codec: codec "\<lambda>_. True"
  "\<lambda>x. Some (JObj (enc_approval_resolve_payload x))" "dec_struct dec_approval_resolve_payload"
  by unfold_locales auto

interpretation question_codec: codec "\<lambda>_. True"
  "\<lambda>x. Some (JObj (enc_question_answer_payload x))" "dec_struct dec_question_answer_payload"
  by unfold_locales auto

interpretation skill_codec: codec "\<lambda>_. True"
  "\<lambda>x. Some (JObj (enc_skill_command_payload x))" "dec_struct dec_skill_command_payload"
  by unfold_locales auto

lemmas command_builders =
  NewRunCommand_def NewCancelRunCommand_def NewApprovalResolveCommand_def NewQuestionAnswerCommand_def
  NewSkillCommand_def

lemma command_lanes [simp]:
  "CommandLane CommandTypeRun = LaneRun" "CommandLane CommandTypeCancel = LaneControl"
  "CommandLane CommandTypeApprovalResolve = LaneInteraction"
  "CommandLane CommandTypeQuestionAnswer = LaneInteraction" "CommandLane CommandTypeSkill = LaneSkill"
  by (simp_all add: CommandLane_def msg_defs)

text \<open>
  an \<open>agent.run\<close> command carries its payload intact: the worker that decodes the body that
  \<open>NewRunCommand\<close> built gets the server's payload, field for field (the step limit being an
  \<open>int\<close>), and the command belongs on the run lane.
\<close>

theorem run_command_roundtrip:
  assumes "int64_range (ro_max_step (rc_runtime p))"
  shows "DecodeCommandPayload (dec_struct dec_run_command_payload)
           (Some (env_body (NewRunCommand now envID route trace p metadata))) = Inr p \<and>
         CommandLane (wb_command_type (env_body (NewRunCommand now envID route trace p metadata))) = LaneRun"
proof -
  have "wf_run_command_payload p" using assms by (simp add: wf_run_command_payload_def wf_runtime_options_def)
  then show ?thesis by (simp add: command_builders run_codec.decode_built)
qed

theorem run_command_roundtrip_witness:
  "\<exists>p. rc_task_type p = ''agent.run'' \<and>
     DecodeCommandPayload (dec_struct dec_run_command_payload)
       (Some (env_body (NewRunCommand 0 ''m1'' \<lparr>rt_org_id = 1, rt_session_id = ''s'', rt_worker_id = 2\<rparr> no_trace p None))) = Inr p"
proof -
  define p :: run_command_payload where
    "p = \<lparr>rc_task_type = ''agent.run'', rc_execution_mode = [],
       rc_actor = \<lparr>ac_user_id = ''u'', ac_display_name = [], ac_channel = [], ac_external_id = [], ac_account_id = []\<rparr>,
       rc_execution = \<lparr>et_assistant_id = [], et_skills = [''go''], et_tools = []\<rparr>,
       rc_workspace = \<lparr>wo_project_id = [], wo_task_id = []\<rparr>,
       rc_input = \<lparr>ti_type = ''message'', ti_messages = [\<lparr>cm_id = ''7'', cm_role = ''user'', cm_content = ''hi''\<rparr>],
         ti_attachments = []\<rparr>,
       rc_model = \<lparr>mo_provider = ''p'', mo_model = ''m'', mo_base_url = [], mo_base_url_has_v1 = False, mo_api_key = ''k''\<rparr>,
       rc_runtime = \<lparr>ro_kind = [], ro_work_dir = [], ro_max_step = 5\<rparr>,
       rc_policy = \<lparr>tp_require_approval = False, tp_permission_mode = []\<rparr>\<rparr>"
  have "int64_range (ro_max_step (rc_runtime p))" by (simp add: p_def int64_range_def)
  from run_command_roundtrip [OF this, of 0 "''m1''" "\<lparr>rt_org_id = 1, rt_session_id = ''s'', rt_worker_id = 2\<rparr>"
    no_trace None] show ?thesis by (intro exI [of _ p]) (simp add: p_def)
qed

text \<open>
  the four other commands (cancel, approval, question answer, skill) carry their payload
  intact for every payload, and each belongs on the lane of its kind.
\<close>

theorem other_commands_roundtrip:
  "DecodeCommandPayload (dec_struct dec_cancel_run_payload)
     (Some (env_body (NewCancelRunCommand now envID route c r))) = Inr c \<and>
   CommandLane (wb_command_type (env_body (NewCancelRunCommand now envID route c r))) = LaneControl \<and>
   DecodeCommandPayload (dec_struct dec_approval_resolve_payload)
     (Some (env_body (NewApprovalResolveCommand now envID route a r))) = Inr a \<and>
   CommandLane (wb_command_type (env_body (NewApprovalResolveCommand now envID route a r))) = LaneInteraction \<and>
   DecodeCommandPayload (dec_struct dec_question_answer_payload)
     (Some (env_body (NewQuestionAnswerCommand now envID route q r))) = Inr q \<and>
   CommandLane (wb_command_type (env_body (NewQuestionAnswerCommand now envID route q r))) = LaneInteraction \<and>
   DecodeCommandPayload (dec_struct dec_skill_command_payload)
     (Some (env_body (NewSkillCommand now envID route s r))) = Inr s \<and>
   CommandLane (wb_command_type (env_body (NewSkillCommand now envID route s r))) = LaneSkill"
  by (simp add: command_builders cancel_codec.decode_built approval_codec.decode_built
      question_codec.decode_built skill_codec.decode_built)

end
