(* ===== verification/Requests.thy ===== *)
theory Requests
  imports Commands
begin

text \<open>
  The run request the worker executes (\<open>backend/internal/assistant/domain/request.go\<close>) and its construction from
  a decoded command (\<open>backend/internal/worker/command/run/mapper.go\<close>). A Go slice is an option of a list,
  \<open>None\<close> for nil; \<open>append\<close> is \<open>slice_append\<close>. The event sink of a request is an opaque number, its
  temperature the 64 bits of the float.
\<close>

section \<open>The request\<close>

record d_assistant =
  da_ID :: string
  da_Name :: string
  da_Role :: string
  da_SystemPrompt :: string
  da_Skills :: "string slice"
  da_Tools :: "string slice"

record d_actor =
  dc_UserID :: string
  dc_DisplayName :: string
  dc_Channel :: string
  dc_ExternalID :: string
  dc_AccountID :: string

record d_message =
  dm_Role :: string
  dm_Content :: string

record d_conversation =
  dv_ID :: string
  dv_Messages :: "d_message slice"

record d_workspace =
  dw_OrgID :: nat
  dw_ProjectID :: string
  dw_TaskID :: string
  dw_RequestID :: string
  dw_RepoDir :: string

record d_attachment =
  dt_ID :: string
  dt_Name :: string
  dt_MimeType :: string
  dt_URL :: string

record d_input =
  di_Type :: string
  di_Messages :: "d_message slice"
  di_Attachments :: "d_attachment slice"

record d_runtime =
  dr_Kind :: string
  dr_WorkDir :: string
  dr_MaxStep :: int

record d_model =
  dl_Provider :: string
  dl_Model :: string
  dl_APIKey :: string
  dl_BaseURL :: string
  dl_BaseURLHasV1 :: bool
  dl_Temperature :: "64 word"

record d_capability =
  dp_AllowedTools :: "string slice"

record d_policy =
  dy_RequireApproval :: bool
  dy_PermissionMode :: string

record run_request =
  rq_RunID :: string
  rq_TraceID :: string
  rq_TaskID :: string
  rq_ExecutionMode :: string
  rq_Assistant :: d_assistant
  rq_Actor :: d_actor
  rq_Conversation :: d_conversation
  rq_Workspace :: d_workspace
  rq_Input :: d_input
  rq_Runtime :: d_runtime
  rq_Model :: d_model
  rq_Capability :: d_capability
  rq_Policy :: d_policy
  rq_SystemPrompt :: string
  rq_EventSink :: "nat option"

text \<open>\<open>RunRequest{}\<close>.\<close>

definition zero_request :: run_request where
  "zero_request =
     \<lparr>rq_RunID = [], rq_TraceID = [], rq_TaskID = [], rq_ExecutionMode = [],
      rq_Assistant = \<lparr>da_ID = [], da_Name = [], da_Role = [], da_SystemPrompt = [], da_Skills = None, da_Tools = None\<rparr>,
      rq_Actor = \<lparr>dc_UserID = [], dc_DisplayName = [], dc_Channel = [], dc_ExternalID = [], dc_AccountID = []\<rparr>,
      rq_Conversation = \<lparr>dv_ID = [], dv_Messages = None\<rparr>,
      rq_Workspace = \<lparr>dw_OrgID = 0, dw_ProjectID = [], dw_TaskID = [], dw_RequestID = [], dw_RepoDir = []\<rparr>,
      rq_Input = \<lparr>di_Type = [], di_Messages = None, di_Attachments = None\<rparr>,
      rq_Runtime = \<lparr>dr_Kind = [], dr_WorkDir = [], dr_MaxStep = 0\<rparr>,
      rq_Model = \<lparr>dl_Provider = [], dl_Model = [], dl_APIKey = [], dl_BaseURL = [], dl_BaseURLHasV1 = False,
                  dl_Temperature = 0\<rparr>,
      rq_Capability = \<lparr>dp_AllowedTools = None\<rparr>,
      rq_Policy = \<lparr>dy_RequireApproval = False, dy_PermissionMode = []\<rparr>,
      rq_SystemPrompt = [], rq_EventSink = None\<rparr>"

section \<open>Slices\<close>

definition slice_append :: "'a slice \<Rightarrow> 'a list \<Rightarrow> 'a slice" where
  "slice_append s xs = (case s of None \<Rightarrow> if xs = [] then None else Some xs | Some ys \<Rightarrow> Some (ys @ xs))"

lemma elems_slice_append [simp]: "elems (slice_append s xs) = elems s @ xs"
  by (cases s) (auto simp: slice_append_def elems_def)

definition copy_slice :: "'a slice \<Rightarrow> 'a slice" where
  "copy_slice src = (case src of None \<Rightarrow> None | Some xs \<Rightarrow> Some xs)"

lemma copy_slice_id [simp]: "copy_slice s = s"
  by (cases s) (simp_all add: copy_slice_def)

definition CloneRequest :: "run_request option \<Rightarrow> run_request option" where
  "CloneRequest req =
     (case req of
        None \<Rightarrow> None
      | Some r \<Rightarrow> Some (r
          \<lparr>rq_Assistant := (rq_Assistant r)\<lparr>da_Skills := copy_slice (da_Skills (rq_Assistant r)),
                                         da_Tools := copy_slice (da_Tools (rq_Assistant r))\<rparr>,
           rq_Conversation := (rq_Conversation r)\<lparr>dv_Messages := copy_slice (dv_Messages (rq_Conversation r))\<rparr>,
           rq_Input := (rq_Input r)\<lparr>di_Messages := copy_slice (di_Messages (rq_Input r)),
                                 di_Attachments := copy_slice (di_Attachments (rq_Input r))\<rparr>,
           rq_Capability := (rq_Capability r)\<lparr>dp_AllowedTools := copy_slice (dp_AllowedTools (rq_Capability r))\<rparr>\<rparr>))"

lemma CloneRequest_id [simp]: "CloneRequest req = req"
  by (cases req) (simp_all add: CloneRequest_def)

section \<open>The prompt text\<close>

definition nl :: string where
  "nl = [CHR 0x0A]"

definition attachment_line :: "d_attachment \<Rightarrow> string" where
  "attachment_line a =
     ''- '' @ dt_Name a @
     (if dt_URL a \<noteq> [] then '' ('' @ dt_URL a @ '')'' else []) @
     (if dt_MimeType a \<noteq> [] then '' ['' @ dt_MimeType a @ '']'' else []) @ nl"

definition BuildAttachmentText :: "d_attachment list \<Rightarrow> string" where
  "BuildAttachmentText attachments =
     (if attachments = [] then []
      else nl @ ''[Attachments]'' @ nl @ ''The following files were uploaded by the user:'' @ nl @
           concat (map attachment_line attachments))"

definition message_line :: "d_message \<Rightarrow> string" where
  "message_line m = (if dm_Role m = [] then ''user'' else dm_Role m) @ '': '' @ dm_Content m"

definition input_lines :: "d_message list \<Rightarrow> string list" where
  "input_lines ms = map message_line (filter (\<lambda>m. trim_space (dm_Content m) \<noteq> []) ms)"

definition BuildUserInput :: "run_request option \<Rightarrow> string" where
  "BuildUserInput req =
     (case req of
        None \<Rightarrow> []
      | Some r \<Rightarrow>
          if 0 < length (elems (di_Messages (rq_Input r))) then join nl (input_lines (elems (di_Messages (rq_Input r))))
          else [])"

lemma join_append:
  "join sep (xs @ ys) = join sep xs @ (if xs = [] \<or> ys = [] then [] else sep) @ join sep ys"
  by (induction sep xs rule: join.induct) (cases ys; simp)+

lemma message_line_ne [simp]: "message_line m \<noteq> []"
  by (simp add: message_line_def)

lemma join_lines_Nil: "(\<forall>x \<in> set xs. x \<noteq> []) \<Longrightarrow> join sep xs = [] \<longleftrightarrow> xs = []"
  by (cases "(sep, xs)" rule: join.cases) auto

lemma join_input_lines_Nil [simp]: "join sep (input_lines ms) = [] \<longleftrightarrow> input_lines ms = []"
  by (rule join_lines_Nil) (auto simp: input_lines_def)

lemma input_lines_append: "input_lines (xs @ ys) = input_lines xs @ input_lines ys"
  by (simp add: input_lines_def)

lemma BuildUserInput_alt:
  "BuildUserInput (Some r) = join nl (input_lines (elems (di_Messages (rq_Input r))))"
  by (cases "elems (di_Messages (rq_Input r))") (simp_all add: BuildUserInput_def input_lines_def)

section \<open>From the command to the request\<close>

record run_task =
  rk_ID :: string
  rk_CreatedAt :: int
  rk_Trace :: trace_context
  rk_Route :: route_context
  rk_DeliverySeqs :: "nat slice"
  rk_TaskType :: string
  rk_ExecutionMode :: string
  rk_Actor :: actor_context
  rk_Execution :: execution_target
  rk_Workspace :: workspace_options
  rk_Input :: task_input
  rk_Model :: model_options
  rk_Runtime :: runtime_options
  rk_Policy :: task_policy

fun firstNonEmpty :: "string list \<Rightarrow> string" where
  "firstNonEmpty [] = []"
| "firstNonEmpty (v # vs) = (if trim_space v \<noteq> [] then v else firstNonEmpty vs)"

definition inputMessagesFromTask :: "chat_message list \<Rightarrow> d_message slice" where
  "inputMessagesFromTask messages =
     (if messages = [] then None
      else Some (map (\<lambda>m. \<lparr>dm_Role = cm_role m, dm_Content = cm_content m\<rparr>) messages))"

definition attachmentsFromTask :: "attachment list \<Rightarrow> d_attachment slice" where
  "attachmentsFromTask attachments =
     (if attachments = [] then None
      else Some (map (\<lambda>a. \<lparr>dt_ID = at_id a, dt_Name = at_name a, dt_MimeType = at_mime_type a, dt_URL = at_url a\<rparr>)
                   attachments))"

definition RequestFromWorkerTask :: "run_task \<Rightarrow> run_request" where
  "RequestFromWorkerTask task =
     \<lparr>rq_RunID = firstNonEmpty [tx_run_id (rk_Trace task), tx_task_id (rk_Trace task), rk_ID task],
      rq_TraceID = tx_trace_id (rk_Trace task),
      rq_TaskID = tx_task_id (rk_Trace task),
      rq_ExecutionMode = rk_ExecutionMode task,
      rq_Assistant = \<lparr>da_ID = et_assistant_id (rk_Execution task), da_Name = [], da_Role = [], da_SystemPrompt = [],
                      da_Skills = slice_append None (et_skills (rk_Execution task)),
                      da_Tools = slice_append None (et_tools (rk_Execution task))\<rparr>,
      rq_Actor = \<lparr>dc_UserID = ac_user_id (rk_Actor task), dc_DisplayName = ac_display_name (rk_Actor task),
                  dc_Channel = ac_channel (rk_Actor task), dc_ExternalID = ac_external_id (rk_Actor task),
                  dc_AccountID = ac_account_id (rk_Actor task)\<rparr>,
      rq_Conversation = \<lparr>dv_ID = rt_session_id (rk_Route task), dv_Messages = None\<rparr>,
      rq_Workspace = \<lparr>dw_OrgID = rt_org_id (rk_Route task), dw_ProjectID = wo_project_id (rk_Workspace task),
                      dw_TaskID = tx_task_id (rk_Trace task),
                      dw_RequestID = firstNonEmpty [tx_request_id (rk_Trace task), rk_ID task], dw_RepoDir = []\<rparr>,
      rq_Input = \<lparr>di_Type = ti_type (rk_Input task), di_Messages = inputMessagesFromTask (ti_messages (rk_Input task)),
                  di_Attachments = attachmentsFromTask (ti_attachments (rk_Input task))\<rparr>,
      rq_Runtime = \<lparr>dr_Kind = ro_kind (rk_Runtime task), dr_WorkDir = ro_work_dir (rk_Runtime task),
                    dr_MaxStep = ro_max_step (rk_Runtime task)\<rparr>,
      rq_Model = \<lparr>dl_Provider = mo_provider (rk_Model task), dl_Model = mo_model (rk_Model task),
                  dl_APIKey = mo_api_key (rk_Model task), dl_BaseURL = mo_base_url (rk_Model task),
                  dl_BaseURLHasV1 = mo_base_url_has_v1 (rk_Model task), dl_Temperature = 0\<rparr>,
      rq_Capability = \<lparr>dp_AllowedTools = slice_append None (et_tools (rk_Execution task))\<rparr>,
      rq_Policy = \<lparr>dy_RequireApproval = tp_require_approval (rk_Policy task),
                   dy_PermissionMode = tp_permission_mode (rk_Policy task)\<rparr>,
      rq_SystemPrompt = [], rq_EventSink = None\<rparr>"

lemma firstNonEmpty_Nil: "trim_space (firstNonEmpty vs) = [] \<longleftrightarrow> (\<forall>v \<in> set vs. trim_space v = [])"
  by (induction vs) simp_all

lemma firstNonEmpty_in: "firstNonEmpty vs \<noteq> [] \<Longrightarrow> firstNonEmpty vs \<in> set vs"
  by (induction vs) (auto split: if_splits)

end
