(* ===== verification/Debounce.thy ===== *)
theory Debounce
  imports Prelude "HOL-Library.Multiset"
begin

text \<open>
  The keyed trailing-edge debouncer (\<open>backend/pkg/utils/trailing_debouncer.go\<close>). Each section that
  the code runs under its mutex is a function on the debouncer's state: \<open>Call\<close>, \<open>Close\<close>, \<open>takeReady\<close>,
  \<open>finishRun\<close>. The system around it is a step relation: callbacks that \<open>time.AfterFunc\<close> has scheduled and that
  have not taken the mutex yet (\<open>sy_fires\<close>), handlers that are running (\<open>sy_active\<close>), and two
  logs per key, of the values accepted and of the values handed to the handler. Stopping a timer
  may come too late, so a step that stops timers removes some of their callbacks or none.

  Lemmas: at most one handler runs per key; a debouncer at rest holds no value and no entry; no value is
  lost, duplicated or reordered for any way of measuring values that merging appends; what \<open>Close\<close> discards.
\<close>

section \<open>State\<close>

text \<open>\<open>hasPending\<close> and \<open>pending\<close> are one option; \<open>en_timer\<close> is \<open>timer \<noteq> nil\<close>.\<close>

record ('c, 'v) entry =
  en_ctx :: 'c
  en_pending :: "'v option"
  en_timer :: bool
  en_seq :: nat
  en_running :: bool

record ('c, 'v) debouncer =
  db_entries :: "string \<Rightarrow> ('c, 'v) entry option"
  db_closed :: bool

datatype debounce_error = Window_not_positive | Handler_required

definition NewTrailingDebouncer :: "int \<Rightarrow> bool \<Rightarrow> debounce_error + ('c, 'v) debouncer" where
  "NewTrailingDebouncer window has_handler =
     (if window \<le> 0 then Inl Window_not_positive
      else if \<not> has_handler then Inl Handler_required
      else Inr \<lparr>db_entries = (\<lambda>_. None), db_closed = False\<rparr>)"

section \<open>The sections under the mutex\<close>

text \<open>\<open>Call\<close> returns the sequence number its timer carries, \<open>None\<close> when the debouncer is closed.\<close>

definition deb_call ::
  "('v \<Rightarrow> 'v \<Rightarrow> 'v) option \<Rightarrow> 'c \<Rightarrow> string \<Rightarrow> 'v \<Rightarrow> ('c, 'v) debouncer \<Rightarrow> ('c, 'v) debouncer \<times> nat option" where
  [deb_defs]: "deb_call merge ctx key value d =
     (if db_closed d then (d, None)
      else
        (let e = (case db_entries d key of
                    None \<Rightarrow> \<lparr>en_ctx = ctx, en_pending = None, en_timer = False, en_seq = 0, en_running = False\<rparr>
                  | Some e \<Rightarrow> e);
             p = (case (en_pending e, merge) of (Some old, Some m) \<Rightarrow> m old value | _ \<Rightarrow> value);
             q = (en_seq e + 1) mod 2 ^ 64
         in (d\<lparr>db_entries := (db_entries d)(key \<mapsto>
               e\<lparr>en_ctx := ctx, en_pending := Some p, en_seq := q, en_timer := True\<rparr>)\<rparr>, Some q)))"

definition deb_close :: "('c, 'v) debouncer \<Rightarrow> ('c, 'v) debouncer" where
  [deb_defs]: "deb_close d =
     (if db_closed d then d
      else d\<lparr>db_closed := True,
             db_entries := (\<lambda>key. case db_entries d key of
                 None \<Rightarrow> None
               | Some e \<Rightarrow> if en_running e then Some (e\<lparr>en_timer := False\<rparr>) else None)\<rparr>)"

definition takePendingLocked :: "('c, 'v) entry \<Rightarrow> ('c, 'v) entry \<times> ('c \<times> 'v) option" where
  [deb_defs]: "takePendingLocked e =
     (e\<lparr>en_pending := None, en_running := True\<rparr>, map_option (Pair (en_ctx e)) (en_pending e))"

definition takeReady ::
  "('c, 'v) debouncer \<Rightarrow> string \<Rightarrow> nat \<Rightarrow> ('c, 'v) debouncer \<times> ('c \<times> 'v) option" where
  [deb_defs]: "takeReady d key q =
     (case db_entries d key of
        None \<Rightarrow> (d, None)
      | Some e \<Rightarrow>
          if en_seq e \<noteq> q then (d, None)
          else
            (let e' = e\<lparr>en_timer := False\<rparr> in
             if en_running e' \<or> en_pending e' = None
             then (d\<lparr>db_entries := (db_entries d)(key \<mapsto> e')\<rparr>, None)
             else (let (e'', r) = takePendingLocked e' in (d\<lparr>db_entries := (db_entries d)(key \<mapsto> e'')\<rparr>, r))))"

definition finishRun :: "('c, 'v) debouncer \<Rightarrow> string \<Rightarrow> ('c, 'v) debouncer \<times> ('c \<times> 'v) option" where
  [deb_defs]: "finishRun d key =
     (case db_entries d key of
        None \<Rightarrow> (d, None)
      | Some e \<Rightarrow>
          (let e' = e\<lparr>en_running := False\<rparr> in
           if en_pending e' \<noteq> None \<and> \<not> en_timer e'
           then (let (e'', r) = takePendingLocked e' in (d\<lparr>db_entries := (db_entries d)(key \<mapsto> e'')\<rparr>, r))
           else if en_pending e' = None \<and> \<not> en_timer e'
           then (d\<lparr>db_entries := (db_entries d)(key := None)\<rparr>, None)
           else (d\<lparr>db_entries := (db_entries d)(key \<mapsto> e')\<rparr>, None)))"

section \<open>The system\<close>

record ('c, 'v) deb_sys =
  sy_deb :: "('c, 'v) debouncer"
  sy_fires :: "(string \<times> nat) multiset"
  sy_active :: "(string \<times> 'c \<times> 'v) multiset"
  sy_called :: "string \<Rightarrow> 'v list"
  sy_started :: "string \<Rightarrow> 'v list"

definition deb_init :: "('c, 'v) deb_sys" where
  "deb_init = \<lparr>sy_deb = \<lparr>db_entries = (\<lambda>_. None), db_closed = False\<rparr>, sy_fires = {#}, sy_active = {#},
               sy_called = (\<lambda>_. []), sy_started = (\<lambda>_. [])\<rparr>"

text \<open>The callback that \<open>timer.Stop\<close> may still prevent.\<close>

definition stoppable :: "('c, 'v) debouncer \<Rightarrow> string \<Rightarrow> (string \<times> nat) multiset" where
  "stoppable d key =
     (case db_entries d key of Some e \<Rightarrow> if en_timer e then {#(key, en_seq e)#} else {#} | None \<Rightarrow> {#})"

text \<open>What \<open>run\<close> does with the result of \<open>takeReady\<close> or \<open>finishRun\<close>: start the handler, or return.\<close>

definition start_handler :: "string \<Rightarrow> ('c \<times> 'v) option \<Rightarrow> ('c, 'v) deb_sys \<Rightarrow> ('c, 'v) deb_sys" where
  "start_handler key r s =
     (case r of
        None \<Rightarrow> s
      | Some (c, v) \<Rightarrow> s\<lparr>sy_active := add_mset (key, c, v) (sy_active s),
                       sy_started := (sy_started s)(key := sy_started s key @ [v])\<rparr>)"

inductive deb_step :: "('v \<Rightarrow> 'v \<Rightarrow> 'v) option \<Rightarrow> ('c, 'v) deb_sys \<Rightarrow> ('c, 'v) deb_sys \<Rightarrow> bool"
  for merge :: "('v \<Rightarrow> 'v \<Rightarrow> 'v) option" where
  call: "deb_call merge ctx key v (sy_deb s) = (d', Some q) \<Longrightarrow> stopped \<subseteq># stoppable (sy_deb s) key \<Longrightarrow>
     deb_step merge s (s\<lparr>sy_deb := d', sy_fires := add_mset (key, q) (sy_fires s - stopped),
                         sy_called := (sy_called s)(key := sy_called s key @ [v])\<rparr>)"
| call_closed: "deb_call merge ctx key v (sy_deb s) = (d', None) \<Longrightarrow> deb_step merge s (s\<lparr>sy_deb := d'\<rparr>)"
| fire: "(key, q) \<in># sy_fires s \<Longrightarrow> takeReady (sy_deb s) key q = (d', r) \<Longrightarrow>
     deb_step merge s (start_handler key r (s\<lparr>sy_deb := d', sy_fires := sy_fires s - {#(key, q)#}\<rparr>))"
| handled: "(key, c, v) \<in># sy_active s \<Longrightarrow> finishRun (sy_deb s) key = (d', r) \<Longrightarrow>
     deb_step merge s (start_handler key r (s\<lparr>sy_deb := d', sy_active := sy_active s - {#(key, c, v)#}\<rparr>))"
| close: "fires' \<subseteq># sy_fires s \<Longrightarrow> deb_step merge s (s\<lparr>sy_deb := deb_close (sy_deb s), sy_fires := fires'\<rparr>)"

inductive deb_reach :: "('v \<Rightarrow> 'v \<Rightarrow> 'v) option \<Rightarrow> ('c, 'v) deb_sys \<Rightarrow> bool"
  for merge :: "('v \<Rightarrow> 'v \<Rightarrow> 'v) option" where
  init: "deb_reach merge deb_init"
| step: "deb_reach merge s \<Longrightarrow> deb_step merge s t \<Longrightarrow> deb_reach merge t"

section \<open>The invariant\<close>

definition active_of :: "string \<Rightarrow> (string \<times> 'c \<times> 'v) multiset \<Rightarrow> nat" where
  "active_of key acts = size (filter_mset (\<lambda>a. fst a = key) acts)"

lemma active_of_empty [simp]: "active_of key {#} = 0"
  by (simp add: active_of_def)

lemma active_of_add [simp]: "active_of key (add_mset a acts) = (if fst a = key then 1 else 0) + active_of key acts"
  by (simp add: active_of_def)

lemma active_of_pos: "(k, c, v) \<in># acts \<Longrightarrow> 0 < active_of k acts"
  by (auto dest!: multi_member_split)

lemma active_of_diff: "a \<in># acts \<Longrightarrow> active_of key (acts - {#a#}) = active_of key acts - (if fst a = key then 1 else 0)"
  by (auto dest!: multi_member_split)

text \<open>
  What holds between calls, for one key: the handlers running for it are counted by the flag; an armed
  timer has a pending value and, while the debouncer is open, a callback with the entry's sequence number;
  an entry exists only while its handler runs or its timer is armed, and, once the debouncer is closed,
  only while its handler runs.
\<close>

definition key_inv :: "('c, 'v) deb_sys \<Rightarrow> string \<Rightarrow> bool" where
  "key_inv s key \<longleftrightarrow>
     (case db_entries (sy_deb s) key of
        None \<Rightarrow> active_of key (sy_active s) = 0
      | Some e \<Rightarrow>
          active_of key (sy_active s) = (if en_running e then 1 else 0) \<and>
          (en_timer e \<longrightarrow> en_pending e \<noteq> None) \<and>
          (if db_closed (sy_deb s) then \<not> en_timer e \<and> en_running e
           else (en_timer e \<longrightarrow> (key, en_seq e) \<in># sy_fires s) \<and> (en_running e \<or> en_timer e)))"

definition deb_inv :: "('c, 'v) deb_sys \<Rightarrow> bool" where
  "deb_inv s \<longleftrightarrow> (\<forall>key. key_inv s key)"

lemma deb_inv_init: "deb_inv deb_init"
  by (simp add: deb_inv_def key_inv_def deb_init_def)

lemma key_inv_cong:
  assumes "db_entries (sy_deb t) key = db_entries (sy_deb s) key" "db_closed (sy_deb t) = db_closed (sy_deb s)"
    "active_of key (sy_active t) = active_of key (sy_active s)"
    "\<And>q. (key, q) \<in># sy_fires s \<Longrightarrow> (key, q) \<in># sy_fires t"
  shows "key_inv s key \<Longrightarrow> key_inv t key"
  using assms by (auto simp: key_inv_def split: option.splits)

lemma stoppable_other: "stopped \<subseteq># stoppable d key \<Longrightarrow> k \<noteq> key \<Longrightarrow> (k, q) \<notin># stopped"
  by (auto simp: stoppable_def dest: mset_subset_eqD split: option.splits if_splits)

lemma fires_other: "stopped \<subseteq># stoppable d key \<Longrightarrow> k \<noteq> key \<Longrightarrow> (k, q) \<in># fires \<Longrightarrow> (k, q) \<in># fires - stopped"
  using stoppable_other [of stopped d key k q] by (simp add: in_diff_count not_in_iff)

lemma start_handler_sel [simp]:
  "sy_deb (start_handler key r s) = sy_deb s"
  "sy_fires (start_handler key r s) = sy_fires s"
  "sy_called (start_handler key r s) = sy_called s"
  "active_of k (sy_active (start_handler key r s)) =
     active_of k (sy_active s) + (if r \<noteq> None \<and> k = key then 1 else 0)"
  by (auto simp: start_handler_def split: option.splits prod.splits)

lemma deb_call_other: "deb_call m ctx key v d = (d', r) \<Longrightarrow> k \<noteq> key \<Longrightarrow> db_entries d' k = db_entries d k"
  and deb_call_closed: "deb_call m ctx key v d = (d', r) \<Longrightarrow> db_closed d' = db_closed d"
  by (auto simp: deb_call_def Let_def split: if_splits option.splits)

lemma takeReady_other: "takeReady d key q = (d', r) \<Longrightarrow> k \<noteq> key \<Longrightarrow> db_entries d' k = db_entries d k"
  and takeReady_closed: "takeReady d key q = (d', r) \<Longrightarrow> db_closed d' = db_closed d"
  by (auto simp: takeReady_def takePendingLocked_def Let_def split: if_splits option.splits)

lemma finishRun_other: "finishRun d key = (d', r) \<Longrightarrow> k \<noteq> key \<Longrightarrow> db_entries d' k = db_entries d k"
  and finishRun_closed: "finishRun d key = (d', r) \<Longrightarrow> db_closed d' = db_closed d"
  by (auto simp: finishRun_def takePendingLocked_def Let_def split: if_splits option.splits)

lemma key_inv_call:
  assumes "deb_call m ctx key v (sy_deb s) = (d', Some q)" "stopped \<subseteq># stoppable (sy_deb s) key" "deb_inv s"
  shows "key_inv (s\<lparr>sy_deb := d', sy_fires := add_mset (key, q) (sy_fires s - stopped), sy_called := cl\<rparr>) k"
proof (cases "k = key")
  case True
  have "key_inv s key" using assms(3) by (simp add: deb_inv_def)
  with assms(1) True show ?thesis
    by (cases "db_entries (sy_deb s) key") (auto simp: key_inv_def deb_call_def Let_def split: if_splits)
next
  case False
  show ?thesis
    by (rule key_inv_cong [of _ _ s])
       (use assms(3) False deb_call_other [OF assms(1) False] deb_call_closed [OF assms(1)] fires_other [OF assms(2)] in \<open>simp_all add: deb_inv_def\<close>)
qed

lemma key_inv_fire:
  assumes "takeReady (sy_deb s) key q = (d', r)" "deb_inv s"
  shows "key_inv (start_handler key r (s\<lparr>sy_deb := d', sy_fires := sy_fires s - {#(key, q)#}\<rparr>)) k"
proof (cases "k = key")
  case True
  have "key_inv s key" using assms(2) by (simp add: deb_inv_def)
  with assms(1) True show ?thesis
    by (cases "db_entries (sy_deb s) key")
       (auto simp: key_inv_def takeReady_def takePendingLocked_def Let_def in_diff_count split: if_splits)
next
  case False
  show ?thesis
    by (rule key_inv_cong [of _ _ s])
       (use assms(2) False takeReady_other [OF assms(1) False] takeReady_closed [OF assms(1)] in \<open>simp_all add: deb_inv_def in_diff_count\<close>)
qed

lemma key_inv_handled:
  assumes "finishRun (sy_deb s) key = (d', r)" "(key, c, v) \<in># sy_active s" "deb_inv s"
  shows "key_inv (start_handler key r (s\<lparr>sy_deb := d', sy_active := sy_active s - {#(key, c, v)#}\<rparr>)) k"
proof (cases "k = key")
  case True
  have "key_inv s key" using assms(3) by (simp add: deb_inv_def)
  with assms(1) True active_of_pos [OF assms(2)] show ?thesis
    by (cases "db_entries (sy_deb s) key")
       (auto simp: key_inv_def finishRun_def takePendingLocked_def Let_def active_of_diff [OF assms(2)] split: if_splits)
next
  case False
  show ?thesis
    by (rule key_inv_cong [of _ _ s])
       (use assms(3) False finishRun_other [OF assms(1) False] finishRun_closed [OF assms(1)] in \<open>simp_all add: deb_inv_def active_of_diff [OF assms(2)]\<close>)
qed

lemma key_inv_close:
  assumes "key_inv s k"
  shows "key_inv (s\<lparr>sy_deb := deb_close (sy_deb s), sy_fires := f\<rparr>) k"
  using assms by (cases "db_entries (sy_deb s) k") (auto simp: key_inv_def deb_close_def)

lemma deb_inv_step:
  assumes "deb_step m s t" "deb_inv s"
  shows "deb_inv t"
  using assms
proof cases
  case (call ctx key v d' q stopped)
  then show ?thesis using key_inv_call [OF call(2,3) assms(2)] by (simp add: deb_inv_def)
next
  case (call_closed ctx key v d')
  then have "d' = sy_deb s" by (auto simp: deb_call_def Let_def split: if_splits)
  then show ?thesis using call_closed assms(2) by simp
next
  case (fire key q d' r)
  then show ?thesis using key_inv_fire [OF fire(3) assms(2)] by (simp add: deb_inv_def)
next
  case (handled key c v d' r)
  then show ?thesis using key_inv_handled [OF handled(3) handled(2) assms(2)] by (simp add: deb_inv_def)
next
  case (close fires')
  then show ?thesis using assms(2) by (simp add: deb_inv_def key_inv_close)
qed

lemma deb_reach_inv: "deb_reach m s \<Longrightarrow> deb_inv s"
  by (induction rule: deb_reach.induct) (auto intro: deb_inv_init deb_inv_step)

section \<open>No value is lost, duplicated or reordered\<close>

text \<open>The contract of a merge function: for a content measure \<open>h\<close>, merging appends the incoming content.\<close>

locale merge_content =
  fixes mrg :: "'v \<Rightarrow> 'v \<Rightarrow> 'v" and h :: "'v \<Rightarrow> 'x list"
  assumes content_merge: "h (mrg old new) = h old @ h new"

definition content :: "('v \<Rightarrow> 'x list) \<Rightarrow> 'v list \<Rightarrow> 'x list" where
  "content h vs = concat (map h vs)"

lemma content_simps [simp]: "content h [] = []" "content h (vs @ [v]) = content h vs @ h v"
  by (simp_all add: content_def)

definition pending_of :: "('c, 'v) debouncer \<Rightarrow> string \<Rightarrow> 'v option" where
  "pending_of d key = (case db_entries d key of Some e \<Rightarrow> en_pending e | None \<Rightarrow> None)"

definition held :: "('v \<Rightarrow> 'x list) \<Rightarrow> ('c, 'v) deb_sys \<Rightarrow> string \<Rightarrow> 'x list" where
  "held h s key = content h (sy_started s key) @ (case pending_of (sy_deb s) key of Some v \<Rightarrow> h v | None \<Rightarrow> [])"

lemma takeReady_pending:
  "takeReady d key q = (d', r) \<Longrightarrow>
   pending_of d' k = (if r \<noteq> None \<and> k = key then None else pending_of d k) \<and>
   (\<forall>c v. r = Some (c, v) \<longrightarrow> pending_of d key = Some v)"
  by (auto simp: takeReady_def takePendingLocked_def pending_of_def Let_def split: if_splits option.splits)

lemma finishRun_pending:
  "finishRun d key = (d', r) \<Longrightarrow>
   pending_of d' k = (if r \<noteq> None \<and> k = key then None else pending_of d k) \<and>
   (\<forall>c v. r = Some (c, v) \<longrightarrow> pending_of d key = Some v)"
  by (auto simp: finishRun_def takePendingLocked_def pending_of_def Let_def split: if_splits option.splits)

lemma held_cong:
  "pending_of (sy_deb t) = pending_of (sy_deb s) \<Longrightarrow> sy_started t = sy_started s \<Longrightarrow> held h t = held h s"
  by (simp add: held_def fun_eq_iff)

lemma held_start:
  assumes "\<And>k. pending_of d' k = (if r \<noteq> None \<and> k = key then None else pending_of (sy_deb s) k)"
    "\<And>c v. r = Some (c, v) \<Longrightarrow> pending_of (sy_deb s) key = Some v"
    "sy_deb t = d'" "sy_started t = sy_started s"
  shows "held h (start_handler key r t) = held h s"
proof
  fix k
  show "held h (start_handler key r t) k = held h s k"
    using assms by (cases r; cases "k = key") (auto simp: held_def start_handler_def)
qed

lemma deb_call_pending:
  assumes "deb_call (Some m) ctx key v d = (d', Some q)"
  shows "pending_of d' k =
    (if k = key then Some (case pending_of d key of Some old \<Rightarrow> m old v | None \<Rightarrow> v) else pending_of d k)"
  using assms
  by (cases "db_entries d key") (auto simp: pending_of_def deb_call_def Let_def split: if_splits option.splits)

context merge_content
begin

lemma held_call:
  assumes "deb_call (Some mrg) ctx key v (sy_deb s) = (d', Some q)" "sy_deb t = d'" "sy_started t = sy_started s"
  shows "held h t k = (if k = key then held h s k @ h v else held h s k)"
  unfolding held_def assms(2,3) deb_call_pending [OF assms(1)]
  by (simp add: content_merge split: option.split)

lemma conserved:
  "deb_reach (Some mrg) s \<Longrightarrow>
   (\<forall>key. prefix (held h s key) (content h (sy_called s key))) \<and>
   (\<not> db_closed (sy_deb s) \<longrightarrow> (\<forall>key. held h s key = content h (sy_called s key)))"
proof (induction rule: deb_reach.induct)
  case init
  show ?case by (simp add: held_def deb_init_def pending_of_def)
next
  case (step s t)
  from step.hyps(2) step.IH show ?case
  proof cases
    case (call ctx key v d' q stopped)
    moreover from call(2) have "\<not> db_closed (sy_deb s)" "db_closed d' = db_closed (sy_deb s)"
      by (auto simp: deb_call_def Let_def split: if_splits)
    ultimately show ?thesis using step.IH held_call [OF call(2), of t] by simp
  next
    case (call_closed ctx key v d')
    then have "d' = sy_deb s" by (auto simp: deb_call_def Let_def split: if_splits)
    with call_closed step.IH show ?thesis by simp
  next
    case (fire key q d' r)
    then have "held h t = held h s"
      using takeReady_pending [OF fire(3)] by (auto intro!: held_start)
    with fire step.IH show ?thesis by (auto simp: takeReady_closed [OF fire(3)])
  next
    case (handled key c v d' r)
    then have "held h t = held h s"
      using finishRun_pending [OF handled(3)] by (auto intro!: held_start)
    with handled step.IH show ?thesis by (auto simp: finishRun_closed [OF handled(3)])
  next
    case (close fires')
    show ?thesis
    proof (cases "db_closed (sy_deb s)")
      case True
      with close have "held h t = held h s" by (intro held_cong) (simp_all add: deb_close_def)
      with close step.IH show ?thesis by (auto simp: deb_close_def)
    next
      case False
      have "prefix (held h t key) (held h s key)" for key
        using close by (auto simp: held_def pending_of_def deb_close_def split: option.splits)
      with close step.IH False show ?thesis
        by (auto simp: deb_close_def intro: prefix_order.trans)
    qed
  qed
qed

end

section \<open>Properties\<close>

text \<open>at most one handler runs for a key, whatever the interleaving of calls, timers and Close,
  and the entry's flag says whether one runs.\<close>

lemma debounce_single_flight:
  assumes "deb_reach merge s"
  shows "active_of key (sy_active s) =
    (case db_entries (sy_deb s) key of Some e \<Rightarrow> if en_running e then 1 else 0 | None \<Rightarrow> 0)"
  using deb_reach_inv [OF assms]
  by (cases "db_entries (sy_deb s) key") (auto simp: deb_inv_def key_inv_def dest!: spec [of _ key])

definition one_call :: "(nat, nat list) deb_sys" where
  "one_call = deb_init\<lparr>sy_deb := fst (deb_call (Some (@)) 7 ''k'' [1] (sy_deb deb_init)),
     sy_fires := {#(''k'', 1)#}, sy_called := (\<lambda>_. [])(''k'' := [[1]])\<rparr>"

lemma one_call_reach: "deb_reach (Some (@)) one_call"
proof -
  have "deb_step (Some (@)) (deb_init :: (nat, nat list) deb_sys)
    (deb_init\<lparr>sy_deb := fst (deb_call (Some (@)) 7 ''k'' [1] (sy_deb deb_init)),
      sy_fires := add_mset (''k'', 1) (sy_fires deb_init - {#}),
      sy_called := (sy_called deb_init)(''k'' := sy_called deb_init ''k'' @ [[1]])\<rparr>)"
    using deb_step.call [of "Some (@)" "7 :: nat" "''k''" "[1 :: nat]" deb_init _ 1 "{#}"]
    by (simp add: deb_call_def deb_init_def)
  then show ?thesis
    using deb_reach.init deb_reach.step by (fastforce simp: one_call_def deb_init_def)
qed

definition one_fired :: "(nat, nat list) deb_sys" where
  "one_fired = start_handler ''k'' (snd (takeReady (sy_deb one_call) ''k'' 1))
     (one_call\<lparr>sy_deb := fst (takeReady (sy_deb one_call) ''k'' 1),
               sy_fires := sy_fires one_call - {#(''k'', 1)#}\<rparr>)"

lemma one_fired_reach: "deb_reach (Some (@)) one_fired"
  unfolding one_fired_def
  by (rule deb_reach.step [OF one_call_reach], rule deb_step.fire) (simp_all add: one_call_def)

lemma debounce_single_flight_witness:
  "active_of ''k'' (sy_active one_fired) = 1"
  using debounce_single_flight [OF one_fired_reach, of "''k''"]
  by (simp add: one_fired_def one_call_def deb_init_def deb_call_def takeReady_def takePendingLocked_def)

lemma debounce_rest:
  assumes "deb_reach merge s" "sy_fires s = {#}" "sy_active s = {#}"
  shows "db_entries (sy_deb s) = (\<lambda>_. None)"
proof
  fix key
  have "key_inv s key" using deb_reach_inv [OF assms(1)] by (simp add: deb_inv_def)
  with assms(2,3) show "db_entries (sy_deb s) key = None"
    by (auto simp: key_inv_def split: option.splits if_splits)
qed

text \<open>a pending value is never stranded. While one exists for a key, either a handler of that key is
  running (and picks the value up when it returns), or a timer callback carrying the entry's current
  sequence number is still to come, and delivering it hands exactly that value to the handler. Hence with no
  callback outstanding and no handler running, the map of entries is empty.\<close>

lemma debounce_never_stranded:
  assumes "deb_reach merge s"
  shows "(\<forall>key v. pending_of (sy_deb s) key = Some v \<longrightarrow>
            0 < active_of key (sy_active s) \<or>
            (\<exists>q c. (key, q) \<in># sy_fires s \<and> snd (takeReady (sy_deb s) key q) = Some (c, v))) \<and>
         (sy_fires s = {#} \<and> sy_active s = {#} \<longrightarrow> db_entries (sy_deb s) = (\<lambda>_. None))"
proof -
  have inv: "key_inv s key" for key
    using deb_reach_inv [OF assms] by (simp add: deb_inv_def)
  have "0 < active_of key (sy_active s) \<or>
      (\<exists>q c. (key, q) \<in># sy_fires s \<and> snd (takeReady (sy_deb s) key q) = Some (c, v))"
    if "pending_of (sy_deb s) key = Some v" for key v
  proof -
    from that obtain e where e: "db_entries (sy_deb s) key = Some e" "en_pending e = Some v"
      by (auto simp: pending_of_def split: option.splits)
    show ?thesis
    proof (cases "en_running e")
      case True
      with e inv [of key] show ?thesis by (simp add: key_inv_def)
    next
      case False
      with e inv [of key] have "(key, en_seq e) \<in># sy_fires s" "en_timer e"
        by (auto simp: key_inv_def split: if_splits)
      moreover have "snd (takeReady (sy_deb s) key (en_seq e)) = Some (en_ctx e, v)"
        using e False by (simp add: takeReady_def takePendingLocked_def)
      ultimately show ?thesis by blast
    qed
  qed
  with debounce_rest [OF assms] show ?thesis by blast
qed

lemma debounce_never_stranded_witness:
  "\<exists>q c. (''k'', q) \<in># sy_fires one_call \<and> snd (takeReady (sy_deb one_call) ''k'' q) = Some (c, [1])"
proof -
  have "pending_of (sy_deb one_call) ''k'' = Some [1]" "active_of ''k'' (sy_active one_call) = 0"
    by (simp_all add: one_call_def deb_init_def deb_call_def pending_of_def)
  with debounce_never_stranded [OF one_call_reach] show ?thesis by fastforce
qed

text \<open>what Close does to the value a key holds. If no handler of that key is running, the value is
  dropped together with its entry. If one is running, the value survives Close and the run loop hands it to
  the handler when the running one returns.\<close>

lemma debounce_close_outcome:
  assumes "\<not> db_closed d" "db_entries d key = Some e"
  shows "pending_of (deb_close d) key = (if en_running e then en_pending e else None) \<and>
         snd (finishRun (deb_close d) key) =
           (if en_running e then map_option (Pair (en_ctx e)) (en_pending e) else None) \<and>
         snd (takeReady (deb_close d) key q) = None \<and>
         deb_call merge ctx key v (deb_close d) = (deb_close d, None)"
  using assms
  by (cases "en_pending e")
     (auto simp: pending_of_def deb_close_def finishRun_def takeReady_def deb_call_def takePendingLocked_def)

definition busy :: "(nat, nat list) debouncer" where
  "busy = \<lparr>db_entries = [''k'' \<mapsto> \<lparr>en_ctx = 7, en_pending = Some [2], en_timer = True, en_seq = 2, en_running = True\<rparr>],
           db_closed = False\<rparr>"

lemma debounce_close_outcome_witness:
  "snd (finishRun (deb_close busy) ''k'') = Some (7, [2])"
  using debounce_close_outcome [of busy "''k''"] by (simp add: busy_def)

end
