(* ===== verification/Coordinator.thy ===== *)
theory Coordinator
  imports Requests Debounce
begin

text \<open>
  The worker's run coordinator (\<open>backend/internal/worker/run/coordinator.go\<close>). Its operations are functions on
  the coordinator's state; the system is a step relation whose state has the coordinator, the debouncer system of
  theory Debounce (its value type is the submission, its handler \<open>enqueueSubmission\<close>), the callers inside \<open>Submit\<close>,
  the executions in progress with their program position, the channels of the waiters, and the
  sends that \<open>Close\<close> still has to make. A channel is named by its waiter's number.

  Lemmas: sessions map to keys without collision; merging keeps every message, waiter and delivery; the system's
  debouncer behaves as theory Debounce says, so one run per session; never more executions than
  slots; no send blocks; no waiter is left without an answer; what \<open>Cancel\<close> cancels.
\<close>

section \<open>Submissions\<close>

record run_event_context =
  ec_OrgID :: nat
  ec_WorkerID :: nat
  ec_SessionID :: string
  ec_TraceID :: string
  ec_RequestID :: string
  ec_TaskID :: string
  ec_RunID :: string
  ec_ParentID :: string
  ec_ReplyToMessageIDs :: "string slice"

record run_submission =
  sb_Request :: "run_request option"
  sb_EventContext :: run_event_context
  sb_DeliverySeqs :: "nat slice"
  sb_waiterIDs :: "nat slice"

definition colon_key :: "nat \<Rightarrow> nat \<Rightarrow> string \<Rightarrow> string" where
  "colon_key org worker session = show_nat org @ '':'' @ show_nat worker @ '':'' @ session"

definition sessionKey :: "run_submission \<Rightarrow> string" where
  "sessionKey submission =
     (let ec = sb_EventContext submission in
      if ec_OrgID ec = 0 \<or> ec_WorkerID ec = 0 \<or> trim_space (ec_SessionID ec) = [] then []
      else colon_key (ec_OrgID ec) (ec_WorkerID ec) (trim_space (ec_SessionID ec)))"

definition requestTaskID :: "run_submission \<Rightarrow> string" where
  "requestTaskID submission =
     (case sb_Request submission of
        Some r \<Rightarrow> if trim_space (rq_TaskID r) \<noteq> [] then rq_TaskID r else ec_TaskID (sb_EventContext submission)
      | None \<Rightarrow> ec_TaskID (sb_EventContext submission))"

definition nonzero :: "nat \<Rightarrow> nat option" where
  "nonzero n = (if n = 0 then None else Some n)"

definition appendUniqueUint64 :: "nat slice \<Rightarrow> nat list \<Rightarrow> nat slice" where
  "appendUniqueUint64 dst values = slice_append dst (uniq_loop nonzero (elems dst) values)"

definition appendUniqueString :: "string slice \<Rightarrow> string list \<Rightarrow> string slice" where
  "appendUniqueString dst values = slice_append dst (uniq_loop trim_id (elems dst) values)"

definition merge_request :: "run_request option \<Rightarrow> run_request option \<Rightarrow> run_request option" where
  "merge_request existing incoming =
     (case incoming of
        None \<Rightarrow> existing
      | Some inc \<Rightarrow>
          (let e = (case CloneRequest existing of None \<Rightarrow> zero_request | Some r \<Rightarrow> r);
               i = rq_Input e
           in Some (e\<lparr>rq_Input := i
                \<lparr>di_Messages := slice_append (di_Messages i) (elems (di_Messages (rq_Input inc))),
                 di_Attachments := slice_append (di_Attachments i) (elems (di_Attachments (rq_Input inc)))\<rparr>\<rparr>)))"

definition mergeSubmissions :: "run_submission \<Rightarrow> run_submission \<Rightarrow> run_submission" where
  "mergeSubmissions existing incoming =
     existing
       \<lparr>sb_DeliverySeqs := appendUniqueUint64 (appendUniqueUint64 None (elems (sb_DeliverySeqs existing)))
                            (elems (sb_DeliverySeqs incoming)),
        sb_waiterIDs := slice_append (slice_append None (elems (sb_waiterIDs existing))) (elems (sb_waiterIDs incoming)),
        sb_EventContext := (sb_EventContext existing)
          \<lparr>ec_ReplyToMessageIDs := appendUniqueString
             (slice_append None (elems (ec_ReplyToMessageIDs (sb_EventContext existing))))
             (elems (ec_ReplyToMessageIDs (sb_EventContext incoming)))\<rparr>,
        sb_Request := merge_request (sb_Request existing) (sb_Request incoming)\<rparr>"

subsection \<open>Merging\<close>

definition waiters :: "run_submission \<Rightarrow> nat list" where
  "waiters sub = elems (sb_waiterIDs sub)"

definition input_messages :: "run_submission \<Rightarrow> d_message list" where
  "input_messages sub = (case sb_Request sub of None \<Rightarrow> [] | Some r \<Rightarrow> elems (di_Messages (rq_Input r)))"

lemma merge_waiters [simp]: "waiters (mergeSubmissions a b) = waiters a @ waiters b"
  by (simp add: waiters_def mergeSubmissions_def)

lemma merge_messages [simp]: "input_messages (mergeSubmissions a b) = input_messages a @ input_messages b"
  by (auto simp: input_messages_def mergeSubmissions_def merge_request_def zero_request_def Let_def split: option.splits)

lemma merge_sessionKey [simp]: "sessionKey (mergeSubmissions a b) = sessionKey a"
  by (simp add: sessionKey_def mergeSubmissions_def Let_def)

lemma merge_deliveries:
  "set (elems (sb_DeliverySeqs (mergeSubmissions a b))) =
     (set (elems (sb_DeliverySeqs a)) \<union> set (elems (sb_DeliverySeqs b))) - {0}"
  "distinct (elems (sb_DeliverySeqs (mergeSubmissions a b)))"
  by (auto simp: mergeSubmissions_def appendUniqueUint64_def seen_loop nonzero_def split: if_splits)

interpretation waiter_content: merge_content mergeSubmissions waiters
  by unfold_locales simp

interpretation message_content: merge_content mergeSubmissions input_messages
  by unfold_locales simp

subsection \<open>Keys\<close>

lemma split_at:
  "c \<notin> set xs \<Longrightarrow> c \<notin> set ys \<Longrightarrow> xs @ c # us = ys @ c # vs \<longleftrightarrow> xs = ys \<and> us = vs"
proof (induction xs arbitrary: ys)
  case Nil
  then show ?case by (cases ys) auto
next
  case (Cons x xs)
  then show ?case by (cases ys) auto
qed

lemma colon_key_inj: "colon_key o1 w1 s1 = colon_key o2 w2 s2 \<longleftrightarrow> o1 = o2 \<and> w1 = w2 \<and> s1 = s2"
  by (simp add: colon_key_def split_at)

lemma colon_key_ne [simp]: "colon_key o1 w1 s1 \<noteq> []"
  by (simp add: colon_key_def)

section \<open>The coordinator's state and operations\<close>

datatype coord_error = Coordinator_closed | Ctx_done | Exec_failed string

record 'r run_outcome =
  oc_Result :: "'r option"
  oc_DeliverySeqs :: "nat slice"

record 'r run_reply =
  rr_outcome :: "'r run_outcome"
  rr_err :: "coord_error option"

record active_run =
  ar_runID :: string
  ar_taskID :: string
  ar_cancel :: nat
  ar_startedAt :: int

record coordinator =
  co_maxConcurrency :: int
  co_debounceWindow :: int
  co_slots :: nat
  co_activeRuns :: "string \<Rightarrow> active_run option"
  co_pending :: "nat set"
  co_nextWaiterID :: nat
  co_closed :: bool
  co_submissions :: nat

datatype new_coordinator_error = Execute_function_required | Debouncer debounce_error

definition NewCoordinator ::
  "int \<Rightarrow> int \<Rightarrow> bool \<Rightarrow> new_coordinator_error + coordinator \<times> (nat, run_submission) debouncer" where
  "NewCoordinator maxConcurrency debounceWindow has_execute =
     (let m = (if maxConcurrency \<le> 0 then 20 else maxConcurrency);
          w = (if debounceWindow \<le> 0 then 1500 * 1000000 else debounceWindow)
      in if \<not> has_execute then Inl Execute_function_required
         else (case NewTrailingDebouncer w True of
                 Inl e \<Rightarrow> Inl (Debouncer e)
               | Inr d \<Rightarrow> Inr (\<lparr>co_maxConcurrency = m, co_debounceWindow = w, co_slots = 0,
                                co_activeRuns = (\<lambda>_. None), co_pending = {}, co_nextWaiterID = 0,
                                co_closed = False, co_submissions = 0\<rparr>, d)))"

definition beginSubmission :: "coordinator \<Rightarrow> coord_error + coordinator" where
  "beginSubmission c =
     (if co_closed c then Inl Coordinator_closed else Inr (c\<lparr>co_submissions := co_submissions c + 1\<rparr>))"

text \<open>\<open>defer c.submissions.Done()\<close>.\<close>

definition submission_done :: "coordinator \<Rightarrow> coordinator" where
  "submission_done c = c\<lparr>co_submissions := co_submissions c - 1\<rparr>"

text \<open>The part of \<open>scheduleAndWait\<close> under the mutex, but for the call of the debouncer.\<close>

definition registerWaiter :: "coordinator \<Rightarrow> run_submission \<Rightarrow> coord_error + coordinator \<times> nat \<times> run_submission" where
  "registerWaiter c submission =
     (if co_closed c then Inl Coordinator_closed
      else (let w = (co_nextWaiterID c + 1) mod 2 ^ 64
            in Inr (c\<lparr>co_nextWaiterID := w, co_pending := insert w (co_pending c)\<rparr>, w,
                    submission\<lparr>sb_waiterIDs := slice_append (sb_waiterIDs submission) [w]\<rparr>)))"

definition removeWaiter :: "nat \<Rightarrow> coordinator \<Rightarrow> coordinator" where
  "removeWaiter w c = c\<lparr>co_pending := co_pending c - {w}\<rparr>"

text \<open>The locked part of \<open>notifyWaiters\<close>: the channels to send to, in order, and what stays pending.\<close>

fun notify_loop :: "nat set \<Rightarrow> nat list \<Rightarrow> nat list \<times> nat set" where
  "notify_loop pending [] = ([], pending)"
| "notify_loop pending (w # ws) =
     (if w \<in> pending then (let (chs, rest) = notify_loop (pending - {w}) ws in (w # chs, rest))
      else notify_loop pending ws)"

definition notifyWaiters :: "nat list \<Rightarrow> coordinator \<Rightarrow> nat list \<times> coordinator" where
  "notifyWaiters ws c = (let (chs, rest) = notify_loop (co_pending c) ws in (chs, c\<lparr>co_pending := rest\<rparr>))"

text \<open>The cancel function that \<open>Cancel\<close> calls, if any.\<close>

definition Cancel :: "coordinator \<Rightarrow> nat \<Rightarrow> nat \<Rightarrow> string \<Rightarrow> string \<Rightarrow> nat option" where
  "Cancel c orgID workerID sessionID runID =
     (case co_activeRuns c (colon_key orgID workerID sessionID) of
        None \<Rightarrow> None
      | Some ar \<Rightarrow> if runID \<noteq> [] \<and> ar_runID ar \<noteq> runID then None else Some (ar_cancel ar))"

definition RegisterRun :: "string \<Rightarrow> string \<Rightarrow> string \<Rightarrow> nat \<Rightarrow> int \<Rightarrow> coordinator \<Rightarrow> coordinator" where
  "RegisterRun key runID taskID cancel now c =
     (if key = [] then c
      else c\<lparr>co_activeRuns := (co_activeRuns c)(key \<mapsto>
             \<lparr>ar_runID = runID, ar_taskID = taskID, ar_cancel = cancel, ar_startedAt = now\<rparr>)\<rparr>)"

definition UnregisterRun :: "string \<Rightarrow> coordinator \<Rightarrow> coordinator" where
  "UnregisterRun key c = (if key = [] then c else c\<lparr>co_activeRuns := (co_activeRuns c)(key := None)\<rparr>)"

text \<open>The section of \<open>Close\<close> under the mutex, but for the debouncer; the waiters are answered after it.\<close>

definition close_coordinator :: "coordinator \<Rightarrow> coordinator" where
  "close_coordinator c = c\<lparr>co_closed := True, co_pending := {}\<rparr>"

text \<open>The reply that \<open>enqueueSubmission\<close> makes from what \<open>execute\<close> returned.\<close>

definition reply_of :: "run_submission \<Rightarrow> 'r option \<Rightarrow> coord_error option \<Rightarrow> 'r run_reply" where
  "reply_of submission result err =
     \<lparr>rr_outcome = \<lparr>oc_Result = result, oc_DeliverySeqs = sb_DeliverySeqs submission\<rparr>, rr_err = err\<rparr>"

definition closed_reply :: "'r run_reply" where
  "closed_reply = \<lparr>rr_outcome = \<lparr>oc_Result = None, oc_DeliverySeqs = None\<rparr>, rr_err = Some Coordinator_closed\<rparr>"

lemma submission_done_sel [simp]:
  "co_slots (submission_done c) = co_slots c"
  "co_maxConcurrency (submission_done c) = co_maxConcurrency c"
  "co_activeRuns (submission_done c) = co_activeRuns c"
  "co_pending (submission_done c) = co_pending c"
  "co_nextWaiterID (submission_done c) = co_nextWaiterID c"
  "co_closed (submission_done c) = co_closed c"
  "co_submissions (submission_done c) = co_submissions c - 1"
  by (simp_all add: submission_done_def)

lemma removeWaiter_sel [simp]:
  "co_slots (removeWaiter w c) = co_slots c"
  "co_maxConcurrency (removeWaiter w c) = co_maxConcurrency c"
  "co_activeRuns (removeWaiter w c) = co_activeRuns c"
  "co_pending (removeWaiter w c) = co_pending c - {w}"
  "co_nextWaiterID (removeWaiter w c) = co_nextWaiterID c"
  "co_closed (removeWaiter w c) = co_closed c"
  "co_submissions (removeWaiter w c) = co_submissions c"
  by (simp_all add: removeWaiter_def)

lemma close_coordinator_sel [simp]:
  "co_slots (close_coordinator c) = co_slots c"
  "co_maxConcurrency (close_coordinator c) = co_maxConcurrency c"
  "co_activeRuns (close_coordinator c) = co_activeRuns c"
  "co_pending (close_coordinator c) = {}"
  "co_nextWaiterID (close_coordinator c) = co_nextWaiterID c"
  "co_closed (close_coordinator c)"
  "co_submissions (close_coordinator c) = co_submissions c"
  by (simp_all add: close_coordinator_def)

lemma RegisterRun_sel [simp]:
  "co_slots (RegisterRun k r t x n c) = co_slots c"
  "co_maxConcurrency (RegisterRun k r t x n c) = co_maxConcurrency c"
  "co_pending (RegisterRun k r t x n c) = co_pending c"
  "co_nextWaiterID (RegisterRun k r t x n c) = co_nextWaiterID c"
  "co_closed (RegisterRun k r t x n c) = co_closed c"
  "co_submissions (RegisterRun k r t x n c) = co_submissions c"
  by (simp_all add: RegisterRun_def)

lemma UnregisterRun_sel [simp]:
  "co_slots (UnregisterRun k c) = co_slots c"
  "co_maxConcurrency (UnregisterRun k c) = co_maxConcurrency c"
  "co_pending (UnregisterRun k c) = co_pending c"
  "co_nextWaiterID (UnregisterRun k c) = co_nextWaiterID c"
  "co_closed (UnregisterRun k c) = co_closed c"
  "co_submissions (UnregisterRun k c) = co_submissions c"
  by (simp_all add: UnregisterRun_def)

lemma notify_loop_rest: "snd (notify_loop pending ws) = pending - set ws"
proof (induction ws arbitrary: pending)
  case (Cons w ws)
  then show ?case by (simp add: case_prod_beta Let_def Diff_insert2 [symmetric] Diff_insert_absorb)
qed simp

lemma notify_loop_set: "set (fst (notify_loop pending ws)) = pending \<inter> set ws"
proof (induction ws arbitrary: pending)
  case (Cons w ws)
  have "insert w ((pending - {w}) \<inter> set ws) = pending \<inter> set (w # ws)" if "w \<in> pending"
    using that by auto
  with Cons show ?case by (simp add: case_prod_beta Let_def)
qed simp

lemma notify_loop_distinct: "distinct (fst (notify_loop pending ws))"
proof (induction ws arbitrary: pending)
  case (Cons w ws)
  then show ?case by (simp add: case_prod_beta Let_def notify_loop_set)
qed simp

lemma notifyWaiters_spec:
  assumes "notifyWaiters ws c = (chs, c')"
  shows "c' = c\<lparr>co_pending := co_pending c - set ws\<rparr>" "set chs = co_pending c \<inter> set ws" "distinct chs"
  using assms notify_loop_rest [of "co_pending c" ws] notify_loop_set [of "co_pending c" ws]
    notify_loop_distinct [of "co_pending c" ws]
  by (auto simp: notifyWaiters_def split: prod.splits)

section \<open>The system\<close>

text \<open>Where an execution is: waiting for a slot; holding one; inside the execute function, registered with its
  cancel function; returned, with its reply; sending the reply to the channels still to be served.\<close>

datatype 'r phase = Wait_slot | Held | Exec nat | Ran "'r run_reply" | Sending "nat list" "'r run_reply"

record 'r job =
  jb_key :: string
  jb_ctx :: nat
  jb_sub :: run_submission
  jb_phase :: "'r phase"

record 'r coord_sys =
  cs_co :: coordinator
  cs_deb :: "(nat, run_submission) deb_sys"
  cs_begun :: "(nat \<times> run_submission) multiset"
  cs_waiting :: "nat set"
  cs_jobs :: "'r job multiset"
  cs_chan :: "nat \<Rightarrow> 'r run_reply option"
  cs_close_sends :: "nat list"
  cs_cancels :: nat
  cs_cancelled :: "nat set"
  cs_origin :: "nat \<Rightarrow> run_submission option"
  cs_answers :: "(nat \<times> 'r run_reply) set"

definition coord_init :: "int \<Rightarrow> int \<Rightarrow> 'r coord_sys" where
  "coord_init m w =
     \<lparr>cs_co = \<lparr>co_maxConcurrency = m, co_debounceWindow = w, co_slots = 0, co_activeRuns = (\<lambda>_. None),
               co_pending = {}, co_nextWaiterID = 0, co_closed = False, co_submissions = 0\<rparr>,
      cs_deb = deb_init, cs_begun = {#}, cs_waiting = {}, cs_jobs = {#}, cs_chan = (\<lambda>_. None),
      cs_close_sends = [], cs_cancels = 0, cs_cancelled = {}, cs_origin = (\<lambda>_. None), cs_answers = {}\<rparr>"

text \<open>What the debouncer's run loop starts: an execution of what \<open>takeReady\<close> or \<open>finishRun\<close> returned.\<close>

definition start_job :: "string \<Rightarrow> (nat \<times> run_submission) option \<Rightarrow> 'r job multiset \<Rightarrow> 'r job multiset" where
  "start_job key r jobs =
     (case r of None \<Rightarrow> jobs
      | Some (c, v) \<Rightarrow> add_mset \<lparr>jb_key = key, jb_ctx = c, jb_sub = v, jb_phase = Wait_slot\<rparr> jobs)"

text \<open>
  \<open>waiterIDs\<close> is unexported and nil in what callers submit. The step \<open>schedule\<close> is limited to fewer than
  \<open>2 ^ 64\<close> registered waiters.
\<close>

inductive coord_step :: "'r coord_sys \<Rightarrow> 'r coord_sys \<Rightarrow> bool" where
  submit: "beginSubmission (cs_co s) = Inr c' \<Longrightarrow> sb_waiterIDs sub = None \<Longrightarrow>
     coord_step s (s\<lparr>cs_co := c', cs_begun := add_mset (ctx, sub) (cs_begun s)\<rparr>)"
| direct: "cs_begun s = add_mset (ctx, sub) rest \<Longrightarrow> sessionKey sub = [] \<Longrightarrow>
     coord_step s (s\<lparr>cs_begun := rest, cs_jobs := start_job [] (Some (ctx, sub)) (cs_jobs s)\<rparr>)"
| schedule: "cs_begun s = add_mset (ctx, sub) rest \<Longrightarrow> sessionKey sub = key \<Longrightarrow> key \<noteq> [] \<Longrightarrow>
     co_nextWaiterID (cs_co s) + 1 < 2 ^ 64 \<Longrightarrow>
     registerWaiter (cs_co s) sub = Inr (c', w, sub') \<Longrightarrow>
     deb_call (Some mergeSubmissions) ctx key sub' (sy_deb (cs_deb s)) = (d', Some q) \<Longrightarrow>
     stopped \<subseteq># stoppable (sy_deb (cs_deb s)) key \<Longrightarrow>
     coord_step s (s\<lparr>cs_co := c', cs_begun := rest, cs_waiting := insert w (cs_waiting s),
       cs_origin := (cs_origin s)(w \<mapsto> sub),
       cs_deb := (cs_deb s)\<lparr>sy_deb := d', sy_fires := add_mset (key, q) (sy_fires (cs_deb s) - stopped),
                           sy_called := (sy_called (cs_deb s))(key := sy_called (cs_deb s) key @ [sub'])\<rparr>\<rparr>)"
| schedule_closed: "cs_begun s = add_mset (ctx, sub) rest \<Longrightarrow> sessionKey sub \<noteq> [] \<Longrightarrow>
     registerWaiter (cs_co s) sub = Inl e \<Longrightarrow>
     coord_step s (s\<lparr>cs_co := submission_done (cs_co s), cs_begun := rest\<rparr>)"
| fire: "(key, q) \<in># sy_fires (cs_deb s) \<Longrightarrow> takeReady (sy_deb (cs_deb s)) key q = (d', r) \<Longrightarrow>
     coord_step s (s\<lparr>cs_jobs := start_job key r (cs_jobs s),
       cs_deb := start_handler key r ((cs_deb s)\<lparr>sy_deb := d', sy_fires := sy_fires (cs_deb s) - {#(key, q)#}\<rparr>)\<rparr>)"
| acquire: "cs_jobs s = add_mset j rest \<Longrightarrow> jb_phase j = Wait_slot \<Longrightarrow>
     int (co_slots (cs_co s)) < co_maxConcurrency (cs_co s) \<Longrightarrow>
     coord_step s (s\<lparr>cs_co := (cs_co s)\<lparr>co_slots := co_slots (cs_co s) + 1\<rparr>,
                     cs_jobs := add_mset (j\<lparr>jb_phase := Held\<rparr>) rest\<rparr>)"
| give_up: "cs_jobs s = add_mset j rest \<Longrightarrow> jb_phase j = Wait_slot \<Longrightarrow>
     coord_step s (s\<lparr>cs_jobs := add_mset (j\<lparr>jb_phase := Ran (reply_of (jb_sub j) None (Some Ctx_done))\<rparr>) rest\<rparr>)"
| enter: "cs_jobs s = add_mset j rest \<Longrightarrow> jb_phase j = Held \<Longrightarrow>
     coord_step s (s\<lparr>cs_jobs := add_mset (j\<lparr>jb_phase := Exec (cs_cancels s)\<rparr>) rest, cs_cancels := cs_cancels s + 1,
       cs_co := RegisterRun (sessionKey (jb_sub j)) (ec_RunID (sb_EventContext (jb_sub j)))
                  (requestTaskID (jb_sub j)) (cs_cancels s) now (cs_co s)\<rparr>)"
| leave: "cs_jobs s = add_mset j rest \<Longrightarrow> jb_phase j = Exec n \<Longrightarrow>
     coord_step s (s\<lparr>cs_jobs := add_mset (j\<lparr>jb_phase := Ran (reply_of (jb_sub j) result err)\<rparr>) rest,
       cs_co := (UnregisterRun (sessionKey (jb_sub j)) (cs_co s))\<lparr>co_slots := co_slots (cs_co s) - 1\<rparr>\<rparr>)"
| notify: "cs_jobs s = add_mset j rest \<Longrightarrow> jb_phase j = Ran rr \<Longrightarrow> jb_key j \<noteq> [] \<Longrightarrow>
     notifyWaiters (elems (sb_waiterIDs (jb_sub j))) (cs_co s) = (chs, c') \<Longrightarrow>
     coord_step s (s\<lparr>cs_co := c', cs_jobs := add_mset (j\<lparr>jb_phase := Sending chs rr\<rparr>) rest\<rparr>)"
| send: "cs_jobs s = add_mset j rest \<Longrightarrow> jb_phase j = Sending (w # ws) rr \<Longrightarrow> cs_chan s w = None \<Longrightarrow>
     coord_step s (s\<lparr>cs_chan := (cs_chan s)(w \<mapsto> rr), cs_jobs := add_mset (j\<lparr>jb_phase := Sending ws rr\<rparr>) rest\<rparr>)"
| handled: "cs_jobs s = add_mset j rest \<Longrightarrow> jb_phase j = Sending [] rr \<Longrightarrow>
     finishRun (sy_deb (cs_deb s)) (jb_key j) = (d', r) \<Longrightarrow>
     coord_step s (s\<lparr>cs_jobs := start_job (jb_key j) r rest,
       cs_deb := start_handler (jb_key j) r ((cs_deb s)\<lparr>sy_deb := d',
                   sy_active := sy_active (cs_deb s) - {#(jb_key j, jb_ctx j, jb_sub j)#}\<rparr>)\<rparr>)"
| direct_return: "cs_jobs s = add_mset j rest \<Longrightarrow> jb_phase j = Ran rr \<Longrightarrow> jb_key j = [] \<Longrightarrow>
     coord_step s (s\<lparr>cs_co := submission_done (cs_co s), cs_jobs := rest\<rparr>)"
| receive: "w \<in> cs_waiting s \<Longrightarrow> cs_chan s w = Some rr \<Longrightarrow>
     coord_step s (s\<lparr>cs_co := submission_done (cs_co s), cs_waiting := cs_waiting s - {w},
                     cs_chan := (cs_chan s)(w := None), cs_answers := insert (w, rr) (cs_answers s)\<rparr>)"
| abandon: "w \<in> cs_waiting s \<Longrightarrow>
     coord_step s (s\<lparr>cs_co := submission_done (removeWaiter w (cs_co s)), cs_waiting := cs_waiting s - {w}\<rparr>)"
| cancel: "Cancel (cs_co s) orgID workerID sessionID runID = Some n \<Longrightarrow>
     coord_step s (s\<lparr>cs_cancelled := insert n (cs_cancelled s)\<rparr>)"
| close: "\<not> co_closed (cs_co s) \<Longrightarrow> set order = co_pending (cs_co s) \<Longrightarrow> distinct order \<Longrightarrow>
     fires' \<subseteq># sy_fires (cs_deb s) \<Longrightarrow>
     coord_step s (s\<lparr>cs_co := close_coordinator (cs_co s), cs_close_sends := order,
       cs_deb := (cs_deb s)\<lparr>sy_deb := deb_close (sy_deb (cs_deb s)), sy_fires := fires'\<rparr>\<rparr>)"
| close_send: "cs_close_sends s = w # ws \<Longrightarrow> cs_chan s w = None \<Longrightarrow>
     coord_step s (s\<lparr>cs_chan := (cs_chan s)(w \<mapsto> closed_reply), cs_close_sends := ws\<rparr>)"

inductive coord_reach :: "int \<Rightarrow> int \<Rightarrow> 'r coord_sys \<Rightarrow> bool" for m w where
  init: "0 < m \<Longrightarrow> 0 < w \<Longrightarrow> coord_reach m w (coord_init m w)"
| step: "coord_reach m w s \<Longrightarrow> coord_step s t \<Longrightarrow> coord_reach m w t"

section \<open>Invariants\<close>

subsection \<open>Executions and the debouncer\<close>

lemma takeReady_entries:
  "takeReady d key q = (d', r) \<Longrightarrow> (db_entries d' k = None) = (db_entries d k = None)"
  "takeReady d key q = (d', Some cv) \<Longrightarrow> db_entries d key \<noteq> None"
  by (auto simp: takeReady_def takePendingLocked_def Let_def split: if_splits option.splits)

lemma finishRun_entries: "finishRun d key = (d', r) \<Longrightarrow> db_entries d k = None \<Longrightarrow> db_entries d' k = None"
  by (auto simp: finishRun_def takePendingLocked_def Let_def split: if_splits option.splits)

lemma deb_call_entries: "deb_call m ctx key v d = (d', r) \<Longrightarrow> k \<noteq> key \<Longrightarrow> db_entries d' k = db_entries d k"
  by (rule deb_call_other)

lemma deb_close_entries: "db_entries d k = None \<Longrightarrow> db_entries (deb_close d) k = None"
  by (simp add: deb_close_def)

lemma deb_close_pending: "pending_of (deb_close d) k = Some v \<Longrightarrow> pending_of d k = Some v"
  by (auto simp: pending_of_def deb_close_def split: option.splits if_splits)

definition running_of :: "'r job multiset \<Rightarrow> (string \<times> nat \<times> run_submission) multiset" where
  "running_of jobs = image_mset (\<lambda>j. (jb_key j, jb_ctx j, jb_sub j)) (filter_mset (\<lambda>j. jb_key j \<noteq> []) jobs)"

lemma running_of_simps [simp]:
  "running_of {#} = {#}"
  "running_of (add_mset j jobs) = (if jb_key j \<noteq> [] then {#(jb_key j, jb_ctx j, jb_sub j)#} else {#}) + running_of jobs"
  by (simp_all add: running_of_def)

definition job_ok :: "'r job \<Rightarrow> bool" where
  "job_ok j \<longleftrightarrow> jb_key j = sessionKey (jb_sub j) \<and>
     (case jb_phase j of Sending _ _ \<Rightarrow> jb_key j \<noteq> [] | _ \<Rightarrow> True)"

definition core_inv :: "'r coord_sys \<Rightarrow> bool" where
  "core_inv s \<longleftrightarrow>
     db_entries (sy_deb (cs_deb s)) [] = None \<and>
     (\<forall>key v. pending_of (sy_deb (cs_deb s)) key = Some v \<longrightarrow> sessionKey v = key) \<and>
     (\<forall>j \<in># cs_jobs s. job_ok j) \<and>
     running_of (cs_jobs s) = sy_active (cs_deb s)"

lemma core_inv_cong:
  "cs_deb t = cs_deb s \<Longrightarrow> (\<forall>j \<in># cs_jobs t. job_ok j) \<Longrightarrow> running_of (cs_jobs t) = running_of (cs_jobs s) \<Longrightarrow>
   core_inv s \<Longrightarrow> core_inv t"
  by (simp add: core_inv_def)

lemma core_inv_job: "core_inv s \<Longrightarrow> cs_jobs s = add_mset j rest \<Longrightarrow> job_ok j \<and> (\<forall>i \<in># rest. job_ok i)"
  by (simp add: core_inv_def)

lemma sy_active_start [simp]:
  "sy_active (start_handler key r s) = (case r of None \<Rightarrow> sy_active s | Some (c, v) \<Rightarrow> add_mset (key, c, v) (sy_active s))"
  by (auto simp: start_handler_def split: option.split)

lemma running_of_start:
  "key \<noteq> [] \<Longrightarrow> running_of (start_job key r jobs) =
     (case r of None \<Rightarrow> running_of jobs | Some (c, v) \<Rightarrow> add_mset (key, c, v) (running_of jobs))"
  by (auto simp: start_job_def split: option.split)

lemma start_job_ok:
  "(\<forall>j \<in># jobs. job_ok j) \<Longrightarrow> (\<And>c v. r = Some (c, v) \<Longrightarrow> sessionKey v = key) \<Longrightarrow> j \<in># start_job key r jobs \<Longrightarrow> job_ok j"
  by (auto simp: start_job_def job_ok_def split: option.splits)

lemma registerWaiter_cases:
  "registerWaiter c sub = Inr (c', w, sub') \<Longrightarrow>
   \<not> co_closed c \<and> w = (co_nextWaiterID c + 1) mod 2 ^ 64 \<and>
   c' = c\<lparr>co_nextWaiterID := w, co_pending := insert w (co_pending c)\<rparr> \<and>
   sub' = sub\<lparr>sb_waiterIDs := slice_append (sb_waiterIDs sub) [w]\<rparr>"
  by (auto simp: registerWaiter_def Let_def split: if_splits)

lemma core_inv_step:
  assumes "coord_step s t" "core_inv s"
  shows "core_inv t"
  using assms(1)
proof cases
  case (direct ctx sub rest)
  with assms(2) show ?thesis by (intro core_inv_cong [OF _ _ _ assms(2)]) (auto simp: start_job_def job_ok_def core_inv_def)
next
  case (schedule ctx sub rest key c' w sub' d' q stopped)
  have sk: "sessionKey sub' = key" using registerWaiter_cases [OF schedule(6)] schedule(3) by (simp add: sessionKey_def)
  have "sessionKey v = k" if "pending_of d' k = Some v" for k v
    using that assms(2) sk unfolding deb_call_pending [OF schedule(7)]
    by (auto simp: core_inv_def split: if_splits option.splits)
  moreover have "db_entries d' [] = None"
    using assms(2) schedule(4) deb_call_other [OF schedule(7), of "[]"] by (simp add: core_inv_def)
  ultimately show ?thesis using assms(2) schedule(1) by (simp add: core_inv_def)
next
  case (fire key q d' r)
  note tp = takeReady_pending [OF fire(3)]
  have ne: "r \<noteq> None \<Longrightarrow> key \<noteq> []"
    using assms(2) takeReady_entries(2) [of "sy_deb (cs_deb s)" key q d'] fire(3) by (cases "key = []") (auto simp: core_inv_def)
  have "running_of (start_job key r (cs_jobs s)) =
      (case r of None \<Rightarrow> sy_active (cs_deb s) | Some (c, v) \<Rightarrow> add_mset (key, c, v) (sy_active (cs_deb s)))"
    using ne assms(2) by (auto simp: start_job_def core_inv_def split: option.split)
  moreover have "\<forall>j \<in># start_job key r (cs_jobs s). job_ok j"
    using assms(2) tp by (auto intro!: start_job_ok [of "cs_jobs s" r key] simp: core_inv_def)
  moreover have "\<forall>k v. pending_of d' k = Some v \<longrightarrow> sessionKey v = k"
    using assms(2) tp by (auto simp: core_inv_def split: if_splits)
  ultimately show ?thesis
    using assms(2) fire(1) takeReady_entries(1) [OF fire(3)] by (simp add: core_inv_def split: option.split)
next
  case (handled j rest rr d' r)
  note fp = finishRun_pending [OF handled(4)]
  have jok: "job_ok j" "\<forall>i \<in># rest. job_ok i" using core_inv_job [OF assms(2) handled(2)] by auto
  have ne: "jb_key j \<noteq> []" using jok(1) handled(3) by (auto simp: job_ok_def)
  have act: "sy_active (cs_deb s) = add_mset (jb_key j, jb_ctx j, jb_sub j) (running_of rest)"
    using assms(2) handled(2) ne by (simp add: core_inv_def)
  have "\<forall>i \<in># start_job (jb_key j) r rest. job_ok i"
    using jok assms(2) fp by (auto intro!: start_job_ok [of rest r "jb_key j"] simp: core_inv_def)
  moreover have "\<forall>k v. pending_of d' k = Some v \<longrightarrow> sessionKey v = k"
    using assms(2) fp by (auto simp: core_inv_def split: if_splits)
  moreover have "db_entries d' [] = None"
    using assms(2) finishRun_entries [OF handled(4)] by (simp add: core_inv_def)
  ultimately show ?thesis using handled(1) act ne by (simp add: core_inv_def running_of_start split: option.split)
next
  case (close order fires')
  show ?thesis
    using assms(2) close(1) deb_close_entries [of "sy_deb (cs_deb s)" "[]"] deb_close_pending [of "sy_deb (cs_deb s)"]
    by (auto simp: core_inv_def)
qed (use assms(2) in \<open>auto simp: core_inv_def job_ok_def split: if_splits\<close>)

lemma core_inv_active:
  assumes "core_inv s" "cs_jobs s = add_mset j rest" "jb_phase j = Sending ws rr \<or> jb_key j \<noteq> []"
  shows "sy_active (cs_deb s) = add_mset (jb_key j, jb_ctx j, jb_sub j) (running_of rest)"
proof -
  have "jb_key j \<noteq> []" using core_inv_job [OF assms(1,2)] assms(3) by (auto simp: job_ok_def)
  then show ?thesis using assms(1,2) by (simp add: core_inv_def)
qed

lemma coord_deb_step:
  assumes "coord_step s t" "core_inv s"
  shows "cs_deb t = cs_deb s \<or> deb_step (Some mergeSubmissions) (cs_deb s) (cs_deb t)"
  using assms(1)
proof cases
  case (schedule ctx sub rest key c' w sub' d' q stopped)
  show ?thesis using deb_step.call [OF schedule(7,8)] schedule(1) by simp
next
  case (fire key q d' r)
  show ?thesis using deb_step.fire [OF fire(2,3)] fire(1) by simp
next
  case (handled j rest rr d' r)
  have "(jb_key j, jb_ctx j, jb_sub j) \<in># sy_active (cs_deb s)"
    using core_inv_active [OF assms(2) handled(2) disjI1 [OF handled(3)]] by simp
  then show ?thesis using deb_step.handled [OF _ handled(4)] handled(1) by simp
next
  case (close order fires')
  show ?thesis using deb_step.close [OF close(5)] close(1) by simp
qed simp_all

lemma coord_reach_core:
  "coord_reach m w s \<Longrightarrow> core_inv s \<and> deb_reach (Some mergeSubmissions) (cs_deb s)"
proof (induction rule: coord_reach.induct)
  case init
  show ?case by (simp add: core_inv_def coord_init_def deb_init_def pending_of_def deb_reach.init [unfolded deb_init_def])
next
  case (step s t)
  then show ?case using core_inv_step [OF step.hyps(2)] coord_deb_step [OF step.hyps(2)] by (auto intro: deb_reach.step)
qed

subsection \<open>Slots\<close>

fun holding :: "'r phase \<Rightarrow> bool" where
  "holding Held = True"
| "holding (Exec _) = True"
| "holding _ = False"

definition held_slots :: "'r job multiset \<Rightarrow> nat" where
  "held_slots jobs = size (filter_mset (\<lambda>j. holding (jb_phase j)) jobs)"

lemma held_slots_simps [simp]:
  "held_slots {#} = 0"
  "held_slots (add_mset j jobs) = (if holding (jb_phase j) then 1 else 0) + held_slots jobs"
  "held_slots (start_job key r jobs) = held_slots jobs"
  by (auto simp: held_slots_def start_job_def split: option.split)

definition slot_inv :: "'r coord_sys \<Rightarrow> bool" where
  "slot_inv s \<longleftrightarrow> co_slots (cs_co s) = held_slots (cs_jobs s) \<and> int (co_slots (cs_co s)) \<le> co_maxConcurrency (cs_co s)"

lemma slot_inv_step: "coord_step s t \<Longrightarrow> slot_inv s \<Longrightarrow> slot_inv t"
  by (induction rule: coord_step.induct)
     (auto simp: slot_inv_def beginSubmission_def dest!: registerWaiter_cases notifyWaiters_spec(1) split: if_splits)

subsection \<open>Closing\<close>

definition closed_inv :: "'r coord_sys \<Rightarrow> bool" where
  "closed_inv s \<longleftrightarrow> db_closed (sy_deb (cs_deb s)) = co_closed (cs_co s) \<and>
     (co_closed (cs_co s) \<longrightarrow> co_pending (cs_co s) = {}) \<and>
     (\<not> co_closed (cs_co s) \<longrightarrow> cs_close_sends s = [])"

lemma deb_close_closed [simp]: "db_closed (deb_close d)"
  by (simp add: deb_close_def)

lemma closed_inv_step: "coord_step s t \<Longrightarrow> closed_inv s \<Longrightarrow> closed_inv t"
  by (induction rule: coord_step.induct)
     (auto simp: closed_inv_def beginSubmission_def deb_call_closed takeReady_closed finishRun_closed
           dest!: registerWaiter_cases notifyWaiters_spec(1) split: if_splits)

subsection \<open>Replies\<close>

text \<open>How many values a waiter's channel holds, is about to be sent, or can still be chosen to receive.\<close>

fun sends_of :: "'r phase \<Rightarrow> nat list" where
  "sends_of (Sending ws _) = ws"
| "sends_of _ = []"

definition job_sends :: "nat \<Rightarrow> 'r job multiset \<Rightarrow> nat" where
  "job_sends w jobs = (\<Sum>j\<in>#jobs. count_list (sends_of (jb_phase j)) w)"

lemma job_sends_simps [simp]:
  "job_sends w {#} = 0"
  "job_sends w (add_mset j jobs) = count_list (sends_of (jb_phase j)) w + job_sends w jobs"
  "job_sends w (start_job key r jobs) = job_sends w jobs"
  by (auto simp: job_sends_def start_job_def split: option.split)

definition load :: "'r coord_sys \<Rightarrow> nat \<Rightarrow> nat" where
  "load s w = (if w \<in> co_pending (cs_co s) then 1 else 0) + (if cs_chan s w = None then 0 else 1) +
     job_sends w (cs_jobs s) + count_list (cs_close_sends s) w"

definition load_inv :: "'r coord_sys \<Rightarrow> bool" where
  "load_inv s \<longleftrightarrow> (\<forall>w. load s w \<le> 1) \<and> (\<forall>w. co_nextWaiterID (cs_co s) < w \<longrightarrow> load s w = 0) \<and>
     (\<forall>w \<in> cs_waiting s. load s w = 1 \<and> w \<le> co_nextWaiterID (cs_co s))"

lemma count_list_distinct: "distinct xs \<Longrightarrow> count_list xs x = (if x \<in> set xs then 1 else 0)"
  by (induction xs) auto

lemma load_cong:
  "co_pending (cs_co t) = co_pending (cs_co s) \<Longrightarrow> cs_chan t = cs_chan s \<Longrightarrow>
   job_sends v (cs_jobs t) = job_sends v (cs_jobs s) \<Longrightarrow> cs_close_sends t = cs_close_sends s \<Longrightarrow> load t v = load s v"
  by (simp add: load_def)

lemma load_step:
  assumes "coord_step s t" "closed_inv s"
  shows "(load t v \<le> load s v \<and> co_nextWaiterID (cs_co t) = co_nextWaiterID (cs_co s) \<and> cs_waiting t \<subseteq> cs_waiting s \<and>
          (v \<in> cs_waiting t \<longrightarrow> load t v = load s v)) \<or>
         (co_nextWaiterID (cs_co t) = co_nextWaiterID (cs_co s) + 1 \<and>
          cs_waiting t = insert (co_nextWaiterID (cs_co s) + 1) (cs_waiting s) \<and>
          (v = co_nextWaiterID (cs_co s) + 1 \<longrightarrow> load s v = 0 \<longrightarrow> load t v = 1) \<and>
          (v \<noteq> co_nextWaiterID (cs_co s) + 1 \<longrightarrow> load t v = load s v))"
  using assms(1)
proof cases
  case (schedule ctx sub rest key c' w sub' d' q stopped)
  then show ?thesis using registerWaiter_cases [OF schedule(6)] by (simp add: load_def)
next
  case (notify j rest rr chs c')
  have "count_list chs v = (if v \<in> co_pending (cs_co s) \<and> v \<in> set (elems (sb_waiterIDs (jb_sub j))) then 1 else 0)"
    using notifyWaiters_spec [OF notify(5)] by (simp add: count_list_distinct)
  then show ?thesis using notify notifyWaiters_spec(1) [OF notify(5)] by (simp add: load_def)
next
  case (close order fires')
  then have "count_list order v = (if v \<in> co_pending (cs_co s) then 1 else 0)" "cs_close_sends s = []"
    using assms(2) by (auto simp: count_list_distinct closed_inv_def)
  then show ?thesis using close(1) by (simp add: load_def)
next
  case (submit c' sub ctx)
  then show ?thesis by (auto simp: load_def beginSubmission_def split: if_splits)
qed (auto simp: load_def)

lemma load_inv_step:
  assumes "coord_step s t" "closed_inv s" "load_inv s"
  shows "load_inv t"
proof -
  let ?n = "co_nextWaiterID (cs_co s)"
  note ls = load_step [OF assms(1,2)]
  have old: "load s v \<le> 1" "?n < v \<Longrightarrow> load s v = 0" "v \<in> cs_waiting s \<Longrightarrow> load s v = 1 \<and> v \<le> ?n" for v
    using assms(3) by (auto simp: load_inv_def)
  show ?thesis
  proof (cases "co_nextWaiterID (cs_co t) = ?n")
    case True
    with ls have "load t v \<le> load s v" "cs_waiting t \<subseteq> cs_waiting s" "v \<in> cs_waiting t \<Longrightarrow> load t v = load s v" for v
      by auto
    with old True show ?thesis unfolding load_inv_def by (metis le_zero_eq order_trans subsetD)
  next
    case False
    with ls have new: "co_nextWaiterID (cs_co t) = ?n + 1" "cs_waiting t = insert (?n + 1) (cs_waiting s)"
      and ld: "load t v = (if v = ?n + 1 then 1 else load s v)" for v
      using old(2) by auto
    show ?thesis using old unfolding load_inv_def new ld by (auto intro: le_SucI)
  qed
qed

subsection \<open>Waiters are carried\<close>

fun unnotified :: "'r phase \<Rightarrow> bool" where
  "unnotified (Sending _ _) = False"
| "unnotified _ = True"

definition carried :: "'r coord_sys \<Rightarrow> nat \<Rightarrow> bool" where
  "carried s w \<longleftrightarrow>
     (\<exists>key v. pending_of (sy_deb (cs_deb s)) key = Some v \<and> w \<in> set (waiters v)) \<or>
     (\<exists>j \<in># cs_jobs s. jb_key j \<noteq> [] \<and> unnotified (jb_phase j) \<and> w \<in> set (waiters (jb_sub j)))"

definition carried_inv :: "'r coord_sys \<Rightarrow> bool" where
  "carried_inv s \<longleftrightarrow> (\<forall>w \<in> co_pending (cs_co s). carried s w)"

text \<open>Steps that leave the debouncer alone and move one execution to another phase before its notification.\<close>

lemma carried_move:
  assumes "cs_jobs s = add_mset j rest" "cs_jobs t = add_mset (j\<lparr>jb_phase := ph\<rparr>) rest"
    "sy_deb (cs_deb t) = sy_deb (cs_deb s)" "carried s w"
    "unnotified ph \<or> w \<notin> set (waiters (jb_sub j)) \<or> \<not> unnotified (jb_phase j)"
  shows "carried t w"
  using assms by (auto simp: carried_def)

lemma carried_keep:
  assumes "\<And>j. j \<in># cs_jobs s \<Longrightarrow> j \<in># cs_jobs t" "sy_deb (cs_deb t) = sy_deb (cs_deb s)" "carried s w"
  shows "carried t w"
  using assms by (auto simp: carried_def)

lemma carried_taken:
  assumes "\<And>k. pending_of d' k = (if r \<noteq> None \<and> k = key then None else pending_of (sy_deb (cs_deb s)) k)"
    "\<And>c v. r = Some (c, v) \<Longrightarrow> pending_of (sy_deb (cs_deb s)) key = Some v"
    "sy_deb (cs_deb t) = d'" "cs_jobs t = start_job key r rest" "r \<noteq> None \<longrightarrow> key \<noteq> []"
    "\<And>j. j \<in># cs_jobs s \<Longrightarrow> unnotified (jb_phase j) \<Longrightarrow> j \<in># rest" "carried s w"
  shows "carried t w"
proof (cases r)
  case None
  with assms show ?thesis by (auto simp: carried_def start_job_def)
next
  case (Some cv)
  obtain c v where cv: "cv = (c, v)" by fastforce
  have pk: "pending_of (sy_deb (cs_deb s)) key = Some v" using assms(2) Some cv by simp
  from assms(7) [unfolded carried_def] show ?thesis
  proof (elim disjE)
    assume "\<exists>key v. pending_of (sy_deb (cs_deb s)) key = Some v \<and> w \<in> set (waiters v)"
    then obtain k u where k: "pending_of (sy_deb (cs_deb s)) k = Some u" "w \<in> set (waiters u)" by blast
    show ?thesis
    proof (cases "k = key")
      case True
      with k pk have "w \<in> set (waiters v)" by simp
      then show ?thesis using assms(4,5) Some cv by (auto simp: carried_def start_job_def)
    next
      case False
      with k assms(1,3) show ?thesis by (auto simp: carried_def)
    qed
  next
    assume "\<exists>j \<in># cs_jobs s. jb_key j \<noteq> [] \<and> unnotified (jb_phase j) \<and> w \<in> set (waiters (jb_sub j))"
    then show ?thesis using assms(4,6) Some cv by (auto simp: carried_def start_job_def)
  qed
qed

lemma carried_inv_step:
  assumes "coord_step s t" "core_inv s" "carried_inv s"
  shows "carried_inv t"
  unfolding carried_inv_def
proof
  fix w assume w: "w \<in> co_pending (cs_co t)"
  have old: "w \<in> co_pending (cs_co s) \<Longrightarrow> carried s w" using assms(3) by (simp add: carried_inv_def)
  from assms(1) show "carried t w"
  proof cases
    case (schedule ctx sub rest key c' w' sub' d' q stopped)
    note rw = registerWaiter_cases [OF schedule(6)] and dp = deb_call_pending [OF schedule(7)]
    have "w' \<in> set (waiters sub')" using rw by (simp add: waiters_def)
    show ?thesis
    proof (cases "w = w'")
      case True
      have "\<exists>v. pending_of d' key = Some v \<and> w' \<in> set (waiters v)"
        using \<open>w' \<in> set (waiters sub')\<close> by (auto simp: dp split: option.split)
      with True schedule(1) show ?thesis by (auto simp: carried_def)
    next
      case False
      with w schedule(1) rw have "carried s w" using old by simp
      from this [unfolded carried_def] show ?thesis
      proof (elim disjE)
        assume "\<exists>k v. pending_of (sy_deb (cs_deb s)) k = Some v \<and> w \<in> set (waiters v)"
        then obtain k v where kv: "pending_of (sy_deb (cs_deb s)) k = Some v" "w \<in> set (waiters v)" by blast
        have "\<exists>u. pending_of d' k = Some u \<and> w \<in> set (waiters u)"
          using kv by (cases "k = key") (simp_all add: dp)
        with schedule(1) show ?thesis by (auto simp: carried_def)
      qed (use schedule(1) in \<open>simp add: carried_def\<close>)
    qed
  next
    case (fire key q d' r)
    have ne: "r \<noteq> None \<longrightarrow> key \<noteq> []"
      using assms(2) takeReady_entries(2) [of "sy_deb (cs_deb s)" key q d'] fire(3)
      by (cases "key = []") (auto simp: core_inv_def)
    show ?thesis
      by (rule carried_taken [of d' r key s _ "cs_jobs s"])
         (use ne takeReady_pending [OF fire(3)] fire(1) old w in auto)
  next
    case (handled j rest rr d' r)
    have ne: "jb_key j \<noteq> []" using core_inv_job [OF assms(2) handled(2)] handled(3) by (auto simp: job_ok_def)
    show ?thesis
      by (rule carried_taken [of d' r "jb_key j" s _ rest])
         (use ne finishRun_pending [OF handled(4)] handled(1-3) old w in auto)
  next
    case (notify j rest rr chs c')
    show ?thesis
      by (rule carried_move [of s j rest]) (use notify notifyWaiters_spec [OF notify(5)] w old in \<open>auto simp: waiters_def\<close>)
  next
    case (direct ctx sub rest)
    show ?thesis by (rule carried_keep [of s t]) (use direct w old in \<open>auto simp: start_job_def\<close>)
  next
    case (submit c' sub ctx)
    show ?thesis
      by (rule carried_keep [of s t]) (use submit w old in \<open>auto simp: beginSubmission_def split: if_splits\<close>)
  next
    case (direct_return j rest rr)
    with w old show ?thesis by (auto simp: carried_def)
  next
    case (acquire j rest)
    show ?thesis by (rule carried_move [of s j rest]) (use acquire w old in auto)
  next
    case (give_up j rest)
    show ?thesis by (rule carried_move [of s j rest]) (use give_up w old in auto)
  next
    case (enter j rest now)
    show ?thesis by (rule carried_move [of s j rest]) (use enter w old in auto)
  next
    case (leave j rest n result err)
    show ?thesis by (rule carried_move [of s j rest]) (use leave w old in auto)
  next
    case (send j rest v ws rr)
    show ?thesis by (rule carried_move [of s j rest]) (use send w old in auto)
  qed (use w old in \<open>auto simp: carried_def\<close>)
qed

subsection \<open>Active runs\<close>

lemma running_of_mem: "i \<in># rest \<Longrightarrow> jb_key i \<noteq> [] \<Longrightarrow> (jb_key i, jb_ctx i, jb_sub i) \<in># running_of rest"
  by (auto simp: running_of_def)

lemma single_job:
  assumes "core_inv s" "deb_inv (cs_deb s)" "cs_jobs s = add_mset j rest" "jb_key j \<noteq> []" "i \<in># rest"
  shows "jb_key i \<noteq> jb_key j"
proof
  assume eq: "jb_key i = jb_key j"
  have "active_of (jb_key j) (sy_active (cs_deb s)) = 1 + active_of (jb_key j) (running_of rest)"
    using core_inv_active [OF assms(1,3) disjI2 [OF assms(4)]] by simp
  moreover have "0 < active_of (jb_key j) (running_of rest)"
    using running_of_mem [OF assms(5)] eq assms(4) active_of_pos by metis
  moreover have "active_of (jb_key j) (sy_active (cs_deb s)) \<le> 1"
    using assms(2) by (auto simp: deb_inv_def key_inv_def dest!: spec [of _ "jb_key j"] split: option.splits if_splits)
  ultimately show False by simp
qed

definition reg_inv :: "'r coord_sys \<Rightarrow> bool" where
  "reg_inv s \<longleftrightarrow>
     (\<forall>j \<in># cs_jobs s. \<forall>n. jb_phase j = Exec n \<longrightarrow> jb_key j \<noteq> [] \<longrightarrow>
        (\<exists>ar. co_activeRuns (cs_co s) (jb_key j) = Some ar \<and> ar_cancel ar = n \<and>
              ar_runID ar = ec_RunID (sb_EventContext (jb_sub j)))) \<and>
     (\<forall>k ar. co_activeRuns (cs_co s) k = Some ar \<longrightarrow>
        k \<noteq> [] \<and> (\<exists>j \<in># cs_jobs s. jb_phase j = Exec (ar_cancel ar) \<and> jb_key j = k))"

lemma reg_inv_keep:
  "co_activeRuns (cs_co t) = co_activeRuns (cs_co s) \<Longrightarrow>
   (\<And>j n. jb_phase j = Exec n \<Longrightarrow> (j \<in># cs_jobs t) = (j \<in># cs_jobs s)) \<Longrightarrow> reg_inv s \<Longrightarrow> reg_inv t"
  unfolding reg_inv_def by metis

lemma start_job_Exec: "jb_phase j = Exec n \<Longrightarrow> (j \<in># start_job key r jobs) = (j \<in># jobs)"
  by (auto simp: start_job_def split: option.splits)

lemma reg_inv_step:
  assumes "coord_step s t" "core_inv s" "deb_inv (cs_deb s)" "reg_inv s"
  shows "reg_inv t"
  using assms(1)
proof cases
  case (submit c' sub ctx)
  show ?thesis by (rule reg_inv_keep [OF _ _ assms(4)]) (use submit in \<open>auto simp: beginSubmission_def split: if_splits\<close>)
next
  case (schedule ctx sub rest key c' w sub' d' q stopped)
  show ?thesis
    by (rule reg_inv_keep [OF _ _ assms(4)]) (use schedule registerWaiter_cases [OF schedule(6)] in auto)
next
  case (notify j rest rr chs c')
  show ?thesis
    by (rule reg_inv_keep [OF _ _ assms(4)]) (use notify notifyWaiters_spec [OF notify(5)] in auto)
next
  case (enter j rest now)
  have jok: "sessionKey (jb_sub j) = jb_key j" using core_inv_job [OF assms(2) enter(2)] by (simp add: job_ok_def)
  show ?thesis
  proof (cases "jb_key j = []")
    case True
    then show ?thesis using enter jok assms(4) by (auto simp: reg_inv_def RegisterRun_def)
  next
    case False
    then show ?thesis
      using enter jok assms(4) single_job [OF assms(2,3) enter(2) False] by (auto simp: reg_inv_def RegisterRun_def)
  qed
next
  case (leave j rest n result err)
  have jok: "sessionKey (jb_sub j) = jb_key j" using core_inv_job [OF assms(2) leave(2)] by (simp add: job_ok_def)
  show ?thesis
  proof (cases "jb_key j = []")
    case True
    then show ?thesis using leave jok assms(4) by (auto simp: reg_inv_def UnregisterRun_def)
  next
    case False
    then show ?thesis
      using leave jok assms(4) single_job [OF assms(2,3) leave(2) False] by (auto simp: reg_inv_def UnregisterRun_def)
  qed
qed (rule reg_inv_keep [OF _ _ assms(4)]; auto simp: start_job_Exec)+

subsection \<open>What a reply covers\<close>

definition seqs_of :: "nat slice \<Rightarrow> nat set" where
  "seqs_of s = set (elems s) - {0}"

definition covers :: "(nat \<Rightarrow> run_submission option) \<Rightarrow> nat slice \<Rightarrow> nat \<Rightarrow> bool" where
  "covers origin seqs w \<longleftrightarrow> (\<exists>sub. origin w = Some sub \<and> seqs_of (sb_DeliverySeqs sub) \<subseteq> seqs_of seqs)"

definition reply_covers :: "(nat \<Rightarrow> run_submission option) \<Rightarrow> 'r run_reply \<Rightarrow> nat \<Rightarrow> bool" where
  "reply_covers origin rr w \<longleftrightarrow> rr_err rr = Some Coordinator_closed \<or> covers origin (oc_DeliverySeqs (rr_outcome rr)) w"

definition sub_ok :: "(nat \<Rightarrow> run_submission option) \<Rightarrow> run_submission \<Rightarrow> bool" where
  "sub_ok origin v \<longleftrightarrow> (\<forall>w \<in> set (waiters v). covers origin (sb_DeliverySeqs v) w)"

fun phase_ok :: "(nat \<Rightarrow> run_submission option) \<Rightarrow> run_submission \<Rightarrow> 'r phase \<Rightarrow> bool" where
  "phase_ok origin v (Ran rr) = (oc_DeliverySeqs (rr_outcome rr) = sb_DeliverySeqs v)"
| "phase_ok origin v (Sending ws rr) = (\<forall>w \<in> set ws. reply_covers origin rr w)"
| "phase_ok origin v _ = True"

definition cover_inv :: "'r coord_sys \<Rightarrow> bool" where
  "cover_inv s \<longleftrightarrow>
     (\<forall>b \<in># cs_begun s. sb_waiterIDs (snd b) = None) \<and>
     (\<forall>w. co_nextWaiterID (cs_co s) < w \<longrightarrow> cs_origin s w = None) \<and>
     (\<forall>key v. pending_of (sy_deb (cs_deb s)) key = Some v \<longrightarrow> sub_ok (cs_origin s) v) \<and>
     (\<forall>j \<in># cs_jobs s. sub_ok (cs_origin s) (jb_sub j) \<and> phase_ok (cs_origin s) (jb_sub j) (jb_phase j)) \<and>
     (\<forall>w rr. cs_chan s w = Some rr \<longrightarrow> reply_covers (cs_origin s) rr w) \<and>
     (\<forall>w rr. (w, rr) \<in> cs_answers s \<longrightarrow> reply_covers (cs_origin s) rr w)"

lemma covers_mono: "origin \<subseteq>\<^sub>m origin' \<Longrightarrow> covers origin seqs w \<Longrightarrow> covers origin' seqs w"
  unfolding covers_def map_le_def by (metis domI)

lemma reply_covers_mono: "origin \<subseteq>\<^sub>m origin' \<Longrightarrow> reply_covers origin rr w \<Longrightarrow> reply_covers origin' rr w"
  by (auto simp: reply_covers_def intro: covers_mono)

lemma sub_ok_mono: "origin \<subseteq>\<^sub>m origin' \<Longrightarrow> sub_ok origin v \<Longrightarrow> sub_ok origin' v"
  by (auto simp: sub_ok_def intro: covers_mono)

lemma phase_ok_mono: "origin \<subseteq>\<^sub>m origin' \<Longrightarrow> phase_ok origin v ph \<Longrightarrow> phase_ok origin' v ph"
  by (cases ph) (auto intro: reply_covers_mono)

lemma sub_ok_merge:
  assumes "sub_ok origin a" "sub_ok origin b"
  shows "sub_ok origin (mergeSubmissions a b)"
  using assms by (fastforce simp: sub_ok_def covers_def seqs_of_def merge_deliveries)

lemma cover_inv_start:
  "cover_inv s \<Longrightarrow> (\<And>c v. r = Some (c, v) \<Longrightarrow> pending_of (sy_deb (cs_deb s)) key = Some v) \<Longrightarrow>
   (\<And>j. j \<in># rest \<Longrightarrow> j \<in># cs_jobs s) \<Longrightarrow> j \<in># start_job key r rest \<Longrightarrow>
   sub_ok (cs_origin s) (jb_sub j) \<and> phase_ok (cs_origin s) (jb_sub j) (jb_phase j)"
  by (auto simp: cover_inv_def start_job_def split: option.splits)

lemma reply_of_deliveries [simp]: "oc_DeliverySeqs (rr_outcome (reply_of v res err)) = sb_DeliverySeqs v"
  by (simp add: reply_of_def)

lemma cover_inv_step:
  assumes "coord_step s t" "cover_inv s"
  shows "cover_inv t"
  using assms(1)
proof cases
  case (submit c' sub ctx)
  then show ?thesis using assms(2) by (auto simp: cover_inv_def beginSubmission_def split: if_splits)
next
  case (direct ctx sub rest)
  have "sb_waiterIDs sub = None" using assms(2) direct(2) by (simp add: cover_inv_def)
  then have "sub_ok (cs_origin s) sub" by (simp add: sub_ok_def waiters_def)
  then show ?thesis using assms(2) direct(1,2) by (simp add: cover_inv_def start_job_def)
next
  case (schedule ctx sub rest key c' w sub' d' q stopped)
  note rw = registerWaiter_cases [OF schedule(6)] and dp = deb_call_pending [OF schedule(7)]
  have w: "w = co_nextWaiterID (cs_co s) + 1" using rw schedule(5) by simp
  have sel: "cs_jobs t = cs_jobs s" "cs_chan t = cs_chan s" "cs_answers t = cs_answers s" "cs_begun t = rest"
    "sy_deb (cs_deb t) = d'" "co_nextWaiterID (cs_co t) = w" and ot: "cs_origin t = (cs_origin s)(w \<mapsto> sub)"
    using schedule(1) rw by simp_all
  have le: "cs_origin s \<subseteq>\<^sub>m cs_origin t" using assms(2) w by (auto simp: map_le_def cover_inv_def ot)
  have "sb_waiterIDs sub = None" using assms(2) schedule(2) by (simp add: cover_inv_def)
  then have "sub_ok (cs_origin t) sub'" using rw by (simp add: sub_ok_def waiters_def covers_def ot)
  then have "sub_ok (cs_origin t) v" if "pending_of d' k = Some v" for k v
    using that assms(2) sub_ok_mono [OF le] sub_ok_merge [of "cs_origin t" _ sub']
    by (auto simp: cover_inv_def dp split: if_splits option.splits)
  moreover have "\<forall>v > w. cs_origin t v = None" using assms(2) w by (auto simp: ot cover_inv_def)
  ultimately show ?thesis
    using assms(2) schedule(2) unfolding cover_inv_def sel
    by (simp add: sub_ok_mono [OF le] phase_ok_mono [OF le] reply_covers_mono [OF le])
next
  case (fire key q d' r)
  note tp = takeReady_pending [OF fire(3)]
  have "\<forall>k v. pending_of d' k = Some v \<longrightarrow> sub_ok (cs_origin s) v"
    using assms(2) tp by (auto simp: cover_inv_def split: if_splits)
  then show ?thesis
    using cover_inv_start [OF assms(2), of r key "cs_jobs s"] tp assms(2) fire(1) by (simp add: cover_inv_def)
next
  case (handled j rest rr d' r)
  note fp = finishRun_pending [OF handled(4)]
  have "\<forall>k v. pending_of d' k = Some v \<longrightarrow> sub_ok (cs_origin s) v"
    using assms(2) fp by (auto simp: cover_inv_def split: if_splits)
  then show ?thesis
    using cover_inv_start [OF assms(2), of r "jb_key j" rest] fp assms(2) handled(1,2) by (simp add: cover_inv_def)
next
  case (notify j rest rr chs c')
  have "sub_ok (cs_origin s) (jb_sub j)" "phase_ok (cs_origin s) (jb_sub j) (Ran rr)"
    using assms(2) notify(2,3) by (auto simp: cover_inv_def)
  then have "\<forall>w \<in> set chs. reply_covers (cs_origin s) rr w"
    using notifyWaiters_spec [OF notify(5)] by (auto simp: sub_ok_def reply_covers_def waiters_def)
  then show ?thesis using assms(2) notify(1,2) notifyWaiters_spec(1) [OF notify(5)] by (auto simp: cover_inv_def)
next
  case (close order fires')
  have "pending_of (sy_deb (cs_deb s)) k = Some v \<Longrightarrow> sub_ok (cs_origin s) v" for k v
    using assms(2) by (simp add: cover_inv_def)
  then have "pending_of (deb_close (sy_deb (cs_deb s))) k = Some v \<Longrightarrow> sub_ok (cs_origin s) v" for k v
    by (meson deb_close_pending)
  then show ?thesis using assms(2) close(1) by (simp add: cover_inv_def)
next
  case (close_send w ws)
  then show ?thesis using assms(2) by (auto simp: cover_inv_def reply_covers_def closed_reply_def)
qed (use assms(2) in \<open>auto simp: cover_inv_def split: if_splits\<close>)

definition count_inv :: "'r coord_sys \<Rightarrow> bool" where
  "count_inv s \<longleftrightarrow> finite (cs_waiting s) \<and>
     co_submissions (cs_co s) = size (cs_begun s) + card (cs_waiting s) + size (filter_mset (\<lambda>j. jb_key j = []) (cs_jobs s))"

lemma count_inv_step:
  assumes "coord_step s t" "load_inv s" "core_inv s" "count_inv s"
  shows "count_inv t"
  using assms(1)
proof cases
  case (submit c' sub ctx)
  then show ?thesis using assms(4) by (auto simp: count_inv_def beginSubmission_def split: if_splits)
next
  case (schedule ctx sub rest key c' w sub' d' q stopped)
  note rw = registerWaiter_cases [OF schedule(6)]
  have w: "w = co_nextWaiterID (cs_co s) + 1" using rw schedule(5) by simp
  then have "w \<notin> cs_waiting s" using assms(2) by (auto simp: load_inv_def)
  then show ?thesis using assms(4) schedule(1,2) rw by (simp add: count_inv_def)
next
  case (fire key q d' r)
  have "r \<noteq> None \<longrightarrow> key \<noteq> []"
    using assms(3) takeReady_entries(2) [of "sy_deb (cs_deb s)" key q d'] fire(3)
    by (cases "key = []") (auto simp: core_inv_def)
  then show ?thesis using assms(4) fire(1) by (auto simp: count_inv_def start_job_def split: option.split)
next
  case (handled j rest rr d' r)
  have "jb_key j \<noteq> []" using core_inv_job [OF assms(3) handled(2)] handled(3) by (auto simp: job_ok_def)
  then show ?thesis using assms(4) handled(1,2) by (auto simp: count_inv_def start_job_def split: option.split)
next
  case (notify j rest rr chs c')
  then show ?thesis using assms(4) notifyWaiters_spec(1) [OF notify(5)] by (simp add: count_inv_def)
next
  case (receive w rr)
  then have "0 < card (cs_waiting s)" using assms(4) by (auto simp: count_inv_def card_gt_0_iff)
  then show ?thesis using assms(4) receive by (simp add: count_inv_def)
next
  case (abandon w)
  then have "0 < card (cs_waiting s)" using assms(4) by (auto simp: count_inv_def card_gt_0_iff)
  then show ?thesis using assms(4) abandon by (simp add: count_inv_def)
qed (use assms(4) in \<open>auto simp: count_inv_def start_job_def\<close>)

text \<open>All of it, for the reachable states.\<close>

definition coord_inv :: "'r coord_sys \<Rightarrow> bool" where
  "coord_inv s \<longleftrightarrow> core_inv s \<and> slot_inv s \<and> closed_inv s \<and> load_inv s \<and> carried_inv s \<and> reg_inv s \<and>
     cover_inv s \<and> count_inv s"

lemma coord_inv_init: "0 < m \<Longrightarrow> coord_inv (coord_init m w)"
  by (simp add: coord_inv_def core_inv_def slot_inv_def closed_inv_def load_inv_def carried_inv_def reg_inv_def
      cover_inv_def count_inv_def coord_init_def deb_init_def pending_of_def load_def)

lemma coord_reach_inv: "coord_reach m w s \<Longrightarrow> coord_inv s \<and> deb_reach (Some mergeSubmissions) (cs_deb s)"
proof (induction rule: coord_reach.induct)
  case init
  then show ?case using coord_inv_init coord_reach_core [OF coord_reach.init [OF init]] by blast
next
  case (step s t)
  have "deb_inv (cs_deb s)" using step.IH deb_reach_inv by blast
  with step show ?case
    using coord_reach_core [OF coord_reach.step [OF step.hyps]] core_inv_step [OF step.hyps(2)]
      slot_inv_step [OF step.hyps(2)] closed_inv_step [OF step.hyps(2)] load_inv_step [OF step.hyps(2)]
      carried_inv_step [OF step.hyps(2)] reg_inv_step [OF step.hyps(2)] cover_inv_step [OF step.hyps(2)]
      count_inv_step [OF step.hyps(2)]
    by (simp add: coord_inv_def)
qed

section \<open>A run of the system\<close>

definition demo_ec :: "string \<Rightarrow> run_event_context" where
  "demo_ec session = \<lparr>ec_OrgID = 1, ec_WorkerID = 1, ec_SessionID = session, ec_TraceID = [], ec_RequestID = [],
     ec_TaskID = [], ec_RunID = ''r'', ec_ParentID = [], ec_ReplyToMessageIDs = None\<rparr>"

definition demo_sub :: "string \<Rightarrow> run_submission" where
  "demo_sub session = \<lparr>sb_Request = Some zero_request, sb_EventContext = demo_ec session, sb_DeliverySeqs = Some [5],
     sb_waiterIDs = None\<rparr>"

lemma demo_key: "sessionKey (demo_sub '' a'') = ''1:1:a''"
  by code_simp

definition demo_batch :: run_submission where
  "demo_batch = (demo_sub '' a'')\<lparr>sb_waiterIDs := Some [1]\<rparr>"

lemma demo_scheduled:
  "\<exists>s :: 'r coord_sys. coord_reach 2 1 s \<and> cs_waiting s = {1} \<and> co_pending (cs_co s) = {1} \<and>
     cs_jobs s = {#} \<and> cs_chan s = (\<lambda>_. None) \<and> \<not> co_closed (cs_co s) \<and> co_slots (cs_co s) = 0 \<and> cs_cancels s = 0 \<and>
     co_maxConcurrency (cs_co s) = 2 \<and> co_submissions (cs_co s) = 1 \<and> co_activeRuns (cs_co s) = (\<lambda>_. None) \<and>
     sy_fires (cs_deb s) = {#(''1:1:a'', 1)#} \<and> cs_begun s = {#} \<and>
     db_entries (sy_deb (cs_deb s)) = [''1:1:a'' \<mapsto>
       \<lparr>en_ctx = 7, en_pending = Some demo_batch, en_timer = True, en_seq = 1, en_running = False\<rparr>]"
proof -
  let ?s0 = "coord_init 2 1 :: 'r coord_sys"
  define s1 where "s1 = ?s0\<lparr>cs_co := (cs_co ?s0)\<lparr>co_submissions := 1\<rparr>, cs_begun := {#(7, demo_sub '' a'')#}\<rparr>"
  have "coord_step ?s0 s1"
    using coord_step.submit [of ?s0 _ "demo_sub '' a''" 7]
    by (simp add: s1_def coord_init_def beginSubmission_def demo_sub_def)
  then have r1: "coord_reach 2 1 s1" using coord_reach.init coord_reach.step by force
  let ?c = "(cs_co s1)\<lparr>co_nextWaiterID := 1, co_pending := {1}\<rparr>"
  let ?d = "\<lparr>db_entries = [''1:1:a'' \<mapsto> \<lparr>en_ctx = 7, en_pending = Some demo_batch, en_timer = True, en_seq = 1,
              en_running = False\<rparr>], db_closed = False\<rparr>"
  have "coord_step s1 (s1\<lparr>cs_co := ?c, cs_begun := {#}, cs_waiting := insert 1 (cs_waiting s1),
       cs_origin := (cs_origin s1)(1 \<mapsto> demo_sub '' a''),
       cs_deb := (cs_deb s1)\<lparr>sy_deb := ?d, sy_fires := add_mset (''1:1:a'', 1) (sy_fires (cs_deb s1) - {#}),
          sy_called := (sy_called (cs_deb s1))(''1:1:a'' := sy_called (cs_deb s1) ''1:1:a'' @ [demo_batch])\<rparr>\<rparr>)"
    by (rule coord_step.schedule)
       (simp_all add: s1_def coord_init_def demo_key [unfolded demo_sub_def] registerWaiter_def deb_init_def deb_call_def demo_batch_def
          demo_sub_def slice_append_def)
  with r1 have r2: "coord_reach 2 1 (s1\<lparr>cs_co := ?c, cs_begun := {#}, cs_waiting := insert 1 (cs_waiting s1),
       cs_origin := (cs_origin s1)(1 \<mapsto> demo_sub '' a''),
       cs_deb := (cs_deb s1)\<lparr>sy_deb := ?d, sy_fires := add_mset (''1:1:a'', 1) (sy_fires (cs_deb s1) - {#}),
          sy_called := (sy_called (cs_deb s1))(''1:1:a'' := sy_called (cs_deb s1) ''1:1:a'' @ [demo_batch])\<rparr>\<rparr>)"
    by (rule coord_reach.step)
  show ?thesis
    by (rule exI, rule conjI [OF r2]) (simp add: s1_def coord_init_def deb_init_def)
qed

definition demo_job :: "'r phase \<Rightarrow> 'r job" where
  "demo_job ph = \<lparr>jb_key = ''1:1:a'', jb_ctx = 7, jb_sub = demo_batch, jb_phase = ph\<rparr>"

lemma demo_batch_key [simp]: "sessionKey demo_batch = ''1:1:a''"
  using demo_key by (simp add: demo_batch_def sessionKey_def)

lemma demo_batch_sel [simp]:
  "ec_RunID (sb_EventContext demo_batch) = ''r''" "sb_waiterIDs demo_batch = Some [1]"
  by (simp_all add: demo_batch_def demo_sub_def demo_ec_def)

lemma demo_running:
  "\<exists>s :: 'r coord_sys. coord_reach 2 1 s \<and> cs_waiting s = {1} \<and> co_pending (cs_co s) = {1} \<and>
     cs_jobs s = {#demo_job (Exec 0)#} \<and> cs_chan s = (\<lambda>_. None) \<and> \<not> co_closed (cs_co s) \<and> co_submissions (cs_co s) = 1 \<and>
     (\<exists>ar. co_activeRuns (cs_co s) ''1:1:a'' = Some ar \<and> ar_cancel ar = 0 \<and> ar_runID ar = ''r'')"
proof -
  obtain s :: "'r coord_sys" where s: "coord_reach 2 1 s" "cs_waiting s = {1}" "co_pending (cs_co s) = {1}"
    "cs_jobs s = {#}" "cs_chan s = (\<lambda>_. None)" "\<not> co_closed (cs_co s)" "co_slots (cs_co s) = 0" "cs_cancels s = 0"
    "co_maxConcurrency (cs_co s) = 2" "co_submissions (cs_co s) = 1" "co_activeRuns (cs_co s) = (\<lambda>_. None)"
    "sy_fires (cs_deb s) = {#(''1:1:a'', 1)#}"
    "db_entries (sy_deb (cs_deb s)) = [''1:1:a'' \<mapsto>
       \<lparr>en_ctx = 7, en_pending = Some demo_batch, en_timer = True, en_seq = 1, en_running = False\<rparr>]"
    using demo_scheduled by blast
  obtain d' r where tr: "takeReady (sy_deb (cs_deb s)) ''1:1:a'' 1 = (d', r)" by fastforce
  have r: "r = Some (7, demo_batch)" using tr s(13) by (simp add: takeReady_def takePendingLocked_def)
  have "\<exists>s1 :: 'r coord_sys. coord_reach 2 1 s1 \<and> cs_co s1 = cs_co s \<and> cs_jobs s1 = {#demo_job Wait_slot#} \<and> cs_cancels s1 = 0 \<and>
      cs_waiting s1 = {1} \<and> cs_chan s1 = (\<lambda>_. None)"
  proof -
    have "(''1:1:a'', 1) \<in># sy_fires (cs_deb s)" using s(12) by simp
    from coord_reach.step [OF s(1) coord_step.fire [OF this tr]] show ?thesis
      by (rule exI_conj [where P = "\<lambda>x :: 'r coord_sys. coord_reach 2 1 x"]) (use s r in \<open>simp add: start_job_def demo_job_def\<close>)
  qed
  then obtain s1 :: "'r coord_sys" where s1: "coord_reach 2 1 s1" "cs_co s1 = cs_co s" "cs_jobs s1 = {#demo_job Wait_slot#}"
    "cs_cancels s1 = 0" "cs_waiting s1 = {1}" "cs_chan s1 = (\<lambda>_. None)" by blast
  let ?s2 = "s1\<lparr>cs_co := (cs_co s1)\<lparr>co_slots := co_slots (cs_co s1) + 1\<rparr>,
                cs_jobs := add_mset ((demo_job Wait_slot)\<lparr>jb_phase := Held\<rparr>) {#}\<rparr>"
  have r2: "coord_reach 2 1 ?s2"
    by (rule coord_reach.step [OF s1(1)], rule coord_step.acquire)
       (use s s1 in \<open>simp_all add: demo_job_def\<close>)
  let ?j = "(demo_job Wait_slot :: 'r job)\<lparr>jb_phase := Held\<rparr>"
  let ?s3 = "?s2\<lparr>cs_jobs := add_mset (?j\<lparr>jb_phase := Exec (cs_cancels ?s2)\<rparr>) {#}, cs_cancels := cs_cancels ?s2 + 1,
       cs_co := RegisterRun (sessionKey (jb_sub ?j)) (ec_RunID (sb_EventContext (jb_sub ?j)))
                  (requestTaskID (jb_sub ?j)) (cs_cancels ?s2) 0 (cs_co ?s2)\<rparr>"
  have "coord_reach 2 1 ?s3"
    by (rule coord_reach.step [OF r2], rule coord_step.enter) (simp_all add: demo_job_def)
  then show ?thesis
    by (rule exI_conj [where P = "\<lambda>x :: 'r coord_sys. coord_reach 2 1 x"])
       (use s s1 in \<open>simp add: demo_job_def RegisterRun_def\<close>)
qed

section \<open>Properties\<close>

text \<open>C1: one run per session. In every reachable state of the coordinator at most one execution exists for a
  session key, from the moment the debouncer hands it over until its waiters have been notified.\<close>

theorem coord_single_flight:
  assumes "coord_reach m w s" "key \<noteq> []"
  shows "size (filter_mset (\<lambda>j. jb_key j = key) (cs_jobs s)) \<le> 1"
proof -
  have inv: "core_inv s" "deb_inv (cs_deb s)"
    using coord_reach_inv [OF assms(1)] deb_reach_inv by (auto simp: coord_inv_def)
  show ?thesis
  proof (cases "\<exists>j \<in># cs_jobs s. jb_key j = key")
    case True
    then obtain j rest where j: "cs_jobs s = add_mset j rest" "jb_key j = key" by (metis multi_member_split)
    have "filter_mset (\<lambda>i. jb_key i = key) rest = {#}"
      using single_job [OF inv j(1)] j(2) assms(2) by auto
    with j show ?thesis by simp
  next
    case False
    then have none: "filter_mset (\<lambda>j. jb_key j = key) (cs_jobs s) = {#}" by auto
    show ?thesis by (simp only: none size_empty)
  qed
qed

theorem coord_single_flight_witness:
  "\<exists>s :: nat coord_sys. cs_jobs s = {#demo_job (Exec 0)#} \<and>
     size (filter_mset (\<lambda>j. jb_key j = ''1:1:a'') (cs_jobs s)) \<le> 1"
  using demo_running coord_single_flight [of 2 1 _ "''1:1:a''"] by blast

lemma coord_reach_max: "coord_reach m w s \<Longrightarrow> co_maxConcurrency (cs_co s) = m"
proof (induction rule: coord_reach.induct)
  case (step s t)
  from step.hyps(2) step.IH show ?case
    by (cases rule: coord_step.cases)
       (auto simp: beginSubmission_def dest!: registerWaiter_cases notifyWaiters_spec(1) split: if_splits)
qed (simp add: coord_init_def)

text \<open>C34: executions never exceed the configured concurrency. The length of the slot channel is the number of
  executions between acquiring a slot and leaving the execute function, and it is at most the maximum.\<close>

theorem coord_slot_bound:
  assumes "coord_reach m w s"
  shows "co_slots (cs_co s) = size (filter_mset (\<lambda>j. holding (jb_phase j)) (cs_jobs s)) \<and>
         int (co_slots (cs_co s)) \<le> m"
  using coord_reach_inv [OF assms] coord_reach_max [OF assms]
  by (simp add: coord_inv_def slot_inv_def held_slots_def)

theorem coord_slot_bound_witness:
  "\<exists>s :: nat coord_sys. cs_jobs s = {#demo_job (Exec 0)#} \<and> co_slots (cs_co s) = 1 \<and> int (co_slots (cs_co s)) \<le> 2"
proof -
  obtain s :: "nat coord_sys" where "coord_reach 2 1 s" "cs_jobs s = {#demo_job (Exec 0)#}"
    using demo_running by blast
  with coord_slot_bound [of 2 1 s] show ?thesis by (intro exI [of _ s]) (simp add: demo_job_def)
qed

lemma sends_free:
  assumes "coord_reach m w s"
  shows "j \<in># cs_jobs s \<Longrightarrow> jb_phase j = Sending (v # vs) rr \<Longrightarrow> cs_chan s v = None"
    "cs_close_sends s = v # vs \<Longrightarrow> cs_chan s v = None"
proof -
  have one: "load s v \<le> 1" using coord_reach_inv [OF assms] by (simp add: coord_inv_def load_inv_def)
  show "cs_chan s v = None" if j: "j \<in># cs_jobs s" "jb_phase j = Sending (v # vs) rr"
  proof -
    obtain rest where "cs_jobs s = add_mset j rest" using j(1) by (metis multi_member_split)
    with one j(2) show ?thesis by (auto simp: load_def split: if_splits)
  qed
  show "cs_chan s v = None" if "cs_close_sends s = v # vs"
    using one that by (auto simp: load_def split: if_splits)
qed

text \<open>C19: answering never blocks. Whenever an execution or \<open>Close\<close> is about to send to a waiter's channel, the
  channel's one-place buffer is free, so the goroutine is not held up even if the waiter has gone.\<close>

theorem coord_sends_never_block:
  assumes "coord_reach m w s"
  shows "(\<forall>j \<in># cs_jobs s. \<forall>v vs rr. jb_phase j = Sending (v # vs) rr \<longrightarrow> cs_chan s v = None) \<and>
         (\<forall>v vs. cs_close_sends s = v # vs \<longrightarrow> cs_chan s v = None)"
  using sends_free [OF assms] by blast

theorem coord_sends_never_block_witness:
  "\<exists>s :: nat coord_sys. cs_jobs s = {#demo_job (Exec 0)#} \<and>
     (\<forall>v vs. cs_close_sends s = v # vs \<longrightarrow> cs_chan s v = None)"
  using demo_running coord_sends_never_block [of 2 1] by blast

lemma waiter_accounted:
  assumes "coord_reach m w s" "v \<in> cs_waiting s"
  shows "cs_chan s v \<noteq> None \<or> (\<exists>j \<in># cs_jobs s. v \<in> set (sends_of (jb_phase j))) \<or> v \<in> set (cs_close_sends s) \<or>
      (\<not> co_closed (cs_co s) \<and> carried s v)"
proof -
  have inv: "core_inv s" "load s v = 1" "carried_inv s" "closed_inv s" 
    using coord_reach_inv [OF assms(1)] assms(2) by (auto simp: coord_inv_def load_inv_def)
  have js: "\<exists>j \<in># cs_jobs s. v \<in> set (sends_of (jb_phase j))" if "job_sends v (cs_jobs s) \<noteq> 0"
    using that by (auto simp: job_sends_def count_list_0_iff)
  show ?thesis
  proof (cases "v \<in> co_pending (cs_co s)")
    case True
    with inv show ?thesis by (auto simp: carried_inv_def closed_inv_def)
  next
    case False
    with inv(2) js show ?thesis by (auto simp: load_def count_list_0_iff split: if_splits)
  qed
qed

lemma idle_answered:
  assumes "coord_reach m w s" "v \<in> cs_waiting s" "sy_fires (cs_deb s) = {#}" "cs_jobs s = {#}" "cs_close_sends s = []"
  shows "cs_chan s v \<noteq> None"
proof -
  have deb: "deb_reach (Some mergeSubmissions) (cs_deb s)" and inv: "core_inv s"
    using coord_reach_inv [OF assms(1)] by (auto simp: coord_inv_def)
  have "sy_active (cs_deb s) = {#}" using inv assms(4) by (simp add: core_inv_def)
  then have "db_entries (sy_deb (cs_deb s)) = (\<lambda>_. None)"
    using debounce_rest [OF deb] assms(3) by blast
  then have "\<not> carried s v" using assms(4) by (simp add: carried_def pending_of_def)
  with waiter_accounted [OF assms(1,2)] assms(4,5) show ?thesis by auto
qed

text \<open>C2: no caller is left waiting. A caller blocked in \<open>scheduleAndWait\<close> has its reply in its channel, or one is
  about to be sent by an execution or by \<open>Close\<close>, or its submission is part of an execution that has not notified yet or
  of a batch still pending in the debouncer. Hence once no timer callback is outstanding, no execution is in progress and
  \<open>Close\<close> has nothing left to send, the reply is there; and after \<open>Close\<close> it never depends on an execution finishing.\<close>

theorem coord_no_lost_waiter:
  assumes "coord_reach m w s" "v \<in> cs_waiting s"
  shows "(cs_chan s v \<noteq> None \<or> (\<exists>j \<in># cs_jobs s. v \<in> set (sends_of (jb_phase j))) \<or> v \<in> set (cs_close_sends s) \<or>
            (\<not> co_closed (cs_co s) \<and> carried s v)) \<and>
         (sy_fires (cs_deb s) = {#} \<and> cs_jobs s = {#} \<and> cs_close_sends s = [] \<longrightarrow> cs_chan s v \<noteq> None)"
  using waiter_accounted [OF assms] idle_answered [OF assms] by blast

theorem coord_no_lost_waiter_witness:
  "\<exists>s :: nat coord_sys. coord_reach 2 1 s \<and> cs_waiting s = {1} \<and> carried s 1"
proof -
  obtain s :: "nat coord_sys" where s: "coord_reach 2 1 s" "cs_waiting s = {1}" "cs_jobs s = {#demo_job (Exec 0)#}"
    "cs_chan s = (\<lambda>_. None)" "\<not> co_closed (cs_co s)"
    using demo_running by blast
  have "cs_close_sends s = []" using coord_reach_inv [OF s(1)] s(5) by (simp add: coord_inv_def closed_inv_def)
  with coord_no_lost_waiter [OF s(1), of 1] s show ?thesis by (auto simp: demo_job_def)
qed

text \<open>C18: the reply a caller gets is its own. Whatever \<open>Submit\<close> returns to a waiter is either the error of a
  closed coordinator or the outcome of a batch whose delivery sequences include every (non-zero) sequence of
  the caller's own submission, merged or not.\<close>

theorem coord_reply_covers_caller:
  assumes "coord_reach m w s" "(v, rr) \<in> cs_answers s"
  shows "rr_err rr = Some Coordinator_closed \<or>
    (\<exists>sub. cs_origin s v = Some sub \<and>
       set (elems (sb_DeliverySeqs sub)) - {0} \<subseteq> set (elems (oc_DeliverySeqs (rr_outcome rr))))"
proof -
  have "reply_covers (cs_origin s) rr v"
    using coord_reach_inv [OF assms(1)] assms(2) by (auto simp: coord_inv_def cover_inv_def)
  then show ?thesis by (auto simp: reply_covers_def covers_def seqs_of_def)
qed

text \<open>cancelling reaches exactly the running execution. \<open>Cancel\<close> finds a cancel function just when an
  execution of the key is inside the execute function, it is that execution's cancel function, and a non-empty
  run id must be the one the execution was registered with.\<close>

theorem coord_cancel_exact:
  assumes "coord_reach m w s"
  shows "Cancel (cs_co s) org worker session run = Some n \<longleftrightarrow>
    (\<exists>j \<in># cs_jobs s. jb_key j = colon_key org worker session \<and> jb_phase j = Exec n \<and>
       (run = [] \<or> run = ec_RunID (sb_EventContext (jb_sub j))))"
proof -
  let ?k = "colon_key org worker session"
  have reg: "reg_inv s" using coord_reach_inv [OF assms] by (simp add: coord_inv_def)
  have exec: "\<exists>ar. co_activeRuns (cs_co s) ?k = Some ar \<and> ar_cancel ar = n \<and> ar_runID ar = ec_RunID (sb_EventContext (jb_sub j))"
    if "j \<in># cs_jobs s" "jb_phase j = Exec n" "jb_key j = ?k" for j n
    using that reg colon_key_ne [of org worker session] unfolding reg_inv_def by metis
  have act: "\<exists>j \<in># cs_jobs s. jb_phase j = Exec (ar_cancel ar) \<and> jb_key j = ?k"
    if "co_activeRuns (cs_co s) ?k = Some ar" for ar
    using that reg unfolding reg_inv_def by metis
  show ?thesis
  proof
    assume c: "Cancel (cs_co s) org worker session run = Some n"
    then obtain ar where ar: "co_activeRuns (cs_co s) ?k = Some ar" "ar_cancel ar = n" "run = [] \<or> ar_runID ar = run"
      by (auto simp: Cancel_def split: option.splits if_splits)
    obtain j where j: "j \<in># cs_jobs s" "jb_phase j = Exec n" "jb_key j = ?k" using act [OF ar(1)] ar(2) by blast
    with exec [OF j] ar show "\<exists>j \<in># cs_jobs s. jb_key j = ?k \<and> jb_phase j = Exec n \<and>
        (run = [] \<or> run = ec_RunID (sb_EventContext (jb_sub j)))"
      by (intro bexI [of _ j]) auto
  next
    assume "\<exists>j \<in># cs_jobs s. jb_key j = ?k \<and> jb_phase j = Exec n \<and> (run = [] \<or> run = ec_RunID (sb_EventContext (jb_sub j)))"
    then show "Cancel (cs_co s) org worker session run = Some n" using exec by (fastforce simp: Cancel_def)
  qed
qed

theorem coord_cancel_exact_witness:
  "\<exists>s :: nat coord_sys. Cancel (cs_co s) 1 1 ''a'' ''r'' = Some 0 \<and> Cancel (cs_co s) 1 1 '' a'' ''r'' = None"
proof -
  obtain s :: "nat coord_sys" where s: "coord_reach 2 1 s" "cs_jobs s = {#demo_job (Exec 0)#}"
    using demo_running by blast
  have k: "colon_key 1 1 ''a'' = ''1:1:a''" "colon_key 1 1 '' a'' = ''1:1: a''" by code_simp+
  have "Cancel (cs_co s) 1 1 ''a'' ''r'' = Some 0"
    using coord_cancel_exact [OF s(1), of 1 1 "''a''" "''r''" 0] s(2) k by (simp add: demo_job_def)
  moreover have "Cancel (cs_co s) 1 1 '' a'' ''r'' \<noteq> Some n" for n
    using coord_cancel_exact [OF s(1), of 1 1 "'' a''" "''r''" n] s(2) k by (simp add: demo_job_def)
  ultimately show ?thesis by blast
qed

lemma demo_answered:
  "\<exists>s :: nat coord_sys. coord_reach 2 1 s \<and> (1, reply_of demo_batch (Some 3) None) \<in> cs_answers s"
proof -
  obtain s :: "nat coord_sys" where s: "coord_reach 2 1 s" "cs_waiting s = {1}" "co_pending (cs_co s) = {1}"
    "cs_jobs s = {#demo_job (Exec 0)#}" "cs_chan s = (\<lambda>_. None)"
    using demo_running by blast
  let ?rr = "reply_of demo_batch (Some 3) None :: nat run_reply"
  have "\<exists>t :: nat coord_sys. (coord_reach 2 1 t \<and> cs_waiting t = {1} \<and> cs_jobs t = {#demo_job (Ran ?rr)#} \<and> cs_chan t = (\<lambda>_. None) \<and>
      co_pending (cs_co t) = {1})"
    by (rule exI, rule conjI, rule coord_reach.step [OF s(1)],
        rule coord_step.leave [of _ "demo_job (Exec 0)" "{#}" 0 "Some 3" None])
       (use s in \<open>simp_all add: demo_job_def\<close>)
  then obtain t where t: "coord_reach 2 1 t" "cs_waiting t = {1}" "cs_jobs t = {#demo_job (Ran ?rr)#}"
    "cs_chan t = (\<lambda>_. None)" "co_pending (cs_co t) = {1}" by blast
  have "\<exists>u :: nat coord_sys. (coord_reach 2 1 u \<and> cs_waiting u = {1} \<and> cs_jobs u = {#demo_job (Sending [1] ?rr)#} \<and> cs_chan u = (\<lambda>_. None))"
    by (rule exI, rule conjI, rule coord_reach.step [OF t(1)],
        rule coord_step.notify [of _ "demo_job (Ran ?rr)" "{#}" ?rr "[1]" "(cs_co t)\<lparr>co_pending := {}\<rparr>"])
       (use t in \<open>simp_all add: demo_job_def notifyWaiters_def\<close>)
  then obtain u where u: "coord_reach 2 1 u" "cs_waiting u = {1}" "cs_jobs u = {#demo_job (Sending [1] ?rr)#}"
    "cs_chan u = (\<lambda>_. None)" by blast
  have "\<exists>v :: nat coord_sys. (coord_reach 2 1 v \<and> cs_waiting v = {1} \<and> cs_chan v 1 = Some ?rr)"
    by (rule exI, rule conjI, rule coord_reach.step [OF u(1)],
        rule coord_step.send [of _ "demo_job (Sending [1] ?rr)" "{#}" 1 "[]" ?rr])
       (use u in \<open>simp_all add: demo_job_def\<close>)
  then obtain v where v: "coord_reach 2 1 v" "cs_waiting v = {1}" "cs_chan v 1 = Some ?rr" by blast
  show ?thesis
    by (rule exI, rule conjI, rule coord_reach.step [OF v(1)], rule coord_step.receive [of 1 _ ?rr])
       (use v in simp_all)
qed

theorem coord_reply_covers_caller_witness:
  "\<exists>s :: nat coord_sys. coord_reach 2 1 s \<and>
     (\<exists>sub. cs_origin s 1 = Some sub \<and> set (elems (sb_DeliverySeqs sub)) - {0} \<subseteq> {5})"
proof -
  obtain s :: "nat coord_sys" where s: "coord_reach 2 1 s" "(1, reply_of demo_batch (Some 3) None) \<in> cs_answers s"
    using demo_answered by blast
  from coord_reply_covers_caller [OF s] s(1) show ?thesis
    by (auto simp: reply_of_def demo_batch_def demo_sub_def)
qed

text \<open>\<open>Close\<close> does not wait for session runs. There is a reachable state in which \<open>Close\<close> has done its work and
  the counter of submissions it waits for is zero, so it has returned, while an execution of a session is still inside
  the execute function and registered as active.\<close>

theorem close_does_not_wait:
  "\<exists>s :: nat coord_sys. coord_reach 2 1 s \<and> co_closed (cs_co s) \<and> cs_close_sends s = [] \<and>
     co_submissions (cs_co s) = 0 \<and> (\<exists>j \<in># cs_jobs s. jb_key j \<noteq> [] \<and> jb_phase j = Exec 0)"
proof -
  obtain s :: "nat coord_sys" where s: "coord_reach 2 1 s" "cs_waiting s = {1}" "co_pending (cs_co s) = {1}"
    "cs_jobs s = {#demo_job (Exec 0)#}" "cs_chan s = (\<lambda>_. None)" "\<not> co_closed (cs_co s)" "co_submissions (cs_co s) = 1"
    using demo_running by blast
  have "\<exists>t :: nat coord_sys. (coord_reach 2 1 t \<and> cs_waiting t = {1} \<and> cs_jobs t = {#demo_job (Exec 0)#} \<and> cs_chan t = (\<lambda>_. None) \<and>
      cs_close_sends t = [1] \<and> co_closed (cs_co t) \<and> co_submissions (cs_co t) = 1)"
    by (rule exI, rule conjI, rule coord_reach.step [OF s(1)], rule coord_step.close [of _ "[1]" "{#}"])
       (use s in simp_all)
  then obtain t :: "nat coord_sys" where t: "coord_reach 2 1 t" "cs_waiting t = {1}" "cs_jobs t = {#demo_job (Exec 0)#}"
    "cs_chan t = (\<lambda>_. None)" "cs_close_sends t = [1]" "co_closed (cs_co t)" "co_submissions (cs_co t) = 1" by blast
  have "\<exists>u :: nat coord_sys. (coord_reach 2 1 u \<and> cs_waiting u = {1} \<and> cs_jobs u = {#demo_job (Exec 0)#} \<and> cs_chan u 1 = Some closed_reply \<and>
      cs_close_sends u = [] \<and> co_closed (cs_co u) \<and> co_submissions (cs_co u) = 1)"
    by (rule exI, rule conjI, rule coord_reach.step [OF t(1)], rule coord_step.close_send [of _ 1 "[]"])
       (use t in simp_all)
  then obtain u :: "nat coord_sys" where u: "coord_reach 2 1 u" "cs_waiting u = {1}" "cs_jobs u = {#demo_job (Exec 0)#}"
    "cs_chan u 1 = Some closed_reply" "cs_close_sends u = []" "co_closed (cs_co u)" "co_submissions (cs_co u) = 1" by blast
  show ?thesis
    by (rule exI, rule conjI, rule coord_reach.step [OF u(1)], rule coord_step.receive [of 1 _ closed_reply])
       (use u in \<open>simp_all add: demo_job_def\<close>)
qed

text \<open>C20: batching keeps every message and waiter in order. While the coordinator is open, for every session key, the input
  messages of the batches handed to execution so far, followed by those of the pending batch, are the messages of all
  the submissions scheduled for the key, in order; likewise their waiters.\<close>

theorem coord_batches_conserve:
  assumes "coord_reach m w s" "\<not> co_closed (cs_co s)"
  shows "held input_messages (cs_deb s) key = concat (map input_messages (sy_called (cs_deb s) key)) \<and>
         held waiters (cs_deb s) key = concat (map waiters (sy_called (cs_deb s) key))"
proof -
  have "\<not> db_closed (sy_deb (cs_deb s))" and deb: "deb_reach (Some mergeSubmissions) (cs_deb s)"
    using coord_reach_inv [OF assms(1)] assms(2) by (auto simp: coord_inv_def closed_inv_def)
  then show ?thesis
    using message_content.conserved [OF deb] waiter_content.conserved [OF deb] by (simp add: content_def)
qed

theorem coord_batches_conserve_witness:
  "\<exists>s :: nat coord_sys. coord_reach 2 1 s \<and> cs_jobs s = {#demo_job (Exec 0)#} \<and>
     held waiters (cs_deb s) ''1:1:a'' = concat (map waiters (sy_called (cs_deb s) ''1:1:a''))"
  using demo_running coord_batches_conserve [of 2 1] by blast

text \<open>a session key identifies the organisation, the worker and the (trimmed) session, so no two sessions share a
  debounce entry or an active run.\<close>

theorem session_key_injective:
  assumes "sessionKey a = sessionKey b" "sessionKey a \<noteq> []"
  shows "ec_OrgID (sb_EventContext a) = ec_OrgID (sb_EventContext b) \<and>
         ec_WorkerID (sb_EventContext a) = ec_WorkerID (sb_EventContext b) \<and>
         trim_space (ec_SessionID (sb_EventContext a)) = trim_space (ec_SessionID (sb_EventContext b))"
  using assms by (auto simp: sessionKey_def Let_def colon_key_inj colon_key_ne [symmetric] split: if_splits)

theorem session_key_injective_witness:
  "sessionKey (demo_sub '' a'') = sessionKey (demo_sub ''a '') \<and> trim_space '' a'' = trim_space ''a ''"
proof -
  have "sessionKey (demo_sub ''a '') = ''1:1:a''" by code_simp
  with session_key_injective [of "demo_sub '' a''" "demo_sub ''a ''"] demo_key
  show ?thesis by (simp add: demo_sub_def demo_ec_def)
qed

text \<open>merging two submissions for a session keeps both users' input: the prompt text of the merged request is the two
  prompts, the earlier first, separated by a line break when both have text; nothing of the first submission but
  its input, deliveries, waiters and reply targets changes.\<close>

theorem merge_prompt:
  assumes "sb_Request a = Some ra" "sb_Request b = Some rb"
  shows "BuildUserInput (sb_Request (mergeSubmissions a b)) =
      BuildUserInput (sb_Request a) @
      (if BuildUserInput (sb_Request a) = [] \<or> BuildUserInput (sb_Request b) = [] then [] else nl) @
      BuildUserInput (sb_Request b) \<and>
    (\<exists>rm. sb_Request (mergeSubmissions a b) = Some rm \<and> rm\<lparr>rq_Input := rq_Input ra\<rparr> = ra) \<and>
    distinct (elems (sb_DeliverySeqs (mergeSubmissions a b)))"
  using assms merge_deliveries(2) [of a b]
  by (simp add: BuildUserInput_alt mergeSubmissions_def merge_request_def Let_def input_lines_append join_append)

definition demo_request :: "string \<Rightarrow> run_request" where
  "demo_request text = zero_request\<lparr>rq_Input := \<lparr>di_Type = [], di_Messages = Some [\<lparr>dm_Role = [], dm_Content = text\<rparr>],
     di_Attachments = None\<rparr>\<rparr>"

theorem merge_prompt_witness:
  "BuildUserInput (sb_Request (mergeSubmissions (demo_batch\<lparr>sb_Request := Some (demo_request ''hi'')\<rparr>)
     (demo_batch\<lparr>sb_Request := Some (demo_request ''there'')\<rparr>))) = ''user: hi'' @ nl @ ''user: there''"
proof -
  have "BuildUserInput (Some (demo_request ''hi'')) = ''user: hi''"
    "BuildUserInput (Some (demo_request ''there'')) = ''user: there''" by code_simp+
  then show ?thesis
    using merge_prompt [of "demo_batch\<lparr>sb_Request := Some (demo_request ''hi'')\<rparr>" "demo_request ''hi''"
        "demo_batch\<lparr>sb_Request := Some (demo_request ''there'')\<rparr>" "demo_request ''there''"] by simp
qed

end
