(* ===== verification/RunEvents.thy ===== *)
theory RunEvents
  imports Commands
begin

text \<open>
  The run events a worker publishes (\<open>backend/pkg/messaging/event.go\<close>): a record per struct, with its JSON form.
  The body of a run event is what the projectors on the server read, so the lemma that matters is that
  the body decoded from the wire is the body that was sent.
\<close>

lemma fold_event_keys [simp]:
  "fold_key ''input_tokens'' = ''input_tokens''"
  "fold_key ''output_tokens'' = ''output_tokens''"
  "fold_key ''total_tokens'' = ''total_tokens''"
  "fold_key ''tool_call_id'' = ''tool_call_id''"
  "fold_key ''arguments'' = ''arguments''"
  "fold_key ''result'' = ''result''"
  "fold_key ''error'' = ''error''"
  "fold_key ''is_error'' = ''is_error''"
  "fold_key ''elapsed_ms'' = ''elapsed_ms''"
  "fold_key ''title'' = ''title''"
  "fold_key ''status'' = ''status''"
  "fold_key ''priority'' = ''priority''"
  "fold_key ''artifact_id'' = ''artifact_id''"
  "fold_key ''filename'' = ''filename''"
  "fold_key ''original_name'' = ''original_name''"
  "fold_key ''description'' = ''description''"
  "fold_key ''artifact_type'' = ''artifact_type''"
  "fold_key ''file_size'' = ''file_size''"
  "fold_key ''relative_path'' = ''relative_path''"
  "fold_key ''storage_key'' = ''storage_key''"
  "fold_key ''storage_uri'' = ''storage_uri''"
  "fold_key ''sha256'' = ''sha256''"
  "fold_key ''request_id'' = ''request_id''"
  "fold_key ''tool_name'' = ''tool_name''"
  "fold_key ''metadata'' = ''metadata''"
  "fold_key ''file_path'' = ''file_path''"
  "fold_key ''label'' = ''label''"
  "fold_key ''question'' = ''question''"
  "fold_key ''header'' = ''header''"
  "fold_key ''options'' = ''options''"
  "fold_key ''multiple'' = ''multiple''"
  "fold_key ''custom'' = ''custom''"
  "fold_key ''questions'' = ''questions''"
  "fold_key ''message_id'' = ''message_id''"
  "fold_key ''interaction_type'' = ''interaction_type''"
  "fold_key ''plan'' = ''plan''"
  "fold_key ''project_name'' = ''project_name''"
  "fold_key ''task_title'' = ''task_title''"
  "fold_key ''session_title'' = ''session_title''"
  "fold_key ''code'' = ''code''"
  "fold_key ''message'' = ''message''"
  "fold_key ''provider_id'' = ''provider_id''"
  "fold_key ''phase'' = ''phase''"
  "fold_key ''resume'' = ''resume''"
  "fold_key ''seq'' = ''seq''"
  "fold_key ''last_seq'' = ''last_seq''"
  "fold_key ''timestamp'' = ''timestamp''"
  "fold_key ''payload'' = ''payload''"
  "fold_key ''artifacts'' = ''artifacts''"
  "fold_key ''usage'' = ''usage''"
  "fold_key ''events'' = ''events''"
  "fold_key ''started_at'' = ''started_at''"
  "fold_key ''completed_at'' = ''completed_at''"
  "fold_key ''tool_call'' = ''tool_call''"
  "fold_key ''tool_result'' = ''tool_result''"
  "fold_key ''todos'' = ''todos''"
  "fold_key ''artifact'' = ''artifact''"
  "fold_key ''approval_request'' = ''approval_request''"
  "fold_key ''approval_decision'' = ''approval_decision''"
  "fold_key ''question_request'' = ''question_request''"
  "fold_key ''question_answer'' = ''question_answer''"
  "fold_key ''work_title'' = ''work_title''"
  "fold_key ''event'' = ''event''"
  "fold_key ''reply_to_message_ids'' = ''reply_to_message_ids''"
  "fold_key ''run_completed'' = ''run_completed''"
  by code_simp+

record m_usage =
  mu_input_tokens :: int
  mu_output_tokens :: int
  mu_total_tokens :: int

definition enc_m_usage :: "m_usage \<Rightarrow> obj" where
  "enc_m_usage x =
     put ''input_tokens'' (int_ne (mu_input_tokens x)) @
     put ''output_tokens'' (int_ne (mu_output_tokens x)) @
     put ''total_tokens'' (int_ne (mu_total_tokens x))"

definition dec_m_usage :: "obj \<Rightarrow> m_usage option" where
  "dec_m_usage kvs = do {
     input_tokens' \<leftarrow> get_int ''input_tokens'' kvs;
     output_tokens' \<leftarrow> get_int ''output_tokens'' kvs;
     total_tokens' \<leftarrow> get_int ''total_tokens'' kvs;
     Some \<lparr>mu_input_tokens = input_tokens', mu_output_tokens = output_tokens', mu_total_tokens =
       total_tokens'\<rparr> }"

definition wf_m_usage :: "m_usage \<Rightarrow> bool" where
  "wf_m_usage x \<longleftrightarrow>
     int64_range (mu_input_tokens x) \<and>
     int64_range (mu_output_tokens x) \<and>
     int64_range (mu_total_tokens x)"

lemma dec_enc_m_usage [simp]: "wf_m_usage x \<Longrightarrow> dec_m_usage (enc_m_usage x) = Some x"
  by (cases x) (auto simp: enc_m_usage_def dec_m_usage_def get_defs wf_m_usage_def split: option.splits)

record m_tool_call =
  mtc_id :: string
  mtc_name :: string
  mtc_arguments :: raw

definition enc_m_tool_call :: "m_tool_call \<Rightarrow> obj" where
  "enc_m_tool_call x =
     put ''tool_call_id'' [JStr (mtc_id x)] @
     put ''name'' [JStr (mtc_name x)] @
     put ''arguments'' (raw_ne (mtc_arguments x))"

definition dec_m_tool_call :: "obj \<Rightarrow> m_tool_call option" where
  "dec_m_tool_call kvs = do {
     id' \<leftarrow> get_str ''tool_call_id'' kvs;
     name' \<leftarrow> get_str ''name'' kvs;
     arguments' \<leftarrow> get_raw ''arguments'' kvs;
     Some \<lparr>mtc_id = id', mtc_name = name', mtc_arguments = arguments'\<rparr> }"

definition wf_m_tool_call :: "m_tool_call \<Rightarrow> bool" where
  "wf_m_tool_call x \<longleftrightarrow>
     raw_ok (mtc_arguments x)"

lemma dec_enc_m_tool_call [simp]: "wf_m_tool_call x \<Longrightarrow> dec_m_tool_call (enc_m_tool_call
       x) = Some x"
  by (cases x) (auto simp: enc_m_tool_call_def dec_m_tool_call_def get_defs wf_m_tool_call_def split:
       option.splits)

record m_tool_result =
  mtr_id :: string
  mtr_name :: string
  mtr_result :: raw
  mtr_error :: string
  mtr_is_error :: bool
  mtr_elapsed_ms :: int

definition enc_m_tool_result :: "m_tool_result \<Rightarrow> obj" where
  "enc_m_tool_result x =
     put ''tool_call_id'' [JStr (mtr_id x)] @
     put ''name'' (str_ne (mtr_name x)) @
     put ''result'' (raw_ne (mtr_result x)) @
     put ''error'' (str_ne (mtr_error x)) @
     put ''is_error'' [JBool (mtr_is_error x)] @
     put ''elapsed_ms'' (int_ne (mtr_elapsed_ms x))"

definition dec_m_tool_result :: "obj \<Rightarrow> m_tool_result option" where
  "dec_m_tool_result kvs = do {
     id' \<leftarrow> get_str ''tool_call_id'' kvs;
     name' \<leftarrow> get_str ''name'' kvs;
     result' \<leftarrow> get_raw ''result'' kvs;
     error' \<leftarrow> get_str ''error'' kvs;
     is_error' \<leftarrow> get_bool ''is_error'' kvs;
     elapsed_ms' \<leftarrow> get_int ''elapsed_ms'' kvs;
     Some \<lparr>mtr_id = id', mtr_name = name', mtr_result = result', mtr_error = error',
       mtr_is_error = is_error', mtr_elapsed_ms = elapsed_ms'\<rparr> }"

definition wf_m_tool_result :: "m_tool_result \<Rightarrow> bool" where
  "wf_m_tool_result x \<longleftrightarrow>
     raw_ok (mtr_result x) \<and>
     int64_range (mtr_elapsed_ms x)"

lemma dec_enc_m_tool_result [simp]: "wf_m_tool_result x \<Longrightarrow> dec_m_tool_result
       (enc_m_tool_result x) = Some x"
  by (cases x) (auto simp: enc_m_tool_result_def dec_m_tool_result_def get_defs wf_m_tool_result_def
       split: option.splits)

record m_todo_item =
  mtd_id :: string
  mtd_title :: string
  mtd_status :: string
  mtd_priority :: string

definition enc_m_todo_item :: "m_todo_item \<Rightarrow> obj" where
  "enc_m_todo_item x =
     put ''id'' [JStr (mtd_id x)] @
     put ''title'' [JStr (mtd_title x)] @
     put ''status'' [JStr (mtd_status x)] @
     put ''priority'' (str_ne (mtd_priority x))"

definition dec_m_todo_item :: "obj \<Rightarrow> m_todo_item option" where
  "dec_m_todo_item kvs = do {
     id' \<leftarrow> get_str ''id'' kvs;
     title' \<leftarrow> get_str ''title'' kvs;
     status' \<leftarrow> get_str ''status'' kvs;
     priority' \<leftarrow> get_str ''priority'' kvs;
     Some \<lparr>mtd_id = id', mtd_title = title', mtd_status = status', mtd_priority =
       priority'\<rparr> }"

lemma dec_enc_m_todo_item [simp]: "dec_m_todo_item (enc_m_todo_item x) = Some x"
  by (cases x) (auto simp: enc_m_todo_item_def dec_m_todo_item_def get_defs split: option.splits)

record m_artifact =
  maf_artifact_id :: string
  maf_title :: string
  maf_filename :: string
  maf_original_name :: string
  maf_description :: string
  maf_mime_type :: string
  maf_artifact_type :: string
  maf_file_size :: int
  maf_relative_path :: string
  maf_storage_key :: string
  maf_storage_uri :: string
  maf_sha256 :: string
  maf_source :: string
  maf_status :: string

definition enc_m_artifact :: "m_artifact \<Rightarrow> obj" where
  "enc_m_artifact x =
     put ''artifact_id'' (str_ne (maf_artifact_id x)) @
     put ''title'' (str_ne (maf_title x)) @
     put ''filename'' (str_ne (maf_filename x)) @
     put ''original_name'' (str_ne (maf_original_name x)) @
     put ''description'' (str_ne (maf_description x)) @
     put ''mime_type'' (str_ne (maf_mime_type x)) @
     put ''artifact_type'' (str_ne (maf_artifact_type x)) @
     put ''file_size'' (int_ne (maf_file_size x)) @
     put ''relative_path'' (str_ne (maf_relative_path x)) @
     put ''storage_key'' (str_ne (maf_storage_key x)) @
     put ''storage_uri'' (str_ne (maf_storage_uri x)) @
     put ''sha256'' (str_ne (maf_sha256 x)) @
     put ''source'' (str_ne (maf_source x)) @
     put ''status'' (str_ne (maf_status x))"

definition dec_m_artifact :: "obj \<Rightarrow> m_artifact option" where
  "dec_m_artifact kvs = do {
     artifact_id' \<leftarrow> get_str ''artifact_id'' kvs;
     title' \<leftarrow> get_str ''title'' kvs;
     filename' \<leftarrow> get_str ''filename'' kvs;
     original_name' \<leftarrow> get_str ''original_name'' kvs;
     description' \<leftarrow> get_str ''description'' kvs;
     mime_type' \<leftarrow> get_str ''mime_type'' kvs;
     artifact_type' \<leftarrow> get_str ''artifact_type'' kvs;
     file_size' \<leftarrow> get_int ''file_size'' kvs;
     relative_path' \<leftarrow> get_str ''relative_path'' kvs;
     storage_key' \<leftarrow> get_str ''storage_key'' kvs;
     storage_uri' \<leftarrow> get_str ''storage_uri'' kvs;
     sha256' \<leftarrow> get_str ''sha256'' kvs;
     source' \<leftarrow> get_str ''source'' kvs;
     status' \<leftarrow> get_str ''status'' kvs;
     Some \<lparr>maf_artifact_id = artifact_id', maf_title = title', maf_filename = filename',
       maf_original_name = original_name', maf_description = description', maf_mime_type = mime_type',
       maf_artifact_type = artifact_type', maf_file_size = file_size', maf_relative_path =
       relative_path', maf_storage_key = storage_key', maf_storage_uri = storage_uri', maf_sha256 =
       sha256', maf_source = source', maf_status = status'\<rparr> }"

definition wf_m_artifact :: "m_artifact \<Rightarrow> bool" where
  "wf_m_artifact x \<longleftrightarrow>
     int64_range (maf_file_size x)"

lemma dec_enc_m_artifact [simp]: "wf_m_artifact x \<Longrightarrow> dec_m_artifact (enc_m_artifact x) =
       Some x"
  by (cases x) (auto simp: enc_m_artifact_def dec_m_artifact_def get_defs wf_m_artifact_def split:
       option.splits)

record m_approval_request =
  mar_request_id :: string
  mar_tool_name :: string
  mar_tool_call_id :: string
  mar_description :: string
  mar_arguments :: raw
  mar_metadata :: "(string \<times> string) list"

definition enc_m_approval_request :: "m_approval_request \<Rightarrow> obj" where
  "enc_m_approval_request x =
     put ''request_id'' [JStr (mar_request_id x)] @
     put ''tool_name'' [JStr (mar_tool_name x)] @
     put ''tool_call_id'' (str_ne (mar_tool_call_id x)) @
     put ''description'' [JStr (mar_description x)] @
     put ''arguments'' (raw_ne (mar_arguments x)) @
     put ''metadata'' (strmap_ne (mar_metadata x))"

definition dec_m_approval_request :: "obj \<Rightarrow> m_approval_request option" where
  "dec_m_approval_request kvs = do {
     request_id' \<leftarrow> get_str ''request_id'' kvs;
     tool_name' \<leftarrow> get_str ''tool_name'' kvs;
     tool_call_id' \<leftarrow> get_str ''tool_call_id'' kvs;
     description' \<leftarrow> get_str ''description'' kvs;
     arguments' \<leftarrow> get_raw ''arguments'' kvs;
     metadata' \<leftarrow> get_strmap ''metadata'' kvs;
     Some \<lparr>mar_request_id = request_id', mar_tool_name = tool_name', mar_tool_call_id =
       tool_call_id', mar_description = description', mar_arguments = arguments', mar_metadata =
       metadata'\<rparr> }"

definition wf_m_approval_request :: "m_approval_request \<Rightarrow> bool" where
  "wf_m_approval_request x \<longleftrightarrow>
     raw_ok (mar_arguments x) \<and>
     distinct (map fst (mar_metadata x))"

lemma dec_enc_m_approval_request [simp]: "wf_m_approval_request x \<Longrightarrow>
       dec_m_approval_request (enc_m_approval_request x) = Some x"
  by (cases x) (auto simp: enc_m_approval_request_def dec_m_approval_request_def get_defs
       wf_m_approval_request_def split: option.splits)

record m_approval_decision =
  mad_request_id :: string
  mad_action :: string
  mad_reason :: string

definition enc_m_approval_decision :: "m_approval_decision \<Rightarrow> obj" where
  "enc_m_approval_decision x =
     put ''request_id'' [JStr (mad_request_id x)] @
     put ''action'' [JStr (mad_action x)] @
     put ''reason'' (str_ne (mad_reason x))"

definition dec_m_approval_decision :: "obj \<Rightarrow> m_approval_decision option" where
  "dec_m_approval_decision kvs = do {
     request_id' \<leftarrow> get_str ''request_id'' kvs;
     action' \<leftarrow> get_str ''action'' kvs;
     reason' \<leftarrow> get_str ''reason'' kvs;
     Some \<lparr>mad_request_id = request_id', mad_action = action', mad_reason = reason'\<rparr> }"

lemma dec_enc_m_approval_decision [simp]: "dec_m_approval_decision (enc_m_approval_decision x) = Some x"
  by (cases x) (auto simp: enc_m_approval_decision_def dec_m_approval_decision_def get_defs split:
       option.splits)

record m_plan =
  mpl_content :: string
  mpl_file_path :: string
  mpl_error :: string

definition enc_m_plan :: "m_plan \<Rightarrow> obj" where
  "enc_m_plan x =
     put ''content'' (str_ne (mpl_content x)) @
     put ''file_path'' (str_ne (mpl_file_path x)) @
     put ''error'' (str_ne (mpl_error x))"

definition dec_m_plan :: "obj \<Rightarrow> m_plan option" where
  "dec_m_plan kvs = do {
     content' \<leftarrow> get_str ''content'' kvs;
     file_path' \<leftarrow> get_str ''file_path'' kvs;
     error' \<leftarrow> get_str ''error'' kvs;
     Some \<lparr>mpl_content = content', mpl_file_path = file_path', mpl_error = error'\<rparr> }"

lemma dec_enc_m_plan [simp]: "dec_m_plan (enc_m_plan x) = Some x"
  by (cases x) (auto simp: enc_m_plan_def dec_m_plan_def get_defs split: option.splits)

record m_question_option =
  mqo_label :: string
  mqo_description :: string

definition enc_m_question_option :: "m_question_option \<Rightarrow> obj" where
  "enc_m_question_option x =
     put ''label'' [JStr (mqo_label x)] @
     put ''description'' (str_ne (mqo_description x))"

definition dec_m_question_option :: "obj \<Rightarrow> m_question_option option" where
  "dec_m_question_option kvs = do {
     label' \<leftarrow> get_str ''label'' kvs;
     description' \<leftarrow> get_str ''description'' kvs;
     Some \<lparr>mqo_label = label', mqo_description = description'\<rparr> }"

lemma dec_enc_m_question_option [simp]: "dec_m_question_option (enc_m_question_option x) = Some x"
  by (cases x) (auto simp: enc_m_question_option_def dec_m_question_option_def get_defs split:
       option.splits)

record m_question_item =
  mqi_question :: string
  mqi_header :: string
  mqi_options :: "m_question_option slice"
  mqi_multiple :: bool
  mqi_custom :: bool

definition enc_m_question_item :: "m_question_item \<Rightarrow> obj" where
  "enc_m_question_item x =
     put ''question'' [JStr (mqi_question x)] @
     put ''header'' (str_ne (mqi_header x)) @
     put ''options'' [slice_json (\<lambda>y. JObj (enc_m_question_option y)) (mqi_options x)] @
     put ''multiple'' [JBool (mqi_multiple x)] @
     put ''custom'' [JBool (mqi_custom x)]"

definition dec_m_question_item :: "obj \<Rightarrow> m_question_item option" where
  "dec_m_question_item kvs = do {
     question' \<leftarrow> get_str ''question'' kvs;
     header' \<leftarrow> get_str ''header'' kvs;
     options' \<leftarrow> get_slice (dec_struct dec_m_question_option) ''options'' kvs;
     multiple' \<leftarrow> get_bool ''multiple'' kvs;
     custom' \<leftarrow> get_bool ''custom'' kvs;
     Some \<lparr>mqi_question = question', mqi_header = header', mqi_options = options', mqi_multiple
       = multiple', mqi_custom = custom'\<rparr> }"

lemma dec_enc_m_question_item [simp]: "dec_m_question_item (enc_m_question_item x) = Some x"
  by (cases x) (auto simp: enc_m_question_item_def dec_m_question_item_def get_defs read_slice_json
       dec_enc_m_question_option split: option.splits)

record m_question_request =
  mqr_request_id :: string
  mqr_session_id :: string
  mqr_questions :: "m_question_item slice"
  mqr_tool_call_id :: string
  mqr_message_id :: string
  mqr_interaction_type :: string
  mqr_plan :: "m_plan option"
  mqr_metadata :: "(string \<times> string) list"

definition enc_m_question_request :: "m_question_request \<Rightarrow> obj" where
  "enc_m_question_request x =
     put ''request_id'' [JStr (mqr_request_id x)] @
     put ''session_id'' (str_ne (mqr_session_id x)) @
     put ''questions'' [slice_json (\<lambda>y. JObj (enc_m_question_item y)) (mqr_questions x)] @
     put ''tool_call_id'' (str_ne (mqr_tool_call_id x)) @
     put ''message_id'' (str_ne (mqr_message_id x)) @
     put ''interaction_type'' (str_ne (mqr_interaction_type x)) @
     put ''plan'' (ptr_ne (\<lambda>y. JObj (enc_m_plan y)) (mqr_plan x)) @
     put ''metadata'' (strmap_ne (mqr_metadata x))"

definition dec_m_question_request :: "obj \<Rightarrow> m_question_request option" where
  "dec_m_question_request kvs = do {
     request_id' \<leftarrow> get_str ''request_id'' kvs;
     session_id' \<leftarrow> get_str ''session_id'' kvs;
     questions' \<leftarrow> get_slice (dec_struct dec_m_question_item) ''questions'' kvs;
     tool_call_id' \<leftarrow> get_str ''tool_call_id'' kvs;
     message_id' \<leftarrow> get_str ''message_id'' kvs;
     interaction_type' \<leftarrow> get_str ''interaction_type'' kvs;
     plan' \<leftarrow> get_ptr dec_m_plan ''plan'' kvs;
     metadata' \<leftarrow> get_strmap ''metadata'' kvs;
     Some \<lparr>mqr_request_id = request_id', mqr_session_id = session_id', mqr_questions =
       questions', mqr_tool_call_id = tool_call_id', mqr_message_id = message_id', mqr_interaction_type
       = interaction_type', mqr_plan = plan', mqr_metadata = metadata'\<rparr> }"

definition wf_m_question_request :: "m_question_request \<Rightarrow> bool" where
  "wf_m_question_request x \<longleftrightarrow>
     distinct (map fst (mqr_metadata x))"

lemma dec_enc_m_question_request [simp]: "wf_m_question_request x \<Longrightarrow>
       dec_m_question_request (enc_m_question_request x) = Some x"
  by (cases x) (auto simp: enc_m_question_request_def dec_m_question_request_def get_defs
       wf_m_question_request_def read_slice_json dec_enc_m_question_item dec_enc_m_plan split:
       option.splits)

record m_question_answer =
  mqa_request_id :: string
  mqa_answers :: "string slice slice"

definition enc_m_question_answer :: "m_question_answer \<Rightarrow> obj" where
  "enc_m_question_answer x =
     put ''request_id'' [JStr (mqa_request_id x)] @
     put ''answers'' [slice_json (slice_json JStr) (mqa_answers x)]"

definition dec_m_question_answer :: "obj \<Rightarrow> m_question_answer option" where
  "dec_m_question_answer kvs = do {
     request_id' \<leftarrow> get_str ''request_id'' kvs;
     answers' \<leftarrow> get_slice (dec_slice dec_str) ''answers'' kvs;
     Some \<lparr>mqa_request_id = request_id', mqa_answers = answers'\<rparr> }"

lemma dec_enc_m_question_answer [simp]: "dec_m_question_answer (enc_m_question_answer x) = Some x"
  by (cases x) (auto simp: enc_m_question_answer_def dec_m_question_answer_def get_defs read_slice_json
       dec_slice_json split: option.splits)

record m_work_title =
  mwt_project_id :: string
  mwt_project_name :: string
  mwt_task_id :: string
  mwt_task_title :: string
  mwt_session_id :: string
  mwt_session_title :: string

definition enc_m_work_title :: "m_work_title \<Rightarrow> obj" where
  "enc_m_work_title x =
     put ''project_id'' [JStr (mwt_project_id x)] @
     put ''project_name'' [JStr (mwt_project_name x)] @
     put ''task_id'' (str_ne (mwt_task_id x)) @
     put ''task_title'' (str_ne (mwt_task_title x)) @
     put ''session_id'' [JStr (mwt_session_id x)] @
     put ''session_title'' (str_ne (mwt_session_title x))"

definition dec_m_work_title :: "obj \<Rightarrow> m_work_title option" where
  "dec_m_work_title kvs = do {
     project_id' \<leftarrow> get_str ''project_id'' kvs;
     project_name' \<leftarrow> get_str ''project_name'' kvs;
     task_id' \<leftarrow> get_str ''task_id'' kvs;
     task_title' \<leftarrow> get_str ''task_title'' kvs;
     session_id' \<leftarrow> get_str ''session_id'' kvs;
     session_title' \<leftarrow> get_str ''session_title'' kvs;
     Some \<lparr>mwt_project_id = project_id', mwt_project_name = project_name', mwt_task_id =
       task_id', mwt_task_title = task_title', mwt_session_id = session_id', mwt_session_title =
       session_title'\<rparr> }"

lemma dec_enc_m_work_title [simp]: "dec_m_work_title (enc_m_work_title x) = Some x"
  by (cases x) (auto simp: enc_m_work_title_def dec_m_work_title_def get_defs split: option.splits)

record m_run_event_error =
  me_code :: string
  me_message :: string

definition enc_m_run_event_error :: "m_run_event_error \<Rightarrow> obj" where
  "enc_m_run_event_error x =
     put ''code'' (str_ne (me_code x)) @
     put ''message'' [JStr (me_message x)]"

definition dec_m_run_event_error :: "obj \<Rightarrow> m_run_event_error option" where
  "dec_m_run_event_error kvs = do {
     code' \<leftarrow> get_str ''code'' kvs;
     message' \<leftarrow> get_str ''message'' kvs;
     Some \<lparr>me_code = code', me_message = message'\<rparr> }"

lemma dec_enc_m_run_event_error [simp]: "dec_m_run_event_error (enc_m_run_event_error x) = Some x"
  by (cases x) (auto simp: enc_m_run_event_error_def dec_m_run_event_error_def get_defs split:
       option.splits)

record m_run_metadata =
  mm_runtime :: string
  mm_work_dir :: string
  mm_provider_id :: string
  mm_session_id :: string
  mm_phase :: string
  mm_resume :: bool

definition enc_m_run_metadata :: "m_run_metadata \<Rightarrow> obj" where
  "enc_m_run_metadata x =
     put ''runtime'' (str_ne (mm_runtime x)) @
     put ''work_dir'' (str_ne (mm_work_dir x)) @
     put ''provider_id'' (str_ne (mm_provider_id x)) @
     put ''session_id'' (str_ne (mm_session_id x)) @
     put ''phase'' (str_ne (mm_phase x)) @
     put ''resume'' (bool_ne (mm_resume x))"

definition dec_m_run_metadata :: "obj \<Rightarrow> m_run_metadata option" where
  "dec_m_run_metadata kvs = do {
     runtime' \<leftarrow> get_str ''runtime'' kvs;
     work_dir' \<leftarrow> get_str ''work_dir'' kvs;
     provider_id' \<leftarrow> get_str ''provider_id'' kvs;
     session_id' \<leftarrow> get_str ''session_id'' kvs;
     phase' \<leftarrow> get_str ''phase'' kvs;
     resume' \<leftarrow> get_bool ''resume'' kvs;
     Some \<lparr>mm_runtime = runtime', mm_work_dir = work_dir', mm_provider_id = provider_id',
       mm_session_id = session_id', mm_phase = phase', mm_resume = resume'\<rparr> }"

lemma dec_enc_m_run_metadata [simp]: "dec_m_run_metadata (enc_m_run_metadata x) = Some x"
  by (cases x) (auto simp: enc_m_run_metadata_def dec_m_run_metadata_def get_defs split: option.splits)

record m_run_result =
  ms_message :: string

definition enc_m_run_result :: "m_run_result \<Rightarrow> obj" where
  "enc_m_run_result x =
     put ''message'' (str_ne (ms_message x))"

definition dec_m_run_result :: "obj \<Rightarrow> m_run_result option" where
  "dec_m_run_result kvs = do {
     message' \<leftarrow> get_str ''message'' kvs;
     Some \<lparr>ms_message = message'\<rparr> }"

lemma dec_enc_m_run_result [simp]: "dec_m_run_result (enc_m_run_result x) = Some x"
  by (cases x) (auto simp: enc_m_run_result_def dec_m_run_result_def get_defs split: option.splits)

record m_run_event_record =
  mr_seq :: int
  mr_last_seq :: int
  mr_type :: string
  mr_timestamp :: int
  mr_payload :: raw

definition enc_m_run_event_record :: "m_run_event_record \<Rightarrow> obj" where
  "enc_m_run_event_record x =
     put ''seq'' (int_ne (mr_seq x)) @
     put ''last_seq'' (int_ne (mr_last_seq x)) @
     put ''type'' [JStr (mr_type x)] @
     put ''timestamp'' (int_ne (mr_timestamp x)) @
     put ''payload'' (raw_ne (mr_payload x))"

definition dec_m_run_event_record :: "obj \<Rightarrow> m_run_event_record option" where
  "dec_m_run_event_record kvs = do {
     seq' \<leftarrow> get_int ''seq'' kvs;
     last_seq' \<leftarrow> get_int ''last_seq'' kvs;
     type' \<leftarrow> get_str ''type'' kvs;
     timestamp' \<leftarrow> get_int ''timestamp'' kvs;
     payload' \<leftarrow> get_raw ''payload'' kvs;
     Some \<lparr>mr_seq = seq', mr_last_seq = last_seq', mr_type = type', mr_timestamp = timestamp',
       mr_payload = payload'\<rparr> }"

definition wf_m_run_event_record :: "m_run_event_record \<Rightarrow> bool" where
  "wf_m_run_event_record x \<longleftrightarrow>
     int64_range (mr_seq x) \<and>
     int64_range (mr_last_seq x) \<and>
     int64_range (mr_timestamp x) \<and>
     raw_ok (mr_payload x)"

lemma dec_enc_m_run_event_record [simp]: "wf_m_run_event_record x \<Longrightarrow>
       dec_m_run_event_record (enc_m_run_event_record x) = Some x"
  by (cases x) (auto simp: enc_m_run_event_record_def dec_m_run_event_record_def get_defs
       wf_m_run_event_record_def split: option.splits)

record m_run_completed =
  mc_status :: string
  mc_result :: m_run_result
  mc_artifacts :: "m_artifact list"
  mc_usage :: "m_usage option"
  mc_events :: "m_run_event_record list"
  mc_started_at :: string
  mc_completed_at :: string
  mc_metadata :: "m_run_metadata option"

definition enc_m_run_completed :: "m_run_completed \<Rightarrow> obj" where
  "enc_m_run_completed x =
     put ''status'' [JStr (mc_status x)] @
     put ''result'' [JObj (enc_m_run_result (mc_result x))] @
     put ''artifacts'' (list_ne (\<lambda>y. JObj (enc_m_artifact y)) (mc_artifacts x)) @
     put ''usage'' (ptr_ne (\<lambda>y. JObj (enc_m_usage y)) (mc_usage x)) @
     put ''events'' (list_ne (\<lambda>y. JObj (enc_m_run_event_record y)) (mc_events x)) @
     put ''started_at'' (str_ne (mc_started_at x)) @
     put ''completed_at'' (str_ne (mc_completed_at x)) @
     put ''metadata'' (ptr_ne (\<lambda>y. JObj (enc_m_run_metadata y)) (mc_metadata x))"

definition dec_m_run_completed :: "obj \<Rightarrow> m_run_completed option" where
  "dec_m_run_completed kvs = do {
     status' \<leftarrow> get_str ''status'' kvs;
     result' \<leftarrow> get_sub dec_m_run_result ''result'' kvs;
     artifacts' \<leftarrow> map_option elems (get_slice (dec_struct dec_m_artifact) ''artifacts'' kvs);
     usage' \<leftarrow> get_ptr dec_m_usage ''usage'' kvs;
     events' \<leftarrow> map_option elems (get_slice (dec_struct dec_m_run_event_record) ''events'' kvs);
     started_at' \<leftarrow> get_str ''started_at'' kvs;
     completed_at' \<leftarrow> get_str ''completed_at'' kvs;
     metadata' \<leftarrow> get_ptr dec_m_run_metadata ''metadata'' kvs;
     Some \<lparr>mc_status = status', mc_result = result', mc_artifacts = artifacts', mc_usage =
       usage', mc_events = events', mc_started_at = started_at', mc_completed_at = completed_at',
       mc_metadata = metadata'\<rparr> }"

definition wf_m_run_completed :: "m_run_completed \<Rightarrow> bool" where
  "wf_m_run_completed x \<longleftrightarrow>
     (\<forall>y \<in> set (mc_artifacts x). wf_m_artifact y) \<and>
     (\<forall>y \<in> set_option (mc_usage x). wf_m_usage y) \<and>
     (\<forall>y \<in> set (mc_events x). wf_m_run_event_record y)"

lemma dec_enc_m_run_completed [simp]: "wf_m_run_completed x \<Longrightarrow> dec_m_run_completed
       (enc_m_run_completed x) = Some x"
  by (cases x) (auto simp: enc_m_run_completed_def dec_m_run_completed_def get_defs
       wf_m_run_completed_def read_list_ne dec_enc_m_run_result dec_enc_m_artifact dec_enc_m_usage
       dec_enc_m_run_event_record dec_enc_m_run_metadata split: option.splits)

record run_event_payload =
  rp_message_id :: string
  rp_role :: string
  rp_content :: string
  rp_usage :: "m_usage option"
  rp_tool_call :: "m_tool_call option"
  rp_tool_result :: "m_tool_result option"
  rp_todos :: "m_todo_item list"
  rp_artifact :: "m_artifact option"
  rp_approval_request :: "m_approval_request option"
  rp_approval_decision :: "m_approval_decision option"
  rp_question_request :: "m_question_request option"
  rp_question_answer :: "m_question_answer option"
  rp_work_title :: "m_work_title option"

definition enc_run_event_payload :: "run_event_payload \<Rightarrow> obj" where
  "enc_run_event_payload x =
     put ''message_id'' (str_ne (rp_message_id x)) @
     put ''role'' (str_ne (rp_role x)) @
     put ''content'' (str_ne (rp_content x)) @
     put ''usage'' (ptr_ne (\<lambda>y. JObj (enc_m_usage y)) (rp_usage x)) @
     put ''tool_call'' (ptr_ne (\<lambda>y. JObj (enc_m_tool_call y)) (rp_tool_call x)) @
     put ''tool_result'' (ptr_ne (\<lambda>y. JObj (enc_m_tool_result y)) (rp_tool_result x)) @
     put ''todos'' (list_ne (\<lambda>y. JObj (enc_m_todo_item y)) (rp_todos x)) @
     put ''artifact'' (ptr_ne (\<lambda>y. JObj (enc_m_artifact y)) (rp_artifact x)) @
     put ''approval_request'' (ptr_ne (\<lambda>y. JObj (enc_m_approval_request y)) (rp_approval_request x)) @
     put ''approval_decision'' (ptr_ne (\<lambda>y. JObj (enc_m_approval_decision y)) (rp_approval_decision x)) @
     put ''question_request'' (ptr_ne (\<lambda>y. JObj (enc_m_question_request y)) (rp_question_request x)) @
     put ''question_answer'' (ptr_ne (\<lambda>y. JObj (enc_m_question_answer y)) (rp_question_answer x)) @
     put ''work_title'' (ptr_ne (\<lambda>y. JObj (enc_m_work_title y)) (rp_work_title x))"

definition dec_run_event_payload :: "obj \<Rightarrow> run_event_payload option" where
  "dec_run_event_payload kvs = do {
     message_id' \<leftarrow> get_str ''message_id'' kvs;
     role' \<leftarrow> get_str ''role'' kvs;
     content' \<leftarrow> get_str ''content'' kvs;
     usage' \<leftarrow> get_ptr dec_m_usage ''usage'' kvs;
     tool_call' \<leftarrow> get_ptr dec_m_tool_call ''tool_call'' kvs;
     tool_result' \<leftarrow> get_ptr dec_m_tool_result ''tool_result'' kvs;
     todos' \<leftarrow> map_option elems (get_slice (dec_struct dec_m_todo_item) ''todos'' kvs);
     artifact' \<leftarrow> get_ptr dec_m_artifact ''artifact'' kvs;
     approval_request' \<leftarrow> get_ptr dec_m_approval_request ''approval_request'' kvs;
     approval_decision' \<leftarrow> get_ptr dec_m_approval_decision ''approval_decision'' kvs;
     question_request' \<leftarrow> get_ptr dec_m_question_request ''question_request'' kvs;
     question_answer' \<leftarrow> get_ptr dec_m_question_answer ''question_answer'' kvs;
     work_title' \<leftarrow> get_ptr dec_m_work_title ''work_title'' kvs;
     Some \<lparr>rp_message_id = message_id', rp_role = role', rp_content = content', rp_usage =
       usage', rp_tool_call = tool_call', rp_tool_result = tool_result', rp_todos = todos', rp_artifact
       = artifact', rp_approval_request = approval_request', rp_approval_decision = approval_decision',
       rp_question_request = question_request', rp_question_answer = question_answer', rp_work_title =
       work_title'\<rparr> }"

definition wf_run_event_payload :: "run_event_payload \<Rightarrow> bool" where
  "wf_run_event_payload x \<longleftrightarrow>
     (\<forall>y \<in> set_option (rp_usage x). wf_m_usage y) \<and>
     (\<forall>y \<in> set_option (rp_tool_call x). wf_m_tool_call y) \<and>
     (\<forall>y \<in> set_option (rp_tool_result x). wf_m_tool_result y) \<and>
     (\<forall>y \<in> set_option (rp_artifact x). wf_m_artifact y) \<and>
     (\<forall>y \<in> set_option (rp_approval_request x). wf_m_approval_request y) \<and>
     (\<forall>y \<in> set_option (rp_question_request x). wf_m_question_request y)"

lemma dec_enc_run_event_payload [simp]: "wf_run_event_payload x \<Longrightarrow> dec_run_event_payload
       (enc_run_event_payload x) = Some x"
  by (cases x) (auto simp: enc_run_event_payload_def dec_run_event_payload_def get_defs
       wf_run_event_payload_def read_list_ne dec_enc_m_usage dec_enc_m_tool_call dec_enc_m_tool_result
       dec_enc_m_todo_item dec_enc_m_artifact dec_enc_m_approval_request dec_enc_m_approval_decision
       dec_enc_m_question_request dec_enc_m_question_answer dec_enc_m_work_title split: option.splits)

record run_event_body =
  rb_seq :: int
  rb_event :: string
  rb_payload :: run_event_payload
  rb_reply_to :: "string list"
  rb_run_completed :: "m_run_completed option"
  rb_error :: "m_run_event_error option"

definition enc_run_event_body :: "run_event_body \<Rightarrow> obj" where
  "enc_run_event_body x =
     put ''seq'' [JNum (rb_seq x)] @
     put ''event'' [JStr (rb_event x)] @
     put ''payload'' [JObj (enc_run_event_payload (rb_payload x))] @
     put ''reply_to_message_ids'' (list_ne JStr (rb_reply_to x)) @
     put ''run_completed'' (ptr_ne (\<lambda>y. JObj (enc_m_run_completed y)) (rb_run_completed x)) @
     put ''error'' (ptr_ne (\<lambda>y. JObj (enc_m_run_event_error y)) (rb_error x))"

definition dec_run_event_body :: "obj \<Rightarrow> run_event_body option" where
  "dec_run_event_body kvs = do {
     seq' \<leftarrow> get_int ''seq'' kvs;
     event' \<leftarrow> get_str ''event'' kvs;
     payload' \<leftarrow> get_sub dec_run_event_payload ''payload'' kvs;
     reply_to' \<leftarrow> map_option elems (get_slice dec_str ''reply_to_message_ids'' kvs);
     run_completed' \<leftarrow> get_ptr dec_m_run_completed ''run_completed'' kvs;
     error' \<leftarrow> get_ptr dec_m_run_event_error ''error'' kvs;
     Some \<lparr>rb_seq = seq', rb_event = event', rb_payload = payload', rb_reply_to = reply_to',
       rb_run_completed = run_completed', rb_error = error'\<rparr> }"

definition wf_run_event_body :: "run_event_body \<Rightarrow> bool" where
  "wf_run_event_body x \<longleftrightarrow>
     int64_range (rb_seq x) \<and>
     wf_run_event_payload (rb_payload x) \<and>
     (\<forall>y \<in> set_option (rb_run_completed x). wf_m_run_completed y)"

lemma dec_enc_run_event_body [simp]: "wf_run_event_body x \<Longrightarrow> dec_run_event_body
       (enc_run_event_body x) = Some x"
  by (cases x) (auto simp: enc_run_event_body_def dec_run_event_body_def get_defs wf_run_event_body_def
       read_list_ne dec_enc_run_event_payload dec_enc_m_run_completed dec_enc_m_run_event_error split:
       option.splits)

definition raws_ok_m_tool_call :: "m_tool_call \<Rightarrow> bool" where
  "raws_ok_m_tool_call x \<longleftrightarrow>
     raw_ok (mtc_arguments x)"

definition raws_ok_m_tool_result :: "m_tool_result \<Rightarrow> bool" where
  "raws_ok_m_tool_result x \<longleftrightarrow>
     raw_ok (mtr_result x)"

definition raws_ok_m_approval_request :: "m_approval_request \<Rightarrow> bool" where
  "raws_ok_m_approval_request x \<longleftrightarrow>
     raw_ok (mar_arguments x)"

definition raws_ok_m_run_event_record :: "m_run_event_record \<Rightarrow> bool" where
  "raws_ok_m_run_event_record x \<longleftrightarrow>
     raw_ok (mr_payload x)"

definition raws_ok_m_run_completed :: "m_run_completed \<Rightarrow> bool" where
  "raws_ok_m_run_completed x \<longleftrightarrow>
     (\<forall>y \<in> set (mc_events x). raws_ok_m_run_event_record y)"

definition raws_ok_run_event_payload :: "run_event_payload \<Rightarrow> bool" where
  "raws_ok_run_event_payload x \<longleftrightarrow>
     (\<forall>y \<in> set_option (rp_tool_call x). raws_ok_m_tool_call y) \<and>
     (\<forall>y \<in> set_option (rp_tool_result x). raws_ok_m_tool_result y) \<and>
     (\<forall>y \<in> set_option (rp_approval_request x). raws_ok_m_approval_request y)"

definition raws_ok_run_event_body :: "run_event_body \<Rightarrow> bool" where
  "raws_ok_run_event_body x \<longleftrightarrow>
     raws_ok_run_event_payload (rb_payload x) \<and>
     (\<forall>y \<in> set_option (rb_run_completed x). raws_ok_m_run_completed y)"

lemmas raws_ok_defs =
  raws_ok_m_tool_call_def
  raws_ok_m_tool_result_def
  raws_ok_m_approval_request_def
  raws_ok_m_run_event_record_def
  raws_ok_m_run_completed_def
  raws_ok_run_event_payload_def
  raws_ok_run_event_body_def

lemmas wf_raw_defs =
  wf_m_tool_call_def
  wf_m_tool_result_def
  wf_m_approval_request_def
  wf_m_run_event_record_def
  wf_m_run_completed_def
  wf_run_event_payload_def
  wf_run_event_body_def

type_synonym run_event = "run_event_body envelope"

text \<open>\<open>json.Marshal\<close> of a body fails when one of the raw messages inside it is not JSON.\<close>

definition marshal_run_event_body :: "run_event_body \<Rightarrow> json option" where
  "marshal_run_event_body b = (if raws_ok_run_event_body b then Some (JObj (enc_run_event_body b)) else None)"

lemma wf_raws_ok: "wf_run_event_body b \<Longrightarrow> raws_ok_run_event_body b"
  by (auto simp: raws_ok_defs wf_raw_defs)

interpretation run_event_codec: codec wf_run_event_body marshal_run_event_body "dec_struct dec_run_event_body"
  by unfold_locales (auto simp: marshal_run_event_body_def wf_raws_ok)

text \<open>
  the body of a run event survives the bus: for every body whose integers fit their Go types, whose raw
  messages are JSON and whose metadata maps have distinct keys, \<open>Marshal\<close> succeeds and \<open>Unmarshal\<close> of its result is the body,
  through all thirteen payload fields, the archived events and the terminal payload.
\<close>

theorem run_event_body_roundtrip:
  assumes "wf_run_event_body b"
  shows "\<exists>j. marshal_run_event_body b = Some j \<and> unmarshal (dec_struct dec_run_event_body) (Raw j) = Some b"
proof -
  obtain j where j: "marshal_run_event_body b = Some j" using run_event_codec.enc_wf [OF assms] by blast
  then show ?thesis using run_event_codec.dec_enc [OF assms] by simp
qed

theorem run_event_body_roundtrip_witness:
  "\<exists>b j. rb_event b = RunEventToolCallStarted \<and> marshal_run_event_body b = Some j \<and>
     unmarshal (dec_struct dec_run_event_body) (Raw j) = Some b"
proof -
  define b :: run_event_body where
    "b = \<lparr>rb_seq = 4, rb_event = RunEventToolCallStarted,
       rb_payload = \<lparr>rp_message_id = [], rp_role = ''assistant'', rp_content = [], rp_usage = None,
         rp_tool_call = Some \<lparr>mtc_id = ''c1'', mtc_name = ''shell'', mtc_arguments = Raw (JObj [(''cmd'', JStr ''ls'')])\<rparr>,
         rp_tool_result = None, rp_todos = [], rp_artifact = None, rp_approval_request = None,
         rp_approval_decision = None, rp_question_request = None, rp_question_answer = None, rp_work_title = None\<rparr>,
       rb_reply_to = [''7''], rb_run_completed = None, rb_error = None\<rparr>"
  have "wf_run_event_body b"
    by (simp add: b_def wf_run_event_body_def wf_run_event_payload_def wf_m_tool_call_def int64_range_def)
  from run_event_body_roundtrip [OF this] show ?thesis by (intro exI [of _ b]) (auto simp: b_def)
qed

end
