(* ===== verification/AgentEvents.thy ===== *)
theory AgentEvents
  imports RunEvents
begin

text \<open>
  The runtime event contract (\<open>backend/agent/result.go\<close>, \<open>backend/agent/runtime/events/events.go\<close>) and the
  archived terminal payload of a run (\<open>backend/internal/assistant/domain/result.go\<close>): event types, payload structs with
  their JSON form, the constructors of events and \<open>DecodePayload\<close>.

  The concrete JSON syntax is a parameter where an event's \<open>Content\<close> carries it: \<open>text\<close> prints
  a tree, \<open>parse\<close> reads a text, \<open>shown\<close> is what \<open>%v\<close> prints for a payload that does not marshal.
\<close>

section \<open>Events\<close>

record agent_event =
  aev_id :: string
  aev_run_id :: string
  aev_trace_id :: string
  aev_seq :: int
  aev_type :: string
  aev_created_at :: go_time
  aev_payload :: raw
  aev_content :: string

definition no_time :: go_time where
  "no_time = \<lparr>tm_ns = - 62135596800 * 1000000000, tm_text = zero_time_text\<rparr>"

definition empty_event :: "string \<Rightarrow> agent_event" where
  "empty_event eventType =
     \<lparr>aev_id = [], aev_run_id = [], aev_trace_id = [], aev_seq = 0, aev_type = eventType,
      aev_created_at = no_time, aev_payload = Raw_empty, aev_content = []\<rparr>"

definition EventStarted :: string where [msg_defs]: "EventStarted = ''run.started''"
definition EventCompleted :: string where [msg_defs]: "EventCompleted = ''run.completed''"
definition EventFailed :: string where [msg_defs]: "EventFailed = ''run.failed''"
definition EventCancelled :: string where [msg_defs]: "EventCancelled = ''run.cancelled''"
definition EventInvocationStarted :: string where [msg_defs]: "EventInvocationStarted = ''provider.started''"
definition EventInvocationCompleted :: string where [msg_defs]: "EventInvocationCompleted = ''provider.completed''"
definition EventInvocationFailed :: string where [msg_defs]: "EventInvocationFailed = ''provider.failed''"
definition EventInvocationCancelled :: string where [msg_defs]: "EventInvocationCancelled = ''provider.cancelled''"
definition EventMessageDelta :: string where [msg_defs]: "EventMessageDelta = ''message.delta''"
definition EventReasoningDelta :: string where [msg_defs]: "EventReasoningDelta = ''reasoning.delta''"
definition EventResult :: string where [msg_defs]: "EventResult = ''message.result''"
definition EventMessageComplete :: string where [msg_defs]: "EventMessageComplete = ''message.complete''"
definition EventToolCallStarted :: string where [msg_defs]: "EventToolCallStarted = ''tool_call.started''"
definition EventToolCallDelta :: string where [msg_defs]: "EventToolCallDelta = ''tool_call.delta''"
definition EventToolCallCompleted :: string where [msg_defs]: "EventToolCallCompleted = ''tool_call.completed''"
definition EventToolCallResult :: string where [msg_defs]: "EventToolCallResult = ''tool_call.result''"
definition EventToolCallFailed :: string where [msg_defs]: "EventToolCallFailed = ''tool_call.failed''"
definition EventTodoSnapshot :: string where [msg_defs]: "EventTodoSnapshot = ''todo.snapshot''"
definition EventTodoUpdated :: string where [msg_defs]: "EventTodoUpdated = ''todo.updated''"
definition EventArtifactDeclared :: string where [msg_defs]: "EventArtifactDeclared = ''artifact.declared''"
definition EventApprovalRequested :: string where [msg_defs]: "EventApprovalRequested = ''approval.requested''"
definition EventApprovalResolved :: string where [msg_defs]: "EventApprovalResolved = ''approval.resolved''"
definition EventQuestionAsked :: string where [msg_defs]: "EventQuestionAsked = ''question.asked''"
definition EventQuestionAnswered :: string where [msg_defs]: "EventQuestionAnswered = ''question.answered''"
definition EventWorkTitleUpdated :: string where [msg_defs]: "EventWorkTitleUpdated = ''work.title.updated''"
definition EventProviderSessionStarted :: string where [msg_defs]: "EventProviderSessionStarted = ''provider_session.started''"

section \<open>Payloads\<close>

lemma fold_agent_keys [simp]:
  "fold_key ''call_id'' = ''call_id''"
  "fold_key ''created_at'' = ''created_at''"
  "fold_key ''tool_calls'' = ''tool_calls''"
  by code_simp+

record usage =
  us_input_tokens :: int
  us_output_tokens :: int
  us_total_tokens :: int

definition enc_usage :: "usage \<Rightarrow> obj" where
  "enc_usage x =
     put ''input_tokens'' (int_ne (us_input_tokens x)) @
     put ''output_tokens'' (int_ne (us_output_tokens x)) @
     put ''total_tokens'' (int_ne (us_total_tokens x))"

definition dec_usage :: "obj \<Rightarrow> usage option" where
  "dec_usage kvs = do {
     input_tokens' \<leftarrow> get_int ''input_tokens'' kvs;
     output_tokens' \<leftarrow> get_int ''output_tokens'' kvs;
     total_tokens' \<leftarrow> get_int ''total_tokens'' kvs;
     Some \<lparr>us_input_tokens = input_tokens', us_output_tokens = output_tokens', us_total_tokens =
       total_tokens'\<rparr> }"

definition wf_usage :: "usage \<Rightarrow> bool" where
  "wf_usage x \<longleftrightarrow>
     int64_range (us_input_tokens x) \<and>
     int64_range (us_output_tokens x) \<and>
     int64_range (us_total_tokens x)"

lemma dec_enc_usage [simp]: "wf_usage x \<Longrightarrow> dec_usage (enc_usage x) = Some x"
  by (cases x) (auto simp: enc_usage_def dec_usage_def get_defs wf_usage_def split: option.splits)

record tool_call_record =
  tcr_call_id :: string
  tcr_name :: string
  tcr_result :: raw
  tcr_error :: string

definition enc_tool_call_record :: "tool_call_record \<Rightarrow> obj" where
  "enc_tool_call_record x =
     put ''call_id'' (str_ne (tcr_call_id x)) @
     put ''name'' (str_ne (tcr_name x)) @
     put ''result'' (raw_ne (tcr_result x)) @
     put ''error'' (str_ne (tcr_error x))"

definition dec_tool_call_record :: "obj \<Rightarrow> tool_call_record option" where
  "dec_tool_call_record kvs = do {
     call_id' \<leftarrow> get_str ''call_id'' kvs;
     name' \<leftarrow> get_str ''name'' kvs;
     result' \<leftarrow> get_raw ''result'' kvs;
     error' \<leftarrow> get_str ''error'' kvs;
     Some \<lparr>tcr_call_id = call_id', tcr_name = name', tcr_result = result', tcr_error =
       error'\<rparr> }"

definition wf_tool_call_record :: "tool_call_record \<Rightarrow> bool" where
  "wf_tool_call_record x \<longleftrightarrow>
     raw_ok (tcr_result x)"

lemma dec_enc_tool_call_record [simp]: "wf_tool_call_record x \<Longrightarrow> dec_tool_call_record
       (enc_tool_call_record x) = Some x"
  by (cases x) (auto simp: enc_tool_call_record_def dec_tool_call_record_def get_defs
       wf_tool_call_record_def split: option.splits)

record e_message_delta =
  emd_message_id :: string
  emd_role :: string
  emd_content :: string

definition enc_e_message_delta :: "e_message_delta \<Rightarrow> obj" where
  "enc_e_message_delta x =
     put ''message_id'' (str_ne (emd_message_id x)) @
     put ''role'' (str_ne (emd_role x)) @
     put ''content'' [JStr (emd_content x)]"

definition dec_e_message_delta :: "obj \<Rightarrow> e_message_delta option" where
  "dec_e_message_delta kvs = do {
     message_id' \<leftarrow> get_str ''message_id'' kvs;
     role' \<leftarrow> get_str ''role'' kvs;
     content' \<leftarrow> get_str ''content'' kvs;
     Some \<lparr>emd_message_id = message_id', emd_role = role', emd_content = content'\<rparr> }"

lemma dec_enc_e_message_delta [simp]: "dec_e_message_delta (enc_e_message_delta x) = Some x"
  by (cases x) (auto simp: enc_e_message_delta_def dec_e_message_delta_def get_defs split: option.splits)

record e_message_result =
  emr_message :: string
  emr_usage :: "usage option"

definition enc_e_message_result :: "e_message_result \<Rightarrow> obj" where
  "enc_e_message_result x =
     put ''message'' (str_ne (emr_message x)) @
     put ''usage'' (ptr_ne (\<lambda>y. JObj (enc_usage y)) (emr_usage x))"

definition dec_e_message_result :: "obj \<Rightarrow> e_message_result option" where
  "dec_e_message_result kvs = do {
     message' \<leftarrow> get_str ''message'' kvs;
     usage' \<leftarrow> get_ptr dec_usage ''usage'' kvs;
     Some \<lparr>emr_message = message', emr_usage = usage'\<rparr> }"

definition wf_e_message_result :: "e_message_result \<Rightarrow> bool" where
  "wf_e_message_result x \<longleftrightarrow>
     (\<forall>y \<in> set_option (emr_usage x). wf_usage y)"

lemma dec_enc_e_message_result [simp]: "wf_e_message_result x \<Longrightarrow> dec_e_message_result
       (enc_e_message_result x) = Some x"
  by (cases x) (auto simp: enc_e_message_result_def dec_e_message_result_def get_defs
       wf_e_message_result_def dec_enc_usage split: option.splits)

record e_tool_call =
  etc_id :: string
  etc_name :: string
  etc_arguments :: raw

definition enc_e_tool_call :: "e_tool_call \<Rightarrow> obj" where
  "enc_e_tool_call x =
     put ''tool_call_id'' [JStr (etc_id x)] @
     put ''name'' [JStr (etc_name x)] @
     put ''arguments'' (raw_ne (etc_arguments x))"

definition dec_e_tool_call :: "obj \<Rightarrow> e_tool_call option" where
  "dec_e_tool_call kvs = do {
     id' \<leftarrow> get_str ''tool_call_id'' kvs;
     name' \<leftarrow> get_str ''name'' kvs;
     arguments' \<leftarrow> get_raw ''arguments'' kvs;
     Some \<lparr>etc_id = id', etc_name = name', etc_arguments = arguments'\<rparr> }"

definition wf_e_tool_call :: "e_tool_call \<Rightarrow> bool" where
  "wf_e_tool_call x \<longleftrightarrow>
     raw_ok (etc_arguments x)"

lemma dec_enc_e_tool_call [simp]: "wf_e_tool_call x \<Longrightarrow> dec_e_tool_call (enc_e_tool_call
       x) = Some x"
  by (cases x) (auto simp: enc_e_tool_call_def dec_e_tool_call_def get_defs wf_e_tool_call_def split:
       option.splits)

record e_tool_result =
  etr_id :: string
  etr_name :: string
  etr_result :: raw
  etr_error :: string
  etr_is_error :: bool
  etr_elapsed_ms :: int

definition enc_e_tool_result :: "e_tool_result \<Rightarrow> obj" where
  "enc_e_tool_result x =
     put ''tool_call_id'' [JStr (etr_id x)] @
     put ''name'' (str_ne (etr_name x)) @
     put ''result'' (raw_ne (etr_result x)) @
     put ''error'' (str_ne (etr_error x)) @
     put ''is_error'' [JBool (etr_is_error x)] @
     put ''elapsed_ms'' (int_ne (etr_elapsed_ms x))"

definition dec_e_tool_result :: "obj \<Rightarrow> e_tool_result option" where
  "dec_e_tool_result kvs = do {
     id' \<leftarrow> get_str ''tool_call_id'' kvs;
     name' \<leftarrow> get_str ''name'' kvs;
     result' \<leftarrow> get_raw ''result'' kvs;
     error' \<leftarrow> get_str ''error'' kvs;
     is_error' \<leftarrow> get_bool ''is_error'' kvs;
     elapsed_ms' \<leftarrow> get_int ''elapsed_ms'' kvs;
     Some \<lparr>etr_id = id', etr_name = name', etr_result = result', etr_error = error',
       etr_is_error = is_error', etr_elapsed_ms = elapsed_ms'\<rparr> }"

definition wf_e_tool_result :: "e_tool_result \<Rightarrow> bool" where
  "wf_e_tool_result x \<longleftrightarrow>
     raw_ok (etr_result x) \<and>
     int64_range (etr_elapsed_ms x)"

lemma dec_enc_e_tool_result [simp]: "wf_e_tool_result x \<Longrightarrow> dec_e_tool_result
       (enc_e_tool_result x) = Some x"
  by (cases x) (auto simp: enc_e_tool_result_def dec_e_tool_result_def get_defs wf_e_tool_result_def
       split: option.splits)

record e_todo_item =
  etd_id :: string
  etd_title :: string
  etd_status :: string
  etd_priority :: string

definition enc_e_todo_item :: "e_todo_item \<Rightarrow> obj" where
  "enc_e_todo_item x =
     put ''id'' [JStr (etd_id x)] @
     put ''title'' [JStr (etd_title x)] @
     put ''status'' [JStr (etd_status x)] @
     put ''priority'' (str_ne (etd_priority x))"

definition dec_e_todo_item :: "obj \<Rightarrow> e_todo_item option" where
  "dec_e_todo_item kvs = do {
     id' \<leftarrow> get_str ''id'' kvs;
     title' \<leftarrow> get_str ''title'' kvs;
     status' \<leftarrow> get_str ''status'' kvs;
     priority' \<leftarrow> get_str ''priority'' kvs;
     Some \<lparr>etd_id = id', etd_title = title', etd_status = status', etd_priority =
       priority'\<rparr> }"

lemma dec_enc_e_todo_item [simp]: "dec_e_todo_item (enc_e_todo_item x) = Some x"
  by (cases x) (auto simp: enc_e_todo_item_def dec_e_todo_item_def get_defs split: option.splits)

record e_artifact =
  eaf_artifact_id :: string
  eaf_title :: string
  eaf_filename :: string
  eaf_original_name :: string
  eaf_description :: string
  eaf_mime_type :: string
  eaf_artifact_type :: string
  eaf_file_size :: int
  eaf_created_at :: string
  eaf_relative_path :: string
  eaf_storage_key :: string
  eaf_storage_uri :: string
  eaf_sha256 :: string
  eaf_source :: string
  eaf_status :: string

definition enc_e_artifact :: "e_artifact \<Rightarrow> obj" where
  "enc_e_artifact x =
     put ''artifact_id'' (str_ne (eaf_artifact_id x)) @
     put ''title'' (str_ne (eaf_title x)) @
     put ''filename'' (str_ne (eaf_filename x)) @
     put ''original_name'' (str_ne (eaf_original_name x)) @
     put ''description'' (str_ne (eaf_description x)) @
     put ''mime_type'' (str_ne (eaf_mime_type x)) @
     put ''artifact_type'' (str_ne (eaf_artifact_type x)) @
     put ''file_size'' (int_ne (eaf_file_size x)) @
     put ''created_at'' [JStr (eaf_created_at x)] @
     put ''relative_path'' (str_ne (eaf_relative_path x)) @
     put ''storage_key'' (str_ne (eaf_storage_key x)) @
     put ''storage_uri'' (str_ne (eaf_storage_uri x)) @
     put ''sha256'' (str_ne (eaf_sha256 x)) @
     put ''source'' (str_ne (eaf_source x)) @
     put ''status'' (str_ne (eaf_status x))"

definition dec_e_artifact :: "obj \<Rightarrow> e_artifact option" where
  "dec_e_artifact kvs = do {
     artifact_id' \<leftarrow> get_str ''artifact_id'' kvs;
     title' \<leftarrow> get_str ''title'' kvs;
     filename' \<leftarrow> get_str ''filename'' kvs;
     original_name' \<leftarrow> get_str ''original_name'' kvs;
     description' \<leftarrow> get_str ''description'' kvs;
     mime_type' \<leftarrow> get_str ''mime_type'' kvs;
     artifact_type' \<leftarrow> get_str ''artifact_type'' kvs;
     file_size' \<leftarrow> get_int ''file_size'' kvs;
     created_at' \<leftarrow> get_time ''created_at'' kvs;
     relative_path' \<leftarrow> get_str ''relative_path'' kvs;
     storage_key' \<leftarrow> get_str ''storage_key'' kvs;
     storage_uri' \<leftarrow> get_str ''storage_uri'' kvs;
     sha256' \<leftarrow> get_str ''sha256'' kvs;
     source' \<leftarrow> get_str ''source'' kvs;
     status' \<leftarrow> get_str ''status'' kvs;
     Some \<lparr>eaf_artifact_id = artifact_id', eaf_title = title', eaf_filename = filename',
       eaf_original_name = original_name', eaf_description = description', eaf_mime_type = mime_type',
       eaf_artifact_type = artifact_type', eaf_file_size = file_size', eaf_created_at = created_at',
       eaf_relative_path = relative_path', eaf_storage_key = storage_key', eaf_storage_uri =
       storage_uri', eaf_sha256 = sha256', eaf_source = source', eaf_status = status'\<rparr> }"

definition wf_e_artifact :: "e_artifact \<Rightarrow> bool" where
  "wf_e_artifact x \<longleftrightarrow>
     int64_range (eaf_file_size x) \<and>
     rfc3339_ok (eaf_created_at x)"

lemma dec_enc_e_artifact [simp]: "wf_e_artifact x \<Longrightarrow> dec_e_artifact (enc_e_artifact x) =
       Some x"
  by (cases x) (auto simp: enc_e_artifact_def dec_e_artifact_def get_defs wf_e_artifact_def split:
       option.splits)

record e_approval_request =
  ear_request_id :: string
  ear_tool_name :: string
  ear_tool_call_id :: string
  ear_description :: string
  ear_arguments :: raw
  ear_metadata :: "(string \<times> string) list"

definition enc_e_approval_request :: "e_approval_request \<Rightarrow> obj" where
  "enc_e_approval_request x =
     put ''request_id'' [JStr (ear_request_id x)] @
     put ''tool_name'' [JStr (ear_tool_name x)] @
     put ''tool_call_id'' (str_ne (ear_tool_call_id x)) @
     put ''description'' [JStr (ear_description x)] @
     put ''arguments'' (raw_ne (ear_arguments x)) @
     put ''metadata'' (strmap_ne (ear_metadata x))"

definition dec_e_approval_request :: "obj \<Rightarrow> e_approval_request option" where
  "dec_e_approval_request kvs = do {
     request_id' \<leftarrow> get_str ''request_id'' kvs;
     tool_name' \<leftarrow> get_str ''tool_name'' kvs;
     tool_call_id' \<leftarrow> get_str ''tool_call_id'' kvs;
     description' \<leftarrow> get_str ''description'' kvs;
     arguments' \<leftarrow> get_raw ''arguments'' kvs;
     metadata' \<leftarrow> get_strmap ''metadata'' kvs;
     Some \<lparr>ear_request_id = request_id', ear_tool_name = tool_name', ear_tool_call_id =
       tool_call_id', ear_description = description', ear_arguments = arguments', ear_metadata =
       metadata'\<rparr> }"

definition wf_e_approval_request :: "e_approval_request \<Rightarrow> bool" where
  "wf_e_approval_request x \<longleftrightarrow>
     raw_ok (ear_arguments x) \<and>
     distinct (map fst (ear_metadata x))"

lemma dec_enc_e_approval_request [simp]: "wf_e_approval_request x \<Longrightarrow>
       dec_e_approval_request (enc_e_approval_request x) = Some x"
  by (cases x) (auto simp: enc_e_approval_request_def dec_e_approval_request_def get_defs
       wf_e_approval_request_def split: option.splits)

record e_approval_decision =
  ead_request_id :: string
  ead_action :: string
  ead_reason :: string

definition enc_e_approval_decision :: "e_approval_decision \<Rightarrow> obj" where
  "enc_e_approval_decision x =
     put ''request_id'' [JStr (ead_request_id x)] @
     put ''action'' [JStr (ead_action x)] @
     put ''reason'' (str_ne (ead_reason x))"

definition dec_e_approval_decision :: "obj \<Rightarrow> e_approval_decision option" where
  "dec_e_approval_decision kvs = do {
     request_id' \<leftarrow> get_str ''request_id'' kvs;
     action' \<leftarrow> get_str ''action'' kvs;
     reason' \<leftarrow> get_str ''reason'' kvs;
     Some \<lparr>ead_request_id = request_id', ead_action = action', ead_reason = reason'\<rparr> }"

lemma dec_enc_e_approval_decision [simp]: "dec_e_approval_decision (enc_e_approval_decision x) = Some x"
  by (cases x) (auto simp: enc_e_approval_decision_def dec_e_approval_decision_def get_defs split:
       option.splits)

record e_plan =
  epl_content :: string
  epl_file_path :: string
  epl_error :: string

definition enc_e_plan :: "e_plan \<Rightarrow> obj" where
  "enc_e_plan x =
     put ''content'' (str_ne (epl_content x)) @
     put ''file_path'' (str_ne (epl_file_path x)) @
     put ''error'' (str_ne (epl_error x))"

definition dec_e_plan :: "obj \<Rightarrow> e_plan option" where
  "dec_e_plan kvs = do {
     content' \<leftarrow> get_str ''content'' kvs;
     file_path' \<leftarrow> get_str ''file_path'' kvs;
     error' \<leftarrow> get_str ''error'' kvs;
     Some \<lparr>epl_content = content', epl_file_path = file_path', epl_error = error'\<rparr> }"

lemma dec_enc_e_plan [simp]: "dec_e_plan (enc_e_plan x) = Some x"
  by (cases x) (auto simp: enc_e_plan_def dec_e_plan_def get_defs split: option.splits)

record e_question_option =
  eqo_label :: string
  eqo_description :: string

definition enc_e_question_option :: "e_question_option \<Rightarrow> obj" where
  "enc_e_question_option x =
     put ''label'' [JStr (eqo_label x)] @
     put ''description'' (str_ne (eqo_description x))"

definition dec_e_question_option :: "obj \<Rightarrow> e_question_option option" where
  "dec_e_question_option kvs = do {
     label' \<leftarrow> get_str ''label'' kvs;
     description' \<leftarrow> get_str ''description'' kvs;
     Some \<lparr>eqo_label = label', eqo_description = description'\<rparr> }"

lemma dec_enc_e_question_option [simp]: "dec_e_question_option (enc_e_question_option x) = Some x"
  by (cases x) (auto simp: enc_e_question_option_def dec_e_question_option_def get_defs split:
       option.splits)

record e_question_item =
  eqi_question :: string
  eqi_header :: string
  eqi_options :: "e_question_option slice"
  eqi_multiple :: bool
  eqi_custom :: bool

definition enc_e_question_item :: "e_question_item \<Rightarrow> obj" where
  "enc_e_question_item x =
     put ''question'' [JStr (eqi_question x)] @
     put ''header'' (str_ne (eqi_header x)) @
     put ''options'' [slice_json (\<lambda>y. JObj (enc_e_question_option y)) (eqi_options x)] @
     put ''multiple'' [JBool (eqi_multiple x)] @
     put ''custom'' [JBool (eqi_custom x)]"

definition dec_e_question_item :: "obj \<Rightarrow> e_question_item option" where
  "dec_e_question_item kvs = do {
     question' \<leftarrow> get_str ''question'' kvs;
     header' \<leftarrow> get_str ''header'' kvs;
     options' \<leftarrow> get_slice (dec_struct dec_e_question_option) ''options'' kvs;
     multiple' \<leftarrow> get_bool ''multiple'' kvs;
     custom' \<leftarrow> get_bool ''custom'' kvs;
     Some \<lparr>eqi_question = question', eqi_header = header', eqi_options = options', eqi_multiple
       = multiple', eqi_custom = custom'\<rparr> }"

lemma dec_enc_e_question_item [simp]: "dec_e_question_item (enc_e_question_item x) = Some x"
  by (cases x) (auto simp: enc_e_question_item_def dec_e_question_item_def get_defs read_slice_json
       dec_enc_e_question_option split: option.splits)

record e_question_request =
  eqr_request_id :: string
  eqr_session_id :: string
  eqr_questions :: "e_question_item slice"
  eqr_tool_call_id :: string
  eqr_message_id :: string
  eqr_interaction_type :: string
  eqr_plan :: "e_plan option"
  eqr_metadata :: "(string \<times> string) list"

definition enc_e_question_request :: "e_question_request \<Rightarrow> obj" where
  "enc_e_question_request x =
     put ''request_id'' [JStr (eqr_request_id x)] @
     put ''session_id'' (str_ne (eqr_session_id x)) @
     put ''questions'' [slice_json (\<lambda>y. JObj (enc_e_question_item y)) (eqr_questions x)] @
     put ''tool_call_id'' (str_ne (eqr_tool_call_id x)) @
     put ''message_id'' (str_ne (eqr_message_id x)) @
     put ''interaction_type'' (str_ne (eqr_interaction_type x)) @
     put ''plan'' (ptr_ne (\<lambda>y. JObj (enc_e_plan y)) (eqr_plan x)) @
     put ''metadata'' (strmap_ne (eqr_metadata x))"

definition dec_e_question_request :: "obj \<Rightarrow> e_question_request option" where
  "dec_e_question_request kvs = do {
     request_id' \<leftarrow> get_str ''request_id'' kvs;
     session_id' \<leftarrow> get_str ''session_id'' kvs;
     questions' \<leftarrow> get_slice (dec_struct dec_e_question_item) ''questions'' kvs;
     tool_call_id' \<leftarrow> get_str ''tool_call_id'' kvs;
     message_id' \<leftarrow> get_str ''message_id'' kvs;
     interaction_type' \<leftarrow> get_str ''interaction_type'' kvs;
     plan' \<leftarrow> get_ptr dec_e_plan ''plan'' kvs;
     metadata' \<leftarrow> get_strmap ''metadata'' kvs;
     Some \<lparr>eqr_request_id = request_id', eqr_session_id = session_id', eqr_questions =
       questions', eqr_tool_call_id = tool_call_id', eqr_message_id = message_id', eqr_interaction_type
       = interaction_type', eqr_plan = plan', eqr_metadata = metadata'\<rparr> }"

definition wf_e_question_request :: "e_question_request \<Rightarrow> bool" where
  "wf_e_question_request x \<longleftrightarrow>
     distinct (map fst (eqr_metadata x))"

lemma dec_enc_e_question_request [simp]: "wf_e_question_request x \<Longrightarrow>
       dec_e_question_request (enc_e_question_request x) = Some x"
  by (cases x) (auto simp: enc_e_question_request_def dec_e_question_request_def get_defs
       wf_e_question_request_def read_slice_json dec_enc_e_question_item dec_enc_e_plan split:
       option.splits)

record e_question_answer =
  eqa_request_id :: string
  eqa_answers :: "string slice slice"

definition enc_e_question_answer :: "e_question_answer \<Rightarrow> obj" where
  "enc_e_question_answer x =
     put ''request_id'' [JStr (eqa_request_id x)] @
     put ''answers'' [slice_json (slice_json JStr) (eqa_answers x)]"

definition dec_e_question_answer :: "obj \<Rightarrow> e_question_answer option" where
  "dec_e_question_answer kvs = do {
     request_id' \<leftarrow> get_str ''request_id'' kvs;
     answers' \<leftarrow> get_slice (dec_slice dec_str) ''answers'' kvs;
     Some \<lparr>eqa_request_id = request_id', eqa_answers = answers'\<rparr> }"

lemma dec_enc_e_question_answer [simp]: "dec_e_question_answer (enc_e_question_answer x) = Some x"
  by (cases x) (auto simp: enc_e_question_answer_def dec_e_question_answer_def get_defs read_slice_json
       dec_slice_json split: option.splits)

record e_work_title =
  ewt_project_id :: string
  ewt_project_name :: string
  ewt_task_id :: string
  ewt_task_title :: string
  ewt_session_id :: string
  ewt_session_title :: string

definition enc_e_work_title :: "e_work_title \<Rightarrow> obj" where
  "enc_e_work_title x =
     put ''project_id'' [JStr (ewt_project_id x)] @
     put ''project_name'' [JStr (ewt_project_name x)] @
     put ''task_id'' (str_ne (ewt_task_id x)) @
     put ''task_title'' (str_ne (ewt_task_title x)) @
     put ''session_id'' [JStr (ewt_session_id x)] @
     put ''session_title'' (str_ne (ewt_session_title x))"

definition dec_e_work_title :: "obj \<Rightarrow> e_work_title option" where
  "dec_e_work_title kvs = do {
     project_id' \<leftarrow> get_str ''project_id'' kvs;
     project_name' \<leftarrow> get_str ''project_name'' kvs;
     task_id' \<leftarrow> get_str ''task_id'' kvs;
     task_title' \<leftarrow> get_str ''task_title'' kvs;
     session_id' \<leftarrow> get_str ''session_id'' kvs;
     session_title' \<leftarrow> get_str ''session_title'' kvs;
     Some \<lparr>ewt_project_id = project_id', ewt_project_name = project_name', ewt_task_id =
       task_id', ewt_task_title = task_title', ewt_session_id = session_id', ewt_session_title =
       session_title'\<rparr> }"

lemma dec_enc_e_work_title [simp]: "dec_e_work_title (enc_e_work_title x) = Some x"
  by (cases x) (auto simp: enc_e_work_title_def dec_e_work_title_def get_defs split: option.splits)

section \<open>The archived result of a run\<close>

record run_metadata =
  rmd_runtime :: string
  rmd_work_dir :: string
  rmd_provider_id :: string
  rmd_session_id :: string
  rmd_phase :: string
  rmd_resume :: bool

definition enc_run_metadata :: "run_metadata \<Rightarrow> obj" where
  "enc_run_metadata x =
     put ''runtime'' (str_ne (rmd_runtime x)) @
     put ''work_dir'' (str_ne (rmd_work_dir x)) @
     put ''provider_id'' (str_ne (rmd_provider_id x)) @
     put ''session_id'' (str_ne (rmd_session_id x)) @
     put ''phase'' (str_ne (rmd_phase x)) @
     put ''resume'' (bool_ne (rmd_resume x))"

definition dec_run_metadata :: "obj \<Rightarrow> run_metadata option" where
  "dec_run_metadata kvs = do {
     runtime' \<leftarrow> get_str ''runtime'' kvs;
     work_dir' \<leftarrow> get_str ''work_dir'' kvs;
     provider_id' \<leftarrow> get_str ''provider_id'' kvs;
     session_id' \<leftarrow> get_str ''session_id'' kvs;
     phase' \<leftarrow> get_str ''phase'' kvs;
     resume' \<leftarrow> get_bool ''resume'' kvs;
     Some \<lparr>rmd_runtime = runtime', rmd_work_dir = work_dir', rmd_provider_id = provider_id',
       rmd_session_id = session_id', rmd_phase = phase', rmd_resume = resume'\<rparr> }"

lemma dec_enc_run_metadata [simp]: "dec_run_metadata (enc_run_metadata x) = Some x"
  by (cases x) (auto simp: enc_run_metadata_def dec_run_metadata_def get_defs split: option.splits)

record artifact_record =
  arc_artifact_id :: string
  arc_title :: string
  arc_filename :: string
  arc_original_name :: string
  arc_description :: string
  arc_mime_type :: string
  arc_artifact_type :: string
  arc_file_size :: int
  arc_relative_path :: string
  arc_storage_key :: string
  arc_storage_uri :: string
  arc_sha256 :: string
  arc_source :: string
  arc_status :: string

definition enc_artifact_record :: "artifact_record \<Rightarrow> obj" where
  "enc_artifact_record x =
     put ''artifact_id'' (str_ne (arc_artifact_id x)) @
     put ''title'' (str_ne (arc_title x)) @
     put ''filename'' (str_ne (arc_filename x)) @
     put ''original_name'' (str_ne (arc_original_name x)) @
     put ''description'' (str_ne (arc_description x)) @
     put ''mime_type'' (str_ne (arc_mime_type x)) @
     put ''artifact_type'' (str_ne (arc_artifact_type x)) @
     put ''file_size'' (int_ne (arc_file_size x)) @
     put ''relative_path'' (str_ne (arc_relative_path x)) @
     put ''storage_key'' (str_ne (arc_storage_key x)) @
     put ''storage_uri'' (str_ne (arc_storage_uri x)) @
     put ''sha256'' (str_ne (arc_sha256 x)) @
     put ''source'' (str_ne (arc_source x)) @
     put ''status'' (str_ne (arc_status x))"

definition dec_artifact_record :: "obj \<Rightarrow> artifact_record option" where
  "dec_artifact_record kvs = do {
     artifact_id' \<leftarrow> get_str ''artifact_id'' kvs;
     title' \<leftarrow> get_str ''title'' kvs;
     filename' \<leftarrow> get_str ''filename'' kvs;
     original_name' \<leftarrow> get_str ''original_name'' kvs;
     description' \<leftarrow> get_str ''description'' kvs;
     mime_type' \<leftarrow> get_str ''mime_type'' kvs;
     artifact_type' \<leftarrow> get_str ''artifact_type'' kvs;
     file_size' \<leftarrow> get_int ''file_size'' kvs;
     relative_path' \<leftarrow> get_str ''relative_path'' kvs;
     storage_key' \<leftarrow> get_str ''storage_key'' kvs;
     storage_uri' \<leftarrow> get_str ''storage_uri'' kvs;
     sha256' \<leftarrow> get_str ''sha256'' kvs;
     source' \<leftarrow> get_str ''source'' kvs;
     status' \<leftarrow> get_str ''status'' kvs;
     Some \<lparr>arc_artifact_id = artifact_id', arc_title = title', arc_filename = filename',
       arc_original_name = original_name', arc_description = description', arc_mime_type = mime_type',
       arc_artifact_type = artifact_type', arc_file_size = file_size', arc_relative_path =
       relative_path', arc_storage_key = storage_key', arc_storage_uri = storage_uri', arc_sha256 =
       sha256', arc_source = source', arc_status = status'\<rparr> }"

definition wf_artifact_record :: "artifact_record \<Rightarrow> bool" where
  "wf_artifact_record x \<longleftrightarrow>
     int64_range (arc_file_size x)"

lemma dec_enc_artifact_record [simp]: "wf_artifact_record x \<Longrightarrow> dec_artifact_record
       (enc_artifact_record x) = Some x"
  by (cases x) (auto simp: enc_artifact_record_def dec_artifact_record_def get_defs
       wf_artifact_record_def split: option.splits)

record terminal_event_record =
  ter_seq :: int
  ter_last_seq :: int
  ter_type :: string
  ter_timestamp :: int
  ter_payload :: raw

definition enc_terminal_event_record :: "terminal_event_record \<Rightarrow> obj" where
  "enc_terminal_event_record x =
     put ''seq'' [JNum (ter_seq x)] @
     put ''last_seq'' (int_ne (ter_last_seq x)) @
     put ''type'' [JStr (ter_type x)] @
     put ''timestamp'' [JNum (ter_timestamp x)] @
     put ''payload'' (raw_ne (ter_payload x))"

definition dec_terminal_event_record :: "obj \<Rightarrow> terminal_event_record option" where
  "dec_terminal_event_record kvs = do {
     seq' \<leftarrow> get_int ''seq'' kvs;
     last_seq' \<leftarrow> get_int ''last_seq'' kvs;
     type' \<leftarrow> get_str ''type'' kvs;
     timestamp' \<leftarrow> get_int ''timestamp'' kvs;
     payload' \<leftarrow> get_raw ''payload'' kvs;
     Some \<lparr>ter_seq = seq', ter_last_seq = last_seq', ter_type = type', ter_timestamp =
       timestamp', ter_payload = payload'\<rparr> }"

definition wf_terminal_event_record :: "terminal_event_record \<Rightarrow> bool" where
  "wf_terminal_event_record x \<longleftrightarrow>
     int64_range (ter_seq x) \<and>
     int64_range (ter_last_seq x) \<and>
     int64_range (ter_timestamp x) \<and>
     raw_ok (ter_payload x)"

lemma dec_enc_terminal_event_record [simp]: "wf_terminal_event_record x \<Longrightarrow>
       dec_terminal_event_record (enc_terminal_event_record x) = Some x"
  by (cases x) (auto simp: enc_terminal_event_record_def dec_terminal_event_record_def get_defs
       wf_terminal_event_record_def split: option.splits)

record terminal_payload =
  tpl_status :: string
  tpl_message :: string
  tpl_error :: string
  tpl_usage :: "usage option"
  tpl_tool_calls :: "tool_call_record list"
  tpl_artifacts :: "artifact_record list"
  tpl_started_at :: string
  tpl_completed_at :: string
  tpl_metadata :: "run_metadata option"
  tpl_events :: "terminal_event_record list"

definition enc_terminal_payload :: "terminal_payload \<Rightarrow> obj" where
  "enc_terminal_payload x =
     put ''status'' [JStr (tpl_status x)] @
     put ''message'' (str_ne (tpl_message x)) @
     put ''error'' (str_ne (tpl_error x)) @
     put ''usage'' (ptr_ne (\<lambda>y. JObj (enc_usage y)) (tpl_usage x)) @
     put ''tool_calls'' (list_ne (\<lambda>y. JObj (enc_tool_call_record y)) (tpl_tool_calls x)) @
     put ''artifacts'' (list_ne (\<lambda>y. JObj (enc_artifact_record y)) (tpl_artifacts x)) @
     put ''started_at'' (str_ne (tpl_started_at x)) @
     put ''completed_at'' (str_ne (tpl_completed_at x)) @
     put ''metadata'' (ptr_ne (\<lambda>y. JObj (enc_run_metadata y)) (tpl_metadata x)) @
     put ''events'' (list_ne (\<lambda>y. JObj (enc_terminal_event_record y)) (tpl_events x))"

definition dec_terminal_payload :: "obj \<Rightarrow> terminal_payload option" where
  "dec_terminal_payload kvs = do {
     status' \<leftarrow> get_str ''status'' kvs;
     message' \<leftarrow> get_str ''message'' kvs;
     error' \<leftarrow> get_str ''error'' kvs;
     usage' \<leftarrow> get_ptr dec_usage ''usage'' kvs;
     tool_calls' \<leftarrow> map_option elems (get_slice (dec_struct dec_tool_call_record)
       ''tool_calls'' kvs);
     artifacts' \<leftarrow> map_option elems (get_slice (dec_struct dec_artifact_record) ''artifacts''
       kvs);
     started_at' \<leftarrow> get_str ''started_at'' kvs;
     completed_at' \<leftarrow> get_str ''completed_at'' kvs;
     metadata' \<leftarrow> get_ptr dec_run_metadata ''metadata'' kvs;
     events' \<leftarrow> map_option elems (get_slice (dec_struct dec_terminal_event_record) ''events''
       kvs);
     Some \<lparr>tpl_status = status', tpl_message = message', tpl_error = error', tpl_usage = usage',
       tpl_tool_calls = tool_calls', tpl_artifacts = artifacts', tpl_started_at = started_at',
       tpl_completed_at = completed_at', tpl_metadata = metadata', tpl_events = events'\<rparr> }"

definition wf_terminal_payload :: "terminal_payload \<Rightarrow> bool" where
  "wf_terminal_payload x \<longleftrightarrow>
     (\<forall>y \<in> set_option (tpl_usage x). wf_usage y) \<and>
     (\<forall>y \<in> set (tpl_tool_calls x). wf_tool_call_record y) \<and>
     (\<forall>y \<in> set (tpl_artifacts x). wf_artifact_record y) \<and>
     (\<forall>y \<in> set (tpl_events x). wf_terminal_event_record y)"

lemma dec_enc_terminal_payload [simp]: "wf_terminal_payload x \<Longrightarrow> dec_terminal_payload
       (enc_terminal_payload x) = Some x"
  by (cases x) (auto simp: enc_terminal_payload_def dec_terminal_payload_def get_defs
       wf_terminal_payload_def read_list_ne dec_enc_usage dec_enc_tool_call_record
       dec_enc_artifact_record dec_enc_run_metadata dec_enc_terminal_event_record split: option.splits)

definition raws_ok_tool_call_record :: "tool_call_record \<Rightarrow> bool" where
  "raws_ok_tool_call_record x \<longleftrightarrow>
     raw_ok (tcr_result x)"

definition raws_ok_e_tool_call :: "e_tool_call \<Rightarrow> bool" where
  "raws_ok_e_tool_call x \<longleftrightarrow>
     raw_ok (etc_arguments x)"

definition raws_ok_e_tool_result :: "e_tool_result \<Rightarrow> bool" where
  "raws_ok_e_tool_result x \<longleftrightarrow>
     raw_ok (etr_result x)"

definition raws_ok_e_approval_request :: "e_approval_request \<Rightarrow> bool" where
  "raws_ok_e_approval_request x \<longleftrightarrow>
     raw_ok (ear_arguments x)"

definition raws_ok_terminal_event_record :: "terminal_event_record \<Rightarrow> bool" where
  "raws_ok_terminal_event_record x \<longleftrightarrow>
     raw_ok (ter_payload x)"

definition raws_ok_terminal_payload :: "terminal_payload \<Rightarrow> bool" where
  "raws_ok_terminal_payload x \<longleftrightarrow>
     (\<forall>y \<in> set (tpl_tool_calls x). raws_ok_tool_call_record y) \<and>
     (\<forall>y \<in> set (tpl_events x). raws_ok_terminal_event_record y)"

lemmas agent_raws_ok_defs =
  raws_ok_tool_call_record_def
  raws_ok_e_tool_call_def
  raws_ok_e_tool_result_def
  raws_ok_e_approval_request_def
  raws_ok_terminal_event_record_def
  raws_ok_terminal_payload_def

lemmas agent_wf_raw_defs =
  wf_tool_call_record_def
  wf_e_tool_call_def
  wf_e_tool_result_def
  wf_e_approval_request_def
  wf_terminal_event_record_def
  wf_terminal_payload_def

section \<open>Constructors\<close>

text \<open>
  \<open>marshalPayload\<close> on a payload that is not nil: the tree, or no message and the \<open>%v\<close> text.
\<close>

definition marshalPayload :: "(json \<Rightarrow> string) \<Rightarrow> string \<Rightarrow> json option \<Rightarrow> raw \<times> string" where
  "marshalPayload text shown m = (case m of None \<Rightarrow> (Raw_empty, shown) | Some j \<Rightarrow> (Raw j, text j))"

definition newPayloadEvent :: "(json \<Rightarrow> string) \<Rightarrow> string \<Rightarrow> string \<Rightarrow> json option \<Rightarrow> string \<Rightarrow> agent_event" where
  "newPayloadEvent text shown eventType m contentFallback =
     (let (raw, content) = marshalPayload text shown m in
      (empty_event eventType)
        \<lparr>aev_payload := raw, aev_content := (if contentFallback \<noteq> [] then contentFallback else content)\<rparr>)"

definition marshal_e_tool_call :: "e_tool_call \<Rightarrow> json option" where
  "marshal_e_tool_call x = (if raws_ok_e_tool_call x then Some (JObj (enc_e_tool_call x)) else None)"

definition marshal_e_tool_result :: "e_tool_result \<Rightarrow> json option" where
  "marshal_e_tool_result x = (if raws_ok_e_tool_result x then Some (JObj (enc_e_tool_result x)) else None)"

definition marshal_e_approval_request :: "e_approval_request \<Rightarrow> json option" where
  "marshal_e_approval_request x =
     (if raws_ok_e_approval_request x then Some (JObj (enc_e_approval_request x)) else None)"

definition marshal_todos :: "e_todo_item slice \<Rightarrow> json option" where
  "marshal_todos items = Some (slice_json (\<lambda>y. JObj (enc_e_todo_item y)) items)"

definition NewMessageDelta :: "(json \<Rightarrow> string) \<Rightarrow> string \<Rightarrow> string \<Rightarrow> agent_event" where
  "NewMessageDelta text messageID content =
     newPayloadEvent text [] EventMessageDelta
       (Some (JObj (enc_e_message_delta
          \<lparr>emd_message_id = trim_space messageID, emd_role = ''assistant'', emd_content = content\<rparr>))) content"

definition NewReasoningDelta :: "(json \<Rightarrow> string) \<Rightarrow> string \<Rightarrow> string \<Rightarrow> agent_event" where
  "NewReasoningDelta text messageID content =
     newPayloadEvent text [] EventReasoningDelta
       (Some (JObj (enc_e_message_delta
          \<lparr>emd_message_id = trim_space messageID, emd_role = ''assistant'', emd_content = content\<rparr>))) content"

definition NewToolCallStarted :: "(json \<Rightarrow> string) \<Rightarrow> string \<Rightarrow> string \<Rightarrow> string \<Rightarrow> raw \<Rightarrow> agent_event" where
  "NewToolCallStarted text shown toolCallID name arguments =
     newPayloadEvent text shown EventToolCallStarted
       (marshal_e_tool_call \<lparr>etc_id = trim_space toolCallID, etc_name = name, etc_arguments = arguments\<rparr>) []"

definition NewToolCallCompleted ::
  "(json \<Rightarrow> string) \<Rightarrow> string \<Rightarrow> string \<Rightarrow> string \<Rightarrow> raw \<Rightarrow> int \<Rightarrow> agent_event" where
  "NewToolCallCompleted text shown toolCallID name result elapsedMS =
     newPayloadEvent text shown EventToolCallCompleted
       (marshal_e_tool_result \<lparr>etr_id = trim_space toolCallID, etr_name = name, etr_result = result,
          etr_error = [], etr_is_error = False, etr_elapsed_ms = elapsedMS\<rparr>) []"

definition NewToolCallFailed ::
  "(json \<Rightarrow> string) \<Rightarrow> string \<Rightarrow> string \<Rightarrow> string \<Rightarrow> string \<Rightarrow> int \<Rightarrow> agent_event" where
  "NewToolCallFailed text shown toolCallID name message elapsedMS =
     newPayloadEvent text shown EventToolCallFailed
       (marshal_e_tool_result \<lparr>etr_id = trim_space toolCallID, etr_name = name, etr_result = Raw_empty,
          etr_error = message, etr_is_error = True, etr_elapsed_ms = elapsedMS\<rparr>) []"

definition NewArtifactDeclared :: "(json \<Rightarrow> string) \<Rightarrow> e_artifact \<Rightarrow> agent_event" where
  "NewArtifactDeclared text payload =
     newPayloadEvent text [] EventArtifactDeclared (Some (JObj (enc_e_artifact payload))) []"

definition NewMessageResult :: "(json \<Rightarrow> string) \<Rightarrow> string \<Rightarrow> usage option \<Rightarrow> agent_event" where
  "NewMessageResult text message u =
     newPayloadEvent text [] EventResult
       (Some (JObj (enc_e_message_result \<lparr>emr_message = message, emr_usage = u\<rparr>))) message"

definition NewTodoSnapshot :: "(json \<Rightarrow> string) \<Rightarrow> e_todo_item slice \<Rightarrow> agent_event" where
  "NewTodoSnapshot text items = newPayloadEvent text [] EventTodoSnapshot (marshal_todos items) []"

definition NewTodoUpdated :: "(json \<Rightarrow> string) \<Rightarrow> e_todo_item slice \<Rightarrow> agent_event" where
  "NewTodoUpdated text items = newPayloadEvent text [] EventTodoUpdated (marshal_todos items) []"

definition NewApprovalRequested :: "(json \<Rightarrow> string) \<Rightarrow> string \<Rightarrow> e_approval_request \<Rightarrow> agent_event" where
  "NewApprovalRequested text shown payload =
     newPayloadEvent text shown EventApprovalRequested (marshal_e_approval_request payload) (ear_description payload)"

definition NewApprovalResolved :: "(json \<Rightarrow> string) \<Rightarrow> e_approval_decision \<Rightarrow> agent_event" where
  "NewApprovalResolved text payload =
     newPayloadEvent text [] EventApprovalResolved (Some (JObj (enc_e_approval_decision payload))) (ead_action payload)"

definition NewQuestionAsked :: "(json \<Rightarrow> string) \<Rightarrow> e_question_request \<Rightarrow> agent_event" where
  "NewQuestionAsked text payload =
     (let desc = (case elems (eqr_questions payload) of [] \<Rightarrow> ''question'' | q # _ \<Rightarrow> eqi_question q) in
      newPayloadEvent text [] EventQuestionAsked (Some (JObj (enc_e_question_request payload))) desc)"

definition NewQuestionAnswered :: "(json \<Rightarrow> string) \<Rightarrow> e_question_answer \<Rightarrow> agent_event" where
  "NewQuestionAnswered text payload =
     newPayloadEvent text [] EventQuestionAnswered (Some (JObj (enc_e_question_answer payload))) []"

section \<open>Decoding\<close>

datatype decode_error = Event_nil | Event_payload_empty | Event_malformed

definition DecodePayload ::
  "(string \<Rightarrow> raw) \<Rightarrow> (json \<Rightarrow> 'a option) \<Rightarrow> agent_event option \<Rightarrow> decode_error + 'a" where
  "DecodePayload parse dec event =
     (case event of
        None \<Rightarrow> Inl Event_nil
      | Some e \<Rightarrow>
          if aev_payload e \<noteq> Raw_empty then
            (case unmarshal dec (aev_payload e) of None \<Rightarrow> Inl Event_malformed | Some x \<Rightarrow> Inr x)
          else if trim_space (aev_content e) = [] then Inl Event_payload_empty
          else (case unmarshal dec (parse (aev_content e)) of None \<Rightarrow> Inl Event_malformed | Some x \<Rightarrow> Inr x))"

context codec begin

lemma payload_new: "wf x \<Longrightarrow> \<exists>j. aev_payload (newPayloadEvent text shown t (enc x) fb) = Raw j \<and> dec j = Some x"
  using enc_wf dec_enc by (fastforce simp: newPayloadEvent_def marshalPayload_def)

lemma decode_new: "wf x \<Longrightarrow> DecodePayload parse dec (Some (newPayloadEvent text shown t (enc x) fb)) = Inr x"
  using payload_new [of x "text" shown t fb] by (auto simp: DecodePayload_def)

end

lemma newPayloadEvent_type [simp]: "aev_type (newPayloadEvent text shown t m fb) = t"
  by (simp add: newPayloadEvent_def empty_event_def split: prod.splits)

interpretation delta_codec: codec "\<lambda>_. True"
  "\<lambda>x. Some (JObj (enc_e_message_delta x))" "dec_struct dec_e_message_delta"
  by unfold_locales auto

interpretation tool_call_codec: codec wf_e_tool_call marshal_e_tool_call "dec_struct dec_e_tool_call"
  by unfold_locales (auto simp: marshal_e_tool_call_def raws_ok_e_tool_call_def wf_e_tool_call_def)

interpretation tool_result_codec: codec wf_e_tool_result marshal_e_tool_result "dec_struct dec_e_tool_result"
  by unfold_locales (auto simp: marshal_e_tool_result_def raws_ok_e_tool_result_def wf_e_tool_result_def)

interpretation artifact_codec: codec wf_e_artifact
  "\<lambda>x. Some (JObj (enc_e_artifact x))" "dec_struct dec_e_artifact"
  by unfold_locales auto

interpretation todo_codec: codec "\<lambda>_. True" marshal_todos "dec_slice (dec_struct dec_e_todo_item)"
  by unfold_locales (auto simp: marshal_todos_def dec_slice_json)

interpretation approval_request_codec: codec wf_e_approval_request
  marshal_e_approval_request "dec_struct dec_e_approval_request"
  by unfold_locales
    (auto simp: marshal_e_approval_request_def raws_ok_e_approval_request_def wf_e_approval_request_def)

interpretation approval_decision_codec: codec "\<lambda>_. True"
  "\<lambda>x. Some (JObj (enc_e_approval_decision x))" "dec_struct dec_e_approval_decision"
  by unfold_locales auto

interpretation question_request_codec: codec wf_e_question_request
  "\<lambda>x. Some (JObj (enc_e_question_request x))" "dec_struct dec_e_question_request"
  by unfold_locales auto

interpretation question_answer_codec: codec "\<lambda>_. True"
  "\<lambda>x. Some (JObj (enc_e_question_answer x))" "dec_struct dec_e_question_answer"
  by unfold_locales auto

interpretation message_result_codec: codec wf_e_message_result
  "\<lambda>x. Some (JObj (enc_e_message_result x))" "dec_struct dec_e_message_result"
  by unfold_locales auto

lemmas event_constructors =
  NewMessageDelta_def NewReasoningDelta_def NewToolCallStarted_def NewToolCallCompleted_def NewToolCallFailed_def
  NewArtifactDeclared_def NewMessageResult_def NewTodoSnapshot_def NewTodoUpdated_def NewApprovalRequested_def
  NewApprovalResolved_def NewQuestionAsked_def NewQuestionAnswered_def

text \<open>
  a payload that a constructor put into an event is what \<open>DecodePayload\<close> reads from it, whatever text the event
  shows as its content: for tool calls whose arguments are JSON, for approvals with distinct metadata keys, for questions with their options and plan, for todo
  lists (a nil slice stays nil) and for every text delta.
\<close>

theorem event_payload_roundtrip:
  assumes "raw_ok args" "distinct (map fst (ear_metadata a))" "raw_ok (ear_arguments a)"
    and "distinct (map fst (eqr_metadata q))"
  shows "DecodePayload parse (dec_struct dec_e_tool_call)
      (Some (NewToolCallStarted text shown tid name args)) =
        Inr \<lparr>etc_id = trim_space tid, etc_name = name, etc_arguments = args\<rparr> \<and>
    DecodePayload parse (dec_struct dec_e_approval_request) (Some (NewApprovalRequested text shown a)) = Inr a \<and>
    DecodePayload parse (dec_struct dec_e_question_request) (Some (NewQuestionAsked text q)) = Inr q \<and>
    DecodePayload parse (dec_slice (dec_struct dec_e_todo_item)) (Some (NewTodoSnapshot text items)) = Inr items \<and>
    DecodePayload parse (dec_struct dec_e_message_delta) (Some (NewMessageDelta text mid content)) =
        Inr \<lparr>emd_message_id = trim_space mid, emd_role = ''assistant'', emd_content = content\<rparr>"
  using assms
  by (simp add: event_constructors tool_call_codec.decode_new approval_request_codec.decode_new
      question_request_codec.decode_new todo_codec.decode_new delta_codec.decode_new wf_e_tool_call_def
      wf_e_approval_request_def wf_e_question_request_def)

theorem event_payload_roundtrip_witness:
  "DecodePayload (\<lambda>_. Raw_empty) (dec_struct dec_e_tool_call)
      (Some (NewToolCallStarted (\<lambda>_. []) [] ''c1'' ''shell'' (Raw (JObj [])))) =
    Inr \<lparr>etc_id = trim_space ''c1'', etc_name = ''shell'', etc_arguments = Raw (JObj [])\<rparr>"
proof -
  define a where "a = \<lparr>ear_request_id = ''r'', ear_tool_name = ''t'', ear_tool_call_id = [],
    ear_description = ''d'', ear_arguments = Raw_empty, ear_metadata = [(''k'', ''v'')]\<rparr>"
  define q where "q = \<lparr>eqr_request_id = ''r'', eqr_session_id = [], eqr_questions = None,
    eqr_tool_call_id = [], eqr_message_id = [], eqr_interaction_type = [], eqr_plan = None, eqr_metadata = []\<rparr>"
  have "raw_ok (Raw (JObj []))" "distinct (map fst (ear_metadata a))" "raw_ok (ear_arguments a)"
    "distinct (map fst (eqr_metadata q))" by (simp_all add: a_def q_def)
  from event_payload_roundtrip [OF this] show ?thesis by blast
qed

end
