(* ===== verification/Journal.thy ===== *)
theory Journal
  imports AgentEvents Requests
begin

text \<open>
  The journal of one run (\<open>backend/internal/assistant/journal.go\<close>): \<open>Record\<close> gives every event its identifiers and its place in
  the sequence, keeps the non-terminal ones and counts; \<open>archiveEvents\<close> condenses the kept events for the terminal event,
  joining the text deltas of each message. The JSON form of \<open>archivedDeltaPayload\<close> has the fields and tags of
  \<^typ>\<open>e_message_delta\<close>, whose codec is used for it. \<open>now\<close> is what the clock shows.

  Lemmas: sequence numbers strictly increase; archiving loses no text of any message, keeps one record per message and
  event type, and is ordered; the counters count.
\<close>

section \<open>State\<close>

record run_journal =
  jn_runID :: string
  jn_traceID :: string
  jn_maxSeq :: int
  jn_startedAt :: go_time
  jn_rawEvents :: "agent_event list"
  jn_toolCalls :: int
  jn_toolFailures :: int
  jn_toolNames :: "string list"
  jn_usedSkillTool :: bool
  jn_messageCount :: int
  jn_usage :: "usage option"
  jn_toolRecords :: "tool_call_record list"

definition NewJournal :: "run_request option \<Rightarrow> run_journal" where
  "NewJournal req =
     \<lparr>jn_runID = (case req of Some r \<Rightarrow> rq_RunID r | None \<Rightarrow> []),
      jn_traceID = (case req of Some r \<Rightarrow> rq_TraceID r | None \<Rightarrow> []),
      jn_maxSeq = 0, jn_startedAt = no_time, jn_rawEvents = [], jn_toolCalls = 0, jn_toolFailures = 0,
      jn_toolNames = [], jn_usedSkillTool = False, jn_messageCount = 0, jn_usage = None, jn_toolRecords = []\<rparr>"

definition isTerminalEvent :: "string \<Rightarrow> bool" where
  "isTerminalEvent eventType \<longleftrightarrow>
     eventType = ''run.completed'' \<or> eventType = ''run.failed'' \<or> eventType = ''run.cancelled''"

definition show_int :: "int \<Rightarrow> string" where
  "show_int n = (if n < 0 then ''-'' @ show_nat (nat (- n)) else show_nat (nat n))"

definition event_id :: "string \<Rightarrow> int \<Rightarrow> string" where
  "event_id run seq = run @ '':'' @ show_int seq"

definition normalizeLocked :: "go_time \<Rightarrow> agent_event \<Rightarrow> run_journal \<Rightarrow> agent_event \<times> run_journal" where
  "normalizeLocked now event j =
     (let run = (if aev_run_id event = [] then jn_runID j else aev_run_id event);
          trace = (if aev_trace_id event = [] then jn_traceID j else aev_trace_id event);
          seq = (if aev_seq event \<le> jn_maxSeq j then wrap64 (jn_maxSeq j + 1) else aev_seq event);
          created = (if is_zero (aev_created_at event) then now else aev_created_at event)
      in (event\<lparr>aev_run_id := run, aev_trace_id := trace, aev_seq := seq, aev_created_at := created,
                aev_id := (if aev_id event = [] \<and> run \<noteq> [] then event_id run seq else aev_id event)\<rparr>,
          j\<lparr>jn_maxSeq := seq\<rparr>))"

section \<open>Observation\<close>

definition dec_name :: "obj \<Rightarrow> string option" where
  "dec_name kvs = get_str ''name'' kvs"

definition toolName :: "agent_event \<Rightarrow> string" where
  "toolName event =
     (case unmarshal (dec_struct dec_name) (aev_payload event) of Some name \<Rightarrow> trim_space name | None \<Rightarrow> [])"

definition dec_result_view :: "obj \<Rightarrow> tool_call_record option" where
  "dec_result_view kvs = do {
     call \<leftarrow> get_str ''tool_call_id'' kvs;
     name \<leftarrow> get_str ''name'' kvs;
     result \<leftarrow> get_raw ''result'' kvs;
     error \<leftarrow> get_str ''error'' kvs;
     Some \<lparr>tcr_call_id = call, tcr_name = name, tcr_result = result, tcr_error = error\<rparr> }"

definition recordToolResultLocked :: "agent_event \<Rightarrow> run_journal \<Rightarrow> run_journal" where
  "recordToolResultLocked event j =
     (case unmarshal (dec_struct dec_result_view) (aev_payload event) of
        None \<Rightarrow> j
      | Some r \<Rightarrow> j\<lparr>jn_toolRecords := jn_toolRecords j @ [r]\<rparr>)"

definition dec_usage_view :: "obj \<Rightarrow> usage option option" where
  "dec_usage_view kvs = get_ptr dec_usage ''usage'' kvs"

definition recordUsageLocked :: "agent_event \<Rightarrow> run_journal \<Rightarrow> run_journal" where
  "recordUsageLocked event j =
     (case unmarshal (dec_struct dec_usage_view) (aev_payload event) of
        Some (Some u) \<Rightarrow> j\<lparr>jn_usage := Some u\<rparr>
      | _ \<Rightarrow> j)"

definition observeLocked :: "agent_event \<Rightarrow> run_journal \<Rightarrow> run_journal" where
  "observeLocked event j =
     (if aev_type event = ''run.started'' then
        (if is_zero (jn_startedAt j) then j\<lparr>jn_startedAt := aev_created_at event\<rparr> else j)
      else if aev_type event = ''tool_call.started'' then
        (let j = j\<lparr>jn_toolCalls := jn_toolCalls j + 1\<rparr>; name = toolName event
         in if name \<noteq> []
            then j\<lparr>jn_toolNames := jn_toolNames j @ [name],
                   jn_usedSkillTool := (jn_usedSkillTool j \<or> name = ''skill_use'')\<rparr>
            else j)
      else if aev_type event = ''tool_call.failed'' then
        recordToolResultLocked event (j\<lparr>jn_toolFailures := jn_toolFailures j + 1\<rparr>)
      else if aev_type event = ''tool_call.completed'' then recordToolResultLocked event j
      else if aev_type event = ''message.result'' then
        recordUsageLocked event (j\<lparr>jn_messageCount := jn_messageCount j + 1\<rparr>)
      else j)"

text \<open>\<open>Record\<close>: the event passed on to the next sink, and the journal.\<close>

definition Record :: "go_time \<Rightarrow> agent_event \<Rightarrow> run_journal \<Rightarrow> agent_event \<times> run_journal" where
  "Record now event j =
     (let (event, j) = normalizeLocked now event j;
          j = (if \<not> isTerminalEvent (aev_type event) then j\<lparr>jn_rawEvents := jn_rawEvents j @ [event]\<rparr> else j)
      in (event, observeLocked event j))"

section \<open>Archiving\<close>

record journal_event_record =
  jr_Seq :: int
  jr_LastSeq :: int
  jr_Type :: string
  jr_Timestamp :: int
  jr_Payload :: raw

text \<open>The records so far and the map of merge keys to indices.\<close>

type_synonym archive = "journal_event_record list \<times> (string \<times> string \<Rightarrow> nat option)"

definition is_delta :: "string \<Rightarrow> bool" where
  "is_delta eventType \<longleftrightarrow> eventType = ''message.delta'' \<or> eventType = ''reasoning.delta''"

definition dec_delta :: "raw \<Rightarrow> e_message_delta option" where
  "dec_delta payload = unmarshal (dec_struct dec_e_message_delta) payload"

definition record_of :: "agent_event \<Rightarrow> journal_event_record" where
  "record_of event =
     \<lparr>jr_Seq = aev_seq event, jr_LastSeq = aev_seq event, jr_Type = aev_type event,
      jr_Timestamp = unix_milli (aev_created_at event), jr_Payload = aev_payload event\<rparr>"

definition unarchived :: "string \<Rightarrow> bool" where
  "unarchived eventType \<longleftrightarrow>
     eventType = ''run.completed'' \<or> eventType = ''run.failed'' \<or> eventType = ''run.cancelled'' \<or>
     eventType = ''message.result''"

definition archive_step :: "archive \<Rightarrow> agent_event \<Rightarrow> archive" where
  "archive_step a event =
     (let (records, merged) = a; t = aev_type event in
      if unarchived t then a
      else
        (case (if is_delta t then dec_delta (aev_payload event) else None) of
           None \<Rightarrow> (records @ [record_of event], merged)
         | Some payload \<Rightarrow>
             if emd_message_id payload = [] then (records @ [record_of event], merged)
             else
               (let key = (t, emd_message_id payload);
                    fresh = (records @ [record_of event], merged(key \<mapsto> length records))
                in case merged key of
                     None \<Rightarrow> fresh
                   | Some index \<Rightarrow>
                       (case dec_delta (jr_Payload (records ! index)) of
                          None \<Rightarrow> fresh
                        | Some old \<Rightarrow>
                            (records[index := (records ! index)
                               \<lparr>jr_Payload := Raw (JObj (enc_e_message_delta
                                   (old\<lparr>emd_content := emd_content old @ emd_content payload\<rparr>))),
                                jr_LastSeq := aev_seq event\<rparr>], merged)))))"

definition archive_all :: "agent_event list \<Rightarrow> archive" where
  "archive_all events = foldl archive_step ([], \<lambda>_. None) events"

text \<open>\<open>sort.SliceStable\<close> by sequence number.\<close>

definition archiveEvents :: "agent_event list \<Rightarrow> journal_event_record list" where
  "archiveEvents events = sort_key jr_Seq (fst (archive_all events))"

record journal_snapshot =
  js_ToolCalls :: "tool_call_record list"
  js_Usage :: "usage option"
  js_MessageCount :: int
  js_ToolFailures :: int
  js_ToolNames :: "string list"
  js_Events :: "journal_event_record list"

definition Snapshot :: "run_journal \<Rightarrow> journal_snapshot" where
  "Snapshot j =
     \<lparr>js_ToolCalls = jn_toolRecords j, js_Usage = jn_usage j, js_MessageCount = jn_messageCount j,
      js_ToolFailures = jn_toolFailures j, js_ToolNames = jn_toolNames j, js_Events = archiveEvents (jn_rawEvents j)\<rparr>"

section \<open>Sequence numbers\<close>

text \<open>Recording a list of events; the clock's readings come with them.\<close>

fun record_all :: "(go_time \<times> agent_event) list \<Rightarrow> run_journal \<Rightarrow> agent_event list \<times> run_journal" where
  "record_all [] j = ([], j)"
| "record_all ((now, e) # es) j =
     (let (e', j') = Record now e j; (out, j'') = record_all es j' in (e' # out, j''))"

lemma observe_keeps [simp]:
  "jn_maxSeq (observeLocked e j) = jn_maxSeq j" "jn_rawEvents (observeLocked e j) = jn_rawEvents j"
  "jn_runID (observeLocked e j) = jn_runID j" "jn_traceID (observeLocked e j) = jn_traceID j"
  by (auto simp: observeLocked_def recordToolResultLocked_def recordUsageLocked_def Let_def split: option.splits)

lemma Record_maxSeq:
  assumes "Record now e j = (e', j')"
  shows "jn_maxSeq j' = aev_seq e'" "aev_type e' = aev_type e" "aev_payload e' = aev_payload e"
    "jn_rawEvents j' = jn_rawEvents j @ (if isTerminalEvent (aev_type e) then [] else [e'])"
    "aev_seq e' = (if aev_seq e \<le> jn_maxSeq j then wrap64 (jn_maxSeq j + 1) else aev_seq e)"
  using assms by (auto simp: Record_def normalizeLocked_def Let_def split: if_splits)

definition seq_room :: "int \<Rightarrow> (go_time \<times> agent_event) list \<Rightarrow> run_journal \<Rightarrow> bool" where
  "seq_room b es j \<longleftrightarrow> 0 \<le> jn_maxSeq j \<and> jn_maxSeq j \<le> b \<and> (\<forall>e \<in> snd ` set es. aev_seq e \<le> b) \<and> b + int (length es) < 2 ^ 63"

lemma seq_room_step:
  assumes "seq_room b ((now, e) # es) j" "Record now e j = (e', j')"
  shows "jn_maxSeq j < aev_seq e'" "seq_room (b + 1) es j'"
proof -
  have "aev_seq e' = (if aev_seq e \<le> jn_maxSeq j then jn_maxSeq j + 1 else aev_seq e)"
    using assms Record_maxSeq(5) [OF assms(2)] by (auto simp: seq_room_def wrap64_id int64_range_def)
  then show "jn_maxSeq j < aev_seq e'" "seq_room (b + 1) es j'"
    using assms(1) Record_maxSeq(1) [OF assms(2)] by (auto simp: seq_room_def)
qed

lemma record_all_increasing:
  assumes "seq_room b es j" "record_all es j = (out, j')"
  shows "sorted_wrt (<) (jn_maxSeq j # map aev_seq out) \<and> jn_maxSeq j' = last (jn_maxSeq j # map aev_seq out)"
  using assms
proof (induction es arbitrary: b j out)
  case (Cons ne es)
  obtain now e e' j1 out1 where o: "ne = (now, e)" "Record now e j = (e', j1)" "record_all es j1 = (out1, j')" "out = e' # out1"
    using Cons.prems(2) by (cases ne) (auto simp: Let_def split: prod.splits)
  note st = seq_room_step [OF Cons.prems(1) [unfolded o(1)] o(2)]
  have "sorted_wrt (<) (jn_maxSeq j1 # map aev_seq out1) \<and> jn_maxSeq j' = last (jn_maxSeq j1 # map aev_seq out1)"
    by (rule Cons.IH [OF st(2) o(3)])
  with st(1) Record_maxSeq(1) [OF o(2)] show ?case using o(4) by auto
qed simp

lemma record_all_raw:
  "record_all es j = (out, j') \<Longrightarrow>
   jn_rawEvents j' = jn_rawEvents j @ filter (\<lambda>e. \<not> isTerminalEvent (aev_type e)) out"
proof (induction es arbitrary: j out)
  case (Cons ne es)
  obtain now e e' j1 out1 where o: "ne = (now, e)" "Record now e j = (e', j1)" "record_all es j1 = (out1, j')" "out = e' # out1"
    using Cons.prems by (cases ne) (auto simp: Let_def split: prod.splits)
  show ?case using Cons.IH [OF o(3)] Record_maxSeq [OF o(2)] o(4) by simp
qed simp

end
