(* ===== verification/Decoded.thy ===== *)
theory Decoded
  imports AgentEvents
begin

text \<open>
  What \<open>json.Unmarshal\<close> guarantees of the values it fills in: integers fit their Go type, raw messages are JSON, maps have
  distinct keys, times are RFC 3339. So a payload that was decoded is well-formed and can be marshalled again.
\<close>

named_theorems decoded \<open>guarantees of the decoders\<close>

section \<open>Fields\<close>

lemma last_int_range: "last_int acc vs = Some n \<Longrightarrow> int64_range acc \<Longrightarrow> int64_range n"
  by (induction acc vs rule: last_int.induct) (auto split: if_splits)

lemma get_int_range [decoded]: "get_int k kvs = Some n \<Longrightarrow> int64_range n"
  unfolding get_int_def by (erule last_int_range) (simp add: int64_range_def)

lemma get_raw_ok [decoded]: "get_raw k kvs = Some r \<Longrightarrow> raw_ok r"
  by (auto simp: get_raw_def split: list.splits)

lemma last_time_ok: "last_time acc vs = Some t \<Longrightarrow> rfc3339_ok acc \<Longrightarrow> rfc3339_ok t"
  by (induction acc vs rule: last_time.induct) (auto split: if_splits)

lemma zero_time_ok: "rfc3339_ok zero_time_text"
  by code_simp

lemma get_time_ok [decoded]: "get_time k kvs = Some t \<Longrightarrow> rfc3339_ok t"
  unfolding get_time_def by (erule last_time_ok [OF _ zero_time_ok])

lemma dec_strmap_distinct: "dec_strmap acc kvs = Some m \<Longrightarrow> distinct (map fst acc) \<Longrightarrow> distinct (map fst m)"
proof (induction acc kvs rule: dec_strmap.induct)
  case (2 acc k v kvs)
  have keys: "map fst (map (\<lambda>(k', s'). (k', if k' = k then s else s')) acc) = map fst acc" for s
    by (induction acc) auto
  from 2 keys show ?case by (auto split: option.splits if_splits simp del: map_map)
qed auto

lemma get_strmap_distinct [decoded]: "get_strmap k kvs = Some m \<Longrightarrow> distinct (map fst m)"
  by (auto simp: get_strmap_def split: option.splits elim: dec_strmap_distinct)

lemma dec_all_elem: "dec_all dec vs = Some xs \<Longrightarrow> x \<in> set xs \<Longrightarrow> \<exists>j. dec j = Some x"
  by (induction vs arbitrary: xs) (auto split: option.splits)

lemma get_slice_elem: "get_slice dec k kvs = Some s \<Longrightarrow> x \<in> set (elems s) \<Longrightarrow> \<exists>j. dec j = Some x"
  by (auto simp: get_slice_def split: option.splits dest: dec_all_elem)

lemma get_ptr_elem: "get_ptr dec k kvs = Some (Some x) \<Longrightarrow> \<exists>o'. dec o' = Some x"
  by (auto simp: get_ptr_def split: option.splits)

lemma dec_struct_elem: "dec_struct dec j = Some x \<Longrightarrow> \<exists>o'. dec o' = Some x"
  by (auto simp: dec_struct_def split: json.splits)

lemma get_struct_slice_elem:
  "get_slice (dec_struct dec) k kvs = Some s \<Longrightarrow> x \<in> set (elems s) \<Longrightarrow> \<exists>o'. dec o' = Some x"
  by (drule (1) get_slice_elem) (auto dest: dec_struct_elem)

lemma get_struct_slice_all:
  "get_slice (dec_struct dec) k kvs = Some s \<Longrightarrow> (\<And>o' x. dec o' = Some x \<Longrightarrow> P x) \<Longrightarrow> \<forall>x \<in> set (elems s). P x"
  by (auto dest: get_struct_slice_elem)

lemma get_ptr_all:
  "get_ptr dec k kvs = Some p \<Longrightarrow> (\<And>o' x. dec o' = Some x \<Longrightarrow> P x) \<Longrightarrow> \<forall>x \<in> set_option p. P x"
  by (cases p) (auto dest!: get_ptr_elem)

section \<open>Payloads\<close>

lemma dec_wf_usage: "dec_usage kvs = Some x \<Longrightarrow> wf_usage x"
  by (auto simp: dec_usage_def wf_usage_def Option.bind_eq_Some_conv decoded)

lemma dec_wf_tool_call_record: "dec_tool_call_record kvs = Some x \<Longrightarrow> wf_tool_call_record x"
  by (auto simp: dec_tool_call_record_def wf_tool_call_record_def Option.bind_eq_Some_conv decoded)

lemma dec_wf_e_tool_call: "dec_e_tool_call kvs = Some x \<Longrightarrow> wf_e_tool_call x"
  by (auto simp: dec_e_tool_call_def wf_e_tool_call_def Option.bind_eq_Some_conv decoded)

lemma dec_wf_e_tool_result: "dec_e_tool_result kvs = Some x \<Longrightarrow> wf_e_tool_result x"
  by (auto simp: dec_e_tool_result_def wf_e_tool_result_def Option.bind_eq_Some_conv decoded)

lemma dec_wf_e_artifact: "dec_e_artifact kvs = Some x \<Longrightarrow> wf_e_artifact x"
  by (auto simp: dec_e_artifact_def wf_e_artifact_def Option.bind_eq_Some_conv decoded)

lemma dec_wf_e_approval_request: "dec_e_approval_request kvs = Some x \<Longrightarrow> wf_e_approval_request x"
  by (auto simp: dec_e_approval_request_def wf_e_approval_request_def Option.bind_eq_Some_conv decoded)

lemma dec_wf_e_question_request: "dec_e_question_request kvs = Some x \<Longrightarrow> wf_e_question_request x"
  by (auto simp: dec_e_question_request_def wf_e_question_request_def Option.bind_eq_Some_conv decoded)

lemma dec_wf_artifact_record: "dec_artifact_record kvs = Some x \<Longrightarrow> wf_artifact_record x"
  by (auto simp: dec_artifact_record_def wf_artifact_record_def Option.bind_eq_Some_conv decoded)

lemma dec_wf_terminal_event_record: "dec_terminal_event_record kvs = Some x \<Longrightarrow> wf_terminal_event_record x"
  by (auto simp: dec_terminal_event_record_def wf_terminal_event_record_def Option.bind_eq_Some_conv decoded)

lemma dec_wf_terminal_payload: "dec_terminal_payload kvs = Some x \<Longrightarrow> wf_terminal_payload x"
  by (auto simp: dec_terminal_payload_def wf_terminal_payload_def Option.bind_eq_Some_conv
      dest: get_ptr_all [OF _ dec_wf_usage] get_struct_slice_all [OF _ dec_wf_tool_call_record]
        get_struct_slice_all [OF _ dec_wf_artifact_record] get_struct_slice_all [OF _ dec_wf_terminal_event_record])

lemmas dec_wf =
  dec_wf_usage dec_wf_tool_call_record dec_wf_e_tool_call dec_wf_e_tool_result dec_wf_e_artifact
  dec_wf_e_approval_request dec_wf_e_question_request dec_wf_artifact_record dec_wf_terminal_event_record
  dec_wf_terminal_payload

text \<open>The same for a payload of an event.\<close>

lemma unmarshal_struct_elem: "unmarshal (dec_struct dec) r = Some x \<Longrightarrow> \<exists>o'. dec o' = Some x"
  by (cases r) (auto dest: dec_struct_elem)

end
