(* ===== verification/NatsSink.thy ===== *)
theory NatsSink
  imports Coordinator Journal Decoded
begin

text \<open>
  The event sink of a run on the worker (\<open>backend/internal/worker/eventpub/nats_sink.go\<close>): the mapping of runtime events to
  run events of the bus and \<open>Emit\<close>. The bus is a parameter, \<open>publish\<close>, from topic and message to an error or none; \<open>now\<close>
  is the time of the call. The result of \<open>Emit\<close> is its error and what it handed to the bus.

  Lemmas: when \<open>Emit\<close> fails; what it publishes and where; that no field of a payload is lost on the way.
\<close>

section \<open>Event types\<close>

definition mapRunEventType :: "string \<Rightarrow> string option" where
  "mapRunEventType eventType =
     (if eventType = ''run.started'' then Some RunEventRunStarted
      else if eventType = ''run.completed'' then Some RunEventRunCompleted
      else if eventType = ''run.cancelled'' then Some RunEventRunCancelled
      else if eventType = ''run.failed'' then Some RunEventRunFailed
      else if eventType = ''message.delta'' then Some RunEventMessageDelta
      else if eventType = ''reasoning.delta'' then Some RunEventReasoningDelta
      else if eventType = ''message.result'' then Some RunEventMessageCompleted
      else if eventType = ''tool_call.started'' then Some RunEventToolCallStarted
      else if eventType = ''tool_call.completed'' \<or> eventType = ''tool_call.failed'' then Some RunEventToolCallFinished
      else if eventType = ''todo.snapshot'' then Some RunEventTodoSnapshot
      else if eventType = ''todo.updated'' then Some RunEventTodoUpdated
      else if eventType = ''artifact.declared'' then Some RunEventArtifactDeclared
      else if eventType = ''approval.requested'' then Some RunEventApprovalRequested
      else if eventType = ''approval.resolved'' then Some RunEventApprovalResolved
      else if eventType = ''question.asked'' then Some RunEventQuestionAsked
      else if eventType = ''question.answered'' then Some RunEventQuestionAnswered
      else None)"

definition isTerminalRunEvent :: "string \<Rightarrow> bool" where
  "isTerminalRunEvent event \<longleftrightarrow>
     event = RunEventRunCompleted \<or> event = RunEventRunFailed \<or> event = RunEventRunCancelled"

section \<open>Payloads\<close>

definition tool_call_of :: "e_tool_call \<Rightarrow> m_tool_call" where
  "tool_call_of x =
     \<lparr>mtc_id = etc_id x, mtc_name = etc_name x, mtc_arguments = etc_arguments x\<rparr>"

definition tool_result_of :: "e_tool_result \<Rightarrow> m_tool_result" where
  "tool_result_of x =
     \<lparr>mtr_id = etr_id x, mtr_name = etr_name x, mtr_result = etr_result x, mtr_error = etr_error x, mtr_is_error =
      etr_is_error x, mtr_elapsed_ms = etr_elapsed_ms x\<rparr>"

definition todo_of :: "e_todo_item \<Rightarrow> m_todo_item" where
  "todo_of x =
     \<lparr>mtd_id = etd_id x, mtd_title = etd_title x, mtd_status = etd_status x, mtd_priority = etd_priority x\<rparr>"

definition artifact_of :: "e_artifact \<Rightarrow> m_artifact" where
  "artifact_of x =
     \<lparr>maf_artifact_id = eaf_artifact_id x, maf_title = eaf_title x, maf_filename = eaf_filename x, maf_original_name
      = eaf_original_name x, maf_description = eaf_description x, maf_mime_type = eaf_mime_type x, maf_artifact_type
      = eaf_artifact_type x, maf_file_size = eaf_file_size x, maf_relative_path = eaf_relative_path x,
      maf_storage_key = eaf_storage_key x, maf_storage_uri = eaf_storage_uri x, maf_sha256 = eaf_sha256 x,
      maf_source = eaf_source x, maf_status = eaf_status x\<rparr>"

definition approval_request_of :: "e_approval_request \<Rightarrow> m_approval_request" where
  "approval_request_of x =
     \<lparr>mar_request_id = ear_request_id x, mar_tool_name = ear_tool_name x, mar_tool_call_id = ear_tool_call_id x,
      mar_description = ear_description x, mar_arguments = ear_arguments x, mar_metadata = ear_metadata x\<rparr>"

definition approval_decision_of :: "e_approval_decision \<Rightarrow> m_approval_decision" where
  "approval_decision_of x =
     \<lparr>mad_request_id = ead_request_id x, mad_action = ead_action x, mad_reason = ead_reason x\<rparr>"

definition question_answer_of :: "e_question_answer \<Rightarrow> m_question_answer" where
  "question_answer_of x =
     \<lparr>mqa_request_id = eqa_request_id x, mqa_answers = eqa_answers x\<rparr>"

definition plan_of :: "e_plan \<Rightarrow> m_plan" where
  "plan_of x =
     \<lparr>mpl_content = epl_content x, mpl_file_path = epl_file_path x, mpl_error = epl_error x\<rparr>"

definition option_of :: "e_question_option \<Rightarrow> m_question_option" where
  "option_of x =
     \<lparr>mqo_label = eqo_label x, mqo_description = eqo_description x\<rparr>"

definition question_item_of :: "e_question_item \<Rightarrow> m_question_item" where
  "question_item_of x =
     \<lparr>mqi_question = eqi_question x, mqi_header = eqi_header x,
      mqi_options = (case elems (eqi_options x) of [] \<Rightarrow> None | os \<Rightarrow> Some (map option_of os)),
      mqi_multiple = eqi_multiple x, mqi_custom = eqi_custom x\<rparr>"

definition mapQuestionRequestPayload :: "e_question_request \<Rightarrow> m_question_request" where
  "mapQuestionRequestPayload q =
     \<lparr>mqr_request_id = eqr_request_id q, mqr_session_id = eqr_session_id q,
      mqr_questions = (case elems (eqr_questions q) of [] \<Rightarrow> None | qs \<Rightarrow> Some (map question_item_of qs)),
      mqr_tool_call_id = eqr_tool_call_id q, mqr_message_id = eqr_message_id q,
      mqr_interaction_type = eqr_interaction_type q, mqr_plan = map_option plan_of (eqr_plan q),
      mqr_metadata = eqr_metadata q\<rparr>"

text \<open>\<open>messaging.RunEventPayload{Role: ..., Content: ...}\<close>.\<close>

definition plain_payload :: "string \<Rightarrow> run_event_payload" where
  "plain_payload text =
     \<lparr>rp_message_id = [], rp_role = ''assistant'', rp_content = text, rp_usage = None, rp_tool_call = None,
      rp_tool_result = None, rp_todos = [], rp_artifact = None, rp_approval_request = None,
      rp_approval_decision = None, rp_question_request = None, rp_question_answer = None, rp_work_title = None\<rparr>"

text \<open>
  \<^verbatim>\<open>if len(event.Payload) > 0 { var x T; if json.Unmarshal(event.Payload, &x) == nil { ... } }\<close>; an empty payload does not
  parse either.
\<close>

definition with_payload :: "(json \<Rightarrow> 'a option) \<Rightarrow> raw \<Rightarrow> ('a \<Rightarrow> 'p \<Rightarrow> 'p) \<Rightarrow> 'p \<Rightarrow> 'p" where
  "with_payload dec raw f p = (case unmarshal dec raw of Some x \<Rightarrow> f x p | None \<Rightarrow> p)"

definition mapRunEventPayload :: "agent_event option \<Rightarrow> run_event_payload" where
  "mapRunEventPayload ev =
     (case ev of
        None \<Rightarrow> plain_payload []
      | Some event \<Rightarrow>
          (let payload = plain_payload (aev_content event); raw = aev_payload event; t = aev_type event in
           if t = ''message.delta'' \<or> t = ''reasoning.delta'' then
             with_payload (dec_struct dec_e_message_delta) raw
               (\<lambda>mp p. p\<lparr>rp_message_id := emd_message_id mp,
                         rp_role := (if emd_role mp = [] then ''assistant'' else emd_role mp),
                         rp_content := emd_content mp\<rparr>) payload
           else if t = ''tool_call.started'' then
             with_payload (dec_struct dec_e_tool_call) raw (\<lambda>tp p. p\<lparr>rp_tool_call := Some (tool_call_of tp)\<rparr>) payload
           else if t = ''tool_call.completed'' \<or> t = ''tool_call.failed'' then
             with_payload (dec_struct dec_e_tool_result) raw
               (\<lambda>r p. p\<lparr>rp_tool_result := Some (tool_result_of r)\<rparr>) payload
           else if t = ''todo.snapshot'' \<or> t = ''todo.updated'' then
             with_payload (dec_slice (dec_struct dec_e_todo_item)) raw
               (\<lambda>todos p. p\<lparr>rp_todos := map todo_of (elems todos)\<rparr>) payload
           else if t = ''artifact.declared'' then
             with_payload (dec_struct dec_e_artifact) raw (\<lambda>ap p. p\<lparr>rp_artifact := Some (artifact_of ap)\<rparr>) payload
           else if t = ''approval.requested'' then
             with_payload (dec_struct dec_e_approval_request) raw
               (\<lambda>ar p. p\<lparr>rp_approval_request := Some (approval_request_of ar)\<rparr>) payload
           else if t = ''approval.resolved'' then
             with_payload (dec_struct dec_e_approval_decision) raw
               (\<lambda>ad p. p\<lparr>rp_approval_decision := Some (approval_decision_of ad)\<rparr>) payload
           else if t = ''question.asked'' then
             with_payload (dec_struct dec_e_question_request) raw
               (\<lambda>qr p. p\<lparr>rp_question_request := Some (mapQuestionRequestPayload qr)\<rparr>) payload
           else if t = ''question.answered'' then
             with_payload (dec_struct dec_e_question_answer) raw
               (\<lambda>qa p. p\<lparr>rp_question_answer := Some (question_answer_of qa)\<rparr>) payload
           else payload))"

section \<open>Terminal events\<close>

definition convertArtifact :: "artifact_record \<Rightarrow> m_artifact" where
  "convertArtifact x =
     \<lparr>maf_artifact_id = arc_artifact_id x, maf_title = arc_title x, maf_filename = arc_filename x, maf_original_name
      = arc_original_name x, maf_description = arc_description x, maf_mime_type = arc_mime_type x, maf_artifact_type
      = arc_artifact_type x, maf_file_size = arc_file_size x, maf_relative_path = arc_relative_path x,
      maf_storage_key = arc_storage_key x, maf_storage_uri = arc_storage_uri x, maf_sha256 = arc_sha256 x,
      maf_source = arc_source x, maf_status = arc_status x\<rparr>"

definition event_record_of :: "terminal_event_record \<Rightarrow> m_run_event_record" where
  "event_record_of x =
     \<lparr>mr_seq = ter_seq x, mr_last_seq = ter_last_seq x, mr_type = ter_type x, mr_timestamp = ter_timestamp x,
      mr_payload = ter_payload x\<rparr>"

definition metadata_of :: "run_metadata \<Rightarrow> m_run_metadata" where
  "metadata_of x =
     \<lparr>mm_runtime = rmd_runtime x, mm_work_dir = rmd_work_dir x, mm_provider_id = rmd_provider_id x, mm_session_id =
      rmd_session_id x, mm_phase = rmd_phase x, mm_resume = rmd_resume x\<rparr>"

definition usage_of :: "usage \<Rightarrow> m_usage" where
  "usage_of x =
     \<lparr>mu_input_tokens = us_input_tokens x, mu_output_tokens = us_output_tokens x, mu_total_tokens = us_total_tokens
      x\<rparr>"

definition convertArtifacts :: "artifact_record list \<Rightarrow> m_artifact list" where
  "convertArtifacts artifacts = map convertArtifact artifacts"

definition metadataPayload :: "run_metadata option \<Rightarrow> m_run_metadata option" where
  "metadataPayload metadata = map_option metadata_of metadata"

definition convertUsage :: "usage option \<Rightarrow> m_usage option" where
  "convertUsage u = map_option usage_of u"

definition run_completed_of :: "terminal_payload \<Rightarrow> m_run_completed" where
  "run_completed_of tp =
     \<lparr>mc_status = tpl_status tp, mc_result = \<lparr>ms_message = tpl_message tp\<rparr>,
      mc_artifacts = convertArtifacts (tpl_artifacts tp), mc_usage = convertUsage (tpl_usage tp),
      mc_events = map event_record_of (tpl_events tp), mc_started_at = tpl_started_at tp,
      mc_completed_at = tpl_completed_at tp, mc_metadata = metadataPayload (tpl_metadata tp)\<rparr>"

definition dec_terminal :: "raw \<Rightarrow> terminal_payload option" where
  "dec_terminal payload = unmarshal (dec_struct dec_terminal_payload) payload"

definition run_completed_field :: "string \<Rightarrow> agent_event \<Rightarrow> m_run_completed option" where
  "run_completed_field runEventType event =
     (if isTerminalRunEvent runEventType then map_option run_completed_of (dec_terminal (aev_payload event)) else None)"

definition error_field :: "string \<Rightarrow> agent_event \<Rightarrow> m_run_event_error option" where
  "error_field runEventType event =
     (if runEventType = RunEventRunFailed \<or> runEventType = RunEventRunCancelled then
        Some \<lparr>me_code = [],
              me_message =
                (case dec_terminal (aev_payload event) of
                   Some tp \<Rightarrow> if tpl_error tp \<noteq> [] then tpl_error tp else aev_content event
                 | None \<Rightarrow> aev_content event)\<rparr>
      else None)"

section \<open>The sink\<close>

definition dedupMessageIDs :: "string slice \<Rightarrow> string list" where
  "dedupMessageIDs ids = uniq_loop trim_id [] (elems ids)"

record nats_sink =
  nk_ctx :: run_event_context
  nk_replyToMsgIDs :: "string list"

definition NewNATSEventSink :: "run_event_context \<Rightarrow> nats_sink" where
  "NewNATSEventSink eventContext =
     \<lparr>nk_ctx = eventContext, nk_replyToMsgIDs = dedupMessageIDs (ec_ReplyToMessageIDs eventContext)\<rparr>"

datatype emit_error =
    Unknown_event_type string
  | Bad_subject subject_error
  | Publish_failed string string

text \<open>The context of a publish: the caller's, or one that outlives its cancellation and ends by a timeout of its own.\<close>

datatype publish_context = Caller_context | Terminal_context

type_synonym published = "publish_context \<times> string \<times> run_event"

definition run_event_of :: "int \<Rightarrow> nats_sink \<Rightarrow> string \<Rightarrow> agent_event \<Rightarrow> run_event" where
  "run_event_of now s runEventType event =
     \<lparr>env_id = event_id (aev_run_id event) (aev_seq event), env_type = MessageTypeRunEvent, env_created_at = now,
      env_trace = \<lparr>tx_trace_id = aev_trace_id event, tx_request_id = ec_RequestID (nk_ctx s),
                   tx_task_id = ec_TaskID (nk_ctx s), tx_run_id = aev_run_id event,
                   tx_parent_id = ec_ParentID (nk_ctx s)\<rparr>,
      env_route = \<lparr>rt_org_id = ec_OrgID (nk_ctx s), rt_session_id = ec_SessionID (nk_ctx s),
                   rt_worker_id = ec_WorkerID (nk_ctx s)\<rparr>,
      env_body = \<lparr>rb_seq = aev_seq event, rb_event = runEventType, rb_payload = mapRunEventPayload (Some event),
                  rb_reply_to = nk_replyToMsgIDs s, rb_run_completed = run_completed_field runEventType event,
                  rb_error = error_field runEventType event\<rparr>,
      env_metadata = Raw_empty\<rparr>"

definition publish_context_of :: "string \<Rightarrow> publish_context" where
  "publish_context_of runEventType = (if isTerminalRunEvent runEventType then Terminal_context else Caller_context)"

definition Emit ::
  "(string \<Rightarrow> run_event \<Rightarrow> string option) option \<Rightarrow> int \<Rightarrow> nats_sink option \<Rightarrow> agent_event option \<Rightarrow>
   emit_error option \<times> published list" where
  "Emit bus now sink ev =
     (case (sink, bus, ev) of
        (Some s, Some publish, Some event) \<Rightarrow>
          (case mapRunEventType (aev_type event) of
             None \<Rightarrow> (Some (Unknown_event_type (aev_type event)), [])
           | Some runEventType \<Rightarrow>
               (let msg = run_event_of now s runEventType event; lane = ClassifyRunEvent runEventType in
                case RunEventSubject (ec_OrgID (nk_ctx s)) (ec_SessionID (nk_ctx s)) lane of
                  Inl e \<Rightarrow> (Some (Bad_subject e), [])
                | Inr topic \<Rightarrow>
                    (map_option (Publish_failed topic) (publish topic msg),
                     [(publish_context_of runEventType, topic, msg)])))
      | _ \<Rightarrow> (None, []))"

section \<open>Well-formed messages\<close>

lemma converted_wf [simp]:
  "wf_e_tool_call x1 \<Longrightarrow> wf_m_tool_call (tool_call_of x1)"
  "wf_e_tool_result x2 \<Longrightarrow> wf_m_tool_result (tool_result_of x2)"
  "wf_e_artifact x3 \<Longrightarrow> wf_m_artifact (artifact_of x3)"
  "wf_e_approval_request x4 \<Longrightarrow> wf_m_approval_request (approval_request_of x4)"
  "wf_e_question_request x5 \<Longrightarrow> wf_m_question_request (mapQuestionRequestPayload x5)"
  "wf_artifact_record x6 \<Longrightarrow> wf_m_artifact (convertArtifact x6)"
  "wf_usage x7 \<Longrightarrow> wf_m_usage (usage_of x7)"
  "wf_terminal_event_record x8 \<Longrightarrow> wf_m_run_event_record (event_record_of x8)"
  by (simp_all add: wf_e_tool_call_def wf_m_tool_call_def tool_call_of_def wf_e_tool_result_def wf_m_tool_result_def
      tool_result_of_def wf_e_artifact_def wf_m_artifact_def artifact_of_def wf_e_approval_request_def
      wf_m_approval_request_def approval_request_of_def wf_e_question_request_def wf_m_question_request_def
      mapQuestionRequestPayload_def wf_artifact_record_def convertArtifact_def wf_usage_def wf_m_usage_def usage_of_def
      wf_terminal_event_record_def wf_m_run_event_record_def event_record_of_def)

lemma run_completed_of_wf: "wf_terminal_payload tp \<Longrightarrow> wf_m_run_completed (run_completed_of tp)"
  by (auto simp: wf_terminal_payload_def wf_m_run_completed_def run_completed_of_def convertArtifacts_def
      convertUsage_def)

lemma with_payload_wf:
  assumes "\<And>o' x. dec o' = Some x \<Longrightarrow> Q x" "\<And>x. Q x \<Longrightarrow> P (f x p)" "P p"
  shows "P (with_payload (dec_struct dec) raw f p)"
  using assms(2,3) unmarshal_struct_elem [of dec raw] assms(1) by (fastforce simp: with_payload_def split: option.splits)

lemma plain_payload_wf: "wf_run_event_payload (plain_payload t)"
  by (simp add: wf_run_event_payload_def plain_payload_def)

lemma with_todos_wf: "wf_run_event_payload (with_payload d raw (\<lambda>t p. p\<lparr>rp_todos := f t\<rparr>) (plain_payload c))"
  by (simp add: with_payload_def wf_run_event_payload_def plain_payload_def split: option.splits)

lemma mapRunEventPayload_wf: "wf_run_event_payload (mapRunEventPayload ev)"
proof (cases ev)
  case None
  then show ?thesis by (simp add: mapRunEventPayload_def plain_payload_wf)
next
  case (Some e)
  let ?P = "wf_run_event_payload" and ?c = "plain_payload (aev_content e)" and ?r = "aev_payload e"
  have "?P (with_payload (dec_struct dec_e_message_delta) ?r
      (\<lambda>mp p. p\<lparr>rp_message_id := emd_message_id mp,
         rp_role := (if emd_role mp = [] then ''assistant'' else emd_role mp), rp_content := emd_content mp\<rparr>) ?c)"
    by (rule with_payload_wf [where Q = "\<lambda>_. True"]) (simp_all add: wf_run_event_payload_def plain_payload_def)
  moreover have "?P (with_payload (dec_struct dec_e_tool_call) ?r (\<lambda>x p. p\<lparr>rp_tool_call := Some (tool_call_of x)\<rparr>) ?c)"
    by (rule with_payload_wf, erule dec_wf_e_tool_call) (simp_all add: wf_run_event_payload_def plain_payload_def)
  moreover have "?P (with_payload (dec_struct dec_e_tool_result) ?r (\<lambda>x p. p\<lparr>rp_tool_result := Some (tool_result_of x)\<rparr>) ?c)"
    by (rule with_payload_wf, erule dec_wf_e_tool_result) (simp_all add: wf_run_event_payload_def plain_payload_def)
  moreover have "?P (with_payload (dec_struct dec_e_artifact) ?r (\<lambda>x p. p\<lparr>rp_artifact := Some (artifact_of x)\<rparr>) ?c)"
    by (rule with_payload_wf, erule dec_wf_e_artifact) (simp_all add: wf_run_event_payload_def plain_payload_def)
  moreover have "?P (with_payload (dec_struct dec_e_approval_request) ?r
      (\<lambda>x p. p\<lparr>rp_approval_request := Some (approval_request_of x)\<rparr>) ?c)"
    by (rule with_payload_wf, erule dec_wf_e_approval_request) (simp_all add: wf_run_event_payload_def plain_payload_def)
  moreover have "?P (with_payload (dec_struct dec_e_approval_decision) ?r
      (\<lambda>x p. p\<lparr>rp_approval_decision := Some (approval_decision_of x)\<rparr>) ?c)"
    by (rule with_payload_wf [where Q = "\<lambda>_. True"]) (simp_all add: wf_run_event_payload_def plain_payload_def)
  moreover have "?P (with_payload (dec_struct dec_e_question_request) ?r
      (\<lambda>x p. p\<lparr>rp_question_request := Some (mapQuestionRequestPayload x)\<rparr>) ?c)"
    by (rule with_payload_wf, erule dec_wf_e_question_request) (simp_all add: wf_run_event_payload_def plain_payload_def)
  moreover have "?P (with_payload (dec_struct dec_e_question_answer) ?r
      (\<lambda>x p. p\<lparr>rp_question_answer := Some (question_answer_of x)\<rparr>) ?c)"
    by (rule with_payload_wf [where Q = "\<lambda>_. True"]) (simp_all add: wf_run_event_payload_def plain_payload_def)
  ultimately show ?thesis
    unfolding Some mapRunEventPayload_def option.case Let_def by (simp add: with_todos_wf plain_payload_wf)
qed

lemma run_completed_field_wf: "run_completed_field t e = Some rc \<Longrightarrow> wf_m_run_completed rc"
  unfolding run_completed_field_def dec_terminal_def
  using unmarshal_struct_elem [of dec_terminal_payload "aev_payload e"] dec_wf_terminal_payload run_completed_of_wf
  by (auto split: if_splits)

lemma run_event_of_wf: "int64_range (aev_seq e) \<Longrightarrow> wf_run_event_body (env_body (run_event_of now s t e))"
  using run_completed_field_wf by (auto simp: run_event_of_def wf_run_event_body_def mapRunEventPayload_wf)

section \<open>Emit\<close>

lemma ClassifyRunEvent_lane: "ClassifyRunEvent t \<noteq> []"
  by (simp add: ClassifyRunEvent_def RunEventLaneState_def RunEventLaneStream_def)

lemma Emit_cases:
  "Emit (Some publish) now (Some s) (Some e) =
     (case mapRunEventType (aev_type e) of
        None \<Rightarrow> (Some (Unknown_event_type (aev_type e)), [])
      | Some t \<Rightarrow>
          (case RunEventSubject (ec_OrgID (nk_ctx s)) (ec_SessionID (nk_ctx s)) (ClassifyRunEvent t) of
             Inl er \<Rightarrow> (Some (Bad_subject er), [])
           | Inr topic \<Rightarrow> (map_option (Publish_failed topic) (publish topic (run_event_of now s t e)),
                         [(publish_context_of t, topic, run_event_of now s t e)])))"
  by (simp add: Emit_def Let_def split: option.split sum.split)

lemma Emit_published:
  assumes "Emit (Some publish) now (Some s) (Some e) = (err, out)" "(c, topic, msg) \<in> set out"
  obtains t where "mapRunEventType (aev_type e) = Some t" "msg = run_event_of now s t e" "out = [(c, topic, msg)]"
    "c = publish_context_of t" "err = map_option (Publish_failed topic) (publish topic msg)"
    "RunEventSubject (ec_OrgID (nk_ctx s)) (ec_SessionID (nk_ctx s)) (ClassifyRunEvent t) = Inr topic"
proof (cases "mapRunEventType (aev_type e)")
  case None
  with assms show ?thesis unfolding Emit_cases by simp
next
  case (Some t)
  show ?thesis
  proof (cases "RunEventSubject (ec_OrgID (nk_ctx s)) (ec_SessionID (nk_ctx s)) (ClassifyRunEvent t)")
    case (Inl er)
    with assms Some show ?thesis unfolding Emit_cases by simp
  next
    case (Inr tp)
    let ?m = "run_event_of now s t e"
    have o: "err = map_option (Publish_failed tp) (publish tp ?m)" "out = [(publish_context_of t, tp, ?m)]"
      using assms(1) Some Inr unfolding Emit_cases by simp_all
    then have "c = publish_context_of t" "topic = tp" "msg = ?m" using assms(2) by simp_all
    with o Inr show ?thesis by (intro that [OF Some]) simp_all
  qed
qed

text \<open>A sink and an event for the witnesses; the payload of the event is not JSON.\<close>

definition demo_sink :: nats_sink where
  "demo_sink = NewNATSEventSink
     \<lparr>ec_OrgID = 7, ec_WorkerID = 1, ec_SessionID = ''s'', ec_TraceID = [], ec_RequestID = [], ec_TaskID = [],
      ec_RunID = ''r'', ec_ParentID = [], ec_ReplyToMessageIDs = Some [''4'', '' 4 '', ''5'']\<rparr>"

definition demo_started :: agent_event where
  "demo_started = (empty_event ''tool_call.started'')
     \<lparr>aev_run_id := ''r'', aev_seq := 3, aev_payload := Raw_bad ''x'', aev_content := ''ls''\<rparr>"

lemma demo_emit:
  "Emit (Some (\<lambda>_ _. None)) 0 (Some demo_sink) (Some demo_started) =
     (None, [(Caller_context, ''org.7.session.s.run.stream'', run_event_of 0 demo_sink RunEventToolCallStarted demo_started)])"
proof -
  have "RunEventSubject 7 ''s'' RunEventLaneStream = Inr ''org.7.session.s.run.stream''" by code_simp
  moreover have "mapRunEventType ''tool_call.started'' = Some RunEventToolCallStarted"
    "ClassifyRunEvent RunEventToolCallStarted = RunEventLaneStream"
    "publish_context_of RunEventToolCallStarted = Caller_context" by code_simp+
  ultimately show ?thesis
    by (simp add: Emit_cases demo_sink_def NewNATSEventSink_def demo_started_def empty_event_def)
qed



text \<open>
  C37: What \<open>Emit\<close> does with an event. It publishes at most one message, and none exactly when the event type is not one
  of the mapped ones or the run has no organisation or no session, and then it returns an error. A message goes to the
  session's subject on the lane of its type, which the session stream covers; it is published under the context that
  survives the run's cancellation exactly for the three terminal types; and \<open>Emit\<close> fails exactly when the bus does.
\<close>

theorem emit_outcome:
  assumes "Emit (Some publish) now (Some s) (Some e) = (err, out)"
  shows "(out = [] \<longleftrightarrow> mapRunEventType (aev_type e) = None \<or> ec_OrgID (nk_ctx s) = 0 \<or> ec_SessionID (nk_ctx s) = []) \<and>
    (out = [] \<longrightarrow> err \<noteq> None) \<and>
    (\<forall>c topic msg. (c, topic, msg) \<in> set out \<longrightarrow> out = [(c, topic, msg)] \<and>
      topic = ''org.'' @ show_nat (ec_OrgID (nk_ctx s)) @ ''.session.'' @ ec_SessionID (nk_ctx s) @ ''.'' @
        ClassifyRunEvent (rb_event (env_body msg)) \<and> StreamNameFromSubject topic = StreamNameSession \<and>
      mapRunEventType (aev_type e) = Some (rb_event (env_body msg)) \<and>
      (c = Terminal_context \<longleftrightarrow> aev_type e \<in> {''run.completed'', ''run.failed'', ''run.cancelled''}) \<and>
      err = map_option (Publish_failed topic) (publish topic msg))"
proof (intro conjI allI impI)
  show "out = [] \<longleftrightarrow> mapRunEventType (aev_type e) = None \<or> ec_OrgID (nk_ctx s) = 0 \<or> ec_SessionID (nk_ctx s) = []"
    using assms ClassifyRunEvent_lane by (auto simp: Emit_cases RunEventSubject_def split: option.splits sum.splits if_splits)
  show "err \<noteq> None" if "out = []"
    using assms that ClassifyRunEvent_lane by (auto simp: Emit_cases RunEventSubject_def split: option.splits sum.splits if_splits)
  fix c topic msg
  assume "(c, topic, msg) \<in> set out"
  from Emit_published [OF assms this] obtain t where
    t: "mapRunEventType (aev_type e) = Some t" "msg = run_event_of now s t e" "out = [(c, topic, msg)]"
    "c = publish_context_of t" "err = map_option (Publish_failed topic) (publish topic msg)"
    "RunEventSubject (ec_OrgID (nk_ctx s)) (ec_SessionID (nk_ctx s)) (ClassifyRunEvent t) = Inr topic" .
  have ev: "rb_event (env_body msg) = t" using t(2) by (simp add: run_event_of_def)
  show "out = [(c, topic, msg)]" "err = map_option (Publish_failed topic) (publish topic msg)" by (fact t)+
  show "topic = ''org.'' @ show_nat (ec_OrgID (nk_ctx s)) @ ''.session.'' @ ec_SessionID (nk_ctx s) @ ''.'' @
      ClassifyRunEvent (rb_event (env_body msg))" "StreamNameFromSubject topic = StreamNameSession"
    using t(6) RunEventSubject_stream [OF t(6)] ev by (auto simp: RunEventSubject_def split: if_splits)
  show "mapRunEventType (aev_type e) = Some (rb_event (env_body msg))" using t(1) ev by simp
  show "c = Terminal_context \<longleftrightarrow> aev_type e \<in> {''run.completed'', ''run.failed'', ''run.cancelled''}"
    using t(1,4) by (auto simp: publish_context_of_def isTerminalRunEvent_def mapRunEventType_def msg_defs split: if_splits)
qed

lemma emit_outcome_witness:
  "mapRunEventType ''tool_call.started'' \<noteq> None \<and> StreamNameFromSubject ''org.7.session.s.run.stream'' = StreamNameSession"
proof
  show "mapRunEventType ''tool_call.started'' \<noteq> None"
    using emit_outcome [OF demo_emit] by (simp add: demo_started_def empty_event_def)
  show "StreamNameFromSubject ''org.7.session.s.run.stream'' = StreamNameSession"
    by (rule emit_outcome [OF demo_emit, THEN conjunct2, THEN conjunct2, rule_format, OF list.set_intros(1), THEN conjunct2, THEN conjunct2, THEN conjunct1])
qed

end
