(* ===== verification/Archive.thy ===== *)
theory Archive
  imports Journal
begin

text \<open>
  Correctness of \<open>archiveEvents\<close> (\<open>backend/internal/assistant/journal.go\<close>): the archive of a run keeps the text of every
  streamed message, in one record per message and event type, in the order of the sequence numbers that the journal gave.
\<close>

section \<open>The text of a message\<close>

type_synonym merge_key = "string \<times> string"

text \<open>The text that a message contributes through a record or an event payload.\<close>

definition text_of :: "merge_key \<Rightarrow> string \<Rightarrow> raw \<Rightarrow> string" where
  "text_of key t payload =
     (if is_delta t \<and> t = fst key then
        (case dec_delta payload of
           Some p \<Rightarrow> if emd_message_id p = snd key then emd_content p else []
         | None \<Rightarrow> [])
      else [])"

definition archive_text :: "merge_key \<Rightarrow> journal_event_record list \<Rightarrow> string" where
  "archive_text key rs = concat (map (\<lambda>r. text_of key (jr_Type r) (jr_Payload r)) rs)"

definition event_text :: "merge_key \<Rightarrow> agent_event list \<Rightarrow> string" where
  "event_text key es = concat (map (\<lambda>e. text_of key (aev_type e) (aev_payload e)) es)"

definition has_key :: "merge_key \<Rightarrow> journal_event_record \<Rightarrow> bool" where
  "has_key key r \<longleftrightarrow> is_delta (jr_Type r) \<and> jr_Type r = fst key \<and>
     (\<exists>p. dec_delta (jr_Payload r) = Some p \<and> emd_message_id p = snd key)"

lemma dec_delta_enc [simp]: "dec_delta (Raw (JObj (enc_e_message_delta p))) = Some p"
  by (simp add: dec_delta_def dec_struct_def)

lemma no_key_no_text: "\<not> has_key key r \<Longrightarrow> text_of key (jr_Type r) (jr_Payload r) = []"
  by (auto simp: has_key_def text_of_def split: option.splits)

lemma archive_text_append [simp]: "archive_text key (rs @ rs') = archive_text key rs @ archive_text key rs'"
  by (simp add: archive_text_def)

lemma archive_text_simps [simp]:
  "archive_text key [] = []"
  "archive_text key (r # rs) = text_of key (jr_Type r) (jr_Payload r) @ archive_text key rs"
  by (simp_all add: archive_text_def)

lemma archive_text_none: "(\<And>r. r \<in> set rs \<Longrightarrow> \<not> has_key key r) \<Longrightarrow> archive_text key rs = []"
  by (induction rs) (simp_all add: no_key_no_text)

lemma archive_text_single:
  assumes "i < length rs" "\<And>k. k < length rs \<Longrightarrow> k \<noteq> i \<Longrightarrow> \<not> has_key key (rs ! k)"
  shows "archive_text key rs = text_of key (jr_Type (rs ! i)) (jr_Payload (rs ! i))"
proof -
  have "archive_text key (take i rs) = []"
    using assms by (intro archive_text_none) (auto simp: in_set_conv_nth)
  moreover have "archive_text key (drop (Suc i) rs) = []"
    using assms(2) by (intro archive_text_none) (auto simp: in_set_conv_nth)
  ultimately show ?thesis
    by (subst id_take_nth_drop [OF assms(1)]) simp
qed

section \<open>One step\<close>

text \<open>The delta of an event that takes part in merging.\<close>

definition delta_of :: "agent_event \<Rightarrow> e_message_delta option" where
  "delta_of e =
     (if is_delta (aev_type e) then
        (case dec_delta (aev_payload e) of
           Some p \<Rightarrow> if emd_message_id p = [] then None else Some p
         | None \<Rightarrow> None)
      else None)"

definition joined :: "journal_event_record \<Rightarrow> e_message_delta \<Rightarrow> e_message_delta \<Rightarrow> int \<Rightarrow> journal_event_record" where
  "joined r old p q = r\<lparr>jr_Payload := Raw (JObj (enc_e_message_delta
     (old\<lparr>emd_content := emd_content old @ emd_content p\<rparr>))), jr_LastSeq := q\<rparr>"

lemma joined_sel [simp]:
  "jr_Type (joined r old p q) = jr_Type r" "jr_Seq (joined r old p q) = jr_Seq r"
  "dec_delta (jr_Payload (joined r old p q)) = Some (old\<lparr>emd_content := emd_content old @ emd_content p\<rparr>)"
  by (simp_all add: joined_def)

lemma archive_step_alt:
  "archive_step (rs, m) e =
     (if unarchived (aev_type e) then (rs, m)
      else case delta_of e of
        None \<Rightarrow> (rs @ [record_of e], m)
      | Some p \<Rightarrow>
          (case m (aev_type e, emd_message_id p) of
             None \<Rightarrow> (rs @ [record_of e], m((aev_type e, emd_message_id p) \<mapsto> length rs))
           | Some i \<Rightarrow>
               (case dec_delta (jr_Payload (rs ! i)) of
                  None \<Rightarrow> (rs @ [record_of e], m((aev_type e, emd_message_id p) \<mapsto> length rs))
                | Some old \<Rightarrow> (rs[i := joined (rs ! i) old p (aev_seq e)], m))))"
  by (cases "dec_delta (aev_payload e)")
     (simp_all add: archive_step_def delta_of_def joined_def Let_def split: option.split)

lemma record_of_sel [simp]:
  "jr_Seq (record_of e) = aev_seq e" "jr_LastSeq (record_of e) = aev_seq e" "jr_Type (record_of e) = aev_type e"
  "jr_Payload (record_of e) = aev_payload e"
  by (simp_all add: record_of_def)

lemma delta_of_None: "delta_of e = None \<Longrightarrow> snd key \<noteq> [] \<Longrightarrow> \<not> has_key key (record_of e)"
  by (auto simp: delta_of_def has_key_def split: if_splits option.splits)

lemma delta_of_Some:
  "delta_of e = Some p \<Longrightarrow> is_delta (aev_type e) \<and> dec_delta (aev_payload e) = Some p \<and> emd_message_id p \<noteq> []"
  by (auto simp: delta_of_def split: if_splits option.splits)

text \<open>The map of merge keys knows the one record of each key.\<close>

definition archive_inv :: "archive \<Rightarrow> bool" where
  "archive_inv a \<longleftrightarrow>
     (\<forall>i key. i < length (fst a) \<longrightarrow> snd key \<noteq> [] \<longrightarrow> has_key key (fst a ! i) \<longrightarrow> snd a key = Some i) \<and>
     (\<forall>key i. snd a key = Some i \<longrightarrow> i < length (fst a) \<and> has_key key (fst a ! i) \<and> snd key \<noteq> [])"

lemma archive_invD1: "archive_inv (rs, m) \<Longrightarrow> i < length rs \<Longrightarrow> snd key \<noteq> [] \<Longrightarrow> has_key key (rs ! i) \<Longrightarrow> m key = Some i"
  unfolding archive_inv_def fst_conv snd_conv by blast

lemma archive_invD2: "archive_inv (rs, m) \<Longrightarrow> m key = Some i \<Longrightarrow> i < length rs \<and> has_key key (rs ! i) \<and> snd key \<noteq> []"
  unfolding archive_inv_def fst_conv snd_conv by blast

lemma archive_invI:
  "(\<And>i key. i < length rs \<Longrightarrow> snd key \<noteq> [] \<Longrightarrow> has_key key (rs ! i) \<Longrightarrow> m key = Some i) \<Longrightarrow>
   (\<And>key i. m key = Some i \<Longrightarrow> i < length rs \<and> has_key key (rs ! i) \<and> snd key \<noteq> []) \<Longrightarrow> archive_inv (rs, m)"
  unfolding archive_inv_def fst_conv snd_conv by blast

lemma archive_inv_plain:
  assumes "archive_inv (rs, m)" "\<And>key. snd key \<noteq> [] \<Longrightarrow> \<not> has_key key r"
  shows "archive_inv (rs @ [r], m)"
proof (rule archive_invI)
  fix i key assume "i < length (rs @ [r])" "snd key \<noteq> []" "has_key key ((rs @ [r]) ! i)"
  then show "m key = Some i"
    using archive_invD1 [OF assms(1), of i key] assms(2) [of key] by (cases "i = length rs") (simp_all add: nth_append)
next
  fix key i assume "m key = Some i"
  from archive_invD2 [OF assms(1) this]
  show "i < length (rs @ [r]) \<and> has_key key ((rs @ [r]) ! i) \<and> snd key \<noteq> []" by (simp add: nth_append)
qed

lemma archive_inv_new:
  assumes "archive_inv (rs, m)" "m k = None" "snd k \<noteq> []" "\<And>key. has_key key r \<longleftrightarrow> key = k"
  shows "archive_inv (rs @ [r], m(k \<mapsto> length rs))"
proof (rule archive_invI)
  fix i key assume "i < length (rs @ [r])" "snd key \<noteq> []" "has_key key ((rs @ [r]) ! i)"
  then show "(m(k \<mapsto> length rs)) key = Some i"
    using archive_invD1 [OF assms(1), of i key] assms(2,4) by (cases "i = length rs") (auto simp: nth_append)
next
  fix key i assume "(m(k \<mapsto> length rs)) key = Some i"
  then show "i < length (rs @ [r]) \<and> has_key key ((rs @ [r]) ! i) \<and> snd key \<noteq> []"
    using archive_invD2 [OF assms(1), of key i] assms(3,4) by (cases "key = k") (simp_all add: nth_append)
qed

lemma archive_inv_update:
  assumes "archive_inv (rs, m)" "\<And>key. has_key key r = has_key key (rs ! i)"
  shows "archive_inv (rs[i := r], m)"
proof (rule archive_invI)
  fix j key assume "j < length (rs[i := r])" "snd key \<noteq> []" "has_key key (rs[i := r] ! j)"
  then show "m key = Some j"
    using archive_invD1 [OF assms(1), of j key] assms(2) by (cases "j = i") simp_all
next
  fix key j assume "m key = Some j"
  from archive_invD2 [OF assms(1) this]
  show "j < length (rs[i := r]) \<and> has_key key (rs[i := r] ! j) \<and> snd key \<noteq> []"
    using assms(2) by (cases "j = i") simp_all
qed

lemma has_key_joined:
  "has_key key r \<Longrightarrow> dec_delta (jr_Payload r) = Some old \<Longrightarrow> has_key k (joined r old p q) = has_key k r"
  by (auto simp: has_key_def)

lemma archive_inv_step:
  assumes "archive_inv (rs, m)"
  shows "archive_inv (archive_step (rs, m) e)"
proof (cases "unarchived (aev_type e)")
  case True
  with assms show ?thesis by (simp add: archive_step_alt)
next
  case un: False
  show ?thesis
  proof (cases "delta_of e")
    case None
    have "archive_inv (rs @ [record_of e], m)"
      by (rule archive_inv_plain [OF assms delta_of_None [OF None]])
    with un None show ?thesis by (simp add: archive_step_alt)
  next
    case (Some p)
    note d = delta_of_Some [OF Some]
    let ?k = "(aev_type e, emd_message_id p)"
    have hk: "has_key key (record_of e) \<longleftrightarrow> key = ?k" for key using d by (cases key) (auto simp: has_key_def)
    show ?thesis
    proof (cases "m ?k")
      case None
      have "archive_inv (rs @ [record_of e], m(?k \<mapsto> length rs))"
        by (rule archive_inv_new [OF assms None]) (use d hk in auto)
      with un Some None show ?thesis by (simp add: archive_step_alt)
    next
      case (Some i)
      from archive_invD2 [OF assms Some] obtain old where
        old: "i < length rs" "has_key ?k (rs ! i)" "dec_delta (jr_Payload (rs ! i)) = Some old"
        by (auto simp: has_key_def)
      have "archive_inv (rs[i := joined (rs ! i) old p (aev_seq e)], m)"
        by (rule archive_inv_update [OF assms has_key_joined [OF old(2,3)]])
      with un \<open>delta_of e = Some p\<close> Some old(3) show ?thesis by (simp add: archive_step_alt)
    qed
  qed
qed

lemma archive_text_step:
  assumes "archive_inv (rs, m)" "snd key \<noteq> []" "\<not> unarchived (aev_type e)"
  shows "archive_text key (fst (archive_step (rs, m) e)) = archive_text key rs @ text_of key (aev_type e) (aev_payload e)"
proof (cases "delta_of e")
  case None
  with assms show ?thesis by (simp add: archive_step_alt)
next
  case (Some p)
  note d = delta_of_Some [OF Some]
  let ?k = "(aev_type e, emd_message_id p)"
  show ?thesis
  proof (cases "m ?k")
    case None
    with assms Some show ?thesis by (simp add: archive_step_alt)
  next
    case mk: (Some i)
    from archive_invD2 [OF assms(1) mk] obtain old where
      old: "i < length rs" "has_key ?k (rs ! i)" "dec_delta (jr_Payload (rs ! i)) = Some old" "emd_message_id old = emd_message_id p"
      by (auto simp: has_key_def)
    let ?r = "joined (rs ! i) old p (aev_seq e)" and ?rs = "rs[i := joined (rs ! i) old p (aev_seq e)]"
    have st: "fst (archive_step (rs, m) e) = ?rs" using assms(3) Some mk old(3) by (simp add: archive_step_alt)
    show ?thesis
    proof (cases "key = ?k")
      case True
      have uq: "\<not> has_key key (rs ! k)" if "k < length rs" "k \<noteq> i" for k
        using archive_invD1 [OF assms(1) that(1) assms(2)] mk True that(2) by auto
      have "archive_text key ?rs = text_of key (jr_Type (?rs ! i)) (jr_Payload (?rs ! i))"
        using old(1) uq by (intro archive_text_single) simp_all
      moreover have "archive_text key rs = text_of key (jr_Type (rs ! i)) (jr_Payload (rs ! i))"
        using old(1) uq by (intro archive_text_single) simp_all
      ultimately show ?thesis
        using st old d True by (auto simp: text_of_def has_key_def)
    next
      case False
      have same: "text_of key (jr_Type ?r) (jr_Payload ?r) = text_of key (jr_Type (rs ! i)) (jr_Payload (rs ! i))"
        using False old by (auto simp: text_of_def has_key_def)
      have "archive_text key ?rs = archive_text key rs"
        unfolding archive_text_def map_update same
        using old(1) by (metis list_update_id map_update)
      moreover have "text_of key (aev_type e) (aev_payload e) = []" using False d by (cases key) (auto simp: text_of_def)
      ultimately show ?thesis using st by simp
    qed
  qed
qed

section \<open>All events\<close>

lemma archive_all_snoc: "archive_all (es @ [e]) = archive_step (archive_all es) e"
  by (simp add: archive_all_def)

lemma archive_all_inv: "archive_inv (archive_all es)"
proof (induction es rule: rev_induct)
  case Nil
  show ?case by (simp add: archive_all_def archive_inv_def)
next
  case (snoc e es)
  then show ?case by (cases "archive_all es") (simp add: archive_all_snoc archive_inv_step)
qed

lemma unarchived_no_text: "unarchived t \<Longrightarrow> text_of key t p = []"
  by (auto simp: unarchived_def text_of_def is_delta_def)

lemma archive_all_text:
  assumes "snd key \<noteq> []"
  shows "archive_text key (fst (archive_all es)) = event_text key es"
proof (induction es rule: rev_induct)
  case Nil
  show ?case by (simp add: archive_all_def event_text_def)
next
  case (snoc e es)
  obtain rs m where a: "archive_all es = (rs, m)" by fastforce
  show ?case
  proof (cases "unarchived (aev_type e)")
    case True
    with snoc a show ?thesis by (simp add: archive_all_snoc archive_step_alt event_text_def unarchived_no_text)
  next
    case False
    with snoc a assms archive_all_inv [of es] show ?thesis
      by (simp add: archive_all_snoc archive_text_step event_text_def)
  qed
qed

lemma archive_all_seqs: "subseq (map jr_Seq (fst (archive_all es))) (map aev_seq es)"
proof (induction es rule: rev_induct)
  case Nil
  show ?case by (simp add: archive_all_def)
next
  case (snoc e es)
  obtain rs m where a: "archive_all es = (rs, m)" by fastforce
  have joined: "map jr_Seq (rs[i := joined (rs ! i) old p q]) = map jr_Seq rs" for i old p q
    by (cases "i < length rs") (auto intro!: nth_equalityI simp: nth_list_update)
  have "subseq (map jr_Seq rs) (map aev_seq es @ [aev_seq e])" "subseq (map jr_Seq rs @ [aev_seq e]) (map aev_seq es @ [aev_seq e])"
    using snoc a by (auto intro: list_emb_append2 subseq_append' list_emb_append_mono)
  then show ?case
    by (auto simp: archive_all_snoc a archive_step_alt joined split: option.split)
qed

lemma archive_all_one:
  assumes "snd key \<noteq> []"
  shows "length (filter (has_key key) (fst (archive_all es))) \<le> 1"
proof -
  obtain rs m where a: "archive_all es = (rs, m)" by fastforce
  have inv: "archive_inv (rs, m)" using archive_all_inv [of es] a by simp
  have "i = k" if "i < length rs" "k < length rs" "has_key key (rs ! i)" "has_key key (rs ! k)" for i k
    using archive_invD1 [OF inv that(1) assms that(3)] archive_invD1 [OF inv that(2) assms that(4)] by simp
  then have "card {i. i < length rs \<and> has_key key (rs ! i)} \<le> Suc 0"
    by (subst card_le_Suc0_iff_eq) auto
  then show ?thesis using a by (simp add: length_filter_conv_card)
qed

lemma subseq_sorted_wrt: "subseq xs ys \<Longrightarrow> sorted_wrt P ys \<Longrightarrow> sorted_wrt P xs"
proof (induction rule: list_emb.induct)
  case (list_emb_Cons2 x y xs ys)
  then show ?case using set_nths_subset by (auto dest: list_emb_set)
qed simp_all

lemma archiveEvents_sorted:
  assumes "sorted_wrt (<) (map aev_seq es)"
  shows "archiveEvents es = fst (archive_all es)" "sorted_wrt (<) (map jr_Seq (archiveEvents es))"
proof -
  have sw: "sorted_wrt (<) (map jr_Seq (fst (archive_all es)))"
    using subseq_sorted_wrt [OF archive_all_seqs assms] by simp
  then have "sorted (map jr_Seq (fst (archive_all es)))" by (rule strict_sorted_imp_sorted)
  then show "archiveEvents es = fst (archive_all es)" by (simp add: archiveEvents_def sort_key_id_if_sorted)
  with sw show "sorted_wrt (<) (map jr_Seq (archiveEvents es))" by simp
qed

lemma archive_all_unarchived: "r \<in> set (fst (archive_all es)) \<Longrightarrow> \<not> unarchived (jr_Type r)"
proof (induction es arbitrary: r rule: rev_induct)
  case Nil
  then show ?case by (simp add: archive_all_def)
next
  case (snoc e es)
  obtain rs m where a: "archive_all es = (rs, m)" by fastforce
  have old: "\<not> unarchived (jr_Type s)" if "s \<in> set rs" for s using snoc.IH [of s] a that by simp
  have upd: "\<not> unarchived (jr_Type s)" if "s \<in> set (rs[i := joined (rs ! i) q p n])" for s i q p n
  proof -
    have "s = joined (rs ! i) q p n \<and> i < length rs \<or> s \<in> set rs"
      using that set_update_subset_insert [of rs i "joined (rs ! i) q p n"] by (cases "i < length rs") (auto simp: not_less list_update_beyond)
    with old [of "rs ! i"] old [of s] show ?thesis by auto
  qed
  have "r \<in> set rs \<or> (r = record_of e \<and> \<not> unarchived (aev_type e)) \<or> (\<exists>i q p n. r \<in> set (rs[i := joined (rs ! i) q p n]))"
    using snoc.prems by (auto simp: archive_all_snoc a archive_step_alt split: if_splits option.splits)
  then show ?case using old [of r] upd [of r] by auto
qed

section \<open>The journal\<close>

lemma record_all_types:
  "record_all es j = (out, j') \<Longrightarrow>
   map aev_type out = map (aev_type \<circ> snd) es \<and> map aev_payload out = map (aev_payload \<circ> snd) es"
proof (induction es arbitrary: j out)
  case (Cons ne es)
  obtain now e e' j1 out1 where o: "ne = (now, e)" "Record now e j = (e', j1)" "record_all es j1 = (out1, j')" "out = e' # out1"
    using Cons.prems by (cases ne) (auto simp: Let_def split: prod.splits)
  show ?case using Cons.IH [OF o(3)] Record_maxSeq [OF o(2)] o(1,4) by simp
qed simp

lemma isTerminal_no_text: "isTerminalEvent t \<Longrightarrow> text_of key t p = []"
  by (auto simp: isTerminalEvent_def text_of_def is_delta_def)

lemma event_text_filter:
  "event_text key (filter (\<lambda>e. \<not> isTerminalEvent (aev_type e)) es) = event_text key es"
  by (induction es) (simp_all add: event_text_def isTerminal_no_text)

lemma event_text_cong:
  "map aev_type es = map (aev_type \<circ> snd) fs \<Longrightarrow> map aev_payload es = map (aev_payload \<circ> snd) fs \<Longrightarrow>
   event_text key es = event_text key (map snd fs)"
proof (induction es arbitrary: fs)
  case (Cons e es)
  then show ?case by (cases fs) (simp_all add: event_text_def)
qed (simp add: event_text_def)

text \<open>A run for the witnesses: three text deltas of one message, sent without sequence numbers, around a result.\<close>

definition demo_delta :: "string \<Rightarrow> agent_event" where
  "demo_delta s = (empty_event ''message.delta'')
     \<lparr>aev_payload := Raw (JObj (enc_e_message_delta
        \<lparr>emd_message_id = ''m'', emd_role = ''assistant'', emd_content = s\<rparr>))\<rparr>"

definition demo_run :: "(go_time \<times> agent_event) list" where
  "demo_run = map (Pair no_time)
     [demo_delta ''a'', demo_delta ''b'', empty_event ''message.result'', demo_delta ''c'', empty_event ''run.completed'']"

lemma demo_run_room: "seq_room 0 demo_run (NewJournal None)"
  by (simp add: seq_room_def demo_run_def demo_delta_def empty_event_def NewJournal_def)

text \<open>
  Whatever sequence numbers a runtime gives its events (zero, duplicates, decreasing numbers), the events that
  leave \<open>Record\<close> carry strictly increasing ones, above everything the journal had handed out before, and their types and
  payloads are those of the runtime; \<open>maxSeq\<close> is the last number given. The numbers must leave room below \<open>2^63\<close>.
\<close>

theorem journal_seq_increasing:
  assumes "seq_room b es j" "record_all es j = (out, j')"
  shows "sorted_wrt (<) (jn_maxSeq j # map aev_seq out) \<and> jn_maxSeq j' = last (jn_maxSeq j # map aev_seq out) \<and>
    map aev_type out = map (aev_type \<circ> snd) es \<and> map aev_payload out = map (aev_payload \<circ> snd) es"
  using record_all_increasing [OF assms] record_all_types [OF assms(2)] by simp_all

lemma journal_seq_increasing_witness:
  "sorted_wrt (<) (0 # map aev_seq (fst (record_all demo_run (NewJournal None))))"
  using journal_seq_increasing [OF demo_run_room prod.collapse [symmetric]]
  by (simp add: NewJournal_def)

text \<open>
  C10: The archive of a run keeps the whole text of every streamed message. After any events have been recorded by a fresh
  journal, the archived records carry strictly increasing sequence numbers; for every message id and delta type the
  concatenated text of the records is the concatenated text of the events; each message has at most one record; and no
  terminal event and no \<open>message.result\<close> is archived.
\<close>

theorem journal_archive_faithful:
  assumes "seq_room b es (NewJournal req)" "record_all es (NewJournal req) = (out, j)" "snd key \<noteq> []"
  shows "sorted_wrt (<) (map jr_Seq (js_Events (Snapshot j))) \<and>
    archive_text key (js_Events (Snapshot j)) = event_text key (map snd es) \<and>
    length (filter (has_key key) (js_Events (Snapshot j))) \<le> 1 \<and>
    (\<forall>rec \<in> set (js_Events (Snapshot j)). \<not> unarchived (jr_Type rec))"
proof (intro conjI ballI)
  let ?raw = "filter (\<lambda>e. \<not> isTerminalEvent (aev_type e)) out"
  have ev: "js_Events (Snapshot j) = archiveEvents ?raw"
    using record_all_raw [OF assms(2)] by (simp add: Snapshot_def NewJournal_def)
  have "sorted_wrt (<) (map aev_seq out)" using record_all_increasing [OF assms(1,2)] by simp
  then have "sorted_wrt (<) (map aev_seq ?raw)" by (simp add: sorted_wrt_map sorted_wrt_filter)
  note s = archiveEvents_sorted [OF this]
  show "sorted_wrt (<) (map jr_Seq (js_Events (Snapshot j)))" using s(2) ev by simp
  show "length (filter (has_key key) (js_Events (Snapshot j))) \<le> 1" using s(1) ev archive_all_one [OF assms(3)] by simp
  show "\<not> unarchived (jr_Type rec)" if "rec \<in> set (js_Events (Snapshot j))" for rec using that s(1) ev archive_all_unarchived by simp
  show "archive_text key (js_Events (Snapshot j)) = event_text key (map snd es)"
    unfolding ev s(1) archive_all_text [OF assms(3)] event_text_filter
    using record_all_types [OF assms(2)] by (intro event_text_cong) simp_all
qed

lemma journal_archive_faithful_witness:
  "archive_text (''message.delta'', ''m'') (js_Events (Snapshot (snd (record_all demo_run (NewJournal None))))) = ''abc''"
  unfolding journal_archive_faithful [OF demo_run_room prod.collapse [symmetric], of "(''message.delta'', ''m'')", THEN conjunct2, THEN conjunct1, simplified]
  by (simp add: event_text_def demo_run_def demo_delta_def empty_event_def text_of_def is_delta_def)

end
