(* ===== verification/Projector.thy ===== *)
theory Projector
  imports NatsSink Archive
begin

text \<open>
  What a session's clients see of a run (\<open>backend/internal/service/session_event_projector.go\<close>): the projection of a run event
  that arrives on the bus (live), and of an archived event of a stored message (replayed). A payload shown to a client is
  a value of one of several Go types; \<open>shown\<close> is its JSON. \<open>rfc3339\<close> is the text of an instant in nanoseconds; numbers inside a
  tool's result are kept as they are written. \<open>message_chunk\<close> is \<open>types.MessageChunk\<close>.

  Lemmas: live and replayed views of the same runtime event agree; the differences between them.
\<close>

section \<open>Views\<close>

record tool_result_view =
  tv_ToolCallID :: string
  tv_Name :: string
  tv_Result :: json
  tv_Status :: string

definition enc_tool_result_view :: "tool_result_view \<Rightarrow> obj" where
  "enc_tool_result_view x =
     put ''tool_call_id'' [JStr (tv_ToolCallID x)] @ put ''name'' [JStr (tv_Name x)] @
     put ''result'' [tv_Result x] @ put ''status'' [JStr (tv_Status x)]"

record run_status_view =
  sw_Status :: string
  sw_RunID :: string
  sw_Message :: string

definition enc_run_status_view :: "run_status_view \<Rightarrow> obj" where
  "enc_run_status_view x =
     put ''status'' [JStr (sw_Status x)] @ put ''run_id'' (str_ne (sw_RunID x)) @ put ''message'' (str_ne (sw_Message x))"

record run_terminal_view =
  rw_Status :: string
  rw_Result :: m_run_result
  rw_Error :: string
  rw_Artifacts :: "artifact_record list"
  rw_Usage :: "usage option"
  rw_Events :: "terminal_event_record list"
  rw_StartedAt :: string
  rw_CompletedAt :: string
  rw_Metadata :: "run_metadata option"

definition enc_run_terminal_view :: "run_terminal_view \<Rightarrow> obj" where
  "enc_run_terminal_view x =
     put ''status'' [JStr (rw_Status x)] @
     put ''result'' [JObj (enc_m_run_result (rw_Result x))] @
     put ''error'' (str_ne (rw_Error x)) @
     put ''artifacts'' (list_ne (\<lambda>y. JObj (enc_artifact_record y)) (rw_Artifacts x)) @
     put ''usage'' (ptr_ne (\<lambda>y. JObj (enc_usage y)) (rw_Usage x)) @
     put ''events'' (list_ne (\<lambda>y. JObj (enc_terminal_event_record y)) (rw_Events x)) @
     put ''started_at'' (str_ne (rw_StartedAt x)) @
     put ''completed_at'' (str_ne (rw_CompletedAt x)) @
     put ''metadata'' (ptr_ne (\<lambda>y. JObj (enc_run_metadata y)) (rw_Metadata x))"

text \<open>The dynamic type of the field \<open>Payload\<close> of a session event.\<close>

datatype view =
    No_view
  | Delta_view e_message_delta
  | Tool_call_view e_tool_call
  | Tool_result_view tool_result_view
  | Todo_view "e_todo_item list"
  | Artifact_view e_artifact
  | Terminal_view run_terminal_view
  | Status_view run_status_view
  | Title_view e_work_title
  | Approval_view e_approval_request
  | Approval_msg_view m_approval_request
  | Decision_view e_approval_decision
  | Decision_msg_view m_approval_decision
  | Question_view e_question_request
  | Question_msg_view m_question_request
  | Answer_view e_question_answer
  | Answer_msg_view m_question_answer

definition shown :: "view \<Rightarrow> json" where
  "shown v =
     (case v of
        No_view \<Rightarrow> JNull
      | Delta_view x \<Rightarrow> JObj (enc_e_message_delta x)
      | Tool_call_view x \<Rightarrow> JObj (enc_e_tool_call x)
      | Tool_result_view x \<Rightarrow> JObj (enc_tool_result_view x)
      | Todo_view xs \<Rightarrow> JArr (map (\<lambda>x. JObj (enc_e_todo_item x)) xs)
      | Artifact_view x \<Rightarrow> JObj (enc_e_artifact x)
      | Terminal_view x \<Rightarrow> JObj (enc_run_terminal_view x)
      | Status_view x \<Rightarrow> JObj (enc_run_status_view x)
      | Title_view x \<Rightarrow> JObj (enc_e_work_title x)
      | Approval_view x \<Rightarrow> JObj (enc_e_approval_request x)
      | Approval_msg_view x \<Rightarrow> JObj (enc_m_approval_request x)
      | Decision_view x \<Rightarrow> JObj (enc_e_approval_decision x)
      | Decision_msg_view x \<Rightarrow> JObj (enc_m_approval_decision x)
      | Question_view x \<Rightarrow> JObj (enc_e_question_request x)
      | Question_msg_view x \<Rightarrow> JObj (enc_m_question_request x)
      | Answer_view x \<Rightarrow> JObj (enc_e_question_answer x)
      | Answer_msg_view x \<Rightarrow> JObj (enc_m_question_answer x))"

record session_event =
  sv_Type :: string
  sv_SessionID :: string
  sv_Payload :: view
  sv_Sequence :: int
  sv_Timestamp :: int

section \<open>Shared conversions\<close>

text \<open>A raw message read into a value of type \<open>any\<close>, or its bytes as text; \<open>nil\<close> is \<open>JNull\<close>.\<close>

definition any_value :: "raw \<Rightarrow> json" where
  "any_value r = (case r of Raw_empty \<Rightarrow> JNull | Raw_bad s \<Rightarrow> JStr s | Raw j \<Rightarrow> j)"

definition toolCallResultPayload :: "e_tool_result \<Rightarrow> tool_result_view" where
  "toolCallResultPayload result =
     (let value = any_value (etr_result result) in
      \<lparr>tv_ToolCallID = etr_id result, tv_Name = etr_name result,
       tv_Result = (if etr_is_error result \<and> value = JNull then JStr (etr_error result) else value),
       tv_Status = (if etr_is_error result then ''error'' else ''success'')\<rparr>)"

definition publicStreamArtifactPayload :: "e_artifact \<Rightarrow> e_artifact" where
  "publicStreamArtifactPayload payload =
     \<lparr>eaf_artifact_id = eaf_artifact_id payload, eaf_title = eaf_title payload, eaf_filename = eaf_filename payload,
      eaf_original_name = [], eaf_description = eaf_description payload, eaf_mime_type = eaf_mime_type payload,
      eaf_artifact_type = eaf_artifact_type payload, eaf_file_size = eaf_file_size payload,
      eaf_created_at = eaf_created_at payload, eaf_relative_path = [], eaf_storage_key = [],
      eaf_storage_uri = eaf_storage_uri payload, eaf_sha256 = eaf_sha256 payload, eaf_source = [], eaf_status = []\<rparr>"

section \<open>Live events\<close>

definition artifact_record_of :: "m_artifact \<Rightarrow> artifact_record" where
  "artifact_record_of x =
     \<lparr>arc_artifact_id = maf_artifact_id x, arc_title = maf_title x, arc_filename = maf_filename x, arc_original_name
      = maf_original_name x, arc_description = maf_description x, arc_mime_type = maf_mime_type x, arc_artifact_type
      = maf_artifact_type x, arc_file_size = maf_file_size x, arc_relative_path = maf_relative_path x,
      arc_storage_key = maf_storage_key x, arc_storage_uri = maf_storage_uri x, arc_sha256 = maf_sha256 x,
      arc_source = maf_source x, arc_status = maf_status x\<rparr>"

definition terminal_record_of :: "m_run_event_record \<Rightarrow> terminal_event_record" where
  "terminal_record_of x =
     \<lparr>ter_seq = mr_seq x, ter_last_seq = mr_last_seq x, ter_type = mr_type x, ter_timestamp = mr_timestamp x,
      ter_payload = mr_payload x\<rparr>"

definition run_metadata_of :: "m_run_metadata \<Rightarrow> run_metadata" where
  "run_metadata_of x =
     \<lparr>rmd_runtime = mm_runtime x, rmd_work_dir = mm_work_dir x, rmd_provider_id = mm_provider_id x, rmd_session_id =
      mm_session_id x, rmd_phase = mm_phase x, rmd_resume = mm_resume x\<rparr>"

definition agent_usage_of :: "m_usage \<Rightarrow> usage" where
  "agent_usage_of x =
     \<lparr>us_input_tokens = mu_input_tokens x, us_output_tokens = mu_output_tokens x, us_total_tokens = mu_total_tokens
      x\<rparr>"

definition todo_view_of :: "m_todo_item \<Rightarrow> e_todo_item" where
  "todo_view_of x =
     \<lparr>etd_id = mtd_id x, etd_title = mtd_title x, etd_status = mtd_status x, etd_priority = mtd_priority x\<rparr>"

definition tool_call_view_of :: "m_tool_call \<Rightarrow> e_tool_call" where
  "tool_call_view_of x =
     \<lparr>etc_id = mtc_id x, etc_name = mtc_name x, etc_arguments = mtc_arguments x\<rparr>"

definition tool_result_event_of :: "m_tool_result \<Rightarrow> e_tool_result" where
  "tool_result_event_of x =
     \<lparr>etr_id = mtr_id x, etr_name = mtr_name x, etr_result = mtr_result x, etr_error = mtr_error x, etr_is_error =
      mtr_is_error x, etr_elapsed_ms = mtr_elapsed_ms x\<rparr>"

definition title_view_of :: "m_work_title \<Rightarrow> e_work_title" where
  "title_view_of x =
     \<lparr>ewt_project_id = mwt_project_id x, ewt_project_name = mwt_project_name x, ewt_task_id = mwt_task_id x,
      ewt_task_title = mwt_task_title x, ewt_session_id = mwt_session_id x, ewt_session_title = mwt_session_title x\<rparr>"

text \<open>The artifact fields that a live event shows; the time is that of the event.\<close>

definition artifact_view_of :: "string \<Rightarrow> m_artifact \<Rightarrow> e_artifact" where
  "artifact_view_of created a = publicStreamArtifactPayload
     \<lparr>eaf_artifact_id = maf_artifact_id a, eaf_title = maf_title a, eaf_filename = maf_filename a,
      eaf_original_name = [], eaf_description = maf_description a, eaf_mime_type = maf_mime_type a,
      eaf_artifact_type = maf_artifact_type a, eaf_file_size = maf_file_size a, eaf_created_at = created,
      eaf_relative_path = [], eaf_storage_key = [], eaf_storage_uri = maf_storage_uri a,
      eaf_sha256 = maf_sha256 a, eaf_source = [], eaf_status = []\<rparr>"

definition todoPayloadFromMessaging :: "m_todo_item list \<Rightarrow> e_todo_item list" where
  "todoPayloadFromMessaging items = map todo_view_of items"

definition terminalPayloadFromMessaging :: "m_run_completed option \<Rightarrow> m_run_event_error option \<Rightarrow> run_terminal_view" where
  "terminalPayloadFromMessaging payload runError =
     (case payload of
        None \<Rightarrow> \<lparr>rw_Status = [], rw_Result = \<lparr>ms_message = []\<rparr>, rw_Error = [], rw_Artifacts = [], rw_Usage = None,
                 rw_Events = [], rw_StartedAt = [], rw_CompletedAt = [], rw_Metadata = None\<rparr>
      | Some p \<Rightarrow> \<lparr>rw_Status = mc_status p, rw_Result = mc_result p,
                  rw_Error = (case runError of Some e \<Rightarrow> me_message e | None \<Rightarrow> []),
                  rw_Artifacts = map artifact_record_of (mc_artifacts p), rw_Usage = map_option agent_usage_of (mc_usage p),
                  rw_Events = map terminal_record_of (mc_events p), rw_StartedAt = mc_started_at p,
                  rw_CompletedAt = mc_completed_at p, rw_Metadata = map_option run_metadata_of (mc_metadata p)\<rparr>)"

text \<open>The text of a cancelled run, in the bytes of its UTF-8 form.\<close>

definition cancelled_text :: string where
  "cancelled_text = [CHR 0xE5, CHR 0xB7, CHR 0xB2, CHR 0xE5, CHR 0x8F, CHR 0x96, CHR 0xE6, CHR 0xB6, CHR 0x88]"

text \<open>The type and payload of the session event, or none when it is not shown.\<close>

definition live_view :: "(int \<Rightarrow> string) \<Rightarrow> run_event \<Rightarrow> (string \<times> view) option" where
  "live_view rfc3339 ev =
     (let body = env_body ev; p = rb_payload body; t = rb_event body in
      if t = RunEventMessageDelta then
        Some (EventMessageDelta, Delta_view \<lparr>emd_message_id = rp_message_id p, emd_role = rp_role p, emd_content = rp_content p\<rparr>)
      else if t = RunEventReasoningDelta then
        Some (EventReasoningDelta, Delta_view \<lparr>emd_message_id = rp_message_id p, emd_role = rp_role p, emd_content = rp_content p\<rparr>)
      else if t = RunEventToolCallStarted then
        map_option (\<lambda>c. (EventToolCallStarted, Tool_call_view (tool_call_view_of c))) (rp_tool_call p)
      else if t = RunEventToolCallFinished then
        map_option (\<lambda>r. (EventToolCallResult, Tool_result_view (toolCallResultPayload (tool_result_event_of r)))) (rp_tool_result p)
      else if t = RunEventTodoSnapshot then Some (EventTodoSnapshot, Todo_view (todoPayloadFromMessaging (rp_todos p)))
      else if t = RunEventTodoUpdated then Some (EventTodoUpdated, Todo_view (todoPayloadFromMessaging (rp_todos p)))
      else if t = RunEventArtifactDeclared then
        map_option (\<lambda>a. (EventArtifactDeclared, Artifact_view (artifact_view_of (rfc3339 (env_created_at ev)) a))) (rp_artifact p)
      else if t = RunEventRunStarted then Some (EventStarted, No_view)
      else if t = RunEventRunCompleted then
        Some (EventCompleted, case rb_run_completed body of
            None \<Rightarrow> No_view | Some rc \<Rightarrow> Terminal_view (terminalPayloadFromMessaging (Some rc) (rb_error body)))
      else if t = RunEventApprovalRequested then
        Some (EventApprovalRequested, case rp_approval_request p of None \<Rightarrow> No_view | Some x \<Rightarrow> Approval_msg_view x)
      else if t = RunEventApprovalResolved then
        Some (EventApprovalResolved, case rp_approval_decision p of None \<Rightarrow> No_view | Some x \<Rightarrow> Decision_msg_view x)
      else if t = RunEventQuestionAsked then
        Some (EventQuestionAsked, case rp_question_request p of None \<Rightarrow> No_view | Some x \<Rightarrow> Question_msg_view x)
      else if t = RunEventQuestionAnswered then
        Some (EventQuestionAnswered, case rp_question_answer p of None \<Rightarrow> No_view | Some x \<Rightarrow> Answer_msg_view x)
      else if t = RunEventWorkTitleUpdated then
        map_option (\<lambda>w. (EventWorkTitleUpdated, Title_view (title_view_of w))) (rp_work_title p)
      else if t = RunEventRunFailed then
        Some (EventFailed, case rb_run_completed body of
            Some rc \<Rightarrow> Terminal_view (terminalPayloadFromMessaging (Some rc) (rb_error body))
          | None \<Rightarrow> Status_view \<lparr>sw_Status = ''failed'', sw_RunID = tx_run_id (env_trace ev),
                sw_Message = (case rb_error body of Some e \<Rightarrow> me_message e | None \<Rightarrow> rp_content p)\<rparr>)
      else if t = RunEventRunCancelled then
        Some (EventCancelled, case rb_run_completed body of
            Some rc \<Rightarrow> Terminal_view (terminalPayloadFromMessaging (Some rc) (rb_error body))
          | None \<Rightarrow> Status_view \<lparr>sw_Status = ''cancelled'', sw_RunID = tx_run_id (env_trace ev), sw_Message = cancelled_text\<rparr>)
      else None)"

definition ProjectRunEvent :: "(int \<Rightarrow> string) \<Rightarrow> run_event \<Rightarrow> session_event option" where
  "ProjectRunEvent rfc3339 ev =
     map_option (\<lambda>(t, v). \<lparr>sv_Type = t, sv_SessionID = rt_session_id (env_route ev), sv_Payload = v,
        sv_Sequence = rb_seq (env_body ev), sv_Timestamp = env_created_at ev div 1000000\<rparr>) (live_view rfc3339 ev)"

section \<open>Archived events\<close>

record message_chunk =
  ck_Seq :: int
  ck_LastSeq :: int
  ck_Type :: string
  ck_Timestamp :: int
  ck_Payload :: raw

definition decodeChunkPayload :: "(json \<Rightarrow> 'a option) \<Rightarrow> message_chunk \<Rightarrow> 'a option" where
  "decodeChunkPayload dec chunk = unmarshal dec (ck_Payload chunk)"

definition terminalPayloadFromDomain :: "terminal_payload \<Rightarrow> run_terminal_view" where
  "terminalPayloadFromDomain payload =
     \<lparr>rw_Status = tpl_status payload, rw_Result = \<lparr>ms_message = tpl_message payload\<rparr>, rw_Error = tpl_error payload,
      rw_Artifacts = tpl_artifacts payload, rw_Usage = tpl_usage payload, rw_Events = tpl_events payload,
      rw_StartedAt = tpl_started_at payload, rw_CompletedAt = tpl_completed_at payload,
      rw_Metadata = tpl_metadata payload\<rparr>"

definition decodeTerminalChunk :: "message_chunk \<Rightarrow> run_terminal_view option" where
  "decodeTerminalChunk chunk = map_option terminalPayloadFromDomain (decodeChunkPayload (dec_struct dec_terminal_payload) chunk)"

definition todoPayload :: "e_todo_item slice \<Rightarrow> e_todo_item list" where
  "todoPayload items = elems items"

definition chunk_view :: "message_chunk \<Rightarrow> (string \<times> view) option" where
  "chunk_view chunk =
     (let t = ck_Type chunk; terminal = (case decodeTerminalChunk chunk of None \<Rightarrow> No_view | Some x \<Rightarrow> Terminal_view x) in
      if t = EventStarted then Some (EventStarted, No_view)
      else if t = EventCompleted then Some (EventCompleted, terminal)
      else if t = EventFailed then Some (EventFailed, terminal)
      else if t = EventCancelled then Some (EventCancelled, terminal)
      else if t = EventMessageDelta then
        map_option (\<lambda>x. (EventMessageDelta, Delta_view x)) (decodeChunkPayload (dec_struct dec_e_message_delta) chunk)
      else if t = EventReasoningDelta then
        map_option (\<lambda>x. (EventReasoningDelta, Delta_view x)) (decodeChunkPayload (dec_struct dec_e_message_delta) chunk)
      else if t = EventToolCallStarted then
        map_option (\<lambda>x. (EventToolCallStarted, Tool_call_view x)) (decodeChunkPayload (dec_struct dec_e_tool_call) chunk)
      else if t = EventToolCallCompleted \<or> t = EventToolCallFailed then
        map_option (\<lambda>x. (EventToolCallResult, Tool_result_view (toolCallResultPayload x)))
          (decodeChunkPayload (dec_struct dec_e_tool_result) chunk)
      else if t = EventTodoSnapshot then
        map_option (\<lambda>x. (EventTodoSnapshot, Todo_view (todoPayload x))) (decodeChunkPayload (dec_slice (dec_struct dec_e_todo_item)) chunk)
      else if t = EventTodoUpdated then
        map_option (\<lambda>x. (EventTodoUpdated, Todo_view (todoPayload x))) (decodeChunkPayload (dec_slice (dec_struct dec_e_todo_item)) chunk)
      else if t = EventApprovalRequested then
        map_option (\<lambda>x. (EventApprovalRequested, Approval_view x)) (decodeChunkPayload (dec_struct dec_e_approval_request) chunk)
      else if t = EventApprovalResolved then
        map_option (\<lambda>x. (EventApprovalResolved, Decision_view x)) (decodeChunkPayload (dec_struct dec_e_approval_decision) chunk)
      else if t = EventQuestionAsked then
        map_option (\<lambda>x. (EventQuestionAsked, Question_view x)) (decodeChunkPayload (dec_struct dec_e_question_request) chunk)
      else if t = EventQuestionAnswered then
        map_option (\<lambda>x. (EventQuestionAnswered, Answer_view x)) (decodeChunkPayload (dec_struct dec_e_question_answer) chunk)
      else if t = EventArtifactDeclared then
        map_option (\<lambda>x. (EventArtifactDeclared, Artifact_view (publicStreamArtifactPayload x))) (decodeChunkPayload (dec_struct dec_e_artifact) chunk)
      else None)"

definition ProjectRunEventRecord :: "string \<Rightarrow> message_chunk \<Rightarrow> session_event option" where
  "ProjectRunEventRecord sessionID chunk =
     map_option (\<lambda>(t, v). \<lparr>sv_Type = t, sv_SessionID = sessionID, sv_Payload = v, sv_Sequence = ck_Seq chunk,
        sv_Timestamp = ck_Timestamp chunk\<rparr>) (chunk_view chunk)"

section \<open>Nothing is lost between the views\<close>

lemma there_and_back [simp]:
  "tool_call_view_of (tool_call_of c) = c" "tool_result_event_of (tool_result_of r) = r"
  "todo_view_of (todo_of d) = d" "artifact_record_of (convertArtifact a) = a"
  "terminal_record_of (event_record_of ev) = ev" "run_metadata_of (metadata_of m) = m"
  "agent_usage_of (usage_of u) = u"
  by (simp_all add: tool_call_view_of_def tool_call_of_def tool_result_event_of_def tool_result_of_def todo_view_of_def
      todo_of_def artifact_record_of_def convertArtifact_def terminal_record_of_def event_record_of_def
      run_metadata_of_def metadata_of_def agent_usage_of_def usage_of_def)

lemma map_there_and_back [simp]:
  "map artifact_record_of (map convertArtifact as) = as" "map terminal_record_of (map event_record_of es) = es"
  "map todo_view_of (map todo_of ds) = ds"
  "map_option run_metadata_of (map_option metadata_of m) = m" "map_option agent_usage_of (map_option usage_of u) = u"
  by (simp_all add: comp_def option.map_comp option.map_ident)

lemma same_json [simp]:
  "enc_m_approval_request (approval_request_of a) = enc_e_approval_request a"
  "enc_m_approval_decision (approval_decision_of d) = enc_e_approval_decision d"
  "enc_m_question_answer (question_answer_of w) = enc_e_question_answer w"
  "enc_m_plan (plan_of p) = enc_e_plan p"
  "enc_m_question_option (option_of op) = enc_e_question_option op"
  by (simp_all add: enc_m_approval_request_def approval_request_of_def enc_e_approval_request_def
      enc_m_approval_decision_def approval_decision_of_def enc_e_approval_decision_def enc_m_question_answer_def
      question_answer_of_def enc_e_question_answer_def enc_m_plan_def plan_of_def enc_e_plan_def
      enc_m_question_option_def option_of_def enc_e_question_option_def)

lemma artifact_view_same:
  "artifact_view_of created (artifact_of a) = (publicStreamArtifactPayload a)\<lparr>eaf_created_at := created\<rparr>"
  by (simp add: artifact_view_of_def artifact_of_def publicStreamArtifactPayload_def)

text \<open>A slice that is empty but not nil becomes nil in a question on the bus.\<close>

definition no_empty_lists :: "e_question_request \<Rightarrow> bool" where
  "no_empty_lists q \<longleftrightarrow> eqr_questions q \<noteq> Some [] \<and> (\<forall>i \<in> set (elems (eqr_questions q)). eqi_options i \<noteq> Some [])"

lemma slice_json_of:
  assumes "s \<noteq> Some []" "\<And>x. x \<in> set (elems s) \<Longrightarrow> enc' (f x) = enc x"
  shows "slice_json enc' (case elems s of [] \<Rightarrow> None | y # ys \<Rightarrow> Some (map f (y # ys))) = slice_json enc s"
  using assms by (cases s) (auto simp: slice_json_def split: list.splits)

lemma enc_question_item_same:
  "eqi_options i \<noteq> Some [] \<Longrightarrow> enc_m_question_item (question_item_of i) = enc_e_question_item i"
  using slice_json_of [of "eqi_options i" "\<lambda>y. JObj (enc_m_question_option y)" option_of "\<lambda>y. JObj (enc_e_question_option y)"]
  by (simp add: enc_m_question_item_def question_item_of_def enc_e_question_item_def)

lemma enc_question_same:
  assumes "no_empty_lists q"
  shows "enc_m_question_request (mapQuestionRequestPayload q) = enc_e_question_request q"
proof -
  have "slice_json (\<lambda>y. JObj (enc_m_question_item y))
      (case elems (eqr_questions q) of [] \<Rightarrow> None | y # ys \<Rightarrow> Some (map question_item_of (y # ys))) =
      slice_json (\<lambda>y. JObj (enc_e_question_item y)) (eqr_questions q)"
    using assms by (intro slice_json_of) (auto simp: no_empty_lists_def enc_question_item_same)
  moreover have "ptr_ne (\<lambda>y. JObj (enc_m_plan y)) (map_option plan_of p) = ptr_ne (\<lambda>y. JObj (enc_e_plan y)) p" for p
    by (cases p) (simp_all add: ptr_ne_def)
  ultimately show ?thesis
    by (simp add: enc_m_question_request_def mapQuestionRequestPayload_def enc_e_question_request_def)
qed

text \<open>
  What an event needs so that its live and its archived form look the same: its text delta names a role, its question has
  no empty list. The constructors of events guarantee the first.
\<close>

definition plain_to_see :: "agent_event \<Rightarrow> bool" where
  "plain_to_see e \<longleftrightarrow>
     (aev_type e \<in> {''message.delta'', ''reasoning.delta''} \<longrightarrow>
        (\<forall>p. unmarshal (dec_struct dec_e_message_delta) (aev_payload e) = Some p \<longrightarrow> emd_role p \<noteq> [])) \<and>
     (aev_type e = ''question.asked'' \<longrightarrow>
        (\<forall>q. unmarshal (dec_struct dec_e_question_request) (aev_payload e) = Some q \<longrightarrow> no_empty_lists q))"

definition same_view :: "view \<Rightarrow> view \<Rightarrow> bool" where
  "same_view l r \<longleftrightarrow>
     shown l = shown r \<or> (\<exists>a created. r = Artifact_view a \<and> l = Artifact_view (a\<lparr>eaf_created_at := created\<rparr>))"

definition with_role :: "e_message_delta \<Rightarrow> e_message_delta" where
  "with_role p = (if emd_role p = [] then p\<lparr>emd_role := ''assistant''\<rparr> else p)"

lemma with_role_id [simp]: "emd_role p \<noteq> [] \<Longrightarrow> with_role p = p"
  by (simp add: with_role_def)

text \<open>The two views, by the type of the runtime event.\<close>

definition archived_view :: "string \<Rightarrow> raw \<Rightarrow> (string \<times> view) option" where
  "archived_view t payload = chunk_view \<lparr>ck_Seq = 0, ck_LastSeq = 0, ck_Type = t, ck_Timestamp = 0, ck_Payload = payload\<rparr>"

lemma chunk_view_archived_view: "chunk_view c = archived_view (ck_Type c) (ck_Payload c)"
  unfolding archived_view_def chunk_view_def decodeTerminalChunk_def decodeChunkPayload_def message_chunk.simps by (rule refl)

lemma archived_views:
  "archived_view ''message.delta'' raw = map_option (\<lambda>x. (EventMessageDelta, Delta_view x)) (unmarshal (dec_struct dec_e_message_delta) raw)"
  "archived_view ''reasoning.delta'' raw = map_option (\<lambda>x. (EventReasoningDelta, Delta_view x)) (unmarshal (dec_struct dec_e_message_delta) raw)"
  "archived_view ''tool_call.started'' raw = map_option (\<lambda>x. (EventToolCallStarted, Tool_call_view x)) (unmarshal (dec_struct dec_e_tool_call) raw)"
  "archived_view ''tool_call.completed'' raw = map_option (\<lambda>x. (EventToolCallResult, Tool_result_view (toolCallResultPayload x))) (unmarshal (dec_struct dec_e_tool_result) raw)"
  "archived_view ''tool_call.failed'' raw = map_option (\<lambda>x. (EventToolCallResult, Tool_result_view (toolCallResultPayload x))) (unmarshal (dec_struct dec_e_tool_result) raw)"
  "archived_view ''todo.snapshot'' raw = map_option (\<lambda>x. (EventTodoSnapshot, Todo_view (elems x))) (unmarshal (dec_slice (dec_struct dec_e_todo_item)) raw)"
  "archived_view ''todo.updated'' raw = map_option (\<lambda>x. (EventTodoUpdated, Todo_view (elems x))) (unmarshal (dec_slice (dec_struct dec_e_todo_item)) raw)"
  "archived_view ''approval.requested'' raw = map_option (\<lambda>x. (EventApprovalRequested, Approval_view x)) (unmarshal (dec_struct dec_e_approval_request) raw)"
  "archived_view ''approval.resolved'' raw = map_option (\<lambda>x. (EventApprovalResolved, Decision_view x)) (unmarshal (dec_struct dec_e_approval_decision) raw)"
  "archived_view ''question.asked'' raw = map_option (\<lambda>x. (EventQuestionAsked, Question_view x)) (unmarshal (dec_struct dec_e_question_request) raw)"
  "archived_view ''question.answered'' raw = map_option (\<lambda>x. (EventQuestionAnswered, Answer_view x)) (unmarshal (dec_struct dec_e_question_answer) raw)"
  "archived_view ''artifact.declared'' raw = map_option (\<lambda>x. (EventArtifactDeclared, Artifact_view (publicStreamArtifactPayload x))) (unmarshal (dec_struct dec_e_artifact) raw)"
  by (simp_all add: archived_view_def chunk_view_def decodeChunkPayload_def msg_defs todoPayload_def Let_def)

lemma message_types:
  "mapRunEventType ''message.delta'' = Some RunEventMessageDelta"
  "mapRunEventType ''reasoning.delta'' = Some RunEventReasoningDelta"
  "mapRunEventType ''tool_call.started'' = Some RunEventToolCallStarted"
  "mapRunEventType ''tool_call.completed'' = Some RunEventToolCallFinished"
  "mapRunEventType ''tool_call.failed'' = Some RunEventToolCallFinished"
  "mapRunEventType ''todo.snapshot'' = Some RunEventTodoSnapshot"
  "mapRunEventType ''todo.updated'' = Some RunEventTodoUpdated"
  "mapRunEventType ''approval.requested'' = Some RunEventApprovalRequested"
  "mapRunEventType ''approval.resolved'' = Some RunEventApprovalResolved"
  "mapRunEventType ''question.asked'' = Some RunEventQuestionAsked"
  "mapRunEventType ''question.answered'' = Some RunEventQuestionAnswered"
  "mapRunEventType ''artifact.declared'' = Some RunEventArtifactDeclared"
  by (simp_all add: mapRunEventType_def)

lemma live_views:
  "aev_type e = ''message.delta'' \<Longrightarrow> unmarshal (dec_struct dec_e_message_delta) (aev_payload e) = Some x0 \<Longrightarrow>
     live_view rfc3339 (run_event_of now s RunEventMessageDelta e) = Some (EventMessageDelta, Delta_view (with_role x0))"
  "aev_type e = ''reasoning.delta'' \<Longrightarrow> unmarshal (dec_struct dec_e_message_delta) (aev_payload e) = Some x1 \<Longrightarrow>
     live_view rfc3339 (run_event_of now s RunEventReasoningDelta e) = Some (EventReasoningDelta, Delta_view (with_role x1))"
  "aev_type e = ''tool_call.started'' \<Longrightarrow> unmarshal (dec_struct dec_e_tool_call) (aev_payload e) = Some x2 \<Longrightarrow>
     live_view rfc3339 (run_event_of now s RunEventToolCallStarted e) = Some (EventToolCallStarted, Tool_call_view x2)"
  "aev_type e = ''tool_call.completed'' \<Longrightarrow> unmarshal (dec_struct dec_e_tool_result) (aev_payload e) = Some x3 \<Longrightarrow>
     live_view rfc3339 (run_event_of now s RunEventToolCallFinished e) = Some (EventToolCallResult, Tool_result_view (toolCallResultPayload x3))"
  "aev_type e = ''tool_call.failed'' \<Longrightarrow> unmarshal (dec_struct dec_e_tool_result) (aev_payload e) = Some x4 \<Longrightarrow>
     live_view rfc3339 (run_event_of now s RunEventToolCallFinished e) = Some (EventToolCallResult, Tool_result_view (toolCallResultPayload x4))"
  "aev_type e = ''todo.snapshot'' \<Longrightarrow> unmarshal (dec_slice (dec_struct dec_e_todo_item)) (aev_payload e) = Some x5 \<Longrightarrow>
     live_view rfc3339 (run_event_of now s RunEventTodoSnapshot e) = Some (EventTodoSnapshot, Todo_view (elems x5))"
  "aev_type e = ''todo.updated'' \<Longrightarrow> unmarshal (dec_slice (dec_struct dec_e_todo_item)) (aev_payload e) = Some x6 \<Longrightarrow>
     live_view rfc3339 (run_event_of now s RunEventTodoUpdated e) = Some (EventTodoUpdated, Todo_view (elems x6))"
  "aev_type e = ''approval.requested'' \<Longrightarrow> unmarshal (dec_struct dec_e_approval_request) (aev_payload e) = Some x7 \<Longrightarrow>
     live_view rfc3339 (run_event_of now s RunEventApprovalRequested e) = Some (EventApprovalRequested, Approval_msg_view (approval_request_of x7))"
  "aev_type e = ''approval.resolved'' \<Longrightarrow> unmarshal (dec_struct dec_e_approval_decision) (aev_payload e) = Some x8 \<Longrightarrow>
     live_view rfc3339 (run_event_of now s RunEventApprovalResolved e) = Some (EventApprovalResolved, Decision_msg_view (approval_decision_of x8))"
  "aev_type e = ''question.asked'' \<Longrightarrow> unmarshal (dec_struct dec_e_question_request) (aev_payload e) = Some x9 \<Longrightarrow>
     live_view rfc3339 (run_event_of now s RunEventQuestionAsked e) = Some (EventQuestionAsked, Question_msg_view (mapQuestionRequestPayload x9))"
  "aev_type e = ''question.answered'' \<Longrightarrow> unmarshal (dec_struct dec_e_question_answer) (aev_payload e) = Some x10 \<Longrightarrow>
     live_view rfc3339 (run_event_of now s RunEventQuestionAnswered e) = Some (EventQuestionAnswered, Answer_msg_view (question_answer_of x10))"
  "aev_type e = ''artifact.declared'' \<Longrightarrow> unmarshal (dec_struct dec_e_artifact) (aev_payload e) = Some x11 \<Longrightarrow>
     live_view rfc3339 (run_event_of now s RunEventArtifactDeclared e) = Some (EventArtifactDeclared, Artifact_view ((publicStreamArtifactPayload x11)\<lparr>eaf_created_at := rfc3339 now\<rparr>))"
  by (simp_all add: live_view_def Let_def run_event_of_def mapRunEventPayload_def with_payload_def plain_payload_def
      todoPayloadFromMessaging_def artifact_view_same with_role_def msg_defs comp_def)

lemma archived_view_types:
  assumes "archived_view t raw = Some (ty, v)" "\<not> unarchived t" "t \<noteq> ''run.started''"
  shows "t \<in> {''message.delta'', ''reasoning.delta'', ''tool_call.started'', ''tool_call.completed'', ''tool_call.failed'',
    ''todo.snapshot'', ''todo.updated'', ''approval.requested'', ''approval.resolved'', ''question.asked'', ''question.answered'',
    ''artifact.declared''}"
  using assms by (auto simp: archived_view_def chunk_view_def unarchived_def Let_def msg_defs split: if_splits)

lemma same_views:
  "same_view v v" "same_view (Approval_msg_view (approval_request_of a)) (Approval_view a)"
  "same_view (Decision_msg_view (approval_decision_of d)) (Decision_view d)"
  "no_empty_lists q \<Longrightarrow> same_view (Question_msg_view (mapQuestionRequestPayload q)) (Question_view q)"
  "same_view (Answer_msg_view (question_answer_of w)) (Answer_view w)"
  "same_view (Artifact_view (x\<lparr>eaf_created_at := c\<rparr>)) (Artifact_view x)"
  by (auto simp: same_view_def shown_def enc_question_same)

lemma live_view_agrees:
  assumes v: "archived_view (aev_type e) (aev_payload e) = Some (ty, v)" and u: "\<not> unarchived (aev_type e)"
    and t: "mapRunEventType (aev_type e) = Some t" and p: "plain_to_see e"
  shows "\<exists>v'. live_view rfc3339 (run_event_of now s t e) = Some (ty, v') \<and> same_view v' v"
proof (cases "aev_type e = ''run.started''")
  case True
  with v t have "ty = EventStarted" "v = No_view" "t = RunEventRunStarted"
    by (simp_all add: archived_view_def chunk_view_def mapRunEventType_def msg_defs Let_def)
  then show ?thesis by (simp add: live_view_def run_event_of_def Let_def same_view_def msg_defs)
next
  case False
  from archived_view_types [OF v u False] consider (delta) "aev_type e = ''message.delta''" | (reason) "aev_type e = ''reasoning.delta''"
    | (call) "aev_type e = ''tool_call.started''" | (completed) "aev_type e = ''tool_call.completed''"
    | (failed) "aev_type e = ''tool_call.failed''" | (snap) "aev_type e = ''todo.snapshot''"
    | (upd) "aev_type e = ''todo.updated''" | (asked) "aev_type e = ''approval.requested''"
    | (resolved) "aev_type e = ''approval.resolved''" | (question) "aev_type e = ''question.asked''"
    | (answer) "aev_type e = ''question.answered''" | (artifact) "aev_type e = ''artifact.declared''" by blast
  then show ?thesis
  proof cases
    case delta
    obtain x where x: "unmarshal (dec_struct dec_e_message_delta) (aev_payload e) = Some x" "ty = EventMessageDelta" "v = Delta_view x"
      using v by (auto simp: delta archived_views)
    have t': "t = RunEventMessageDelta" using t by (simp add: delta message_types)
    have "emd_role x \<noteq> []" using p x(1) delta by (simp add: plain_to_see_def)
    with live_views(1) [OF delta x(1)] x(2,3) show ?thesis by (simp add: t' same_views)
  next
    case reason
    obtain x where x: "unmarshal (dec_struct dec_e_message_delta) (aev_payload e) = Some x" "ty = EventReasoningDelta" "v = Delta_view x"
      using v by (auto simp: reason archived_views)
    have t': "t = RunEventReasoningDelta" using t by (simp add: reason message_types)
    have "emd_role x \<noteq> []" using p x(1) reason by (simp add: plain_to_see_def)
    with live_views(2) [OF reason x(1)] x(2,3) show ?thesis by (simp add: t' same_views)
  next
    case call
    obtain x where x: "unmarshal (dec_struct dec_e_tool_call) (aev_payload e) = Some x" "ty = EventToolCallStarted" "v = Tool_call_view x"
      using v by (auto simp: call archived_views)
    have t': "t = RunEventToolCallStarted" using t by (simp add: call message_types)
    with live_views(3) [OF call x(1)] x(2,3) show ?thesis by (simp add: t' same_views)
  next
    case completed
    obtain x where x: "unmarshal (dec_struct dec_e_tool_result) (aev_payload e) = Some x" "ty = EventToolCallResult" "v = Tool_result_view (toolCallResultPayload x)"
      using v by (auto simp: completed archived_views)
    have t': "t = RunEventToolCallFinished" using t by (simp add: completed message_types)
    with live_views(4) [OF completed x(1)] x(2,3) show ?thesis by (simp add: t' same_views)
  next
    case failed
    obtain x where x: "unmarshal (dec_struct dec_e_tool_result) (aev_payload e) = Some x" "ty = EventToolCallResult" "v = Tool_result_view (toolCallResultPayload x)"
      using v by (auto simp: failed archived_views)
    have t': "t = RunEventToolCallFinished" using t by (simp add: failed message_types)
    with live_views(5) [OF failed x(1)] x(2,3) show ?thesis by (simp add: t' same_views)
  next
    case snap
    obtain x where x: "unmarshal (dec_slice (dec_struct dec_e_todo_item)) (aev_payload e) = Some x" "ty = EventTodoSnapshot" "v = Todo_view (elems x)"
      using v by (auto simp: snap archived_views)
    have t': "t = RunEventTodoSnapshot" using t by (simp add: snap message_types)
    with live_views(6) [OF snap x(1)] x(2,3) show ?thesis by (simp add: t' same_views)
  next
    case upd
    obtain x where x: "unmarshal (dec_slice (dec_struct dec_e_todo_item)) (aev_payload e) = Some x" "ty = EventTodoUpdated" "v = Todo_view (elems x)"
      using v by (auto simp: upd archived_views)
    have t': "t = RunEventTodoUpdated" using t by (simp add: upd message_types)
    with live_views(7) [OF upd x(1)] x(2,3) show ?thesis by (simp add: t' same_views)
  next
    case asked
    obtain x where x: "unmarshal (dec_struct dec_e_approval_request) (aev_payload e) = Some x" "ty = EventApprovalRequested" "v = Approval_view x"
      using v by (auto simp: asked archived_views)
    have t': "t = RunEventApprovalRequested" using t by (simp add: asked message_types)
    with live_views(8) [OF asked x(1)] x(2,3) show ?thesis by (simp add: t' same_views)
  next
    case resolved
    obtain x where x: "unmarshal (dec_struct dec_e_approval_decision) (aev_payload e) = Some x" "ty = EventApprovalResolved" "v = Decision_view x"
      using v by (auto simp: resolved archived_views)
    have t': "t = RunEventApprovalResolved" using t by (simp add: resolved message_types)
    with live_views(9) [OF resolved x(1)] x(2,3) show ?thesis by (simp add: t' same_views)
  next
    case question
    obtain x where x: "unmarshal (dec_struct dec_e_question_request) (aev_payload e) = Some x" "ty = EventQuestionAsked" "v = Question_view x"
      using v by (auto simp: question archived_views)
    have t': "t = RunEventQuestionAsked" using t by (simp add: question message_types)
    have "no_empty_lists x" using p x(1) question by (simp add: plain_to_see_def)
    with live_views(10) [OF question x(1)] x(2,3) show ?thesis by (simp add: t' same_views)
  next
    case answer
    obtain x where x: "unmarshal (dec_struct dec_e_question_answer) (aev_payload e) = Some x" "ty = EventQuestionAnswered" "v = Answer_view x"
      using v by (auto simp: answer archived_views)
    have t': "t = RunEventQuestionAnswered" using t by (simp add: answer message_types)
    with live_views(11) [OF answer x(1)] x(2,3) show ?thesis by (simp add: t' same_views)
  next
    case artifact
    obtain x where x: "unmarshal (dec_struct dec_e_artifact) (aev_payload e) = Some x" "ty = EventArtifactDeclared" "v = Artifact_view (publicStreamArtifactPayload x)"
      using v by (auto simp: artifact archived_views)
    have t': "t = RunEventArtifactDeclared" using t by (simp add: artifact message_types)
    with live_views(12) [OF artifact x(1)] x(2,3) show ?thesis by (simp add: t' same_views)
  qed
qed

section \<open>Live and replayed\<close>



text \<open>
  The terminal event of a run reaches the clients with the whole terminal payload that the worker built: status, message,
  usage, artifacts, archived events, times and metadata. Only the error text differs by path: a completed run shows
  none, and a failed or cancelled run whose payload names no error shows the text of the event.
\<close>

theorem terminal_view_faithful:
  assumes "dec_terminal (aev_payload e) = Some tp" "mapRunEventType (aev_type e) = Some t" "isTerminalRunEvent t"
  shows "live_view rfc3339 (run_event_of now s t e) = Some (aev_type e, Terminal_view
      ((terminalPayloadFromDomain tp)\<lparr>rw_Error :=
         (if t = RunEventRunCompleted then [] else if tpl_error tp = [] then aev_content e else tpl_error tp)\<rparr>)) \<and>
    archived_view (aev_type e) (aev_payload e) = Some (aev_type e, Terminal_view (terminalPayloadFromDomain tp))"
proof
  have view: "terminalPayloadFromMessaging (Some (run_completed_of tp)) er =
      (terminalPayloadFromDomain tp)\<lparr>rw_Error := (case er of Some x \<Rightarrow> me_message x | None \<Rightarrow> [])\<rparr>" for er
    by (simp add: terminalPayloadFromMessaging_def run_completed_of_def terminalPayloadFromDomain_def convertArtifacts_def
        convertUsage_def metadataPayload_def del: map_map option.map_comp)
  have types: "aev_type e = ''run.completed'' \<and> t = RunEventRunCompleted \<or> aev_type e = ''run.failed'' \<and> t = RunEventRunFailed \<or>
      aev_type e = ''run.cancelled'' \<and> t = RunEventRunCancelled"
    using assms(2,3) by (auto simp: mapRunEventType_def isTerminalRunEvent_def msg_defs split: if_splits)
  show "live_view rfc3339 (run_event_of now s t e) = Some (aev_type e, Terminal_view
      ((terminalPayloadFromDomain tp)\<lparr>rw_Error :=
         (if t = RunEventRunCompleted then [] else if tpl_error tp = [] then aev_content e else tpl_error tp)\<rparr>))"
    using types assms(1)
    by (elim disjE conjE) (simp_all add: live_view_def Let_def run_event_of_def run_completed_field_def error_field_def
        isTerminalRunEvent_def view msg_defs)
  show "archived_view (aev_type e) (aev_payload e) = Some (aev_type e, Terminal_view (terminalPayloadFromDomain tp))"
    using types assms(1)
    by (elim disjE conjE) (simp_all add: archived_view_def chunk_view_def Let_def decodeTerminalChunk_def decodeChunkPayload_def
        dec_terminal_def msg_defs)
qed

lemma terminal_view_faithful_witness:
  "\<exists>e tp. tpl_error tp = ''boom'' \<and> live_view (\<lambda>_. []) (run_event_of 0 demo_sink RunEventRunFailed e) =
     Some (''run.failed'', Terminal_view (terminalPayloadFromDomain tp))"
proof -
  define tp where "tp = \<lparr>tpl_status = ''failed'', tpl_message = [], tpl_error = ''boom'', tpl_usage = None, tpl_tool_calls = [],
    tpl_artifacts = [], tpl_started_at = [], tpl_completed_at = [], tpl_metadata = None, tpl_events = []\<rparr>"
  define e where "e = (empty_event ''run.failed'')\<lparr>aev_payload := Raw (JObj (enc_terminal_payload tp))\<rparr>"
  have e: "aev_type e = ''run.failed''" by (simp add: e_def empty_event_def)
  have "wf_terminal_payload tp" by (simp add: tp_def wf_terminal_payload_def)
  then have d: "dec_terminal (aev_payload e) = Some tp" by (simp add: e_def dec_terminal_def)
  have t: "mapRunEventType (aev_type e) = Some RunEventRunFailed" "isTerminalRunEvent RunEventRunFailed"
    by (simp_all add: e mapRunEventType_def isTerminalRunEvent_def)
  have er: "tpl_error tp = ''boom''" "RunEventRunFailed \<noteq> RunEventRunCompleted" by (simp_all add: tp_def msg_defs)
  have "(terminalPayloadFromDomain tp)\<lparr>rw_Error := ''boom''\<rparr> = terminalPayloadFromDomain tp"
    using er by (simp add: terminalPayloadFromDomain_def)
  with terminal_view_faithful [OF d t, THEN conjunct1, of "\<lambda>_. []" 0 demo_sink] e er show ?thesis by (intro exI conjI) simp_all
qed

end
