(* ===== verification/SessionStore.thy ===== *)
theory SessionStore
  imports Projector "HOL-Library.AList"
begin

text \<open>
  The session tables of the server: the rows of \<open>backend/types/session.go\<close> and the statements of
  \<open>backend/internal/infra/db/session_dao.go\<close> and \<open>session_message_dao.go\<close> that the run projection uses. A table is the list of its
  rows in insertion order; the database executes every statement (its failures are not modelled). A deleted row stays, with
  the time of its deletion, and no statement finds it. Instants are nanoseconds. A value of \<open>Extra\<close> is the JSON value that the
  column stores; \<open>now\<close> is the clock of the statement.
\<close>

section \<open>Rows\<close>

record object_metadata =
  om_Tags :: "string slice"
  om_Type :: string
  om_Bucket :: string
  om_Key :: string
  om_Extra :: "(string \<times> json) list option"

definition no_metadata :: object_metadata where
  "no_metadata = \<lparr>om_Tags = None, om_Type = [], om_Bucket = [], om_Key = [], om_Extra = None\<rparr>"

record message_usage =
  mg_InputTokens :: int
  mg_OutputTokens :: int
  mg_TotalTokens :: int

definition no_usage :: message_usage where
  "no_usage = \<lparr>mg_InputTokens = 0, mg_OutputTokens = 0, mg_TotalTokens = 0\<rparr>"

record message_artifact =
  ma_ArtifactID :: string
  ma_Title :: string
  ma_Filename :: string
  ma_Description :: string
  ma_MimeType :: string
  ma_ArtifactType :: string
  ma_FileSize :: int
  ma_StorageURI :: string
  ma_Sha256 :: string
  ma_CreatedAt :: go_time

record message_attachment =
  mt_FileUploadID :: string
  mt_Name :: string
  mt_MimeType :: string
  mt_Size :: int
  mt_Purpose :: string
  mt_PublicURL :: string

record session_message =
  sm_ID :: nat
  sm_CreatedAt :: int
  sm_UpdatedAt :: int
  sm_DeletedAt :: "int option"
  sm_SessionID :: nat
  sm_Role :: string
  sm_Content :: string
  sm_ErrorMsg :: string
  sm_MessageType :: string
  sm_Status :: string
  sm_Chunks :: "message_chunk list"
  sm_Artifacts :: "message_artifact list"
  sm_Attachments :: "message_attachment list"
  sm_Metadata :: object_metadata
  sm_Usage :: message_usage
  sm_Sequence :: int
  sm_Timestamp :: int

record session =
  se_ID :: nat
  se_CreatedAt :: int
  se_UpdatedAt :: int
  se_DeletedAt :: "int option"
  se_PublicID :: string
  se_Type :: string
  se_Uin :: nat
  se_OrgID :: nat
  se_AssistantID :: nat
  se_AllocatedAssistantID :: nat
  se_TaskID :: "nat option"
  se_ProjectID :: "nat option"
  se_Status :: string
  se_Title :: string
  se_TitleManuallySet :: bool
  se_Metadata :: object_metadata
  se_MessageCount :: int
  se_LastMessageAt :: "int option"
  se_ExpiredAt :: "int option"

definition MessageRoleUser :: string where "MessageRoleUser = ''user''"
definition MessageRoleAssistant :: string where "MessageRoleAssistant = ''assistant''"
definition MessageStatusPending :: string where "MessageStatusPending = ''pending''"
definition MessageStatusProcessing :: string where "MessageStatusProcessing = ''processing''"
definition MessageStatusCompleted :: string where "MessageStatusCompleted = ''completed''"
definition MessageStatusFailed :: string where "MessageStatusFailed = ''failed''"
definition MessageStatusCancelled :: string where "MessageStatusCancelled = ''cancelled''"
definition MessageTypeText :: string where "MessageTypeText = ''text''"

lemmas row_consts =
  MessageRoleUser_def MessageRoleAssistant_def MessageStatusPending_def MessageStatusProcessing_def
  MessageStatusCompleted_def MessageStatusFailed_def MessageStatusCancelled_def MessageTypeText_def

record store =
  st_sessions :: "session list"
  st_messages :: "session_message list"
  st_nextID :: nat

section \<open>Sessions\<close>

definition GetSessionByPublicID :: "string \<Rightarrow> store \<Rightarrow> session option" where
  "GetSessionByPublicID publicID st = find (\<lambda>s. se_DeletedAt s = None \<and> se_PublicID s = publicID) (st_sessions st)"

definition update_session :: "nat \<Rightarrow> (session \<Rightarrow> session) \<Rightarrow> store \<Rightarrow> store" where
  "update_session i f st =
     st\<lparr>st_sessions := map (\<lambda>s. if se_ID s = i \<and> se_DeletedAt s = None then f s else s) (st_sessions st)\<rparr>"

definition IncrementMessageCount :: "nat \<Rightarrow> store \<Rightarrow> store" where
  "IncrementMessageCount i st = update_session i (\<lambda>s. s\<lparr>se_MessageCount := se_MessageCount s + 1\<rparr>) st"

definition UpdateLastMessageAt :: "int \<Rightarrow> nat \<Rightarrow> int \<Rightarrow> store \<Rightarrow> store" where
  "UpdateLastMessageAt now i lastMessageAt st =
     update_session i (\<lambda>s. s\<lparr>se_LastMessageAt := Some lastMessageAt, se_UpdatedAt := now\<rparr>) st"

section \<open>Messages\<close>

definition live_messages :: "nat \<Rightarrow> store \<Rightarrow> session_message list" where
  "live_messages sessionID st = filter (\<lambda>m. sm_DeletedAt m = None \<and> sm_SessionID m = sessionID) (st_messages st)"

definition CreateMessage :: "int \<Rightarrow> session_message \<Rightarrow> store \<Rightarrow> session_message \<times> store" where
  "CreateMessage now m st =
     (let row = m\<lparr>sm_ID := st_nextID st, sm_CreatedAt := now, sm_UpdatedAt := now\<rparr>
      in (row, st\<lparr>st_messages := st_messages st @ [row], st_nextID := st_nextID st + 1\<rparr>))"

text \<open>\<open>tx.Save(message)\<close> on a row that was read before.\<close>

definition SaveMessage :: "int \<Rightarrow> session_message \<Rightarrow> store \<Rightarrow> store" where
  "SaveMessage now m st =
     st\<lparr>st_messages := map (\<lambda>r. if sm_ID r = sm_ID m \<and> sm_DeletedAt r = None then m\<lparr>sm_UpdatedAt := now\<rparr> else r) (st_messages st)\<rparr>"

definition GetSessionMessagesByIDs :: "nat \<Rightarrow> nat list \<Rightarrow> store \<Rightarrow> session_message list" where
  "GetSessionMessagesByIDs sessionID ids st =
     sort_key sm_Sequence (filter (\<lambda>m. sm_ID m \<in> set ids) (live_messages sessionID st))"

definition GetRecentProcessingUserMessages :: "nat \<Rightarrow> int \<Rightarrow> store \<Rightarrow> session_message list" where
  "GetRecentProcessingUserMessages sessionID since st =
     sort_key (\<lambda>m. - sm_UpdatedAt m)
       (filter (\<lambda>m. sm_Role m = MessageRoleUser \<and> sm_Status m = MessageStatusProcessing \<and> since \<le> sm_UpdatedAt m)
         (live_messages sessionID st))"

definition GetNextSequence :: "nat \<Rightarrow> store \<Rightarrow> int" where
  "GetNextSequence sessionID st =
     (let sequences = map sm_Sequence (live_messages sessionID st);
          maxSequence = (case sequences of [] \<Rightarrow> 0 | q # qs \<Rightarrow> foldl max q qs)
      in wrap64 (maxSequence + 1))"

definition DeleteMessage :: "int \<Rightarrow> nat \<Rightarrow> store \<Rightarrow> store" where
  "DeleteMessage now i st =
     st\<lparr>st_messages := map (\<lambda>m. if sm_ID m = i \<and> sm_DeletedAt m = None then m\<lparr>sm_DeletedAt := Some now\<rparr> else m) (st_messages st)\<rparr>"

definition ClearSessionMessages :: "int \<Rightarrow> nat \<Rightarrow> store \<Rightarrow> store" where
  "ClearSessionMessages now sessionID st =
     st\<lparr>st_messages := map (\<lambda>m. if sm_SessionID m = sessionID \<and> sm_DeletedAt m = None then m\<lparr>sm_DeletedAt := Some now\<rparr> else m)
        (st_messages st)\<rparr>"

section \<open>Facts about the statements\<close>

lemma foldl_max_Max: "foldl max (q :: int) qs = Max (set (q # qs))"
proof (induction qs arbitrary: q)
  case (Cons a qs)
  have "foldl max q (a # qs) = Max (set (max q a # qs))" using Cons.IH [of "max q a"] by simp
  also have "\<dots> = Max (set (q # a # qs))" by (cases "qs = []") (simp_all add: max.assoc)
  finally show ?case .
qed simp

lemma GetNextSequence_above:
  assumes "m \<in> set (live_messages i st)" "\<And>x. x \<in> set (live_messages i st) \<Longrightarrow> sm_Sequence x < 2 ^ 63 - 1" "0 \<le> sm_Sequence m"
  shows "sm_Sequence m < GetNextSequence i st"
proof -
  let ?qs = "map sm_Sequence (live_messages i st)"
  obtain q qs where q: "?qs = q # qs" using assms(1) by (cases ?qs) auto
  have mem: "sm_Sequence m \<in> set (q # qs)" using assms(1) unfolding q [symmetric] by auto
  have le: "sm_Sequence m \<le> Max (set (q # qs))" by (rule Max_ge [OF _ mem]) simp
  have "Max (set (q # qs)) \<in> set (q # qs)" by (rule Max_in) simp_all
  then have "Max (set (q # qs)) < 2 ^ 63 - 1" using assms(2) unfolding q [symmetric] by auto
  then have "wrap64 (Max (set (q # qs)) + 1) = Max (set (q # qs)) + 1"
    using le assms(3) by (intro wrap64_id) (simp add: int64_range_def)
  then show ?thesis using le unfolding GetNextSequence_def q Let_def list.case foldl_max_Max by simp
qed

lemma CreateMessage_messages:
  "st_messages (snd (CreateMessage now m st)) = st_messages st @ [fst (CreateMessage now m st)]"
  "st_sessions (snd (CreateMessage now m st)) = st_sessions st" "st_nextID (snd (CreateMessage now m st)) = st_nextID st + 1"
  by (simp_all add: CreateMessage_def Let_def)

lemma update_session_messages [simp]:
  "st_messages (update_session i f st) = st_messages st" "st_nextID (update_session i f st) = st_nextID st"
  "st_messages (IncrementMessageCount i st) = st_messages st" "st_nextID (IncrementMessageCount i st) = st_nextID st"
  "st_messages (UpdateLastMessageAt now i t st) = st_messages st" "st_nextID (UpdateLastMessageAt now i t st) = st_nextID st"
  by (simp_all add: update_session_def IncrementMessageCount_def UpdateLastMessageAt_def)

lemma SaveMessage_sessions [simp]: "st_sessions (SaveMessage now m st) = st_sessions st" "st_nextID (SaveMessage now m st) = st_nextID st"
  by (simp_all add: SaveMessage_def)

end
