(* ===== verification/Sessions.thy ===== *)
theory Sessions
  imports SessionStore
begin

text \<open>
  The part of \<open>backend/internal/service/session_service.go\<close> that follows the runs of a session: marking the user messages that a
  run answers, storing the answer, and streaming the run's events to clients. An operation takes the clock, its request
  and the tables, and returns its error and the tables. Events on the bus are those of the worker (\<open>NatsSink\<close>).

  Lemmas: which rows an operation changes and how; the life of a message's status; the numbering of a session's messages;
  what a client that streams a session sees.
\<close>

section \<open>Message ids\<close>

definition id_of_text :: "string \<Rightarrow> nat option" where
  "id_of_text s = (case parse_uint64 s of Some n \<Rightarrow> if n = 0 then None else Some n | None \<Rightarrow> None)"

definition req_prefix :: string where
  "req_prefix = ''req_''"

definition messageIDFromRequestID :: "string \<Rightarrow> nat option" where
  "messageIDFromRequestID requestID =
     (let v = trim_space requestID in
      if prefix req_prefix v then id_of_text (drop (length req_prefix) v) else None)"

definition replyMessageIDs :: "string list \<Rightarrow> string \<Rightarrow> nat list" where
  "replyMessageIDs rawIDs fallbackRequestID =
     (let result = uniq_loop (\<lambda>raw. id_of_text (trim_space raw)) [] rawIDs in
      if result = [] then (case messageIDFromRequestID fallbackRequestID of Some i \<Rightarrow> [i] | None \<Rightarrow> []) else result)"

definition normalizedReplyIDStrings :: "string list \<Rightarrow> string list" where
  "normalizedReplyIDStrings rawIDs = map show_nat (replyMessageIDs rawIDs [])"

section \<open>Metadata\<close>

definition set_extra :: "string \<Rightarrow> json \<Rightarrow> object_metadata \<Rightarrow> object_metadata" where
  "set_extra k v md =
     md\<lparr>om_Extra := Some (AList.update k v (case om_Extra md of None \<Rightarrow> [] | Some e \<Rightarrow> e))\<rparr>"

definition responseStreamStartSeqKey :: string where "responseStreamStartSeqKey = ''response_stream_start_seq''"
definition stateStartSeqKey :: string where "stateStartSeqKey = ''state_start_seq''"
definition replyToMessageIDsKey :: string where "replyToMessageIDsKey = ''reply_to_message_ids''"

definition setResponseStreamStartSeq :: "nat \<Rightarrow> object_metadata \<Rightarrow> object_metadata" where
  "setResponseStreamStartSeq seq md = set_extra responseStreamStartSeqKey (JNum (int seq)) md"

definition setStateStartSeq :: "nat \<Rightarrow> object_metadata \<Rightarrow> object_metadata" where
  "setStateStartSeq seq md = set_extra stateStartSeqKey (JNum (int seq)) md"

text \<open>The value as it comes out of the JSON column.\<close>

definition seq_value :: "string \<Rightarrow> object_metadata \<Rightarrow> nat option" where
  "seq_value k md =
     (case om_Extra md of
        None \<Rightarrow> None
      | Some e \<Rightarrow> (case map_of e k of Some (JNum n) \<Rightarrow> if n \<le> 0 then None else Some (nat n) | _ \<Rightarrow> None))"

definition responseStreamStartSeq :: "object_metadata \<Rightarrow> nat option" where
  "responseStreamStartSeq md = seq_value responseStreamStartSeqKey md"

definition stateStartSeq :: "object_metadata \<Rightarrow> nat option" where
  "stateStartSeq md = seq_value stateStartSeqKey md"

definition attachReplyToMessageIDs :: "string list \<Rightarrow> object_metadata \<Rightarrow> object_metadata" where
  "attachReplyToMessageIDs ids md =
     (let normalized = normalizedReplyIDStrings ids in
      if normalized = [] then md else set_extra replyToMessageIDsKey (JArr (map JStr normalized)) md)"

section \<open>A run starts\<close>

record run_started_request =
  sr_SessionID :: string
  sr_ReplyToMessageIDs :: "string list"
  sr_RequestID :: string
  sr_StreamStartSeq :: nat
  sr_StateStartSeq :: nat

datatype session_error =
    Request_required
  | Session_id_required
  | State_start_seq_required
  | Session_not_found string
  | No_reply_message_ids

definition started_metadata :: "run_started_request \<Rightarrow> object_metadata \<Rightarrow> object_metadata" where
  "started_metadata req md =
     (let md = (if sr_StreamStartSeq req > 0 then setResponseStreamStartSeq (sr_StreamStartSeq req) md else md)
      in if sr_StateStartSeq req > 0 then setStateStartSeq (sr_StateStartSeq req) md else md)"

definition start_message :: "int \<Rightarrow> run_started_request \<Rightarrow> store \<Rightarrow> session_message \<Rightarrow> store" where
  "start_message now req st message =
     (if sm_Role message \<noteq> MessageRoleUser \<or> sm_Status message \<noteq> MessageStatusPending then st
      else SaveMessage now
        (message\<lparr>sm_Status := MessageStatusProcessing, sm_Metadata := started_metadata req (sm_Metadata message)\<rparr>) st)"

definition HandleSessionRunStarted ::
  "int \<Rightarrow> run_started_request option \<Rightarrow> store \<Rightarrow> session_error option \<times> store" where
  "HandleSessionRunStarted now r st =
     (case r of
        None \<Rightarrow> (Some Request_required, st)
      | Some req \<Rightarrow>
          if sr_SessionID req = [] then (Some Session_id_required, st)
          else if sr_StateStartSeq req = 0 then (Some State_start_seq_required, st)
          else (case GetSessionByPublicID (sr_SessionID req) st of
              None \<Rightarrow> (Some (Session_not_found (sr_SessionID req)), st)
            | Some s \<Rightarrow>
                (let messageIDs = replyMessageIDs (sr_ReplyToMessageIDs req) (sr_RequestID req) in
                 if messageIDs = [] then (Some No_reply_message_ids, st)
                 else (None, foldl (start_message now req) st (GetSessionMessagesByIDs (se_ID s) messageIDs st)))))"

text \<open>Half an hour.\<close>

definition sessionProcessingWindow :: int where
  "sessionProcessingWindow = 30 * 60 * 1000000000"

definition set_stream_start :: "int \<Rightarrow> nat \<Rightarrow> store \<Rightarrow> session_message \<Rightarrow> store" where
  "set_stream_start now streamSeq st message =
     (if sm_Status message \<noteq> MessageStatusProcessing then st
      else if responseStreamStartSeq (sm_Metadata message) \<noteq> None then st
      else SaveMessage now (message\<lparr>sm_Metadata := setResponseStreamStartSeq streamSeq (sm_Metadata message)\<rparr>) st)"

definition SetSessionStreamStartSeq :: "int \<Rightarrow> string \<Rightarrow> nat \<Rightarrow> store \<Rightarrow> session_error option \<times> store" where
  "SetSessionStreamStartSeq now sessionID streamSeq st =
     (case GetSessionByPublicID sessionID st of
        None \<Rightarrow> (Some (Session_not_found sessionID), st)
      | Some s \<Rightarrow>
          (let messages = GetRecentProcessingUserMessages (se_ID s) (now - sessionProcessingWindow) st;
               ids = map sm_ID messages
           in if messages = [] then (None, st)
              else (None, foldl (set_stream_start now streamSeq) st (GetSessionMessagesByIDs (se_ID s) ids st))))"

section \<open>A run ends\<close>

definition update_reply_status :: "int \<Rightarrow> string \<Rightarrow> store \<Rightarrow> session_message \<Rightarrow> store" where
  "update_reply_status now status st message =
     (if sm_Role message \<noteq> MessageRoleUser then st else SaveMessage now (message\<lparr>sm_Status := status\<rparr>) st)"

definition updateReplyMessageStatus :: "int \<Rightarrow> nat \<Rightarrow> string list \<Rightarrow> string \<Rightarrow> store \<Rightarrow> store" where
  "updateReplyMessageStatus now sessionID rawIDs status st =
     (let messageIDs = replyMessageIDs rawIDs [] in
      if messageIDs = [] then st
      else foldl (update_reply_status now status) st (GetSessionMessagesByIDs sessionID messageIDs st))"

record complete_request =
  cq_SessionID :: string
  cq_Content :: string
  cq_ReplyToMessageIDs :: "string list"
  cq_Chunks :: "message_chunk list"
  cq_Artifacts :: "message_artifact list"
  cq_Metadata :: "object_metadata option"
  cq_Usage :: "message_usage option"
  cq_Seq :: int
  cq_CreatedAt :: int

definition completed_message :: "nat \<Rightarrow> int \<Rightarrow> complete_request \<Rightarrow> session_message" where
  "completed_message sessionID sequence req =
     \<lparr>sm_ID = 0, sm_CreatedAt = 0, sm_UpdatedAt = 0, sm_DeletedAt = None, sm_SessionID = sessionID,
      sm_Role = MessageRoleAssistant, sm_Content = cq_Content req, sm_ErrorMsg = [], sm_MessageType = MessageTypeText,
      sm_Status = MessageStatusCompleted, sm_Chunks = cq_Chunks req, sm_Artifacts = cq_Artifacts req,
      sm_Attachments = [],
      sm_Metadata = attachReplyToMessageIDs (cq_ReplyToMessageIDs req)
        (case cq_Metadata req of None \<Rightarrow> no_metadata | Some md \<Rightarrow> md),
      sm_Usage = (case cq_Usage req of None \<Rightarrow> no_usage | Some u \<Rightarrow> u),
      sm_Sequence = sequence, sm_Timestamp = cq_CreatedAt req div 1000000\<rparr>"

text \<open>The transaction, on the sequence number that was read before it.\<close>

definition complete_transaction :: "int \<Rightarrow> nat \<Rightarrow> int \<Rightarrow> complete_request \<Rightarrow> store \<Rightarrow> store" where
  "complete_transaction now sessionID sequence req st =
     updateReplyMessageStatus now sessionID (cq_ReplyToMessageIDs req) MessageStatusCompleted
       (snd (CreateMessage now (completed_message sessionID sequence req) st))"

definition CompleteSessionMessage :: "int \<Rightarrow> complete_request \<Rightarrow> store \<Rightarrow> session_error option \<times> store" where
  "CompleteSessionMessage now req st =
     (if cq_SessionID req = [] then (Some Session_id_required, st)
      else case GetSessionByPublicID (cq_SessionID req) st of
        None \<Rightarrow> (Some (Session_not_found (cq_SessionID req)), st)
      | Some s \<Rightarrow>
          (let sequence = GetNextSequence (se_ID s) st
           in (None, IncrementMessageCount (se_ID s)
                 (UpdateLastMessageAt now (se_ID s) now (complete_transaction now (se_ID s) sequence req st)))))"

record failed_request = complete_request +
  fq_ErrorMsg :: string
  fq_ErrorCode :: string
  fq_Status :: string

definition failed_status :: "failed_request \<Rightarrow> string" where
  "failed_status req = (if fq_Status req = [] then MessageStatusFailed else fq_Status req)"

definition failed_message :: "nat \<Rightarrow> int \<Rightarrow> failed_request \<Rightarrow> session_message" where
  "failed_message sessionID sequence req =
     (let md = attachReplyToMessageIDs (cq_ReplyToMessageIDs req)
            (case cq_Metadata req of None \<Rightarrow> no_metadata | Some md \<Rightarrow> md)
      in \<lparr>sm_ID = 0, sm_CreatedAt = 0, sm_UpdatedAt = 0, sm_DeletedAt = None, sm_SessionID = sessionID,
          sm_Role = MessageRoleAssistant,
          sm_Content = (if cq_Content req = [] then fq_ErrorMsg req else cq_Content req),
          sm_ErrorMsg = fq_ErrorMsg req, sm_MessageType = MessageTypeText, sm_Status = failed_status req,
          sm_Chunks = cq_Chunks req, sm_Artifacts = cq_Artifacts req, sm_Attachments = [],
          sm_Metadata = (if fq_ErrorCode req \<noteq> [] then set_extra ''error_code'' (JStr (fq_ErrorCode req)) md else md),
          sm_Usage = (case cq_Usage req of None \<Rightarrow> no_usage | Some u \<Rightarrow> u),
          sm_Sequence = sequence, sm_Timestamp = cq_CreatedAt req div 1000000\<rparr>)"

definition failed_transaction :: "int \<Rightarrow> nat \<Rightarrow> int \<Rightarrow> failed_request \<Rightarrow> store \<Rightarrow> store" where
  "failed_transaction now sessionID sequence req st =
     updateReplyMessageStatus now sessionID (cq_ReplyToMessageIDs req) (failed_status req)
       (snd (CreateMessage now (failed_message sessionID sequence req) st))"

definition FailedSessionMessage :: "int \<Rightarrow> failed_request \<Rightarrow> store \<Rightarrow> session_error option \<times> store" where
  "FailedSessionMessage now req st =
     (if cq_SessionID req = [] then (Some Session_id_required, st)
      else case GetSessionByPublicID (cq_SessionID req) st of
        None \<Rightarrow> (Some (Session_not_found (cq_SessionID req)), st)
      | Some s \<Rightarrow>
          (let sequence = GetNextSequence (se_ID s) st
           in (None, UpdateLastMessageAt now (se_ID s) now (failed_transaction now (se_ID s) sequence req st))))"

section \<open>Saving several rows\<close>

definition unique_ids :: "store \<Rightarrow> bool" where
  "unique_ids st \<longleftrightarrow> distinct (map sm_ID (st_messages st))"

lemma unique_ids_eq: "unique_ids st \<Longrightarrow> r \<in> set (st_messages st) \<Longrightarrow> r' \<in> set (st_messages st) \<Longrightarrow> sm_ID r = sm_ID r' \<Longrightarrow> r = r'"
  by (simp add: unique_ids_def distinct_map inj_on_def)

text \<open>The loop of read rows that saves those of them that satisfy \<open>P\<close>, changed by \<open>f\<close>.\<close>

definition save_where ::
  "int \<Rightarrow> (session_message \<Rightarrow> bool) \<Rightarrow> (session_message \<Rightarrow> session_message) \<Rightarrow> store \<Rightarrow> session_message \<Rightarrow> store" where
  "save_where now P f st m = (if P m then SaveMessage now (f m) st else st)"

lemma SaveMessage_row:
  assumes "unique_ids st" "m \<in> set (st_messages st)" "sm_DeletedAt m = None" "sm_ID (f m) = sm_ID m"
  shows "st_messages (SaveMessage now (f m) st) = map (\<lambda>r. if r = m then (f m)\<lparr>sm_UpdatedAt := now\<rparr> else r) (st_messages st)"
  unfolding SaveMessage_def using assms unique_ids_eq [OF assms(1) _ assms(2)] by auto

lemma save_all:
  assumes "unique_ids st" "set ms \<subseteq> set (st_messages st)" "\<forall>m \<in> set ms. sm_DeletedAt m = None" "distinct ms"
    and f: "\<And>m. sm_ID (f m) = sm_ID m"
  shows "st_messages (foldl (save_where now P f) st ms) =
      map (\<lambda>r. if r \<in> set ms \<and> P r then (f r)\<lparr>sm_UpdatedAt := now\<rparr> else r) (st_messages st)"
    and "st_sessions (foldl (save_where now P f) st ms) = st_sessions st"
    and "st_nextID (foldl (save_where now P f) st ms) = st_nextID st"
  using assms(1-4)
proof (induction ms arbitrary: st)
  case Nil
  {
    case 1
    show ?case by simp
  next
    case 2
    show ?case by simp
  next
    case 3
    show ?case by simp
  }
next
  case (Cons m ms)
  let ?s = "\<lambda>st. save_where now P f st m"
  have step: "unique_ids (?s st) \<and> set ms \<subseteq> set (st_messages (?s st)) \<and>
      st_messages (?s st) = map (\<lambda>r. if r = m \<and> P m then (f m)\<lparr>sm_UpdatedAt := now\<rparr> else r) (st_messages st)"
    if prems: "unique_ids st" "set (m # ms) \<subseteq> set (st_messages st)" "\<forall>x \<in> set (m # ms). sm_DeletedAt x = None" "distinct (m # ms)" for st
  proof (cases "P m")
    case True
    have msgs: "st_messages (?s st) = map (\<lambda>r. if r = m then (f m)\<lparr>sm_UpdatedAt := now\<rparr> else r) (st_messages st)"
      using SaveMessage_row [OF prems(1), of m f now] prems(2,3) f True by (simp add: save_where_def)
    have "map sm_ID (st_messages (?s st)) = map sm_ID (st_messages st)" unfolding msgs using f by simp
    then have "unique_ids (?s st)" using prems(1) unfolding unique_ids_def by simp
    moreover have "set ms \<subseteq> set (st_messages (?s st))" using prems(2,4) unfolding msgs by force
    ultimately show ?thesis using msgs True by simp
  next
    case False
    then show ?thesis using prems by (simp add: save_where_def)
  qed
  {
    case (1 st)
    note st = step [OF 1]
    have "st_messages (foldl (save_where now P f) (?s st) ms) =
        map (\<lambda>r. if r \<in> set ms \<and> P r then (f r)\<lparr>sm_UpdatedAt := now\<rparr> else r) (st_messages (?s st))"
      by (rule Cons.IH(1)) (use 1 in \<open>simp_all add: conjunct1 [OF st] conjunct1 [OF conjunct2 [OF st]]\<close>)
    moreover have "(f m)\<lparr>sm_UpdatedAt := now\<rparr> \<notin> set ms \<or> \<not> P m"
    proof (rule ccontr)
      assume "\<not> ?thesis"
      then have "(f m)\<lparr>sm_UpdatedAt := now\<rparr> \<in> set (st_messages st)" "sm_ID ((f m)\<lparr>sm_UpdatedAt := now\<rparr>) = sm_ID m" "m \<in> set (st_messages st)"
        using 1(2) f by auto
      then have "(f m)\<lparr>sm_UpdatedAt := now\<rparr> = m" using unique_ids_eq [OF 1(1)] by blast
      with \<open>\<not> ?thesis\<close> 1(4) show False by simp
    qed
    ultimately show ?case
      using 1(4) unfolding conjunct2 [OF conjunct2 [OF st]] foldl_Cons map_map by (auto simp: comp_def)
  next
    case (2 st)
    note st = step [OF 2]
    have "st_sessions (foldl (save_where now P f) (?s st) ms) = st_sessions (?s st)"
      by (rule Cons.IH(2)) (use 2 in \<open>simp_all add: conjunct1 [OF st] conjunct1 [OF conjunct2 [OF st]]\<close>)
    moreover have "st_sessions (?s st) = st_sessions st" by (simp add: save_where_def)
    ultimately show ?case by simp
  next
    case (3 st)
    note st = step [OF 3]
    have "st_nextID (foldl (save_where now P f) (?s st) ms) = st_nextID (?s st)"
      by (rule Cons.IH(3)) (use 3 in \<open>simp_all add: conjunct1 [OF st] conjunct1 [OF conjunct2 [OF st]]\<close>)
    moreover have "st_nextID (?s st) = st_nextID st" by (simp add: save_where_def)
    ultimately show ?case by simp
  }
qed

section \<open>What the operations do to the rows\<close>

definition fresh_ids :: "store \<Rightarrow> bool" where
  "fresh_ids st \<longleftrightarrow> unique_ids st \<and> (\<forall>m \<in> set (st_messages st). sm_ID m < st_nextID st)"

text \<open>The live rows of a session that a list of ids names.\<close>

definition targets :: "nat \<Rightarrow> nat list \<Rightarrow> session_message \<Rightarrow> bool" where
  "targets sessionID ids r \<longleftrightarrow> sm_DeletedAt r = None \<and> sm_SessionID r = sessionID \<and> sm_ID r \<in> set ids"

lemma rows_by_ids:
  assumes "unique_ids st"
  shows "set (GetSessionMessagesByIDs i ids st) = {r \<in> set (st_messages st). targets i ids r}"
    and "distinct (GetSessionMessagesByIDs i ids st)"
  using assms by (auto simp: GetSessionMessagesByIDs_def live_messages_def targets_def unique_ids_def distinct_map)

lemma save_targets:
  assumes "unique_ids st" "\<And>m. sm_ID (f m) = sm_ID m"
  shows "st_messages (foldl (save_where now P f) st (GetSessionMessagesByIDs i ids st)) =
      map (\<lambda>r. if targets i ids r \<and> P r then (f r)\<lparr>sm_UpdatedAt := now\<rparr> else r) (st_messages st)"
    and "st_sessions (foldl (save_where now P f) st (GetSessionMessagesByIDs i ids st)) = st_sessions st"
    and "st_nextID (foldl (save_where now P f) st (GetSessionMessagesByIDs i ids st)) = st_nextID st"
proof -
  let ?ms = "GetSessionMessagesByIDs i ids st"
  have prems: "set ?ms \<subseteq> set (st_messages st)" "\<forall>m \<in> set ?ms. sm_DeletedAt m = None"
    unfolding rows_by_ids(1) [OF assms(1)] by (auto simp: targets_def)
  note all = save_all [OF assms(1) prems rows_by_ids(2) [OF assms(1)], where f = f and now = now and P = P, OF assms(2)]
  show "st_messages (foldl (save_where now P f) st ?ms) =
      map (\<lambda>r. if targets i ids r \<and> P r then (f r)\<lparr>sm_UpdatedAt := now\<rparr> else r) (st_messages st)"
    unfolding all(1) rows_by_ids(1) [OF assms(1)] by auto
  show "st_sessions (foldl (save_where now P f) st ?ms) = st_sessions st"
    "st_nextID (foldl (save_where now P f) st ?ms) = st_nextID st" using all(2,3) .
qed

lemma loops_save:
  "start_message now req = save_where now (\<lambda>m. sm_Role m = MessageRoleUser \<and> sm_Status m = MessageStatusPending)
     (\<lambda>m. m\<lparr>sm_Status := MessageStatusProcessing, sm_Metadata := started_metadata req (sm_Metadata m)\<rparr>)"
  "set_stream_start now q = save_where now (\<lambda>m. sm_Status m = MessageStatusProcessing \<and> responseStreamStartSeq (sm_Metadata m) = None)
     (\<lambda>m. m\<lparr>sm_Metadata := setResponseStreamStartSeq q (sm_Metadata m)\<rparr>)"
  "update_reply_status now status = save_where now (\<lambda>m. sm_Role m = MessageRoleUser) (\<lambda>m. m\<lparr>sm_Status := status\<rparr>)"
  by (auto simp: fun_eq_iff start_message_def set_stream_start_def update_reply_status_def save_where_def)

lemma updateReplyMessageStatus_rows:
  assumes "unique_ids st"
  shows "st_messages (updateReplyMessageStatus now i raw status st) =
      map (\<lambda>r. if targets i (replyMessageIDs raw []) r \<and> sm_Role r = MessageRoleUser
               then r\<lparr>sm_Status := status, sm_UpdatedAt := now\<rparr> else r) (st_messages st)"
    and "st_sessions (updateReplyMessageStatus now i raw status st) = st_sessions st"
    and "st_nextID (updateReplyMessageStatus now i raw status st) = st_nextID st"
proof -
  note s = save_targets [OF assms, where f = "\<lambda>m. m\<lparr>sm_Status := status\<rparr>" and now = now
      and P = "\<lambda>m. sm_Role m = MessageRoleUser" and i = i and ids = "replyMessageIDs raw []"]
  show "st_messages (updateReplyMessageStatus now i raw status st) =
      map (\<lambda>r. if targets i (replyMessageIDs raw []) r \<and> sm_Role r = MessageRoleUser
               then r\<lparr>sm_Status := status, sm_UpdatedAt := now\<rparr> else r) (st_messages st)"
    "st_sessions (updateReplyMessageStatus now i raw status st) = st_sessions st"
    "st_nextID (updateReplyMessageStatus now i raw status st) = st_nextID st"
    using s by (simp_all add: updateReplyMessageStatus_def loops_save Let_def targets_def map_idI)
qed

text \<open>The answer of a run: one more row, and a new status for the user messages it replies to.\<close>

definition answer_rows :: "int \<Rightarrow> nat \<Rightarrow> string list \<Rightarrow> string \<Rightarrow> session_message \<Rightarrow> session_message list \<Rightarrow> session_message list" where
  "answer_rows now i raw status row rs =
     map (\<lambda>r. if targets i (replyMessageIDs raw []) r \<and> sm_Role r = MessageRoleUser
              then r\<lparr>sm_Status := status, sm_UpdatedAt := now\<rparr> else r) rs @ [row]"

lemma answer_transaction:
  assumes "fresh_ids st" "sm_Role m = MessageRoleAssistant"
  shows "st_messages (updateReplyMessageStatus now i raw status (snd (CreateMessage now m st))) =
      answer_rows now i raw status (m\<lparr>sm_ID := st_nextID st, sm_CreatedAt := now, sm_UpdatedAt := now\<rparr>) (st_messages st)"
    and "st_nextID (updateReplyMessageStatus now i raw status (snd (CreateMessage now m st))) = st_nextID st + 1"
    and "st_sessions (updateReplyMessageStatus now i raw status (snd (CreateMessage now m st))) = st_sessions st"
proof -
  let ?st = "snd (CreateMessage now m st)"
  have "unique_ids ?st" using assms(1) by (auto simp: fresh_ids_def unique_ids_def CreateMessage_def Let_def)
  note u = updateReplyMessageStatus_rows [OF this, of now i raw status]
  show "st_messages (updateReplyMessageStatus now i raw status ?st) =
      answer_rows now i raw status (m\<lparr>sm_ID := st_nextID st, sm_CreatedAt := now, sm_UpdatedAt := now\<rparr>) (st_messages st)"
    unfolding u(1) CreateMessage_messages answer_rows_def using assms(2)
    by (simp add: CreateMessage_def Let_def row_consts)
  show "st_nextID (updateReplyMessageStatus now i raw status ?st) = st_nextID st + 1"
    "st_sessions (updateReplyMessageStatus now i raw status ?st) = st_sessions st"
    unfolding u(2,3) by (simp_all add: CreateMessage_def Let_def)
qed

lemma CompleteSessionMessage_rows:
  assumes "fresh_ids st" "cq_SessionID req \<noteq> []" "GetSessionByPublicID (cq_SessionID req) st = Some s"
  shows "fst (CompleteSessionMessage now req st) = None"
    and "st_messages (snd (CompleteSessionMessage now req st)) =
      answer_rows now (se_ID s) (cq_ReplyToMessageIDs req) MessageStatusCompleted
        ((completed_message (se_ID s) (GetNextSequence (se_ID s) st) req)
           \<lparr>sm_ID := st_nextID st, sm_CreatedAt := now, sm_UpdatedAt := now\<rparr>) (st_messages st)"
    and "st_nextID (snd (CompleteSessionMessage now req st)) = st_nextID st + 1"
  using assms(2,3) answer_transaction [OF assms(1), of "completed_message (se_ID s) (GetNextSequence (se_ID s) st) req"]
  by (simp_all add: CompleteSessionMessage_def complete_transaction_def completed_message_def Let_def)

lemma failed_message_role: "sm_Role (failed_message i q req) = MessageRoleAssistant"
  by (simp add: failed_message_def Let_def)

lemma FailedSessionMessage_rows:
  assumes "fresh_ids st" "cq_SessionID req \<noteq> []" "GetSessionByPublicID (cq_SessionID req) st = Some s"
  shows "fst (FailedSessionMessage now req st) = None"
    and "st_messages (snd (FailedSessionMessage now req st)) =
      answer_rows now (se_ID s) (cq_ReplyToMessageIDs req) (failed_status req)
        ((failed_message (se_ID s) (GetNextSequence (se_ID s) st) req)
           \<lparr>sm_ID := st_nextID st, sm_CreatedAt := now, sm_UpdatedAt := now\<rparr>) (st_messages st)"
    and "st_nextID (snd (FailedSessionMessage now req st)) = st_nextID st + 1"
  using assms(2,3) answer_transaction [OF assms(1) failed_message_role [of "se_ID s" "GetNextSequence (se_ID s) st" req]]
  by (simp_all add: FailedSessionMessage_def failed_transaction_def Let_def)

lemma HandleSessionRunStarted_rows:
  assumes "unique_ids st" "HandleSessionRunStarted now (Some req) st = (None, st')"
  shows "\<exists>s. GetSessionByPublicID (sr_SessionID req) st = Some s \<and> replyMessageIDs (sr_ReplyToMessageIDs req) (sr_RequestID req) \<noteq> [] \<and>
    st_messages st' = map (\<lambda>r. if targets (se_ID s) (replyMessageIDs (sr_ReplyToMessageIDs req) (sr_RequestID req)) r \<and>
        sm_Role r = MessageRoleUser \<and> sm_Status r = MessageStatusPending
      then r\<lparr>sm_Status := MessageStatusProcessing, sm_Metadata := started_metadata req (sm_Metadata r), sm_UpdatedAt := now\<rparr> else r)
      (st_messages st) \<and> st_nextID st' = st_nextID st \<and> st_sessions st' = st_sessions st"
proof -
  from assms(2) obtain s where s: "GetSessionByPublicID (sr_SessionID req) st = Some s"
    "replyMessageIDs (sr_ReplyToMessageIDs req) (sr_RequestID req) \<noteq> []"
    "st' = foldl (start_message now req) st (GetSessionMessagesByIDs (se_ID s) (replyMessageIDs (sr_ReplyToMessageIDs req) (sr_RequestID req)) st)"
    by (auto simp: HandleSessionRunStarted_def Let_def split: if_splits option.splits)
  note t = save_targets [OF assms(1), where now = now and P = "\<lambda>m. sm_Role m = MessageRoleUser \<and> sm_Status m = MessageStatusPending"
      and f = "\<lambda>m. m\<lparr>sm_Status := MessageStatusProcessing, sm_Metadata := started_metadata req (sm_Metadata m)\<rparr>"
      and i = "se_ID s" and ids = "replyMessageIDs (sr_ReplyToMessageIDs req) (sr_RequestID req)"]
  show ?thesis using s t by (intro exI [of _ s]) (simp add: loops_save)
qed

end
