(* ===== verification/Artifacts.thy ===== *)
theory Artifacts
  imports Sessions
begin

text \<open>
  Storing a declared artifact on the server: \<open>PersistDeclaredArtifact\<close> of
  \<open>backend/internal/runnable/session_run_state_projector.go\<close> with \<open>RecordUpload\<close> of \<open>backend/internal/infra/filestore/upload.go\<close>,
  on the tables of artifacts, uploads, project files and projects beside those of the sessions. The public id of an
  artifact and of an upload is unique. \<open>newID\<close> is the random part of the next public id, \<open>normalizeURI\<close> what the storage
  library makes of a URI.

  Lemmas: when an artifact is stored and as what; that storing is idempotent; the state a failed upload leaves.
\<close>

section \<open>Rows\<close>

record artifact_row =
  ar_ID :: nat
  ar_PublicID :: string
  ar_OrgID :: nat
  ar_OwnerID :: nat
  ar_TaskID :: nat
  ar_ProjectID :: nat
  ar_SessionID :: "nat option"
  ar_Title :: string
  ar_Filename :: string
  ar_Description :: string
  ar_ArtifactType :: string
  ar_FileURL :: string
  ar_FileSize :: int
  ar_RelativePath :: string
  ar_StorageKey :: string
  ar_MimeType :: string
  ar_Sha256 :: string
  ar_Source :: string
  ar_Status :: string
  ar_Metadata :: object_metadata

record file_upload =
  fu_PublicID :: string
  fu_OrgID :: nat
  fu_OwnerID :: nat
  fu_Filename :: string
  fu_OriginalName :: string
  fu_MimeType :: string
  fu_FileSize :: int
  fu_StorageURI :: string
  fu_Sha256 :: string
  fu_Purpose :: string
  fu_Status :: string

record project_file =
  pf_FilePublicID :: string
  pf_OrgID :: nat
  pf_ProjectID :: nat
  pf_TaskID :: nat
  pf_ResourceID :: nat
  pf_ResourceType :: string
  pf_Uin :: nat

record artifact_db =
  adb_artifacts :: "artifact_row list"
  adb_uploads :: "file_upload list"
  adb_files :: "project_file list"
  adb_projects :: "(nat \<times> string) list"

section \<open>Statements\<close>

definition GetArtifactByPublicID :: "nat \<Rightarrow> string \<Rightarrow> artifact_db \<Rightarrow> artifact_row option" where
  "GetArtifactByPublicID orgID publicID d = find (\<lambda>a. ar_OrgID a = orgID \<and> ar_PublicID a = publicID) (adb_artifacts d)"

definition GetProjectsByIDs :: "nat list \<Rightarrow> artifact_db \<Rightarrow> (nat \<times> string) list" where
  "GetProjectsByIDs ids d = filter (\<lambda>p. fst p \<in> set ids) (adb_projects d)"

datatype artifact_error =
    Artifact_id_required
  | Org_required
  | Worker_required
  | Session_required
  | Storage_key_required
  | No_session string
  | Wrong_org string nat
  | Project_required
  | Task_required
  | No_project nat
  | Duplicate_key
  | Upload_uri_required
  | Upload_filename_required
  | Upload_owner_required

text \<open>The row with its id, or the violation of the unique index.\<close>

definition CreateArtifact :: "artifact_row \<Rightarrow> artifact_db \<Rightarrow> artifact_error + (artifact_row \<times> artifact_db)" where
  "CreateArtifact a d =
     (if ar_PublicID a \<in> ar_PublicID ` set (adb_artifacts d) then Inl Duplicate_key
      else (let row = a\<lparr>ar_ID := length (adb_artifacts d) + 1\<rparr>
            in Inr (row, d\<lparr>adb_artifacts := adb_artifacts d @ [row]\<rparr>)))"

definition CreateProjectFile :: "project_file \<Rightarrow> artifact_db \<Rightarrow> artifact_error option \<times> artifact_db" where
  "CreateProjectFile f d =
     (if pf_FilePublicID f \<in> pf_FilePublicID ` set (adb_files d) then (Some Duplicate_key, d)
      else (None, d\<lparr>adb_files := adb_files d @ [f]\<rparr>))"

section \<open>Uploads\<close>

record upload_params =
  up_StorageURI :: string
  up_Filename :: string
  up_OriginalName :: string
  up_MimeType :: string
  up_OrgID :: nat
  up_OwnerID :: nat
  up_FileSize :: int
  up_Sha256 :: string
  up_Purpose :: string

definition RecordUpload ::
  "(string \<Rightarrow> string) \<Rightarrow> string \<Rightarrow> upload_params \<Rightarrow> artifact_db \<Rightarrow> artifact_error + (file_upload \<times> artifact_db)" where
  "RecordUpload normalizeURI newID p d =
     (if up_StorageURI p = [] then Inl Upload_uri_required
      else if up_Filename p = [] then Inl Upload_filename_required
      else if up_OrgID p = 0 \<or> up_OwnerID p = 0 then Inl Upload_owner_required
      else
        (let publicID = ''file_'' @ newID;
             row = \<lparr>fu_PublicID = publicID, fu_OrgID = up_OrgID p, fu_OwnerID = up_OwnerID p, fu_Filename = up_Filename p,
               fu_OriginalName = (if up_OriginalName p = [] then up_Filename p else up_OriginalName p),
               fu_MimeType = up_MimeType p, fu_FileSize = (if up_FileSize p \<le> 0 then 0 else up_FileSize p),
               fu_StorageURI = normalizeURI (up_StorageURI p), fu_Sha256 = up_Sha256 p, fu_Purpose = up_Purpose p,
               fu_Status = ''active''\<rparr>
         in if publicID \<in> fu_PublicID ` set (adb_uploads d) then Inl Duplicate_key
            else Inr (row, d\<lparr>adb_uploads := adb_uploads d @ [row]\<rparr>)))"

section \<open>Declared artifacts\<close>

definition or_else :: "string \<Rightarrow> string \<Rightarrow> string" where
  "or_else v d = (let t = trim_space v in if t = [] then d else t)"

definition artifactTitle :: "e_artifact \<Rightarrow> string" where
  "artifactTitle item = or_else (eaf_title item) (trim_space (eaf_filename item))"

definition artifactType :: "string \<Rightarrow> string" where "artifactType v = or_else v ''unknown''"
definition artifactSource :: "string \<Rightarrow> string" where "artifactSource v = or_else v ''unknown''"
definition artifactStatus :: "string \<Rightarrow> string" where "artifactStatus v = or_else v ''pending''"

definition artifact_filename :: "e_artifact \<Rightarrow> string" where
  "artifact_filename item = or_else (eaf_filename item) (eaf_title item)"

definition artifact_row_of ::
  "session \<Rightarrow> nat \<Rightarrow> nat \<Rightarrow> string \<Rightarrow> nat \<Rightarrow> e_artifact \<Rightarrow> artifact_row" where
  "artifact_row_of session projectID taskID projectPublicID workerID item =
     (let storageKey = trim_space (eaf_storage_key item); storageURI = trim_space (eaf_storage_uri item);
          filename = artifact_filename item; title = artifactTitle item
      in \<lparr>ar_ID = 0, ar_PublicID = trim_space (eaf_artifact_id item), ar_OrgID = se_OrgID session,
          ar_OwnerID = se_Uin session, ar_TaskID = taskID, ar_ProjectID = projectID, ar_SessionID = Some (se_ID session),
          ar_Title = (if title = [] then filename else title), ar_Filename = filename,
          ar_Description = trim_space (eaf_description item), ar_ArtifactType = artifactType (eaf_artifact_type item),
          ar_FileURL = (if storageURI = [] then projectPublicID @ ''/'' @ storageKey else storageURI),
          ar_FileSize = eaf_file_size item, ar_RelativePath = eaf_relative_path item, ar_StorageKey = storageKey,
          ar_MimeType = eaf_mime_type item, ar_Sha256 = eaf_sha256 item, ar_Source = artifactSource (eaf_source item),
          ar_Status = artifactStatus (eaf_status item),
          ar_Metadata = no_metadata\<lparr>om_Extra :=
            Some [(''worker_id'', JNum (int workerID)), (''project_public_id'', JStr projectPublicID)]\<rparr>\<rparr>)"

text \<open>What follows the creation of the row.\<close>

definition record_file ::
  "(string \<Rightarrow> string) \<Rightarrow> string \<Rightarrow> session \<Rightarrow> artifact_row \<Rightarrow> e_artifact \<Rightarrow> artifact_db \<Rightarrow> artifact_error option \<times> artifact_db" where
  "record_file normalizeURI newID session artifact item d =
     (let storageURI = trim_space (eaf_storage_uri item); filename = artifact_filename item in
      if storageURI = [] then (None, d)
      else case RecordUpload normalizeURI newID
             \<lparr>up_StorageURI = storageURI, up_Filename = filename,
              up_OriginalName = or_else (eaf_original_name item) filename, up_MimeType = trim_space (eaf_mime_type item),
              up_OrgID = se_OrgID session, up_OwnerID = se_Uin session, up_FileSize = eaf_file_size item,
              up_Sha256 = eaf_sha256 item, up_Purpose = ''artifact''\<rparr> d of
          Inl e \<Rightarrow> (Some e, d)
        | Inr (upload, d') \<Rightarrow>
            CreateProjectFile
              \<lparr>pf_FilePublicID = fu_PublicID upload, pf_OrgID = se_OrgID session, pf_ProjectID = ar_ProjectID artifact,
               pf_TaskID = ar_TaskID artifact, pf_ResourceID = ar_ID artifact, pf_ResourceType = ''artifact'',
               pf_Uin = se_Uin session\<rparr> d')"

definition PersistDeclaredArtifact ::
  "(string \<Rightarrow> string) \<Rightarrow> string \<Rightarrow> route_context \<Rightarrow> e_artifact \<Rightarrow> store \<Rightarrow> artifact_db \<Rightarrow> artifact_error option \<times> artifact_db" where
  "PersistDeclaredArtifact normalizeURI newID route item st d =
     (let artifactID = trim_space (eaf_artifact_id item); sessionID = trim_space (rt_session_id route) in
      if artifactID = [] then (Some Artifact_id_required, d)
      else if rt_org_id route = 0 then (Some Org_required, d)
      else if rt_worker_id route = 0 then (Some Worker_required, d)
      else if sessionID = [] then (Some Session_required, d)
      else if trim_space (eaf_storage_key item) = [] then (Some Storage_key_required, d)
      else if GetArtifactByPublicID (rt_org_id route) artifactID d \<noteq> None then (None, d)
      else case GetSessionByPublicID sessionID st of
        None \<Rightarrow> (Some (No_session sessionID), d)
      | Some session \<Rightarrow>
          if se_OrgID session \<noteq> rt_org_id route then (Some (Wrong_org sessionID (rt_org_id route)), d)
          else (case se_ProjectID session of
              None \<Rightarrow> (Some Project_required, d)
            | Some projectID \<Rightarrow>
                if projectID = 0 then (Some Project_required, d)
                else (case se_TaskID session of
                    None \<Rightarrow> (Some Task_required, d)
                  | Some taskID \<Rightarrow>
                      if taskID = 0 then (Some Task_required, d)
                      else (case GetProjectsByIDs [projectID] d of
                          [] \<Rightarrow> (Some (No_project projectID), d)
                        | project # _ \<Rightarrow>
                            (case CreateArtifact
                                (artifact_row_of session projectID taskID (snd project) (rt_worker_id route) item) d of
                               Inl e \<Rightarrow>
                                 if GetArtifactByPublicID (rt_org_id route) artifactID d \<noteq> None then (None, d) else (Some e, d)
                             | Inr (artifact, d') \<Rightarrow> record_file normalizeURI newID session artifact item d')))))"

section \<open>Idempotence\<close>

lemma CreateArtifact_row:
  assumes "CreateArtifact a d = Inr (row, d')"
  shows "adb_artifacts d' = adb_artifacts d @ [row]" "ar_PublicID row = ar_PublicID a" "ar_OrgID row = ar_OrgID a"
    "ar_ProjectID row = ar_ProjectID a" "ar_PublicID a \<notin> ar_PublicID ` set (adb_artifacts d)" "adb_projects d' = adb_projects d"
    "adb_files d' = adb_files d" "adb_uploads d' = adb_uploads d"
  using assms by (auto simp: CreateArtifact_def Let_def split: if_splits)

lemma RecordUpload_artifacts:
  "RecordUpload f i p d = Inr (u, d') \<Longrightarrow>
     adb_artifacts d' = adb_artifacts d \<and> adb_projects d' = adb_projects d \<and> adb_files d' = adb_files d"
  by (auto simp: RecordUpload_def Let_def split: if_splits)

lemma record_file_artifacts:
  assumes "record_file f i s a item d = (err, d')"
  shows "adb_artifacts d' = adb_artifacts d \<and> adb_projects d' = adb_projects d"
  using assms RecordUpload_artifacts
  by (fastforce simp: record_file_def Let_def CreateProjectFile_def split: if_splits sum.splits)

lemma artifact_row_of_sel [simp]:
  "ar_PublicID (artifact_row_of s p t pid w item) = trim_space (eaf_artifact_id item)"
  "ar_OrgID (artifact_row_of s p t pid w item) = se_OrgID s" "ar_ProjectID (artifact_row_of s p t pid w item) = p"
  by (simp_all add: artifact_row_of_def Let_def)

lemma find_append_row: "find P (xs @ [x]) \<noteq> None \<longleftrightarrow> find P xs \<noteq> None \<or> P x"
  by (auto simp: find_None_iff)

lemma persist_cases:
  assumes "PersistDeclaredArtifact f i route item st d = (err, d')"
  shows "(d' = d \<and> (err = None \<longrightarrow> GetArtifactByPublicID (rt_org_id route) (trim_space (eaf_artifact_id item)) d \<noteq> None)) \<or>
    (\<exists>session projectID taskID pid a d1.
       GetSessionByPublicID (trim_space (rt_session_id route)) st = Some session \<and> se_OrgID session = rt_org_id route \<and>
       se_ProjectID session = Some projectID \<and> projectID \<noteq> 0 \<and> (projectID, pid) \<in> set (adb_projects d) \<and>
       CreateArtifact (artifact_row_of session projectID taskID pid (rt_worker_id route) item) d = Inr (a, d1) \<and>
       record_file f i session a item d1 = (err, d') \<and>
       trim_space (eaf_artifact_id item) \<noteq> [] \<and> rt_org_id route \<noteq> 0 \<and> rt_worker_id route \<noteq> 0 \<and>
       trim_space (rt_session_id route) \<noteq> [] \<and> trim_space (eaf_storage_key item) \<noteq> [])"
proof -
  have mem: "(p, snd q) \<in> set (adb_projects d)" if "GetProjectsByIDs [p] d = q # qs" for p q qs
  proof -
    from that have "q \<in> set (GetProjectsByIDs [p] d)" by simp
    then show ?thesis by (auto simp: GetProjectsByIDs_def)
  qed
  show ?thesis
    using assms unfolding PersistDeclaredArtifact_def Let_def
    by (force split: if_splits option.splits list.splits sum.splits dest: mem)
qed

text \<open>
  C39: Storing a declared artifact is idempotent and stays within its organisation. Whatever \<open>PersistDeclaredArtifact\<close> returns,
  it adds at most one artifact row, for the artifact's id, in the route's organisation, for a project that exists; if it
  succeeds, the row is there; and once a row has been stored, every later delivery of the same artifact succeeds
  without changing anything. The last part also holds after a delivery that failed behind the creation of the row: the upload
  and the project file of that artifact are then never recorded.
\<close>

theorem artifact_persisted_once:
  assumes "PersistDeclaredArtifact f i route item st d = (err, d')"
  shows "(err = None \<longrightarrow> GetArtifactByPublicID (rt_org_id route) (trim_space (eaf_artifact_id item)) d' \<noteq> None) \<and>
    (\<exists>rows. adb_artifacts d' = adb_artifacts d @ rows \<and> length rows \<le> 1 \<and>
      (\<forall>a \<in> set rows. ar_OrgID a = rt_org_id route \<and> ar_PublicID a = trim_space (eaf_artifact_id item) \<and>
         ar_ProjectID a \<in> fst ` set (adb_projects d))) \<and>
    (adb_artifacts d' \<noteq> adb_artifacts d \<longrightarrow> PersistDeclaredArtifact f' i' route item st' d' = (None, d'))"
proof (intro conjI impI)
  let ?G = "GetArtifactByPublicID (rt_org_id route) (trim_space (eaf_artifact_id item))"
  have stored: "(\<exists>a. adb_artifacts d' = adb_artifacts d @ [a] \<and> ar_OrgID a = rt_org_id route \<and>
      ar_PublicID a = trim_space (eaf_artifact_id item) \<and> ar_ProjectID a \<in> fst ` set (adb_projects d)) \<and> ?G d' \<noteq> None \<and>
      PersistDeclaredArtifact f' i' route item st' d' = (None, d')"
    if "adb_artifacts d' \<noteq> adb_artifacts d \<or> \<not> (d' = d \<and> (err = None \<longrightarrow> ?G d \<noteq> None))"
  proof -
    from that persist_cases [OF assms] obtain session projectID taskID pid a d1 where c:
      "se_OrgID session = rt_org_id route" "(projectID, pid) \<in> set (adb_projects d)"
      "CreateArtifact (artifact_row_of session projectID taskID pid (rt_worker_id route) item) d = Inr (a, d1)"
      "record_file f i session a item d1 = (err, d')" "trim_space (eaf_artifact_id item) \<noteq> []" "rt_org_id route \<noteq> 0"
      "rt_worker_id route \<noteq> 0" "trim_space (rt_session_id route) \<noteq> []" "trim_space (eaf_storage_key item) \<noteq> []"
      by blast
    note row = CreateArtifact_row [OF c(3)] and files = record_file_artifacts [OF c(4)]
    have arts: "adb_artifacts d' = adb_artifacts d @ [a]" using row files by simp
    have "ar_ProjectID a \<in> fst ` set (adb_projects d)" using row(4) c(2) by force
    moreover have G: "?G d' \<noteq> None"
      unfolding GetArtifactByPublicID_def arts find_append_row using row c(1) by simp
    moreover have "PersistDeclaredArtifact f' i' route item st' d' = (None, d')"
      unfolding PersistDeclaredArtifact_def Let_def using c(5-9) G by simp
    ultimately show ?thesis using arts row c(1) by auto
  qed
  show "?G d' \<noteq> None" if "err = None" using stored that by blast
  show "PersistDeclaredArtifact f' i' route item st' d' = (None, d')" if "adb_artifacts d' \<noteq> adb_artifacts d"
    using stored that by blast
  show "\<exists>rows. adb_artifacts d' = adb_artifacts d @ rows \<and> length rows \<le> 1 \<and>
      (\<forall>a \<in> set rows. ar_OrgID a = rt_org_id route \<and> ar_PublicID a = trim_space (eaf_artifact_id item) \<and>
         ar_ProjectID a \<in> fst ` set (adb_projects d))"
  proof (cases "adb_artifacts d' = adb_artifacts d")
    case True
    then show ?thesis by (intro exI [of _ "[]"]) simp
  next
    case False
    with stored obtain a where "adb_artifacts d' = adb_artifacts d @ [a]" "ar_OrgID a = rt_org_id route"
      "ar_PublicID a = trim_space (eaf_artifact_id item)" "ar_ProjectID a \<in> fst ` set (adb_projects d)" by blast
    then show ?thesis by (intro exI [of _ "[a]"]) simp
  qed
qed

text \<open>An artifact without a file name: its upload is refused behind the creation of its row.\<close>

definition demo_session :: session where
  "demo_session = \<lparr>se_ID = 4, se_CreatedAt = 0, se_UpdatedAt = 0, se_DeletedAt = None, se_PublicID = ''s'', se_Type = ''task'',
     se_Uin = 3, se_OrgID = 7, se_AssistantID = 0, se_AllocatedAssistantID = 1, se_TaskID = Some 8, se_ProjectID = Some 9,
     se_Status = ''active'', se_Title = [], se_TitleManuallySet = False, se_Metadata = no_metadata, se_MessageCount = 0,
     se_LastMessageAt = None, se_ExpiredAt = None\<rparr>"

definition demo_store :: store where
  "demo_store = \<lparr>st_sessions = [demo_session], st_messages = [], st_nextID = 1\<rparr>"

definition demo_tables :: artifact_db where
  "demo_tables = \<lparr>adb_artifacts = [], adb_uploads = [], adb_files = [], adb_projects = [(9, ''prj'')]\<rparr>"

definition nameless :: e_artifact where
  "nameless = \<lparr>eaf_artifact_id = ''art'', eaf_title = [], eaf_filename = [], eaf_original_name = [], eaf_description = [],
     eaf_mime_type = [], eaf_artifact_type = [], eaf_file_size = 1, eaf_created_at = [], eaf_relative_path = [],
     eaf_storage_key = ''k'', eaf_storage_uri = ''u'', eaf_sha256 = [], eaf_source = [], eaf_status = []\<rparr>"

definition demo_persist :: "artifact_error option \<times> artifact_db" where
  "demo_persist = PersistDeclaredArtifact id ''x'' \<lparr>rt_org_id = 7, rt_session_id = ''s'', rt_worker_id = 1\<rparr> nameless
     demo_store demo_tables"

lemma demo_persist_run:
  "fst demo_persist = Some Upload_filename_required" "length (adb_artifacts (snd demo_persist)) = 1"
  "adb_files (snd demo_persist) = []"
  by code_simp+

lemma artifact_persisted_once_witness:
  "fst demo_persist \<noteq> None \<and> adb_files (snd demo_persist) = [] \<and>
   PersistDeclaredArtifact id ''y'' \<lparr>rt_org_id = 7, rt_session_id = ''s'', rt_worker_id = 1\<rparr> nameless demo_store (snd demo_persist) =
     (None, snd demo_persist)"
proof -
  have "adb_artifacts (snd demo_persist) \<noteq> adb_artifacts demo_tables"
    using demo_persist_run(2) by (auto simp: demo_tables_def)
  from artifact_persisted_once [OF prod.collapse [symmetric], THEN conjunct2, THEN conjunct2, rule_format, OF this [unfolded demo_persist_def]]
  show ?thesis using demo_persist_run by (simp add: demo_persist_def)
qed

end
