(* ===== verification/RunState.thy ===== *)
theory RunState
  imports Artifacts
begin

text \<open>
  The consumers of run events on the server (\<open>backend/internal/runnable/session_run_state_projector.go\<close> and
  \<open>session_run_stream_projector.go\<close>): a message of the state lane becomes a change of the tables, the first message of the
  stream lane of a session fixes where its replay starts. A message of the bus is its decoded form, or none when it does
  not parse, with the stream sequence of its NATS metadata, or none when that is missing. Errors of the handlers are logged and
  lost, so a handler is a function on the server's state. \<open>builtin\<close> looks up the primary key of a built-in skill.

  Lemmas: what each event of a run leaves in the tables; the skills that are recorded.
\<close>

section \<open>Conversions\<close>

definition chunk_of :: "m_run_event_record \<Rightarrow> message_chunk" where
  "chunk_of r =
     \<lparr>ck_Seq = mr_seq r, ck_LastSeq = mr_last_seq r, ck_Type = mr_type r, ck_Timestamp = mr_timestamp r,
      ck_Payload = mr_payload r\<rparr>"

definition messagingEventsToChunks :: "m_run_event_record list \<Rightarrow> message_chunk list" where
  "messagingEventsToChunks records = map chunk_of records"

definition message_artifact_of :: "m_artifact \<Rightarrow> message_artifact" where
  "message_artifact_of a =
     \<lparr>ma_ArtifactID = maf_artifact_id a, ma_Title = maf_title a, ma_Filename = maf_filename a,
      ma_Description = maf_description a, ma_MimeType = maf_mime_type a, ma_ArtifactType = maf_artifact_type a,
      ma_FileSize = maf_file_size a, ma_StorageURI = maf_storage_uri a, ma_Sha256 = maf_sha256 a, ma_CreatedAt = no_time\<rparr>"

definition messagingArtifactsToMessageArtifacts :: "m_artifact list \<Rightarrow> message_artifact list" where
  "messagingArtifactsToMessageArtifacts artifacts = map message_artifact_of artifacts"

definition messagingUsageToMessageUsage :: "m_usage option \<Rightarrow> message_usage option" where
  "messagingUsageToMessageUsage u =
     map_option (\<lambda>u. \<lparr>mg_InputTokens = mu_input_tokens u, mg_OutputTokens = mu_output_tokens u,
                     mg_TotalTokens = mu_total_tokens u\<rparr>) u"

definition metadata_extra :: "m_run_metadata \<Rightarrow> m_usage option \<Rightarrow> (string \<times> json) list" where
  "metadata_extra md u =
     put ''runtime'' (str_ne (mm_runtime md)) @ put ''work_dir'' (str_ne (mm_work_dir md)) @
     put ''provider_id'' (str_ne (mm_provider_id md)) @ put ''session_id'' (str_ne (mm_session_id md)) @
     put ''phase'' (str_ne (mm_phase md)) @ put ''resume'' (bool_ne (mm_resume md)) @
     put ''tokens'' (case u of Some u \<Rightarrow> if mu_total_tokens u > 0 then [JNum (mu_total_tokens u)] else [] | None \<Rightarrow> [])"

definition completedMetadataToObject :: "m_run_completed option \<Rightarrow> object_metadata option" where
  "completedMetadataToObject completed =
     (case completed of
        None \<Rightarrow> None
      | Some c \<Rightarrow>
          (case mc_metadata c of
             None \<Rightarrow> None
           | Some md \<Rightarrow>
               (let extra = metadata_extra md (mc_usage c)
                in if extra = [] then None else Some (no_metadata\<lparr>om_Extra := Some extra\<rparr>))))"

definition messagingCompletedEvents :: "m_run_completed option \<Rightarrow> m_run_event_record list" where
  "messagingCompletedEvents completed = (case completed of None \<Rightarrow> [] | Some c \<Rightarrow> mc_events c)"

definition messagingCompletedArtifacts :: "m_run_completed option \<Rightarrow> m_artifact list" where
  "messagingCompletedArtifacts completed = (case completed of None \<Rightarrow> [] | Some c \<Rightarrow> mc_artifacts c)"

definition messagingCompletedUsage :: "m_run_completed option \<Rightarrow> m_usage option" where
  "messagingCompletedUsage completed = (case completed of None \<Rightarrow> None | Some c \<Rightarrow> mc_usage c)"

section \<open>Requests to the session service\<close>

definition completed_request_of :: "run_event \<Rightarrow> m_run_completed \<Rightarrow> complete_request" where
  "completed_request_of ev completed =
     \<lparr>cq_SessionID = rt_session_id (env_route ev), cq_Content = ms_message (mc_result completed),
      cq_ReplyToMessageIDs = rb_reply_to (env_body ev), cq_Chunks = messagingEventsToChunks (mc_events completed),
      cq_Artifacts = messagingArtifactsToMessageArtifacts (mc_artifacts completed),
      cq_Metadata = completedMetadataToObject (Some completed),
      cq_Usage = messagingUsageToMessageUsage (mc_usage completed), cq_Seq = rb_seq (env_body ev),
      cq_CreatedAt = env_created_at ev\<rparr>"

definition failed_request_with :: "run_event \<Rightarrow> string \<Rightarrow> string \<Rightarrow> string \<Rightarrow> string \<Rightarrow> failed_request" where
  "failed_request_with ev text' errMsg code status =
     (let completed = rb_run_completed (env_body ev) in
      \<lparr>cq_SessionID = rt_session_id (env_route ev), cq_Content = text',
       cq_ReplyToMessageIDs = rb_reply_to (env_body ev),
       cq_Chunks = messagingEventsToChunks (messagingCompletedEvents completed),
       cq_Artifacts = messagingArtifactsToMessageArtifacts (messagingCompletedArtifacts completed),
       cq_Metadata = completedMetadataToObject completed,
       cq_Usage = messagingUsageToMessageUsage (messagingCompletedUsage completed), cq_Seq = rb_seq (env_body ev),
       cq_CreatedAt = env_created_at ev, fq_ErrorMsg = errMsg, fq_ErrorCode = code, fq_Status = status\<rparr>)"

definition failed_request_of :: "run_event \<Rightarrow> failed_request" where
  "failed_request_of ev =
     (let body = env_body ev; plain = rp_content (rb_payload body);
          (text', errMsg, status) =
            (case rb_run_completed body of
               Some c \<Rightarrow>
                 (if ms_message (mc_result c) \<noteq> [] then
                    (if mc_status c = MessageStatusCancelled
                     then (cancelled_text, ms_message (mc_result c), MessageStatusCancelled)
                     else (ms_message (mc_result c), ms_message (mc_result c), MessageStatusFailed))
                  else (plain, plain, MessageStatusFailed))
             | None \<Rightarrow> (plain, plain, MessageStatusFailed))
      in failed_request_with ev text'
           (case rb_error body of Some e \<Rightarrow> me_message e | None \<Rightarrow> errMsg)
           (case rb_error body of Some e \<Rightarrow> me_code e | None \<Rightarrow> []) status)"

definition cancellationError :: "run_event \<Rightarrow> string" where
  "cancellationError ev =
     (case rb_error (env_body ev) of
        Some e \<Rightarrow> if trim_space (me_message e) \<noteq> [] then me_message e else ''run cancelled''
      | None \<Rightarrow> ''run cancelled'')"

definition cancelled_request_of :: "run_event \<Rightarrow> failed_request" where
  "cancelled_request_of ev =
     failed_request_with ev
       (case rb_run_completed (env_body ev) of
          Some c \<Rightarrow> if ms_message (mc_result c) \<noteq> [] then ms_message (mc_result c) else cancelled_text
        | None \<Rightarrow> cancelled_text)
       (cancellationError ev) [] MessageStatusCancelled"

section \<open>Skills\<close>

record message_resource =
  mr_ResourceID :: string
  mr_ResourceKey :: string
  mr_OrgID :: nat
  mr_Uin :: nat
  mr_SessionID :: nat
  mr_ResourceType :: string
  mr_ResourceName :: string
  mr_InvokeType :: string

definition dec_skill_input :: "obj \<Rightarrow> (string \<times> string) option" where
  "dec_skill_input kvs = do {
     skill \<leftarrow> get_str ''skill'' kvs;
     skill_name \<leftarrow> get_str ''skill_name'' kvs;
     Some (skill, skill_name) }"

definition extractSkillName :: "string \<Rightarrow> raw \<Rightarrow> string" where
  "extractSkillName tool arguments =
     (if tool = [] then []
      else (let name = to_lower (trim_space tool) in
        if name = ''use_skill'' \<or> name = ''invoke_skill'' \<or> name = ''run_skill'' then
          (case unmarshal (dec_struct dec_skill_input) arguments of
             None \<Rightarrow> []
           | Some (skill, skill_name) \<Rightarrow> or_else skill (trim_space skill_name))
        else []))"

text \<open>A record's payload, marshalled and read as a tool call; an empty payload marshals as \<open>null\<close>.\<close>

definition skill_of_record :: "m_run_event_record \<Rightarrow> string option" where
  "skill_of_record evt =
     (if mr_type evt \<noteq> ''tool_call.started'' then None
      else (case (case mr_payload evt of Raw_empty \<Rightarrow> Some JNull | Raw j \<Rightarrow> Some j | Raw_bad _ \<Rightarrow> None) of
          None \<Rightarrow> None
        | Some j \<Rightarrow>
            (case dec_struct dec_e_tool_call j of
               None \<Rightarrow> None
             | Some call \<Rightarrow>
                 (let name = extractSkillName (etc_name call) (etc_arguments call) in if name = [] then None else Some name))))"

definition skill_resource :: "(string \<Rightarrow> (string \<times> nat) option) \<Rightarrow> nat \<Rightarrow> session \<Rightarrow> string \<Rightarrow> message_resource" where
  "skill_resource builtin orgID session skillName =
     (let (skillID, resourceID) = (case builtin skillName of Some (i, pk) \<Rightarrow> (i, show_nat pk) | None \<Rightarrow> (skillName, []))
      in \<lparr>mr_ResourceID = resourceID, mr_ResourceKey = ''Leros:'' @ skillID, mr_OrgID = orgID, mr_Uin = se_Uin session,
          mr_SessionID = se_ID session, mr_ResourceType = ''skill'', mr_ResourceName = skillName,
          mr_InvokeType = ''tool_call''\<rparr>)"

definition recordSkillInvocationsFromMessaging ::
  "(string \<Rightarrow> (string \<times> nat) option) \<Rightarrow> nat \<Rightarrow> string \<Rightarrow> m_run_event_record list \<Rightarrow> store \<Rightarrow> message_resource list" where
  "recordSkillInvocationsFromMessaging builtin orgID sessionID runEvents st =
     (if runEvents = [] then []
      else case GetSessionByPublicID sessionID st of
        None \<Rightarrow> []
      | Some session \<Rightarrow> map (skill_resource builtin orgID session) (uniq_loop skill_of_record [] runEvents))"

section \<open>Handlers\<close>

record server =
  sv_store :: store
  sv_artifacts :: artifact_db
  sv_resources :: "message_resource list"
  sv_streamSeen :: "string list"

record server_env =
  env_builtin :: "string \<Rightarrow> (string \<times> nat) option"
  env_normalizeURI :: "string \<Rightarrow> string"
  env_newID :: string
  env_now :: int

definition handleRunStartedEvent :: "server_env \<Rightarrow> nat option \<Rightarrow> run_event \<Rightarrow> server \<Rightarrow> server" where
  "handleRunStartedEvent en meta ev sv =
     (case meta of
        None \<Rightarrow> sv
      | Some stream \<Rightarrow>
          sv\<lparr>sv_store := snd (HandleSessionRunStarted (env_now en)
             (Some \<lparr>sr_SessionID = rt_session_id (env_route ev), sr_ReplyToMessageIDs = rb_reply_to (env_body ev),
                    sr_RequestID = tx_request_id (env_trace ev), sr_StreamStartSeq = 0, sr_StateStartSeq = stream\<rparr>)
             (sv_store sv))\<rparr>)"

definition legacy_artifact :: "m_artifact \<Rightarrow> e_artifact" where
  "legacy_artifact a =
     \<lparr>eaf_artifact_id = maf_artifact_id a, eaf_title = maf_title a, eaf_filename = maf_filename a,
      eaf_original_name = maf_original_name a, eaf_description = maf_description a, eaf_mime_type = maf_mime_type a,
      eaf_artifact_type = maf_artifact_type a, eaf_file_size = maf_file_size a, eaf_created_at = zero_time_text,
      eaf_relative_path = maf_relative_path a, eaf_storage_key = maf_storage_key a, eaf_storage_uri = maf_storage_uri a,
      eaf_sha256 = maf_sha256 a, eaf_source = maf_source a, eaf_status = maf_status a\<rparr>"

definition handleArtifactDeclaredEvent :: "server_env \<Rightarrow> run_event \<Rightarrow> server \<Rightarrow> server" where
  "handleArtifactDeclaredEvent en ev sv =
     (case rp_artifact (rb_payload (env_body ev)) of
        None \<Rightarrow> sv
      | Some a \<Rightarrow>
          sv\<lparr>sv_artifacts := snd (PersistDeclaredArtifact (env_normalizeURI en) (env_newID en) (env_route ev)
             (legacy_artifact a) (sv_store sv) (sv_artifacts sv))\<rparr>)"

definition handleRunCompletedEvent :: "server_env \<Rightarrow> run_event \<Rightarrow> server \<Rightarrow> server" where
  "handleRunCompletedEvent en ev sv =
     (case rb_run_completed (env_body ev) of
        None \<Rightarrow> sv
      | Some completed \<Rightarrow>
          (let st = snd (CompleteSessionMessage (env_now en) (completed_request_of ev completed) (sv_store sv))
           in sv\<lparr>sv_store := st,
                 sv_resources := sv_resources sv @ recordSkillInvocationsFromMessaging (env_builtin en)
                   (rt_org_id (env_route ev)) (rt_session_id (env_route ev)) (mc_events completed) st\<rparr>))"

definition handleRunFailedEvent :: "server_env \<Rightarrow> run_event \<Rightarrow> server \<Rightarrow> server" where
  "handleRunFailedEvent en ev sv =
     sv\<lparr>sv_store := snd (FailedSessionMessage (env_now en) (failed_request_of ev) (sv_store sv))\<rparr>"

definition handleRunCancelledEvent :: "server_env \<Rightarrow> run_event \<Rightarrow> server \<Rightarrow> server" where
  "handleRunCancelledEvent en ev sv =
     sv\<lparr>sv_store := snd (FailedSessionMessage (env_now en) (cancelled_request_of ev) (sv_store sv))\<rparr>"

definition handleRunStateMessage :: "server_env \<Rightarrow> run_event option \<times> nat option \<Rightarrow> server \<Rightarrow> server" where
  "handleRunStateMessage en msg sv =
     (case fst msg of
        None \<Rightarrow> sv
      | Some ev \<Rightarrow>
          if env_type ev \<noteq> MessageTypeRunEvent then sv
          else if rt_session_id (env_route ev) = [] then sv
          else (let t = rb_event (env_body ev) in
            if t = RunEventRunStarted then handleRunStartedEvent en (snd msg) ev sv
            else if t = RunEventArtifactDeclared then handleArtifactDeclaredEvent en ev sv
            else if t = RunEventRunCompleted then handleRunCompletedEvent en ev sv
            else if t = RunEventRunFailed then handleRunFailedEvent en ev sv
            else if t = RunEventRunCancelled then handleRunCancelledEvent en ev sv
            else sv))"

definition handleRunStreamMessage :: "server_env \<Rightarrow> run_event option \<times> nat option \<Rightarrow> server \<Rightarrow> server" where
  "handleRunStreamMessage en msg sv =
     (case fst msg of
        None \<Rightarrow> sv
      | Some ev \<Rightarrow>
          (let sessionPID = rt_session_id (env_route ev) in
           if env_type ev \<noteq> MessageTypeRunEvent \<or> sessionPID = [] \<or> sessionPID \<in> set (sv_streamSeen sv) then sv
           else (let sv = sv\<lparr>sv_streamSeen := sessionPID # sv_streamSeen sv\<rparr> in
             case snd msg of
               None \<Rightarrow> sv
             | Some stream \<Rightarrow>
                 sv\<lparr>sv_store := snd (SetSessionStreamStartSeq (env_now en) sessionPID stream (sv_store sv))\<rparr>)))"

section \<open>The skills that are recorded\<close>

text \<open>
  which skills a run is recorded to have used. For a completed run of a known session one resource is recorded for each skill that
  its tool calls name, none twice; a call names a skill when the tool is one of three. The tool by which the native runtime invokes a skill is
  called \<open>skill_use\<close> and is not one of them: it is never recorded.
\<close>

theorem recorded_skills:
  assumes "GetSessionByPublicID sessionID st = Some session"
  shows "distinct (map mr_ResourceName (recordSkillInvocationsFromMessaging builtin orgID sessionID evs st)) \<and>
     set (map mr_ResourceName (recordSkillInvocationsFromMessaging builtin orgID sessionID evs st)) =
       {name. \<exists>r \<in> set evs. skill_of_record r = Some name} \<and>
     (mr_type r = ''tool_call.started'' \<and> mr_payload r = Raw j \<and> dec_struct dec_e_tool_call j = Some call \<and> etc_name call = ''skill_use''
        \<longrightarrow> skill_of_record r = None)"
proof -
  have names: "map mr_ResourceName (map (skill_resource builtin orgID session) ns) = ns" for ns
    by (simp add: skill_resource_def comp_def split: option.split) (simp add: map_idI split: option.split)
  have rec: "map mr_ResourceName (recordSkillInvocationsFromMessaging builtin orgID sessionID evs st) = uniq_loop skill_of_record [] evs"
    using assms names by (cases evs) (simp_all add: recordSkillInvocationsFromMessaging_def)
  have "to_lower (trim_space ''skill_use'') = ''skill_use''" by code_simp
  then have "extractSkillName ''skill_use'' args = []" for args by (simp add: extractSkillName_def)
  then have "mr_type r = ''tool_call.started'' \<and> mr_payload r = Raw j \<and> dec_struct dec_e_tool_call j = Some call \<and>
      etc_name call = ''skill_use'' \<longrightarrow> skill_of_record r = None"
    by (simp add: skill_of_record_def)
  then show ?thesis unfolding rec by (simp add: seen_loop)
qed

definition demo_skill_call :: m_run_event_record where
  "demo_skill_call = \<lparr>mr_seq = 1, mr_last_seq = 0, mr_type = ''tool_call.started'', mr_timestamp = 0,
     mr_payload = Raw (JObj [(''name'', JStr ''use_skill''), (''arguments'', JObj [(''skill'', JStr ''go'')])])\<rparr>"

lemma demo_skill_call: "skill_of_record demo_skill_call = Some ''go''"
  by code_simp

lemma recorded_skills_witness:
  "set (map mr_ResourceName (recordSkillInvocationsFromMessaging (\<lambda>_. None) 7 ''s'' [demo_skill_call, demo_skill_call] demo_store)) = {''go''}"
proof -
  have "GetSessionByPublicID ''s'' demo_store = Some demo_session"
    by (simp add: GetSessionByPublicID_def demo_store_def demo_session_def)
  from recorded_skills [OF this, of "\<lambda>_. None" 7 "[demo_skill_call, demo_skill_call]"] show ?thesis
    by (auto simp: demo_skill_call)
qed

end
