(* ===== verification/SeqTracker.thy ===== *)
theory SeqTracker
  imports Prelude
begin

text \<open>
  The delivery tracker (\<open>backend/pkg/seqtracker/tracker.go\<close>): the table \<open>task_seq\<close> as the list of its rows in
  insertion order (the autoincremented id is the position), unique in topic and sequence, and each
  method as the SQL statement it executes. \<open>database/sql\<close> refuses an unsigned argument with the high bit set, so the
  methods fail for sequences from \<open>2 ^ 63\<close> on.

  The interface \<open>SeqTracker\<close> is the locale \<open>seq_tracker\<close>: what the run handler relies on. The table model is its
  interpretation.
\<close>

section \<open>The interface\<close>

datatype seq_status = StatusPending | StatusProcessing | StatusCompleted | StatusFailed

fun terminal :: "seq_status \<Rightarrow> bool" where
  "terminal StatusCompleted = True"
| "terminal StatusFailed = True"
| "terminal _ = False"

datatype tracker_error = High_bit_set

record delivery =
  dl_session_id :: string
  dl_message_id :: string
  dl_task_id :: string
  dl_run_id :: string

text \<open>\<open>status db topic seq\<close> is the status recorded for a delivery; the operations return the database they leave.\<close>

locale seq_tracker =
  fixes ok :: "'db \<Rightarrow> bool"
    and status :: "'db \<Rightarrow> string \<Rightarrow> nat \<Rightarrow> seq_status option"
    and track :: "int \<Rightarrow> string \<Rightarrow> nat \<Rightarrow> delivery \<Rightarrow> 'db \<Rightarrow> 'db"
    and mark :: "int \<Rightarrow> string \<Rightarrow> nat \<Rightarrow> seq_status \<Rightarrow> string \<Rightarrow> 'db \<Rightarrow> 'db"
    and is_terminal :: "'db \<Rightarrow> string \<Rightarrow> nat \<Rightarrow> tracker_error + bool"
    and accepts :: "nat \<Rightarrow> bool"
  assumes ok_track: "ok db \<Longrightarrow> ok (track now t q d db)"
    and ok_mark: "ok db \<Longrightarrow> ok (mark now t q st e db)"
    and status_track: "accepts q \<Longrightarrow> status (track now t q d db) t' q' =
      (if t' = t \<and> q' = q \<and> status db t q = None then Some StatusPending else status db t' q')"
    and status_mark: "accepts q \<Longrightarrow> status (mark now t q st e db) t' q' =
      (if t' = t \<and> q' = q \<and> status db t q \<noteq> None then Some st else status db t' q')"
    and refused: "\<not> accepts q \<Longrightarrow> track now t q d db = db \<and> mark now t q st e db = db"
    and is_terminal_status: "ok db \<Longrightarrow> is_terminal db t q =
      (if accepts q then Inr (\<exists>st. status db t q = Some st \<and> terminal st) else Inl High_bit_set)"
begin

lemma track_keeps: "status db t q = Some st \<Longrightarrow> status (track now t' q' d db) t q = Some st"
  using refused [of q' now t' d db] by (cases "accepts q'") (auto simp: status_track)

lemma tracked: "accepts q \<Longrightarrow> status (track now t q d db) t q \<noteq> None"
  by (simp add: status_track)

lemma marked: "accepts q \<Longrightarrow> status db t q \<noteq> None \<Longrightarrow> status (mark now t q st e db) t q = Some st"
  by (simp add: status_mark)

lemma mark_other: "(t', q') \<noteq> (t, q) \<Longrightarrow> status (mark now t q st e db) t' q' = status db t' q'"
  using refused [of q now t undefined db st e] by (cases "accepts q") (auto simp: status_mark)

lemma track_other: "(t', q') \<noteq> (t, q) \<Longrightarrow> status (track now t q d db) t' q' = status db t' q'"
  using refused [of q now t d db] by (cases "accepts q") (auto simp: status_track)

text \<open>Tracking, processing and settling a delivery leaves it with the final status, whatever was recorded before.\<close>

lemma settled:
  assumes "accepts q"
  shows "status (mark n3 t q st e3 (mark n2 t q StatusProcessing e2 (track n1 t q d db))) t q = Some st"
  using tracked [OF assms] assms by (simp add: marked)

lemma settled_terminal:
  assumes "ok db" "accepts q" "terminal st"
  shows "is_terminal (mark n3 t q st e3 (mark n2 t q StatusProcessing e2 (track n1 t q d db))) t q = Inr True"
  using assms settled [OF assms(2)] by (simp add: is_terminal_status ok_track ok_mark)

end

section \<open>The table\<close>

record seq_row =
  sr_topic :: string
  sr_seq :: nat
  sr_session_id :: string
  sr_status :: seq_status
  sr_message_id :: string
  sr_task_id :: string
  sr_run_id :: string
  sr_error_msg :: string
  sr_created_at :: int
  sr_updated_at :: int

type_synonym seq_db = "seq_row list"

definition high_bit :: "nat \<Rightarrow> bool" where
  "high_bit q \<longleftrightarrow> 2 ^ 63 \<le> int q"

definition at_key :: "string \<Rightarrow> nat \<Rightarrow> seq_row \<Rightarrow> bool" where
  "at_key topic q r \<longleftrightarrow> sr_topic r = topic \<and> sr_seq r = q"

text \<open>\<open>INSERT OR IGNORE\<close> on the unique index \<open>(topic, seq)\<close>.\<close>

definition TrackReceived :: "int \<Rightarrow> string \<Rightarrow> nat \<Rightarrow> delivery \<Rightarrow> seq_db \<Rightarrow> tracker_error option \<times> seq_db" where
  "TrackReceived now topic q d db =
     (if high_bit q then (Some High_bit_set, db)
      else if \<exists>r \<in> set db. at_key topic q r then (None, db)
      else (None, db @ [\<lparr>sr_topic = topic, sr_seq = q, sr_session_id = dl_session_id d, sr_status = StatusPending,
                         sr_message_id = dl_message_id d, sr_task_id = dl_task_id d, sr_run_id = dl_run_id d,
                         sr_error_msg = [], sr_created_at = now, sr_updated_at = now\<rparr>]))"

definition updateStatus ::
  "int \<Rightarrow> string \<Rightarrow> nat \<Rightarrow> seq_status \<Rightarrow> string \<Rightarrow> seq_db \<Rightarrow> tracker_error option \<times> seq_db" where
  "updateStatus now topic q st errMsg db =
     (if high_bit q then (Some High_bit_set, db)
      else (None, map (\<lambda>r. if at_key topic q r
                           then r\<lparr>sr_status := st, sr_error_msg := errMsg, sr_updated_at := now\<rparr> else r) db))"

definition MarkProcessing :: "int \<Rightarrow> string \<Rightarrow> nat \<Rightarrow> seq_db \<Rightarrow> tracker_error option \<times> seq_db" where
  "MarkProcessing now topic q db = updateStatus now topic q StatusProcessing [] db"

definition MarkCompleted :: "int \<Rightarrow> string \<Rightarrow> nat \<Rightarrow> seq_db \<Rightarrow> tracker_error option \<times> seq_db" where
  "MarkCompleted now topic q db = updateStatus now topic q StatusCompleted [] db"

definition MarkFailed :: "int \<Rightarrow> string \<Rightarrow> nat \<Rightarrow> string \<Rightarrow> seq_db \<Rightarrow> tracker_error option \<times> seq_db" where
  "MarkFailed now topic q errMsg db = updateStatus now topic q StatusFailed errMsg db"

definition max_seq :: "nat list \<Rightarrow> nat option" where
  "max_seq qs = (if qs = [] then None else Some (foldr max qs 0))"

text \<open>\<open>SELECT MAX(seq)\<close> is null on no rows, and then 0 is returned.\<close>

definition getLastSeqByStatuses :: "string \<Rightarrow> seq_status list \<Rightarrow> seq_db \<Rightarrow> nat" where
  "getLastSeqByStatuses topic statuses db =
     (if statuses = [] then 0
      else (case max_seq (map sr_seq (filter (\<lambda>r. sr_topic r = topic \<and> sr_status r \<in> set statuses) db)) of
              None \<Rightarrow> 0 | Some q \<Rightarrow> q))"

definition GetLastCompletedSeq :: "string \<Rightarrow> seq_db \<Rightarrow> nat" where
  "GetLastCompletedSeq topic db = getLastSeqByStatuses topic [StatusCompleted] db"

definition GetLastTerminalSeq :: "string \<Rightarrow> seq_db \<Rightarrow> nat" where
  "GetLastTerminalSeq topic db = getLastSeqByStatuses topic [StatusCompleted, StatusFailed] db"

definition hasStatus :: "string \<Rightarrow> nat \<Rightarrow> seq_status list \<Rightarrow> seq_db \<Rightarrow> tracker_error + bool" where
  "hasStatus topic q statuses db =
     (if statuses = [] then Inr False
      else if high_bit q then Inl High_bit_set
      else Inr (0 < length (filter (\<lambda>r. at_key topic q r \<and> sr_status r \<in> set statuses) db)))"

definition IsDuplicate :: "string \<Rightarrow> nat \<Rightarrow> seq_db \<Rightarrow> tracker_error + bool" where
  "IsDuplicate topic q db = hasStatus topic q [StatusCompleted] db"

definition IsTerminal :: "string \<Rightarrow> nat \<Rightarrow> seq_db \<Rightarrow> tracker_error + bool" where
  "IsTerminal topic q db = hasStatus topic q [StatusCompleted, StatusFailed] db"

section \<open>The table as a map\<close>

text \<open>The unique index is an invariant of the insertions.\<close>

definition unique_index :: "seq_db \<Rightarrow> bool" where
  "unique_index db \<longleftrightarrow> distinct (map (\<lambda>r. (sr_topic r, sr_seq r)) db)"

definition row_status :: "seq_db \<Rightarrow> string \<Rightarrow> nat \<Rightarrow> seq_status option" where
  "row_status db topic q = map_option sr_status (find (at_key topic q) db)"

lemma find_append: "find P (xs @ ys) = (case find P xs of None \<Rightarrow> find P ys | Some x \<Rightarrow> Some x)"
  by (induction xs) auto

lemma find_map_keep: "(\<And>x. P (f x) = P x) \<Longrightarrow> find P (map f xs) = map_option f (find P xs)"
  by (induction xs) auto

lemma row_status_simps [simp]:
  "row_status [] t q = None"
  "row_status (r # db) t q = (if at_key t q r then Some (sr_status r) else row_status db t q)"
  by (simp_all add: row_status_def)

lemma row_status_append: "row_status (db @ db') t q = (case row_status db t q of None \<Rightarrow> row_status db' t q | Some st \<Rightarrow> Some st)"
  by (induction db) auto

lemma row_status_None: "row_status db t q = None \<longleftrightarrow> \<not> (\<exists>r \<in> set db. at_key t q r)"
  by (induction db) auto

lemma row_status_track:
  assumes "\<not> high_bit q"
  shows "row_status (snd (TrackReceived now t q d db)) t' q' =
     (if t' = t \<and> q' = q \<and> row_status db t q = None then Some StatusPending else row_status db t' q')"
proof (cases "row_status db t q")
  case None
  then have "\<not> (\<exists>r \<in> set db. at_key t q r)" by (simp add: row_status_None)
  with assms None show ?thesis
    by (auto simp: TrackReceived_def row_status_append at_key_def split: option.split)
next
  case (Some st)
  then have "\<exists>r \<in> set db. at_key t q r" using row_status_None [of db t q] by auto
  with assms Some show ?thesis by (simp add: TrackReceived_def)
qed

lemma row_status_update:
  "\<not> high_bit q \<Longrightarrow> row_status (snd (updateStatus now t q st e db)) t' q' =
     (if t' = t \<and> q' = q \<and> row_status db t q \<noteq> None then Some st else row_status db t' q')"
  by (induction db) (auto simp: updateStatus_def at_key_def)

lemma unique_index_track: "unique_index db \<Longrightarrow> unique_index (snd (TrackReceived now t q d db))"
  by (auto simp: unique_index_def TrackReceived_def at_key_def)

lemma unique_index_update: "unique_index db \<Longrightarrow> unique_index (snd (updateStatus now t q st e db))"
  by (simp add: unique_index_def updateStatus_def o_def if_distrib cong: if_cong)

lemma unique_index_Cons:
  "unique_index (r # db) \<longleftrightarrow> row_status db (sr_topic r) (sr_seq r) = None \<and> unique_index db"
  by (auto simp: unique_index_def row_status_None at_key_def image_iff)

lemma filter_at_key:
  "unique_index db \<Longrightarrow> filter (\<lambda>r. at_key t q r \<and> P (sr_status r)) db \<noteq> [] \<longleftrightarrow> (\<exists>st. row_status db t q = Some st \<and> P st)"
proof (induction db)
  case (Cons r db)
  show ?case
  proof (cases "at_key t q r")
    case True
    then have "row_status db t q = None" using Cons.prems by (simp add: unique_index_Cons at_key_def)
    then have "filter (\<lambda>r. at_key t q r \<and> P (sr_status r)) db = []" by (auto simp: row_status_None filter_empty_conv)
    with True show ?thesis by simp
  next
    case False
    with Cons show ?thesis by (simp add: unique_index_Cons)
  qed
qed simp

lemma hasStatus_row:
  assumes "unique_index db" "sts \<noteq> []" "\<not> high_bit q"
  shows "hasStatus t q sts db = Inr (\<exists>st. row_status db t q = Some st \<and> st \<in> set sts)"
  using assms filter_at_key [OF assms(1), of t q "\<lambda>st. st \<in> set sts"] by (simp add: hasStatus_def)

lemma terminal_iff: "terminal st \<longleftrightarrow> st \<in> set [StatusCompleted, StatusFailed]"
  by (cases st) auto

interpretation sqlite: seq_tracker unique_index row_status
  "\<lambda>now t q d db. snd (TrackReceived now t q d db)" "\<lambda>now t q st e db. snd (updateStatus now t q st e db)"
  "\<lambda>db t q. IsTerminal t q db" "\<lambda>q. \<not> high_bit q"
proof (unfold_locales, goal_cases)
  case (5 q now t d db st e)
  then show ?case by (simp add: TrackReceived_def updateStatus_def)
next
  case (6 db t q)
  then show ?case
    using hasStatus_row [of db "[StatusCompleted, StatusFailed]" q t]
    by (cases "high_bit q") (simp_all add: IsTerminal_def terminal_iff hasStatus_def)
qed (auto simp: row_status_track row_status_update unique_index_track unique_index_update)

section \<open>Properties\<close>

lemma max_seq_spec: "qs \<noteq> [] \<Longrightarrow> \<exists>m. max_seq qs = Some m \<and> m \<in> set qs \<and> (\<forall>q \<in> set qs. q \<le> m)"
proof -
  have "qs \<noteq> [] \<Longrightarrow> foldr max qs 0 \<in> set qs \<and> (\<forall>q \<in> set qs. q \<le> foldr max qs (0 :: nat))"
  proof (induction qs)
    case (Cons q qs)
    then show ?case by (cases "qs = []") (auto simp: max_def)
  qed simp
  then show "qs \<noteq> [] \<Longrightarrow> ?thesis" by (simp add: max_seq_def)
qed

text \<open>the recovery watermark. \<open>GetLastTerminalSeq\<close> is the largest sequence of the topic that is recorded as
  completed or failed, and 0 exactly when no positive one is; it agrees with what \<open>IsTerminal\<close> says of single
  deliveries.\<close>

theorem last_terminal_is_max:
  assumes "unique_index db" "\<forall>r \<in> set db. 0 < sr_seq r \<and> \<not> high_bit (sr_seq r)"
  shows "(GetLastTerminalSeq topic db \<noteq> 0 \<longrightarrow> IsTerminal topic (GetLastTerminalSeq topic db) db = Inr True) \<and>
         (\<forall>q. IsTerminal topic q db = Inr True \<longrightarrow> q \<le> GetLastTerminalSeq topic db)"
proof -
  let ?P = "\<lambda>r. sr_topic r = topic \<and> sr_status r \<in> set [StatusCompleted, StatusFailed]"
  let ?qs = "map sr_seq (filter ?P db)"
  have g: "GetLastTerminalSeq topic db = (case max_seq ?qs of None \<Rightarrow> 0 | Some q \<Rightarrow> q)"
    by (simp add: GetLastTerminalSeq_def getLastSeqByStatuses_def)
  have mem: "q \<in> set ?qs \<longleftrightarrow> IsTerminal topic q db = Inr True" if "\<not> high_bit q" for q
    using that by (auto simp: IsTerminal_def hasStatus_def at_key_def filter_empty_conv)
  have hb: "IsTerminal topic q db = Inr True \<Longrightarrow> \<not> high_bit q" for q
    by (auto simp: IsTerminal_def hasStatus_def split: if_splits)
  show ?thesis
  proof (cases "?qs = []")
    case True
    then have "GetLastTerminalSeq topic db = 0" using g by (simp add: max_seq_def)
    moreover have "IsTerminal topic q db \<noteq> Inr True" for q using True mem hb by fastforce
    ultimately show ?thesis by simp
  next
    case False
    then obtain m where m: "max_seq ?qs = Some m" "m \<in> set ?qs" "\<forall>q \<in> set ?qs. q \<le> m" using max_seq_spec by blast
    then have "GetLastTerminalSeq topic db = m" using g by simp
    moreover have "\<not> high_bit m" using m(2) assms(2) by auto
    ultimately show ?thesis using m mem hb by blast
  qed
qed

definition demo_rows :: seq_db where
  "demo_rows = snd (MarkFailed 9 ''t'' 2 ''boom'' (snd (MarkCompleted 8 ''t'' 1
     (snd (TrackReceived 7 ''t'' 3 \<lparr>dl_session_id = [], dl_message_id = [], dl_task_id = [], dl_run_id = []\<rparr>
     (snd (TrackReceived 7 ''t'' 2 \<lparr>dl_session_id = [], dl_message_id = [], dl_task_id = [], dl_run_id = []\<rparr>
     (snd (TrackReceived 7 ''t'' 1 \<lparr>dl_session_id = [], dl_message_id = [], dl_task_id = [], dl_run_id = []\<rparr> [])))))))))"

theorem last_terminal_is_max_witness:
  "GetLastTerminalSeq ''t'' demo_rows = 2 \<and> IsTerminal ''t'' 2 demo_rows = Inr True \<and> GetLastCompletedSeq ''t'' demo_rows = 1"
proof -
  have "unique_index demo_rows \<and> (\<forall>r \<in> set demo_rows. 0 < sr_seq r \<and> \<not> high_bit (sr_seq r)) \<and>
    GetLastTerminalSeq ''t'' demo_rows = 2 \<and> GetLastCompletedSeq ''t'' demo_rows = 1"
    by code_simp
  with last_terminal_is_max [of demo_rows "''t''"] show ?thesis by simp
qed

text \<open>redelivery never disturbs a record. However many times a delivery is received again, the recorded status of
  every delivery stays as it was, the delivery itself has one row, and the index stays unique.\<close>

theorem redelivery_is_idempotent:
  assumes "unique_index db" "row_status db topic q = Some st"
  shows "row_status (snd (TrackReceived now topic q d db)) t' q' = row_status db t' q' \<and>
         snd (TrackReceived now topic q d db) = db \<and>
         length (filter (at_key topic q) db) = 1"
proof -
  have "\<exists>r \<in> set db. at_key topic q r" using assms(2) row_status_None [of db topic q] by auto
  then have "snd (TrackReceived now topic q d db) = db" by (simp add: TrackReceived_def)
  moreover have "length (filter (at_key topic q) db) = 1"
    using assms
  proof (induction db)
    case (Cons r db)
    show ?case
    proof (cases "at_key topic q r")
      case True
      then have "filter (at_key topic q) db = []"
        using Cons.prems(1) by (auto simp: unique_index_Cons row_status_None filter_empty_conv at_key_def)
      with True show ?thesis by simp
    next
      case False
      with Cons show ?thesis by (simp add: unique_index_Cons)
    qed
  qed simp
  ultimately show ?thesis by simp
qed

theorem redelivery_is_idempotent_witness:
  "snd (TrackReceived 99 ''t'' 2 \<lparr>dl_session_id = ''x'', dl_message_id = [], dl_task_id = [], dl_run_id = []\<rparr> demo_rows) =
     demo_rows \<and> row_status demo_rows ''t'' 2 = Some StatusFailed"
proof -
  have "unique_index demo_rows" "row_status demo_rows ''t'' 2 = Some StatusFailed" by code_simp+
  from redelivery_is_idempotent [OF this] this(2) show ?thesis by blast
qed

end
