(* ===== verification/RunHandler.thy ===== *)
theory RunHandler
  imports Coordinator SeqTracker
begin

text \<open>
  The worker's handler of run and control commands (\<open>backend/internal/worker/command/run/handler.go\<close>). A call of
  \<open>HandleRunCommand\<close> is a function of the configuration, the command, the stream sequence of the delivery (\<open>None\<close> when
  the message has no metadata), the tracker's table (\<open>None\<close> when no tracker is configured) and of what the
  coordinator's \<open>Submit\<close> answers; it returns the error, the submission made, if any, and the table it leaves.
  The errors of the tracker are ignored by the code, and so they are here.

  Lemmas: a settled delivery is never submitted again; a command that is not submitted leaves no trace; what is submitted
  for a command the server built.
\<close>

section \<open>Validation\<close>

record handler_config =
  hc_OrgID :: nat
  hc_WorkerID :: nat

datatype 'e handle_error =
    Decode payload_error
  | Org_mismatch nat nat
  | Worker_mismatch nat nat
  | Unsupported_task_type string
  | Provider_required
  | Model_required
  | APIKey_required
  | Submit_error 'e

definition TaskTypeAgentRun :: string where
  "TaskTypeAgentRun = ''agent.run''"

definition validateRouteTask :: "handler_config \<Rightarrow> run_task \<Rightarrow> 'e handle_error option" where
  "validateRouteTask cfg task =
     (if rt_org_id (rk_Route task) \<noteq> 0 \<and> rt_org_id (rk_Route task) \<noteq> hc_OrgID cfg
      then Some (Org_mismatch (rt_org_id (rk_Route task)) (hc_OrgID cfg))
      else if rt_worker_id (rk_Route task) \<noteq> 0 \<and> rt_worker_id (rk_Route task) \<noteq> hc_WorkerID cfg
      then Some (Worker_mismatch (rt_worker_id (rk_Route task)) (hc_WorkerID cfg))
      else None)"

definition validateModelConfig :: "model_options \<Rightarrow> 'e handle_error option" where
  "validateModelConfig model =
     (if trim_space (mo_provider model) = [] then Some Provider_required
      else if trim_space (mo_model model) = [] then Some Model_required
      else if trim_space (mo_api_key model) = [] then Some APIKey_required
      else None)"

definition replyToMessageIDs :: "chat_message list \<Rightarrow> string slice" where
  "replyToMessageIDs messages = Some (uniq_loop (\<lambda>m. trim_id (cm_id m)) [] messages)"

definition RunSubject :: "handler_config \<Rightarrow> string" where
  "RunSubject cfg =
     (case WorkerCommandSubject (hc_OrgID cfg) (hc_WorkerID cfg) LaneRun of Inl _ \<Rightarrow> [] | Inr topic \<Rightarrow> topic)"

section \<open>Run commands\<close>

definition task_of :: "worker_command \<Rightarrow> run_command_payload \<Rightarrow> run_task" where
  "task_of cmd payload =
     \<lparr>rk_ID = env_id cmd, rk_CreatedAt = env_created_at cmd, rk_Trace = env_trace cmd, rk_Route = env_route cmd,
      rk_DeliverySeqs = None, rk_TaskType = rc_task_type payload, rk_ExecutionMode = rc_execution_mode payload,
      rk_Actor = rc_actor payload, rk_Execution = rc_execution payload, rk_Workspace = rc_workspace payload,
      rk_Input = rc_input payload, rk_Model = rc_model payload, rk_Runtime = rc_runtime payload,
      rk_Policy = rc_policy payload\<rparr>"

definition submission_of :: "run_task \<Rightarrow> run_submission" where
  "submission_of task =
     \<lparr>sb_Request = Some (RequestFromWorkerTask task),
      sb_EventContext =
        \<lparr>ec_OrgID = rt_org_id (rk_Route task), ec_WorkerID = rt_worker_id (rk_Route task),
         ec_SessionID = rt_session_id (rk_Route task), ec_TraceID = tx_trace_id (rk_Trace task),
         ec_RequestID = tx_request_id (rk_Trace task), ec_TaskID = tx_task_id (rk_Trace task),
         ec_RunID = tx_run_id (rk_Trace task), ec_ParentID = tx_parent_id (rk_Trace task),
         ec_ReplyToMessageIDs = replyToMessageIDs (ti_messages (rk_Input task))\<rparr>,
      sb_DeliverySeqs = rk_DeliverySeqs task, sb_waiterIDs = None\<rparr>"

record clock =
  at_received :: int
  at_processing :: int
  at_settled :: int

record 'e handle_result =
  hr_err :: "'e handle_error option"
  hr_submitted :: "run_submission option"
  hr_db :: "seq_db option"

definition mark_all ::
  "(nat \<Rightarrow> seq_db \<Rightarrow> tracker_error option \<times> seq_db) \<Rightarrow> nat list \<Rightarrow> seq_db option \<Rightarrow> seq_db option" where
  "mark_all mark seqs db = fold (\<lambda>q. map_option (\<lambda>d. snd (mark q d))) seqs db"

text \<open>What follows the validation.\<close>

definition run_task_tracked ::
  "handler_config \<Rightarrow> ('e \<Rightarrow> string) \<Rightarrow> (run_submission \<Rightarrow> 'e option) \<Rightarrow> clock \<Rightarrow> run_task \<Rightarrow> nat option \<Rightarrow> seq_db option \<Rightarrow>
   'e handle_result" where
  "run_task_tracked cfg errText submit now task metadata db =
     (let seq = (case metadata of None \<Rightarrow> 0 | Some q \<Rightarrow> q);
          topic = RunSubject cfg
      in if (case db of Some d \<Rightarrow> IsTerminal topic seq d = Inr True | None \<Rightarrow> False)
         then \<lparr>hr_err = None, hr_submitted = None, hr_db = db\<rparr>
         else
           (let db1 = map_option (\<lambda>d. snd (TrackReceived (at_received now) topic seq
                  \<lparr>dl_session_id = rt_session_id (rk_Route task), dl_message_id = rk_ID task,
                   dl_task_id = tx_task_id (rk_Trace task), dl_run_id = tx_run_id (rk_Trace task)\<rparr> d)) db;
                task = (if seq \<noteq> 0 then task\<lparr>rk_DeliverySeqs := Some [seq]\<rparr> else task);
                seqs = elems (rk_DeliverySeqs task);
                db2 = mark_all (MarkProcessing (at_processing now) topic) seqs db1;
                execErr = submit (submission_of task);
                db3 = (case execErr of
                         Some e \<Rightarrow> mark_all (\<lambda>q. MarkFailed (at_settled now) topic q (errText e)) seqs db2
                       | None \<Rightarrow> mark_all (MarkCompleted (at_settled now) topic) seqs db2)
            in \<lparr>hr_err = map_option Submit_error execErr, hr_submitted = Some (submission_of task), hr_db = db3\<rparr>))"

definition HandleRunCommand ::
  "handler_config \<Rightarrow> ('e \<Rightarrow> string) \<Rightarrow> (run_submission \<Rightarrow> 'e option) \<Rightarrow> clock \<Rightarrow> worker_command \<Rightarrow> nat option \<Rightarrow> seq_db option \<Rightarrow>
   'e handle_result" where
  "HandleRunCommand cfg errText submit now cmd metadata db =
     (let refuse = (\<lambda>e. \<lparr>hr_err = Some e, hr_submitted = None, hr_db = db\<rparr>)
      in case DecodeCommandPayload (dec_struct dec_run_command_payload) (Some (env_body cmd)) of
        Inl e \<Rightarrow> refuse (Decode e)
      | Inr payload \<Rightarrow>
          (let task = task_of cmd payload in
           case validateRouteTask cfg task of
             Some e \<Rightarrow> refuse e
           | None \<Rightarrow>
               if rk_TaskType task \<noteq> TaskTypeAgentRun then refuse (Unsupported_task_type (rk_TaskType task))
               else (case validateModelConfig (rk_Model task) of
                       Some e \<Rightarrow> refuse e
                     | None \<Rightarrow> run_task_tracked cfg errText submit now task metadata db)))"

section \<open>Control commands\<close>

text \<open>The cancel function called, if any.\<close>

definition HandleControlCommand :: "coordinator \<Rightarrow> worker_command \<Rightarrow> payload_error + nat option" where
  "HandleControlCommand c cmd =
     (if wb_command_type (env_body cmd) = CommandTypeCancel
      then (case DecodeCommandPayload (dec_struct dec_cancel_run_payload) (Some (env_body cmd)) of
              Inl e \<Rightarrow> Inl e
            | Inr payload \<Rightarrow>
                Inr (Cancel c (rt_org_id (env_route cmd)) (rt_worker_id (env_route cmd))
                       (rt_session_id (env_route cmd)) (cr_run_id payload)))
      else Inr None)"

section \<open>Lemmas\<close>

lemma mark_all_one [simp]: "mark_all mark [q] db = map_option (\<lambda>d. snd (mark q d)) db"
  by (simp add: mark_all_def)

lemma tracked_skip:
  "IsTerminal (RunSubject cfg) q db = Inr True \<Longrightarrow>
   run_task_tracked cfg errText submit now task (Some q) (Some db) = \<lparr>hr_err = None, hr_submitted = None, hr_db = Some db\<rparr>"
  by (simp add: run_task_tracked_def)

lemma tracked_submits:
  assumes "hr_submitted (run_task_tracked cfg errText submit now task (Some q) (Some db)) \<noteq> None" "q \<noteq> 0"
  defines "err \<equiv> submit (submission_of (task\<lparr>rk_DeliverySeqs := Some [q]\<rparr>))"
  shows "run_task_tracked cfg errText submit now task (Some q) (Some db) =
     \<lparr>hr_err = map_option Submit_error err, hr_submitted = Some (submission_of (task\<lparr>rk_DeliverySeqs := Some [q]\<rparr>)),
      hr_db = Some (snd (updateStatus (at_settled now) (RunSubject cfg) q
         (case err of None \<Rightarrow> StatusCompleted | Some _ \<Rightarrow> StatusFailed) (case err of None \<Rightarrow> [] | Some e \<Rightarrow> errText e)
         (snd (updateStatus (at_processing now) (RunSubject cfg) q StatusProcessing []
           (snd (TrackReceived (at_received now) (RunSubject cfg) q
             \<lparr>dl_session_id = rt_session_id (rk_Route task), dl_message_id = rk_ID task,
              dl_task_id = tx_task_id (rk_Trace task), dl_run_id = tx_run_id (rk_Trace task)\<rparr> db))))))\<rparr>"
proof -
  have "IsTerminal (RunSubject cfg) q db \<noteq> Inr True" using assms(1) by (auto simp: tracked_skip)
  with assms(2) show ?thesis
    unfolding err_def
    by (cases "submit (submission_of (task\<lparr>rk_DeliverySeqs := Some [q]\<rparr>))")
       (simp_all add: run_task_tracked_def Let_def MarkProcessing_def MarkCompleted_def MarkFailed_def)
qed

lemma handle_cases:
  "(\<exists>e. HandleRunCommand cfg errText submit now cmd metadata db = \<lparr>hr_err = Some e, hr_submitted = None, hr_db = db\<rparr>) \<or>
   (\<exists>task. HandleRunCommand cfg errText submit now cmd metadata db =
      run_task_tracked cfg errText submit now task metadata db)"
proof (cases "DecodeCommandPayload (dec_struct dec_run_command_payload) (Some (env_body cmd))")
  case (Inr payload)
  show ?thesis
  proof (cases "validateRouteTask cfg (task_of cmd payload) :: 'a handle_error option")
    case None
    then show ?thesis
      by (cases "validateModelConfig (rk_Model (task_of cmd payload)) :: 'a handle_error option")
         (auto simp: HandleRunCommand_def Let_def Inr)
  qed (simp add: HandleRunCommand_def Let_def Inr)
qed (simp add: HandleRunCommand_def Let_def)

section \<open>Properties\<close>

text \<open>C5: a settled delivery is never run again. Once \<open>HandleRunCommand\<close> has submitted the command of a delivery and
  returned, with whatever answer, the delivery is recorded completed exactly if the answer was no error, failed
  otherwise; and any later delivery with the same stream sequence, be it of the same command or another, submits
  nothing and leaves the table as it is.\<close>

theorem settled_delivery_not_rerun:
  assumes "unique_index db" "q \<noteq> 0" "\<not> high_bit q"
    and r1: "r = HandleRunCommand cfg errText submit now cmd (Some q) (Some db)" "hr_submitted r \<noteq> None"
  shows "(\<exists>db'. hr_db r = Some db' \<and> unique_index db' \<and>
            row_status db' (RunSubject cfg) q = Some (if hr_err r = None then StatusCompleted else StatusFailed)) \<and>
         hr_submitted (HandleRunCommand cfg errText' submit' now' cmd' (Some q) (hr_db r)) = None \<and>
         hr_db (HandleRunCommand cfg errText' submit' now' cmd' (Some q) (hr_db r)) = hr_db r"
proof -
  let ?t = "RunSubject cfg"
  obtain task where r: "r = run_task_tracked cfg errText submit now task (Some q) (Some db)"
    using handle_cases [of cfg errText submit now cmd "Some q" "Some db"] r1 by auto
  let ?err = "submit (submission_of (task\<lparr>rk_DeliverySeqs := Some [q]\<rparr>))"
  let ?st = "case ?err of None \<Rightarrow> StatusCompleted | Some _ \<Rightarrow> StatusFailed"
  obtain d e where db': "hr_db r = Some (snd (updateStatus (at_settled now) ?t q ?st e
      (snd (updateStatus (at_processing now) ?t q StatusProcessing [] (snd (TrackReceived (at_received now) ?t q d db))))))"
    and err: "hr_err r = map_option Submit_error ?err"
    using tracked_submits [of cfg errText submit now task q db] r r1(2) assms(2) by simp
  let ?db = "the (hr_db r)"
  have row: "row_status ?db ?t q = Some ?st"
    using sqlite.settled [of q _ ?t ?st e _ "[]" _ d db] assms(3) db' by simp
  have uq: "unique_index ?db" using assms(1) db' by (simp add: unique_index_update unique_index_track)
  have tm: "terminal ?st" by (simp split: option.split)
  have fin: "IsTerminal ?t q ?db = Inr True"
    using sqlite.is_terminal_status [OF uq] assms(3) row tm by simp
  have again: "hr_submitted (HandleRunCommand cfg errText' submit' now' cmd' (Some q) (Some ?db)) = None \<and>
      hr_db (HandleRunCommand cfg errText' submit' now' cmd' (Some q) (Some ?db)) = Some ?db"
    using handle_cases [of cfg errText' submit' now' cmd' "Some q" "Some ?db"] tracked_skip [OF fin, of errText' submit' now']
    by auto
  have "?st = (if hr_err r = None then StatusCompleted else StatusFailed)" using err by (simp split: option.split)
  with again uq row db' show ?thesis by simp
qed

definition demo_payload :: run_command_payload where
  "demo_payload = \<lparr>rc_task_type = ''agent.run'', rc_execution_mode = [],
     rc_actor = \<lparr>ac_user_id = ''u'', ac_display_name = [], ac_channel = [], ac_external_id = [], ac_account_id = []\<rparr>,
     rc_execution = \<lparr>et_assistant_id = [], et_skills = [''go''], et_tools = []\<rparr>,
     rc_workspace = \<lparr>wo_project_id = [], wo_task_id = []\<rparr>,
     rc_input = \<lparr>ti_type = ''message'', ti_messages = [\<lparr>cm_id = ''7'', cm_role = ''user'', cm_content = ''hi''\<rparr>],
       ti_attachments = []\<rparr>,
     rc_model = \<lparr>mo_provider = ''p'', mo_model = ''m'', mo_base_url = [], mo_base_url_has_v1 = False, mo_api_key = ''k''\<rparr>,
     rc_runtime = \<lparr>ro_kind = [], ro_work_dir = [], ro_max_step = 5\<rparr>,
     rc_policy = \<lparr>tp_require_approval = False, tp_permission_mode = []\<rparr>\<rparr>"

definition demo_command :: worker_command where
  "demo_command = NewRunCommand 0 ''m1'' \<lparr>rt_org_id = 1, rt_session_id = ''s'', rt_worker_id = 2\<rparr> no_trace demo_payload None"

definition demo_config :: handler_config where
  "demo_config = \<lparr>hc_OrgID = 1, hc_WorkerID = 2\<rparr>"

lemma handle_built:
  assumes "int64_range (ro_max_step (rc_runtime p))" "rc_task_type p = TaskTypeAgentRun"
    "rt_org_id route \<in> {0, hc_OrgID cfg}" "rt_worker_id route \<in> {0, hc_WorkerID cfg}"
    "trim_space (mo_provider (rc_model p)) \<noteq> []" "trim_space (mo_model (rc_model p)) \<noteq> []"
    "trim_space (mo_api_key (rc_model p)) \<noteq> []"
  shows "HandleRunCommand cfg errText submit now (NewRunCommand t mid route trace p md) metadata db =
    run_task_tracked cfg errText submit now (task_of (NewRunCommand t mid route trace p md) p) metadata db"
proof -
  have "wf_run_command_payload p" using assms(1) by (simp add: wf_run_command_payload_def wf_runtime_options_def)
  then have "DecodeCommandPayload (dec_struct dec_run_command_payload) (Some (env_body (NewRunCommand t mid route trace p md))) = Inr p"
    by (simp add: command_builders run_codec.decode_built)
  moreover have "env_route (NewRunCommand t mid route trace p md) = route" by (simp add: NewRunCommand_def)
  ultimately show ?thesis
    using assms(2-7) by (auto simp: HandleRunCommand_def Let_def task_of_def validateRouteTask_def validateModelConfig_def)
qed

lemma demo_handled:
  "HandleRunCommand demo_config id (\<lambda>_. None) \<lparr>at_received = 1, at_processing = 2, at_settled = 3\<rparr> demo_command (Some 5) (Some []) =
   run_task_tracked demo_config id (\<lambda>_. None) \<lparr>at_received = 1, at_processing = 2, at_settled = 3\<rparr>
     (task_of demo_command demo_payload) (Some 5) (Some [])"
proof -
  have "trim_space ''p'' \<noteq> []" "trim_space ''m'' \<noteq> []" "trim_space ''k'' \<noteq> []" by code_simp+
  then show ?thesis
    unfolding demo_command_def
    by (intro handle_built) (simp_all add: demo_payload_def int64_range_def TaskTypeAgentRun_def demo_config_def)
qed

theorem settled_delivery_not_rerun_witness:
  "\<exists>db'. hr_submitted (HandleRunCommand demo_config id (\<lambda>_. Some ''again'') \<lparr>at_received = 7, at_processing = 8, at_settled = 9\<rparr>
      demo_command (Some 5) (Some db')) = None \<and> row_status db' (RunSubject demo_config) 5 = Some StatusCompleted"
proof -
  let ?r = "HandleRunCommand demo_config id (\<lambda>_. None) \<lparr>at_received = 1, at_processing = 2, at_settled = 3\<rparr> demo_command (Some 5) (Some [])"
  have r: "hr_submitted ?r \<noteq> None" "hr_err ?r = None"
    unfolding demo_handled by (simp_all add: run_task_tracked_def Let_def IsTerminal_def hasStatus_def high_bit_def)
  have "unique_index []" by (simp add: unique_index_def)
  from settled_delivery_not_rerun [OF this _ _ refl r(1)] r(2) show ?thesis by (force simp: high_bit_def)
qed

text \<open>refusing a command leaves no trace. If \<open>HandleRunCommand\<close> submits nothing, the tracker's table is
  untouched; it then reports an error, except for a delivery that is already settled. In particular a command of another
  organisation or worker, of another task type, or without provider, model or key is refused.\<close>

theorem refused_command_leaves_no_trace:
  assumes "hr_submitted (HandleRunCommand cfg errText submit now cmd metadata db) = None"
  shows "hr_db (HandleRunCommand cfg errText submit now cmd metadata db) = db \<and>
    (hr_err (HandleRunCommand cfg errText submit now cmd metadata db) = None \<longrightarrow>
       (\<exists>d. db = Some d \<and> IsTerminal (RunSubject cfg) (case metadata of None \<Rightarrow> 0 | Some q \<Rightarrow> q) d = Inr True))"
  using handle_cases [of cfg errText submit now cmd metadata db] assms
  by (auto simp: run_task_tracked_def Let_def split: if_splits option.splits)

theorem refused_command_leaves_no_trace_witness:
  "hr_db (HandleRunCommand \<lparr>hc_OrgID = 9, hc_WorkerID = 2\<rparr> id (\<lambda>_. None) \<lparr>at_received = 1, at_processing = 2, at_settled = 3\<rparr>
     demo_command (Some 5) (Some [])) = Some []"
proof -
  have "wf_run_command_payload demo_payload"
    by (simp add: wf_run_command_payload_def wf_runtime_options_def demo_payload_def int64_range_def)
  then have "DecodeCommandPayload (dec_struct dec_run_command_payload) (Some (env_body demo_command)) = Inr demo_payload"
    unfolding demo_command_def by (simp add: command_builders run_codec.decode_built)
  then have "hr_submitted (HandleRunCommand \<lparr>hc_OrgID = 9, hc_WorkerID = 2\<rparr> id (\<lambda>_. None)
     \<lparr>at_received = 1, at_processing = 2, at_settled = 3\<rparr> demo_command (Some 5) (Some [])) = None"
    by (simp add: HandleRunCommand_def Let_def validateRouteTask_def task_of_def demo_command_def NewRunCommand_def)
  from refused_command_leaves_no_trace [OF this] show ?thesis by blast
qed

text \<open>from the server to the coordinator. For a well-formed run command that the server built for this worker,
  delivered with a sequence that is not settled, the coordinator is given exactly one submission: its messages and
  attachments are the server's, one for one and in order, it carries the delivery's sequence, the reply
  targets are the distinct non-blank message ids, and the coordinator's answer is the handler's.\<close>

theorem built_command_is_submitted:
  assumes "int64_range (ro_max_step (rc_runtime p))" "rc_task_type p = TaskTypeAgentRun"
    "rt_org_id route \<in> {0, hc_OrgID cfg}" "rt_worker_id route \<in> {0, hc_WorkerID cfg}"
    "trim_space (mo_provider (rc_model p)) \<noteq> []" "trim_space (mo_model (rc_model p)) \<noteq> []"
    "trim_space (mo_api_key (rc_model p)) \<noteq> []" "q \<noteq> 0" "IsTerminal (RunSubject cfg) q db \<noteq> Inr True"
  shows "\<exists>sub rq. hr_submitted (HandleRunCommand cfg errText submit now (NewRunCommand t mid route trace p md) (Some q) (Some db)) = Some sub \<and>
     hr_err (HandleRunCommand cfg errText submit now (NewRunCommand t mid route trace p md) (Some q) (Some db)) =
       map_option Submit_error (submit sub) \<and>
     sb_DeliverySeqs sub = Some [q] \<and> waiters sub = [] \<and> sb_Request sub = Some rq \<and>
     input_messages sub = map (\<lambda>m. \<lparr>dm_Role = cm_role m, dm_Content = cm_content m\<rparr>) (ti_messages (rc_input p)) \<and>
     elems (di_Attachments (rq_Input rq)) =
       map (\<lambda>a. \<lparr>dt_ID = at_id a, dt_Name = at_name a, dt_MimeType = at_mime_type a, dt_URL = at_url a\<rparr>)
         (ti_attachments (rc_input p)) \<and>
     distinct (elems (ec_ReplyToMessageIDs (sb_EventContext sub))) \<and>
     set (elems (ec_ReplyToMessageIDs (sb_EventContext sub))) =
       {trim_space (cm_id m) | m. m \<in> set (ti_messages (rc_input p)) \<and> trim_space (cm_id m) \<noteq> []}"
proof -
  let ?cmd = "NewRunCommand t mid route trace p md"
  let ?task = "(task_of ?cmd p)\<lparr>rk_DeliverySeqs := Some [q]\<rparr>"
  let ?r = "run_task_tracked cfg errText submit now (task_of ?cmd p) (Some q) (Some db)"
  have "hr_submitted ?r = Some (submission_of ?task)" "hr_err ?r = map_option Submit_error (submit (submission_of ?task))"
    using assms(8,9) by (simp_all add: run_task_tracked_def Let_def)
  moreover have "set (elems (replyToMessageIDs ms)) = {trim_space (cm_id m) | m. m \<in> set ms \<and> trim_space (cm_id m) \<noteq> []}" for ms
    by (auto simp: replyToMessageIDs_def set_uniq_loop trim_id_Some)
  moreover have "distinct (elems (replyToMessageIDs ms))" for ms
    by (simp add: replyToMessageIDs_def distinct_uniq_loop)
  ultimately show ?thesis
    unfolding handle_built [OF assms(1-7)]
    by (simp add: submission_of_def input_messages_def waiters_def RequestFromWorkerTask_def inputMessagesFromTask_def
        attachmentsFromTask_def task_of_def)
qed

theorem built_command_is_submitted_witness:
  "\<exists>sub. hr_submitted (HandleRunCommand demo_config id (\<lambda>_. None) \<lparr>at_received = 1, at_processing = 2, at_settled = 3\<rparr>
      demo_command (Some 5) (Some [])) = Some sub \<and> input_messages sub = [\<lparr>dm_Role = ''user'', dm_Content = ''hi''\<rparr>]"
proof -
  have t: "trim_space ''p'' \<noteq> []" "trim_space ''m'' \<noteq> []" "trim_space ''k'' \<noteq> []" by code_simp+
  have "\<exists>sub rq. hr_submitted (HandleRunCommand demo_config id (\<lambda>_. None)
      \<lparr>at_received = 1, at_processing = 2, at_settled = 3\<rparr> demo_command (Some 5) (Some [])) = Some sub \<and>
      hr_err (HandleRunCommand demo_config id (\<lambda>_. None)
      \<lparr>at_received = 1, at_processing = 2, at_settled = 3\<rparr> demo_command (Some 5) (Some [])) = map_option Submit_error None \<and>
      sb_DeliverySeqs sub = Some [5] \<and> waiters sub = [] \<and> sb_Request sub = Some rq \<and>
      input_messages sub = map (\<lambda>m. \<lparr>dm_Role = cm_role m, dm_Content = cm_content m\<rparr>) (ti_messages (rc_input demo_payload)) \<and>
      elems (di_Attachments (rq_Input rq)) =
       map (\<lambda>a. \<lparr>dt_ID = at_id a, dt_Name = at_name a, dt_MimeType = at_mime_type a, dt_URL = at_url a\<rparr>)
         (ti_attachments (rc_input demo_payload)) \<and>
      distinct (elems (ec_ReplyToMessageIDs (sb_EventContext sub))) \<and>
      set (elems (ec_ReplyToMessageIDs (sb_EventContext sub))) =
       {trim_space (cm_id m) | m. m \<in> set (ti_messages (rc_input demo_payload)) \<and> trim_space (cm_id m) \<noteq> []}"
    unfolding demo_command_def
    by (rule built_command_is_submitted)
       (use t in \<open>simp_all add: demo_payload_def demo_config_def int64_range_def TaskTypeAgentRun_def IsTerminal_def hasStatus_def high_bit_def\<close>)
  then show ?thesis by (auto simp: demo_payload_def)
qed

text \<open>a cancel command built by the server cancels what the coordinator would cancel for its route and run id, and a
  control command of any other type cancels nothing.\<close>

theorem cancel_command_handled:
  "HandleControlCommand c (NewCancelRunCommand t mid route p runID) =
     Inr (Cancel c (rt_org_id route) (rt_worker_id route) (rt_session_id route) (cr_run_id p)) \<and>
   (wb_command_type (env_body cmd) = CommandTypeCancel \<or> HandleControlCommand c cmd = Inr None)"
  by (simp add: HandleControlCommand_def command_builders cancel_codec.decode_built)

end
