(* ===== verification/Poster.thy ===== *)
theory Poster
  imports RunState RunHandler
begin

text \<open>
  Posting a user's message (\<open>AddMessage\<close>'s \<open>buildMessage\<close> of \<open>backend/internal/service/session_service.go\<close> and
  \<open>PostMessage\<close> of \<open>backend/internal/service/message_poster.go\<close>): the message becomes a row, and a run command for the worker that is
  allocated to the session. The bus, the model catalogue, the tables of projects and tasks and the inference of a worker are
  parameters (\<open>post_env\<close>). The title generation that \<open>PostMessage\<close> starts in the background, and the records of skill tokens
  in the text, do not touch what is modelled here and are left out.

  Lemmas: what a posted message leaves in the tables and on the bus; what the worker makes of the command.
\<close>

section \<open>The row\<close>

record add_message_request =
  am_Role :: string
  am_Content :: string
  am_ExecutionMode :: string
  am_MessageType :: string
  am_Chunks :: "message_chunk list"
  am_Attachments :: "message_attachment list"
  am_Metadata :: "object_metadata option"
  am_Usage :: "message_usage option"

definition buildMessage :: "int \<Rightarrow> add_message_request \<Rightarrow> int \<Rightarrow> session_message" where
  "buildMessage now req sequence =
     \<lparr>sm_ID = 0, sm_CreatedAt = 0, sm_UpdatedAt = 0, sm_DeletedAt = None, sm_SessionID = 0, sm_Role = am_Role req,
      sm_Content = am_Content req, sm_ErrorMsg = [],
      sm_MessageType = (if am_MessageType req = [] then MessageTypeText else am_MessageType req),
      sm_Status = MessageStatusPending, sm_Chunks = am_Chunks req, sm_Artifacts = [], sm_Attachments = am_Attachments req,
      sm_Metadata = (case am_Metadata req of None \<Rightarrow> no_metadata | Some md \<Rightarrow> md),
      sm_Usage = (case am_Usage req of None \<Rightarrow> no_usage | Some u \<Rightarrow> u), sm_Sequence = sequence,
      sm_Timestamp = now div 1000000\<rparr>"

section \<open>The command\<close>

record llm_model =
  lm_Provider :: string
  lm_ModelName :: string
  lm_BaseURL :: string
  lm_BaseURLHasV1 :: bool
  lm_APIKeyEncrypted :: string

datatype post_error =
    Bad_command_topic subject_error
  | Project_unresolved nat
  | Task_unresolved nat
  | Model_not_found
  | Model_incomplete
  | Command_not_published string

record post_env =
  pe_publish :: "string \<Rightarrow> worker_command \<Rightarrow> string option"
  pe_inferrer :: "(nat \<Rightarrow> string \<Rightarrow> nat) option"
  pe_model :: "nat \<Rightarrow> llm_model option"
  pe_project :: "nat \<Rightarrow> string option"
  pe_task :: "nat \<Rightarrow> string option"
  pe_callerOrg :: "nat option"
  pe_now :: int

definition normalizeExecutionMode :: "string \<Rightarrow> string" where
  "normalizeExecutionMode mode = (if mode = ''plan'' then ''plan'' else ''default'')"

definition convertMessageToMessagingAttachments :: "message_attachment list \<Rightarrow> attachment list" where
  "convertMessageToMessagingAttachments as =
     map (\<lambda>a. \<lparr>at_id = mt_FileUploadID a, at_name = mt_Name a, at_mime_type = mt_MimeType a, at_url = mt_PublicURL a\<rparr>) as"

definition resolveWorkerTaskModel :: "post_env \<Rightarrow> nat \<Rightarrow> post_error + model_options" where
  "resolveWorkerTaskModel pe orgID =
     (case pe_model pe orgID of
        None \<Rightarrow> Inl Model_not_found
      | Some model \<Rightarrow>
          if trim_space (lm_Provider model) = [] \<or> trim_space (lm_ModelName model) = [] \<or> trim_space (lm_APIKeyEncrypted model) = []
          then Inl Model_incomplete
          else Inr \<lparr>mo_provider = lm_Provider model, mo_model = lm_ModelName model, mo_base_url = lm_BaseURL model,
                    mo_base_url_has_v1 = lm_BaseURLHasV1 model, mo_api_key = lm_APIKeyEncrypted model\<rparr>)"

definition resolveWorkspaceIDs :: "post_env \<Rightarrow> session \<Rightarrow> post_error + (string \<times> string)" where
  "resolveWorkspaceIDs pe session =
     (case (case se_ProjectID session of
              Some p \<Rightarrow> if p > 0 then (case pe_project pe p of Some x \<Rightarrow> Inr x | None \<Rightarrow> Inl (Project_unresolved p)) else Inr []
            | None \<Rightarrow> Inr []) of
        Inl e \<Rightarrow> Inl e
      | Inr project \<Rightarrow>
          (case (case se_TaskID session of
                   Some t \<Rightarrow> if t > 0 then (case pe_task pe t of Some x \<Rightarrow> Inr x | None \<Rightarrow> Inl (Task_unresolved t)) else Inr []
                 | None \<Rightarrow> Inr []) of
             Inl e \<Rightarrow> Inl e
           | Inr task \<Rightarrow> Inr (project, task)))"

definition request_id_of :: "session_message \<Rightarrow> string" where
  "request_id_of message = ''req_'' @ show_nat (sm_ID message)"

definition run_payload_of ::
  "session \<Rightarrow> session_message \<Rightarrow> string \<Rightarrow> string \<Rightarrow> string \<Rightarrow> model_options \<Rightarrow> run_command_payload" where
  "run_payload_of session message mode projectPublicID taskPublicID model =
     \<lparr>rc_task_type = TaskTypeAgentRun, rc_execution_mode = normalizeExecutionMode mode,
      rc_actor = \<lparr>ac_user_id = show_nat (se_Uin session), ac_display_name = [], ac_channel = ''session'',
                  ac_external_id = [], ac_account_id = []\<rparr>,
      rc_execution = \<lparr>et_assistant_id = [], et_skills = [], et_tools = []\<rparr>,
      rc_workspace = \<lparr>wo_project_id = projectPublicID, wo_task_id = taskPublicID\<rparr>,
      rc_input = \<lparr>ti_type = ''message'',
                  ti_messages = [\<lparr>cm_id = show_nat (sm_ID message), cm_role = MessageRoleUser, cm_content = sm_Content message\<rparr>],
                  ti_attachments = convertMessageToMessagingAttachments (sm_Attachments message)\<rparr>,
      rc_model = model, rc_runtime = \<lparr>ro_kind = [], ro_work_dir = [], ro_max_step = 0\<rparr>,
      rc_policy = \<lparr>tp_require_approval = False, tp_permission_mode = []\<rparr>\<rparr>"

definition run_command_of ::
  "int \<Rightarrow> nat \<Rightarrow> session \<Rightarrow> session_message \<Rightarrow> string \<Rightarrow> string \<Rightarrow> string \<Rightarrow> model_options \<Rightarrow> worker_command" where
  "run_command_of now orgID session message mode projectPublicID task model =
     (let taskPublicID = (if task = [] then ''task_'' @ show_nat (sm_ID message) else task);
          requestID = request_id_of message
      in NewRunCommand now (''msg_'' @ show_nat (se_ID session) @ ''_'' @ show_int (sm_Sequence message))
           \<lparr>rt_org_id = orgID, rt_session_id = se_PublicID session, rt_worker_id = se_AllocatedAssistantID session\<rparr>
           \<lparr>tx_trace_id = se_PublicID session, tx_request_id = requestID, tx_task_id = taskPublicID, tx_run_id = requestID,
            tx_parent_id = []\<rparr>
           (run_payload_of session message mode projectPublicID taskPublicID model)
           (Some \<lparr>rm_session_id = se_PublicID session, rm_message_type = sm_MessageType message,
                  rm_sequence = sm_Sequence message\<rparr>))"

text \<open>The session, with the worker that the inference may give it; and what was handed to the bus.\<close>

definition allocated_session :: "post_env \<Rightarrow> nat \<Rightarrow> session \<Rightarrow> session" where
  "allocated_session pe orgID session =
     (case pe_inferrer pe of
        Some infer \<Rightarrow>
          if se_AssistantID session = 0 \<and> se_AllocatedAssistantID session = 0 \<and> infer orgID (se_Type session) > 0
          then session\<lparr>se_AllocatedAssistantID := infer orgID (se_Type session)\<rparr> else session
      | None \<Rightarrow> session)"

definition publishWorkerTask ::
  "post_env \<Rightarrow> session \<Rightarrow> session_message \<Rightarrow> string \<Rightarrow> store \<Rightarrow> post_error option \<times> (string \<times> worker_command) list \<times> store" where
  "publishWorkerTask pe session message mode st =
     (let orgID = (if se_OrgID session = 0 then (case pe_callerOrg pe of Some i \<Rightarrow> i | None \<Rightarrow> 0) else se_OrgID session);
          session' = allocated_session pe orgID session;
          st = (if se_AllocatedAssistantID session' \<noteq> se_AllocatedAssistantID session
                then update_session (se_ID session) (\<lambda>s. s\<lparr>se_AllocatedAssistantID := se_AllocatedAssistantID session',
                       se_UpdatedAt := pe_now pe\<rparr>) st
                else st)
      in if se_AllocatedAssistantID session' = 0 then (None, [], st)
         else case WorkerCommandSubject orgID (se_AllocatedAssistantID session') LaneRun of
           Inl e \<Rightarrow> (Some (Bad_command_topic e), [], st)
         | Inr topic \<Rightarrow>
             (case resolveWorkspaceIDs pe session' of
                Inl e \<Rightarrow> (Some e, [], st)
              | Inr (project, task) \<Rightarrow>
                  (case resolveWorkerTaskModel pe orgID of
                     Inl e \<Rightarrow> (Some e, [], st)
                   | Inr model \<Rightarrow>
                       (let cmd = run_command_of (pe_now pe) orgID session' message mode project task model
                        in (map_option Command_not_published (pe_publish pe topic cmd), [(topic, cmd)], st)))))"

definition PostMessage ::
  "post_env \<Rightarrow> session \<Rightarrow> string \<Rightarrow> (int \<Rightarrow> session_message) \<Rightarrow> store \<Rightarrow>
   post_error option \<times> session_message \<times> (string \<times> worker_command) list \<times> store" where
  "PostMessage pe session mode build st =
     (let sequence = GetNextSequence (se_ID session) st;
          m = (build sequence)\<lparr>sm_SessionID := se_ID session\<rparr>;
          m = (if sm_MessageType m = [] then m\<lparr>sm_MessageType := MessageTypeText\<rparr> else m);
          (message, st) = CreateMessage (pe_now pe) m st;
          st = UpdateLastMessageAt (pe_now pe) (se_ID session) (pe_now pe) (IncrementMessageCount (se_ID session) st);
          (err, out, st) = publishWorkerTask pe session message mode st
      in (err, message, out, st))"

section \<open>What a posted message leaves\<close>

definition posted_row :: "post_env \<Rightarrow> session \<Rightarrow> int \<Rightarrow> add_message_request \<Rightarrow> store \<Rightarrow> session_message" where
  "posted_row pe session now req st =
     (buildMessage now req (GetNextSequence (se_ID session) st))
       \<lparr>sm_SessionID := se_ID session, sm_ID := st_nextID st, sm_CreatedAt := pe_now pe, sm_UpdatedAt := pe_now pe\<rparr>"

definition with_posted_row :: "post_env \<Rightarrow> session \<Rightarrow> session_message \<Rightarrow> store \<Rightarrow> store" where
  "with_posted_row pe session row st =
     UpdateLastMessageAt (pe_now pe) (se_ID session) (pe_now pe) (IncrementMessageCount (se_ID session)
       (st\<lparr>st_messages := st_messages st @ [row], st_nextID := st_nextID st + 1\<rparr>))"

lemma buildMessage_type: "sm_MessageType (buildMessage now req q) \<noteq> []"
  by (simp add: buildMessage_def row_consts)

lemma PostMessage_built:
  "PostMessage pe session mode (buildMessage now req) st =
     (let row = posted_row pe session now req st;
          (err, out, st) = publishWorkerTask pe session row mode (with_posted_row pe session row st)
      in (err, row, out, st))"
  by (simp add: PostMessage_def Let_def CreateMessage_def buildMessage_type posted_row_def with_posted_row_def)

lemma publishWorkerTask_rows:
  "st_messages (snd (snd (publishWorkerTask pe session m mode st))) = st_messages st"
  "st_nextID (snd (snd (publishWorkerTask pe session m mode st))) = st_nextID st"
  by (simp_all add: publishWorkerTask_def Let_def split: sum.split prod.split)

lemma PostMessage_rows:
  assumes "PostMessage pe session mode (buildMessage now req) st = (err, m, out, st')"
  shows "m = posted_row pe session now req st" "st_messages st' = st_messages st @ [m]" "st_nextID st' = st_nextID st + 1"
proof -
  let ?row = "posted_row pe session now req st"
  have r: "m = ?row" "st' = snd (snd (publishWorkerTask pe session ?row mode (with_posted_row pe session ?row st)))"
    using assms unfolding PostMessage_built Let_def by (auto split: prod.splits)
  show "m = ?row" "st_messages st' = st_messages st @ [m]" "st_nextID st' = st_nextID st + 1"
    unfolding r publishWorkerTask_rows by (simp_all add: with_posted_row_def)
qed

end
