(* ===== verification/ServerRuns.thy ===== *)
theory ServerRuns
  imports Poster
begin

text \<open>
  The server's tables over time: clients post and delete messages, the consumers of the bus handle the events of runs, in
  any order and any number of times. The step relation is built from the operations of \<open>Poster\<close>, \<open>RunState\<close> and
  \<open>SessionStore\<close>.

  Lemmas: rows are never rewritten except for their status and metadata; a message's status never goes back; ids and sequence
  numbers stay unique.
\<close>

section \<open>Steps\<close>

inductive server_step :: "server \<Rightarrow> server \<Rightarrow> bool" where
  posted: "GetSessionByPublicID pid (sv_store sv) = Some session \<Longrightarrow>
    PostMessage pe session mode (buildMessage now req) (sv_store sv) = (err, m, out, st) \<Longrightarrow>
    server_step sv (sv\<lparr>sv_store := st\<rparr>)"
| state_message: "server_step sv (handleRunStateMessage en msg sv)"
| stream_message: "server_step sv (handleRunStreamMessage en msg sv)"
| deleted: "server_step sv (sv\<lparr>sv_store := DeleteMessage now i (sv_store sv)\<rparr>)"
| cleared: "server_step sv (sv\<lparr>sv_store := ClearSessionMessages now i (sv_store sv)\<rparr>)"

inductive server_run :: "server \<Rightarrow> nat \<Rightarrow> server \<Rightarrow> bool" where
  no_step: "server_run sv 0 sv"
| one_more: "server_run sv n sv' \<Longrightarrow> server_step sv' sv'' \<Longrightarrow> server_run sv (n + 1) sv''"

section \<open>How rows evolve\<close>

definition status_rank :: "string \<Rightarrow> nat" where
  "status_rank s = (if s = MessageStatusPending then 0 else if s = MessageStatusProcessing then 1 else 2)"

definition kept :: "session_message \<Rightarrow> session_message \<Rightarrow> bool" where
  "kept r r' \<longleftrightarrow> sm_ID r' = sm_ID r \<and> sm_SessionID r' = sm_SessionID r \<and> sm_Role r' = sm_Role r \<and>
     sm_Content r' = sm_Content r \<and> sm_Sequence r' = sm_Sequence r \<and> sm_Chunks r' = sm_Chunks r \<and>
     (sm_DeletedAt r \<noteq> None \<longrightarrow> r' = r) \<and> status_rank (sm_Status r) \<le> status_rank (sm_Status r')"

lemma kept_refl [simp]: "kept r r"
  by (simp add: kept_def)

lemma kept_trans: "kept r r' \<Longrightarrow> kept r' r'' \<Longrightarrow> kept r r''"
  by (auto simp: kept_def)

definition fresh_row :: "store \<Rightarrow> session_message \<Rightarrow> bool" where
  "fresh_row st m \<longleftrightarrow> sm_ID m = st_nextID st \<and> sm_DeletedAt m = None \<and> sm_Sequence m = GetNextSequence (sm_SessionID m) st"

definition evolves :: "store \<Rightarrow> store \<Rightarrow> bool" where
  "evolves st st' \<longleftrightarrow>
     (\<exists>g new. st_messages st' = map g (st_messages st) @ new \<and> st_nextID st' = st_nextID st + length new \<and> length new \<le> 1 \<and>
        (\<forall>r \<in> set (st_messages st). kept r (g r)) \<and> (\<forall>m \<in> set new. fresh_row st m))"

lemma evolvesI:
  "st_messages st' = map g (st_messages st) @ new \<Longrightarrow> st_nextID st' = st_nextID st + length new \<Longrightarrow> length new \<le> 1 \<Longrightarrow>
   (\<And>r. r \<in> set (st_messages st) \<Longrightarrow> kept r (g r)) \<Longrightarrow> (\<And>m. m \<in> set new \<Longrightarrow> fresh_row st m) \<Longrightarrow> evolves st st'"
  unfolding evolves_def by blast

lemma evolves_map:
  "st_messages st' = map g (st_messages st) \<Longrightarrow> st_nextID st' = st_nextID st \<Longrightarrow> (\<And>r. r \<in> set (st_messages st) \<Longrightarrow> kept r (g r)) \<Longrightarrow>
   evolves st st'"
  by (rule evolvesI [where new = "[]" and g = g]) auto

lemma evolves_same: "st_messages st' = st_messages st \<Longrightarrow> st_nextID st' = st_nextID st \<Longrightarrow> evolves st st'"
  by (rule evolves_map [where g = id]) simp_all

lemma evolves_answer:
  assumes "st_messages st' = answer_rows now i raw status row (st_messages st)" "st_nextID st' = st_nextID st + 1"
    "status_rank status = 2" "fresh_row st row"
  shows "evolves st st'"
proof (rule evolvesI)
  show "st_messages st' = map (\<lambda>r. if targets i (replyMessageIDs raw []) r \<and> sm_Role r = MessageRoleUser
      then r\<lparr>sm_Status := status, sm_UpdatedAt := now\<rparr> else r) (st_messages st) @ [row]"
    using assms(1) by (simp add: answer_rows_def)
  show "kept r (if targets i (replyMessageIDs raw []) r \<and> sm_Role r = MessageRoleUser
      then r\<lparr>sm_Status := status, sm_UpdatedAt := now\<rparr> else r)" for r
    using assms(3) by (auto simp: kept_def targets_def status_rank_def row_consts split: if_splits)
qed (use assms in auto)

lemma evolves_delete:
  "evolves st (DeleteMessage now i st)" "evolves st (ClearSessionMessages now i st)"
proof -
  show "evolves st (DeleteMessage now i st)"
    by (rule evolves_map [where g = "\<lambda>m. if sm_ID m = i \<and> sm_DeletedAt m = None then m\<lparr>sm_DeletedAt := Some now\<rparr> else m"])
       (simp_all add: DeleteMessage_def kept_def)
  show "evolves st (ClearSessionMessages now i st)"
    by (rule evolves_map [where g = "\<lambda>m. if sm_SessionID m = i \<and> sm_DeletedAt m = None then m\<lparr>sm_DeletedAt := Some now\<rparr> else m"])
       (simp_all add: ClearSessionMessages_def kept_def)
qed

lemma completed_fresh:
  "fresh_row st ((completed_message i (GetNextSequence i st) req)\<lparr>sm_ID := st_nextID st, sm_CreatedAt := c, sm_UpdatedAt := u\<rparr>)"
  "fresh_row st ((failed_message i (GetNextSequence i st) freq)\<lparr>sm_ID := st_nextID st, sm_CreatedAt := c, sm_UpdatedAt := u\<rparr>)"
  by (simp_all add: fresh_row_def completed_message_def failed_message_def Let_def)

lemma complete_evolves:
  assumes "fresh_ids st"
  shows "evolves st (snd (CompleteSessionMessage now req st))"
proof (cases "cq_SessionID req = [] \<or> GetSessionByPublicID (cq_SessionID req) st = None")
  case True
  then have "snd (CompleteSessionMessage now req st) = st" by (auto simp: CompleteSessionMessage_def)
  then show ?thesis by (simp add: evolves_same)
next
  case False
  then obtain s where s: "cq_SessionID req \<noteq> []" "GetSessionByPublicID (cq_SessionID req) st = Some s" by blast
  note r = CompleteSessionMessage_rows [OF assms s, of now]
  show ?thesis by (rule evolves_answer [OF r(2,3) _ completed_fresh(1)]) (simp add: status_rank_def row_consts)
qed

lemma fail_evolves:
  assumes "fresh_ids st" "status_rank (failed_status req) = 2"
  shows "evolves st (snd (FailedSessionMessage now req st))"
proof (cases "cq_SessionID req = [] \<or> GetSessionByPublicID (cq_SessionID req) st = None")
  case True
  then have "snd (FailedSessionMessage now req st) = st" by (auto simp: FailedSessionMessage_def)
  then show ?thesis by (simp add: evolves_same)
next
  case False
  then obtain s where s: "cq_SessionID req \<noteq> []" "GetSessionByPublicID (cq_SessionID req) st = Some s" by blast
  note r = FailedSessionMessage_rows [OF assms(1) s, of now]
  show ?thesis by (rule evolves_answer [OF r(2,3) assms(2) completed_fresh(2)])
qed

lemma started_evolves:
  assumes "fresh_ids st"
  shows "evolves st (snd (HandleSessionRunStarted now r st))"
proof (cases "fst (HandleSessionRunStarted now r st)")
  case (Some e)
  then have "snd (HandleSessionRunStarted now r st) = st"
    by (auto simp: HandleSessionRunStarted_def Let_def split: option.splits if_splits)
  then show ?thesis by (simp add: evolves_same)
next
  case None
  then obtain req where r: "r = Some req" by (cases r) (simp_all add: HandleSessionRunStarted_def)
  have u: "unique_ids st" using assms by (simp add: fresh_ids_def)
  have "HandleSessionRunStarted now (Some req) st = (None, snd (HandleSessionRunStarted now (Some req) st))"
    using None r by (cases "HandleSessionRunStarted now (Some req) st") simp
  from HandleSessionRunStarted_rows [OF u this] show ?thesis unfolding r
    by (elim exE conjE) (erule evolves_map, assumption, auto simp: kept_def targets_def status_rank_def row_consts)
qed

lemma stream_evolves:
  assumes "fresh_ids st"
  shows "evolves st (snd (SetSessionStreamStartSeq now pid q st))"
proof -
  have u: "unique_ids st" using assms by (simp add: fresh_ids_def)
  have "evolves st (foldl (set_stream_start now q) st (GetSessionMessagesByIDs i ids st))" for i ids
    unfolding loops_save
    by (rule evolves_map, rule save_targets(1) [OF u], simp, rule save_targets(3) [OF u], simp)
       (auto simp: kept_def targets_def)
  then show ?thesis by (auto simp: SetSessionStreamStartSeq_def Let_def evolves_same split: option.split)
qed

section \<open>Every step evolves the rows\<close>

lemma post_evolves:
  assumes "PostMessage pe session mode (buildMessage now req) st = (err, m, out, st')"
  shows "evolves st st'"
proof (rule evolvesI [where g = "\<lambda>r. r" and new = "[m]"])
  note r = PostMessage_rows [OF assms]
  show "st_messages st' = map (\<lambda>r. r) (st_messages st) @ [m]" "st_nextID st' = st_nextID st + length [m]"
    using r(2,3) by simp_all
  show "fresh_row st x" if "x \<in> set [m]" for x
    using that by (simp add: r(1) fresh_row_def posted_row_def buildMessage_def)
qed simp_all

lemma failed_rank:
  "status_rank (failed_status (failed_request_of ev)) = 2" "status_rank (failed_status (cancelled_request_of ev)) = 2"
  by (auto simp: status_rank_def failed_status_def failed_request_of_def cancelled_request_of_def failed_request_with_def Let_def
      row_consts split: option.split)

lemma state_evolves:
  assumes "fresh_ids (sv_store sv)"
  shows "evolves (sv_store sv) (sv_store (handleRunStateMessage en msg sv))"
  using complete_evolves [OF assms] fail_evolves [OF assms failed_rank(1)] fail_evolves [OF assms failed_rank(2)]
    started_evolves [OF assms]
  by (simp add: handleRunStateMessage_def handleRunStartedEvent_def handleArtifactDeclaredEvent_def handleRunCompletedEvent_def
      handleRunFailedEvent_def handleRunCancelledEvent_def Let_def evolves_same split: option.split)

lemma step_evolves:
  assumes "server_step sv sv'" "fresh_ids (sv_store sv)"
  shows "evolves (sv_store sv) (sv_store sv')"
  using assms(1)
proof cases
  case posted
  then show ?thesis using post_evolves by simp
next
  case stream_message
  then show ?thesis
    using stream_evolves [OF assms(2)] by (simp add: handleRunStreamMessage_def Let_def evolves_same split: option.split)
qed (use state_evolves [OF assms(2)] evolves_delete in auto)

section \<open>Invariants\<close>

text \<open>Ids are given in the order of the rows, and so are the sequence numbers of a session's live messages.\<close>

definition ordered :: "store \<Rightarrow> bool" where
  "ordered st \<longleftrightarrow> sorted_wrt (<) (map sm_ID (st_messages st)) \<and> (\<forall>m \<in> set (st_messages st). sm_ID m < st_nextID st)"

lemma ordered_fresh: "ordered st \<Longrightarrow> fresh_ids st"
  by (simp add: ordered_def fresh_ids_def unique_ids_def strict_sorted_iff)

definition numbered :: "nat \<Rightarrow> store \<Rightarrow> bool" where
  "numbered n st \<longleftrightarrow> (\<forall>m \<in> set (st_messages st). 0 < sm_Sequence m \<and> sm_Sequence m \<le> int n) \<and>
     (\<forall>i. sorted_wrt (<) (map sm_Sequence (live_messages i st)))"

lemma evolves_ordered:
  assumes "evolves st st'" "ordered st"
  shows "ordered st'"
proof -
  obtain g new where e: "st_messages st' = map g (st_messages st) @ new" "st_nextID st' = st_nextID st + length new" "length new \<le> 1"
    "\<forall>r \<in> set (st_messages st). kept r (g r)" "\<forall>m \<in> set new. fresh_row st m" using assms(1) unfolding evolves_def by blast
  have ids: "map sm_ID (st_messages st') = map sm_ID (st_messages st) @ map sm_ID new" using e(4) by (simp add: e(1) kept_def)
  have "\<forall>i \<in> set (map sm_ID (st_messages st')). i < st_nextID st'"
    unfolding ids using assms(2) e(2,5) by (cases new) (auto simp: ordered_def fresh_row_def)
  then have b: "m \<in> set (st_messages st') \<Longrightarrow> sm_ID m < st_nextID st'" for m by simp
  have "sorted_wrt (<) (map sm_ID (st_messages st'))"
    unfolding ids using assms(2) e(3,5) by (cases new) (auto simp: ordered_def sorted_wrt_append fresh_row_def)
  with b show ?thesis by (simp add: ordered_def)
qed

lemma live_after:
  assumes "st_messages st' = map g (st_messages st) @ new" "\<forall>r \<in> set (st_messages st). kept r (g r)"
  shows "\<exists>P. map sm_Sequence (live_messages i st') =
    map sm_Sequence (filter P (live_messages i st)) @ map sm_Sequence (filter (\<lambda>m. sm_DeletedAt m = None \<and> sm_SessionID m = i) new)"
proof (intro exI [of _ "\<lambda>r. sm_DeletedAt (g r) = None"])
  let ?l = "\<lambda>m. sm_DeletedAt m = None \<and> sm_SessionID m = i"
  have "map sm_Sequence (filter ?l (map g rs)) = map sm_Sequence (filter (\<lambda>r. sm_DeletedAt (g r) = None) (filter ?l rs))"
    if "\<forall>r \<in> set rs. kept r (g r)" for rs
    using that by (induction rs) (auto simp: kept_def)
  with assms show "map sm_Sequence (live_messages i st') = map sm_Sequence (filter (\<lambda>r. sm_DeletedAt (g r) = None) (live_messages i st)) @
    map sm_Sequence (filter ?l new)" by (simp add: live_messages_def)
qed

lemma GetNextSequence_bound:
  assumes "numbered n st" "int n < 2 ^ 63 - 1"
  shows "0 < GetNextSequence i st" "GetNextSequence i st \<le> int n + 1"
    "m \<in> set (live_messages i st) \<Longrightarrow> sm_Sequence m < GetNextSequence i st"
proof -
  have b: "x \<in> set (live_messages i st) \<Longrightarrow> 0 < sm_Sequence x \<and> sm_Sequence x \<le> int n" for x
    using assms(1) by (auto simp: numbered_def live_messages_def)
  show "sm_Sequence m < GetNextSequence i st" if "m \<in> set (live_messages i st)"
    using GetNextSequence_above [OF that] b that assms(2) by fastforce
  have "0 < GetNextSequence i st \<and> GetNextSequence i st \<le> int n + 1"
  proof (cases "map sm_Sequence (live_messages i st)")
    case Nil
    then show ?thesis by (simp add: GetNextSequence_def wrap64_id int64_range_def)
  next
    case (Cons q qs)
    define M where "M = Max (set (q # qs))"
    have "M \<in> set (q # qs)" unfolding M_def by (rule Max_in) simp_all
    then have "M \<in> sm_Sequence ` set (live_messages i st)" using Cons by (metis list.set_map)
    then obtain x where "M = sm_Sequence x" "x \<in> set (live_messages i st)" by (rule imageE)
    then have m: "0 < M" "M \<le> int n" using b by auto
    then have "wrap64 (M + 1) = M + 1" using assms(2) by (intro wrap64_id) (simp add: int64_range_def)
    then show ?thesis using m unfolding GetNextSequence_def Cons Let_def list.case foldl_max_Max M_def [symmetric] by simp
  qed
  then show "0 < GetNextSequence i st" "GetNextSequence i st \<le> int n + 1" by simp_all
qed

lemma evolves_numbered:
  assumes "evolves st st'" "numbered n st" "int n < 2 ^ 63 - 1"
  shows "numbered (n + 1) st'"
proof -
  obtain g new where e: "st_messages st' = map g (st_messages st) @ new" "length new \<le> 1"
    "\<forall>r \<in> set (st_messages st). kept r (g r)" "\<forall>m \<in> set new. fresh_row st m" using assms(1) unfolding evolves_def by blast
  note q = GetNextSequence_bound [OF assms(2,3)]
  have new: "new = [] \<or> (\<exists>m. new = [m])" using e(2) by (cases new) auto
  have seqs: "map sm_Sequence (st_messages st') = map sm_Sequence (st_messages st) @ map sm_Sequence new"
    using e(3) by (simp add: e(1) kept_def)
  have "\<forall>k \<in> set (map sm_Sequence (st_messages st')). 0 < k \<and> k \<le> int n + 1"
    unfolding seqs using assms(2) e(4) q(1,2) by (cases new) (auto simp: numbered_def fresh_row_def)
  then have "0 < sm_Sequence m \<and> sm_Sequence m \<le> int (n + 1)" if "m \<in> set (st_messages st')" for m using that by fastforce
  moreover have "sorted_wrt (<) (map sm_Sequence (live_messages i st'))" for i
  proof -
    obtain P where l: "map sm_Sequence (live_messages i st') =
        map sm_Sequence (filter P (live_messages i st)) @ map sm_Sequence (filter (\<lambda>m. sm_DeletedAt m = None \<and> sm_SessionID m = i) new)"
      using live_after [OF e(1,3)] by blast
    have "sorted_wrt (<) (map sm_Sequence (filter P (live_messages i st)))"
      using assms(2) by (simp add: numbered_def sorted_wrt_map sorted_wrt_filter)
    then show ?thesis using new e(4) q(3) unfolding l sorted_wrt_append by (auto simp: fresh_row_def)
  qed
  ultimately show ?thesis by (simp add: numbered_def)
qed

lemma evolves_kept: "evolves st st' \<Longrightarrow> m \<in> set (st_messages st) \<Longrightarrow> \<exists>m' \<in> set (st_messages st'). kept m m'"
  unfolding evolves_def by force

lemma evolves_fresh:
  assumes "evolves st st'" "fresh_ids st"
  shows "fresh_ids st'"
proof -
  obtain g new where e: "st_messages st' = map g (st_messages st) @ new" "st_nextID st' = st_nextID st + length new" "length new \<le> 1"
    "\<forall>r \<in> set (st_messages st). kept r (g r)" "\<forall>m \<in> set new. fresh_row st m" using assms(1) unfolding evolves_def by blast
  have ids: "map sm_ID (st_messages st') = map sm_ID (st_messages st) @ map sm_ID new" using e(4) by (simp add: e(1) kept_def)
  have "\<forall>i \<in> set (map sm_ID (st_messages st')). i < st_nextID st'"
    unfolding ids using assms(2) e(2,5) by (cases new) (auto simp: fresh_ids_def fresh_row_def)
  moreover have "distinct (map sm_ID (st_messages st'))"
    unfolding ids using assms(2) e(3,5) by (cases new) (auto simp: fresh_ids_def unique_ids_def fresh_row_def)
  ultimately show ?thesis by (simp add: fresh_ids_def unique_ids_def)
qed

lemma server_run_invariant:
  assumes "server_run sv n sv'" "st_messages (sv_store sv) = []" "int n < 2 ^ 63 - 1"
  shows "ordered (sv_store sv') \<and> numbered n (sv_store sv')"
  using assms
proof (induction rule: server_run.induct)
  case (no_step sv)
  then show ?case by (simp add: ordered_def numbered_def live_messages_def)
next
  case (one_more sv n sv' sv'')
  then have ih: "ordered (sv_store sv')" "numbered n (sv_store sv')" by auto
  have ev: "evolves (sv_store sv') (sv_store sv'')" by (rule step_evolves [OF one_more.hyps(2) ordered_fresh [OF ih(1)]])
  then show ?case using evolves_ordered [OF ev ih(1)] evolves_numbered [OF ev ih(2)] one_more.prems(2) by simp
qed

section \<open>Properties\<close>

lemma sorted_wrt_order:
  assumes "sorted_wrt (<) (map f xs)" "sorted_wrt (<) (map g xs)" "x \<in> set xs" "y \<in> set xs"
  shows "(f x :: 'a :: linorder) < f y \<longleftrightarrow> (g x :: 'b :: linorder) < g y"
  using assms
proof (induction xs)
  case (Cons a xs)
  then show ?case by (auto dest: order.asym)
qed simp



section \<open>What the end of a run leaves\<close>

definition run_message :: "run_event \<Rightarrow> bool" where
  "run_message ev \<longleftrightarrow> env_type ev = MessageTypeRunEvent \<and> rt_session_id (env_route ev) \<noteq> []"

lemma handle_ended:
  assumes "run_message ev"
  shows "rb_event (env_body ev) = RunEventRunCompleted \<Longrightarrow> handleRunStateMessage en (Some ev, meta) sv = handleRunCompletedEvent en ev sv"
    and "rb_event (env_body ev) = RunEventRunFailed \<Longrightarrow> handleRunStateMessage en (Some ev, meta) sv = handleRunFailedEvent en ev sv"
    and "rb_event (env_body ev) = RunEventRunCancelled \<Longrightarrow> handleRunStateMessage en (Some ev, meta) sv = handleRunCancelledEvent en ev sv"
    and "rb_event (env_body ev) = RunEventRunStarted \<Longrightarrow> handleRunStateMessage en (Some ev, meta) sv = handleRunStartedEvent en meta ev sv"
  using assms by (simp_all add: run_message_def handleRunStateMessage_def Let_def msg_defs)

text \<open>
  C8: how a run ends on the server. The terminal event of a run in a known session adds exactly one message at the end of the session, an
  assistant's, with the next sequence number, the recorded events and the text of the run, and gives its status to
  the live user messages of the session that the event names, and to no other message: completed for a run that completed,
  cancelled for one that was cancelled, and for one that failed, failed, or cancelled when the run's own record says so. An answer that is not completed
  always says why, unless neither the event's error nor its text does.
\<close>

theorem ended_run_stored:
  assumes "fresh_ids (sv_store sv)" "run_message ev" "GetSessionByPublicID (rt_session_id (env_route ev)) (sv_store sv) = Some s"
    "rb_event (env_body ev) = RunEventRunCompleted \<and> rb_run_completed (env_body ev) = Some c \<or>
     rb_event (env_body ev) \<in> {RunEventRunFailed, RunEventRunCancelled}"
  shows "\<exists>row status. st_messages (sv_store (handleRunStateMessage en (Some ev, meta) sv)) =
       map (\<lambda>r. if sm_DeletedAt r = None \<and> sm_SessionID r = se_ID s \<and> sm_Role r = MessageRoleUser \<and>
                   sm_ID r \<in> set (replyMessageIDs (rb_reply_to (env_body ev)) [])
                then r\<lparr>sm_Status := status, sm_UpdatedAt := env_now en\<rparr> else r) (st_messages (sv_store sv)) @ [row] \<and>
     sm_SessionID row = se_ID s \<and> sm_Role row = MessageRoleAssistant \<and> sm_Status row = status \<and> sm_DeletedAt row = None \<and>
     sm_Sequence row = GetNextSequence (se_ID s) (sv_store sv) \<and>
     sm_Chunks row = map chunk_of (messagingCompletedEvents (rb_run_completed (env_body ev))) \<and>
     (rb_event (env_body ev) = RunEventRunCompleted \<longrightarrow>
        status = MessageStatusCompleted \<and> sm_Content row = ms_message (mc_result c) \<and> sm_ErrorMsg row = []) \<and>
     (rb_event (env_body ev) = RunEventRunFailed \<longrightarrow> status \<in> {MessageStatusFailed, MessageStatusCancelled} \<and>
        (\<forall>e. rb_error (env_body ev) = Some e \<longrightarrow> sm_ErrorMsg row = me_message e \<and> (me_message e \<noteq> [] \<longrightarrow> sm_Content row \<noteq> []))) \<and>
     (rb_event (env_body ev) = RunEventRunCancelled \<longrightarrow>
        status = MessageStatusCancelled \<and> sm_Content row \<noteq> [] \<and> sm_ErrorMsg row \<noteq> [])"
proof -
  let ?b = "env_body ev" and ?sv = "handleRunStateMessage en (Some ev, meta) sv"
  have sid: "rt_session_id (env_route ev) \<noteq> []" using assms(2) by (simp add: run_message_def)
  have rows: "answer_rows now i raw status row rs = map (\<lambda>r. if sm_DeletedAt r = None \<and> sm_SessionID r = i \<and> sm_Role r = MessageRoleUser \<and>
      sm_ID r \<in> set (replyMessageIDs raw []) then r\<lparr>sm_Status := status, sm_UpdatedAt := now\<rparr> else r) rs @ [row]" for now i raw status row rs
    by (auto simp: answer_rows_def targets_def)
  have ne: "RunEventRunFailed \<noteq> RunEventRunCompleted" "RunEventRunCancelled \<noteq> RunEventRunCompleted" "RunEventRunCancelled \<noteq> RunEventRunFailed"
    by (simp_all add: msg_defs)
  have text_ne: "cancelled_text \<noteq> []" "trim_space [] = []" by (simp add: cancelled_text_def, code_simp)
  consider (done') "rb_event ?b = RunEventRunCompleted" "rb_run_completed ?b = Some c"
    | (failed) "rb_event ?b = RunEventRunFailed" | (cancelled) "rb_event ?b = RunEventRunCancelled"
    using assms(4) by blast
  then show ?thesis
  proof cases
    case done'
    let ?req = "completed_request_of ev c"
    have q: "cq_SessionID ?req \<noteq> []" "GetSessionByPublicID (cq_SessionID ?req) (sv_store sv) = Some s"
      using sid assms(3) by (simp_all add: completed_request_of_def)
    have "st_messages (sv_store ?sv) = answer_rows (env_now en) (se_ID s) (rb_reply_to ?b) MessageStatusCompleted
        ((completed_message (se_ID s) (GetNextSequence (se_ID s) (sv_store sv)) ?req)
           \<lparr>sm_ID := st_nextID (sv_store sv), sm_CreatedAt := env_now en, sm_UpdatedAt := env_now en\<rparr>) (st_messages (sv_store sv))"
      using CompleteSessionMessage_rows(2) [OF assms(1) q, of "env_now en"] done'
      by (simp add: handle_ended(1) [OF assms(2)] handleRunCompletedEvent_def Let_def completed_request_of_def)
    note m = this [unfolded rows]
    show ?thesis
      by (rule exI, rule exI, rule conjI, rule m, insert done' ne) (simp_all add: completed_message_def completed_request_of_def messagingEventsToChunks_def messagingCompletedEvents_def)
  next
    case failed
    let ?req = "failed_request_of ev"
    have q: "cq_SessionID ?req \<noteq> []" "GetSessionByPublicID (cq_SessionID ?req) (sv_store sv) = Some s"
      using sid assms(3) by (simp_all add: failed_request_of_def failed_request_with_def Let_def split: option.split)
    have f: "cq_ReplyToMessageIDs ?req = rb_reply_to ?b" "cq_Chunks ?req = map chunk_of (messagingCompletedEvents (rb_run_completed ?b))"
      by (simp_all add: failed_request_of_def failed_request_with_def Let_def messagingEventsToChunks_def split: option.split)
    have st: "failed_status ?req \<in> {MessageStatusFailed, MessageStatusCancelled}"
      by (auto simp: failed_status_def failed_request_of_def failed_request_with_def Let_def row_consts split: option.split)
    have er: "rb_error ?b = Some e \<Longrightarrow> fq_ErrorMsg ?req = me_message e" for e
      by (simp add: failed_request_of_def failed_request_with_def Let_def split: option.split)
    have "st_messages (sv_store ?sv) = answer_rows (env_now en) (se_ID s) (rb_reply_to ?b) (failed_status ?req)
        ((failed_message (se_ID s) (GetNextSequence (se_ID s) (sv_store sv)) ?req)
           \<lparr>sm_ID := st_nextID (sv_store sv), sm_CreatedAt := env_now en, sm_UpdatedAt := env_now en\<rparr>) (st_messages (sv_store sv))"
      using FailedSessionMessage_rows(2) [OF assms(1) q, of "env_now en"] failed
      by (simp add: handle_ended(2) [OF assms(2)] handleRunFailedEvent_def f)
    note m = this [unfolded rows]
    show ?thesis
      by (rule exI, rule exI, rule conjI, rule m, insert failed ne st f er) (auto simp: failed_message_def Let_def)
  next
    case cancelled
    let ?req = "cancelled_request_of ev"
    have q: "cq_SessionID ?req \<noteq> []" "GetSessionByPublicID (cq_SessionID ?req) (sv_store sv) = Some s"
      using sid assms(3) by (simp_all add: cancelled_request_of_def failed_request_with_def Let_def)
    have f: "cq_ReplyToMessageIDs ?req = rb_reply_to ?b" "cq_Chunks ?req = map chunk_of (messagingCompletedEvents (rb_run_completed ?b))"
      "failed_status ?req = MessageStatusCancelled" "cq_Content ?req \<noteq> []" "fq_ErrorMsg ?req \<noteq> []"
      using text_ne by (auto simp: cancelled_request_of_def failed_request_with_def Let_def messagingEventsToChunks_def failed_status_def row_consts
          cancellationError_def split: option.split)
    have "st_messages (sv_store ?sv) = answer_rows (env_now en) (se_ID s) (rb_reply_to ?b) (failed_status ?req)
        ((failed_message (se_ID s) (GetNextSequence (se_ID s) (sv_store sv)) ?req)
           \<lparr>sm_ID := st_nextID (sv_store sv), sm_CreatedAt := env_now en, sm_UpdatedAt := env_now en\<rparr>) (st_messages (sv_store sv))"
      using FailedSessionMessage_rows(2) [OF assms(1) q, of "env_now en"] cancelled
      by (simp add: handle_ended(3) [OF assms(2)] handleRunCancelledEvent_def f)
    note m = this [unfolded rows]
    show ?thesis
      by (rule exI, rule exI, rule conjI, rule m, insert cancelled ne f) (auto simp: failed_message_def Let_def)
  qed
qed

section \<open>Repeated and concurrent deliveries\<close>

lemma started_store:
  "sv_store (handleRunStartedEvent en meta ev sv) =
     (case meta of None \<Rightarrow> sv_store sv
      | Some q \<Rightarrow> snd (HandleSessionRunStarted (env_now en) (Some \<lparr>sr_SessionID = rt_session_id (env_route ev),
          sr_ReplyToMessageIDs = rb_reply_to (env_body ev), sr_RequestID = tx_request_id (env_trace ev), sr_StreamStartSeq = 0,
          sr_StateStartSeq = q\<rparr>) (sv_store sv)))"
  by (simp add: handleRunStartedEvent_def split: option.split)

text \<open>
  the start of a run is recorded once. Once a delivery of a run's start event has been accepted, any further delivery for the same
  messages, with whatever stream sequence and at whatever time, changes no message: the first one fixes where the replay of the run starts.
\<close>

theorem first_start_wins:
  assumes "unique_ids (sv_store sv)" "run_message ev" "rb_event (env_body ev) = RunEventRunStarted" "q \<noteq> 0"
    "run_message ev'" "rb_event (env_body ev') = RunEventRunStarted" "env_route ev' = env_route ev" "env_trace ev' = env_trace ev"
    "rb_reply_to (env_body ev') = rb_reply_to (env_body ev)"
  shows "st_messages (sv_store (handleRunStateMessage en' (Some ev', meta) (handleRunStateMessage en (Some ev, Some q) sv))) =
     st_messages (sv_store (handleRunStateMessage en (Some ev, Some q) sv))"
proof -
  let ?req = "\<lambda>q. \<lparr>sr_SessionID = rt_session_id (env_route ev), sr_ReplyToMessageIDs = rb_reply_to (env_body ev),
      sr_RequestID = tx_request_id (env_trace ev), sr_StreamStartSeq = 0, sr_StateStartSeq = q\<rparr>"
  let ?st1 = "snd (HandleSessionRunStarted (env_now en) (Some (?req q)) (sv_store sv))"
  have "st_messages (snd (HandleSessionRunStarted (env_now en') (Some (?req q')) ?st1)) = st_messages ?st1" for q'
  proof (cases "fst (HandleSessionRunStarted (env_now en') (Some (?req q')) ?st1)")
    case (Some e)
    then show ?thesis by (auto simp: HandleSessionRunStarted_def Let_def split: option.splits if_splits)
  next
    case None
    then have ok2: "HandleSessionRunStarted (env_now en') (Some (?req q')) ?st1 =
      (None, snd (HandleSessionRunStarted (env_now en') (Some (?req q')) ?st1))" by (simp add: prod_eq_iff)
    show ?thesis
    proof (cases "fst (HandleSessionRunStarted (env_now en) (Some (?req q)) (sv_store sv))")
      case (Some e)
      then have "?st1 = sv_store sv" by (auto simp: HandleSessionRunStarted_def Let_def split: option.splits if_splits)
      with Some None assms(4) show ?thesis by (auto simp: HandleSessionRunStarted_def Let_def split: option.splits if_splits)
    next
      case None
      then have ok1: "HandleSessionRunStarted (env_now en) (Some (?req q)) (sv_store sv) = (None, ?st1)" by (simp add: prod_eq_iff)
      from HandleSessionRunStarted_rows [OF assms(1) ok1] obtain s where
        s: "GetSessionByPublicID (rt_session_id (env_route ev)) (sv_store sv) = Some s"
          "st_messages ?st1 = map (\<lambda>r. if targets (se_ID s) (replyMessageIDs (rb_reply_to (env_body ev)) (tx_request_id (env_trace ev))) r \<and>
             sm_Role r = MessageRoleUser \<and> sm_Status r = MessageStatusPending
           then r\<lparr>sm_Status := MessageStatusProcessing, sm_Metadata := started_metadata (?req q) (sm_Metadata r), sm_UpdatedAt := env_now en\<rparr>
           else r) (st_messages (sv_store sv))" "st_sessions ?st1 = st_sessions (sv_store sv)" by auto
      have "map sm_ID (st_messages ?st1) = map sm_ID (st_messages (sv_store sv))" unfolding s(2) by simp
      then have u: "unique_ids ?st1" using assms(1) by (simp only: unique_ids_def)
      from HandleSessionRunStarted_rows [OF u ok2] obtain s' where
        s': "GetSessionByPublicID (rt_session_id (env_route ev)) ?st1 = Some s'"
          "st_messages (snd (HandleSessionRunStarted (env_now en') (Some (?req q')) ?st1)) =
           map (\<lambda>r. if targets (se_ID s') (replyMessageIDs (rb_reply_to (env_body ev)) (tx_request_id (env_trace ev))) r \<and>
             sm_Role r = MessageRoleUser \<and> sm_Status r = MessageStatusPending
           then r\<lparr>sm_Status := MessageStatusProcessing, sm_Metadata := started_metadata (?req q') (sm_Metadata r), sm_UpdatedAt := env_now en'\<rparr>
           else r) (st_messages ?st1)" by auto
      have "s' = s" using s(1,3) s'(1) by (simp add: GetSessionByPublicID_def)
      then show ?thesis unfolding s'(2) by (intro map_idI) (auto simp: s(2) targets_def row_consts)
    qed
  qed
  then show ?thesis using assms by (simp add: handle_ended(4) started_store split: option.split)
qed

lemma completed_store:
  "run_message ev \<Longrightarrow> rb_event (env_body ev) = RunEventRunCompleted \<Longrightarrow> rb_run_completed (env_body ev) = Some c \<Longrightarrow>
   sv_store (handleRunStateMessage en (Some ev, meta) sv) =
     snd (CompleteSessionMessage (env_now en) (completed_request_of ev c) (sv_store sv))"
  by (simp add: handle_ended(1) handleRunCompletedEvent_def Let_def)

lemma find_mapped: "find P xs = Some x \<Longrightarrow> (\<And>y. P (f y) = P y) \<Longrightarrow> find P (map f xs) = Some (f x)"
  by (induction xs) (auto split: if_splits)

lemma session_updated:
  assumes "GetSessionByPublicID p st = Some s" "\<And>x. se_PublicID (f x) = se_PublicID x \<and> se_DeletedAt (f x) = se_DeletedAt x \<and> se_ID (f x) = se_ID x"
  shows "\<exists>s'. GetSessionByPublicID p (update_session i f st) = Some s' \<and> se_ID s' = se_ID s"
proof -
  let ?g = "\<lambda>s. if se_ID s = i \<and> se_DeletedAt s = None then f s else s"
  have "find (\<lambda>s. se_DeletedAt s = None \<and> se_PublicID s = p) (map ?g (st_sessions st)) = Some (?g s)"
    by (rule find_mapped [OF assms(1) [unfolded GetSessionByPublicID_def]]) (simp add: assms(2))
  then show ?thesis using assms(2) by (simp add: GetSessionByPublicID_def update_session_def)
qed

lemma complete_session:
  assumes "fresh_ids st" "cq_SessionID req \<noteq> []" "GetSessionByPublicID (cq_SessionID req) st = Some s"
  shows "\<exists>s'. GetSessionByPublicID (cq_SessionID req) (snd (CompleteSessionMessage now req st)) = Some s' \<and> se_ID s' = se_ID s"
proof -
  let ?tx = "complete_transaction now (se_ID s) (GetNextSequence (se_ID s) st) req st"
  have "st_sessions ?tx = st_sessions st"
    unfolding complete_transaction_def by (rule answer_transaction(3) [OF assms(1)]) (simp add: completed_message_def)
  then have "GetSessionByPublicID (cq_SessionID req) ?tx = Some s" using assms(3) by (simp add: GetSessionByPublicID_def)
  from session_updated [OF this, of "\<lambda>s. s\<lparr>se_LastMessageAt := Some now, se_UpdatedAt := now\<rparr>" "se_ID s"] obtain s1 where
    "GetSessionByPublicID (cq_SessionID req) (UpdateLastMessageAt now (se_ID s) now ?tx) = Some s1" "se_ID s1 = se_ID s"
    unfolding UpdateLastMessageAt_def by auto
  with session_updated [OF this(1), of "\<lambda>s. s\<lparr>se_MessageCount := se_MessageCount s + 1\<rparr>" "se_ID s"] show ?thesis
    using assms(2,3) by (simp add: CompleteSessionMessage_def Let_def IncrementMessageCount_def)
qed

text \<open>
  an answer that is delivered again is stored again. The bus delivers at least once, and a second delivery of the completion of a run adds a second
  message with the same text and events, next to the first: nothing in the tables tells it from another answer.
\<close>

theorem redelivered_answer_twice:
  assumes "fresh_ids (sv_store sv)" "run_message ev" "rb_event (env_body ev) = RunEventRunCompleted" "rb_run_completed (env_body ev) = Some c"
    "GetSessionByPublicID (rt_session_id (env_route ev)) (sv_store sv) = Some s"
  shows "\<exists>rows m m'. st_messages (sv_store (handleRunStateMessage en' (Some ev, meta') (handleRunStateMessage en (Some ev, meta) sv))) = rows @ [m, m'] \<and>
     length rows = length (st_messages (sv_store sv)) \<and> sm_ID m' = sm_ID m + 1 \<and>
     sm_SessionID m = se_ID s \<and> sm_SessionID m' = se_ID s \<and> sm_DeletedAt m = None \<and> sm_DeletedAt m' = None \<and>
     sm_Role m = MessageRoleAssistant \<and> sm_Role m' = MessageRoleAssistant \<and>
     sm_Content m = ms_message (mc_result c) \<and> sm_Content m' = sm_Content m \<and> sm_Chunks m' = sm_Chunks m"
proof -
  let ?req = "completed_request_of ev c"
  let ?st1 = "snd (CompleteSessionMessage (env_now en) ?req (sv_store sv))"
  have q: "cq_SessionID ?req \<noteq> []" "GetSessionByPublicID (cq_SessionID ?req) (sv_store sv) = Some s"
    using assms(2,5) by (simp_all add: completed_request_of_def run_message_def)
  note one = CompleteSessionMessage_rows [OF assms(1) q, of "env_now en"]
  have f1: "fresh_ids ?st1" by (rule evolves_fresh [OF complete_evolves [OF assms(1)] assms(1)])
  have ses: "\<exists>s'. GetSessionByPublicID (cq_SessionID ?req) ?st1 = Some s' \<and> se_ID s' = se_ID s"
    by (rule complete_session [OF assms(1) q])
  then obtain s' where s': "GetSessionByPublicID (cq_SessionID ?req) ?st1 = Some s'" "se_ID s' = se_ID s" by blast
  note two = CompleteSessionMessage_rows [OF f1 q(1) s'(1), of "env_now en'"]
  show ?thesis
    unfolding completed_store [OF assms(2-4)] two(2) [unfolded one(2) answer_rows_def s'(2)] map_append list.map append_assoc append.simps
    by (rule exI, rule exI, rule exI, rule conjI, rule refl)
       (simp add: one(3) s'(2) completed_message_def row_consts, simp add: completed_request_of_def)
qed

lemma fresh_ids_iff: "fresh_ids st \<longleftrightarrow> distinct (map sm_ID (st_messages st)) \<and> (\<forall>i \<in> set (map sm_ID (st_messages st)). i < st_nextID st)"
  by (simp add: fresh_ids_def unique_ids_def)

text \<open>
  two answers can get one number. \<open>CompleteSessionMessage\<close> reads the next sequence number before the transaction that uses it. When two
  completions in one session both read it before either transaction runs, both answers are stored as live messages with that
  same number, so that the order of the session's transcript no longer tells them apart.
\<close>

theorem racing_answers_share_a_number:
  assumes "fresh_ids st" "q = GetNextSequence i st"
  shows "\<exists>m m'. m \<in> set (live_messages i (complete_transaction now' i q req' (complete_transaction now i q req st))) \<and>
     m' \<in> set (live_messages i (complete_transaction now' i q req' (complete_transaction now i q req st))) \<and>
     sm_ID m \<noteq> sm_ID m' \<and> sm_Sequence m = sm_Sequence m'"
proof -
  define row where "row now k req = (completed_message i q req)\<lparr>sm_ID := k, sm_CreatedAt := now, sm_UpdatedAt := now\<rparr>" for now k req
  let ?st1 = "complete_transaction now i q req st" and ?k = "st_nextID st"
  have role: "sm_Role (completed_message i q r) = MessageRoleAssistant" for r by (simp add: completed_message_def)
  have one: "st_messages ?st1 = answer_rows now i (cq_ReplyToMessageIDs req) MessageStatusCompleted (row now ?k req) (st_messages st)"
    "st_nextID ?st1 = ?k + 1"
    unfolding complete_transaction_def row_def by (rule answer_transaction [OF assms(1) role])+
  have "map sm_ID (st_messages ?st1) = map sm_ID (st_messages st) @ [?k]" unfolding one answer_rows_def by (simp add: row_def)
  then have f1: "fresh_ids ?st1" using assms(1) unfolding fresh_ids_iff one(2) by auto
  have two: "st_messages (complete_transaction now' i q req' ?st1) =
      answer_rows now' i (cq_ReplyToMessageIDs req') MessageStatusCompleted (row now' (?k + 1) req') (st_messages ?st1)"
    unfolding complete_transaction_def [of now' i q req'] row_def one(2) [symmetric] by (rule answer_transaction(1) [OF f1 role])
  have "row now ?k req \<in> set (live_messages i (complete_transaction now' i q req' ?st1)) \<and>
      row now' (?k + 1) req' \<in> set (live_messages i (complete_transaction now' i q req' ?st1))"
    unfolding live_messages_def two one answer_rows_def by (simp add: row_def completed_message_def row_consts)
  then show ?thesis by (intro exI [of _ "row now ?k req"] exI [of _ "row now' (?k + 1) req'"]) (simp add: row_def completed_message_def)
qed

section \<open>Witnesses\<close>

definition demo_run_event :: "string \<Rightarrow> run_event" where
  "demo_run_event kind =
     \<lparr>env_id = ''e'', env_type = MessageTypeRunEvent, env_created_at = 0, env_trace = no_trace,
      env_route = \<lparr>rt_org_id = 7, rt_session_id = ''s'', rt_worker_id = 1\<rparr>,
      env_body = \<lparr>rb_seq = 9, rb_event = kind, rb_payload = plain_payload [], rb_reply_to = [''1''],
        rb_run_completed = Some \<lparr>mc_status = ''completed'', mc_result = \<lparr>ms_message = ''hello''\<rparr>, mc_artifacts = [],
          mc_usage = None, mc_events = [], mc_started_at = [], mc_completed_at = [], mc_metadata = None\<rparr>,
        rb_error = None\<rparr>,
      env_metadata = Raw_empty\<rparr>"

definition demo_hi :: add_message_request where
  "demo_hi = \<lparr>am_Role = ''user'', am_Content = ''hi'', am_ExecutionMode = [], am_MessageType = [], am_Chunks = [],
     am_Attachments = [], am_Metadata = None, am_Usage = None\<rparr>"

definition demo_post :: post_env where
  "demo_post = \<lparr>pe_publish = \<lambda>_ _. None, pe_inferrer = None,
     pe_model = \<lambda>_. Some \<lparr>lm_Provider = ''p'', lm_ModelName = ''m'', lm_BaseURL = [], lm_BaseURLHasV1 = False, lm_APIKeyEncrypted = ''k''\<rparr>,
     pe_project = \<lambda>_. Some ''prj'', pe_task = \<lambda>_. Some ''task'', pe_callerOrg = None, pe_now = 5\<rparr>"

definition demo_env :: server_env where
  "demo_env = \<lparr>env_builtin = \<lambda>_. None, env_normalizeURI = \<lambda>s. s, env_newID = ''x'', env_now = 6\<rparr>"

definition demo_server :: server where
  "demo_server = \<lparr>sv_store = demo_store, sv_artifacts = demo_tables, sv_resources = [], sv_streamSeen = []\<rparr>"

definition demo_posted :: server where
  "demo_posted = demo_server\<lparr>sv_store := snd (snd (snd (PostMessage demo_post demo_session [] (buildMessage 4 demo_hi) demo_store)))\<rparr>"

definition demo_running :: server where
  "demo_running = handleRunStateMessage demo_env (Some (demo_run_event RunEventRunStarted), Some 3) demo_posted"

definition demo_answered :: server where
  "demo_answered = handleRunStateMessage demo_env (Some (demo_run_event RunEventRunCompleted), Some 4) demo_running"

lemma demo_posted_rows:
  "st_messages (sv_store demo_posted) = [posted_row demo_post demo_session 4 demo_hi demo_store]" "st_nextID (sv_store demo_posted) = 2"
proof -
  obtain err m out st where p: "PostMessage demo_post demo_session [] (buildMessage 4 demo_hi) demo_store = (err, m, out, st)"
    by (rule prod_cases4)
  from PostMessage_rows [OF p] show "st_messages (sv_store demo_posted) = [posted_row demo_post demo_session 4 demo_hi demo_store]"
    "st_nextID (sv_store demo_posted) = 2" by (simp_all add: demo_posted_def p) (simp_all add: demo_store_def)
qed

lemma demo_server_run: "server_run demo_server 3 demo_answered"
proof -
  have "server_run demo_server 0 demo_server" by (rule no_step)
  moreover have "server_step demo_server demo_posted"
  proof -
    have "GetSessionByPublicID ''s'' (sv_store demo_server) = Some demo_session"
      by (simp add: GetSessionByPublicID_def demo_server_def demo_store_def demo_session_def)
    moreover have "PostMessage demo_post demo_session [] (buildMessage 4 demo_hi) (sv_store demo_server) =
        (fst (PostMessage demo_post demo_session [] (buildMessage 4 demo_hi) demo_store),
         fst (snd (PostMessage demo_post demo_session [] (buildMessage 4 demo_hi) demo_store)),
         fst (snd (snd (PostMessage demo_post demo_session [] (buildMessage 4 demo_hi) demo_store))), sv_store demo_posted)"
      by (simp add: demo_posted_def demo_server_def)
    ultimately have "server_step demo_server (demo_server\<lparr>sv_store := sv_store demo_posted\<rparr>)" by (rule posted)
    then show ?thesis by (simp add: demo_posted_def)
  qed
  moreover have "server_step demo_posted demo_running" "server_step demo_running demo_answered"
    unfolding demo_running_def demo_answered_def by (rule state_message)+
  ultimately have "server_run demo_server (0 + 1 + 1 + 1) demo_answered" by (blast intro: one_more)
  then show ?thesis by (simp add: numeral_3_eq_3)
qed

lemma demo_server_empty: "st_messages (sv_store demo_server) = []"
  by (simp add: demo_server_def demo_store_def)

lemma demo_fresh: "fresh_ids (sv_store demo_posted)" "fresh_ids (sv_store demo_running)"
proof -
  show f: "fresh_ids (sv_store demo_posted)"
    by (simp add: fresh_ids_iff demo_posted_rows posted_row_def demo_store_def)
  show "fresh_ids (sv_store demo_running)"
    unfolding demo_running_def by (rule evolves_fresh [OF state_evolves [OF f] f])
qed

lemma demo_session_found:
  "GetSessionByPublicID ''s'' demo_store = Some demo_session"
  "\<exists>s. GetSessionByPublicID ''s'' (sv_store demo_posted) = Some s \<and> se_ID s = 4"
  "\<exists>s. GetSessionByPublicID ''s'' (sv_store demo_running) = Some s \<and> se_ID s = 4"
proof -
  show d: "GetSessionByPublicID ''s'' demo_store = Some demo_session"
    by (simp add: GetSessionByPublicID_def demo_store_def demo_session_def)
  have "publishWorkerTask demo_post demo_session m mode st =
      (fst (publishWorkerTask demo_post demo_session m mode st), fst (snd (publishWorkerTask demo_post demo_session m mode st)), st)" for m mode st
    by (simp add: publishWorkerTask_def allocated_session_def demo_post_def Let_def split: sum.split prod.split)
  then have "sv_store demo_posted = with_posted_row demo_post demo_session (posted_row demo_post demo_session 4 demo_hi demo_store) demo_store"
    unfolding demo_posted_def PostMessage_built Let_def by (simp split: prod.split) (metis prod.inject)
  then have "GetSessionByPublicID ''s'' (sv_store demo_posted) =
      GetSessionByPublicID ''s'' (UpdateLastMessageAt 5 4 5 (IncrementMessageCount 4 demo_store))"
    by (simp add: with_posted_row_def GetSessionByPublicID_def UpdateLastMessageAt_def IncrementMessageCount_def update_session_def
        demo_post_def demo_session_def)
  then show p: "\<exists>s. GetSessionByPublicID ''s'' (sv_store demo_posted) = Some s \<and> se_ID s = 4"
    by (simp add: GetSessionByPublicID_def demo_store_def demo_session_def UpdateLastMessageAt_def IncrementMessageCount_def update_session_def)
  have "st_sessions (foldl (start_message now req) st ms) = st_sessions st" for now req st ms
    by (induction ms arbitrary: st) (simp_all add: start_message_def)
  then have "st_sessions (snd (HandleSessionRunStarted now r st)) = st_sessions st" for now r st
    by (simp add: HandleSessionRunStarted_def Let_def split: option.split)
  then show "\<exists>s. GetSessionByPublicID ''s'' (sv_store demo_running) = Some s \<and> se_ID s = 4"
    using p by (simp add: demo_running_def handle_ended(4) run_message_def demo_run_event_def started_store GetSessionByPublicID_def)
qed

lemma demo_run_message: "run_message (demo_run_event kind)" "env_route (demo_run_event kind) = \<lparr>rt_org_id = 7, rt_session_id = ''s'', rt_worker_id = 1\<rparr>"
  "rb_event (env_body (demo_run_event kind)) = kind" "rb_reply_to (env_body (demo_run_event kind)) = [''1'']"
  by (simp_all add: run_message_def demo_run_event_def)



lemma ended_run_stored_witness:
  "\<exists>row. last (st_messages (sv_store demo_answered)) = row \<and> sm_Content row = ''hello'' \<and> sm_Status row = MessageStatusCompleted"
proof -
  obtain s where s: "GetSessionByPublicID (rt_session_id (env_route (demo_run_event RunEventRunCompleted))) (sv_store demo_running) = Some s"
    using demo_session_found(3) by (auto simp: demo_run_message)
  obtain c where c: "rb_run_completed (env_body (demo_run_event RunEventRunCompleted)) = Some c" "ms_message (mc_result c) = ''hello''"
    by (simp add: demo_run_event_def)
  have "rb_event (env_body (demo_run_event RunEventRunCompleted)) = RunEventRunCompleted \<and>
      rb_run_completed (env_body (demo_run_event RunEventRunCompleted)) = Some c \<or>
      rb_event (env_body (demo_run_event RunEventRunCompleted)) \<in> {RunEventRunFailed, RunEventRunCancelled}"
    using c by (simp add: demo_run_message)
  from ended_run_stored [OF demo_fresh(2) demo_run_message(1) s this, of demo_env "Some 4"] c(2) show ?thesis
    by (fastforce simp: demo_answered_def demo_run_message)
qed

lemma first_start_wins_witness:
  "st_messages (sv_store (handleRunStateMessage (demo_env\<lparr>env_now := 9\<rparr>) (Some (demo_run_event RunEventRunStarted), Some 8) demo_running)) =
   st_messages (sv_store demo_running)"
  using first_start_wins [of demo_posted "demo_run_event RunEventRunStarted" 3 "demo_run_event RunEventRunStarted"] demo_fresh(1)
  by (simp add: demo_running_def demo_run_message fresh_ids_def)

lemma redelivered_answer_twice_witness:
  "\<exists>rows m m'. st_messages (sv_store (handleRunStateMessage demo_env (Some (demo_run_event RunEventRunCompleted), Some 4) demo_answered)) =
     rows @ [m, m'] \<and> length rows = length (st_messages (sv_store demo_running)) \<and> sm_Content m = ''hello'' \<and> sm_Content m' = ''hello''"
proof -
  obtain s where s: "GetSessionByPublicID (rt_session_id (env_route (demo_run_event RunEventRunCompleted))) (sv_store demo_running) = Some s"
    using demo_session_found(3) by (auto simp: demo_run_message)
  obtain c where c: "rb_run_completed (env_body (demo_run_event RunEventRunCompleted)) = Some c" "ms_message (mc_result c) = ''hello''"
    by (simp add: demo_run_event_def)
  from redelivered_answer_twice [OF demo_fresh(2) demo_run_message(1) demo_run_message(3) c(1) s, of demo_env "Some 4" demo_env "Some 4"] c(2)
  show ?thesis unfolding demo_answered_def by fastforce
qed

lemma racing_answers_share_a_number_witness:
  "\<exists>m m'. sm_ID m \<noteq> sm_ID m' \<and> sm_Sequence m = sm_Sequence m' \<and>
     {m, m'} \<subseteq> set (live_messages 4 (complete_transaction 8 4 (GetNextSequence 4 (sv_store demo_posted))
       (completed_request_of (demo_run_event RunEventRunCompleted) (the (rb_run_completed (env_body (demo_run_event RunEventRunCompleted)))))
       (complete_transaction 7 4 (GetNextSequence 4 (sv_store demo_posted))
       (completed_request_of (demo_run_event RunEventRunCompleted) (the (rb_run_completed (env_body (demo_run_event RunEventRunCompleted)))))
       (sv_store demo_posted))))"
  using racing_answers_share_a_number [OF demo_fresh(1) refl] by (fastforce simp del: One_nat_def)

end
