(* ===== verification/Pipeline.thy ===== *)
theory Pipeline
  imports ServerRuns
begin

text \<open>
  From a user's message to its answer, across the server and the worker: what \<open>PostMessage\<close> (\<open>Poster\<close>) hands to the bus is
  what the worker's \<open>HandleRunCommand\<close> (\<open>RunHandler\<close>) submits to its coordinator; what the sink of that submission (\<open>NatsSink\<close>)
  publishes at the end of the run is what the consumer of the state lane (\<open>RunState\<close>) stores as the answer to that message.
\<close>

section \<open>The command of a posted message\<close>

lemma publishWorkerTask_out:
  assumes "publishWorkerTask pe session m mode st = (err, [(topic, cmd)], st')"
  defines "orgID \<equiv> if se_OrgID session = 0 then (case pe_callerOrg pe of Some i \<Rightarrow> i | None \<Rightarrow> 0) else se_OrgID session"
  defines "session' \<equiv> allocated_session pe orgID session"
  obtains project task model where
    "WorkerCommandSubject orgID (se_AllocatedAssistantID session') LaneRun = Inr topic"
    "resolveWorkerTaskModel pe orgID = Inr model" "cmd = run_command_of (pe_now pe) orgID session' m mode project task model"
    "err = map_option Command_not_published (pe_publish pe topic cmd)"
  using assms(1) unfolding publishWorkerTask_def orgID_def [symmetric] Let_def session'_def [symmetric]
  by (cases "WorkerCommandSubject orgID (se_AllocatedAssistantID session') LaneRun"; cases "resolveWorkspaceIDs pe session'";
      cases "resolveWorkerTaskModel pe orgID") (auto split: if_splits prod.splits)

lemma resolved_model:
  assumes "resolveWorkerTaskModel pe orgID = Inr model"
  shows "trim_space (mo_provider model) \<noteq> []" "trim_space (mo_model model) \<noteq> []" "trim_space (mo_api_key model) \<noteq> []"
  using assms by (auto simp: resolveWorkerTaskModel_def split: option.splits if_splits)

lemma allocated_public [simp]: "se_PublicID (allocated_session pe orgID session) = se_PublicID session"
  "se_ID (allocated_session pe orgID session) = se_ID session"
  by (simp_all add: allocated_session_def split: option.split)

lemma one_id:
  assumes "0 < i" "i < 2 ^ 64"
  shows "dedupMessageIDs (RunHandler.replyToMessageIDs [\<lparr>cm_id = show_nat i, cm_role = role, cm_content = text'\<rparr>]) = [show_nat i]"
    and "replyMessageIDs [show_nat i] [] = [i]"
proof -
  have t: "trim_id (show_nat i) = Some (show_nat i)" by (simp add: trim_id_def)
  then show "dedupMessageIDs (RunHandler.replyToMessageIDs [\<lparr>cm_id = show_nat i, cm_role = role, cm_content = text'\<rparr>]) = [show_nat i]"
    by (simp add: dedupMessageIDs_def replyToMessageIDs_def elems_def)
  have "id_of_text (show_nat i) = Some i" using assms by (simp add: id_of_text_def parse_show_nat)
  then show "replyMessageIDs [show_nat i] [] = [i]" by (simp add: replyMessageIDs_def Let_def)
qed

lemma run_command_built:
  "\<exists>mid trace md. run_command_of now orgID session m mode project task model =
     NewRunCommand now mid \<lparr>rt_org_id = orgID, rt_session_id = se_PublicID session, rt_worker_id = se_AllocatedAssistantID session\<rparr> trace
       (run_payload_of session m mode project (if task = [] then ''task_'' @ show_nat (sm_ID m) else task) model) md"
  unfolding run_command_of_def Let_def by blast

lemma run_command_route: "env_route (run_command_of now orgID session m mode project task model) =
   \<lparr>rt_org_id = orgID, rt_session_id = se_PublicID session, rt_worker_id = se_AllocatedAssistantID session\<rparr>"
  by (simp add: run_command_of_def Let_def NewRunCommand_def)

lemma worker_submits:
  assumes cmd: "cmd = run_command_of now orgID session m mode project task model"
    and model: "trim_space (mo_provider model) \<noteq> []" "trim_space (mo_model model) \<noteq> []" "trim_space (mo_api_key model) \<noteq> []"
    and cfg: "hc_OrgID cfg = orgID" "hc_WorkerID cfg = se_AllocatedAssistantID session"
    and q: "q \<noteq> 0" "IsTerminal (RunSubject cfg) q db \<noteq> Inr True"
  obtains sub where "hr_submitted (HandleRunCommand cfg errText submit clk cmd (Some q) (Some db)) = Some sub"
    "hr_err (HandleRunCommand cfg errText submit clk cmd (Some q) (Some db)) = map_option Submit_error (submit sub)"
    "input_messages sub = [\<lparr>dm_Role = MessageRoleUser, dm_Content = sm_Content m\<rparr>]" "sb_DeliverySeqs sub = Some [q]"
    "ec_OrgID (sb_EventContext sub) = orgID" "ec_SessionID (sb_EventContext sub) = se_PublicID session"
    "ec_ReplyToMessageIDs (sb_EventContext sub) =
       RunHandler.replyToMessageIDs [\<lparr>cm_id = show_nat (sm_ID m), cm_role = MessageRoleUser, cm_content = sm_Content m\<rparr>]"
proof -
  let ?p = "run_payload_of session m mode project (if task = [] then ''task_'' @ show_nat (sm_ID m) else task) model"
  let ?route = "\<lparr>rt_org_id = orgID, rt_session_id = se_PublicID session, rt_worker_id = se_AllocatedAssistantID session\<rparr>"
  obtain mid trace md where c: "cmd = NewRunCommand now mid ?route trace ?p md"
    unfolding cmd using run_command_built [of now orgID session m mode project task model] by blast
  let ?task = "(task_of (NewRunCommand now mid ?route trace ?p md) ?p)\<lparr>rk_DeliverySeqs := Some [q]\<rparr>"
  have "HandleRunCommand cfg errText submit clk cmd (Some q) (Some db) =
      run_task_tracked cfg errText submit clk (task_of (NewRunCommand now mid ?route trace ?p md) ?p) (Some q) (Some db)"
    unfolding c using model cfg by (intro handle_built) (simp_all add: run_payload_of_def int64_range_def)
  then have "hr_submitted (HandleRunCommand cfg errText submit clk cmd (Some q) (Some db)) = Some (submission_of ?task)"
    "hr_err (HandleRunCommand cfg errText submit clk cmd (Some q) (Some db)) = map_option Submit_error (submit (submission_of ?task))"
    using q by (simp_all add: run_task_tracked_def Let_def)
  then show thesis
    by (rule that) (simp_all add: submission_of_def task_of_def NewRunCommand_def run_payload_of_def input_messages_def
        RequestFromWorkerTask_def inputMessagesFromTask_def)
qed

section \<open>The answer\<close>

lemma answer_of_sink:
  assumes "fresh_ids (sv_store sv)" "GetSessionByPublicID (ec_SessionID ctx) (sv_store sv) = Some s" "ec_SessionID ctx \<noteq> []"
    and "dec_terminal (aev_payload e) = Some tp"
    and m: "m \<in> set (st_messages (sv_store sv))" "sm_DeletedAt m = None" "sm_SessionID m = se_ID s" "sm_Role m = MessageRoleUser"
    and ids: "replyMessageIDs (dedupMessageIDs (ec_ReplyToMessageIDs ctx)) [] = [sm_ID m]"
  shows "\<exists>row. sm_Role row = MessageRoleAssistant \<and> sm_SessionID row = se_ID s \<and> sm_Content row = tpl_message tp \<and>
    st_messages (sv_store (handleRunStateMessage en (Some (run_event_of t (NewNATSEventSink ctx) RunEventRunCompleted e), meta) sv)) =
      map (\<lambda>r. if r = m then r\<lparr>sm_Status := MessageStatusCompleted, sm_UpdatedAt := env_now en\<rparr> else r) (st_messages (sv_store sv)) @ [row]"
proof -
  let ?ev = "run_event_of t (NewNATSEventSink ctx) RunEventRunCompleted e"
  let ?req = "completed_request_of ?ev (run_completed_of tp)"
  have ev: "run_message ?ev" "rb_event (env_body ?ev) = RunEventRunCompleted" "rb_run_completed (env_body ?ev) = Some (run_completed_of tp)"
    "rb_reply_to (env_body ?ev) = dedupMessageIDs (ec_ReplyToMessageIDs ctx)" "rt_session_id (env_route ?ev) = ec_SessionID ctx"
    using assms(3,4) by (simp_all add: run_message_def run_event_of_def NewNATSEventSink_def run_completed_field_def isTerminalRunEvent_def)
  have q: "cq_SessionID ?req \<noteq> []" "GetSessionByPublicID (cq_SessionID ?req) (sv_store sv) = Some s"
    using assms(2,3) by (simp_all add: completed_request_of_def ev)
  have "targets (se_ID s) [sm_ID m] r \<and> sm_Role r = MessageRoleUser \<longleftrightarrow> r = m" if "r \<in> set (st_messages (sv_store sv))" for r
    using that m unique_ids_eq [of "sv_store sv" r m] assms(1) by (auto simp: targets_def fresh_ids_def)
  then have rows: "map (\<lambda>r. if targets (se_ID s) [sm_ID m] r \<and> sm_Role r = MessageRoleUser
        then r\<lparr>sm_Status := MessageStatusCompleted, sm_UpdatedAt := env_now en\<rparr> else r) (st_messages (sv_store sv)) =
      map (\<lambda>r. if r = m then r\<lparr>sm_Status := MessageStatusCompleted, sm_UpdatedAt := env_now en\<rparr> else r) (st_messages (sv_store sv))"
    by (intro map_cong refl) simp
  have reply: "replyMessageIDs (cq_ReplyToMessageIDs ?req) [] = [sm_ID m]" by (simp add: completed_request_of_def ev ids)
  show ?thesis
    unfolding completed_store [OF ev(1-3)] CompleteSessionMessage_rows(2) [OF assms(1) q] answer_rows_def reply rows
    by (intro exI [of _ "(completed_message (se_ID s) (GetNextSequence (se_ID s) (sv_store sv)) ?req)
         \<lparr>sm_ID := st_nextID (sv_store sv), sm_CreatedAt := env_now en, sm_UpdatedAt := env_now en\<rparr>"])
       (simp add: completed_message_def, simp add: completed_request_of_def run_completed_of_def)
qed

text \<open>
  C3: a posted message is answered. When \<open>PostMessage\<close> succeeds and publishes a command for a message, the command goes to the subject that the
  allocated worker consumes; the handler of that worker, for a delivery it has not settled, submits exactly the message's text to its
  coordinator, as a user's message; and when the sink of that submission publishes the completion of the run, the server, as long as the message and its session are still
  there, marks the message completed, changes no other message, and stores the run's text as the session's next message.
\<close>

theorem posted_message_answered:
  assumes post: "PostMessage pe session mode (buildMessage now req) st = (None, m, [(topic, cmd)], st')" "am_Role req = MessageRoleUser"
      "0 < st_nextID st" "st_nextID st < 2 ^ 64" "se_PublicID session \<noteq> []"
    and worker: "hc_OrgID cfg = rt_org_id (env_route cmd)" "hc_WorkerID cfg = rt_worker_id (env_route cmd)"
      "q \<noteq> 0" "IsTerminal (RunSubject cfg) q db \<noteq> Inr True"
    and run: "dec_terminal (aev_payload e) = Some tp"
    and server: "fresh_ids (sv_store sv)" "GetSessionByPublicID (se_PublicID session) (sv_store sv) = Some s" "se_ID s = se_ID session"
      "m' \<in> set (st_messages (sv_store sv))" "kept m m'" "sm_DeletedAt m' = None"
  shows "\<exists>sub row. topic = RunSubject cfg \<and>
    hr_submitted (HandleRunCommand cfg errText submit clk cmd (Some q) (Some db)) = Some sub \<and>
    input_messages sub = [\<lparr>dm_Role = MessageRoleUser, dm_Content = am_Content req\<rparr>] \<and>
    sm_Role row = MessageRoleAssistant \<and> sm_SessionID row = se_ID session \<and> sm_Content row = tpl_message tp \<and>
    st_messages (sv_store (handleRunStateMessage en
        (Some (run_event_of t (NewNATSEventSink (sb_EventContext sub)) RunEventRunCompleted e), meta) sv)) =
      map (\<lambda>r. if r = m' then r\<lparr>sm_Status := MessageStatusCompleted, sm_UpdatedAt := env_now en\<rparr> else r) (st_messages (sv_store sv)) @ [row]"
proof -
  let ?m = "posted_row pe session now req st"
  have m: "m = ?m" by (rule PostMessage_rows(1) [OF post(1)])
  have "publishWorkerTask pe session ?m mode (with_posted_row pe session ?m st) = (None, [(topic, cmd)], st')"
    using post(1) unfolding PostMessage_built Let_def by (auto split: prod.splits)
  then obtain orgID session' project task model where
    out: "WorkerCommandSubject orgID (se_AllocatedAssistantID session') LaneRun = Inr topic" "se_PublicID session' = se_PublicID session"
      "resolveWorkerTaskModel pe orgID = Inr model" "cmd = run_command_of (pe_now pe) orgID session' ?m mode project task model"
    by (rule publishWorkerTask_out) auto
  have cfg: "hc_OrgID cfg = orgID" "hc_WorkerID cfg = se_AllocatedAssistantID session'"
    using worker(1,2) by (simp_all add: out(4) run_command_route)
  obtain sub where sub: "hr_submitted (HandleRunCommand cfg errText submit clk cmd (Some q) (Some db)) = Some sub"
    "input_messages sub = [\<lparr>dm_Role = MessageRoleUser, dm_Content = sm_Content ?m\<rparr>]"
    "ec_SessionID (sb_EventContext sub) = se_PublicID session"
    "ec_ReplyToMessageIDs (sb_EventContext sub) =
       RunHandler.replyToMessageIDs [\<lparr>cm_id = show_nat (sm_ID ?m), cm_role = MessageRoleUser, cm_content = sm_Content ?m\<rparr>]"
    using worker_submits [OF out(4) resolved_model [OF out(3)] cfg worker(3,4), of errText submit clk] unfolding out(2) by blast
  have row: "sm_ID ?m = st_nextID st" "sm_Content ?m = am_Content req" "sm_Role ?m = MessageRoleUser" "sm_SessionID ?m = se_ID session"
    using post(2) by (simp_all add: posted_row_def buildMessage_def)
  have m': "sm_ID m' = st_nextID st" "sm_SessionID m' = se_ID s" "sm_Role m' = MessageRoleUser"
    using server(3,5) row unfolding m by (simp_all add: kept_def)
  have "replyMessageIDs (dedupMessageIDs (ec_ReplyToMessageIDs (sb_EventContext sub))) [] = [sm_ID m']"
    unfolding sub(4) m'(1) row(1) one_id(1) [OF post(3,4)] by (rule one_id(2) [OF post(3,4)])
  from answer_of_sink [OF server(1) _ _ run server(4,6) m'(2,3) this, unfolded sub(3), OF server(2) post(5), where t = t and en = en and meta = meta]
  obtain row where "sm_Role row = MessageRoleAssistant" "sm_SessionID row = se_ID s" "sm_Content row = tpl_message tp"
    "st_messages (sv_store (handleRunStateMessage en
        (Some (run_event_of t (NewNATSEventSink (sb_EventContext sub)) RunEventRunCompleted e), meta) sv)) =
      map (\<lambda>r. if r = m' then r\<lparr>sm_Status := MessageStatusCompleted, sm_UpdatedAt := env_now en\<rparr> else r) (st_messages (sv_store sv)) @ [row]"
    by blast
  moreover have "topic = RunSubject cfg" using out(1) by (simp add: RunSubject_def cfg)
  ultimately show ?thesis using sub(1,2) server(3) by (intro exI [of _ sub] exI [of _ row]) (simp add: row(2))
qed

lemma posted_message_answered_witness:
  "\<exists>(sv' :: server) row. st_messages (sv_store sv') = [(posted_row demo_post demo_session 4 demo_hi demo_store)
      \<lparr>sm_Status := MessageStatusCompleted, sm_UpdatedAt := 6\<rparr>, row] \<and> sm_Content row = ''bye''"
proof -
  let ?m = "posted_row demo_post demo_session 4 demo_hi demo_store"
  define tp where "tp = \<lparr>tpl_status = ''completed'', tpl_message = ''bye'', tpl_error = [], tpl_usage = None, tpl_tool_calls = [],
    tpl_artifacts = [], tpl_started_at = [], tpl_completed_at = [], tpl_metadata = None, tpl_events = []\<rparr>"
  define e where "e = (empty_event ''run.completed'')\<lparr>aev_payload := Raw (JObj (enc_terminal_payload tp))\<rparr>"
  have "wf_terminal_payload tp" by (simp add: tp_def wf_terminal_payload_def)
  then have d: "dec_terminal (aev_payload e) = Some tp" by (simp add: e_def dec_terminal_def)
  let ?post = "PostMessage demo_post demo_session [] (buildMessage 4 demo_hi) demo_store"
  obtain cmd st' where post: "?post = (None, ?m, [(''org.7.worker.1.cmd.run'', cmd)], st')"
    and route: "rt_org_id (env_route cmd) = 7" "rt_worker_id (env_route cmd) = 1"
  proof -
    have s: "WorkerCommandSubject 7 1 LaneRun = Inr ''org.7.worker.1.cmd.run''" by code_simp
    have ne: "trim_space ''p'' \<noteq> []" "trim_space ''m'' \<noteq> []" "trim_space ''k'' \<noteq> []" by code_simp+
    have pe: "allocated_session demo_post 7 demo_session = demo_session" "resolveWorkspaceIDs demo_post demo_session = Inr (''prj'', ''task'')"
      "resolveWorkerTaskModel demo_post 7 = Inr \<lparr>mo_provider = ''p'', mo_model = ''m'', mo_base_url = [], mo_base_url_has_v1 = False, mo_api_key = ''k''\<rparr>"
      using ne by (simp_all add: allocated_session_def resolveWorkspaceIDs_def resolveWorkerTaskModel_def demo_post_def demo_session_def)
    have "se_OrgID demo_session = 7" "se_AllocatedAssistantID demo_session = 1" "pe_publish demo_post = (\<lambda>_ _. None)"
      by (simp_all add: demo_session_def demo_post_def)
    note dp = this
    show thesis
    proof (rule that [where cmd = "run_command_of (pe_now demo_post) 7 demo_session ?m [] ''prj'' ''task''
             \<lparr>mo_provider = ''p'', mo_model = ''m'', mo_base_url = [], mo_base_url_has_v1 = False, mo_api_key = ''k''\<rparr>"
            and st' = "with_posted_row demo_post demo_session ?m demo_store"])
      show "?post = (None, ?m, [(''org.7.worker.1.cmd.run'', run_command_of (pe_now demo_post) 7 demo_session ?m [] ''prj'' ''task''
             \<lparr>mo_provider = ''p'', mo_model = ''m'', mo_base_url = [], mo_base_url_has_v1 = False, mo_api_key = ''k''\<rparr>)],
           with_posted_row demo_post demo_session ?m demo_store)"
        using s pe dp by (simp add: PostMessage_built Let_def publishWorkerTask_def)
    qed (simp_all add: run_command_route dp)
  qed
  have sv: "?m \<in> set (st_messages (sv_store demo_posted))" "sm_DeletedAt ?m = None" by (simp_all add: demo_posted_rows posted_row_def buildMessage_def)
  have hi: "am_Role demo_hi = MessageRoleUser" "0 < st_nextID demo_store" "st_nextID demo_store < 2 ^ 64" "se_PublicID demo_session \<noteq> []"
    by (simp_all add: demo_hi_def demo_store_def demo_session_def row_consts)
  obtain s where s: "GetSessionByPublicID (se_PublicID demo_session) (sv_store demo_posted) = Some s" "se_ID s = se_ID demo_session"
    using demo_session_found(2) by (auto simp: demo_session_def)
  have fresh: "IsTerminal (RunSubject \<lparr>hc_OrgID = 7, hc_WorkerID = 1\<rparr>) 5 [] \<noteq> Inr True" by (simp add: IsTerminal_def hasStatus_def high_bit_def)
  have five: "(5 :: nat) \<noteq> 0" by simp
  from posted_message_answered [OF post hi, of "\<lparr>hc_OrgID = 7, hc_WorkerID = 1\<rparr>", unfolded route handler_config.simps, OF refl refl five fresh d
      demo_fresh(1) s sv(1) kept_refl sv(2), of id "\<lambda>_. None" "\<lparr>at_received = 1, at_processing = 2, at_settled = 3\<rparr>" demo_env 0 "Some 4"]
  obtain sv' :: server and row where "st_messages (sv_store sv') = map (\<lambda>r. if r = ?m then r\<lparr>sm_Status := MessageStatusCompleted, sm_UpdatedAt := env_now demo_env\<rparr>
      else r) (st_messages (sv_store demo_posted)) @ [row]" "sm_Content row = tpl_message tp"
    by (elim exE conjE) (rule that, assumption+)
  then show ?thesis by (intro exI [of _ sv'] exI [of _ row]) (simp add: demo_posted_rows demo_env_def tp_def)
qed

end
