(* ===== verification/Settling.thy ===== *)
theory Settling
  imports Coordinator
begin

text \<open>
  Termination of the worker's run coordinator (theory Coordinator). A step of the system is its own unless it is a
  new \<open>Submit\<close> or a \<open>Cancel\<close> from outside. A measure of the work that a state still holds decreases with every own
  step, and a state that is not at rest has an own step that no caller's patience is needed for.

  Lemmas: what each operation of the debouncer and of the coordinator does to the measure; the measure decreases;
  every state has a step towards rest; from every state the system can come to rest with every caller answered.
\<close>

section \<open>The measure\<close>

definition own_step :: "'r coord_sys \<Rightarrow> 'r coord_sys \<Rightarrow> bool" where
  "own_step s t \<longleftrightarrow> coord_step s t \<and> size (cs_begun t) \<le> size (cs_begun s) \<and> t \<noteq> s\<lparr>cs_cancelled := cs_cancelled t\<rparr>"

definition pending_keys :: "('c, 'v) debouncer \<Rightarrow> string set" where
  "pending_keys d = {key. pending_of d key \<noteq> None}"

fun phase_work :: "'r phase \<Rightarrow> nat" where
  "phase_work Wait_slot = 5"
| "phase_work Held = 4"
| "phase_work (Exec _) = 3"
| "phase_work (Ran _) = 2"
| "phase_work (Sending ws _) = 1 + length ws"

definition jobs_work :: "'r job multiset \<Rightarrow> nat" where
  "jobs_work jobs = (\<Sum>j\<in>#jobs. phase_work (jb_phase j))"

definition work :: "'r coord_sys \<Rightarrow> nat" where
  "work s = 10 * size (cs_begun s) + size (sy_fires (cs_deb s)) + 5 * card (pending_keys (sy_deb (cs_deb s))) +
     jobs_work (cs_jobs s) + card (cs_waiting s) + 2 * card (co_pending (cs_co s)) + length (cs_close_sends s) +
     (if co_closed (cs_co s) then 0 else 1)"

definition finite_inv :: "'r coord_sys \<Rightarrow> bool" where
  "finite_inv s \<longleftrightarrow> finite (pending_keys (sy_deb (cs_deb s))) \<and> finite (co_pending (cs_co s)) \<and> finite (cs_waiting s)"

lemma jobs_work_simps [simp]:
  "jobs_work {#} = 0"
  "jobs_work (add_mset j jobs) = phase_work (jb_phase j) + jobs_work jobs"
  "jobs_work (start_job key r jobs) = (if r = None then 0 else 5) + jobs_work jobs"
  by (auto simp: jobs_work_def start_job_def split: option.split)

lemma pending_keys_call:
  assumes "deb_call (Some m) ctx key v d = (d', Some q)"
  shows "pending_keys d' = insert key (pending_keys d)"
  by (auto simp: pending_keys_def deb_call_pending [OF assms])

lemma pending_keys_taken:
  assumes "\<And>k. pending_of d' k = (if r \<noteq> None \<and> k = key then None else pending_of d k)"
    "\<And>c v. r = Some (c, v) \<Longrightarrow> pending_of d key = Some v" "finite (pending_keys d)"
  shows "finite (pending_keys d') \<and> 5 * card (pending_keys d') + (if r = None then 0 else 5) \<le> 5 * card (pending_keys d)"
proof (cases r)
  case None
  with assms show ?thesis by (simp add: pending_keys_def)
next
  case (Some cv)
  obtain c v where "cv = (c, v)" by fastforce
  with assms(2) Some have "key \<in> pending_keys d" by (simp add: pending_keys_def)
  moreover have "pending_keys d' = pending_keys d - {key}" using assms(1) Some by (auto simp: pending_keys_def)
  moreover have "card (pending_keys d) = Suc (card (pending_keys d - {key}))"
    using calculation(1) assms(3) by (simp only: card_Suc_Diff1)
  ultimately show ?thesis using assms(3) Some by simp
qed

lemma pending_keys_close: "pending_keys (deb_close d) \<subseteq> pending_keys d"
  by (auto simp: pending_keys_def dest: deb_close_pending)

lemma notify_work:
  assumes "notifyWaiters ws c = (chs, c')" "finite (co_pending c)"
  shows "finite (co_pending c') \<and> 2 * card (co_pending c') + 2 * length chs = 2 * card (co_pending c)"
proof -
  note nw = notifyWaiters_spec [OF assms(1)]
  have "card (co_pending c) = card (co_pending c - set ws) + card (co_pending c \<inter> set ws)"
    using assms(2) by (metis card_Diff_subset_Int Int_lower1 add.commute card_mono finite_Int le_add_diff_inverse2)
  moreover have "length chs = card (co_pending c \<inter> set ws)" using nw(2,3) by (simp flip: distinct_card)
  ultimately show ?thesis using nw(1) assms(2) by simp
qed

lemma insert_card: "finite A \<Longrightarrow> card (insert x A) \<le> card A + 1"
  by (simp add: card_insert_if)

lemma fires_stopped: "size (add_mset x (F - stopped)) \<le> size F + 1"
  by (simp add: size_mset_mono)

section \<open>Every own step works some of it off\<close>

lemma work_step:
  assumes "coord_step s t" "finite_inv s" "closed_inv s"
  shows "finite_inv t \<and> (work t < work s \<or> size (cs_begun s) < size (cs_begun t) \<or> t = s\<lparr>cs_cancelled := cs_cancelled t\<rparr>)"
  using assms(1)
proof cases
  case (submit c' sub ctx)
  then show ?thesis using assms(2) by (auto simp: finite_inv_def beginSubmission_def split: if_splits)
next
  case (schedule ctx sub rest key c' w sub' d' q stopped)
  note rw = registerWaiter_cases [OF schedule(6)]
  have fin: "finite (pending_keys (sy_deb (cs_deb s)))" "finite (co_pending (cs_co s))" "finite (cs_waiting s)"
    using assms(2) by (simp_all add: finite_inv_def)
  note i = insert_card [OF fin(1), of key] insert_card [OF fin(2), of w] insert_card [OF fin(3), of w]
    fires_stopped [of "(key, q)" "sy_fires (cs_deb s)" stopped]
  show ?thesis using i fin schedule(1,2) rw pending_keys_call [OF schedule(7)]
    by (simp add: work_def finite_inv_def)
next
  case (fire key q d' r)
  note tp = takeReady_pending [OF fire(3)]
  have "size (sy_fires (cs_deb s) - {#(key, q)#}) < size (sy_fires (cs_deb s))"
    using fire(2) by (rule size_Diff1_less)
  moreover have "finite (pending_keys d') \<and> 5 * card (pending_keys d') + (if r = None then 0 else 5) \<le>
      5 * card (pending_keys (sy_deb (cs_deb s)))"
    by (rule pending_keys_taken [of _ _ key]) (use tp assms(2) in \<open>auto simp: finite_inv_def\<close>)
  ultimately show ?thesis using assms(2) fire(1) by (simp add: work_def finite_inv_def)
next
  case (notify j rest rr chs c')
  have "finite (co_pending (cs_co s))" using assms(2) by (simp add: finite_inv_def)
  note nw = notify_work [OF notify(5) this] notifyWaiters_spec(1) [OF notify(5)]
  then show ?thesis using assms(2) notify(1-3) by (simp add: work_def finite_inv_def)
next
  case (handled j rest rr d' r)
  note fp = finishRun_pending [OF handled(4)]
  have "finite (pending_keys d') \<and> 5 * card (pending_keys d') + (if r = None then 0 else 5) \<le>
      5 * card (pending_keys (sy_deb (cs_deb s)))"
    by (rule pending_keys_taken [of _ _ "jb_key j"]) (use fp assms(2) in \<open>auto simp: finite_inv_def\<close>)
  then show ?thesis using assms(2) handled(1-3) by (simp add: work_def finite_inv_def)
next
  case (receive w rr)
  then have "card (cs_waiting s - {w}) < card (cs_waiting s)"
    using assms(2) by (intro card_Diff1_less) (auto simp: finite_inv_def)
  then show ?thesis using assms(2) receive(1) by (simp add: work_def finite_inv_def)
next
  case (abandon w)
  then have "card (cs_waiting s - {w}) < card (cs_waiting s)"
    using assms(2) by (intro card_Diff1_less) (auto simp: finite_inv_def)
  moreover have "card (co_pending (cs_co s) - {w}) \<le> card (co_pending (cs_co s))" by (rule card_Diff1_le)
  ultimately show ?thesis using assms(2) abandon(1) by (simp add: work_def finite_inv_def)
next
  case (close order fires')
  have "finite (pending_keys (sy_deb (cs_deb s)))" using assms(2) by (simp add: finite_inv_def)
  then have "card (pending_keys (deb_close (sy_deb (cs_deb s)))) \<le> card (pending_keys (sy_deb (cs_deb s)))"
    "finite (pending_keys (deb_close (sy_deb (cs_deb s))))"
    using pending_keys_close [of "sy_deb (cs_deb s)"] by (auto intro: card_mono finite_subset)
  moreover have "size fires' \<le> size (sy_fires (cs_deb s))" using close(5) by (rule size_mset_mono)
  moreover have "length order = card (co_pending (cs_co s))" using close(3,4) by (simp flip: distinct_card)
  moreover have "cs_close_sends s = []" using assms(3) close(2) by (simp add: closed_inv_def)
  ultimately show ?thesis using assms(2) close(1,2) by (simp add: work_def finite_inv_def)
qed (use assms(2) in \<open>simp_all add: work_def finite_inv_def\<close>)

lemma coord_reach_finite: "coord_reach m w s \<Longrightarrow> finite_inv s"
proof (induction rule: coord_reach.induct)
  case init
  show ?case by (simp add: finite_inv_def coord_init_def deb_init_def pending_keys_def pending_of_def)
next
  case (step s t)
  then show ?case using work_step [OF step.hyps(2)] coord_reach_inv [OF step.hyps(1)] by (simp add: coord_inv_def)
qed

lemma own_work:
  assumes "coord_reach m w s" "own_step s t"
  shows "coord_reach m w t \<and> work t < work s"
proof -
  have st: "coord_step s t" using assms(2) by (simp add: own_step_def)
  have "closed_inv s" using coord_reach_inv [OF assms(1)] by (simp add: coord_inv_def)
  from work_step [OF st coord_reach_finite [OF assms(1)] this] assms(2) coord_reach.step [OF assms(1) st]
  show ?thesis by (auto simp: own_step_def)
qed

lemma own_steps_bounded: "coord_reach m w s \<Longrightarrow> (own_step ^^ n) s t \<Longrightarrow> coord_reach m w t \<and> n + work t \<le> work s"
proof (induction n arbitrary: t)
  case (Suc n)
  from Suc.prems(2) obtain u where "(own_step ^^ n) s u" "own_step u t" by auto
  with Suc.IH [OF Suc.prems(1), of u] own_work [of m w u t] show ?case by auto
qed simp

section \<open>Towards rest\<close>

definition at_rest :: "'r coord_sys \<Rightarrow> bool" where
  "at_rest s \<longleftrightarrow> cs_jobs s = {#} \<and> sy_fires (cs_deb s) = {#} \<and> cs_close_sends s = [] \<and> cs_waiting s = {}"

text \<open>A step that neither makes a caller give up nor takes a new submission in.\<close>

definition helps :: "'r coord_sys \<Rightarrow> 'r coord_sys \<Rightarrow> bool" where
  "helps s t \<longleftrightarrow> own_step s t \<and> cs_answers s \<subseteq> cs_answers t \<and> co_closed (cs_co t) = co_closed (cs_co s) \<and>
     (\<forall>v \<in> cs_waiting s. v \<in> cs_waiting t \<or> (\<exists>rr. (v, rr) \<in> cs_answers t))"

lemma helpsI:
  assumes "coord_step s t" "cs_begun t = cs_begun s" "co_closed (cs_co t) = co_closed (cs_co s)"
    "cs_answers s \<subseteq> cs_answers t" "\<forall>v \<in> cs_waiting s. v \<in> cs_waiting t \<or> (\<exists>rr. (v, rr) \<in> cs_answers t)"
    "cs_jobs t \<noteq> cs_jobs s \<or> cs_waiting t \<noteq> cs_waiting s \<or> cs_close_sends t \<noteq> cs_close_sends s \<or>
     sy_fires (cs_deb t) \<noteq> sy_fires (cs_deb s)"
  shows "helps s t"
proof -
  have "t \<noteq> s\<lparr>cs_cancelled := cs_cancelled t\<rparr>"
  proof
    assume eq: "t = s\<lparr>cs_cancelled := cs_cancelled t\<rparr>"
    have "cs_jobs t = cs_jobs s" "cs_waiting t = cs_waiting s" "cs_close_sends t = cs_close_sends s" "cs_deb t = cs_deb s"
      by (subst eq, simp)+
    with assms(6) show False by simp
  qed
  with assms show ?thesis by (simp add: helps_def own_step_def)
qed

lemma phase_moved: "ph \<noteq> jb_phase j \<Longrightarrow> add_mset (j\<lparr>jb_phase := ph\<rparr>) rest \<noteq> add_mset j rest"
  by (auto dest: arg_cong [where f = jb_phase])

lemma handled_moved: "jb_phase j \<noteq> Wait_slot \<Longrightarrow> start_job key r rest \<noteq> add_mset j rest"
  by (auto simp: start_job_def split: option.split)

lemma job_helped:
  assumes "coord_reach m w s" "j \<in># cs_jobs s" "jb_phase j \<noteq> Wait_slot"
  shows "\<exists>t. helps s t"
proof -
  obtain rest where rest: "cs_jobs s = add_mset j rest" using assms(2) by (metis multi_member_split)
  show ?thesis
  proof (cases "jb_phase j")
    case Held
    show ?thesis
      by (rule exI, rule helpsI, rule coord_step.enter [OF rest Held]) (simp_all add: rest phase_moved Held)
  next
    case (Exec n)
    show ?thesis
      by (rule exI, rule helpsI, rule coord_step.leave [OF rest Exec, of None None]) (simp_all add: rest phase_moved Exec)
  next
    case (Ran rr)
    show ?thesis
    proof (cases "jb_key j = []")
      case True
      show ?thesis
        by (rule exI, rule helpsI, rule coord_step.direct_return [OF rest Ran True]) (simp_all add: rest)
    next
      case False
      obtain chs c' where nw: "notifyWaiters (elems (sb_waiterIDs (jb_sub j))) (cs_co s) = (chs, c')" by fastforce
      show ?thesis
        by (rule exI, rule helpsI, rule coord_step.notify [OF rest Ran False nw])
           (simp_all add: rest phase_moved Ran notifyWaiters_spec(1) [OF nw])
    qed
  next
    case (Sending ws rr)
    show ?thesis
    proof (cases ws)
      case Nil
      obtain d' r where fr: "finishRun (sy_deb (cs_deb s)) (jb_key j) = (d', r)" by fastforce
      show ?thesis
        by (rule exI, rule helpsI, rule coord_step.handled [OF rest Sending [unfolded Nil] fr])
           (simp_all add: rest handled_moved Sending)
    next
      case (Cons v vs)
      note ph = Sending [unfolded Cons]
      show ?thesis
        by (rule exI, rule helpsI, rule coord_step.send [OF rest ph sends_free(1) [OF assms(1,2) ph]])
           (simp_all add: rest phase_moved ph)
    qed
  qed (use assms(3) in simp)
qed

lemma coord_reach_params: "coord_reach m w s \<Longrightarrow> 0 < m \<and> 0 < w"
  by (induction rule: coord_reach.induct) auto

lemma slot_free:
  assumes "coord_reach m w s" "\<forall>j \<in># cs_jobs s. jb_phase j = Wait_slot"
  shows "int (co_slots (cs_co s)) < co_maxConcurrency (cs_co s)"
proof -
  have "held_slots (cs_jobs s) = 0" using assms(2) by (auto simp: held_slots_def set_mset_eq_empty_iff [symmetric] simp del: set_mset_eq_empty_iff)
  then show ?thesis
    using coord_reach_inv [OF assms(1)] coord_reach_max [OF assms(1)] coord_reach_params [OF assms(1)]
    by (simp add: coord_inv_def slot_inv_def)
qed

lemma jobs_helped:
  assumes "coord_reach m w s" "cs_jobs s \<noteq> {#}"
  shows "\<exists>t. helps s t"
proof (cases "\<forall>j \<in># cs_jobs s. jb_phase j = Wait_slot")
  case True
  obtain j rest where rest: "cs_jobs s = add_mset j rest" using assms(2) by (metis multiset_cases)
  then have ph: "jb_phase j = Wait_slot" using True by simp
  show ?thesis
    by (rule exI, rule helpsI, rule coord_step.acquire [OF rest ph slot_free [OF assms(1) True]])
       (simp_all add: rest phase_moved ph)
next
  case False
  then show ?thesis using job_helped [OF assms(1)] by blast
qed

lemma unrest_helped:
  assumes "coord_reach m w s" "\<not> at_rest s"
  shows "\<exists>t. helps s t"
proof (cases "cs_close_sends s")
  case (Cons v vs)
  show ?thesis
    by (rule exI, rule helpsI, rule coord_step.close_send [OF Cons sends_free(2) [OF assms(1) Cons]])
       (simp_all add: Cons)
next
  case Nil
  show ?thesis
  proof (cases "cs_jobs s = {#}")
    case jobs: True
    show ?thesis
    proof (cases "sy_fires (cs_deb s) = {#}")
      case True
      then obtain v where v: "v \<in> cs_waiting s" using assms(2) Nil jobs by (auto simp: at_rest_def)
      then obtain rr where "cs_chan s v = Some rr" using idle_answered [OF assms(1) v True jobs Nil] by blast
      note rc = coord_step.receive [OF v this]
      show ?thesis by (rule exI, rule helpsI, rule rc) (use v in \<open>auto\<close>)
    next
      case False
      then obtain kq where kq: "kq \<in># sy_fires (cs_deb s)" by (meson multiset_nonemptyE)
      obtain key q where "kq = (key, q)" by fastforce
      with kq have mem: "(key, q) \<in># sy_fires (cs_deb s)" by simp
      obtain d' r where tr: "takeReady (sy_deb (cs_deb s)) key q = (d', r)" by fastforce
      show ?thesis
        by (rule exI, rule helpsI, rule coord_step.fire [OF mem tr]) (use mem in \<open>simp_all add: multi_drop_mem_not_eq\<close>)
    qed
  next
    case False
    then show ?thesis by (rule jobs_helped [OF assms(1)])
  qed
qed

lemma helped_to_rest:
  "coord_reach m w s \<Longrightarrow> \<exists>t. helps\<^sup>*\<^sup>* s t \<and> at_rest t \<and> cs_answers s \<subseteq> cs_answers t \<and>
     (\<forall>v \<in> cs_waiting s. \<exists>rr. (v, rr) \<in> cs_answers t)"
proof (induction "work s" arbitrary: s rule: less_induct)
  case less
  show ?case
  proof (cases "at_rest s")
    case True
    then show ?thesis by (intro exI [of _ s]) (simp add: at_rest_def)
  next
    case False
    then obtain u where u: "helps s u" using unrest_helped [OF less.prems] by blast
    then have "coord_reach m w u" "work u < work s" using own_work [OF less.prems] by (auto simp: helps_def)
    with less.hyps obtain t where t: "helps\<^sup>*\<^sup>* u t" "at_rest t" "cs_answers u \<subseteq> cs_answers t"
      "\<forall>v \<in> cs_waiting u. \<exists>rr. (v, rr) \<in> cs_answers t" by blast
    have "helps\<^sup>*\<^sup>* s t" using u t(1) by (rule converse_rtranclp_into_rtranclp)
    moreover have "\<exists>rr. (v, rr) \<in> cs_answers t" if "v \<in> cs_waiting s" for v
      using u that t(3,4) unfolding helps_def by blast
    moreover have "cs_answers s \<subseteq> cs_answers t" using u t(3) by (auto simp: helps_def)
    ultimately show ?thesis using t(2) by blast
  qed
qed

section \<open>Properties\<close>

text \<open>C6: the coordinator comes to rest. From a reachable state, every sequence of own steps (anything but a new
  \<open>Submit\<close> or a \<open>Cancel\<close>: timers, executions and their returns, answers, callers that give up, \<open>Close\<close>) has at most
  \<open>work s\<close> steps; and where none is possible, no execution is in progress, no timer callback or send is outstanding and
  no caller is waiting.\<close>

theorem coord_settles:
  assumes "coord_reach m w s"
  shows "(\<forall>n t. (own_step ^^ n) s t \<longrightarrow> n \<le> work s) \<and> ((\<nexists>t. own_step s t) \<longrightarrow> at_rest s)"
  using own_steps_bounded [OF assms] unrest_helped [OF assms] by (fastforce simp: helps_def)

theorem coord_settles_witness:
  "\<exists>s :: nat coord_sys. cs_jobs s = {#demo_job (Exec 0)#} \<and> \<not> at_rest s \<and> (\<exists>t. own_step s t) \<and>
     (\<forall>n t. (own_step ^^ n) s t \<longrightarrow> n \<le> work s)"
proof -
  obtain s :: "nat coord_sys" where s: "coord_reach 2 1 s" "cs_jobs s = {#demo_job (Exec 0)#}"
    using demo_running by blast
  then have "\<not> at_rest s" by (simp add: at_rest_def)
  with s coord_settles [OF s(1)] show ?thesis by blast
qed

text \<open>C7: whatever the executions return, the coordinator can answer everyone. From every reachable state it can come
  to rest by steps of its own in which no caller gives up, no execution gives up its slot's wait and \<open>Close\<close> is not
  called, and every caller that was waiting has received a reply.\<close>

theorem coord_can_answer:
  assumes "coord_reach m w s"
  shows "\<exists>t. helps\<^sup>*\<^sup>* s t \<and> at_rest t \<and> (\<forall>v \<in> cs_waiting s. \<exists>rr. (v, rr) \<in> cs_answers t)"
  using helped_to_rest [OF assms] by blast

theorem coord_can_answer_witness:
  "\<exists>s t :: nat coord_sys. cs_waiting s = {1} \<and> cs_jobs s = {#demo_job (Exec 0)#} \<and> helps\<^sup>*\<^sup>* s t \<and> at_rest t \<and>
     (\<exists>rr. (1, rr) \<in> cs_answers t)"
proof -
  obtain s :: "nat coord_sys" where s: "coord_reach 2 1 s" "cs_waiting s = {1}" "cs_jobs s = {#demo_job (Exec 0)#}"
    using demo_running by blast
  with coord_can_answer [OF s(1)] show ?thesis by blast
qed

end
