(* ===== verification/Executor.thy ===== *)
theory Executor
  imports AgentEvents
begin

text \<open>
  The agent executor (\<open>backend/agent/executor.go\<close>, \<open>backend/agent/runtime.go\<close>): the registry of runtimes and the
  execution lifecycle around the one that is resolved. A runtime is a program that emits events, sees the error of each and
  then returns or fails; it stands for whatever an implementation of the \<open>Runtime\<close> interface does that comes to an end.
  An observer is a function on a state of its own.

  Lemmas: what the registry resolves; the execution events around those of the runtime; what an execution leaves of an
  invariant of the observer.
\<close>

section \<open>Errors\<close>

text \<open>A Go error is its text and the sentinels that \<open>errors.Is\<close> finds in its chain.\<close>

datatype sentinel = Canceled | DeadlineExceeded

record go_error =
  ge_text :: string
  ge_is :: "sentinel list"

text \<open>\<open>fmt.Errorf\<close> without and with \<open>%w\<close>, \<open>errors.Join\<close> on two errors, \<open>errors.Is\<close>.\<close>

definition errorf :: "string \<Rightarrow> go_error" where
  "errorf message = \<lparr>ge_text = message, ge_is = []\<rparr>"

definition wrapf :: "string \<Rightarrow> go_error \<Rightarrow> go_error" where
  "wrapf prefix' err = \<lparr>ge_text = prefix' @ '': '' @ ge_text err, ge_is = ge_is err\<rparr>"

definition join_errors :: "go_error \<Rightarrow> go_error \<Rightarrow> go_error" where
  "join_errors a b = \<lparr>ge_text = ge_text a @ [CHR 0x0A] @ ge_text b, ge_is = ge_is a @ ge_is b\<rparr>"

definition cancelled_error :: "go_error \<Rightarrow> bool" where
  "cancelled_error err \<longleftrightarrow> Canceled \<in> set (ge_is err) \<or> DeadlineExceeded \<in> set (ge_is err)"

lemma cancelled_wrapf [simp]: "cancelled_error (wrapf p err) = cancelled_error err" "\<not> cancelled_error (errorf m)"
  by (simp_all add: wrapf_def errorf_def cancelled_error_def)

section \<open>Requests and results\<close>

record agent_message =
  am_role :: string
  am_content :: string

record model_config =
  mg_Provider :: string
  mg_Model :: string
  mg_APIKey :: string
  mg_BaseURL :: string

record execution_policy =
  xp_PermissionMode :: string
  xp_MaxSteps :: int
  xp_AllowedTools :: "string slice"

record filesystem_context =
  fc_WorkDir :: string
  fc_RepoDir :: string
  fc_TaskDir :: string

record 'tool execution_request =
  xr_ExecutionID :: string
  xr_TraceID :: string
  xr_Runtime :: string
  xr_SessionKey :: string
  xr_InstanceKey :: string
  xr_Mode :: string
  xr_SystemPrompt :: string
  xr_Prompt :: string
  xr_Messages :: "agent_message list"
  xr_Model :: model_config
  xr_Tools :: "'tool list"
  xr_Policy :: execution_policy
  xr_Filesystem :: filesystem_context

record execution_result =
  er_Message :: string
  er_Usage :: "usage option"
  er_ToolCalls :: "tool_call_record list"
  er_ProviderConversationID :: string

section \<open>Runtimes and observers\<close>

datatype runtime_program =
    Emits "agent_event option" "go_error option \<Rightarrow> runtime_program"
  | Returns execution_result
  | Fails go_error

type_synonym 's observer = "agent_event option \<Rightarrow> 's \<Rightarrow> go_error option \<times> 's"

primrec run_program :: "'s observer \<Rightarrow> runtime_program \<Rightarrow> 's \<Rightarrow> (go_error + execution_result) \<times> 's" where
  "run_program emit (Emits event k) s = run_program emit (k (fst (emit event s))) (snd (emit event s))"
| "run_program emit (Returns result) s = (Inr result, s)"
| "run_program emit (Fails err) s = (Inl err, s)"

text \<open>The events a program can emit, whatever it is answered.\<close>

inductive emits :: "runtime_program \<Rightarrow> agent_event \<Rightarrow> bool" where
  now: "emits (Emits (Some e) k) e"
| later: "emits (k r) e \<Longrightarrow> emits (Emits event k) e"

inductive_simps emits_simps [simp]:
  "emits (Emits event k) e"
  "emits (Returns result) e"
  "emits (Fails err) e"

section \<open>The registry\<close>

record 'tool registry =
  rg_runtimes :: "string \<Rightarrow> ('tool execution_request \<Rightarrow> runtime_program) option"
  rg_defaultKind :: string

definition NewRegistry :: "'tool registry" where
  "NewRegistry = \<lparr>rg_runtimes = (\<lambda>_. None), rg_defaultKind = []\<rparr>"

definition normalizeKind :: "string \<Rightarrow> string" where
  "normalizeKind kind = to_lower (trim_space kind)"

definition Register ::
  "string \<Rightarrow> ('tool execution_request \<Rightarrow> runtime_program) option \<Rightarrow> 'tool registry \<Rightarrow> 'tool registry" where
  "Register name rt r =
     (case rt of
        None \<Rightarrow> r
      | Some f \<Rightarrow>
          (let name = normalizeKind name in
           if name = [] then r else r\<lparr>rg_runtimes := (rg_runtimes r)(name \<mapsto> f)\<rparr>))"

definition SetDefault :: "string \<Rightarrow> 'tool registry \<Rightarrow> 'tool registry" where
  "SetDefault kind r = r\<lparr>rg_defaultKind := normalizeKind kind\<rparr>"

text \<open>What \<open>%q\<close> prints is a parameter.\<close>

definition Resolve ::
  "(string \<Rightarrow> string) \<Rightarrow> 'tool registry \<Rightarrow> string \<Rightarrow> go_error + ('tool execution_request \<Rightarrow> runtime_program)" where
  "Resolve quoted r kind =
     (let kind = normalizeKind kind;
          kind = (if kind = [] then rg_defaultKind r else kind)
      in case rg_runtimes r kind of
           None \<Rightarrow> Inl (errorf (''runtime '' @ quoted kind @ '' is not available''))
         | Some rt \<Rightarrow> Inr rt)"

section \<open>Execution\<close>

definition executionEvent :: "go_time \<Rightarrow> 'tool execution_request \<Rightarrow> string \<Rightarrow> string \<Rightarrow> agent_event" where
  "executionEvent now request eventType content =
     (empty_event eventType)
       \<lparr>aev_run_id := xr_ExecutionID request, aev_trace_id := xr_TraceID request, aev_created_at := now,
        aev_content := content\<rparr>"

text \<open>
  \<open>Execute\<close> of an executor; \<open>None\<close> is a nil executor or registry, \<open>started\<close> and \<open>ended\<close> are the clock's readings.
\<close>

definition Execute ::
  "(string \<Rightarrow> string) \<Rightarrow> go_time \<Rightarrow> go_time \<Rightarrow> 'tool registry option \<Rightarrow> 's observer \<Rightarrow> 'tool execution_request \<Rightarrow> 's \<Rightarrow>
   (go_error + execution_result) \<times> 's" where
  "Execute quoted started ended registry observer request s =
     (case registry of
        None \<Rightarrow> (Inl (errorf ''executor is not initialized''), s)
      | Some r \<Rightarrow>
          if trim_space (xr_ExecutionID request) = [] then (Inl (errorf ''execution id is required''), s)
          else
            (let kind = trim_space (xr_Runtime request) in
             case Resolve quoted r kind of
               Inl err \<Rightarrow> (Inl (wrapf (''resolve runtime '' @ quoted kind) err), s)
             | Inr rt \<Rightarrow>
                 (case observer (Some (executionEvent started request ''execution.started'' [])) s of
                    (Some err, s) \<Rightarrow> (Inl (wrapf ''observe execution.started'' err), s)
                  | (None, s) \<Rightarrow>
                      (case run_program observer (rt request) s of
                         (Inl err, s) \<Rightarrow>
                           (let eventType = (if cancelled_error err then ''execution.cancelled'' else ''execution.failed'') in
                            case observer (Some (executionEvent ended request eventType (ge_text err))) s of
                              (Some observerErr, s) \<Rightarrow>
                                (Inl (join_errors err (wrapf (''observe '' @ eventType) observerErr)), s)
                            | (None, s) \<Rightarrow> (Inl err, s))
                       | (Inr result, s) \<Rightarrow>
                           (case observer (Some (executionEvent ended request ''execution.completed'' [])) s of
                              (Some err, s) \<Rightarrow> (Inl (wrapf ''observe execution.completed'' err), s)
                            | (None, s) \<Rightarrow> (Inr result, s))))))"

section \<open>The registry resolves what was registered\<close>

lemma Resolve_Register:
  assumes "normalizeKind name \<noteq> []" "normalizeKind kind = normalizeKind name"
  shows "Resolve quoted (Register name (Some f) r) kind = Inr f"
  using assms by (simp add: Resolve_def Register_def Let_def)

lemma Resolve_other:
  assumes "normalizeKind kind \<noteq> []" "normalizeKind kind \<noteq> normalizeKind name"
  shows "Resolve quoted (Register name rt r) kind = Resolve quoted r kind"
  using assms by (simp add: Resolve_def Register_def Let_def split: option.split)

lemma Resolve_default:
  assumes "normalizeKind kind = []" "normalizeKind name \<noteq> []"
  shows "Resolve quoted (SetDefault name (Register name (Some f) r)) kind = Inr f"
  using assms by (simp add: Resolve_def Register_def SetDefault_def Let_def)

section \<open>What an execution does to its observer\<close>

text \<open>An event that the executor itself emits.\<close>

definition execution_event :: "agent_event \<Rightarrow> bool" where
  "execution_event e \<longleftrightarrow> aev_type e = ''execution.started'' \<or> aev_type e = ''execution.completed'' \<or>
     aev_type e = ''execution.failed'' \<or> aev_type e = ''execution.cancelled''"

lemma execution_event_type [simp]: "aev_type (executionEvent now request t c) = t"
  by (simp add: executionEvent_def empty_event_def)

text \<open>The contract of an observer for an invariant of its state: events of a class keep it.\<close>

locale observer_invariant =
  fixes emit :: "'s observer" and allowed :: "agent_event \<Rightarrow> bool" and inv :: "'s \<Rightarrow> bool"
  assumes inv_nil: "inv s \<Longrightarrow> inv (snd (emit None s))"
    and inv_emit: "allowed e \<Longrightarrow> inv s \<Longrightarrow> inv (snd (emit (Some e) s))"
begin

lemma inv_program: "(\<And>e. emits p e \<Longrightarrow> allowed e) \<Longrightarrow> inv s \<Longrightarrow> inv (snd (run_program emit p s))"
proof (induction p arbitrary: s)
  case (Emits event k)
  have "inv (snd (emit event s))" using Emits.prems inv_nil inv_emit by (cases event) auto
  moreover have "allowed e" if "emits (k (fst (emit event s))) e" for e
    by (rule Emits.prems(1), rule emits.later, rule that)
  ultimately show ?case using Emits.IH [OF rangeI, of "fst (emit event s)" "snd (emit event s)"] by simp
qed simp_all

lemma inv_Execute:
  assumes "\<And>rt e. Resolve quoted r (trim_space (xr_Runtime request)) = Inr rt \<Longrightarrow> emits (rt request) e \<Longrightarrow> allowed e"
    and "\<And>e. execution_event e \<Longrightarrow> allowed e" "inv s"
  shows "inv (snd (Execute quoted started ended (Some r) emit request s))"
proof -
  show ?thesis
  proof (cases "trim_space (xr_ExecutionID request) = []")
    case False
    note id = this
    show ?thesis
    proof (cases "Resolve quoted r (trim_space (xr_Runtime request))")
      case (Inr rt)
      obtain o1 s1 where e1: "emit (Some (executionEvent started request ''execution.started'' [])) s = (o1, s1)" by fastforce
      obtain x s2 where e2: "run_program emit (rt request) s1 = (x, s2)" by fastforce
      have s1: "inv s1" using inv_emit [OF assms(2) assms(3), of "executionEvent started request ''execution.started'' []"]
        by (simp add: e1 execution_event_def)
      have s2: "inv s2" using inv_program [of "rt request" s1] assms(1) [OF Inr] s1 by (simp add: e2)
      have last: "inv (snd (emit (Some (executionEvent ended request t c)) s2))"
        if "t = ''execution.completed'' \<or> t = ''execution.failed'' \<or> t = ''execution.cancelled''" for t c
        by (rule inv_emit [OF assms(2) s2]) (use that in \<open>auto simp: execution_event_def\<close>)
      show ?thesis
        using s1 s2 last by (auto simp: Execute_def id Inr e1 e2 Let_def split: option.split sum.split prod.split) (metis snd_conv)+
    qed (use assms(3) in \<open>simp add: Execute_def id\<close>)
  qed (use assms(3) in \<open>simp add: Execute_def\<close>)
qed

end

end
