(* ===== verification/SkillInvoke.thy ===== *)
theory SkillInvoke
  imports Requests Executor
begin

text \<open>
  Skills that a user invokes by \<open>/name\<close> at the start of a message: the parser of tokens
  (\<open>backend/internal/skill/token.go\<close>) and the rewriting of the messages of a request
  (\<open>backend/internal/assistant/context/skill_invoke.go\<close>). The catalogue on disk is a parameter: \<open>get\<close> is
  \<open>catalog.Get\<close>, \<open>files\<close> is \<open>catalog.ListFiles\<close>.

  Lemmas: the parser ends and reads back the tokens written before a text; messages without a token are left alone; no
  skill is loaded twice for a request.
\<close>

section \<open>Tokens\<close>

text \<open>The regular expression \<^verbatim>\<open>^\s*/([A-Za-z][A-Za-z0-9_-]*)(\s|$)\<close>: the name, and what follows the match.\<close>

definition re_space :: "char \<Rightarrow> bool" where
  "re_space c \<longleftrightarrow> c \<in> set [CHR 0x09, CHR 0x0A, CHR 0x0C, CHR 0x0D, CHR 0x20]"

definition letter :: "char \<Rightarrow> bool" where
  "letter c \<longleftrightarrow> (let n = (of_char c :: nat) in 65 \<le> n \<and> n \<le> 90 \<or> 97 \<le> n \<and> n \<le> 122)"

definition name_char :: "char \<Rightarrow> bool" where
  "name_char c \<longleftrightarrow> letter c \<or> is_digit c \<or> c = CHR ''_'' \<or> c = CHR ''-''"

definition token_match :: "string \<Rightarrow> (string \<times> string) option" where
  "token_match content =
     (case dropWhile re_space content of
        c # d # rest \<Rightarrow>
          if c = CHR ''/'' \<and> letter d then
            (case dropWhile name_char rest of
               [] \<Rightarrow> Some (d # takeWhile name_char rest, [])
             | x # xs \<Rightarrow> if re_space x then Some (d # takeWhile name_char rest, xs) else None)
          else None
      | _ \<Rightarrow> None)"

lemma strip_shorter: "length (strip tbl s) \<le> length s"
  by (rule suffix_length_le [OF suffix_strip])

lemma trim_shorter: "length (trim_space s) \<le> length s"
  using strip_shorter [of spaces_rev "rev (trim_left s)"] strip_shorter [of spaces s]
  by (simp add: trim_space_def trim_left_def trim_right_def)

lemma token_match_Some:
  assumes "token_match content = Some (name, rest)"
  obtains d r where "dropWhile re_space content = CHR ''/'' # d # r" "letter d" "name = d # takeWhile name_char r"
    "dropWhile name_char r = [] \<and> rest = [] \<or> (\<exists>x. dropWhile name_char r = x # rest)"
  using assms by (auto simp: token_match_def split: list.splits if_splits)

lemma token_match_shorter:
  assumes "token_match content = Some (name, rest)"
  shows "length rest < length content"
proof -
  obtain d r where m: "dropWhile re_space content = CHR ''/'' # d # r"
    "dropWhile name_char r = [] \<and> rest = [] \<or> (\<exists>x. dropWhile name_char r = x # rest)"
    using token_match_Some [OF assms] by metis
  have "length rest \<le> length r" using m(2) length_dropWhile_le [of name_char r] by auto
  then show ?thesis using length_dropWhile_le [of re_space content] by (simp add: m(1))
qed

function ParseTokens :: "string \<Rightarrow> string list \<times> string" where
  "ParseTokens content =
     (case token_match content of
        None \<Rightarrow> ([], content)
      | Some (name, rest) \<Rightarrow> (let (tokens, remaining) = ParseTokens (trim_space rest) in (name # tokens, remaining)))"
  by pat_completeness auto
termination
  by (relation "measure length") (auto intro: le_less_trans [OF trim_shorter token_match_shorter])

declare ParseTokens.simps [simp del]

definition ParseTokensOnly :: "string \<Rightarrow> string list" where
  "ParseTokensOnly content = fst (ParseTokens content)"

section \<open>Loading\<close>

record skill_entry =
  sk_Name :: string
  sk_Body :: string
  sk_Dir :: string
  sk_AbsoluteDir :: string

fun dedupe_loop :: "string list \<Rightarrow> string list \<Rightarrow> string list" where
  "dedupe_loop seen [] = []"
| "dedupe_loop seen (item # items) =
     (let key = to_lower item in
      if key \<in> set seen then dedupe_loop seen items else item # dedupe_loop (key # seen) items)"

definition dedupeOrderedLower :: "string list \<Rightarrow> string list" where
  "dedupeOrderedLower items = dedupe_loop [] items"

definition skill_section :: "(string \<Rightarrow> string list) \<Rightarrow> skill_entry \<Rightarrow> string" where
  "skill_section files entry =
     (let dir = (if sk_AbsoluteDir entry = [] then sk_Dir entry else sk_AbsoluteDir entry);
          fs = files (sk_Name entry)
      in nl @ nl @ ''[Loaded as part of the '' @ [CHR 0x22] @ sk_Name entry @ [CHR 0x22] @ '' skill bundle.]'' @ nl @ nl @
         sk_Body entry @ nl @ nl @ ''[Skill directory: '' @ dir @ '']'' @ nl @
         nl @ ''[This skill has supporting files:]'' @ nl @
         (if fs = [] then ''None'' @ nl else concat (map (\<lambda>f. f @ nl) fs)))"

definition buildSkillInvokePrompt :: "string list \<Rightarrow> skill_entry list \<Rightarrow> (string \<Rightarrow> string list) \<Rightarrow> string \<Rightarrow> string" where
  "buildSkillInvokePrompt loadedNames entries files userContent =
     ''[IMPORTANT: The user has invoked '' @ show_nat (length loadedNames) @ '' skill(s): '' @ join '', '' loadedNames @
     ''. Treat every skill below as active guidance for this turn.]'' @ nl @ nl @ ''User instruction:'' @ nl @ nl @
     userContent @ concat (map (skill_section files) entries)"

text \<open>The loop over the new tokens: what was loaded, and the map of loaded skills.\<close>

fun load_skills :: "(string \<Rightarrow> go_error + skill_entry) \<Rightarrow> string list \<Rightarrow> string list \<Rightarrow> go_error + skill_entry list \<times> string list" where
  "load_skills get [] seen = Inr ([], seen)"
| "load_skills get (name # names) seen =
     (case get name of
        Inl err \<Rightarrow> Inl err
      | Inr entry \<Rightarrow>
          (case load_skills get names (to_lower (sk_Name entry) # seen) of
             Inl err \<Rightarrow> Inl err
           | Inr (entries, seen') \<Rightarrow> Inr (entry # entries, seen')))"

text \<open>\<open>files\<close> is empty where \<open>ListFiles\<close> fails.\<close>

definition rewrite_message ::
  "(string \<Rightarrow> go_error + skill_entry) \<Rightarrow> (string \<Rightarrow> string list) \<Rightarrow> string list \<Rightarrow> d_message \<Rightarrow> go_error + d_message \<times> string list" where
  "rewrite_message get files seen msg =
     (if dm_Role msg \<noteq> ''user'' then Inr (msg, seen)
      else
        (let (tokens, remaining) = ParseTokens (dm_Content msg) in
         if tokens = [] then Inr (msg, seen)
         else
           (case load_skills get (filter (\<lambda>name. to_lower name \<notin> set seen) (dedupeOrderedLower tokens)) seen of
              Inl err \<Rightarrow> Inl err
            | Inr (entries, seen') \<Rightarrow>
                if entries = [] then Inr (msg\<lparr>dm_Content := remaining\<rparr>, seen')
                else Inr (msg\<lparr>dm_Content := buildSkillInvokePrompt (map sk_Name entries) entries files remaining\<rparr>, seen'))))"

fun rewrite_messages ::
  "(string \<Rightarrow> go_error + skill_entry) \<Rightarrow> (string \<Rightarrow> string list) \<Rightarrow> string list \<Rightarrow> d_message list \<Rightarrow> go_error + d_message list" where
  "rewrite_messages get files seen [] = Inr []"
| "rewrite_messages get files seen (m # ms) =
     (case rewrite_message get files seen m of
        Inl err \<Rightarrow> Inl err
      | Inr (m', seen') \<Rightarrow> map_sum id (Cons m') (rewrite_messages get files seen' ms))"

definition ApplyInvokedSkills ::
  "(string \<Rightarrow> go_error + skill_entry) \<Rightarrow> (string \<Rightarrow> string list) \<Rightarrow> run_request option \<Rightarrow> go_error + run_request option" where
  "ApplyInvokedSkills get files req =
     (case req of
        None \<Rightarrow> Inr None
      | Some r \<Rightarrow>
          (case elems (di_Messages (rq_Input r)) of
             [] \<Rightarrow> Inr (Some r)
           | m # ms \<Rightarrow>
               map_sum id (\<lambda>msgs. Some (r\<lparr>rq_Input := (rq_Input r)\<lparr>di_Messages := Some msgs\<rparr>\<rparr>))
                 (rewrite_messages get files [] (m # ms))))"

section \<open>What is loaded\<close>

abbreviation skill_key :: "skill_entry \<Rightarrow> string" where
  "skill_key entry \<equiv> to_lower (sk_Name entry)"

lemma dedupe_loop_keys:
  "distinct (map to_lower (dedupe_loop seen items)) \<and>
   to_lower ` set (dedupe_loop seen items) = to_lower ` set items - set seen"
  by (induction seen items rule: dedupe_loop.induct) (auto simp: Let_def)

lemma dedupe_keys:
  "distinct (map to_lower (dedupeOrderedLower items))" "to_lower ` set (dedupeOrderedLower items) = to_lower ` set items"
  using dedupe_loop_keys [of "[]" items] by (simp_all add: dedupeOrderedLower_def)

text \<open>The contract of the catalogue: the name of what it returns is the requested one but for case.\<close>

definition catalog_ok :: "(string \<Rightarrow> go_error + skill_entry) \<Rightarrow> bool" where
  "catalog_ok get \<longleftrightarrow> (\<forall>name entry. get name = Inr entry \<longrightarrow> to_lower (sk_Name entry) = to_lower name)"

lemma get_name: "catalog_ok get \<Longrightarrow> get name = Inr entry \<Longrightarrow> to_lower (sk_Name entry) = to_lower name"
  by (simp add: catalog_ok_def)

lemma load_keys:
  "catalog_ok get \<Longrightarrow> load_skills get names seen = Inr (entries, seen') \<Longrightarrow>
   map skill_key entries = map to_lower names \<and> set seen' = set seen \<union> to_lower ` set names"
  by (induction names arbitrary: seen entries)
     (auto split: sum.splits dest: get_name)

lemma image_filter_out: "f ` {x \<in> A. f x \<notin> S} = f ` A - S"
  by blast

lemma rewrite_once:
  assumes "rewrite_message get files seen m = Inr (m', seen')" and cat: "catalog_ok get"
  defines "ts \<equiv> (if dm_Role m = ''user'' then fst (ParseTokens (dm_Content m)) else [])"
  obtains es where "distinct (map skill_key es)" "set (map skill_key es) = to_lower ` set ts - set seen"
    "set seen' = set seen \<union> to_lower ` set ts"
    "m' = (if ts = [] then m else m\<lparr>dm_Content := (let rest = snd (ParseTokens (dm_Content m)) in
             if es = [] then rest else buildSkillInvokePrompt (map sk_Name es) es files rest)\<rparr>)"
proof (cases "ts = []")
  case True
  then have "m' = m" "seen' = seen" using assms(1) by (auto simp: rewrite_message_def ts_def split: if_splits prod.splits)
  with True show ?thesis using that [of "[]"] by simp
next
  case False
  let ?new = "filter (\<lambda>name. to_lower name \<notin> set seen) (dedupeOrderedLower ts)"
  from False have u: "dm_Role m = ''user''" and ts: "ts = fst (ParseTokens (dm_Content m))" by (auto simp: ts_def split: if_splits)
  from assms(1) False obtain es where es: "load_skills get ?new seen = Inr (es, seen')"
    "m' = m\<lparr>dm_Content := (let rest = snd (ParseTokens (dm_Content m)) in
             if es = [] then rest else buildSkillInvokePrompt (map sk_Name es) es files rest)\<rparr>"
    by (auto simp: rewrite_message_def ts u split: prod.splits sum.splits if_splits)
  note lk = load_keys [OF cat es(1)]
  have "distinct (map to_lower ?new)" using dedupe_keys(1) [of ts] by (simp add: distinct_map_filter)
  moreover have "to_lower ` set ?new = to_lower ` set ts - set seen"
    unfolding set_filter image_filter_out dedupe_keys(2) ..
  ultimately show ?thesis using that [of es] lk es(2) False by auto
qed

text \<open>What one message asks for.\<close>

lemma rewrite_all_once:
  assumes cat: "catalog_ok get" and "rewrite_messages get files seen ms = Inr ms'"
  shows "\<exists>ess. length ess = length ms \<and> distinct (map skill_key (concat ess)) \<and>
    set (map skill_key (concat ess)) =
      to_lower ` (\<Union>m \<in> set ms. if dm_Role m = ''user'' then set (ParseTokensOnly (dm_Content m)) else {}) - set seen \<and>
    ms' = map2 (\<lambda>m es. if dm_Role m \<noteq> ''user'' \<or> ParseTokensOnly (dm_Content m) = [] then m
      else m\<lparr>dm_Content := (let rest = snd (ParseTokens (dm_Content m)) in
             if es = [] then rest else buildSkillInvokePrompt (map sk_Name es) es files rest)\<rparr>) ms ess"
  using assms(2)
proof (induction ms arbitrary: seen ms')
  case (Cons m ms)
  let ?ts = "if dm_Role m = ''user'' then fst (ParseTokens (dm_Content m)) else []"
  obtain m1 seen1 ms1 where r: "rewrite_message get files seen m = Inr (m1, seen1)"
    "rewrite_messages get files seen1 ms = Inr ms1" "ms' = m1 # ms1"
    using Cons.prems by (auto simp: map_sum_def split: sum.splits)
  obtain es where es: "distinct (map skill_key es)" "set (map skill_key es) = to_lower ` set ?ts - set seen"
    "set seen1 = set seen \<union> to_lower ` set ?ts"
    "m1 = (if ?ts = [] then m else m\<lparr>dm_Content := (let rest = snd (ParseTokens (dm_Content m)) in
             if es = [] then rest else buildSkillInvokePrompt (map sk_Name es) es files rest)\<rparr>)"
    by (rule rewrite_once [OF r(1) cat])
  obtain ess where ess: "length ess = length ms" "distinct (map skill_key (concat ess))"
    "set (map skill_key (concat ess)) =
      to_lower ` (\<Union>m \<in> set ms. if dm_Role m = ''user'' then set (ParseTokensOnly (dm_Content m)) else {}) - set seen1"
    "ms1 = map2 (\<lambda>m es. if dm_Role m \<noteq> ''user'' \<or> ParseTokensOnly (dm_Content m) = [] then m
      else m\<lparr>dm_Content := (let rest = snd (ParseTokens (dm_Content m)) in
             if es = [] then rest else buildSkillInvokePrompt (map sk_Name es) es files rest)\<rparr>) ms ess"
    using Cons.IH [OF r(2)] by blast
  have ts: "set ?ts = (if dm_Role m = ''user'' then set (ParseTokensOnly (dm_Content m)) else {})"
    by (simp add: ParseTokensOnly_def)
  have "set (map skill_key es) \<inter> set (map skill_key (concat ess)) = {}" using es(2,3) ess(3) by blast
  then have "distinct (map skill_key (concat (es # ess)))" using es(1) ess(2) by simp
  moreover have "set (map skill_key (concat (es # ess))) =
      to_lower ` (\<Union>m \<in> set (m # ms). if dm_Role m = ''user'' then set (ParseTokensOnly (dm_Content m)) else {}) - set seen"
  proof -
    have "set (map skill_key (concat (es # ess))) = set (map skill_key es) \<union> set (map skill_key (concat ess))" by auto
    also have "\<dots> = to_lower ` (set ?ts \<union> (\<Union>m \<in> set ms. if dm_Role m = ''user'' then set (ParseTokensOnly (dm_Content m)) else {})) - set seen"
      unfolding es(2) ess(3) es(3) by blast
    finally show ?thesis by (simp only: ts list.set UN_insert)
  qed
  moreover have "m1 = (if dm_Role m \<noteq> ''user'' \<or> ParseTokensOnly (dm_Content m) = [] then m
      else m\<lparr>dm_Content := (let rest = snd (ParseTokens (dm_Content m)) in
             if es = [] then rest else buildSkillInvokePrompt (map sk_Name es) es files rest)\<rparr>)"
    unfolding es(4) by (simp add: ParseTokensOnly_def)
  ultimately show ?case using ess(1,4) r(3)
    by (intro exI [of _ "es # ess"] conjI) simp_all
qed simp

section \<open>Reading back tokens\<close>

definition token_name :: "string \<Rightarrow> bool" where
  "token_name n \<longleftrightarrow> n \<noteq> [] \<and> letter (hd n) \<and> (\<forall>c \<in> set (tl n). name_char c)"

lemma char_classes: "name_char CHR '' '' = False" "re_space CHR '' '' = True" "re_space CHR ''/'' = False" "graph_byte CHR ''/''"
  by code_simp+

lemma token_match_token:
  assumes "token_name n"
  shows "token_match (''/'' @ n @ '' '' @ rest) = Some (n, rest)"
proof -
  obtain d r where n: "n = d # r" "letter d" "\<forall>c \<in> set r. name_char c" using assms by (cases n) (auto simp: token_name_def)
  have "dropWhile name_char (r @ CHR '' '' # rest) = CHR '' '' # rest" "takeWhile name_char (r @ CHR '' '' # rest) = r"
    using n(3) by (simp_all add: dropWhile_append2 takeWhile_append2 char_classes)
  then show ?thesis using n by (simp add: token_match_def char_classes)
qed

lemma ParseTokens_tokens:
  assumes "\<forall>n \<in> set ns. token_name n" "t \<noteq> []" "graph_byte (hd t)" "graph_byte (last t)" "token_match t = None"
  shows "ParseTokens (concat (map (\<lambda>n. ''/'' @ n @ '' '') ns) @ t) = (ns, t)"
  using assms(1)
proof (induction ns)
  case Nil
  show ?case by (simp add: ParseTokens.simps [of t] assms(5))
next
  case (Cons n ns)
  let ?rest = "concat (map (\<lambda>n. ''/'' @ n @ '' '') ns) @ t"
  have "graph_byte (hd ?rest)" by (cases ns) (simp_all add: assms(3) char_classes)
  then have "trim_space ?rest = ?rest" by (intro trim_space_graph) (simp_all add: assms(2,4))
  then show ?case using Cons token_match_token [of n ?rest] by (subst ParseTokens.simps) simp
qed

text \<open>the tokens written before a text are read back, in order, and the text is what is left: for any skill names and
  any text that starts with no token and has a printable first and last byte.\<close>

theorem skill_tokens_roundtrip:
  assumes "\<forall>n \<in> set ns. token_name n" "t \<noteq> []" "graph_byte (hd t)" "graph_byte (last t)" "token_match t = None"
  shows "ParseTokens (concat (map (\<lambda>n. ''/'' @ n @ '' '') ns) @ t) = (ns, t)"
  by (rule ParseTokens_tokens [OF assms])

theorem skill_tokens_roundtrip_witness: "ParseTokens ''/a /b-1 hi'' = ([''a'', ''b-1''], ''hi'')"
proof -
  have "\<forall>n \<in> set [''a'', ''b-1'']. token_name n" "''hi'' \<noteq> ([] :: string)" "graph_byte (hd ''hi'')" "graph_byte (last ''hi'')"
    "token_match ''hi'' = None" by code_simp+
  from skill_tokens_roundtrip [OF this] show ?thesis by simp
qed


definition demo_skill :: skill_entry where
  "demo_skill = \<lparr>sk_Name = ''Search'', sk_Body = ''Use it.'', sk_Dir = ''search'', sk_AbsoluteDir = []\<rparr>"

definition demo_get :: "string \<Rightarrow> go_error + skill_entry" where
  "demo_get name = (if to_lower name = ''search'' then Inr demo_skill else Inl (errorf ''skill not found''))"


end
