(* ===== verification/Paths.thy ===== *)
theory Paths
  imports Executor
begin

text \<open>
  The part of Go's \<open>path/filepath\<close> that the backend uses, on Unix: \<open>Clean\<close>, \<open>Join\<close>, \<open>Abs\<close>, \<open>Rel\<close>, \<open>Dir\<close> and
  \<open>Base\<close> on strings, through the list of the elements of a path. \<open>FromSlash\<close> and \<open>ToSlash\<close> do nothing there.

  Lemmas: elements of a cleaned path, of a joined path and of a relative path; cleaning is idempotent and never makes
  a path longer.
\<close>

section \<open>Elements\<close>

fun split_path :: "string \<Rightarrow> string list" where
  "split_path [] = [[]]"
| "split_path (c # cs) =
     (if c = CHR ''/'' then [] # split_path cs
      else (case split_path cs of [] \<Rightarrow> [[c]] | e # es \<Rightarrow> (c # e) # es))"

definition IsAbs :: "string \<Rightarrow> bool" where
  "IsAbs path \<longleftrightarrow> prefix ''/'' path"

text \<open>The elements kept so far, last first, and those still to come.\<close>

fun clean_loop :: "bool \<Rightarrow> string list \<Rightarrow> string list \<Rightarrow> string list" where
  "clean_loop rooted out [] = rev out"
| "clean_loop rooted out (e # es) =
     (if e = [] \<or> e = ''.'' then clean_loop rooted out es
      else if e = ''..'' then
        (case out of
           [] \<Rightarrow> clean_loop rooted (if rooted then [] else [''..'']) es
         | p # ps \<Rightarrow> if p = ''..'' then clean_loop rooted (''..'' # out) es else clean_loop rooted ps es)
      else clean_loop rooted (e # out) es)"

definition elements :: "string \<Rightarrow> string list" where
  "elements path = clean_loop (IsAbs path) [] (split_path path)"

definition path_of :: "bool \<Rightarrow> string list \<Rightarrow> string" where
  "path_of rooted es = (if rooted then ''/'' @ join ''/'' es else if es = [] then ''.'' else join ''/'' es)"

definition Clean :: "string \<Rightarrow> string" where
  "Clean path = path_of (IsAbs path) (elements path)"

definition Join :: "string list \<Rightarrow> string" where
  "Join elem = (case dropWhile (\<lambda>e. e = []) elem of [] \<Rightarrow> [] | e # es \<Rightarrow> Clean (join ''/'' (e # es)))"

text \<open>\<open>cwd\<close> is what \<open>os.Getwd\<close> returns.\<close>

definition Abs_path :: "go_error + string \<Rightarrow> string \<Rightarrow> go_error + string" where
  "Abs_path cwd path =
     (if IsAbs path then Inr (Clean path)
      else (case cwd of Inl err \<Rightarrow> Inl err | Inr wd \<Rightarrow> Inr (Join [wd, path])))"

fun drop_common :: "string list \<Rightarrow> string list \<Rightarrow> string list \<times> string list" where
  "drop_common (b # bs) (t # ts) = (if b = t then drop_common bs ts else (b # bs, t # ts))"
| "drop_common bs ts = (bs, ts)"

definition Rel :: "string \<Rightarrow> string \<Rightarrow> go_error + string" where
  "Rel basepath targpath =
     (let cannot = Inl (errorf (''Rel: can't make '' @ targpath @ '' relative to '' @ basepath));
          (bs, ts) = drop_common (elements basepath) (elements targpath)
      in if Clean basepath = Clean targpath then Inr ''.''
         else if IsAbs basepath \<noteq> IsAbs targpath then cannot
         else if bs \<noteq> [] \<and> hd bs = ''..'' \<and> ts \<noteq> [] then cannot
         else Inr (join ''/'' (replicate (length bs) ''..'' @ ts)))"

definition Dir :: "string \<Rightarrow> string" where
  "Dir path = Clean (rev (dropWhile (\<lambda>c. c \<noteq> CHR ''/'') (rev path)))"

definition Base :: "string \<Rightarrow> string" where
  "Base path =
     (if path = [] then ''.''
      else
        (let p = rev (dropWhile (\<lambda>c. c = CHR ''/'') (rev path))
         in if p = [] then ''/'' else rev (takeWhile (\<lambda>c. c \<noteq> CHR ''/'') (rev p))))"

section \<open>Facts\<close>

definition plain :: "string \<Rightarrow> bool" where
  "plain e \<longleftrightarrow> e \<noteq> [] \<and> e \<noteq> ''.'' \<and> e \<noteq> ''..'' \<and> CHR ''/'' \<notin> set e"

lemma split_path_ne [simp]: "split_path s \<noteq> []"
  by (cases s) (auto split: list.splits)

lemma split_path_append: "split_path (s @ CHR ''/'' # t) = split_path s @ split_path t"
  by (induction s) (auto split: list.splits)

lemma split_path_no_slash: "CHR ''/'' \<notin> set e \<Longrightarrow> split_path e = [e]"
  by (induction e) auto

lemma split_path_elems: "e \<in> set (split_path s) \<Longrightarrow> CHR ''/'' \<notin> set e"
  by (induction s arbitrary: e) (auto split: list.splits if_splits)

lemma split_path_join: "es \<noteq> [] \<Longrightarrow> \<forall>e \<in> set es. CHR ''/'' \<notin> set e \<Longrightarrow> split_path (join ''/'' es) = es"
proof (induction es rule: induct_list012)
  case (3 x y zs)
  then show ?case by (simp add: split_path_append [simplified] split_path_no_slash)
qed (simp_all add: split_path_no_slash)

lemma clean_loop_append:
  "clean_loop rooted out (es @ fs) = clean_loop rooted (rev (clean_loop rooted out es)) fs"
  by (induction rooted out es rule: clean_loop.induct) (auto split: list.splits)

lemma clean_loop_plain: "\<forall>e \<in> set es. plain e \<Longrightarrow> clean_loop rooted out es = rev out @ es"
  by (induction es arbitrary: out) (auto simp: plain_def)

lemma clean_loop_rooted:
  "\<forall>e \<in> set es. CHR ''/'' \<notin> set e \<Longrightarrow> \<forall>e \<in> set out. plain e \<Longrightarrow> \<forall>e \<in> set (clean_loop True out es). plain e"
proof (induction es arbitrary: out)
  case (Cons e es)
  have es: "\<forall>e \<in> set es. CHR ''/'' \<notin> set e" and e: "CHR ''/'' \<notin> set e" using Cons.prems(1) by simp_all
  consider "e = [] \<or> e = ''.''" | "e = ''..''" | "plain e" using e by (auto simp: plain_def)
  then show ?case
  proof cases
    case 1
    then show ?thesis using Cons.IH [OF es Cons.prems(2)] by simp
  next
    case 2
    show ?thesis
    proof (cases out)
      case Nil
      then show ?thesis using Cons.IH [OF es, of "[]"] 2 by simp
    next
      case (Cons p ps)
      then have "p \<noteq> ''..''" "\<forall>e \<in> set ps. plain e" using Cons.prems(2) by (simp_all add: plain_def)
      then show ?thesis using Cons.IH [OF es, of ps] 2 Cons by simp
    qed
  next
    case 3
    then have "clean_loop True out (e # es) = clean_loop True (e # out) es" by (simp add: plain_def)
    then show ?thesis using Cons.IH [OF es, of "e # out"] Cons.prems(2) 3 by simp
  qed
qed simp

lemma elements_rooted: "IsAbs p \<Longrightarrow> \<forall>e \<in> set (elements p). plain e"
proof -
  assume "IsAbs p"
  then have "elements p = clean_loop True [] (split_path p)" by (simp add: elements_def)
  then show ?thesis using clean_loop_rooted [of "split_path p" "[]"] split_path_elems by simp
qed

lemma elements_path_of: "\<forall>e \<in> set es. plain e \<Longrightarrow> elements (path_of True es) = es"
proof (cases "es = []")
  case False
  assume pl: "\<forall>e \<in> set es. plain e"
  then have "split_path (join ''/'' es) = es" using False by (intro split_path_join) (auto simp: plain_def)
  then show ?thesis using clean_loop_plain [OF pl] by (simp add: elements_def path_of_def IsAbs_def)
qed (simp add: elements_def path_of_def IsAbs_def)

lemma IsAbs_path_of [simp]: "IsAbs (path_of True es)"
  by (simp add: IsAbs_def path_of_def)

lemma IsAbs_Clean: "IsAbs p \<Longrightarrow> IsAbs (Clean p)"
  by (simp add: Clean_def)

lemma elements_Clean: "IsAbs p \<Longrightarrow> elements (Clean p) = elements p"
  by (simp add: Clean_def elements_path_of elements_rooted)

lemma Clean_idem: "IsAbs p \<Longrightarrow> Clean (Clean p) = Clean p"
  by (simp add: Clean_def [of "Clean p"] IsAbs_Clean elements_Clean) (simp add: Clean_def)

text \<open>Joining plain elements to a rooted path.\<close>

lemma IsAbs_append: "IsAbs p \<Longrightarrow> IsAbs (p @ q)"
  by (auto simp: IsAbs_def prefix_def)

lemma join_slash: "es \<noteq> [] \<Longrightarrow> join ''/'' (p # es) = p @ CHR ''/'' # join ''/'' es"
  by (cases es) simp_all

lemma elements_slash:
  assumes "IsAbs p"
  shows "elements (p @ CHR ''/'' # q) = clean_loop True (rev (elements p)) (split_path q)"
  using IsAbs_append [OF assms, of "CHR ''/'' # q"] assms
  by (simp add: elements_def split_path_append clean_loop_append)

lemma Join_rooted:
  assumes "IsAbs p" "es \<noteq> []" "\<forall>e \<in> set es. plain e"
  shows "Join (p # es) = path_of True (elements p @ es)"
proof -
  have ne: "p \<noteq> []" using assms(1) by (auto simp: IsAbs_def)
  have "Join (p # es) = Clean (p @ CHR ''/'' # join ''/'' es)" using ne assms(2) by (simp add: Join_def join_slash)
  moreover have "IsAbs (p @ CHR ''/'' # join ''/'' es)" using IsAbs_append [OF assms(1)] .
  moreover have "elements (p @ CHR ''/'' # join ''/'' es) = elements p @ es"
    using elements_slash [OF assms(1), of "join ''/'' es"] assms(2,3) split_path_join [of es] clean_loop_plain [OF assms(3)]
    by (auto simp: plain_def)
  ultimately show ?thesis by (simp add: Clean_def)
qed

lemma drop_common_append: "drop_common bs (bs @ ts) = ([], ts)"
  by (induction bs) (cases ts; simp)+

lemma drop_common_Nil: "drop_common bs ts = ([], rs) \<Longrightarrow> ts = bs @ rs"
  by (induction bs ts rule: drop_common.induct) (auto split: if_splits)

lemma join_dots: "0 < n \<Longrightarrow> prefix ''..'' (join ''/'' (replicate n ''..'' @ ts))"
  by (cases n; cases "replicate (n - 1) ''..'' @ ts") auto

lemma join_prefix_hd: "rs \<noteq> [] \<Longrightarrow> plain (hd rs) \<Longrightarrow> prefix ''..'' (join ''/'' rs) = prefix ''..'' (hd rs)"
proof (cases rs rule: list.exhaust)
  case (Cons e es)
  assume "plain (hd rs)"
  then have e: "e \<noteq> []" "e \<noteq> ''.''" "CHR ''/'' \<notin> set e" using Cons by (auto simp: plain_def)
  show ?thesis
  proof (cases es)
    case Nil
    then show ?thesis using Cons by simp
  next
    case (Cons f fs)
    have "prefix ''..'' (e @ CHR ''/'' # join ''/'' es) = prefix ''..'' e"
      using e by (cases e; cases "tl e") auto
    then show ?thesis using \<open>rs = e # es\<close> Cons by (simp add: join_slash)
  qed
qed simp

text \<open>What \<open>Rel\<close> returns between two absolute paths.\<close>

lemma path_of_inj: "\<forall>e \<in> set es. plain e \<Longrightarrow> \<forall>e \<in> set fs. plain e \<Longrightarrow> path_of True es = path_of True fs \<longleftrightarrow> es = fs"
  by (metis elements_path_of)

lemma Clean_eq_iff: "IsAbs a \<Longrightarrow> IsAbs b \<Longrightarrow> Clean a = Clean b \<longleftrightarrow> elements a = elements b"
  by (simp add: Clean_def path_of_inj elements_rooted)

lemma drop_common_eq: "drop_common bs ts = (b', t') \<Longrightarrow> (b' = [] \<and> t' = []) = (bs = ts)"
  by (induction bs ts rule: drop_common.induct) (auto split: if_splits)

lemma drop_common_set: "drop_common bs ts = (b', t') \<Longrightarrow> set b' \<subseteq> set bs \<and> set t' \<subseteq> set ts"
  by (induction bs ts rule: drop_common.induct) (auto split: if_splits)

lemma Rel_rooted:
  assumes "IsAbs a" "IsAbs b"
  obtains (same) "elements b = elements a" "Rel a b = Inr ''.''"
  | (below) rs where "rs \<noteq> []" "elements b = elements a @ rs" "Rel a b = Inr (join ''/'' rs)"
  | (out) r where "\<not> prefix (elements a) (elements b)" "Rel a b = Inr r" "prefix ''..'' r"
proof -
  obtain bs ts where dc: "drop_common (elements a) (elements b) = (bs, ts)" by fastforce
  have pl: "\<forall>e \<in> set bs. plain e" using drop_common_set [OF dc] elements_rooted [OF assms(1)] by blast
  have dots: "\<not> (bs \<noteq> [] \<and> hd bs = ''..'' \<and> ts \<noteq> [])" using pl by (cases bs) (auto simp: plain_def)
  show thesis
  proof (cases "elements a = elements b")
    case True
    then show ?thesis using same Clean_eq_iff [OF assms] by (simp add: Rel_def dc Let_def)
  next
    case False
    then have r: "Rel a b = Inr (join ''/'' (replicate (length bs) ''..'' @ ts))"
      using Clean_eq_iff [OF assms] dots assms by (auto simp: Rel_def dc Let_def)
    show ?thesis
    proof (cases "bs = []")
      case True
      then show ?thesis using below [of ts] drop_common_Nil [OF dc [unfolded True]] r drop_common_eq [OF dc] False by simp
    next
      case bs: False
      have "\<not> prefix (elements a) (elements b)"
      proof
        assume "prefix (elements a) (elements b)"
        then obtain rs where "elements b = elements a @ rs" by (auto elim: prefixE)
        with dc bs show False by (simp add: drop_common_append)
      qed
      then show ?thesis using out r join_dots [of "length bs" ts] bs by blast
    qed
  qed
qed

text \<open>A cleaned path is never longer.\<close>

definition weight :: "string list \<Rightarrow> nat" where
  "weight es = (\<Sum>e\<leftarrow>es. length e + 1)"

lemma weight_simps [simp]: "weight [] = 0" "weight (e # es) = length e + 1 + weight es" "weight (es @ fs) = weight es + weight fs"
  by (simp_all add: weight_def)

lemma weight_rev [simp]: "weight (rev es) = weight es"
  by (induction es) simp_all

lemma weight_split: "weight (split_path s) = length s + 1"
  by (induction s) (auto split: list.splits)

lemma length_join: "es \<noteq> [] \<Longrightarrow> length (join ''/'' es) + 1 = weight es"
  by (induction es rule: induct_list012) simp_all

lemma clean_loop_weight: "weight (clean_loop rooted out es) \<le> weight out + weight es"
  by (induction rooted out es rule: clean_loop.induct) (auto split: list.splits)

lemma weight_elements: "weight (elements p) \<le> length p + 1"
  using clean_loop_weight [of "IsAbs p" "[]" "split_path p"] by (simp add: elements_def weight_split)

lemma weight_elements_abs: "IsAbs p \<Longrightarrow> weight (elements p) \<le> length p"
proof -
  assume "IsAbs p"
  then obtain q where q: "p = CHR ''/'' # q" by (auto simp: IsAbs_def prefix_def)
  then have "elements p = clean_loop True [] (split_path q)" by (simp add: elements_def IsAbs_def)
  then show ?thesis using clean_loop_weight [of True "[]" "split_path q"] by (simp add: weight_split q)
qed

lemma length_Clean: "p \<noteq> [] \<Longrightarrow> length (Clean p) \<le> length p"
proof (cases "IsAbs p")
  case True
  then show ?thesis using weight_elements_abs [OF True] length_join [of "elements p"]
    by (cases "elements p = []") (auto simp: Clean_def path_of_def IsAbs_def dest: prefix_length_le)
next
  case False
  assume "p \<noteq> []"
  then show ?thesis using weight_elements [of p] length_join [of "elements p"] False
    by (cases "elements p = []") (auto simp: Clean_def path_of_def Suc_le_eq)
qed

lemma elements_trailing: "p \<noteq> [] \<Longrightarrow> elements (p @ ''/'') = elements p"
  using split_path_append [of p "[]"] by (cases p) (simp_all add: elements_def clean_loop_append IsAbs_def)

lemma Clean_trailing: "length (Clean (p @ ''/'')) < length (p @ ''/'') \<or> p = []"
proof (cases "p = []")
  case False
  then have "IsAbs (p @ ''/'') = IsAbs p" by (cases p) (simp_all add: IsAbs_def)
  then have "Clean (p @ ''/'') = Clean p" using elements_trailing [OF False] by (simp add: Clean_def)
  then show ?thesis using length_Clean [OF False] by simp
qed simp

text \<open>The parent of a path is shorter, or the path is its own parent.\<close>

lemma Dir_shorter:
  assumes "path \<noteq> ''.''" "Dir path \<noteq> path"
  shows "Dir path = ''.'' \<or> length (Dir path) < length path"
proof -
  let ?q = "rev (dropWhile (\<lambda>c. c \<noteq> CHR ''/'') (rev path))"
  have le: "length ?q \<le> length path" using length_dropWhile_le [of "\<lambda>c. c \<noteq> CHR ''/''" "rev path"] by simp
  show ?thesis
  proof (cases "?q = []")
    case True
    then have "Dir path = Clean []" by (simp only: Dir_def)
    then show ?thesis by (simp add: Clean_def path_of_def IsAbs_def elements_def)
  next
    case False
    then have dl: "length (Dir path) \<le> length ?q" unfolding Dir_def by (rule length_Clean)
    show ?thesis
    proof (cases "rev path")
      case (Cons c cs)
      show ?thesis
      proof (cases "c = CHR ''/''")
        case False
        then have "length ?q \<le> length cs" using Cons length_dropWhile_le [of "\<lambda>c. c \<noteq> CHR ''/''" cs] by simp
        moreover have "length path = Suc (length cs)" using Cons by (metis length_Cons length_rev)
        ultimately show ?thesis using dl by simp
      next
        case True
        then have p: "path = rev cs @ ''/''" "?q = path" using Cons by (simp_all add: rev_swap)
        then have "length (Clean path) < length path \<or> path = ''/''" using Clean_trailing [of "rev cs"] by auto
        moreover have "Dir path = Clean path" using p(2) by (simp only: Dir_def)
        moreover have "Clean ''/'' = ''/''" by (simp add: Clean_def path_of_def IsAbs_def elements_def)
        ultimately show ?thesis using assms(2) by auto
      qed
    qed (use False in simp)
  qed
qed

end
