(* ===== verification/Workspace.thy ===== *)
theory Workspace
  imports Paths Requests
begin

text \<open>
  The directories of a task (\<open>backend/internal/workspace/workspace.go\<close>, \<open>server_paths.go\<close>): which paths a
  request gets, and the checks that keep a path inside the repository. The file system is a parameter: \<open>cwd\<close> is what
  \<open>os.Getwd\<close> returns, \<open>eval\<close> is \<open>filepath.EvalSymlinks\<close> with, for an error, whether \<open>os.IsNotExist\<close> holds of it;
  \<open>root\<close> is what \<open>leros.WorkspaceRoot\<close> returns; \<open>io\<close> says how an action on the disk ends.

  Lemmas: what \<open>SafeJoin\<close> and the working directory can be; where the directories of a request are; that those of
  different requests are apart.
\<close>

type_synonym symlinks = "string \<Rightarrow> (bool \<times> go_error) + string"

section \<open>Checks\<close>

definition ensureInside :: "string \<Rightarrow> string \<Rightarrow> go_error option" where
  "ensureInside root candidate =
     (case Rel root candidate of
        Inl err \<Rightarrow> Some (wrapf ''compare paths'' err)
      | Inr rel \<Rightarrow>
          if rel = ''.'' then None
          else if prefix ''..'' rel \<or> IsAbs rel then Some (errorf ''path escapes project workspace'')
          else None)"

definition isRuntimePath :: "string \<Rightarrow> bool" where
  "isRuntimePath path =
     (let path = Clean path in
      if path = ''.git'' \<or> prefix ''.git/'' path then True
      else if path = ''.leros'' \<or> prefix ''.leros/'' path then
        \<not> (path = ''.leros/memory'' \<or> prefix ''.leros/memory/'' path)
      else False)"

lemma Dir_dot: "Dir ''.'' = ''.''"
  by (simp add: Dir_def Clean_def path_of_def IsAbs_def elements_def)

function resolveSymlinksUpToExisting :: "symlinks \<Rightarrow> string \<Rightarrow> go_error + string" where
  "resolveSymlinksUpToExisting eval path =
     (case eval path of
        Inr resolved \<Rightarrow> Inr resolved
      | Inl (notExist, err) \<Rightarrow>
          if \<not> notExist then Inl err
          else if Dir path = path then Inr path
          else
            (case resolveSymlinksUpToExisting eval (Dir path) of
               Inl err \<Rightarrow> Inl err
             | Inr parentResolved \<Rightarrow> Inr (Join [parentResolved, Base path])))"
  by pat_completeness auto

termination
proof (relation "measure (\<lambda>(eval, path). if path = ''.'' then 0 else length path + 1)", goal_cases)
  case (2 eval path)
  then have "path \<noteq> ''.''" using Dir_dot by auto
  then show ?case using Dir_shorter [of path] 2 by auto
qed simp

declare resolveSymlinksUpToExisting.simps [simp del]

definition ensureNoSymlinkEscape :: "go_error + string \<Rightarrow> symlinks \<Rightarrow> string \<Rightarrow> string \<Rightarrow> go_error option" where
  "ensureNoSymlinkEscape cwd eval root candidate =
     (case eval root of
        Inl (_, err) \<Rightarrow> Some (wrapf ''resolve root symlinks'' err)
      | Inr rootReal \<Rightarrow>
          (case resolveSymlinksUpToExisting eval candidate of
             Inl err \<Rightarrow> Some (wrapf ''resolve path symlinks'' err)
           | Inr candidateReal \<Rightarrow>
               (case Abs_path cwd rootReal of
                  Inl err \<Rightarrow> Some (wrapf ''resolve real root'' err)
                | Inr rootReal \<Rightarrow>
                    (case Abs_path cwd candidateReal of
                       Inl err \<Rightarrow> Some (wrapf ''resolve real path'' err)
                     | Inr candidateReal \<Rightarrow> ensureInside rootReal candidateReal))))"

definition SafeJoin :: "go_error + string \<Rightarrow> symlinks \<Rightarrow> string \<Rightarrow> string \<Rightarrow> go_error + string" where
  "SafeJoin cwd eval root child =
     (case Abs_path cwd root of
        Inl err \<Rightarrow> Inl (wrapf ''resolve root'' err)
      | Inr rootAbs \<Rightarrow>
          (let child = trim_space child in
           if child = [] then Inl (errorf ''path is required'')
           else if IsAbs child then Inl (errorf ''absolute paths are not allowed'')
           else
             (let clean = Clean child in
              if clean = ''.'' \<or> clean = ''/'' \<or> prefix ''..'' clean then Inl (errorf ''path escapes output directory'')
              else if isRuntimePath clean then Inl (errorf ''runtime paths are not valid artifacts'')
              else
                (case Abs_path cwd (Join [rootAbs, clean]) of
                   Inl err \<Rightarrow> Inl (wrapf ''resolve path'' err)
                 | Inr joined \<Rightarrow>
                     (case ensureInside rootAbs joined of
                        Some err \<Rightarrow> Inl err
                      | None \<Rightarrow>
                          (case ensureNoSymlinkEscape cwd eval rootAbs joined of
                             Some err \<Rightarrow> Inl err
                           | None \<Rightarrow> Inr joined))))))"

definition resolveWorkDir :: "go_error + string \<Rightarrow> string \<Rightarrow> string \<Rightarrow> go_error + string" where
  "resolveWorkDir cwd repoDir requested =
     (let requested = trim_space requested in
      if requested = [] then Abs_path cwd repoDir
      else
        (case Abs_path cwd repoDir of
           Inl err \<Rightarrow> Inl (wrapf ''resolve repo dir'' err)
         | Inr repoAbs \<Rightarrow>
             (let candidate =
                (if IsAbs requested then Inr requested
                 else
                   (let clean = Clean requested in
                    if clean = ''.'' then Inr repoAbs
                    else if prefix ''..'' clean then Inl (errorf ''runtime work_dir escapes project workspace'')
                    else if isRuntimePath clean then Inl (errorf ''runtime work_dir cannot point to runtime paths'')
                    else Inr (Join [repoAbs, clean])))
              in case candidate of
                   Inl err \<Rightarrow> Inl err
                 | Inr candidate \<Rightarrow>
                     (case Abs_path cwd candidate of
                        Inl err \<Rightarrow> Inl (wrapf ''resolve runtime work_dir'' err)
                      | Inr candidateAbs \<Rightarrow>
                          (case ensureInside repoAbs candidateAbs of
                             Some err \<Rightarrow> Inl (wrapf ''invalid runtime work_dir'' err)
                           | None \<Rightarrow> Inr candidateAbs)))))"

section \<open>The directories of a request\<close>

record task_workspace_request =
  tw_OrgID :: nat
  tw_ProjectID :: string
  tw_TaskID :: string
  tw_RequestID :: string
  tw_RequestedWorkDir :: string
  tw_CloneURL :: string

record task_workspace =
  ws_WorkspaceRoot :: string
  ws_ProjectRoot :: string
  ws_RepoDir :: string
  ws_TaskDir :: string
  ws_TurnDir :: string
  ws_TurnTmpDir :: string
  ws_TurnLogDir :: string
  ws_ArtifactManifestPath :: string
  ws_BaselinePath :: string
  ws_EffectiveWorkDir :: string
  ws_CloneURL :: string

definition slash_char :: "char \<Rightarrow> bool" where
  "slash_char c \<longleftrightarrow> c = CHR ''/'' \<or> c = CHR 0x5C"

text \<open>\<open>strings.Trim\<close> with the cutset of the two slashes.\<close>

definition trim_slashes :: "string \<Rightarrow> string" where
  "trim_slashes s = rev (dropWhile slash_char (rev (dropWhile slash_char s)))"

definition cleanPathID :: "string \<Rightarrow> string" where
  "cleanPathID value =
     (let value = trim_slashes (trim_space value) in
      if value = ''.'' \<or> value = ''..'' \<or> list_ex slash_char value then [] else value)"

definition ResolveTaskWorkspace ::
  "go_error + string \<Rightarrow> go_error + string \<Rightarrow> task_workspace_request \<Rightarrow> go_error + task_workspace" where
  "ResolveTaskWorkspace cwd root req =
     (let projectID = cleanPathID (tw_ProjectID req); taskID = cleanPathID (tw_TaskID req);
          requestID = cleanPathID (tw_RequestID req)
      in if tw_OrgID req = 0 then Inl (errorf ''workspace org_id is required'')
         else if projectID = [] then Inl (errorf ''workspace project_id is required'')
         else if taskID = [] then Inl (errorf ''workspace task_id is required'')
         else if requestID = [] then Inl (errorf ''workspace request_id is required'')
         else
           (case root of
              Inl err \<Rightarrow> Inl err
            | Inr root \<Rightarrow>
                (let projectRoot = Join [root, ''projects'', show_nat (tw_OrgID req), projectID];
                     repoDir = Join [projectRoot, ''repo''];
                     taskDir = Join [repoDir, ''.leros'', ''tasks'', taskID];
                     turnDir = Join [taskDir, ''turns'', requestID]
                 in case resolveWorkDir cwd repoDir (tw_RequestedWorkDir req) of
                      Inl err \<Rightarrow> Inl err
                    | Inr effectiveWorkDir \<Rightarrow>
                        Inr \<lparr>ws_WorkspaceRoot = root, ws_ProjectRoot = projectRoot, ws_RepoDir = repoDir,
                             ws_TaskDir = taskDir, ws_TurnDir = turnDir, ws_TurnTmpDir = Join [turnDir, ''tmp''],
                             ws_TurnLogDir = Join [turnDir, ''logs''],
                             ws_ArtifactManifestPath = Join [turnDir, ''artifacts.jsonl''],
                             ws_BaselinePath = Join [turnDir, ''baseline.jsonl''],
                             ws_EffectiveWorkDir = effectiveWorkDir, ws_CloneURL = tw_CloneURL req\<rparr>)))"

definition FromAgentRequest ::
  "go_error + string \<Rightarrow> go_error + string \<Rightarrow> run_request option \<Rightarrow> go_error + task_workspace option" where
  "FromAgentRequest cwd root req =
     (case req of
        None \<Rightarrow> Inr None
      | Some r \<Rightarrow>
          (let w = rq_Workspace r; projectID = trim_space (dw_ProjectID w);
               taskID = (if trim_space (dw_TaskID w) = [] then trim_space (rq_TaskID r) else trim_space (dw_TaskID w));
               requestID = trim_space (dw_RequestID w)
           in if projectID = [] \<or> taskID = [] \<or> requestID = [] then Inr None
              else if dw_OrgID w = 0 then Inr None
              else map_sum id Some (ResolveTaskWorkspace cwd root
                \<lparr>tw_OrgID = dw_OrgID w, tw_ProjectID = projectID, tw_TaskID = taskID, tw_RequestID = requestID,
                 tw_RequestedWorkDir = dr_WorkDir (rq_Runtime r), tw_CloneURL = []\<rparr>)))"

definition StorageKey :: "go_error + string \<Rightarrow> symlinks \<Rightarrow> task_workspace option \<Rightarrow> string \<Rightarrow> go_error + string" where
  "StorageKey cwd eval p relativePath =
     (case p of
        None \<Rightarrow> Inl (errorf ''workspace plan is required'')
      | Some p \<Rightarrow>
          (case SafeJoin cwd eval (ws_RepoDir p) relativePath of
             Inl err \<Rightarrow> Inl err
           | Inr absolute \<Rightarrow>
               (case Rel (ws_RepoDir p) absolute of
                  Inl err \<Rightarrow> Inl (wrapf ''build storage key'' err)
                | Inr key \<Rightarrow> Inr key)))"

text \<open>What \<open>PrepareTaskWorkspace\<close> does to the disk, in order; the first action that fails ends it.\<close>

datatype disk_action = Ensure_git_repo string string | Mkdir_all string | Create_file string | Ensure_gitignore string

fun run_disk :: "(disk_action \<Rightarrow> go_error option) \<Rightarrow> (string \<times> disk_action) list \<Rightarrow> go_error option" where
  "run_disk io [] = None"
| "run_disk io ((what, a) # as) =
     (case io a of
        Some err \<Rightarrow> Some (if what = [] then err else wrapf what err)
      | None \<Rightarrow> run_disk io as)"

definition PrepareTaskWorkspace ::
  "go_error + string \<Rightarrow> symlinks \<Rightarrow> (disk_action \<Rightarrow> go_error option) \<Rightarrow> go_error + string \<Rightarrow> task_workspace_request \<Rightarrow>
   go_error + task_workspace" where
  "PrepareTaskWorkspace cwd eval io root req =
     (case ResolveTaskWorkspace cwd root req of
        Inl err \<Rightarrow> Inl err
      | Inr plan \<Rightarrow>
          (case run_disk io
             [([], Ensure_git_repo (ws_RepoDir plan) (ws_CloneURL plan)),
              (''create turn dir'', Mkdir_all (ws_TurnDir plan)),
              (''create turn tmp dir'', Mkdir_all (ws_TurnTmpDir plan)),
              (''create turn log dir'', Mkdir_all (ws_TurnLogDir plan)),
              (''create artifact manifest'', Create_file (ws_ArtifactManifestPath plan)),
              ([], Ensure_gitignore (ws_RepoDir plan)),
              (''create effective work dir'', Mkdir_all (ws_EffectiveWorkDir plan))] of
             Some err \<Rightarrow> Inl err
           | None \<Rightarrow>
               (case ensureNoSymlinkEscape cwd eval (ws_RepoDir plan) (ws_EffectiveWorkDir plan) of
                  Some err \<Rightarrow> Inl (wrapf ''invalid runtime work_dir'' err)
                | None \<Rightarrow> Inr plan)))"

section \<open>Paths as the server sees them\<close>

definition WorkerMountedWorkspacePath ::
  "go_error + string \<Rightarrow> go_error + string \<Rightarrow> nat \<Rightarrow> nat \<Rightarrow> go_error + string" where
  "WorkerMountedWorkspacePath cwd root orgID workerID =
     (if orgID = 0 then Inl (errorf ''org_id is required'')
      else if workerID = 0 then Inl (errorf ''worker_id is required'')
      else (case root of
              Inl err \<Rightarrow> Inl err
            | Inr root \<Rightarrow> Abs_path cwd (Join [root, show_nat orgID, show_nat workerID, ''workspace''])))"

definition ProjectRepoPath ::
  "go_error + string \<Rightarrow> go_error + string \<Rightarrow> nat \<Rightarrow> nat \<Rightarrow> string \<Rightarrow> go_error + string" where
  "ProjectRepoPath cwd root orgID workerID publicID =
     (case WorkerMountedWorkspacePath cwd root orgID workerID of
        Inl err \<Rightarrow> Inl (wrapf ''resolve worker workspace'' err)
      | Inr workspacePath \<Rightarrow>
          if trim_space publicID = [] then Inl (errorf ''public_id is required'')
          else Inr (Join [workspacePath, ''projects'', show_nat orgID, publicID, ''repo'']))"

text \<open>\<open>is_dir\<close> tells whether \<open>os.Stat\<close> finds a directory.\<close>

function find_repo_loop :: "(string \<Rightarrow> bool) \<Rightarrow> string \<Rightarrow> string option" where
  "find_repo_loop is_dir dir =
     (if is_dir (Join [dir, ''.leros'']) then Some dir
      else if Dir dir = dir then None
      else find_repo_loop is_dir (Dir dir))"
  by pat_completeness auto

termination
proof (relation "measure (\<lambda>(is_dir, path). if path = ''.'' then 0 else length path + 1)", goal_cases)
  case (2 is_dir path)
  then have "path \<noteq> ''.''" using Dir_dot by auto
  then show ?case using Dir_shorter [of path] 2 by auto
qed simp

declare find_repo_loop.simps [simp del]

definition FindRepoRoot :: "(string \<Rightarrow> bool) \<Rightarrow> string \<Rightarrow> go_error + string" where
  "FindRepoRoot is_dir workDir =
     (case find_repo_loop is_dir (Clean workDir) of
        None \<Rightarrow> Inl (errorf (''repo root not found from '' @ workDir))
      | Some dir \<Rightarrow> Inr dir)"

definition ProjectMemoryPath :: "string \<Rightarrow> string" where
  "ProjectMemoryPath repoDir = Join [repoDir, ''.leros'', ''memory'', ''project_memory.md'']"

definition ArtifactStoragePath ::
  "go_error + string \<Rightarrow> go_error + string \<Rightarrow> nat \<Rightarrow> nat \<Rightarrow> string \<Rightarrow> go_error + string" where
  "ArtifactStoragePath cwd root orgID workerID storageKey =
     (let key = trim_space storageKey in
      if key = [] \<or> IsAbs key then Inl (errorf ''invalid artifact storage key'')
      else
        (case WorkerMountedWorkspacePath cwd root orgID workerID of
           Inl err \<Rightarrow> Inl err
         | Inr workspacePath \<Rightarrow>
             (case Abs_path cwd workspacePath of
                Inl err \<Rightarrow> Inl err
              | Inr workspaceAbs \<Rightarrow>
                  (case Abs_path cwd (Join [workspaceAbs, key]) of
                     Inl err \<Rightarrow> Inl err
                   | Inr pathAbs \<Rightarrow>
                       (case Rel workspaceAbs pathAbs of
                          Inl err \<Rightarrow> Inl err
                        | Inr rel \<Rightarrow>
                            if rel = ''.'' \<or> prefix ''..'' rel \<or> IsAbs rel
                            then Inl (errorf ''artifact storage key escapes workspace'')
                            else Inr pathAbs)))))"

section \<open>Facts on the checks\<close>

lemma plain_join_abs: "es \<noteq> [] \<Longrightarrow> plain (hd es) \<Longrightarrow> \<not> IsAbs (join ''/'' es)"
  by (cases es rule: list.exhaust; cases "hd es"; cases "tl es") (auto simp: IsAbs_def plain_def)

lemma ensureInside_rooted:
  assumes "IsAbs a" "IsAbs b"
  shows "ensureInside a b = None \<longleftrightarrow> (\<exists>rs. elements b = elements a @ rs \<and> (rs = [] \<or> \<not> prefix ''..'' (hd rs)))"
proof (cases rule: Rel_rooted [OF assms])
  case 1
  then show ?thesis by (auto simp: ensureInside_def)
next
  case (2 rs)
  have pl: "plain (hd rs)" using elements_rooted [OF assms(2)] 2(1,2) by (cases rs) auto
  have "join ''/'' rs \<noteq> ''.''"
  proof (cases rs rule: list.exhaust)
    case (Cons e es)
    then show ?thesis using pl by (cases es) (auto simp: plain_def Cons_eq_append_conv append_eq_Cons_conv)
  qed (use 2(1) in simp)
  then show ?thesis using 2 pl plain_join_abs [OF 2(1) pl] by (auto simp: ensureInside_def join_prefix_hd)
next
  case (3 r)
  moreover have "r \<noteq> ''.''" using 3(3) by auto
  ultimately show ?thesis by (auto simp: ensureInside_def)
qed

text \<open>The elements of a relative path: some steps up, then plain ones.\<close>

lemma clean_loop_relative:
  "\<forall>e \<in> set es. CHR ''/'' \<notin> set e \<Longrightarrow> \<forall>e \<in> set ps. plain e \<Longrightarrow>
   \<exists>m qs. clean_loop False (ps @ replicate n ''..'') es = replicate m ''..'' @ qs \<and> (\<forall>q \<in> set qs. plain q)"
proof (induction es arbitrary: ps n)
  case Nil
  then show ?case by (intro exI [of _ n] exI [of _ "rev ps"]) simp
next
  case (Cons e es)
  have es: "\<forall>e \<in> set es. CHR ''/'' \<notin> set e" and e: "CHR ''/'' \<notin> set e" using Cons.prems(1) by simp_all
  consider "e = [] \<or> e = ''.''" | "e = ''..''" | "plain e" using e by (auto simp: plain_def)
  then show ?case
  proof cases
    case 1
    then show ?thesis using Cons.IH [OF es Cons.prems(2)] by simp
  next
    case 2
    show ?thesis
    proof (cases ps)
      case Nil
      have "clean_loop False (replicate n ''..'') (e # es) = clean_loop False ([] @ replicate (Suc n) ''..'') es"
        using 2 by (cases n) simp_all
      then show ?thesis using Cons.IH [OF es, of "[]" "Suc n"] Nil by simp
    next
      case (Cons p qs)
      then have "p \<noteq> ''..''" "\<forall>e \<in> set qs. plain e" using Cons.prems(2) by (simp_all add: plain_def)
      then show ?thesis using Cons.IH [OF es, of qs n] 2 Cons by simp
    qed
  next
    case 3
    then have "clean_loop False (ps @ replicate n ''..'') (e # es) = clean_loop False ((e # ps) @ replicate n ''..'') es"
      by (simp add: plain_def)
    then show ?thesis using Cons.IH [OF es, of "e # ps" n] Cons.prems(2) 3 by simp
  qed
qed

lemma relative_clean:
  assumes "\<not> IsAbs p" "Clean p \<noteq> ''.''" "\<not> prefix ''..'' (Clean p)"
  shows "elements p \<noteq> []" "\<forall>e \<in> set (elements p). plain e" "Clean p = join ''/'' (elements p)"
proof -
  have el: "elements p = clean_loop False ([] @ replicate 0 ''..'') (split_path p)" using assms(1) by (simp add: elements_def)
  have sp: "\<forall>e \<in> set (split_path p). CHR ''/'' \<notin> set e" by (simp add: split_path_elems)
  obtain m qs where mq: "elements p = replicate m ''..'' @ qs" "\<forall>q \<in> set qs. plain q"
    using clean_loop_relative [OF sp, of "[]" 0] unfolding el [symmetric] by auto
  show ne: "elements p \<noteq> []" using assms(1,2) by (auto simp: Clean_def path_of_def)
  show cl: "Clean p = join ''/'' (elements p)" using assms(1) ne by (simp add: Clean_def path_of_def)
  have "m = 0" using join_dots [of m qs] assms(3) unfolding cl mq(1) by (cases m) simp_all
  then show "\<forall>e \<in> set (elements p). plain e" using mq by simp
qed

lemma Clean_join: "es \<noteq> [] \<Longrightarrow> \<forall>e \<in> set es. plain e \<Longrightarrow> Clean (join ''/'' es) = join ''/'' es"
proof -
  assume es: "es \<noteq> []" "\<forall>e \<in> set es. plain e"
  then have na: "\<not> IsAbs (join ''/'' es)" by (intro plain_join_abs) auto
  have "split_path (join ''/'' es) = es" using es by (intro split_path_join) (auto simp: plain_def)
  then have "elements (join ''/'' es) = es" using na clean_loop_plain [OF es(2)] by (simp add: elements_def)
  with na es show ?thesis by (simp add: Clean_def path_of_def)
qed

lemma Join_join:
  assumes "IsAbs a" "es \<noteq> []" "\<forall>e \<in> set es. plain e"
  shows "Join [a, join ''/'' es] = path_of True (elements a @ es)"
proof -
  have "a \<noteq> []" using assms(1) by (auto simp: IsAbs_def)
  then have "Join [a, join ''/'' es] = Join (a # es)" using assms(2) by (simp add: Join_def join_slash)
  then show ?thesis using Join_rooted [OF assms] by simp
qed

lemma Abs_rooted: "IsAbs p \<Longrightarrow> Abs_path cwd p = Inr (Clean p)"
  by (simp add: Abs_path_def)

lemma Clean_path_of: "\<forall>e \<in> set es. plain e \<Longrightarrow> Clean (path_of True es) = path_of True es"
  by (simp add: Clean_def elements_path_of)

lemma join_starts:
  assumes "es \<noteq> []" "\<forall>e \<in> set es. plain e" "CHR ''/'' \<notin> set n"
  shows "join ''/'' es = n \<or> prefix (n @ ''/'') (join ''/'' es) \<longleftrightarrow> hd es = n"
proof (cases es rule: list.exhaust)
  case (Cons e fs)
  have e: "CHR ''/'' \<notin> set e" using assms(2) Cons by (simp add: plain_def)
  show ?thesis
  proof (cases "fs = []")
    case True
    then show ?thesis using Cons e by (auto simp: prefix_def)
  next
    case False
    then have "join ''/'' es = e @ CHR ''/'' # join ''/'' fs" using Cons by (simp add: join_slash)
    moreover have "e @ CHR ''/'' # join ''/'' fs = n @ CHR ''/'' # zs \<longleftrightarrow> e = n \<and> join ''/'' fs = zs" for zs
      using e assms(3) by (auto simp: append_eq_append_conv2 append_eq_Cons_conv Cons_eq_append_conv)
    ultimately show ?thesis using Cons assms(3) by (auto simp: prefix_def)
  qed
qed (use assms(1) in simp)

lemma runtime_elements:
  assumes "es \<noteq> []" "\<forall>e \<in> set es. plain e"
  shows "isRuntimePath (join ''/'' es) \<longleftrightarrow>
    hd es = ''.git'' \<or> hd es = ''.leros'' \<and> (tl es = [] \<or> hd (tl es) \<noteq> ''memory'')"
proof -
  have starts: "join ''/'' es = n \<or> prefix (n @ ''/'') (join ''/'' es) \<longleftrightarrow> hd es = n" if "CHR ''/'' \<notin> set n" for n
    by (rule join_starts [OF assms that])
  have mem: "join ''/'' es = ''.leros/memory'' \<or> prefix ''.leros/memory/'' (join ''/'' es) \<longleftrightarrow>
      tl es \<noteq> [] \<and> hd (tl es) = ''memory''" if "hd es = ''.leros''"
  proof (cases "tl es = []")
    case True
    then show ?thesis using that assms(1) by (cases es) auto
  next
    case False
    then have "join ''/'' es = ''.leros/'' @ join ''/'' (tl es)" using that assms(1) by (cases es) (auto simp: join_slash)
    moreover have "join ''/'' (tl es) = ''memory'' \<or> prefix (''memory'' @ ''/'') (join ''/'' (tl es)) \<longleftrightarrow> hd (tl es) = ''memory''"
      using assms(2) False by (intro join_starts) (auto dest: list.set_sel(2) [rotated])
    ultimately show ?thesis using False by simp
  qed
  show ?thesis
    using starts [of "''.git''"] starts [of "''.leros''"] mem by (auto simp: isRuntimePath_def Clean_join [OF assms] Let_def)
qed

section \<open>Facts on the directories\<close>

lemma Abs_path_rooted:
  assumes "Abs_path cwd p = Inr q" "\<And>wd. cwd = Inr wd \<Longrightarrow> IsAbs wd"
  shows "IsAbs q"
proof (cases "IsAbs p")
  case True
  then show ?thesis using assms(1) by (auto simp: Abs_path_def IsAbs_Clean)
next
  case False
  then obtain wd where wd: "cwd = Inr wd" "q = Join [wd, p]" using assms(1) by (auto simp: Abs_path_def split: sum.splits)
  then have "IsAbs wd" "wd \<noteq> []" using assms(2) by (auto simp: IsAbs_def)
  then show ?thesis unfolding wd(2) by (simp add: Join_def IsAbs_Clean IsAbs_append)
qed

lemma escape_confined:
  assumes "ensureNoSymlinkEscape cwd eval root candidate = None" "\<And>wd. cwd = Inr wd \<Longrightarrow> IsAbs wd"
  shows "\<exists>rootReal candidateReal r c. eval root = Inr rootReal \<and> resolveSymlinksUpToExisting eval candidate = Inr candidateReal \<and>
    Abs_path cwd rootReal = Inr r \<and> Abs_path cwd candidateReal = Inr c \<and> prefix (elements r) (elements c)"
proof -
  obtain rootReal candidateReal r c where o: "eval root = Inr rootReal" "resolveSymlinksUpToExisting eval candidate = Inr candidateReal"
    "Abs_path cwd rootReal = Inr r" "Abs_path cwd candidateReal = Inr c" "ensureInside r c = None"
    using assms(1) by (auto simp: ensureNoSymlinkEscape_def split: sum.splits prod.splits)
  have "IsAbs r" "IsAbs c" using Abs_path_rooted [OF o(3) assms(2)] Abs_path_rooted [OF o(4) assms(2)] by auto
  then show ?thesis using o ensureInside_rooted [of r c] by auto
qed

lemma SafeJoin_Inr:
  assumes "SafeJoin cwd eval root child = Inr p" "\<And>wd. cwd = Inr wd \<Longrightarrow> IsAbs wd"
  obtains ra es where "Abs_path cwd root = Inr ra" "IsAbs ra" "es = elements (trim_space child)" "es \<noteq> []" "\<forall>e \<in> set es. plain e"
    "Clean (trim_space child) = join ''/'' es" "p = path_of True (elements ra @ es)" "\<not> isRuntimePath (join ''/'' es)"
    "ensureNoSymlinkEscape cwd eval ra p = None"
proof -
  let ?c = "trim_space child"
  obtain ra where ra: "Abs_path cwd root = Inr ra" using assms(1) by (auto simp: SafeJoin_def split: sum.splits)
  have abs: "IsAbs ra" by (rule Abs_path_rooted [OF ra assms(2)])
  have c: "\<not> IsAbs ?c" "Clean ?c \<noteq> ''.''" "\<not> prefix ''..'' (Clean ?c)" "\<not> isRuntimePath (Clean ?c)"
    using assms(1) ra by (auto simp: SafeJoin_def Let_def split: if_splits)
  note rc = relative_clean [OF c(1-3)]
  have pl: "\<forall>e \<in> set (elements ra @ elements ?c). plain e" using elements_rooted [OF abs] rc(2) by auto
  have j: "Abs_path cwd (Join [ra, Clean ?c]) = Inr (path_of True (elements ra @ elements ?c))"
    unfolding rc(3) Join_join [OF abs rc(1,2)] by (simp add: Abs_rooted Clean_path_of [OF pl])
  have "p = path_of True (elements ra @ elements ?c) \<and> ensureNoSymlinkEscape cwd eval ra p = None"
    using assms(1) ra j by (auto simp: SafeJoin_def Let_def split: if_splits option.splits)
  then have p: "p = path_of True (elements ra @ elements ?c)" "ensureNoSymlinkEscape cwd eval ra p = None" by blast+
  show thesis by (rule that [OF ra abs refl rc p(1) _ p(2)]) (use c(4) rc(3) in simp)
qed

lemma trim_slashes_set: "set (trim_slashes s) \<subseteq> set s"
  unfolding trim_slashes_def by (metis set_dropWhileD set_rev subsetI)

lemma cleanPathID_plain: "cleanPathID v \<noteq> [] \<Longrightarrow> plain (cleanPathID v)"
  by (auto simp: cleanPathID_def Let_def plain_def list_ex_iff slash_char_def split: if_splits)

lemma show_nat_plain: "plain (show_nat n)"
proof -
  have "\<forall>c \<in> set (show_nat n). is_digit c" "show_nat n \<noteq> []"
    using show_nat_digits [of n] by (simp_all add: list_all_iff)
  moreover have "\<not> is_digit CHR ''/''" "\<not> is_digit CHR ''.''" by code_simp+
  ultimately show ?thesis by (auto simp: plain_def)
qed

lemma plain_names: "plain ''projects''" "plain ''repo''" "plain ''.leros''" "plain ''tasks''" "plain ''turns''" "plain ''tmp''" "plain ''logs''"
  "plain ''artifacts.jsonl''" "plain ''baseline.jsonl''" "plain ''workspace''" "plain ''.git''"
  by (simp_all add: plain_def)

lemma elements_Join: "IsAbs p \<Longrightarrow> es \<noteq> [] \<Longrightarrow> \<forall>e \<in> set es. plain e \<Longrightarrow> elements (Join (p # es)) = elements p @ es"
  using elements_path_of [of "elements p @ es"] elements_rooted [of p] by (simp add: Join_rooted ball_Un)

lemma IsAbs_Join: "IsAbs p \<Longrightarrow> es \<noteq> [] \<Longrightarrow> \<forall>e \<in> set es. plain e \<Longrightarrow> IsAbs (Join (p # es))"
  by (simp add: Join_rooted)

lemma resolved_layout:
  assumes "ResolveTaskWorkspace cwd (Inr root) req = Inr w" "IsAbs root"
  defines "repo \<equiv> elements root @ [''projects'', show_nat (tw_OrgID req), cleanPathID (tw_ProjectID req), ''repo'']"
  shows "elements (ws_RepoDir w) = repo" "IsAbs (ws_RepoDir w)"
    "elements (ws_TurnDir w) = repo @ [''.leros'', ''tasks'', cleanPathID (tw_TaskID req), ''turns'', cleanPathID (tw_RequestID req)]"
    "resolveWorkDir cwd (ws_RepoDir w) (tw_RequestedWorkDir req) = Inr (ws_EffectiveWorkDir w)"
proof -
  let ?p = "cleanPathID (tw_ProjectID req)" and ?t = "cleanPathID (tw_TaskID req)" and ?r = "cleanPathID (tw_RequestID req)"
  have ids: "plain ?p" "plain ?t" "plain ?r"
    using assms(1) by (auto intro!: cleanPathID_plain simp: ResolveTaskWorkspace_def Let_def split: if_splits)
  let ?pr = "Join [root, ''projects'', show_nat (tw_OrgID req), ?p]"
  let ?repo = "Join [?pr, ''repo'']"
  let ?task = "Join [?repo, ''.leros'', ''tasks'', ?t]"
  let ?turn = "Join [?task, ''turns'', ?r]"
  have pr: "IsAbs ?pr" "elements ?pr = elements root @ [''projects'', show_nat (tw_OrgID req), ?p]"
    using ids assms(2) by (simp_all add: IsAbs_Join elements_Join plain_names show_nat_plain)
  then have rp: "IsAbs ?repo" "elements ?repo = repo"
    by (simp_all add: IsAbs_Join elements_Join plain_names repo_def)
  then have tk: "IsAbs ?task" "elements ?task = repo @ [''.leros'', ''tasks'', ?t]"
    using ids by (simp_all add: IsAbs_Join elements_Join plain_names)
  then have tn: "elements ?turn = repo @ [''.leros'', ''tasks'', ?t, ''turns'', ?r]"
    using ids by (simp add: elements_Join plain_names)
  have w: "ws_RepoDir w = ?repo" "ws_TurnDir w = ?turn" "resolveWorkDir cwd ?repo (tw_RequestedWorkDir req) = Inr (ws_EffectiveWorkDir w)"
    using assms(1) by (auto simp: ResolveTaskWorkspace_def Let_def split: if_splits sum.splits)
  show "elements (ws_RepoDir w) = repo" "IsAbs (ws_RepoDir w)"
    "elements (ws_TurnDir w) = repo @ [''.leros'', ''tasks'', ?t, ''turns'', ?r]"
    "resolveWorkDir cwd (ws_RepoDir w) (tw_RequestedWorkDir req) = Inr (ws_EffectiveWorkDir w)"
    using rp tn w by simp_all
qed

lemma work_dir_inside:
  assumes "resolveWorkDir cwd repo requested = Inr d" "IsAbs repo"
  shows "IsAbs d \<and> prefix (elements repo) (elements d)"
proof (cases "trim_space requested = []")
  case True
  then have "d = Clean repo" using assms by (simp add: resolveWorkDir_def Abs_rooted)
  then show ?thesis using assms(2) by (simp add: IsAbs_Clean elements_Clean)
next
  case False
  obtain c where c: "Abs_path cwd c = Inr d" "ensureInside (Clean repo) d = None" "IsAbs c"
  proof -
    have a: "Abs_path cwd repo = Inr (Clean repo)" "IsAbs (Clean repo)" using assms(2) by (simp_all add: Abs_rooted IsAbs_Clean)
    let ?r = "trim_space requested"
    have j: "IsAbs (Join [Clean repo, Clean ?r])" if "\<not> IsAbs ?r" "Clean ?r \<noteq> ''.''" "\<not> prefix ''..'' (Clean ?r)"
      unfolding relative_clean(3) [OF that] using Join_join [OF a(2) relative_clean(1,2) [OF that]] by simp
    show thesis
      using assms(1) False a j that
      by (auto simp: resolveWorkDir_def Let_def split: if_splits sum.splits option.splits)
  qed
  then have "IsAbs d" by (auto simp: Abs_rooted IsAbs_Clean)
  with c(2) ensureInside_rooted [of "Clean repo" d] assms(2) show ?thesis by (auto simp: IsAbs_Clean elements_Clean)
qed

section \<open>Properties\<close>

text \<open>C31: what \<open>SafeJoin\<close> returns is inside the root, before and after symbolic links are resolved. The path is the root
  followed by at least one plain element (no dots, no separators), it is not in \<open>.git\<close>, in \<open>.leros\<close> only under
  \<open>memory\<close>, and its real path, as far as it exists, lies under the real path of the root.\<close>

theorem safe_join_confined:
  assumes "SafeJoin cwd eval root child = Inr p" "\<And>wd. cwd = Inr wd \<Longrightarrow> IsAbs wd"
  shows "\<exists>ra es rootReal real r c. Abs_path cwd root = Inr ra \<and> IsAbs p \<and> elements p = elements ra @ es \<and> es \<noteq> [] \<and>
    (\<forall>e \<in> set es. plain e) \<and> hd es \<noteq> ''.git'' \<and> (hd es = ''.leros'' \<longrightarrow> tl es \<noteq> [] \<and> hd (tl es) = ''memory'') \<and>
    eval ra = Inr rootReal \<and> resolveSymlinksUpToExisting eval p = Inr real \<and>
    Abs_path cwd rootReal = Inr r \<and> Abs_path cwd real = Inr c \<and> prefix (elements r) (elements c)"
proof -
  obtain ra es where o: "Abs_path cwd root = Inr ra" "IsAbs ra" "es = elements (trim_space child)" "es \<noteq> []" "\<forall>e \<in> set es. plain e"
    "Clean (trim_space child) = join ''/'' es" "p = path_of True (elements ra @ es)" "\<not> isRuntimePath (join ''/'' es)"
    "ensureNoSymlinkEscape cwd eval ra p = None"
    by (rule SafeJoin_Inr [OF assms])
  have "IsAbs p" "elements p = elements ra @ es"
    using o(5) elements_rooted [OF o(2)] unfolding o(7) by (simp_all add: elements_path_of ball_Un)
  then show ?thesis using o escape_confined [OF o(9) assms(2)] runtime_elements [OF o(4,5)] by blast
qed

definition demo_links :: symlinks where
  "demo_links path = (if path = ''/w/repo/out'' then Inr ''/etc'' else Inr path)"

lemma demo_abs: "IsAbs ''/w/repo''" "Clean ''/w/repo'' = ''/w/repo''" "IsAbs ''/''"
  by code_simp+

theorem safe_join_confined_witness:
  "SafeJoin (Inr ''/'') demo_links ''/w/repo'' '' docs/../a.md '' = Inr ''/w/repo/a.md'' \<and>
   (\<exists>es. elements ''/w/repo/a.md'' = [''w'', ''repo''] @ es \<and> es \<noteq> []) \<and>
   SafeJoin (Inr ''/'') demo_links ''/w/repo'' ''out'' = Inl (errorf ''path escapes project workspace'')"
proof -
  have s: "SafeJoin (Inr ''/'') demo_links ''/w/repo'' '' docs/../a.md '' = Inr ''/w/repo/a.md''" by code_simp
  have "\<And>wd. (Inr ''/'' :: go_error + string) = Inr wd \<Longrightarrow> IsAbs wd" using demo_abs(3) by simp
  from safe_join_confined [OF s this] obtain es where "elements ''/w/repo/a.md'' = elements ''/w/repo'' @ es" "es \<noteq> []"
    by (auto simp: Abs_rooted demo_abs)
  moreover have "elements ''/w/repo'' = [''w'', ''repo'']" by code_simp
  moreover have "SafeJoin (Inr ''/'') demo_links ''/w/repo'' ''out'' = Inl (errorf ''path escapes project workspace'')" by code_simp
  ultimately show ?thesis using s by auto
qed

lemma stored_key:
  assumes "StorageKey cwd eval (Some w) path = Inr key" "\<And>wd. cwd = Inr wd \<Longrightarrow> IsAbs wd" "IsAbs (ws_RepoDir w)"
  shows "key = Clean (trim_space path) \<and> \<not> IsAbs key \<and> elements key = elements (trim_space path) \<and>
    (\<forall>e \<in> set (elements key). plain e)"
proof -
  obtain p where p: "SafeJoin cwd eval (ws_RepoDir w) path = Inr p" "Rel (ws_RepoDir w) p = Inr key"
    using assms(1) by (auto simp: StorageKey_def split: sum.splits)
  obtain ra es where o: "Abs_path cwd (ws_RepoDir w) = Inr ra" "IsAbs ra" "es = elements (trim_space path)" "es \<noteq> []" "\<forall>e \<in> set es. plain e"
    "Clean (trim_space path) = join ''/'' es" "p = path_of True (elements ra @ es)"
    by (rule SafeJoin_Inr [OF p(1) assms(2)]) blast
  have ra: "elements ra = elements (ws_RepoDir w)" using o(1) assms(3) by (auto simp: Abs_rooted elements_Clean)
  have ip: "IsAbs p" "elements p = elements (ws_RepoDir w) @ es"
    using o(5) elements_rooted [OF assms(3)] unfolding o(7) ra by (simp_all add: elements_path_of ball_Un)
  have key: "key = join ''/'' es"
    using o(4) p(2) ip(2) by (cases rule: Rel_rooted [OF assms(3) ip(1)]) (auto simp: prefix_def)
  have "\<not> IsAbs key" using o(4,5) unfolding key by (intro plain_join_abs) auto
  moreover have "split_path key = es" using o(4,5) unfolding key by (intro split_path_join) (auto simp: plain_def)
  ultimately have "elements key = es" using clean_loop_plain [OF o(5), of False "[]"] by (simp add: elements_def)
  then show ?thesis using \<open>\<not> IsAbs key\<close> key o(3,5,6) by simp
qed

text \<open>the storage key of an artifact is its cleaned path relative to the repository, for a repository with an absolute
  path.\<close>

theorem storage_key_is_relative_path:
  assumes "StorageKey cwd eval (Some w) path = Inr key" "\<And>wd. cwd = Inr wd \<Longrightarrow> IsAbs wd" "IsAbs (ws_RepoDir w)"
  shows "key = Clean (trim_space path) \<and> \<not> IsAbs key \<and> elements key = elements (trim_space path) \<and>
    (\<forall>e \<in> set (elements key). plain e)"
  by (rule stored_key [OF assms])

theorem storage_key_is_relative_path_witness:
  "\<exists>w. StorageKey (Inr ''/'') demo_links (Some w) ''./docs//a.md'' = Inr ''docs/a.md''"
proof -
  let ?w = "\<lparr>ws_WorkspaceRoot = ''/'', ws_ProjectRoot = ''/w'', ws_RepoDir = ''/w/repo'', ws_TaskDir = [], ws_TurnDir = [],
    ws_TurnTmpDir = [], ws_TurnLogDir = [], ws_ArtifactManifestPath = [], ws_BaselinePath = [], ws_EffectiveWorkDir = [],
    ws_CloneURL = []\<rparr>"
  have "StorageKey (Inr ''/'') demo_links (Some ?w) ''./docs//a.md'' = Inr ''docs/a.md''" by code_simp
  then obtain key where k: "StorageKey (Inr ''/'') demo_links (Some ?w) ''./docs//a.md'' = Inr key" by blast
  have "\<And>wd. (Inr ''/'' :: go_error + string) = Inr wd \<Longrightarrow> IsAbs wd" "IsAbs (ws_RepoDir ?w)" using demo_abs by simp_all
  from storage_key_is_relative_path [OF k this] have "key = Clean (trim_space ''./docs//a.md'')" by blast
  also have "\<dots> = ''docs/a.md''" by code_simp
  finally show ?thesis using k by blast
qed

definition apart :: "string \<Rightarrow> string \<Rightarrow> bool" where
  "apart a b \<longleftrightarrow> \<not> prefix (elements a) (elements b) \<and> \<not> prefix (elements b) (elements a)"

text \<open>requests are kept apart. For two requests that are resolved under one absolute workspace root, the repository of each
  is under the root and its working directory inside its repository; if they differ in organisation or project, neither
  repository contains the other; if they have the same repository but differ in task or request, neither turn directory contains
  the other.\<close>

theorem workspaces_apart:
  assumes "ResolveTaskWorkspace cwd (Inr root) r1 = Inr w1" "ResolveTaskWorkspace cwd (Inr root) r2 = Inr w2" "IsAbs root"
  shows "prefix (elements root) (elements (ws_RepoDir w1)) \<and> prefix (elements (ws_RepoDir w1)) (elements (ws_EffectiveWorkDir w1)) \<and>
    ((tw_OrgID r1, cleanPathID (tw_ProjectID r1)) \<noteq> (tw_OrgID r2, cleanPathID (tw_ProjectID r2)) \<longrightarrow>
       apart (ws_RepoDir w1) (ws_RepoDir w2)) \<and>
    ((tw_OrgID r1, cleanPathID (tw_ProjectID r1)) = (tw_OrgID r2, cleanPathID (tw_ProjectID r2)) \<and>
     (cleanPathID (tw_TaskID r1), cleanPathID (tw_RequestID r1)) \<noteq> (cleanPathID (tw_TaskID r2), cleanPathID (tw_RequestID r2)) \<longrightarrow>
       ws_RepoDir w1 = ws_RepoDir w2 \<and> apart (ws_TurnDir w1) (ws_TurnDir w2))"
proof -
  note l1 = resolved_layout [OF assms(1,3)] and l2 = resolved_layout [OF assms(2,3)]
  have same: "ws_RepoDir w1 = ws_RepoDir w2"
    if "(tw_OrgID r1, cleanPathID (tw_ProjectID r1)) = (tw_OrgID r2, cleanPathID (tw_ProjectID r2))"
    using assms(1,2) that by (auto simp: ResolveTaskWorkspace_def Let_def split: if_splits sum.splits)
  show ?thesis
    using work_dir_inside [OF l1(4,2)] same l1(1,3) l2(1,3) by (auto simp: apart_def)
qed

definition demo_task :: "string \<Rightarrow> task_workspace_request" where
  "demo_task request = \<lparr>tw_OrgID = 7, tw_ProjectID = ''p'', tw_TaskID = ''t'', tw_RequestID = request, tw_RequestedWorkDir = ''docs'',
     tw_CloneURL = []\<rparr>"

theorem workspaces_apart_witness:
  "\<exists>w1 w2. ResolveTaskWorkspace (Inr ''/'') (Inr ''/w'') (demo_task ''a'') = Inr w1 \<and>
     ResolveTaskWorkspace (Inr ''/'') (Inr ''/w'') (demo_task '' b/'') = Inr w2 \<and> apart (ws_TurnDir w1) (ws_TurnDir w2)"
proof -
  have "case ResolveTaskWorkspace (Inr ''/'') (Inr ''/w'') (demo_task ''a'') of Inl e \<Rightarrow> False | Inr w \<Rightarrow> True"
    "case ResolveTaskWorkspace (Inr ''/'') (Inr ''/w'') (demo_task '' b/'') of Inl e \<Rightarrow> False | Inr w \<Rightarrow> True"
    "cleanPathID (tw_RequestID (demo_task ''a'')) \<noteq> cleanPathID (tw_RequestID (demo_task '' b/''))" "IsAbs ''/w''" by code_simp+
  then obtain w1 w2 where w: "ResolveTaskWorkspace (Inr ''/'') (Inr ''/w'') (demo_task ''a'') = Inr w1"
    "ResolveTaskWorkspace (Inr ''/'') (Inr ''/w'') (demo_task '' b/'') = Inr w2"
    "cleanPathID (tw_RequestID (demo_task ''a'')) \<noteq> cleanPathID (tw_RequestID (demo_task '' b/''))" "IsAbs ''/w''"
    by (auto split: sum.splits)
  have "apart (ws_TurnDir w1) (ws_TurnDir w2)"
    using workspaces_apart [OF w(1,2,4)] w(3) by (simp add: demo_task_def)
  with w show ?thesis by blast
qed

text \<open>the protection of the runtime's own directories covers only relative requests. A request for the working directory
  \<open>.git\<close> is refused, but the same directory asked for by its absolute path is accepted.\<close>

theorem absolute_work_dir_unchecked:
  assumes "IsAbs repo"
  shows "resolveWorkDir cwd repo ''.git'' = Inl (errorf ''runtime work_dir cannot point to runtime paths'') \<and>
    resolveWorkDir cwd repo (repo @ ''/.git'') = Inr (path_of True (elements repo @ [''.git'']))"
proof -
  have rel: "trim_space ''.git'' = ''.git''" "\<not> IsAbs ''.git''" "Clean ''.git'' = ''.git''" "isRuntimePath ''.git''" by code_simp+
  have ne: "repo \<noteq> []" "hd repo = CHR ''/''" using assms by (auto simp: IsAbs_def prefix_def)
  then have tr: "trim_space (repo @ ''/.git'') = repo @ ''/.git''"
    by (intro trim_space_graph) (simp_all add: graph_byte_def)
  have el: "elements (repo @ ''/.git'') = elements repo @ [''.git'']"
    using elements_slash [OF assms, of "''.git''"] by simp
  have ab: "IsAbs (repo @ ''/.git'')" using IsAbs_append [OF assms] .
  have pl: "\<forall>e \<in> set (elements repo @ [''.git'']). plain e" using elements_rooted [OF assms] by (simp add: plain_names)
  have "ensureInside (Clean repo) (path_of True (elements repo @ [''.git''])) = None"
    using assms elements_path_of [OF pl] by (simp add: ensureInside_rooted IsAbs_Clean elements_Clean)
  then show ?thesis
    using ne assms ab by (simp add: resolveWorkDir_def rel tr Abs_rooted Clean_def [of "repo @ ''/.git''"] el)
qed

theorem absolute_work_dir_unchecked_witness: "resolveWorkDir (Inr ''/'') ''/w/repo'' ''/w/repo/.git'' = Inr ''/w/repo/.git''"
proof -
  have "path_of True (elements ''/w/repo'' @ [''.git'']) = ''/w/repo/.git''" by code_simp
  with absolute_work_dir_unchecked [OF demo_abs(1), of "Inr ''/''"] show ?thesis by simp
qed

end
