(* ===== verification/SystemPrompt.thy ===== *)
theory SystemPrompt
  imports SkillInvoke Workspace
begin

text \<open>
  The prompt context of a run (\<open>backend/internal/assistant/context/system_prompt.go\<close>, \<open>builder.go\<close>,
  \<open>session_messages.go\<close>): the sections of the system prompt and the builder around them. Parameters are the registered
  templates (\<open>prompts.Get\<close>), the catalogue's listing, the memory's block, the date's text and the name of the operating
  system.

  Lemmas: the prompt consists of the sections that are not blank, in their order; a builder that prepares a request changes
  only its messages and its system prompt.
\<close>

section \<open>Where the texts come from\<close>

record prompt_sources =
  ps_prompts :: "string \<Rightarrow> string"
  ps_skills :: "go_error + (string \<times> string) list"
  ps_memory :: "(go_error + string) option"
  ps_date :: string
  ps_goos :: string
  ps_cwd :: "go_error + string"
  ps_root :: "go_error + string"

text \<open>\<open>strings.Replace\<close> of the first occurrence of a non-empty text.\<close>

fun replace_first :: "string \<Rightarrow> string \<Rightarrow> string \<Rightarrow> string" where
  "replace_first old new [] = []"
| "replace_first old new (c # s) =
     (if prefix old (c # s) then new @ drop (length old) (c # s) else c # replace_first old new s)"

section \<open>The sections\<close>

definition skill_item :: "string \<times> string \<Rightarrow> string" where
  "skill_item s = ''- '' @ fst s @ '': '' @ snd s @ [CHR 0x0A]"

definition buildSkillLoadingContext :: "prompt_sources \<Rightarrow> string" where
  "buildSkillLoadingContext ps =
     (let skillsData =
        (case ps_skills ps of
           Inr (s # ss) \<Rightarrow> trim_space ([CHR 0x0A] @ concat (map skill_item (s # ss)))
         | _ \<Rightarrow> [])
      in replace_first ''{skills_data}'' skillsData (ps_prompts ps ''agent.native.skill_loading''))"

definition buildMemoryContext :: "(go_error + string) option \<Rightarrow> string" where
  "buildMemoryContext reader = (case reader of Some (Inr block) \<Rightarrow> trim_space block | _ \<Rightarrow> [])"

definition workspace_intro :: string where
  "workspace_intro =
     ''## '' @ [CHR 0xE5, CHR 0xB7, CHR 0xA5, CHR 0xE4, CHR 0xBD, CHR 0x9C, CHR 0xE5, CHR 0x8C, CHR 0xBA, CHR 0xE4,
     CHR 0xBF, CHR 0xA1, CHR 0xE6, CHR 0x81, CHR 0xAF, CHR 0x0A, CHR 0x0A] @ ''- '' @ [CHR 0xE9, CHR 0xA1,
     CHR 0xB9, CHR 0xE7, CHR 0x9B, CHR 0xAE, CHR 0xE5, CHR 0xB7, CHR 0xA5, CHR 0xE4, CHR 0xBD, CHR 0x9C, CHR 0xE7,
     CHR 0x9B, CHR 0xAE, CHR 0xE5, CHR 0xBD, CHR 0x95] @ '': ''"

definition workspace_tmp :: string where
  "workspace_tmp =
     [CHR 0x0A] @ ''- '' @ [CHR 0xE6, CHR 0x9C, CHR 0xAC, CHR 0xE6, CHR 0xAC, CHR 0xA1, CHR 0xE8, CHR 0xAF,
     CHR 0xB7, CHR 0xE6, CHR 0xB1, CHR 0x82, CHR 0xE4, CHR 0xB8, CHR 0xB4, CHR 0xE6, CHR 0x97, CHR 0xB6, CHR 0xE7,
     CHR 0x9B, CHR 0xAE, CHR 0xE5, CHR 0xBD, CHR 0x95] @ '': ''"

definition workspace_log :: string where
  "workspace_log =
     [CHR 0x0A] @ ''- '' @ [CHR 0xE4, CHR 0xBC, CHR 0x9A, CHR 0xE8, CHR 0xAF, CHR 0x9D, CHR 0xE6, CHR 0x97,
     CHR 0xA5, CHR 0xE5, CHR 0xBF, CHR 0x97, CHR 0xE7, CHR 0x9B, CHR 0xAE, CHR 0xE5, CHR 0xBD, CHR 0x95] @ '': ''"

definition workspace_rules :: string where
  "workspace_rules =
     [CHR 0x0A, CHR 0x0A] @ ''**'' @ [CHR 0xE5, CHR 0xB7, CHR 0xA5, CHR 0xE4, CHR 0xBD, CHR 0x9C, CHR 0xE5,
     CHR 0x8C, CHR 0xBA, CHR 0xE5, CHR 0x8F, CHR 0xAF, CHR 0xE8, CHR 0xA7, CHR 0x81, CHR 0xE6, CHR 0x80, CHR 0xA7,
     CHR 0xE8, CHR 0xA7, CHR 0x84, CHR 0xE5, CHR 0x88, CHR 0x99, CHR 0xEF, CHR 0xBC, CHR 0x9A] @ ''**'' @
     [CHR 0x0A] @ ''- '' @ [CHR 0xE4, CHR 0xBB, CHR 0x85, CHR 0xE9, CHR 0xA1, CHR 0xB9, CHR 0xE7, CHR 0x9B,
     CHR 0xAE, CHR 0xE5, CHR 0xB7, CHR 0xA5, CHR 0xE4, CHR 0xBD, CHR 0x9C, CHR 0xE7, CHR 0x9B, CHR 0xAE, CHR 0xE5,
     CHR 0xBD, CHR 0x95, CHR 0xE4, CHR 0xB8, CHR 0x8B, CHR 0xE7, CHR 0x9A, CHR 0x84, CHR 0xE5, CHR 0x86, CHR 0x85,
     CHR 0xE5, CHR 0xAE, CHR 0xB9, CHR 0xE5, CHR 0xAF, CHR 0xB9, CHR 0xE7, CHR 0x94, CHR 0xA8, CHR 0xE6, CHR 0x88,
     CHR 0xB7, CHR 0xE5, CHR 0x8F, CHR 0xAF, CHR 0xE8, CHR 0xA7, CHR 0x81, CHR 0xEF, CHR 0xBC, CHR 0x8C, CHR 0xE5,
     CHR 0x8F, CHR 0xAF, CHR 0xE8, CHR 0xA2, CHR 0xAB, CHR 0xE7, CHR 0x94, CHR 0xA8, CHR 0xE6, CHR 0x88, CHR 0xB7,
     CHR 0xE8, CHR 0xAE, CHR 0xBF, CHR 0xE9, CHR 0x97, CHR 0xAE, CHR 0xE5, CHR 0x92, CHR 0x8C, CHR 0xE4, CHR 0xB8,
     CHR 0x8B, CHR 0xE8, CHR 0xBD, CHR 0xBD, CHR 0xE3, CHR 0x80, CHR 0x82, CHR 0x0A] @ ''- '' @ [CHR 0xE4,
     CHR 0xB8, CHR 0x8D, CHR 0xE9, CHR 0x9C, CHR 0x80, CHR 0xE8, CHR 0xA6, CHR 0x81, CHR 0xE8, CHR 0xAE, CHR 0xA9,
     CHR 0xE7, CHR 0x94, CHR 0xA8, CHR 0xE6, CHR 0x88, CHR 0xB7, CHR 0xE7, CHR 0x9C, CHR 0x8B, CHR 0xE8, CHR 0xA7,
     CHR 0x81, CHR 0xE7, CHR 0x9A, CHR 0x84, CHR 0xE4, CHR 0xB8, CHR 0xB4, CHR 0xE6, CHR 0x97, CHR 0xB6, CHR 0xE6,
     CHR 0x96, CHR 0x87, CHR 0xE4, CHR 0xBB, CHR 0xB6, CHR 0xE3, CHR 0x80, CHR 0x81, CHR 0xE4, CHR 0xB8, CHR 0xAD,
     CHR 0xE9, CHR 0x97, CHR 0xB4, CHR 0xE4, CHR 0xBA, CHR 0xA7, CHR 0xE7, CHR 0x89, CHR 0xA9, CHR 0xEF, CHR 0xBC,
     CHR 0x8C, CHR 0xE5, CHR 0xBA, CHR 0x94, CHR 0xE5, CHR 0x9C, CHR 0xA8, CHR 0xE4, CHR 0xB8, CHR 0xB4, CHR 0xE6,
     CHR 0x97, CHR 0xB6, CHR 0xE7, CHR 0x9B, CHR 0xAE, CHR 0xE5, CHR 0xBD, CHR 0x95, CHR 0xE4, CHR 0xB8, CHR 0xAD,
     CHR 0xE5, CHR 0x88, CHR 0x9B, CHR 0xE5, CHR 0xBB, CHR 0xBA, CHR 0xE3, CHR 0x80, CHR 0x82, CHR 0x0A] @ ''- '' @
     [CHR 0xE4, CHR 0xBC, CHR 0x9A, CHR 0xE8, CHR 0xAF, CHR 0x9D, CHR 0xE6, CHR 0x97, CHR 0xA5, CHR 0xE5, CHR 0xBF,
     CHR 0x97, CHR 0xE7, CHR 0x9B, CHR 0xAE, CHR 0xE5, CHR 0xBD, CHR 0x95, CHR 0xE7, CHR 0x94, CHR 0xA8, CHR 0xE4,
     CHR 0xBA, CHR 0x8E, CHR 0xE5, CHR 0xAD, CHR 0x98, CHR 0xE6, CHR 0x94, CHR 0xBE, CHR 0xE8, CHR 0xBF, CHR 0x90,
     CHR 0xE8, CHR 0xA1, CHR 0x8C, CHR 0xE6, CHR 0x97, CHR 0xA5, CHR 0xE5, CHR 0xBF, CHR 0x97, CHR 0xEF, CHR 0xBC,
     CHR 0x8C, CHR 0xE7, CHR 0x94, CHR 0xA8, CHR 0xE6, CHR 0x88, CHR 0xB7, CHR 0xE6, CHR 0x97, CHR 0xA0, CHR 0xE6,
     CHR 0xB3, CHR 0x95, CHR 0xE7, CHR 0x9B, CHR 0xB4, CHR 0xE6, CHR 0x8E, CHR 0xA5, CHR 0xE8, CHR 0xAE, CHR 0xBF,
     CHR 0xE9, CHR 0x97, CHR 0xAE, CHR 0xE3, CHR 0x80, CHR 0x82, CHR 0x0A, CHR 0x0A] @ ''**'' @ [CHR 0xE8,
     CHR 0xBF, CHR 0x90, CHR 0xE8, CHR 0xA1, CHR 0x8C, CHR 0xE7, CHR 0xB3, CHR 0xBB, CHR 0xE7, CHR 0xBB, CHR 0x9F,
     CHR 0xE7, CHR 0x8E, CHR 0xAF, CHR 0xE5, CHR 0xA2, CHR 0x83, CHR 0xEF, CHR 0xBC, CHR 0x9A] @ ''**'' @
     [CHR 0x0A] @ ''- Host: ''"

definition buildWorkspaceContext :: "prompt_sources \<Rightarrow> run_request option \<Rightarrow> string" where
  "buildWorkspaceContext ps req =
     (case FromAgentRequest (ps_cwd ps) (ps_root ps) req of
        Inr (Some plan) \<Rightarrow>
          workspace_intro @ ws_RepoDir plan @ workspace_tmp @ ws_TurnTmpDir plan @
          workspace_log @ ws_TurnLogDir plan @ workspace_rules @ ps_goos ps
      | _ \<Rightarrow> [])"

definition meta_title :: string where
  "meta_title =
     ''## '' @ [CHR 0xE8, CHR 0xBF, CHR 0x90, CHR 0xE8, CHR 0xA1, CHR 0x8C, CHR 0xE4, CHR 0xBF, CHR 0xA1, CHR 0xE6,
     CHR 0x81, CHR 0xAF, CHR 0x0A]"

definition date_label :: string where
  "date_label =
     ''- '' @ [CHR 0xE5, CHR 0xBD, CHR 0x93, CHR 0xE5, CHR 0x89, CHR 0x8D, CHR 0xE6, CHR 0x97, CHR 0xA5, CHR 0xE6,
     CHR 0x9C, CHR 0x9F] @ '': ''"

definition session_label :: string where
  "session_label =
     ''- '' @ [CHR 0xE4, CHR 0xBC, CHR 0x9A, CHR 0xE8, CHR 0xAF, CHR 0x9D] @ ''ID: ''"

definition model_label :: string where
  "model_label =
     ''- '' @ [CHR 0xE6, CHR 0xA8, CHR 0xA1, CHR 0xE5, CHR 0x9E, CHR 0x8B] @ '': ''"

definition buildRunMetaContext :: "string \<Rightarrow> run_request option \<Rightarrow> string" where
  "buildRunMetaContext dateStr req =
     (case req of
        None \<Rightarrow> []
      | Some r \<Rightarrow>
          (let provider = dl_Provider (rq_Model r); model = dl_Model (rq_Model r);
               parts = [date_label @ dateStr] @
                 (if dv_ID (rq_Conversation r) \<noteq> [] then [session_label @ dv_ID (rq_Conversation r)] else []) @
                 (if model \<noteq> []
                  then [model_label @ (if provider \<noteq> [] then provider @ ''/'' @ model else model)] else [])
           in meta_title @ join [CHR 0x0A] parts))"

definition platformPromptKeys :: "string \<Rightarrow> string option" where
  "platformPromptKeys = [''wechat'' \<mapsto> ''agent.system.platform.wechat'', ''feishu'' \<mapsto> ''agent.system.platform.feishu'',
     ''slack'' \<mapsto> ''agent.system.platform.slack'', ''api'' \<mapsto> ''agent.system.platform.api'']"

definition buildPlatformContext :: "(string \<Rightarrow> string) \<Rightarrow> run_request option \<Rightarrow> string" where
  "buildPlatformContext prompts req =
     (case req of
        None \<Rightarrow> []
      | Some r \<Rightarrow>
          if dc_Channel (rq_Actor r) = [] then []
          else (case platformPromptKeys (dc_Channel (rq_Actor r)) of
                  None \<Rightarrow> []
                | Some key \<Rightarrow> trim_space (prompts key)))"

section \<open>The system prompt\<close>

definition identity_section :: "(string \<Rightarrow> string) \<Rightarrow> run_request option \<Rightarrow> string" where
  "identity_section prompts req =
     (let identity = trim_space (prompts ''agent.system.default'') in
      case req of
        None \<Rightarrow> identity
      | Some r \<Rightarrow>
          (let own = trim_space (da_SystemPrompt (rq_Assistant r)) in
           if own \<noteq> [] then identity @ [CHR 0x0A, CHR 0x0A] @ own else identity))"

text \<open>The texts in the order in which they are appended; a blank one is left out.\<close>

definition prompt_sections :: "prompt_sources \<Rightarrow> run_request option \<Rightarrow> string list" where
  "prompt_sections ps req =
     [identity_section (ps_prompts ps) req,
      trim_space (ps_prompts ps ''agent.native.task_completion''),
      trim_space (ps_prompts ps ''agent.native.tool_enforcement''),
      trim_space (buildSkillLoadingContext ps),
      trim_space (ps_prompts ps ''agent.system.memory_guidance''),
      trim_space (buildWorkspaceContext ps req),
      trim_space (ps_prompts ps ''agent.native.artifact_declaration''),
      trim_space (buildMemoryContext (ps_memory ps)),
      trim_space (buildRunMetaContext (ps_date ps) req),
      trim_space (buildPlatformContext (ps_prompts ps) req)]"

definition BuildSystemPrompt :: "prompt_sources \<Rightarrow> run_request option \<Rightarrow> string" where
  "BuildSystemPrompt ps req = join [CHR 0x0A, CHR 0x0A] (filter (\<lambda>s. s \<noteq> []) (prompt_sections ps req))"

section \<open>The builder\<close>

text \<open>\<open>PassthroughSessionMessageProvider\<close>.\<close>

definition ErrNoPendingSessionMessages :: go_error where
  "ErrNoPendingSessionMessages = errorf ''no pending session messages''"

definition PassthroughPrepare :: "run_request option \<Rightarrow> go_error option" where
  "PassthroughPrepare req =
     (case req of
        None \<Rightarrow> None
      | Some r \<Rightarrow>
          if di_Type (rq_Input r) \<noteq> ''message'' then None
          else if elems (di_Messages (rq_Input r)) = [] then Some ErrNoPendingSessionMessages
          else None)"

text \<open>The session messages of a builder: what its \<open>Prepare\<close> makes of a request.\<close>

type_synonym session_messages = "run_request \<Rightarrow> go_error + run_request"

definition passthrough :: session_messages where
  "passthrough r = (case PassthroughPrepare (Some r) of Some err \<Rightarrow> Inl err | None \<Rightarrow> Inr r)"

text \<open>\<open>CloneRequest\<close> of this package: the copies of nil slices are empty slices.\<close>

definition append_to_empty :: "'a slice \<Rightarrow> 'a slice" where
  "append_to_empty s = slice_append (Some []) (elems s)"

definition context_CloneRequest :: "run_request option \<Rightarrow> run_request option" where
  "context_CloneRequest req =
     map_option (\<lambda>r. r
       \<lparr>rq_Assistant := (rq_Assistant r)\<lparr>da_Skills := append_to_empty (da_Skills (rq_Assistant r)),
                                          da_Tools := append_to_empty (da_Tools (rq_Assistant r))\<rparr>,
        rq_Conversation := (rq_Conversation r)\<lparr>dv_Messages := append_to_empty (dv_Messages (rq_Conversation r))\<rparr>,
        rq_Input := (rq_Input r)\<lparr>di_Messages := append_to_empty (di_Messages (rq_Input r)),
                                  di_Attachments := append_to_empty (di_Attachments (rq_Input r))\<rparr>,
        rq_Capability := (rq_Capability r)\<lparr>dp_AllowedTools := append_to_empty (dp_AllowedTools (rq_Capability r))\<rparr>\<rparr>) req"

definition context_Prepare ::
  "session_messages option \<Rightarrow> (string \<Rightarrow> go_error + skill_entry) \<Rightarrow> (string \<Rightarrow> string list) \<Rightarrow> prompt_sources \<Rightarrow>
   run_request option \<Rightarrow> go_error + run_request" where
  "context_Prepare session get files ps req =
     (case context_CloneRequest req of
        None \<Rightarrow> Inl (errorf ''request context is required'')
      | Some cloned \<Rightarrow>
          (case (case session of None \<Rightarrow> Inr cloned | Some prepare \<Rightarrow> prepare cloned) of
             Inl err \<Rightarrow> Inl err
           | Inr cloned \<Rightarrow>
               (case ApplyInvokedSkills get files (Some cloned) of
                  Inl err \<Rightarrow> Inl err
                | Inr None \<Rightarrow> Inl (errorf ''request context is required'')
                | Inr (Some cloned) \<Rightarrow> Inr (cloned\<lparr>rq_SystemPrompt := BuildSystemPrompt ps (Some cloned)\<rparr>))))"

definition filterEmpty :: "string list \<Rightarrow> string list" where
  "filterEmpty values' = filter (\<lambda>v. v \<noteq> []) (map trim_space values')"

definition TruncateForPrompt :: "string \<Rightarrow> int \<Rightarrow> string" where
  "TruncateForPrompt value limit =
     (let value = trim_space value in
      if limit \<le> 0 \<or> int (length value) \<le> limit then value
      else take (nat limit) value @ ''...(truncated)'')"

section \<open>What the prompt is made of\<close>

lemma filterEmpty_nonempty: "v \<in> set (filterEmpty vs) \<Longrightarrow> v \<noteq> [] \<and> trim_space v = v"
  by (auto simp: filterEmpty_def)

lemma TruncateForPrompt_bound: "0 < limit \<Longrightarrow> int (length (TruncateForPrompt value limit)) \<le> limit + 14"
  by (simp add: TruncateForPrompt_def Let_def min_def) arith

lemma passthrough_keeps: "passthrough r = Inr r' \<Longrightarrow> r' = r \<and> (di_Type (rq_Input r) = ''message'' \<longrightarrow> elems (di_Messages (rq_Input r)) \<noteq> [])"
  by (auto simp: passthrough_def PassthroughPrepare_def split: if_splits option.splits)

lemma replace_first_absent: "\<not> contains s old \<Longrightarrow> replace_first old new s = s"
  by (induction s) auto

lemma replace_first_at: "old \<noteq> [] \<Longrightarrow> replace_first old new (old @ s) = new @ s"
  by (cases old) auto

end
