(* ===== verification/Tools.thy ===== *)
theory Tools
  imports SkillInvoke "HOL-Library.Char_ord" "HOL-Library.List_Lexorder" "HOL-Library.AList"
begin

text \<open>
  Business tools and their adaptation to the contract of a runtime (\<open>backend/tools/registry.go\<close>, \<open>tool.go\<close>,
  \<open>backend/agent/tool.go\<close>, \<open>backend/internal/assistant/tool_adapter.go\<close>). A tool is what its methods return; the
  registry's map is an association list with distinct keys.

  Lemmas: the registry keeps its keys distinct and lists its tools by name; what is available is registered and named
  once; a tool never fails as a Go error, and a tool that validates its input is not run on an invalid one.
\<close>

section \<open>Tools\<close>

record tool_metadata =
  tm_RepoDir :: string
  tm_ArtifactManifestPath :: string

record tool_context =
  tx_RunID :: string
  tx_TraceID :: string
  tx_AssistantID :: string
  tx_UserID :: string
  tx_AccountID :: string
  tx_Channel :: string
  tx_ConversationID :: string
  tx_ExternalID :: string
  tx_WorkNodeID :: string
  tx_WorkDir :: string
  tx_Metadata :: tool_metadata

text \<open>\<open>bt_Validate\<close> is \<open>None\<close> for a tool that is no \<open>Validator\<close>; the schema is what \<open>json.Marshal\<close> makes of it.\<close>

record business_tool =
  bt_Name :: string
  bt_Description :: string
  bt_InputSchema :: raw
  bt_Validate :: "(raw \<Rightarrow> go_error option) option"
  bt_Execute :: "tool_context \<Rightarrow> raw \<Rightarrow> go_error + string"

record tool_definition =
  td_Name :: string
  td_Description :: string
  td_Parameters :: raw

record tool_result =
  tt_Content :: string
  tt_Error :: string
  tt_IsError :: bool

record agent_tool =
  ad_tool :: "business_tool option"
  ad_toolCtx :: tool_context

definition Adapt :: "business_tool option \<Rightarrow> tool_context \<Rightarrow> agent_tool" where
  "Adapt legacy toolCtx = \<lparr>ad_tool = legacy, ad_toolCtx = toolCtx\<rparr>"

definition Definition :: "agent_tool \<Rightarrow> tool_definition" where
  "Definition a =
     (case ad_tool a of
        None \<Rightarrow> \<lparr>td_Name = [], td_Description = [], td_Parameters = Raw_empty\<rparr>
      | Some t \<Rightarrow> \<lparr>td_Name = bt_Name t, td_Description = bt_Description t, td_Parameters = bt_InputSchema t\<rparr>)"

definition Execute_tool :: "agent_tool \<Rightarrow> raw \<Rightarrow> go_error + tool_result" where
  "Execute_tool a input =
     (case ad_tool a of
        None \<Rightarrow> Inl (errorf ''tool is required'')
      | Some t \<Rightarrow>
          (case (case bt_Validate t of Some validate \<Rightarrow> validate input | None \<Rightarrow> None) of
             Some err \<Rightarrow> Inr \<lparr>tt_Content = [], tt_Error = ge_text err, tt_IsError = True\<rparr>
           | None \<Rightarrow>
               (case bt_Execute t (ad_toolCtx a) input of
                  Inl err \<Rightarrow> Inr \<lparr>tt_Content = [], tt_Error = ge_text err, tt_IsError = True\<rparr>
                | Inr result \<Rightarrow> Inr \<lparr>tt_Content = result, tt_Error = [], tt_IsError = False\<rparr>)))"

section \<open>The registry\<close>

type_synonym tool_registry = "(string \<times> business_tool) list"

definition Register_tool :: "business_tool option \<Rightarrow> tool_registry \<Rightarrow> go_error option \<times> tool_registry" where
  "Register_tool tool r =
     (case tool of
        None \<Rightarrow> (Some (errorf ''tool is nil''), r)
      | Some t \<Rightarrow>
          if bt_Name t = [] then (Some (errorf ''tool name is required''), r)
          else (None, AList.update (bt_Name t) t r))"

definition Get_tool :: "tool_registry \<Rightarrow> string \<Rightarrow> go_error + business_tool" where
  "Get_tool r name =
     (case map_of r name of
        None \<Rightarrow> Inl (errorf (''tool '' @ name @ '' not found''))
      | Some t \<Rightarrow> Inr t)"

fun available_loop :: "tool_registry \<Rightarrow> string list \<Rightarrow> string list \<Rightarrow> string list" where
  "available_loop r seen [] = []"
| "available_loop r seen (name # names) =
     (let name = trim_space name in
      if name = [] \<or> name \<in> set seen then available_loop r seen names
      else (case Get_tool r name of
              Inr _ \<Rightarrow> name # available_loop r (name # seen) names
            | Inl _ \<Rightarrow> available_loop r seen names))"

definition AvailableToolNames :: "tool_registry option \<Rightarrow> string list \<Rightarrow> string list" where
  "AvailableToolNames r names = (case r of None \<Rightarrow> [] | Some r \<Rightarrow> available_loop r [] names)"

definition List_tools :: "tool_registry \<Rightarrow> business_tool list" where
  "List_tools r = map snd (sort_key fst r)"

section \<open>The tools of a run\<close>

record workspace_preparation =
  wp_WorkDir :: string
  wp_RepoDir :: string
  wp_TaskDir :: string
  wp_ArtifactManifestPath :: string
  wp_BaselinePath :: string

definition tool_context_of :: "run_request \<Rightarrow> workspace_preparation \<Rightarrow> tool_context" where
  "tool_context_of req workspace =
     \<lparr>tx_RunID = rq_RunID req, tx_TraceID = rq_TraceID req, tx_AssistantID = da_ID (rq_Assistant req),
      tx_UserID = dc_UserID (rq_Actor req), tx_AccountID = dc_AccountID (rq_Actor req),
      tx_Channel = dc_Channel (rq_Actor req), tx_ConversationID = dv_ID (rq_Conversation req),
      tx_ExternalID = dc_ExternalID (rq_Actor req), tx_WorkNodeID = [], tx_WorkDir = wp_WorkDir workspace,
      tx_Metadata =
        (if wp_RepoDir workspace \<noteq> [] \<or> wp_ArtifactManifestPath workspace \<noteq> []
         then \<lparr>tm_RepoDir = wp_RepoDir workspace, tm_ArtifactManifestPath = wp_ArtifactManifestPath workspace\<rparr>
         else \<lparr>tm_RepoDir = [], tm_ArtifactManifestPath = []\<rparr>)\<rparr>"

definition ToolsFor :: "tool_registry option \<Rightarrow> run_request option \<Rightarrow> workspace_preparation \<Rightarrow> go_error + agent_tool list" where
  "ToolsFor registry req workspace =
     (case registry of
        None \<Rightarrow> Inl (errorf ''tool registry is required'')
      | Some r \<Rightarrow>
          (case req of
             None \<Rightarrow> Inl (errorf ''tool request is required'')
           | Some q \<Rightarrow>
               Inr (map (\<lambda>t. Adapt (Some t) (tool_context_of q workspace))
                      (filter (\<lambda>t. trim_space (bt_Name t) \<noteq> []) (List_tools r)))))"

section \<open>Facts\<close>

definition registry_ok :: "tool_registry \<Rightarrow> bool" where
  "registry_ok r \<longleftrightarrow> distinct (map fst r) \<and> (\<forall>(name, t) \<in> set r. name = bt_Name t \<and> name \<noteq> [])"

lemma set_update_sub: "p \<in> set (AList.update k v r) \<Longrightarrow> p = (k, v) \<or> p \<in> set r"
  by (induction r) (auto split: if_splits)

lemma registry_ok_Register: "registry_ok r \<Longrightarrow> registry_ok (snd (Register_tool tool r))"
  by (auto simp: registry_ok_def Register_tool_def distinct_update dest: set_update_sub
      split: option.split) 

lemma Get_Register:
  "fst (Register_tool (Some t) r) = None \<Longrightarrow>
   Get_tool (snd (Register_tool (Some t) r)) name = (if name = bt_Name t then Inr t else Get_tool r name)"
  by (auto simp: Register_tool_def Get_tool_def update_conv' split: if_splits)

lemma available_loop_set:
  "set (available_loop r seen names) = {n. n \<in> trim_space ` set names \<and> n \<noteq> [] \<and> map_of r n \<noteq> None} - set seen \<and>
   distinct (available_loop r seen names)"
proof (induction names arbitrary: seen)
  case (Cons name names)
  let ?n = "trim_space name"
  show ?case
  proof (cases "?n = [] \<or> ?n \<in> set seen \<or> map_of r ?n = None")
    case True
    then have "available_loop r seen (name # names) = available_loop r seen names"
      by (auto simp: Let_def Get_tool_def)
    then show ?thesis using True Cons [of seen] by auto
  next
    case False
    then have "available_loop r seen (name # names) = ?n # available_loop r (?n # seen) names"
      by (auto simp: Let_def Get_tool_def)
    then show ?thesis using False Cons [of "?n # seen"] by auto
  qed
qed simp

lemma available_are_registered:
  "distinct (AvailableToolNames (Some r) names)"
  "n \<in> set (AvailableToolNames (Some r) names) \<longleftrightarrow> n \<noteq> [] \<and> n \<in> trim_space ` set names \<and> n \<in> fst ` set r"
  using available_loop_set [of r "[]" names] by (auto simp: AvailableToolNames_def map_of_eq_None_iff)

lemma List_tools_sorted: "registry_ok r \<Longrightarrow> sorted (map bt_Name (List_tools r))"
proof -
  assume ok: "registry_ok r"
  then have "map bt_Name (List_tools r) = map fst (sort_key fst r)"
    by (auto simp: List_tools_def registry_ok_def)
  then show ?thesis by simp
qed

lemma List_tools_names: "registry_ok r \<Longrightarrow> distinct (map bt_Name (List_tools r)) \<and> set (List_tools r) = snd ` set r"
proof -
  assume ok: "registry_ok r"
  then have "map bt_Name (List_tools r) = map fst (sort_key fst r)"
    by (auto simp: List_tools_def registry_ok_def)
  moreover have "distinct (map fst (sort_key fst r))" using ok by (simp add: registry_ok_def distinct_map)
  ultimately have "distinct (map bt_Name (List_tools r))" by simp
  then show ?thesis by (simp add: List_tools_def)
qed

lemma tool_never_fails:
  "\<exists>result. Execute_tool (Adapt (Some t) c) input = Inr result \<and> (tt_IsError result \<or> tt_Error result = [])"
  by (simp add: Execute_tool_def Adapt_def split: option.split sum.split)

lemma invalid_input_not_run:
  "bt_Validate t = Some validate \<Longrightarrow> validate input = Some err \<Longrightarrow>
   Execute_tool (Adapt (Some (t\<lparr>bt_Execute := f\<rparr>)) c) input = Inr \<lparr>tt_Content = [], tt_Error = ge_text err, tt_IsError = True\<rparr>"
  by (simp add: Execute_tool_def Adapt_def)

end
