(* ===== verification/Preparer.thy ===== *)
theory Preparer
  imports SystemPrompt Tools
begin

text \<open>
  The preparation of a run (\<open>backend/internal/assistant/preparer_impl.go\<close>, \<open>prepared_run.go\<close>) and the model routing store
  that it writes (\<open>ModelStore\<close> in \<open>backend/internal/modelrouter/handler.go\<close>, \<open>proxy.go\<close>, \<open>config.go\<close>). The
  disk, the clone of a repository, the parsing of a URL and the identity of the worker are parameters, as in the theories
  below this one.

  Lemmas: what a prepared run asks of its executor; that its model is reached through the worker's proxy; what the store
  resolves; where an attachment is written.
\<close>

section \<open>The model store\<close>

record upstream_config =
  uc_ModelName :: string
  uc_Provider :: string
  uc_BaseURL :: string
  uc_BaseURLHasV1 :: bool
  uc_APIKey :: string
  uc_Protocol :: string
  uc_MaxTokens :: int
  uc_Temperature :: "64 word"
  uc_TimeoutSec :: int
  uc_httpClient :: "nat option"

record model_store =
  ms_configs :: "string \<Rightarrow> upstream_config option"
  ms_httpClient :: "nat option"

definition NewModelStore :: "nat option list \<Rightarrow> model_store" where
  "NewModelStore httpClients =
     \<lparr>ms_configs = (\<lambda>_. None), ms_httpClient = (case httpClients of [] \<Rightarrow> None | c # _ \<Rightarrow> c)\<rparr>"

definition protocolForProvider :: "string \<Rightarrow> string" where
  "protocolForProvider provider =
     (if to_lower provider = ''anthropic'' then ''anthropic_messages''
      else if to_lower provider = ''gemini'' then ''gemini''
      else ''openai_chat'')"

definition Put :: "upstream_config \<Rightarrow> model_store \<Rightarrow> model_store" where
  "Put cfg s =
     (let cfg = (if uc_Protocol cfg = [] \<and> uc_Provider cfg \<noteq> []
                 then cfg\<lparr>uc_Protocol := protocolForProvider (uc_Provider cfg)\<rparr> else cfg)
      in s\<lparr>ms_configs := (ms_configs s)(uc_ModelName cfg \<mapsto> cfg)\<rparr>)"

definition Resolve_model :: "(string \<Rightarrow> string) \<Rightarrow> model_store \<Rightarrow> string \<Rightarrow> go_error + upstream_config" where
  "Resolve_model quoted s model =
     (case ms_configs s model of
        None \<Rightarrow> Inl (errorf (''modelrouter: no upstream config for model '' @ quoted model))
      | Some cfg \<Rightarrow> Inr (cfg\<lparr>uc_httpClient := ms_httpClient s\<rparr>))"

text \<open>\<open>strings.TrimRight(s, "/")\<close>.\<close>

definition trim_right_slash :: "string \<Rightarrow> string" where
  "trim_right_slash s = rev (dropWhile (\<lambda>c. c = CHR ''/'') (rev s))"

definition ensureV1Suffix :: "string \<Rightarrow> string" where
  "ensureV1Suffix baseURL =
     (let baseURL = trim_right_slash (trim_space baseURL) in
      if baseURL = [] \<or> suffix ''/v1'' baseURL then baseURL else baseURL @ ''/v1'')"

text \<open>\<open>addr\<close> is \<open>identity.WorkerAddr()\<close>.\<close>

definition WorkerProxyBaseURL :: "string \<Rightarrow> string" where
  "WorkerProxyBaseURL addr =
     (let addr = trim_space addr in
      if addr = [] then []
      else
        (let addr = trim_right_slash addr in
         if prefix ''http://'' addr \<or> prefix ''https://'' addr then ensureV1Suffix addr
         else if prefix '':'' addr then ensureV1Suffix (''http://127.0.0.1'' @ addr)
         else ensureV1Suffix (''http://'' @ addr)))"

section \<open>Workspaces\<close>

record url =
  ul_Scheme :: string
  ul_User :: "(string \<times> string) option"
  ul_Host :: string
  ul_Path :: string
  ul_RawQuery :: string
  ul_Fragment :: string

record gitea_access =
  gt_endpoint :: string
  gt_owner :: string
  gt_accessToken :: string

record workspace_manager =
  wm_env :: string
  wm_gitea :: "gitea_access option"

definition NewWorkspaceManager :: "string \<Rightarrow> string \<Rightarrow> string \<Rightarrow> string \<Rightarrow> workspace_manager" where
  "NewWorkspaceManager env giteaEndpoint giteaOwner giteaAccessToken =
     \<lparr>wm_env = env,
      wm_gitea = (if giteaEndpoint \<noteq> [] \<and> giteaOwner \<noteq> [] \<and> giteaAccessToken \<noteq> []
        then Some \<lparr>gt_endpoint = giteaEndpoint, gt_owner = giteaOwner, gt_accessToken = giteaAccessToken\<rparr> else None)\<rparr>"

text \<open>
  The worker's surroundings: \<open>url.Parse\<close> and \<open>URL.String\<close>, what \<open>%q\<close> prints, the file system, the temporary
  workspace, the address of the worker.
\<close>

record host =
  ho_parse_url :: "string \<Rightarrow> go_error + url"
  ho_url_string :: "url \<Rightarrow> string"
  ho_quoted :: "string \<Rightarrow> string"
  ho_cwd :: "go_error + string"
  ho_root :: "go_error + string"
  ho_eval :: symlinks
  ho_io :: "disk_action \<Rightarrow> go_error option"
  ho_tempDir :: "go_error + string"
  ho_mkdir :: "string \<Rightarrow> go_error option"
  ho_workerAddr :: string

definition cloneURL :: "host \<Rightarrow> workspace_manager option \<Rightarrow> nat \<Rightarrow> string \<Rightarrow> go_error + string" where
  "cloneURL h wm orgID projectID =
     (case Option.bind wm wm_gitea of
        None \<Rightarrow> Inl (errorf ''gitea is required for project workspace'')
      | Some gitea \<Rightarrow>
          (case ho_parse_url h (trim_space (gt_endpoint gitea)) of
             Inl err \<Rightarrow> Inl (wrapf ''parse gitea endpoint'' err)
           | Inr endpoint \<Rightarrow>
               if ul_Scheme endpoint = [] \<or> ul_Host endpoint = []
               then Inl (errorf (''invalid gitea endpoint '' @ ho_quoted h (gt_endpoint gitea)))
               else
                 (let repoName = (case wm of Some m \<Rightarrow> wm_env m | None \<Rightarrow> []) @ ''-'' @ show_nat orgID @ ''-'' @ projectID @ ''.git''
                  in Inr (ho_url_string h (endpoint
                       \<lparr>ul_User := Some (gt_owner gitea, gt_accessToken gitea),
                        ul_Path := trim_right_slash (ul_Path endpoint) @ ''/'' @ gt_owner gitea @ ''/'' @ repoName,
                        ul_RawQuery := [], ul_Fragment := []\<rparr>)))))"

definition PrepareTempWorkspace :: "host \<Rightarrow> go_error + string" where
  "PrepareTempWorkspace h =
     (case ho_tempDir h of
        Inl err \<Rightarrow> Inl err
      | Inr dir \<Rightarrow>
          (case ho_mkdir h dir of
             Some err \<Rightarrow> Inl (wrapf ''create workspace temp dir'' err)
           | None \<Rightarrow> Inr dir))"

text \<open>\<open>firstNonEmpty\<close> of this package trims what it returns.\<close>

fun first_trimmed :: "string list \<Rightarrow> string" where
  "first_trimmed [] = []"
| "first_trimmed (v # vs) = (if trim_space v \<noteq> [] then trim_space v else first_trimmed vs)"

definition only_dir :: "string \<Rightarrow> workspace_preparation" where
  "only_dir workDir =
     \<lparr>wp_WorkDir = workDir, wp_RepoDir = [], wp_TaskDir = [], wp_ArtifactManifestPath = [], wp_BaselinePath = []\<rparr>"

definition preparation_of :: "task_workspace \<Rightarrow> workspace_preparation" where
  "preparation_of plan =
     \<lparr>wp_WorkDir = ws_EffectiveWorkDir plan, wp_RepoDir = ws_RepoDir plan, wp_TaskDir = ws_TaskDir plan,
      wp_ArtifactManifestPath = ws_ArtifactManifestPath plan, wp_BaselinePath = ws_BaselinePath plan\<rparr>"

definition task_request :: "run_request \<Rightarrow> string \<Rightarrow> task_workspace_request" where
  "task_request req url =
     \<lparr>tw_OrgID = dw_OrgID (rq_Workspace req), tw_ProjectID = trim_space (dw_ProjectID (rq_Workspace req)),
      tw_TaskID = first_trimmed [dw_TaskID (rq_Workspace req), rq_TaskID req],
      tw_RequestID = dw_RequestID (rq_Workspace req), tw_RequestedWorkDir = dr_WorkDir (rq_Runtime req),
      tw_CloneURL = url\<rparr>"

definition PrepareWorkspace :: "host \<Rightarrow> workspace_manager option \<Rightarrow> run_request option \<Rightarrow> go_error + workspace_preparation" where
  "PrepareWorkspace h wm req =
     (case req of
        None \<Rightarrow> Inl (errorf ''workspace request is required'')
      | Some req \<Rightarrow>
          if trim_space (dw_ProjectID (rq_Workspace req)) = [] then map_sum id only_dir (PrepareTempWorkspace h)
          else
            (case cloneURL h wm (dw_OrgID (rq_Workspace req)) (trim_space (dw_ProjectID (rq_Workspace req))) of
               Inl err \<Rightarrow> Inl err
             | Inr url \<Rightarrow>
                 map_sum id preparation_of
                   (PrepareTaskWorkspace (ho_cwd h) (ho_eval h) (ho_io h) (ho_root h) (task_request req url))))"

section \<open>Attachments\<close>

text \<open>The downloads, in order: the URL and the path of the file that is created.\<close>

definition IngestAttachments :: "host \<Rightarrow> run_request option \<Rightarrow> (string \<times> string) list" where
  "IngestAttachments h req =
     (case req of
        None \<Rightarrow> []
      | Some req \<Rightarrow>
          (let attachments = elems (di_Attachments (rq_Input req)) in
           if attachments = [] then []
           else
             (let repo = trim_space (dw_RepoDir (rq_Workspace req));
                  targetRoot = (if repo = [] then dr_WorkDir (rq_Runtime req) else repo);
                  targetDir = Join [targetRoot, ''uploads'']
              in case ho_mkdir h targetDir of
                   Some err \<Rightarrow> []
                 | None \<Rightarrow>
                     map (\<lambda>att. (dt_URL att, Join [targetDir, dt_Name att]))
                       (filter (\<lambda>att. trim_space (dt_URL att) \<noteq> [] \<and> trim_space (dt_Name att) \<noteq> []) attachments))))"

section \<open>Preparation\<close>

record prepared_run =
  pr_Request :: run_request
  pr_Execution :: "agent_tool execution_request"
  pr_Workspace :: workspace_preparation

record context_builder =
  cb_SessionMessages :: "session_messages option"
  cb_sources :: prompt_sources
  cb_get :: "string \<Rightarrow> go_error + skill_entry"
  cb_files :: "string \<Rightarrow> string list"

text \<open>A manager that is \<open>Some None\<close> is a nil \<open>*workspaceManager\<close>.\<close>

record preparer =
  pp_builder :: "context_builder option"
  pp_workspaceMgr :: "workspace_manager option option"
  pp_attachmentIng :: bool
  pp_toolProvider :: "tool_registry option option"

definition preparer_validateModelConfig :: "run_request \<Rightarrow> go_error option" where
  "preparer_validateModelConfig req =
     (if trim_space (dl_Provider (rq_Model req)) = [] then Some (errorf ''llm provider is required'')
      else if trim_space (dl_Model (rq_Model req)) = [] then Some (errorf ''llm model is required'')
      else if trim_space (dl_APIKey (rq_Model req)) = [] then Some (errorf ''llm api_key is required'')
      else None)"

definition upstream_of :: "d_model \<Rightarrow> upstream_config" where
  "upstream_of m =
     \<lparr>uc_ModelName = trim_space (dl_Model m), uc_Provider = trim_space (dl_Provider m),
      uc_BaseURL = trim_space (dl_BaseURL m), uc_BaseURLHasV1 = dl_BaseURLHasV1 m, uc_APIKey = trim_space (dl_APIKey m),
      uc_Protocol = [], uc_MaxTokens = 0, uc_Temperature = dl_Temperature m, uc_TimeoutSec = 0, uc_httpClient = None\<rparr>"

definition resolveModelRouting :: "host \<Rightarrow> run_request \<Rightarrow> model_store option \<Rightarrow> run_request \<times> model_store option" where
  "resolveModelRouting h req store =
     (req\<lparr>rq_Model := (rq_Model req)\<lparr>dl_BaseURL := WorkerProxyBaseURL (ho_workerAddr h)\<rparr>\<rparr>,
      map_option (Put (upstream_of (rq_Model req))) store)"

definition prepareWorkspace :: "host \<Rightarrow> workspace_manager option option \<Rightarrow> run_request \<Rightarrow> go_error + workspace_preparation" where
  "prepareWorkspace h workspaceMgr req =
     (case workspaceMgr of
        Some wm \<Rightarrow> PrepareWorkspace h wm (Some req)
      | None \<Rightarrow>
          if trim_space (dw_ProjectID (rq_Workspace req)) \<noteq> [] then
            map_sum id preparation_of
              (PrepareTaskWorkspace (ho_cwd h) (ho_eval h) (ho_io h) (ho_root h) (task_request req []))
          else
            (let workDir = trim_space (dr_WorkDir (rq_Runtime req)) in
             if workDir = [] then map_sum id only_dir (PrepareTempWorkspace h)
             else Inr (only_dir workDir)))"

definition user_prompt :: "run_request \<Rightarrow> string" where
  "user_prompt req =
     (let prompt = BuildUserInput (Some req);
          attachmentText = BuildAttachmentText (elems (di_Attachments (rq_Input req)))
      in if attachmentText = [] then prompt
         else if prompt = [] then attachmentText else prompt @ [CHR 0x0A] @ attachmentText)"

definition execution_of :: "run_request \<Rightarrow> string \<Rightarrow> agent_tool list \<Rightarrow> workspace_preparation \<Rightarrow> agent_tool execution_request" where
  "execution_of r systemPrompt tools workspace =
     \<lparr>xr_ExecutionID = rq_RunID r, xr_TraceID = rq_TraceID r, xr_Runtime = trim_space (dr_Kind (rq_Runtime r)),
      xr_SessionKey = dv_ID (rq_Conversation r), xr_InstanceKey = da_ID (rq_Assistant r), xr_Mode = rq_ExecutionMode r,
      xr_SystemPrompt = systemPrompt, xr_Prompt = user_prompt r,
      xr_Messages = map (\<lambda>m. \<lparr>am_role = dm_Role m, am_content = dm_Content m\<rparr>) (elems (dv_Messages (rq_Conversation r))),
      xr_Model = \<lparr>mg_Provider = dl_Provider (rq_Model r), mg_Model = dl_Model (rq_Model r),
                  mg_APIKey = dl_APIKey (rq_Model r), mg_BaseURL = dl_BaseURL (rq_Model r)\<rparr>,
      xr_Tools = tools,
      xr_Policy = \<lparr>xp_PermissionMode = dy_PermissionMode (rq_Policy r), xp_MaxSteps = dr_MaxStep (rq_Runtime r),
                   xp_AllowedTools = slice_append None (elems (dp_AllowedTools (rq_Capability r)))\<rparr>,
      xr_Filesystem = \<lparr>fc_WorkDir = wp_WorkDir workspace, fc_RepoDir = wp_RepoDir workspace,
                       fc_TaskDir = wp_TaskDir workspace\<rparr>\<rparr>"

text \<open>The steps after the workspace is known: the prepared run and the downloads that were asked for.\<close>

definition prepare_context ::
  "host \<Rightarrow> preparer \<Rightarrow> context_builder \<Rightarrow> workspace_preparation \<Rightarrow> run_request \<Rightarrow>
   (go_error + prepared_run) \<times> (string \<times> string) list" where
  "prepare_context h p b workspace r =
     (case (case cb_SessionMessages b of None \<Rightarrow> Inr r | Some prepare \<Rightarrow> prepare r) of
        Inl err \<Rightarrow> (Inl (wrapf ''prepare session context'' err), [])
      | Inr r \<Rightarrow>
          (case ApplyInvokedSkills (cb_get b) (cb_files b) (Some r) of
             Inl err \<Rightarrow> (Inl (wrapf ''apply invoked skills'' err), [])
           | Inr None \<Rightarrow> (Inl (errorf ''request context is required''), [])
           | Inr (Some r) \<Rightarrow>
               (let systemPrompt = BuildSystemPrompt (cb_sources b) (Some r);
                    downloads = (if pp_attachmentIng p then IngestAttachments h (Some r) else [])
                in case (case pp_toolProvider p of None \<Rightarrow> Inr [] | Some registry \<Rightarrow> ToolsFor registry (Some r) workspace) of
                     Inl err \<Rightarrow> (Inl (wrapf ''prepare runtime tools'' err), downloads)
                   | Inr tools \<Rightarrow>
                       (Inr \<lparr>pr_Request = r, pr_Execution = execution_of r systemPrompt tools workspace,
                             pr_Workspace = workspace\<rparr>, downloads))))"

definition Prepare ::
  "host \<Rightarrow> preparer \<Rightarrow> run_request option \<Rightarrow> model_store option \<Rightarrow>
   (go_error + prepared_run) \<times> model_store option \<times> (string \<times> string) list" where
  "Prepare h p req store =
     (case CloneRequest req of
        None \<Rightarrow> (Inl (errorf ''request context is required''), store, [])
      | Some cloned \<Rightarrow>
          (case pp_builder p of
             None \<Rightarrow> (Inl (errorf ''context builder is required''), store, [])
           | Some b \<Rightarrow>
               (case preparer_validateModelConfig cloned of
                  Some err \<Rightarrow> (Inl err, store, [])
                | None \<Rightarrow>
                    (let (cloned, store) = resolveModelRouting h cloned store in
                     case prepareWorkspace h (pp_workspaceMgr p) cloned of
                       Inl err \<Rightarrow> (Inl (wrapf ''prepare workspace'' err), store, [])
                     | Inr workspace \<Rightarrow>
                         (let cloned = cloned
                            \<lparr>rq_Runtime := (rq_Runtime cloned)\<lparr>dr_WorkDir := wp_WorkDir workspace\<rparr>,
                             rq_Workspace := (rq_Workspace cloned)\<lparr>dw_RepoDir := wp_RepoDir workspace\<rparr>\<rparr>;
                              (result, downloads) = prepare_context h p b workspace cloned
                          in (result, store, downloads))))))"

section \<open>What the store resolves\<close>

lemma Resolve_Put:
  "Resolve_model q (Put cfg s) model =
   (if model = uc_ModelName cfg
    then Inr (cfg\<lparr>uc_Protocol := (if uc_Protocol cfg = [] \<and> uc_Provider cfg \<noteq> [] then protocolForProvider (uc_Provider cfg) else uc_Protocol cfg),
                  uc_httpClient := ms_httpClient s\<rparr>)
    else Resolve_model q s model)"
  by (auto simp: Resolve_model_def Put_def Let_def split: option.split)

definition routed :: "d_model \<Rightarrow> model_store \<Rightarrow> upstream_config" where
  "routed m s =
     (upstream_of m)\<lparr>uc_Protocol := protocolForProvider (trim_space (dl_Provider m)), uc_httpClient := ms_httpClient s\<rparr>"

lemma Resolve_routed:
  assumes "trim_space (dl_Provider m) \<noteq> []"
  shows "Resolve_model q (Put (upstream_of m) s) (trim_space (dl_Model m)) = Inr (routed m s)"
  using assms by (simp add: Resolve_Put routed_def upstream_of_def)

lemma trim_right_slash_end: "\<not> suffix ''/'' (trim_right_slash s)"
  by (auto simp: trim_right_slash_def suffix_def dropWhile_eq_Cons_conv rev_eq_append_conv dest: arg_cong [of _ _ rev])

lemma ensureV1Suffix_shape: "ensureV1Suffix s \<noteq> [] \<Longrightarrow> suffix ''/v1'' (ensureV1Suffix s)"
  by (auto simp: ensureV1Suffix_def Let_def suffix_def)

section \<open>What is prepared\<close>

lemma ApplyInvokedSkills_keeps:
  "ApplyInvokedSkills get files (Some r) = Inr (Some r') \<Longrightarrow> r' = r\<lparr>rq_Input := rq_Input r'\<rparr>"
proof (cases "elems (di_Messages (rq_Input r))")
  case (Cons m ms)
  assume "ApplyInvokedSkills get files (Some r) = Inr (Some r')"
  then show ?thesis by (cases "rewrite_messages get files [] (m # ms)") (auto simp: ApplyInvokedSkills_def Cons)
qed (auto simp: ApplyInvokedSkills_def)

text \<open>What \<open>Prepare\<close> did when it succeeds.\<close>

lemma PrepareD:
  assumes "Prepare h p (Some r) store = (Inr run, store', downloads)"
  obtains b workspace r1 where "pp_builder p = Some b" "preparer_validateModelConfig r = None"
    "store' = map_option (Put (upstream_of (rq_Model r))) store"
    "prepareWorkspace h (pp_workspaceMgr p)
       (r\<lparr>rq_Model := (rq_Model r)\<lparr>dl_BaseURL := WorkerProxyBaseURL (ho_workerAddr h)\<rparr>\<rparr>) = Inr workspace"
    "r1 = r\<lparr>rq_Model := (rq_Model r)\<lparr>dl_BaseURL := WorkerProxyBaseURL (ho_workerAddr h)\<rparr>,
            rq_Runtime := (rq_Runtime r)\<lparr>dr_WorkDir := wp_WorkDir workspace\<rparr>,
            rq_Workspace := (rq_Workspace r)\<lparr>dw_RepoDir := wp_RepoDir workspace\<rparr>\<rparr>"
    "prepare_context h p b workspace r1 = (Inr run, downloads)"
  using assms
  by (auto simp: Prepare_def resolveModelRouting_def Let_def split: option.splits sum.splits prod.splits)

lemma prepare_contextD:
  assumes "prepare_context h p b workspace r = (Inr run, downloads)"
  obtains r1 r2 tools where "(case cb_SessionMessages b of None \<Rightarrow> Inr r | Some prepare \<Rightarrow> prepare r) = Inr r1"
    "ApplyInvokedSkills (cb_get b) (cb_files b) (Some r1) = Inr (Some r2)"
    "run = \<lparr>pr_Request = r2, pr_Execution = execution_of r2 (BuildSystemPrompt (cb_sources b) (Some r2)) tools workspace,
            pr_Workspace = workspace\<rparr>"
    "downloads = (if pp_attachmentIng p then IngestAttachments h (Some r2) else [])"
    "\<forall>t \<in> set tools. ad_toolCtx t = tool_context_of r2 workspace"
  using assms
  by (auto simp: prepare_context_def ToolsFor_def Adapt_def Let_def split: option.splits sum.splits)

lemma validate_provider: "preparer_validateModelConfig r = None \<Longrightarrow> trim_space (dl_Provider (rq_Model r)) \<noteq> []"
  by (auto simp: preparer_validateModelConfig_def split: if_splits)

text \<open>The session provider of a worker, or none.\<close>

definition plain_session :: "preparer \<Rightarrow> bool" where
  "plain_session p \<longleftrightarrow> (\<forall>b \<in> set_option (pp_builder p). \<forall>prepare \<in> set_option (cb_SessionMessages b). prepare = passthrough)"

text \<open>C33: A prepared run talks to its model only through the worker's proxy: the base URL of its execution is the
  proxy's, whatever URL the request named; the request's own provider, URL and key are what the model store resolves for
  the model's name; and every tool of the execution is bound to the run's identity and working directory.\<close>

theorem prepared_run_proxied:
  assumes "Prepare h p (Some r) (Some store) = (Inr run, store', downloads)" "plain_session p"
  shows "mg_BaseURL (xr_Model (pr_Execution run)) = WorkerProxyBaseURL (ho_workerAddr h) \<and>
    xr_ExecutionID (pr_Execution run) = rq_RunID r \<and>
    (\<exists>s. store' = Some s \<and> Resolve_model q s (trim_space (mg_Model (xr_Model (pr_Execution run)))) = Inr (routed (rq_Model r) store)) \<and>
    (\<forall>t \<in> set (xr_Tools (pr_Execution run)). tx_RunID (ad_toolCtx t) = rq_RunID r \<and>
       tx_WorkDir (ad_toolCtx t) = fc_WorkDir (xr_Filesystem (pr_Execution run)))"
proof -
  obtain b workspace r1 where p: "pp_builder p = Some b" "preparer_validateModelConfig r = None"
    "store' = Some (Put (upstream_of (rq_Model r)) store)"
    "r1 = r\<lparr>rq_Model := (rq_Model r)\<lparr>dl_BaseURL := WorkerProxyBaseURL (ho_workerAddr h)\<rparr>,
            rq_Runtime := (rq_Runtime r)\<lparr>dr_WorkDir := wp_WorkDir workspace\<rparr>,
            rq_Workspace := (rq_Workspace r)\<lparr>dw_RepoDir := wp_RepoDir workspace\<rparr>\<rparr>"
    "prepare_context h p b workspace r1 = (Inr run, downloads)"
    by (rule PrepareD [OF assms(1)]) auto
  obtain r2 r3 tools where c: "(case cb_SessionMessages b of None \<Rightarrow> Inr r1 | Some prepare \<Rightarrow> prepare r1) = Inr r2"
    "ApplyInvokedSkills (cb_get b) (cb_files b) (Some r2) = Inr (Some r3)"
    "run = \<lparr>pr_Request = r3, pr_Execution = execution_of r3 (BuildSystemPrompt (cb_sources b) (Some r3)) tools workspace,
            pr_Workspace = workspace\<rparr>"
    "\<forall>t \<in> set tools. ad_toolCtx t = tool_context_of r3 workspace"
    by (rule prepare_contextD [OF p(5)]) auto
  have "r2 = r1" using c(1) assms(2) p(1) passthrough_keeps by (auto simp: plain_session_def split: option.splits)
  then have r3: "r3 = r1\<lparr>rq_Input := rq_Input r3\<rparr>" using ApplyInvokedSkills_keeps [OF c(2)] by simp
  have m: "rq_Model r3 = (rq_Model r)\<lparr>dl_BaseURL := WorkerProxyBaseURL (ho_workerAddr h)\<rparr>" "rq_RunID r3 = rq_RunID r"
    by (subst r3, simp add: p(4))+
  show ?thesis
    using c(3,4) m Resolve_routed [OF validate_provider [OF p(2)], of q store] p(3)
    by (auto simp: execution_of_def tool_context_of_def)
qed

text \<open>The model store knows an upstream only by the model's name: when a second run with the same model name is
  prepared on the worker, the calls that the first run still makes are forwarded to the second run's provider, with the
  second run's URL and API key.\<close>

theorem model_route_overwritten:
  assumes "Prepare h p (Some r1) (Some s0) = (Inr run1, Some s1, d1)"
    and "Prepare h p (Some r2) (Some s1) = (Inr run2, Some s2, d2)"
    and "trim_space (dl_Model (rq_Model r2)) = trim_space (dl_Model (rq_Model r1))"
  shows "Resolve_model q s2 (trim_space (dl_Model (rq_Model r1))) = Inr (routed (rq_Model r2) s1)"
proof -
  have "preparer_validateModelConfig r2 = None" "s2 = Put (upstream_of (rq_Model r2)) s1"
    by (rule PrepareD [OF assms(2)], simp)+
  then show ?thesis using Resolve_routed [OF validate_provider, of r2 q s1] assms(3) by simp
qed

section \<open>Where an attachment is written\<close>

lemma clean_ups: "clean_loop True (rev ds) (replicate k ''..'' @ es) = clean_loop True (rev (take (length ds - k) ds)) es"
  if "\<forall>d \<in> set ds. plain d"
  using that
proof (induction k arbitrary: ds)
  case (Suc k)
  show ?case
  proof (cases ds rule: rev_cases)
    case Nil
    then show ?thesis using Suc.IH [of "[]"] by simp
  next
    case (snoc ds' d)
    then have "d \<noteq> ''..''" "\<forall>d \<in> set ds'. plain d" using Suc.prems by (simp_all add: plain_def)
    then show ?thesis using Suc.IH [of ds'] snoc by simp
  qed
qed simp

lemma Join_ups:
  assumes "IsAbs dir" "plain name"
  shows "Join [dir, join ''/'' (replicate k ''..'' @ [name])] = path_of True (take (length (elements dir) - k) (elements dir) @ [name])"
proof -
  let ?n = "replicate k ''..'' @ [name]"
  have ne: "dir \<noteq> []" "name \<noteq> []" using assms by (auto simp: IsAbs_def plain_def)
  have sp: "split_path (join ''/'' ?n) = ?n" using assms(2) by (intro split_path_join) (auto simp: plain_def)
  have "join ''/'' ?n \<noteq> []" using sp ne(2) by (metis append_is_Nil_conv last_snoc list.distinct(1) split_path.simps(1) last.simps)
  then have "Join [dir, join ''/'' ?n] = Clean (dir @ CHR ''/'' # join ''/'' ?n)" using ne by (simp add: Join_def)
  moreover have "elements (dir @ CHR ''/'' # join ''/'' ?n) = take (length (elements dir) - k) (elements dir) @ [name]"
    unfolding elements_slash [OF assms(1)] sp clean_ups [OF elements_rooted [OF assms(1)]]
    using clean_loop_plain [of "[name]"] assms(2) by simp
  ultimately show ?thesis using IsAbs_append [OF assms(1)] by (simp add: Clean_def)
qed

text \<open>The name of an attachment is used as a path: a name that begins with ../ leaves the uploads directory, and k
  steps up followed by a file name create or overwrite that file k directories above it, so also outside the
  repository.\<close>

theorem attachment_leaves_uploads:
  assumes "IsAbs (trim_space (dw_RepoDir (rq_Workspace r)))" "ho_mkdir h (Join [trim_space (dw_RepoDir (rq_Workspace r)), ''uploads'']) = None"
    and "att \<in> set (elems (di_Attachments (rq_Input r)))" "trim_space (dt_URL att) \<noteq> []"
    and "dt_Name att = join ''/'' (replicate k ''..'' @ [name])" "plain name" "trim_space (dt_Name att) \<noteq> []"
  defines "uploads \<equiv> elements (trim_space (dw_RepoDir (rq_Workspace r))) @ [''uploads'']"
  shows "(dt_URL att, path_of True (take (length uploads - k) uploads @ [name])) \<in> set (IngestAttachments h (Some r))"
proof -
  let ?repo = "trim_space (dw_RepoDir (rq_Workspace r))"
  have "Join [?repo, ''uploads''] = path_of True uploads"
    using Join_rooted [OF assms(1), of "[''uploads'']"] by (simp add: uploads_def plain_def)
  moreover have "\<forall>e \<in> set uploads. plain e" using elements_rooted [OF assms(1)] by (auto simp: uploads_def plain_def)
  ultimately have "Join [Join [?repo, ''uploads''], dt_Name att] = path_of True (take (length uploads - k) uploads @ [name])"
    using Join_ups [of "path_of True uploads" name k] assms(5,6) by (simp add: elements_path_of)
  moreover have "?repo \<noteq> []" using assms(1) by (auto simp: IsAbs_def)
  ultimately show ?thesis using assms(2,3,4,7) by (force simp: IngestAttachments_def Let_def)
qed

section \<open>A worker without projects\<close>

definition demo_host :: host where
  "demo_host =
     \<lparr>ho_parse_url = (\<lambda>_. Inl (errorf ''no url'')), ho_url_string = (\<lambda>_. []), ho_quoted = (\<lambda>s. s), ho_cwd = Inr ''/'',
      ho_root = Inr ''/work'', ho_eval = (\<lambda>p. Inr p), ho_io = (\<lambda>_. None), ho_tempDir = Inr ''/tmp'', ho_mkdir = (\<lambda>_. None),
      ho_workerAddr = '':8081''\<rparr>"

definition demo_builder :: context_builder where
  "demo_builder =
     \<lparr>cb_SessionMessages = None,
      cb_sources = \<lparr>ps_prompts = (\<lambda>_. []), ps_skills = Inr [], ps_memory = None, ps_date = ''2025-01-01'', ps_goos = ''linux'',
                    ps_cwd = Inr ''/'', ps_root = Inr ''/work''\<rparr>,
      cb_get = (\<lambda>_. Inl (errorf ''no skill'')), cb_files = (\<lambda>_. [])\<rparr>"

definition demo_preparer :: preparer where
  "demo_preparer =
     \<lparr>pp_builder = Some demo_builder, pp_workspaceMgr = None, pp_attachmentIng = True, pp_toolProvider = Some (Some [])\<rparr>"

definition demo_run_request :: "string \<Rightarrow> run_request" where
  "demo_run_request key = zero_request
     \<lparr>rq_RunID := ''run_1'', rq_Runtime := \<lparr>dr_Kind = ''native'', dr_WorkDir = ''/w'', dr_MaxStep = 3\<rparr>,
      rq_Model := \<lparr>dl_Provider = ''openai'', dl_Model = ''gpt'', dl_APIKey = key, dl_BaseURL = ''https://api.example'',
                   dl_BaseURLHasV1 = False, dl_Temperature = 0\<rparr>\<rparr>"

lemma demo_trims [simp]:
  "trim_space ''openai'' = ''openai''" "trim_space ''gpt'' = ''gpt''" "trim_space ''k1'' = ''k1''" "trim_space ''k2'' = ''k2''"
  "trim_space ''/w'' = ''/w''"
  by code_simp+

lemma demo_prepared:
  assumes "trim_space key \<noteq> []"
  shows "\<exists>run. Prepare demo_host demo_preparer (Some (demo_run_request key)) (Some s) =
    (Inr run, Some (Put (upstream_of (rq_Model (demo_run_request key))) s), [])"
  using assms
  by (simp add: Prepare_def demo_preparer_def demo_run_request_def preparer_validateModelConfig_def resolveModelRouting_def prepareWorkspace_def
      zero_request_def prepare_context_def demo_builder_def ApplyInvokedSkills_def elems_def ToolsFor_def IngestAttachments_def Let_def)

lemma plain_demo: "plain_session demo_preparer"
  by (simp add: plain_session_def demo_preparer_def demo_builder_def)

lemma prepared_run_proxied_witness:
  "\<exists>run s. Prepare demo_host demo_preparer (Some (demo_run_request ''k1'')) (Some (NewModelStore [])) = (Inr run, Some s, []) \<and>
     mg_BaseURL (xr_Model (pr_Execution run)) = ''http://127.0.0.1:8081/v1''"
proof -
  obtain run where r: "Prepare demo_host demo_preparer (Some (demo_run_request ''k1'')) (Some (NewModelStore [])) =
      (Inr run, Some (Put (upstream_of (rq_Model (demo_run_request ''k1''))) (NewModelStore [])), [])"
    using demo_prepared [of "''k1''" "NewModelStore []"] by auto
  have "WorkerProxyBaseURL (ho_workerAddr demo_host) = ''http://127.0.0.1:8081/v1''" by code_simp
  then show ?thesis using r prepared_run_proxied [OF r plain_demo] by auto
qed

lemma model_route_overwritten_witness:
  "\<exists>run1 s1 run2 s2 cfg.
     Prepare demo_host demo_preparer (Some (demo_run_request ''k1'')) (Some (NewModelStore [])) = (Inr run1, Some s1, []) \<and>
     Prepare demo_host demo_preparer (Some (demo_run_request ''k2'')) (Some s1) = (Inr run2, Some s2, []) \<and>
     Resolve_model (\<lambda>s. s) s2 ''gpt'' = Inr cfg \<and> uc_APIKey cfg = ''k2''"
proof -
  let ?s = "\<lambda>k s. Put (upstream_of (rq_Model (demo_run_request k))) s"
  obtain run1 where r1: "Prepare demo_host demo_preparer (Some (demo_run_request ''k1'')) (Some (NewModelStore [])) =
      (Inr run1, Some (?s ''k1'' (NewModelStore [])), [])"
    using demo_prepared [of "''k1''" "NewModelStore []"] by auto
  obtain run2 where r2: "Prepare demo_host demo_preparer (Some (demo_run_request ''k2'')) (Some (?s ''k1'' (NewModelStore []))) =
      (Inr run2, Some (?s ''k2'' (?s ''k1'' (NewModelStore []))), [])"
    using demo_prepared [of "''k2''" "?s ''k1'' (NewModelStore [])"] by auto
  have "uc_APIKey (routed (rq_Model (demo_run_request ''k2'')) (?s ''k1'' (NewModelStore []))) = ''k2''"
    by (simp add: routed_def upstream_of_def demo_run_request_def zero_request_def)
  then show ?thesis
    using r1 r2 model_route_overwritten [OF r1 r2, of "\<lambda>s. s"] by (auto simp: demo_run_request_def zero_request_def)
qed

definition demo_attached :: run_request where
  "demo_attached = zero_request
     \<lparr>rq_Workspace := \<lparr>dw_OrgID = 1, dw_ProjectID = ''p'', dw_TaskID = ''t'', dw_RequestID = ''r'', dw_RepoDir = ''/work/repo''\<rparr>,
      rq_Input := \<lparr>di_Type = ''message'', di_Messages = None,
        di_Attachments = Some [\<lparr>dt_ID = [], dt_Name = ''../../x'', dt_MimeType = [], dt_URL = ''http://a/b''\<rparr>]\<rparr>\<rparr>"

lemma attachment_leaves_uploads_witness:
  "(''http://a/b'', ''/work/x'') \<in> set (IngestAttachments demo_host (Some demo_attached))"
proof -
  let ?att = "\<lparr>dt_ID = [], dt_Name = ''../../x'', dt_MimeType = [], dt_URL = ''http://a/b''\<rparr>"
  have dir: "trim_space (dw_RepoDir (rq_Workspace demo_attached)) = ''/work/repo''" by code_simp
  have e: "elements ''/work/repo'' = [''work'', ''repo'']" by code_simp
  have "path_of True (take (3 - 2) [''work'', ''repo'', ''uploads''] @ [''x'']) = ''/work/x''" by code_simp
  moreover have "IsAbs (trim_space (dw_RepoDir (rq_Workspace demo_attached)))" unfolding dir by code_simp
  moreover have "ho_mkdir demo_host (Join [trim_space (dw_RepoDir (rq_Workspace demo_attached)), ''uploads'']) = None"
    by (simp add: demo_host_def)
  moreover have "?att \<in> set (elems (di_Attachments (rq_Input demo_attached)))" by (simp add: demo_attached_def elems_def)
  moreover have "trim_space (dt_URL ?att) \<noteq> []" "trim_space (dt_Name ?att) \<noteq> []"
    "dt_Name ?att = join ''/'' (replicate 2 ''..'' @ [''x''])" "plain ''x''"
    by code_simp+
  ultimately show ?thesis using attachment_leaves_uploads [of demo_attached demo_host ?att 2 "''x''"] unfolding dir e by simp
qed

end
