(* ===== verification/Manifest.thy ===== *)
theory Manifest
  imports Workspace Json "HOL-Library.Char_ord" "HOL-Library.List_Lexorder"
begin

text \<open>
  The artifacts of a turn on the worker's disk (\<open>backend/internal/workspace/artifacts.go\<close>, \<open>scanner.go\<close>): the
  manifest that the agent writes, its reconciliation with the repository at the end of a run, and the records made from
  it. The disk is a parameter: the lines of a file with the scanner's error, what \<open>os.Stat\<close>, the hash and the detection of
  a type return, which file \<open>git check-ignore\<close> ignores. \<open>parse\<close> reads the text of a line as JSON.

  Lemmas: what is collected is final, inside the repository, sorted and without duplicates; without a baseline every file of
  the repository becomes an artifact.
\<close>

section \<open>Records\<close>

lemma fold_keys_manifest [simp]:
  "fold_key ''path'' = ''path''"
  "fold_key ''is_final'' = ''is_final''"
  by code_simp+

record manifest_artifact =
  ma_path :: string
  ma_title :: string
  ma_description :: string
  ma_mime_type :: string
  ma_artifact_type :: string
  ma_is_final :: bool

definition dec_manifest_artifact :: "obj \<Rightarrow> manifest_artifact option" where
  "dec_manifest_artifact kvs = do {
     path \<leftarrow> get_str ''path'' kvs;
     title \<leftarrow> get_str ''title'' kvs;
     description \<leftarrow> get_str ''description'' kvs;
     mime_type \<leftarrow> get_str ''mime_type'' kvs;
     artifact_type \<leftarrow> get_str ''artifact_type'' kvs;
     is_final \<leftarrow> get_bool ''is_final'' kvs;
     Some \<lparr>ma_path = path, ma_title = title, ma_description = description, ma_mime_type = mime_type,
       ma_artifact_type = artifact_type, ma_is_final = is_final\<rparr> }"

definition enc_manifest_artifact :: "manifest_artifact \<Rightarrow> obj" where
  "enc_manifest_artifact x =
     put ''path'' [JStr (ma_path x)] @
     put ''title'' (str_ne (ma_title x)) @
     put ''description'' (str_ne (ma_description x)) @
     put ''mime_type'' (str_ne (ma_mime_type x)) @
     put ''artifact_type'' (str_ne (ma_artifact_type x)) @
     put ''is_final'' (bool_ne (ma_is_final x))"

lemma dec_enc_manifest_artifact [simp]: "dec_manifest_artifact (enc_manifest_artifact x) = Some x"
  by (cases x) (auto simp: enc_manifest_artifact_def dec_manifest_artifact_def get_defs split: option.splits)

record file_snapshot =
  fs_path :: string
  fs_size :: int
  fs_mtime_unix_nano :: int

definition dec_file_snapshot :: "obj \<Rightarrow> file_snapshot option" where
  "dec_file_snapshot kvs = do {
     path \<leftarrow> get_str ''path'' kvs;
     size \<leftarrow> get_int ''size'' kvs;
     mtime \<leftarrow> get_int ''mtime_unix_nano'' kvs;
     Some \<lparr>fs_path = path, fs_size = size, fs_mtime_unix_nano = mtime\<rparr> }"

record workspace_artifact =
  wa_Title :: string
  wa_Filename :: string
  wa_OriginalName :: string
  wa_Description :: string
  wa_ArtifactType :: string
  wa_RelativePath :: string
  wa_StorageKey :: string
  wa_StorageURI :: string
  wa_MimeType :: string
  wa_FileSize :: int
  wa_Sha256 :: string
  wa_Source :: string
  wa_Status :: string

text \<open>A file that is opened and scanned line by line.\<close>

datatype scanned = Absent | Unreadable go_error | Lines "string list" "go_error option"

section \<open>Collecting\<close>

text \<open>The disk, and what \<open>%q\<close> prints.\<close>

record disk =
  dk_cwd :: "go_error + string"
  dk_eval :: symlinks
  dk_stat :: "string \<Rightarrow> go_error + bool \<times> int"
  dk_sha :: "string \<Rightarrow> go_error + string"
  dk_mime :: "string \<Rightarrow> string \<Rightarrow> string"
  dk_quoted :: "string \<Rightarrow> string"

definition line_item :: "(string \<Rightarrow> raw) \<Rightarrow> string \<Rightarrow> manifest_artifact option" where
  "line_item parse line = unmarshal (dec_struct dec_manifest_artifact) (parse line)"

fun collect_lines ::
  "(string \<Rightarrow> string) \<Rightarrow> (string \<Rightarrow> raw) \<Rightarrow> (string \<Rightarrow> go_error) \<Rightarrow> go_error option \<Rightarrow> string list \<Rightarrow> (string \<Rightarrow> manifest_artifact option) \<Rightarrow> string list \<Rightarrow>
   go_error + (string \<Rightarrow> manifest_artifact option) \<times> string list" where
  "collect_lines q parse bad ctxErr [] declared paths = Inr (declared, paths)"
| "collect_lines q parse bad ctxErr (l # ls) declared paths =
     (case ctxErr of
        Some err \<Rightarrow> Inl err
      | None \<Rightarrow>
          (let line = trim_space l in
           if line = [] then collect_lines q parse bad ctxErr ls declared paths
           else
             (case line_item parse line of
                None \<Rightarrow> Inl (wrapf ''parse artifact manifest'' (bad line))
              | Some item \<Rightarrow>
                  if \<not> ma_is_final item then collect_lines q parse bad ctxErr ls declared paths
                  else
                    (let key = Clean (trim_space (ma_path item)) in
                     if key = ''.'' \<or> prefix ''../'' key \<or> prefix ''/'' key
                     then Inl (errorf (''invalid artifact path '' @ q (ma_path item)))
                     else collect_lines q parse bad ctxErr ls (declared(key \<mapsto> item\<lparr>ma_path := key\<rparr>))
                            (if declared key = None then paths @ [key] else paths)))))"

definition BuildArtifactRecord :: "disk \<Rightarrow> task_workspace \<Rightarrow> manifest_artifact \<Rightarrow> go_error + workspace_artifact" where
  "BuildArtifactRecord dk plan item =
     (case SafeJoin (dk_cwd dk) (dk_eval dk) (ws_RepoDir plan) (ma_path item) of
        Inl err \<Rightarrow> Inl (wrapf (''validate artifact path '' @ dk_quoted dk (ma_path item)) err)
      | Inr absolute \<Rightarrow>
          (case dk_stat dk absolute of
             Inl err \<Rightarrow> Inl (wrapf (''stat artifact '' @ dk_quoted dk (ma_path item)) err)
           | Inr (is_dir, fileSize) \<Rightarrow>
               if is_dir then Inl (errorf (''artifact '' @ dk_quoted dk (ma_path item) @ '' is a directory''))
               else
                 (case dk_sha dk absolute of
                    Inl err \<Rightarrow> Inl err
                  | Inr sha \<Rightarrow>
                      (case StorageKey (dk_cwd dk) (dk_eval dk) (Some plan) (ma_path item) of
                         Inl err \<Rightarrow> Inl err
                       | Inr storageKey \<Rightarrow>
                           (let title = trim_space (ma_title item); kind = trim_space (ma_artifact_type item) in
                            Inr \<lparr>wa_Title = (if title = [] then Base (ma_path item) else title),
                                 wa_Filename = Base (ma_path item), wa_OriginalName = Base (ma_path item),
                                 wa_Description = trim_space (ma_description item),
                                 wa_ArtifactType = (if kind = [] then ''file'' else kind),
                                 wa_RelativePath = ma_path item, wa_StorageKey = storageKey, wa_StorageURI = [],
                                 wa_MimeType = dk_mime dk absolute (ma_mime_type item), wa_FileSize = fileSize,
                                 wa_Sha256 = sha, wa_Source = ''agent_declared'', wa_Status = ''completed''\<rparr>)))))"

fun build_all :: "disk \<Rightarrow> task_workspace \<Rightarrow> manifest_artifact list \<Rightarrow> go_error + workspace_artifact list" where
  "build_all dk plan [] = Inr []"
| "build_all dk plan (item # items) =
     (case BuildArtifactRecord dk plan item of
        Inl err \<Rightarrow> Inl err
      | Inr r \<Rightarrow> map_sum id (Cons r) (build_all dk plan items))"

definition CollectFinalArtifacts ::
  "disk \<Rightarrow> (string \<Rightarrow> raw) \<Rightarrow> (string \<Rightarrow> go_error) \<Rightarrow> go_error option \<Rightarrow> scanned \<Rightarrow> task_workspace option \<Rightarrow>
   go_error + workspace_artifact list" where
  "CollectFinalArtifacts dk parse bad ctxErr manifest plan =
     (case plan of
        None \<Rightarrow> Inr []
      | Some plan \<Rightarrow>
          if trim_space (ws_ArtifactManifestPath plan) = [] then Inr []
          else
            (case manifest of
               Absent \<Rightarrow> Inr []
             | Unreadable err \<Rightarrow> Inl (wrapf ''open artifact manifest'' err)
             | Lines ls scanErr \<Rightarrow>
                 (case collect_lines (dk_quoted dk) parse bad ctxErr ls (\<lambda>_. None) [] of
                    Inl err \<Rightarrow> Inl err
                  | Inr (declared, paths) \<Rightarrow>
                      (case scanErr of
                         Some err \<Rightarrow> Inl (wrapf ''read artifact manifest'' err)
                       | None \<Rightarrow> build_all dk plan (map (\<lambda>p. the (declared p)) (sort paths))))))"

section \<open>Reconciling\<close>

fun has_final :: "(string \<Rightarrow> raw) \<Rightarrow> string list \<Rightarrow> bool" where
  "has_final parse [] = False"
| "has_final parse (l # ls) =
     (let line = trim_space l in
      if line = [] then has_final parse ls
      else (case line_item parse line of
              None \<Rightarrow> has_final parse ls
            | Some entry \<Rightarrow> if ma_is_final entry then True else has_final parse ls))"

definition manifestHasFinalEntries :: "(string \<Rightarrow> raw) \<Rightarrow> scanned \<Rightarrow> go_error + bool" where
  "manifestHasFinalEntries parse manifest =
     (case manifest of
        Absent \<Rightarrow> Inr False
      | Unreadable err \<Rightarrow> Inl (wrapf ''open manifest'' err)
      | Lines ls scanErr \<Rightarrow>
          if has_final parse ls then Inr True
          else (case scanErr of Some err \<Rightarrow> Inl err | None \<Rightarrow> Inr False))"

fun read_baseline_lines ::
  "(string \<Rightarrow> raw) \<Rightarrow> string list \<Rightarrow> (string \<Rightarrow> file_snapshot option) \<Rightarrow> string \<Rightarrow> file_snapshot option" where
  "read_baseline_lines parse [] target = target"
| "read_baseline_lines parse (l # ls) target =
     (let line = trim_space l in
      if line = [] then read_baseline_lines parse ls target
      else (case unmarshal (dec_struct dec_file_snapshot) (parse line) of
              None \<Rightarrow> read_baseline_lines parse ls target
            | Some snap \<Rightarrow> read_baseline_lines parse ls (target(fs_path snap \<mapsto> snap))))"

definition readBaseline :: "(string \<Rightarrow> raw) \<Rightarrow> scanned \<Rightarrow> go_error + (string \<Rightarrow> file_snapshot option)" where
  "readBaseline parse baseline =
     (case baseline of
        Absent \<Rightarrow> Inr (\<lambda>_. None)
      | Unreadable err \<Rightarrow> Inl (wrapf ''open baseline'' err)
      | Lines ls scanErr \<Rightarrow>
          (case scanErr of Some err \<Rightarrow> Inl err | None \<Rightarrow> Inr (read_baseline_lines parse ls (\<lambda>_. None))))"

definition diffFiles :: "(string \<Rightarrow> file_snapshot option) \<Rightarrow> file_snapshot list \<Rightarrow> file_snapshot list" where
  "diffFiles baseline current =
     filter (\<lambda>snap. case baseline (fs_path snap) of
         None \<Rightarrow> True
       | Some prev \<Rightarrow> fs_size snap \<noteq> fs_size prev \<or> fs_mtime_unix_nano snap \<noteq> fs_mtime_unix_nano prev) current"

definition isBuiltinExcludedDir :: "string \<Rightarrow> bool" where
  "isBuiltinExcludedDir absPath \<longleftrightarrow>
     to_lower (Base absPath) \<in> set [''tmp'', ''temp'', ''logs'', ''log'', ''.cache'', ''node_modules'', ''vendor'', ''dist'',
       ''build'', ''target'']"

text \<open>\<open>filepath.Ext\<close>: from the last dot of the last element on.\<close>

definition Ext :: "string \<Rightarrow> string" where
  "Ext path =
     (let t = takeWhile (\<lambda>c. c \<noteq> CHR ''.'' \<and> c \<noteq> CHR ''/'') (rev path); d = drop (length t) (rev path) in
      case d of [] \<Rightarrow> [] | c # _ \<Rightarrow> if c = CHR ''.'' then c # rev t else [])"

definition isBuiltinExcludedFile :: "string \<Rightarrow> bool" where
  "isBuiltinExcludedFile absPath \<longleftrightarrow>
     (let base = Base absPath; ext = Ext base in
      base \<in> set [''.DS_Store'', ''Thumbs.db'', ''.gitignore''] \<or> ext \<in> set [''.swp'', ''.swo'', ''.log''])"

record ignore_checker =
  ic_gitDir :: string
  ic_lerosDir :: string
  ic_useGit :: bool

definition NewIgnoreChecker :: "(string \<Rightarrow> bool) \<Rightarrow> go_error + string \<Rightarrow> string \<Rightarrow> go_error + ignore_checker" where
  "NewIgnoreChecker exists cwd repoDir =
     (case Abs_path cwd repoDir of
        Inl err \<Rightarrow> Inl (wrapf ''resolve repo dir'' err)
      | Inr absRepo \<Rightarrow>
          Inr \<lparr>ic_gitDir = Join [absRepo, ''.git''], ic_lerosDir = Join [absRepo, ''.leros''],
               ic_useGit = exists (Join [absRepo, ''.git''])\<rparr>)"

definition ShouldSkipDir :: "ignore_checker \<Rightarrow> string \<Rightarrow> bool" where
  "ShouldSkipDir c absPath \<longleftrightarrow>
     absPath = ic_gitDir c \<or> absPath = ic_lerosDir c \<or> isBuiltinExcludedDir absPath"

text \<open>\<open>git\<close> is the answer of \<open>git check-ignore\<close>; the cache only saves repeated questions.\<close>

definition IsIgnored :: "(string \<Rightarrow> go_error + bool) \<Rightarrow> ignore_checker \<Rightarrow> string \<Rightarrow> bool" where
  "IsIgnored git c absPath \<longleftrightarrow>
     isBuiltinExcludedFile absPath \<or> (ic_useGit c \<and> (case git absPath of Inr ignored \<Rightarrow> ignored | Inl _ \<Rightarrow> False))"

text \<open>
  \<open>scanRepoFiles\<close> on the files below an absolute repository, in the order of the walk: a file is reached when none of the directories
  from the repository down to it is skipped.
\<close>

definition reached :: "ignore_checker \<Rightarrow> string \<Rightarrow> string \<Rightarrow> bool" where
  "reached c repoDir path \<longleftrightarrow>
     (\<forall>n \<in> set [length (elements repoDir) ..< length (elements path)]. \<not> ShouldSkipDir c (path_of True (take n (elements path))))"

definition scanRepoFiles ::
  "(string \<Rightarrow> go_error + bool) \<Rightarrow> ignore_checker \<Rightarrow> string \<Rightarrow> file_snapshot list \<Rightarrow> file_snapshot list" where
  "scanRepoFiles git c repoDir files =
     filter (\<lambda>f. reached c repoDir (fs_path f) \<and> \<not> IsIgnored git c (fs_path f)) files"

fun reconcile_entries :: "(string \<Rightarrow> string) \<Rightarrow> string \<Rightarrow> file_snapshot list \<Rightarrow> go_error + manifest_artifact list" where
  "reconcile_entries q repoDir [] = Inr []"
| "reconcile_entries q repoDir (snap # snaps) =
     (case Rel repoDir (fs_path snap) of
        Inl err \<Rightarrow> Inl (wrapf (''resolve relative path for '' @ q (fs_path snap)) err)
      | Inr rel \<Rightarrow>
          map_sum id (Cons \<lparr>ma_path = rel, ma_title = [], ma_description = [], ma_mime_type = [], ma_artifact_type = [],
                           ma_is_final = True\<rparr>) (reconcile_entries q repoDir snaps))"

text \<open>The entries that are appended to the manifest.\<close>

definition ReconcileArtifacts ::
  "(string \<Rightarrow> string) \<Rightarrow> (string \<Rightarrow> raw) \<Rightarrow> scanned \<Rightarrow> scanned \<Rightarrow> go_error + file_snapshot list \<Rightarrow> task_workspace \<Rightarrow> go_error + manifest_artifact list" where
  "ReconcileArtifacts q parse manifest baseline current plan =
     (if ws_RepoDir plan = [] \<or> ws_BaselinePath plan = [] \<or> ws_ArtifactManifestPath plan = [] then Inr []
      else
        (case manifestHasFinalEntries parse manifest of
           Inl err \<Rightarrow> Inl err
         | Inr True \<Rightarrow> Inr []
         | Inr False \<Rightarrow>
             (case readBaseline parse baseline of
                Inl err \<Rightarrow> Inl (wrapf ''read baseline for reconciliation'' err)
              | Inr base \<Rightarrow>
                  (case current of
                     Inl err \<Rightarrow> Inl (wrapf ''scan repo for reconciliation'' err)
                   | Inr files \<Rightarrow> reconcile_entries q (ws_RepoDir plan) (diffFiles base files)))))"

section \<open>What is collected\<close>

definition declared_ok :: "(string \<Rightarrow> manifest_artifact option) \<Rightarrow> string list \<Rightarrow> bool" where
  "declared_ok declared paths \<longleftrightarrow> distinct paths \<and> set paths = dom declared \<and>
     (\<forall>p item. declared p = Some item \<longrightarrow> ma_path item = p \<and> ma_is_final item)"

lemma declared_ok_add:
  "declared_ok declared paths \<Longrightarrow> ma_is_final item \<Longrightarrow>
   declared_ok (declared(key \<mapsto> item\<lparr>ma_path := key\<rparr>)) (if declared key = None then paths @ [key] else paths)"
  by (auto simp: declared_ok_def dom_def)

lemma collect_lines_cases:
  assumes "collect_lines q parse bad ctxErr (l # ls) declared paths = Inr r"
  obtains (skip) "collect_lines q parse bad ctxErr ls declared paths = Inr r"
  | (add) item key where "ma_is_final item" "collect_lines q parse bad ctxErr ls (declared(key \<mapsto> item\<lparr>ma_path := key\<rparr>))
      (if declared key = None then paths @ [key] else paths) = Inr r"
  using assms by (simp only: collect_lines.simps Let_def split: option.splits if_splits sum.splits) blast+

lemma collect_lines_inv:
  "collect_lines q parse bad ctxErr ls declared paths = Inr (declared', paths') \<Longrightarrow> declared_ok declared paths \<Longrightarrow>
   declared_ok declared' paths'"
proof (induction ls arbitrary: declared paths)
  case (Cons l ls)
  show ?case
  proof (cases rule: collect_lines_cases [OF Cons.prems(1)])
    case 1
    then show ?thesis using Cons by blast
  next
    case (2 item key)
    then show ?thesis using Cons.IH declared_ok_add [OF Cons.prems(2)] by blast
  qed
qed simp

lemma build_all_Inr:
  "build_all dk plan items = Inr rs \<Longrightarrow> list_all2 (\<lambda>item r. BuildArtifactRecord dk plan item = Inr r) items rs"
  by (induction items arbitrary: rs) (auto simp: map_sum_def split: sum.splits)

lemma build_record:
  assumes "BuildArtifactRecord dk plan item = Inr r"
  obtains p where "SafeJoin (dk_cwd dk) (dk_eval dk) (ws_RepoDir plan) (ma_path item) = Inr p" "dk_stat dk p = Inr (False, wa_FileSize r)"
    "StorageKey (dk_cwd dk) (dk_eval dk) (Some plan) (ma_path item) = Inr (wa_StorageKey r)" "wa_RelativePath r = ma_path item"
  using assms by (auto simp: BuildArtifactRecord_def Let_def split: sum.splits prod.splits if_splits)

lemma collected:
  assumes "CollectFinalArtifacts dk parse bad ctxErr manifest (Some plan) = Inr rs"
  obtains items where "list_all2 (\<lambda>item r. BuildArtifactRecord dk plan item = Inr r) items rs" "\<forall>item \<in> set items. ma_is_final item"
    "sorted_wrt (<) (map ma_path items)"
proof -
  consider "rs = []" | ls declared paths where
    "collect_lines (dk_quoted dk) parse bad ctxErr ls (\<lambda>_. None) [] = Inr (declared, paths)"
    "build_all dk plan (map (\<lambda>p. the (declared p)) (sort paths)) = Inr rs"
    using assms by (auto simp: CollectFinalArtifacts_def split: if_splits scanned.splits sum.splits option.splits prod.splits)
  then show thesis
  proof cases
    case 1
    then show ?thesis using that [of "[]"] by simp
  next
    case (2 ls declared paths)
    let ?items = "map (\<lambda>p. the (declared p)) (sort paths)"
    have ok: "declared_ok declared paths" by (rule collect_lines_inv [OF 2(1)]) (simp add: declared_ok_def)
    have it: "ma_path (the (declared p)) = p \<and> ma_is_final (the (declared p))" if "p \<in> set paths" for p
    proof -
      have "p \<in> dom declared" using ok that by (simp add: declared_ok_def)
      then obtain item where "declared p = Some item" by (rule domD [THEN exE])
      then show ?thesis using ok by (auto simp: declared_ok_def)
    qed
    have "map ma_path ?items = sort paths" using it by (auto intro!: map_idI)
    moreover have "sorted_wrt (<) (sort paths)" using ok by (simp add: declared_ok_def strict_sorted_iff)
    moreover have "\<forall>item \<in> set ?items. ma_is_final item" using it by simp
    ultimately show ?thesis using that [OF build_all_Inr [OF 2(2)]] by simp
  qed
qed

lemma built_path: "BuildArtifactRecord dk plan item = Inr r \<Longrightarrow> wa_RelativePath r = ma_path item"
  by (rule build_record)

lemma built_paths:
  "list_all2 (\<lambda>item r. BuildArtifactRecord dk plan item = Inr r) items rs \<Longrightarrow> map wa_RelativePath rs = map ma_path items"
  by (induction rule: list_all2_induct) (simp_all add: built_path)

section \<open>Properties\<close>


definition demo_plan :: task_workspace where
  "demo_plan = \<lparr>ws_WorkspaceRoot = ''/'', ws_ProjectRoot = ''/w'', ws_RepoDir = ''/w/repo'', ws_TaskDir = [], ws_TurnDir = [],
    ws_TurnTmpDir = [], ws_TurnLogDir = [], ws_ArtifactManifestPath = ''/w/m'', ws_BaselinePath = ''/w/b'', ws_EffectiveWorkDir = [],
    ws_CloneURL = []\<rparr>"

definition demo_disk :: disk where
  "demo_disk = \<lparr>dk_cwd = Inr ''/'', dk_eval = demo_links, dk_stat = (\<lambda>_. Inr (False, 3)), dk_sha = (\<lambda>_. Inr ''00''),
     dk_mime = (\<lambda>_ m. m), dk_quoted = id\<rparr>"

definition demo_line :: "string \<Rightarrow> raw" where
  "demo_line path = Raw (JObj [(''path'', JStr path), (''is_final'', JBool True)])"


text \<open>without a baseline every file is an artifact. When the agent has declared nothing final and there is no baseline
  file (no code outside the tests writes one), reconciliation declares each file that the scan of the repository finds,
  whether the run touched it or not; with the baseline that \<open>WriteBaseline\<close> would have written of the same files it would declare none.\<close>

theorem every_file_declared:
  assumes "manifestHasFinalEntries parse manifest = Inr False" "IsAbs (ws_RepoDir plan)" "\<forall>f \<in> set files. IsAbs (fs_path f)"
    "ws_BaselinePath plan \<noteq> []" "ws_ArtifactManifestPath plan \<noteq> []"
  shows "(\<exists>es. ReconcileArtifacts q parse manifest Absent (Inr files) plan = Inr es \<and>
      list_all2 (\<lambda>f e. Rel (ws_RepoDir plan) (fs_path f) = Inr (ma_path e) \<and> ma_is_final e) files es) \<and>
    (distinct (map fs_path files) \<longrightarrow> diffFiles (map_of (map (\<lambda>f. (fs_path f, f)) files)) files = [])"
proof -
  have ne: "ws_RepoDir plan \<noteq> []" using assms(2) by (auto simp: IsAbs_def)
  have all: "\<exists>es. reconcile_entries q (ws_RepoDir plan) files = Inr es \<and>
      list_all2 (\<lambda>f e. Rel (ws_RepoDir plan) (fs_path f) = Inr (ma_path e) \<and> ma_is_final e) files es"
    using assms(3)
  proof (induction files)
    case (Cons f fs)
    obtain rel where rel: "Rel (ws_RepoDir plan) (fs_path f) = Inr rel"
      using Cons.prems by (cases rule: Rel_rooted [OF assms(2), of "fs_path f"]) auto
    obtain es where "reconcile_entries q (ws_RepoDir plan) fs = Inr es"
      "list_all2 (\<lambda>f e. Rel (ws_RepoDir plan) (fs_path f) = Inr (ma_path e) \<and> ma_is_final e) fs es"
      using Cons by auto
    then show ?case by (simp add: rel)
  qed simp
  have d: "diffFiles (\<lambda>_. None) files = files" by (simp add: diffFiles_def)
  have "ReconcileArtifacts q parse manifest Absent (Inr files) plan = reconcile_entries q (ws_RepoDir plan) files"
    using ne assms(1,4,5) by (simp add: ReconcileArtifacts_def readBaseline_def d)
  moreover have "map_of (map (\<lambda>f. (fs_path f, f)) files) (fs_path f) = Some f" if "distinct (map fs_path files)" "f \<in> set files" for f
    using that by (intro map_of_is_SomeI) (auto simp: comp_def)
  then have "distinct (map fs_path files) \<longrightarrow> diffFiles (map_of (map (\<lambda>f. (fs_path f, f)) files)) files = []"
    by (auto simp: diffFiles_def filter_empty_conv)
  ultimately show ?thesis using all by simp
qed

theorem every_file_declared_witness:
  "\<exists>es. ReconcileArtifacts id demo_line (Lines [] None) Absent
       (Inr [\<lparr>fs_path = ''/w/repo/old.md'', fs_size = 1, fs_mtime_unix_nano = 0\<rparr>]) demo_plan = Inr es \<and> map ma_path es = [''old.md'']"
proof -
  have h: "manifestHasFinalEntries demo_line (Lines [] None) = Inr False" "IsAbs (ws_RepoDir demo_plan)"
    "\<forall>f \<in> set [\<lparr>fs_path = ''/w/repo/old.md'', fs_size = 1, fs_mtime_unix_nano = 0\<rparr>]. IsAbs (fs_path f)"
    "ws_BaselinePath demo_plan \<noteq> []" "ws_ArtifactManifestPath demo_plan \<noteq> []"
    using demo_abs by (simp_all add: manifestHasFinalEntries_def demo_plan_def IsAbs_def)
  have "Rel (ws_RepoDir demo_plan) ''/w/repo/old.md'' = Inr ''old.md''" by code_simp
  with every_file_declared [OF h, of id] show ?thesis by (auto simp: list_all2_Cons1)
qed

end
