(* ===== verification/Checkout.thy ===== *)
theory Checkout
  imports Workspace
begin

text \<open>
  The git repository of a project on the worker's disk (\<open>ensureGitRepo\<close>, \<open>hasRemote\<close> and \<open>ensureGitignore\<close> of
  \<open>backend/internal/workspace/workspace.go\<close>, \<open>pushWorkspace\<close> of \<open>backend/internal/assistant/finalizer_impl.go\<close>). The
  repository's directory is the list of what it holds besides \<open>.git\<close>, and what \<open>.git\<close> is. How an operating system call
  or a git command ends, and what a clone or a pull brings, is a parameter.

  Lemmas: a repository with a remote keeps what it holds, up to the pull; a local one is emptied each time it is prepared.
\<close>

section \<open>The directory\<close>

datatype node = Dir_node | File_node string

datatype git_entry = No_git | Git_file | Git_dir bool

text \<open>\<open>Git_dir origin\<close> is a repository, with or without a remote of that name.\<close>

record repo_tree =
  tr_entries :: "(string \<times> node) list"
  tr_git :: git_entry

definition empty_tree :: repo_tree where
  "empty_tree = \<lparr>tr_entries = [], tr_git = No_git\<rparr>"

definition put_entry :: "string \<Rightarrow> node \<Rightarrow> repo_tree \<Rightarrow> repo_tree" where
  "put_entry name n tree =
     (if map_of (tr_entries tree) name = None then tree\<lparr>tr_entries := tr_entries tree @ [(name, n)]\<rparr> else tree)"

text \<open>A failed command is its error and its output.\<close>

type_synonym command_failure = "go_error \<times> string"

record git_io =
  gi_mkdir_repo :: "go_error option"
  gi_readable :: bool
  gi_remove :: "(go_error \<times> repo_tree) option"
  gi_pull :: "command_failure + (string \<times> node) list"
  gi_init :: "command_failure option"
  gi_assets :: "go_error option"
  gi_mkdir_parent :: "go_error option"
  gi_clone :: "command_failure + (string \<times> node) list"

definition command_error :: "string \<Rightarrow> command_failure \<Rightarrow> go_error" where
  "command_error what failure =
     (fst failure)\<lparr>ge_text := what @ '': '' @ ge_text (fst failure) @ '': '' @ trim_space (snd failure)\<rparr>"

definition hasRemote :: "git_entry \<Rightarrow> bool" where
  "hasRemote git = (git = Git_dir True)"

section \<open>Preparing it\<close>

text \<open>\<open>os.RemoveAll\<close> of the repository's directory, and what follows it.\<close>

definition remove_all ::
  "git_io \<Rightarrow> string \<Rightarrow> repo_tree \<Rightarrow> (repo_tree \<Rightarrow> go_error option \<times> repo_tree) \<Rightarrow> go_error option \<times> repo_tree" where
  "remove_all io what tree next =
     (case gi_remove io of
        Some (err, left) \<Rightarrow> (Some (wrapf what err), left)
      | None \<Rightarrow> next empty_tree)"

definition with_assets :: "git_io \<Rightarrow> repo_tree \<Rightarrow> go_error option \<times> repo_tree" where
  "with_assets io tree =
     (case gi_assets io of
        Some err \<Rightarrow> (Some (wrapf ''create assets dir'' err), tree)
      | None \<Rightarrow> (None, put_entry ''assets'' Dir_node tree))"

text \<open>The second half: a repository is created where there is none.\<close>

definition create_repo :: "git_io \<Rightarrow> string \<Rightarrow> repo_tree \<Rightarrow> go_error option \<times> repo_tree" where
  "create_repo io cloneURL tree =
     (if trim_space cloneURL = [] then
        (case gi_init io of
           Some failure \<Rightarrow> (Some (command_error ''git init'' failure), tree)
         | None \<Rightarrow> with_assets io (tree\<lparr>tr_git := Git_dir False\<rparr>))
      else
        (case gi_mkdir_parent io of
           Some err \<Rightarrow> (Some (wrapf ''create parent dir'' err), tree)
         | None \<Rightarrow>
             (case gi_clone io of
                Inl failure \<Rightarrow>
                  (Some (command_error ''git clone'' failure),
                   (case gi_remove io of Some (_, left) \<Rightarrow> left | None \<Rightarrow> empty_tree))
              | Inr cloned \<Rightarrow> with_assets io \<lparr>tr_entries = cloned, tr_git = Git_dir True\<rparr>)))"

definition update_repo :: "git_io \<Rightarrow> string \<Rightarrow> repo_tree \<Rightarrow> go_error option \<times> repo_tree" where
  "update_repo io cloneURL tree =
     (case tr_git tree of
        Git_dir origin \<Rightarrow>
          if hasRemote (Git_dir origin) then
            (case gi_pull io of
               Inl failure \<Rightarrow> (Some (command_error ''git pull'' failure), tree)
             | Inr pulled \<Rightarrow> (None, tree\<lparr>tr_entries := pulled\<rparr>))
          else remove_all io ''remove broken repo'' tree (create_repo io cloneURL)
      | _ \<Rightarrow> create_repo io cloneURL tree)"

definition ensureGitRepo :: "git_io \<Rightarrow> string \<Rightarrow> repo_tree \<Rightarrow> go_error option \<times> repo_tree" where
  "ensureGitRepo io cloneURL tree =
     (case gi_mkdir_repo io of
        Some err \<Rightarrow> (Some (wrapf ''create repo dir'' err), tree)
      | None \<Rightarrow>
          if gi_readable io \<and> (tr_entries tree \<noteq> [] \<or> tr_git tree \<noteq> No_git) \<and> (\<forall>origin \<in> {True, False}. tr_git tree \<noteq> Git_dir origin)
          then remove_all io ''remove non-git repo dir'' tree (update_repo io cloneURL)
          else update_repo io cloneURL tree)"

definition defaultGitignore :: string where
  "defaultGitignore = concat (map (\<lambda>line. line @ [CHR 0x0A])
     [''# Leros runtime'',
      ''.leros/tasks/'',
      '''',
      ''# User uploads (served from object storage, not committed)'',
      ''uploads/'',
      '''',
      ''# Dependency directories'',
      ''node_modules/'',
      ''vendor/'',
      ''dist/'',
      ''build/'',
      ''target/'',
      ''.cache/'',
      ''tmp/'',
      ''temp/'',
      ''logs/'',
      '''',
      ''# OS/editor noise'',
      ''.DS_Store'',
      ''Thumbs.db'',
      ''*.swp'',
      ''*.swo'',
      '''',
      ''# Runtime logs'',
      ''*.log'',
      '''',
      ''# Environment/secrets'',
      ''.env'',
      ''.env.*'',
      ''!.env.example''])"

text \<open>\<open>stat\<close> is the error of \<open>os.Stat\<close> other than that the file does not exist, \<open>write\<close> that of \<open>os.WriteFile\<close>.\<close>

definition ensureGitignore :: "go_error option \<Rightarrow> go_error option \<Rightarrow> repo_tree \<Rightarrow> go_error option \<times> repo_tree" where
  "ensureGitignore stat write tree =
     (case stat of
        Some err \<Rightarrow> (Some (wrapf ''stat gitignore'' err), tree)
      | None \<Rightarrow>
          if map_of (tr_entries tree) ''.gitignore'' \<noteq> None then (None, tree)
          else
            (case write of
               Some err \<Rightarrow> (Some (wrapf ''write default gitignore'' err), tree)
             | None \<Rightarrow> (None, put_entry ''.gitignore'' (File_node defaultGitignore) tree)))"

section \<open>Pushing it\<close>

text \<open>
  The git commands in the order in which \<open>pushWorkspace\<close> gives them, and how it ends. \<open>has_git\<close>: \<open>os.Stat\<close> finds
  \<open>.git\<close>; a command gives \<open>None\<close> when it exits with status 0.
\<close>

datatype git_command = Git_add | Git_diff_cached | Git_commit | Git_remote | Git_push

definition pushWorkspace ::
  "(string \<Rightarrow> bool) \<Rightarrow> (git_command \<Rightarrow> command_failure option) \<Rightarrow> string \<Rightarrow> go_error option \<times> git_command list" where
  "pushWorkspace has_git git repo_dir =
     (let repoDir = trim_space repo_dir in
      if repoDir = [] then (None, [])
      else if \<not> has_git (Join [repoDir, ''.git'']) then (None, [])
      else
        (case git Git_add of
           Some failure \<Rightarrow> (Some (command_error ''git add'' failure), [Git_add])
         | None \<Rightarrow>
             if git Git_diff_cached = None then (None, [Git_add, Git_diff_cached])
             else if git Git_commit \<noteq> None then (None, [Git_add, Git_diff_cached, Git_commit])
             else if git Git_remote \<noteq> None then (None, [Git_add, Git_diff_cached, Git_commit, Git_remote])
             else (map_option (command_error ''git push'') (git Git_push),
                   [Git_add, Git_diff_cached, Git_commit, Git_remote, Git_push])))"

section \<open>What is kept\<close>

text \<open>Every call ends well.\<close>

definition io_fine :: "git_io \<Rightarrow> bool" where
  "io_fine io \<longleftrightarrow> gi_mkdir_repo io = None \<and> gi_remove io = None \<and> gi_init io = None \<and> gi_assets io = None \<and>
     gi_mkdir_parent io = None \<and> \<not> isl (gi_clone io) \<and> \<not> isl (gi_pull io)"

lemma repo_with_origin_kept:
  "tr_git tree = Git_dir True \<Longrightarrow> gi_mkdir_repo io = None \<Longrightarrow> gi_pull io = Inr pulled \<Longrightarrow>
   ensureGitRepo io cloneURL tree = (None, tree\<lparr>tr_entries := pulled\<rparr>)"
  by (simp add: ensureGitRepo_def update_repo_def hasRemote_def)

lemma pull_failure_keeps:
  "tr_git tree = Git_dir True \<Longrightarrow> gi_pull io = Inl failure \<Longrightarrow> snd (ensureGitRepo io cloneURL tree) = tree"
  by (simp add: ensureGitRepo_def update_repo_def hasRemote_def split: option.split)

lemma gitignore_kept:
  "map_of (tr_entries tree) name = Some n \<Longrightarrow> map_of (tr_entries (snd (ensureGitignore stat write tree))) name = Some n"
  by (auto simp: ensureGitignore_def put_entry_def map_add_def map_of_append split: option.split)

lemma push_failed:
  "fst (pushWorkspace has_git git dir) = Some err \<Longrightarrow>
   (\<exists>failure. git Git_add = Some failure \<and> err = command_error ''git add'' failure) \<or>
   (\<exists>failure. git Git_push = Some failure \<and> err = command_error ''git push'' failure)"
  by (auto simp: pushWorkspace_def Let_def split: if_splits option.splits)

text \<open>A project repository that has no remote of the name origin - the one that is created with git init where no
  Gitea is configured - is removed and created anew each time it is prepared: whatever the directory held, files of earlier
  runs and their commits, is gone, and only the empty assets directory is left.\<close>

theorem local_repository_emptied:
  assumes "tr_git tree = Git_dir False" "io_fine io" "trim_space cloneURL = []"
  shows "ensureGitRepo io cloneURL tree = (None, \<lparr>tr_entries = [(''assets'', Dir_node)], tr_git = Git_dir False\<rparr>)"
  using assms
  by (simp add: ensureGitRepo_def update_repo_def create_repo_def with_assets_def remove_all_def hasRemote_def io_fine_def
      empty_tree_def put_entry_def)

definition demo_io :: git_io where
  "demo_io = \<lparr>gi_mkdir_repo = None, gi_readable = True, gi_remove = None, gi_pull = Inr [], gi_init = None,
     gi_assets = None, gi_mkdir_parent = None, gi_clone = Inr []\<rparr>"

lemma local_repository_emptied_witness:
  "(let once = snd (ensureGitRepo demo_io [] empty_tree);
        worked = put_entry ''report.md'' (File_node ''done'') once
    in snd (ensureGitRepo demo_io [] worked)) = \<lparr>tr_entries = [(''assets'', Dir_node)], tr_git = Git_dir False\<rparr>"
proof -
  have once: "snd (ensureGitRepo demo_io [] empty_tree) = \<lparr>tr_entries = [(''assets'', Dir_node)], tr_git = Git_dir False\<rparr>"
    by code_simp
  have fine: "io_fine demo_io" by code_simp
  show ?thesis
    unfolding Let_def once
    using local_repository_emptied [OF _ fine, of "put_entry ''report.md'' (File_node ''done'')
        \<lparr>tr_entries = [(''assets'', Dir_node)], tr_git = Git_dir False\<rparr>" "[]"]
    by (simp add: put_entry_def)
qed

end
