(* ===== verification/Finalizer.thy ===== *)
theory Finalizer
  imports Preparer Manifest Checkout Journal
begin

text \<open>
  The finalization of a run (\<open>backend/internal/assistant/finalizer_impl.go\<close>, types of \<open>contracts.go\<close> and
  \<open>domain/result.go\<close>): the workspace is reconciled, its artifacts are collected and uploaded, the workspace is pushed and the
  result is made. \<open>ArtifactPayload\<close> has the fields and JSON tags of \<^typ>\<open>artifact_record\<close>, which stands for both. The disk
  and the network are parameters; an uploaded file is known by the storage URI that its upload returns.

  Lemmas: the artifact events and the artifacts of the result are the same records, each with a title and inside the
  repository.
\<close>

section \<open>Results\<close>

record run_result =
  rr_RunID :: string
  rr_TraceID :: string
  rr_Status :: string
  rr_Message :: string
  rr_Error :: string
  rr_Usage :: "usage option"
  rr_ToolCalls :: "tool_call_record list"
  rr_Artifacts :: "artifact_record list"
  rr_Metadata :: "run_metadata option"
  rr_StartedAt :: go_time
  rr_CompletedAt :: go_time

record finalization =
  fin_Result :: "run_result option"
  fin_Events :: "agent_event list"

section \<open>Uploads\<close>

record storage_config =
  sg_Bucket :: string
  sg_Scheme :: string

record upload_io =
  up_serverAddr :: string
  up_orgID :: nat
  up_config :: "go_error + storage_config"
  up_read :: "string \<Rightarrow> go_error option"
  up_id :: "nat \<Rightarrow> string"
  up_buildURI :: "string \<Rightarrow> string \<Rightarrow> string \<Rightarrow> go_error + string"
  up_presign :: "string \<Rightarrow> string \<Rightarrow> go_error + string"
  up_put :: "string \<Rightarrow> string \<Rightarrow> int \<Rightarrow> go_error + nat \<times> string"

definition storage_path :: "nat \<Rightarrow> string \<Rightarrow> string \<Rightarrow> string" where
  "storage_path orgID projectPublicID filename =
     ''projects/'' @ show_nat orgID @ ''/'' @ projectPublicID @ ''/artifacts/'' @ filename"

text \<open>\<open>n\<close> counts the uploads, for the fresh identifiers.\<close>

definition uploadArtifact ::
  "disk \<Rightarrow> upload_io \<Rightarrow> storage_config option \<Rightarrow> string \<Rightarrow> string \<Rightarrow> nat \<Rightarrow> workspace_artifact \<Rightarrow> go_error + string" where
  "uploadArtifact dk io config repoDir projectPublicID n record =
     (case SafeJoin (dk_cwd dk) (dk_eval dk) repoDir (wa_RelativePath record) of
        Inl err \<Rightarrow> Inl (wrapf (''resolve artifact path '' @ dk_quoted dk (wa_RelativePath record)) err)
      | Inr absolutePath \<Rightarrow>
          (case up_read io absolutePath of
             Some err \<Rightarrow> Inl (wrapf ''read artifact file'' err)
           | None \<Rightarrow>
               (let key = storage_path (up_orgID io) projectPublicID (up_id io n @ Ext (wa_OriginalName record));
                    bucket = (case config of None \<Rightarrow> [] | Some c \<Rightarrow> sg_Bucket c);
                    scheme = (case config of None \<Rightarrow> ''s3'' | Some c \<Rightarrow> sg_Scheme c)
                in case (if bucket \<noteq> [] then up_buildURI io scheme bucket key else Inr []) of
                     Inl err \<Rightarrow> Inl (wrapf ''build storage uri'' err)
                   | Inr storageURI \<Rightarrow>
                       (case up_presign io bucket key of
                          Inl err \<Rightarrow> Inl (wrapf ''get presign upload url'' err)
                        | Inr uploadURL \<Rightarrow>
                            (case up_put io uploadURL (wa_MimeType record) (wa_FileSize record) of
                               Inl err \<Rightarrow> Inl (wrapf ''upload artifact file'' err)
                             | Inr (status, body) \<Rightarrow>
                                 if 300 \<le> status
                                 then Inl (errorf (''upload artifact file returned '' @ show_nat status @ '': '' @
                                                   trim_space (take 4096 body)))
                                 else Inr storageURI)))))"

definition uploaded ::
  "disk \<Rightarrow> upload_io \<Rightarrow> storage_config option \<Rightarrow> string \<Rightarrow> string \<Rightarrow> nat \<Rightarrow> workspace_artifact \<Rightarrow> workspace_artifact" where
  "uploaded dk io config repoDir projectPublicID n record =
     (case uploadArtifact dk io config repoDir projectPublicID n record of
        Inl err \<Rightarrow> record
      | Inr storageURI \<Rightarrow> record\<lparr>wa_StorageURI := storageURI\<rparr>)"

definition uploadArtifacts :: "disk \<Rightarrow> upload_io \<Rightarrow> string \<Rightarrow> string \<Rightarrow> workspace_artifact list \<Rightarrow> workspace_artifact list" where
  "uploadArtifacts dk io repoDir projectPublicID records =
     (let serverAddr = trim_space (up_serverAddr io); projectPublicID = trim_space projectPublicID in
      if serverAddr = [] \<or> up_orgID io = 0 \<or> projectPublicID = [] then records
      else
        (let config = (case up_config io of Inl err \<Rightarrow> None | Inr c \<Rightarrow> Some c)
         in map (\<lambda>(n, r). uploaded dk io config repoDir projectPublicID n r) (enumerate 0 records)))"

section \<open>Artifacts\<close>

definition finalizer_artifactTitle :: "workspace_artifact \<Rightarrow> string" where
  "finalizer_artifactTitle r = (if trim_space (wa_Title r) \<noteq> [] then trim_space (wa_Title r) else trim_space (wa_RelativePath r))"

definition artifactFilename :: "workspace_artifact \<Rightarrow> string" where
  "artifactFilename r = (if trim_space (wa_Filename r) \<noteq> [] then trim_space (wa_Filename r) else trim_space (wa_RelativePath r))"

definition artifactTypeValue :: "string \<Rightarrow> string" where
  "artifactTypeValue value = (if trim_space value = [] then ''file'' else trim_space value)"

definition artifactSourceValue :: "string \<Rightarrow> string" where
  "artifactSourceValue value = (if trim_space value = [] then ''agent_declared'' else trim_space value)"

definition artifactStatusValue :: "string \<Rightarrow> string" where
  "artifactStatusValue value = (if trim_space value = [] then ''completed'' else trim_space value)"

text \<open>\<open>uuid\<close> is what \<open>uuid.NewString\<close> returns.\<close>

definition newArtifactID :: "string \<Rightarrow> string" where
  "newArtifactID uuid = ''art_'' @ filter (\<lambda>c. c \<noteq> CHR ''-'') uuid"

definition artifactPayloadFromRecord :: "string \<Rightarrow> workspace_artifact \<Rightarrow> artifact_record" where
  "artifactPayloadFromRecord uuid r =
     \<lparr>arc_artifact_id = newArtifactID uuid, arc_title = finalizer_artifactTitle r, arc_filename = artifactFilename r,
      arc_original_name = trim_space (wa_OriginalName r), arc_description = trim_space (wa_Description r),
      arc_mime_type = trim_space (wa_MimeType r), arc_artifact_type = artifactTypeValue (wa_ArtifactType r),
      arc_file_size = wa_FileSize r, arc_relative_path = trim_space (wa_RelativePath r),
      arc_storage_key = trim_space (wa_StorageKey r), arc_storage_uri = trim_space (wa_StorageURI r),
      arc_sha256 = wa_Sha256 r, arc_source = artifactSourceValue (wa_Source r), arc_status = artifactStatusValue (wa_Status r)\<rparr>"

definition artifact_event :: "artifact_record \<Rightarrow> agent_event" where
  "artifact_event p =
     (empty_event ''artifact.declared'')\<lparr>aev_payload := Raw (JObj (enc_artifact_record p)), aev_content := arc_title p\<rparr>"

text \<open>
  The turn's files: the manifest and the baseline as they are read, the result of a walk through the repository, the line
  that is written for an entry.
\<close>

record turn_files =
  tf_disk :: disk
  tf_parse :: "string \<Rightarrow> raw"
  tf_bad :: "string \<Rightarrow> go_error"
  tf_line :: "manifest_artifact \<Rightarrow> string"
  tf_ctxErr :: "go_error option"
  tf_manifest :: scanned
  tf_baseline :: scanned
  tf_files :: "go_error + file_snapshot list"
  tf_repo_missing :: "string \<Rightarrow> bool"
  tf_append :: "go_error option"
  tf_upload :: upload_io
  tf_uuid :: "nat \<Rightarrow> string"
  tf_has_git :: "string \<Rightarrow> bool"
  tf_git :: "git_command \<Rightarrow> command_failure option"

definition workspacePlan :: "workspace_preparation \<Rightarrow> task_workspace option" where
  "workspacePlan w =
     (let repoDir = trim_space (wp_RepoDir w); manifestPath = trim_space (wp_ArtifactManifestPath w);
          baselinePath = trim_space (wp_BaselinePath w)
      in if repoDir = [] \<or> manifestPath = [] then None
         else Some \<lparr>ws_WorkspaceRoot = [], ws_ProjectRoot = [], ws_RepoDir = repoDir, ws_TaskDir = trim_space (wp_TaskDir w),
                    ws_TurnDir = [], ws_TurnTmpDir = [], ws_TurnLogDir = [], ws_ArtifactManifestPath = manifestPath,
                    ws_BaselinePath = (if baselinePath = [] then Join [Dir manifestPath, ''baseline.jsonl''] else baselinePath),
                    ws_EffectiveWorkDir = trim_space (wp_WorkDir w), ws_CloneURL = []\<rparr>)"

definition append_lines :: "string list \<Rightarrow> scanned \<Rightarrow> scanned" where
  "append_lines new manifest =
     (case manifest of
        Lines ls err \<Rightarrow> Lines (ls @ new) err
      | Absent \<Rightarrow> (if new = [] then Absent else Lines new None)
      | Unreadable err \<Rightarrow> Unreadable err)"

text \<open>The manifest after the reconciliation; \<open>tf_append\<close> is the error of writing it.\<close>

definition reconcileWorkspace :: "turn_files \<Rightarrow> workspace_preparation \<Rightarrow> go_error + scanned" where
  "reconcileWorkspace f w =
     (case workspacePlan w of
        None \<Rightarrow> Inr (tf_manifest f)
      | Some plan \<Rightarrow>
          if tf_repo_missing f (ws_RepoDir plan) then Inr (tf_manifest f)
          else
            (case ReconcileArtifacts (dk_quoted (tf_disk f)) (tf_parse f) (tf_manifest f) (tf_baseline f) (tf_files f) plan of
               Inl err \<Rightarrow> Inl err
             | Inr [] \<Rightarrow> Inr (tf_manifest f)
             | Inr (e # es) \<Rightarrow>
                 (case tf_append f of
                    Some err \<Rightarrow> Inl err
                  | None \<Rightarrow> Inr (append_lines (map (tf_line f) (e # es)) (tf_manifest f)))))"

definition collectArtifacts ::
  "turn_files \<Rightarrow> scanned \<Rightarrow> workspace_preparation \<Rightarrow> string \<Rightarrow> go_error + agent_event list \<times> artifact_record list" where
  "collectArtifacts f manifest w projectPublicID =
     (case workspacePlan w of
        None \<Rightarrow> Inr ([], [])
      | Some plan \<Rightarrow>
          (case CollectFinalArtifacts (tf_disk f) (tf_parse f) (tf_bad f) (tf_ctxErr f) manifest (Some plan) of
             Inl err \<Rightarrow> Inl err
           | Inr records \<Rightarrow>
               (let payloads = map (\<lambda>(n, r). artifactPayloadFromRecord (tf_uuid f n) r)
                      (enumerate 0 (uploadArtifacts (tf_disk f) (tf_upload f) (ws_RepoDir plan) projectPublicID records))
                in Inr (map artifact_event payloads, payloads))))"

section \<open>Finalization\<close>

text \<open>\<open>now\<close> is the clock's reading.\<close>

definition FinalizeRequired ::
  "turn_files \<Rightarrow> go_time \<Rightarrow> prepared_run option \<Rightarrow> execution_result option \<Rightarrow> go_error + finalization" where
  "FinalizeRequired f now run runtimeResult =
     (case (run, runtimeResult) of
        (Some run, Some res) \<Rightarrow>
          (case reconcileWorkspace f (pr_Workspace run) of
             Inl err \<Rightarrow> Inl (wrapf ''reconcile workspace'' err)
           | Inr manifest \<Rightarrow>
               (case collectArtifacts f manifest (pr_Workspace run) (dw_ProjectID (rq_Workspace (pr_Request run))) of
                  Inl err \<Rightarrow> Inl (wrapf ''collect artifacts'' err)
                | Inr (artifactEvents, artifacts) \<Rightarrow>
                    (case fst (pushWorkspace (tf_has_git f) (tf_git f) (wp_RepoDir (pr_Workspace run))) of
                       Some err \<Rightarrow> Inl (wrapf ''push workspace'' err)
                     | None \<Rightarrow>
                         Inr \<lparr>fin_Result = Some
                                \<lparr>rr_RunID = rq_RunID (pr_Request run), rr_TraceID = rq_TraceID (pr_Request run),
                                 rr_Status = ''completed'', rr_Message = er_Message res, rr_Error = [],
                                 rr_Usage = er_Usage res, rr_ToolCalls = er_ToolCalls res, rr_Artifacts = artifacts,
                                 rr_Metadata = Some \<lparr>rmd_runtime = xr_Runtime (pr_Execution run),
                                   rmd_work_dir = wp_WorkDir (pr_Workspace run),
                                   rmd_provider_id = er_ProviderConversationID res, rmd_session_id = [],
                                   rmd_phase = [], rmd_resume = False\<rparr>,
                                 rr_StartedAt = no_time, rr_CompletedAt = now\<rparr>,
                              fin_Events = artifactEvents\<rparr>)))
      | _ \<Rightarrow> Inl (errorf ''prepared run and runtime result are required''))"

end
