(* ===== verification/Assistant.thy ===== *)
theory Assistant
  imports Finalizer Archive
begin

text \<open>
  The business entry point of an agent run (\<open>Service\<close> in \<open>backend/internal/assistant/service.go\<close>): run.started, then the
  preparer, the executor around a runtime, the finalizer, and one terminal event. The preparer and the finalizer are the
  ports of \<open>contracts.go\<close>, functions on a state \<open>'e\<close> of their own. The world of a run is its journal, the state of the sink
  that follows the journal, and the history of the events that were handed to that sink.

  Lemmas: whatever fails, one terminal event is handed on, it is the last, and it says what the caller is told; an event
  whose payload is no JSON makes the terminal event impossible.
\<close>

section \<open>The service\<close>

record 'e run_finalizer =
  rf_FinalizeRequired ::
    "prepared_run \<Rightarrow> execution_result \<Rightarrow> journal_snapshot \<Rightarrow> 'e \<Rightarrow> (go_error + finalization option) \<times> 'e"
  rf_PostRunBestEffort :: "prepared_run option \<Rightarrow> run_result \<Rightarrow> journal_snapshot \<Rightarrow> 'e \<Rightarrow> 'e"

record 'e assistant_service =
  as_preparer :: "(run_request \<Rightarrow> 'e \<Rightarrow> (go_error + prepared_run) \<times> 'e) option"
  as_executor :: "agent_tool registry option option"
  as_finalizer :: "'e run_finalizer option"
  as_journal :: "(run_request \<Rightarrow> run_journal option) option"

text \<open>The clock: one reading for each call of \<open>time.Now\<close>, those of the journal counted.\<close>

datatype reading = Named | Started | Execution_started | Execution_ended | Completed | Recorded nat

record ('n, 'e) run_world =
  rw_journal :: run_journal
  rw_next :: 'n
  rw_env :: 'e
  rw_sent :: "agent_event list"

text \<open>\<open>Record\<close> with the sink behind it.\<close>

definition journal_record :: "(reading \<Rightarrow> go_time) \<Rightarrow> 'n observer \<Rightarrow> ('n, 'e) run_world observer" where
  "journal_record clock sink event w =
     (case event of
        None \<Rightarrow> (None, w)
      | Some e \<Rightarrow>
          (let (e', j) = Record (clock (Recorded (length (rw_sent w)))) e (rw_journal w);
               (err, n) = sink (Some e') (rw_next w)
           in (err, w\<lparr>rw_journal := j, rw_next := n, rw_sent := rw_sent w @ [e']\<rparr>)))"

definition journalObserver :: "(reading \<Rightarrow> go_time) \<Rightarrow> 'n observer \<Rightarrow> ('n, 'e) run_world observer" where
  "journalObserver clock sink event w =
     (if (case event of
            None \<Rightarrow> False
          | Some e \<Rightarrow> aev_type e = ''execution.started'' \<or> aev_type e = ''execution.completed'' \<or>
              aev_type e = ''execution.failed'' \<or> aev_type e = ''execution.cancelled'')
      then (None, w) else journal_record clock sink event w)"

definition runStartedEvent :: "run_request \<Rightarrow> go_time \<Rightarrow> agent_event" where
  "runStartedEvent req startedAt =
     (empty_event ''run.started'')
       \<lparr>aev_run_id := rq_RunID req, aev_trace_id := rq_TraceID req, aev_created_at := startedAt, aev_content := rq_RunID req\<rparr>"

definition terminal_record :: "journal_event_record \<Rightarrow> terminal_event_record" where
  "terminal_record r =
     \<lparr>ter_seq = jr_Seq r, ter_last_seq = jr_LastSeq r, ter_type = jr_Type r, ter_timestamp = jr_Timestamp r,
      ter_payload = jr_Payload r\<rparr>"

definition terminal_payload_of :: "run_result \<Rightarrow> run_journal \<Rightarrow> terminal_payload" where
  "terminal_payload_of res j =
     \<lparr>tpl_status = rr_Status res, tpl_message = rr_Message res, tpl_error = rr_Error res, tpl_usage = rr_Usage res,
      tpl_tool_calls = rr_ToolCalls res, tpl_artifacts = rr_Artifacts res, tpl_started_at = tm_text (rr_StartedAt res),
      tpl_completed_at = tm_text (rr_CompletedAt res), tpl_metadata = rr_Metadata res,
      tpl_events = map terminal_record (js_Events (Snapshot j))\<rparr>"

text \<open>\<open>bad\<close> is the error of \<open>json.Marshal\<close> on a raw message that is not JSON.\<close>

definition newTerminalEvent :: "go_error \<Rightarrow> run_result option \<Rightarrow> string \<Rightarrow> run_journal \<Rightarrow> go_error + agent_event" where
  "newTerminalEvent bad res eventType j =
     (case res of
        None \<Rightarrow> Inl (errorf ''terminal result is required'')
      | Some res \<Rightarrow>
          (let tp = terminal_payload_of res j in
           if raws_ok_terminal_payload tp
           then Inr ((empty_event eventType)
                  \<lparr>aev_run_id := rr_RunID res, aev_trace_id := rr_TraceID res, aev_created_at := rr_CompletedAt res,
                   aev_content := rr_Message res, aev_payload := Raw (JObj (enc_terminal_payload tp))\<rparr>)
           else Inl (wrapf ''marshal terminal payload'' bad)))"

definition failed_result :: "run_request \<Rightarrow> string \<Rightarrow> go_error \<Rightarrow> run_journal \<Rightarrow> go_time \<Rightarrow> go_time \<Rightarrow> run_result" where
  "failed_result req phase runErr j startedAt now =
     \<lparr>rr_RunID = rq_RunID req, rr_TraceID = rq_TraceID req,
      rr_Status = (if cancelled_error runErr then ''cancelled'' else ''failed''),
      rr_Message = (if cancelled_error runErr then
        [CHR 0xE5, CHR 0xB7, CHR 0xB2, CHR 0xE5, CHR 0x8F, CHR 0x96, CHR 0xE6, CHR 0xB6, CHR 0x88] else []),
      rr_Error = ge_text runErr, rr_Usage = js_Usage (Snapshot j), rr_ToolCalls = js_ToolCalls (Snapshot j),
      rr_Artifacts = [],
      rr_Metadata = Some \<lparr>rmd_runtime = [], rmd_work_dir = [], rmd_provider_id = [], rmd_session_id = [],
        rmd_phase = phase, rmd_resume = False\<rparr>,
      rr_StartedAt = startedAt, rr_CompletedAt = now\<rparr>"

text \<open>A service is called with its clock, the sink behind the journal, its finalizer and \<open>bad\<close>.\<close>

definition finishError ::
  "(reading \<Rightarrow> go_time) \<Rightarrow> 'n observer \<Rightarrow> go_error \<Rightarrow> 'e run_finalizer \<Rightarrow> run_request \<Rightarrow> prepared_run option \<Rightarrow>
   string \<Rightarrow> go_error \<Rightarrow> go_time \<Rightarrow> ('n, 'e) run_world \<Rightarrow> (run_result option \<times> go_error option) \<times> ('n, 'e) run_world" where
  "finishError clock sink bad fin req prepared phase runErr startedAt w =
     (let j = rw_journal w;
          res = failed_result req phase runErr j startedAt (clock Completed);
          eventType = (if rr_Status res = ''cancelled'' then ''run.cancelled'' else ''run.failed'');
          (terminalErr, w) =
            (case newTerminalEvent bad (Some res) eventType j of
               Inl err \<Rightarrow> (Some err, w)
             | Inr termEvent \<Rightarrow> journal_record clock sink (Some termEvent) w);
          w = w\<lparr>rw_env := rf_PostRunBestEffort fin prepared res (Snapshot j) (rw_env w)\<rparr>
      in case terminalErr of
           Some err \<Rightarrow> ((Some res, Some (join_errors runErr (wrapf ''record terminal event'' err))), w)
         | None \<Rightarrow> ((Some res, Some runErr), w))"

fun record_events ::
  "(reading \<Rightarrow> go_time) \<Rightarrow> 'n observer \<Rightarrow> agent_event list \<Rightarrow> ('n, 'e) run_world \<Rightarrow> go_error option \<times> ('n, 'e) run_world" where
  "record_events clock sink [] w = (None, w)"
| "record_events clock sink (e # es) w =
     (case journal_record clock sink (Some e) w of
        (Some err, w) \<Rightarrow> (Some err, w)
      | (None, w) \<Rightarrow> record_events clock sink es w)"

text \<open>The steps after a finalization: artifact events, the terminal event, the best-effort work.\<close>

definition conclude ::
  "(reading \<Rightarrow> go_time) \<Rightarrow> 'n observer \<Rightarrow> go_error \<Rightarrow> 'e run_finalizer \<Rightarrow> run_request \<Rightarrow> prepared_run \<Rightarrow>
   finalization option \<Rightarrow> go_time \<Rightarrow> ('n, 'e) run_world \<Rightarrow> (run_result option \<times> go_error option) \<times> ('n, 'e) run_world" where
  "conclude clock sink bad fin req prepared finalized startedAt w =
     (let fail = finishError clock sink bad fin req (Some prepared) in
      case Option.bind finalized (\<lambda>f. map_option (\<lambda>r. (r, fin_Events f)) (fin_Result f)) of
        None \<Rightarrow> fail ''finalize'' (errorf ''finalizer returned an incomplete result'') startedAt w
      | Some (res, events) \<Rightarrow>
          (case record_events clock sink events w of
             (Some err, w) \<Rightarrow> fail ''artifact_publish'' (wrapf ''record artifact event'' err) startedAt w
           | (None, w) \<Rightarrow>
               (let res = res
                  \<lparr>rr_StartedAt := (if is_zero (rr_StartedAt res) then startedAt else rr_StartedAt res),
                   rr_CompletedAt := (if is_zero (rr_CompletedAt res) then clock Completed else rr_CompletedAt res)\<rparr>
                in case newTerminalEvent bad (Some res) ''run.completed'' (rw_journal w) of
                     Inl err \<Rightarrow> fail ''terminal_encode'' err startedAt w
                   | Inr termEvent \<Rightarrow>
                       (case journal_record clock sink (Some termEvent) w of
                          (Some err, w) \<Rightarrow> ((Some res, Some (wrapf ''record run.completed'' err)), w)
                        | (None, w) \<Rightarrow>
                            ((Some res, None),
                             w\<lparr>rw_env := rf_PostRunBestEffort fin (Some prepared) res (Snapshot (rw_journal w)) (rw_env w)\<rparr>)))))"

definition named_request :: "go_time \<Rightarrow> run_request \<Rightarrow> run_request" where
  "named_request now req =
     (let req = (if rq_RunID req = [] then req\<lparr>rq_RunID := ''run_'' @ show_int (tm_ns now)\<rparr> else req)
      in if di_Type (rq_Input req) = [] then req\<lparr>rq_Input := (rq_Input req)\<lparr>di_Type := ''message''\<rparr>\<rparr> else req)"

text \<open>The steps after run.started: execution and finalization of a prepared run, and the preparation before them.\<close>

definition execute_run ::
  "(reading \<Rightarrow> go_time) \<Rightarrow> (string \<Rightarrow> string) \<Rightarrow> 'n observer \<Rightarrow> go_error \<Rightarrow> 'e run_finalizer \<Rightarrow> agent_tool registry option \<Rightarrow>
   run_request \<Rightarrow> prepared_run \<Rightarrow> go_time \<Rightarrow> ('n, 'e) run_world \<Rightarrow>
   (run_result option \<times> go_error option) \<times> ('n, 'e) run_world" where
  "execute_run clock quoted sink bad fin executor req prepared startedAt w =
     (case Execute quoted (clock Execution_started) (clock Execution_ended) executor (journalObserver clock sink)
             (pr_Execution prepared) w of
        (Inl err, w) \<Rightarrow> finishError clock sink bad fin req (Some prepared) ''execute'' err startedAt w
      | (Inr runtimeResult, w) \<Rightarrow>
          (case rf_FinalizeRequired fin prepared runtimeResult (Snapshot (rw_journal w)) (rw_env w) of
             (Inl err, env) \<Rightarrow>
               finishError clock sink bad fin req (Some prepared) ''finalize'' err startedAt (w\<lparr>rw_env := env\<rparr>)
           | (Inr finalized, env) \<Rightarrow>
               conclude clock sink bad fin req prepared finalized startedAt (w\<lparr>rw_env := env\<rparr>)))"

definition Run ::
  "(reading \<Rightarrow> go_time) \<Rightarrow> (string \<Rightarrow> string) \<Rightarrow> 'n observer \<Rightarrow> go_error \<Rightarrow> 'e assistant_service option \<Rightarrow>
   run_request option \<Rightarrow> ('n, 'e) run_world \<Rightarrow> (run_result option \<times> go_error option) \<times> ('n, 'e) run_world" where
  "Run clock quoted sink bad service req w =
     (case service of
        None \<Rightarrow> ((None, Some (errorf ''assistant service is not initialized'')), w)
      | Some s \<Rightarrow>
          (case CloneRequest req of
             None \<Rightarrow> ((None, Some (errorf ''run request is required'')), w)
           | Some cloned \<Rightarrow>
               (case (as_preparer s, as_executor s, as_finalizer s, as_journal s) of
                  (Some prepare, Some executor, Some fin, Some newJournal) \<Rightarrow>
                    (let cloned = named_request (clock Named) cloned in
                     case newJournal cloned of
                       None \<Rightarrow> ((None, Some (errorf ''journal factory returned nil journal'')), w)
                     | Some j \<Rightarrow>
                         (let startedAt = clock Started in
                          case journal_record clock sink (Some (runStartedEvent cloned startedAt)) (w\<lparr>rw_journal := j\<rparr>) of
                            (Some err, w) \<Rightarrow> ((None, Some (wrapf ''record run.started'' err)), w)
                          | (None, w) \<Rightarrow>
                              (case prepare cloned (rw_env w) of
                                 (Inl err, env) \<Rightarrow>
                                   finishError clock sink bad fin cloned None ''prepare'' err startedAt (w\<lparr>rw_env := env\<rparr>)
                               | (Inr prepared, env) \<Rightarrow>
                                   execute_run clock quoted sink bad fin executor cloned prepared startedAt
                                     (w\<lparr>rw_env := env\<rparr>))))
                | _ \<Rightarrow> ((None, Some (errorf ''assistant service dependencies are incomplete'')), w))))"

section \<open>Payloads that are JSON\<close>

definition ordinary :: "agent_event \<Rightarrow> bool" where
  "ordinary e \<longleftrightarrow> \<not> isTerminalEvent (aev_type e) \<and> raw_ok (aev_payload e)"

definition journal_ok :: "run_journal \<Rightarrow> bool" where
  "journal_ok j \<longleftrightarrow> (\<forall>e \<in> set (jn_rawEvents j). raw_ok (aev_payload e)) \<and> (\<forall>r \<in> set (jn_toolRecords j). raw_ok (tcr_result r))"

lemma read_raw_ok [simp]: "raw_ok (read_raw vs)"
  by (cases vs) (simp_all add: read_raw_def)

lemma result_view_ok: "dec_result_view kvs = Some r \<Longrightarrow> raw_ok (tcr_result r)"
  by (auto simp: dec_result_view_def get_raw_read split: option.splits bind_splits)

lemma unmarshal_struct: "unmarshal (dec_struct d) raw = Some x \<Longrightarrow> (\<exists>kvs. d kvs = Some x)"
  by (auto simp: unmarshal_def dec_struct_def split: raw.splits json.splits)

lemma tool_records:
  "jn_toolRecords (recordToolResultLocked e j) =
     jn_toolRecords j @ (case unmarshal (dec_struct dec_result_view) (aev_payload e) of None \<Rightarrow> [] | Some r \<Rightarrow> [r])"
  "jn_toolRecords (recordUsageLocked e j) = jn_toolRecords j"
  "jn_toolRecords (snd (normalizeLocked now e j)) = jn_toolRecords j"
  by (simp_all add: recordToolResultLocked_def recordUsageLocked_def normalizeLocked_def Let_def split: option.split)

lemma observed_tools:
  "set (jn_toolRecords (observeLocked e j)) \<subseteq>
     set (jn_toolRecords j) \<union> set_option (unmarshal (dec_struct dec_result_view) (aev_payload e))"
proof (cases "unmarshal (dec_struct dec_result_view) (aev_payload e)")
  case (Some r)
  then show ?thesis using tool_records(1) [of e] tool_records(2) [of e] by (simp add: observeLocked_def Let_def subset_insertI)
qed (use tool_records in \<open>simp add: observeLocked_def Let_def\<close>)

lemma Record_ok:
  assumes "Record now e j = (e', j')" "raw_ok (aev_payload e)" "journal_ok j"
  shows "journal_ok j'"
proof -
  obtain e1 j1 where n: "normalizeLocked now e j = (e1, j1)" by fastforce
  then have j1: "jn_toolRecords j1 = jn_toolRecords j" using tool_records(3) [of now e j] by simp
  obtain j2 where j2: "j' = observeLocked e1 j2" "jn_toolRecords j2 = jn_toolRecords j"
    using assms(1) j1 by (auto simp: Record_def n Let_def split: if_splits)
  have "raw_ok (tcr_result r)" if "r \<in> set (jn_toolRecords j')" for r
    using that observed_tools [of e1 j2] j2 assms(3) by (auto simp: journal_ok_def dest!: unmarshal_struct result_view_ok)
  then show ?thesis using Record_maxSeq(3,4) [OF assms(1)] assms(2,3) by (auto simp: journal_ok_def)
qed

lemma archive_step_ok:
  "\<forall>r \<in> set (fst a). raw_ok (jr_Payload r) \<Longrightarrow> raw_ok (aev_payload e) \<Longrightarrow>
   \<forall>r \<in> set (fst (archive_step a e)). raw_ok (jr_Payload r)"
proof -
  assume ok: "\<forall>r \<in> set (fst a). raw_ok (jr_Payload r)" "raw_ok (aev_payload e)"
  obtain rs m where a: "a = (rs, m)" by fastforce
  have new: "\<forall>r \<in> set (rs @ [record_of e]). raw_ok (jr_Payload r)" using ok by (simp add: a record_of_def)
  have merged: "\<forall>r \<in> set (rs[i := joined]). raw_ok (jr_Payload r)" if "raw_ok (jr_Payload joined)" for i joined
    using ok(1) that set_update_subset_insert [of rs i joined] by (auto simp: a)
  show ?thesis using ok(1) new by (simp add: archive_step_def a Let_def split: option.split) (intro impI allI merged, simp)
qed

lemma archive_ok:
  "\<forall>e \<in> set es. raw_ok (aev_payload e) \<Longrightarrow> \<forall>r \<in> set (archiveEvents es). raw_ok (jr_Payload r)"
proof -
  assume "\<forall>e \<in> set es. raw_ok (aev_payload e)"
  then have "\<forall>r \<in> set (fst (archive_all es)). raw_ok (jr_Payload r)"
  proof (induction es rule: rev_induct)
    case (snoc e es)
    then show ?case using archive_step_ok [of "archive_all es" e] by (simp add: archive_all_snoc)
  qed (simp add: archive_all_def)
  then show ?thesis by (simp add: archiveEvents_def)
qed

lemma marshals:
  assumes "journal_ok j" "\<forall>t \<in> set (rr_ToolCalls res). raw_ok (tcr_result t)"
  shows "raws_ok_terminal_payload (terminal_payload_of res j)"
  using assms archive_ok [of "jn_rawEvents j"]
  by (simp add: raws_ok_terminal_payload_def terminal_payload_of_def raws_ok_tool_call_record_def
      raws_ok_terminal_event_record_def terminal_record_def Snapshot_def journal_ok_def)

section \<open>A run that goes on\<close>

text \<open>\<open>running sent w\<close>: after the events \<open>sent\<close> nothing terminal was handed on, and the journal can be encoded.\<close>

definition running :: "agent_event list \<Rightarrow> ('n, 'e) run_world \<Rightarrow> bool" where
  "running sent w \<longleftrightarrow> journal_ok (rw_journal w) \<and>
     (\<exists>mid. rw_sent w = sent @ mid \<and> (\<forall>e \<in> set mid. \<not> isTerminalEvent (aev_type e)))"

lemma journal_record_out:
  assumes "journal_record clock sink (Some e) w = (err, w')"
  obtains e' where "rw_sent w' = rw_sent w @ [e']" "aev_type e' = aev_type e" "aev_payload e' = aev_payload e"
    "raw_ok (aev_payload e) \<Longrightarrow> journal_ok (rw_journal w) \<Longrightarrow> journal_ok (rw_journal w')"
    "err = fst (sink (Some e') (rw_next w))"
  using assms Record_maxSeq(2,3) Record_ok
  by (auto simp: journal_record_def Let_def split: prod.splits)

lemma running_record:
  assumes "ordinary e" "running sent w"
  shows "running sent (snd (journal_record clock sink (Some e) w))"
proof -
  obtain err w' where r: "journal_record clock sink (Some e) w = (err, w')" by fastforce
  obtain e' where "rw_sent w' = rw_sent w @ [e']" "aev_type e' = aev_type e"
    "raw_ok (aev_payload e) \<Longrightarrow> journal_ok (rw_journal w) \<Longrightarrow> journal_ok (rw_journal w')"
    using journal_record_out [OF r] by blast
  with assms show ?thesis by (force simp: r running_def ordinary_def)
qed

interpretation ro: observer_invariant "journalObserver clock sink" "\<lambda>e. execution_event e \<or> ordinary e" "running sent"
  for clock sink sent
proof
  fix e and w :: "('a, 'b) run_world"
  show "running sent w \<Longrightarrow> running sent (snd (journalObserver clock sink None w))"
    by (simp add: journalObserver_def journal_record_def)
  assume "execution_event e \<or> ordinary e" and w: "running sent w"
  then show "running sent (snd (journalObserver clock sink (Some e) w))"
    using running_record [of e sent w clock sink] by (auto simp: journalObserver_def execution_event_def)
qed

lemma running_events:
  "\<forall>e \<in> set es. ordinary e \<Longrightarrow> running sent w \<Longrightarrow> running sent (snd (record_events clock sink es w))"
proof (induction es arbitrary: w)
  case (Cons e es)
  then have "running sent (snd (journal_record clock sink (Some e) w))" using running_record by auto
  with Cons show ?case by (auto split: prod.split option.split)
qed simp

lemma running_env [simp]: "running sent (w\<lparr>rw_env := env\<rparr>) = running sent w"
  by (simp add: running_def)

section \<open>A run that has ended\<close>

definition ended :: "agent_event list \<Rightarrow> (run_result option \<times> go_error option) \<times> ('n, 'e) run_world \<Rightarrow> bool" where
  "ended sent out \<longleftrightarrow> (\<exists>mid final res. rw_sent (snd out) = sent @ mid @ [final] \<and> fst (fst out) = Some res \<and>
     (\<forall>e \<in> set mid. \<not> isTerminalEvent (aev_type e)) \<and> isTerminalEvent (aev_type final) \<and>
     aev_type final = ''run.'' @ rr_Status res \<and> (\<exists>tp. aev_payload final = Raw (JObj (enc_terminal_payload tp)) \<and>
       tpl_status tp = rr_Status res \<and> tpl_message tp = rr_Message res \<and> tpl_error tp = rr_Error res))"

lemma terminal_eventD:
  assumes "newTerminalEvent bad (Some res) t j = Inr e"
  shows "aev_type e = t \<and> (\<exists>tp. aev_payload e = Raw (JObj (enc_terminal_payload tp)) \<and>
    tpl_status tp = rr_Status res \<and> tpl_message tp = rr_Message res \<and> tpl_error tp = rr_Error res)"
  using assms by (auto simp: newTerminalEvent_def Let_def terminal_payload_of_def empty_event_def split: if_splits intro!: exI)

lemma ended_record:
  assumes "newTerminalEvent bad (Some res) t (rw_journal w) = Inr e" "isTerminalEvent t" "t = ''run.'' @ rr_Status res"
    and "running sent w" "journal_record clock sink (Some e) w = (err, w')" "rw_sent w'' = rw_sent w'"
  shows "ended sent ((Some res, out), w'')"
proof -
  obtain e' where e': "rw_sent w' = rw_sent w @ [e']" "aev_type e' = aev_type e" "aev_payload e' = aev_payload e"
    by (rule journal_record_out [OF assms(5)])
  obtain mid where "rw_sent w = sent @ mid" "\<forall>e \<in> set mid. \<not> isTerminalEvent (aev_type e)"
    using assms(4) by (auto simp: running_def)
  with e' terminal_eventD [OF assms(1)] assms(2,3,6) show ?thesis
    unfolding ended_def by (intro exI [of _ mid] exI [of _ e'] exI [of _ res]) auto
qed

lemma finishError_ended:
  assumes "running sent w"
  shows "ended sent (finishError clock sink bad fin req prepared phase runErr startedAt w)"
proof -
  let ?res = "failed_result req phase runErr (rw_journal w) startedAt (clock Completed)"
  let ?t = "if rr_Status ?res = ''cancelled'' then ''run.cancelled'' else ''run.failed''"
  have "\<forall>t \<in> set (rr_ToolCalls ?res). raw_ok (tcr_result t)"
    using assms by (simp add: failed_result_def Snapshot_def running_def journal_ok_def)
  then have "raws_ok_terminal_payload (terminal_payload_of ?res (rw_journal w))"
    using assms marshals unfolding running_def by blast
  then obtain e where e: "newTerminalEvent bad (Some ?res) ?t (rw_journal w) = Inr e"
    by (simp add: newTerminalEvent_def Let_def)
  obtain err w' where r: "journal_record clock sink (Some e) w = (err, w')" by fastforce
  have t: "isTerminalEvent ?t" "?t = ''run.'' @ rr_Status ?res" by (auto simp: isTerminalEvent_def failed_result_def)
  show ?thesis
    unfolding finishError_def Let_def e sum.case r prod.case
    by (cases err) (auto intro: ended_record [OF e t assms r])
qed

lemma conclude_ended:
  assumes "running sent w"
    and fin: "\<And>f. finalized = Some f \<Longrightarrow> (\<forall>e \<in> set (fin_Events f). ordinary e) \<and> (\<forall>r \<in> set_option (fin_Result f). rr_Status r = ''completed'')"
  shows "ended sent (conclude clock sink bad fin req prepared finalized startedAt w)"
proof (cases "Option.bind finalized (\<lambda>f. map_option (\<lambda>r. (r, fin_Events f)) (fin_Result f))")
  case None
  then show ?thesis using finishError_ended [OF assms(1)] by (simp add: conclude_def)
next
  case (Some re)
  then obtain f res where f: "finalized = Some f" "fin_Result f = Some res" "re = (res, fin_Events f)"
    by (auto simp: bind_eq_Some_conv)
  have st: "rr_Status res = ''completed''" and ord: "\<forall>e \<in> set (fin_Events f). ordinary e" using fin [OF f(1)] f(2) by simp_all
  obtain err w1 where r1: "record_events clock sink (fin_Events f) w = (err, w1)" by fastforce
  have w1: "running sent w1" using running_events [OF ord assms(1), of clock sink] by (simp add: r1)
  define res' where "res' = res\<lparr>rr_StartedAt := (if is_zero (rr_StartedAt res) then startedAt else rr_StartedAt res),
      rr_CompletedAt := (if is_zero (rr_CompletedAt res) then clock Completed else rr_CompletedAt res)\<rparr>"
  show ?thesis
  proof (cases err)
    case None
    note c = conclude_def Some f(3) r1 None res'_def [symmetric] Let_def option.case prod.case sum.case
    show ?thesis
    proof (cases "newTerminalEvent bad (Some res') ''run.completed'' (rw_journal w1)")
      case (Inl e)
      then show ?thesis using finishError_ended [OF w1] by (simp only: c Inl)
    next
      case (Inr e)
      obtain err2 w2 where r2: "journal_record clock sink (Some e) w1 = (err2, w2)" by fastforce
      have "isTerminalEvent ''run.completed''" "''run.completed'' = ''run.'' @ rr_Status res'"
        by (simp_all add: isTerminalEvent_def st res'_def)
      note done' = ended_record [OF Inr this w1 r2]
      show ?thesis by (cases err2) (simp_all add: c Inr r2 done')
    qed
  qed (use finishError_ended [OF w1] Some f r1 in \<open>simp add: conclude_def Let_def\<close>)
qed

section \<open>Every run that starts ends once\<close>

definition complete_service :: "'e assistant_service \<Rightarrow> bool" where
  "complete_service s \<longleftrightarrow> as_preparer s \<noteq> None \<and> as_executor s \<noteq> None \<and> as_finalizer s \<noteq> None \<and>
     as_journal s = Some (\<lambda>r. Some (NewJournal (Some r)))"

text \<open>What the parts behind the service may emit: the runtimes of the registry and the finalizer no terminal event and no
  payload that is not JSON; a finalizer's result is a completed one.\<close>

definition well_behaved :: "'e assistant_service \<Rightarrow> bool" where
  "well_behaved s \<longleftrightarrow>
     (\<forall>r kind quoted rt request e. as_executor s = Some (Some r) \<longrightarrow> Resolve quoted r kind = Inr rt \<longrightarrow> emits (rt request) e \<longrightarrow>
        ordinary e) \<and>
     (\<forall>fin p res snap env f. as_finalizer s = Some fin \<longrightarrow> fst (rf_FinalizeRequired fin p res snap env) = Inr (Some f) \<longrightarrow>
        (\<forall>e \<in> set (fin_Events f). ordinary e) \<and> (\<forall>r \<in> set_option (fin_Result f). rr_Status r = ''completed''))"

lemma Execute_running:
  assumes "\<And>r kind rt e. executor = Some r \<Longrightarrow> Resolve quoted r kind = Inr rt \<Longrightarrow> emits (rt request) e \<Longrightarrow> ordinary e"
    and "running sent w"
  shows "running sent (snd (Execute quoted t1 t2 executor (journalObserver clock sink) request w))"
proof (cases executor)
  case (Some r)
  then show ?thesis using assms by (auto intro!: ro.inv_Execute)
qed (use assms(2) in \<open>simp add: Execute_def\<close>)

lemma finalizer_ordinary:
  "well_behaved s \<Longrightarrow> as_finalizer s = Some fin \<Longrightarrow> rf_FinalizeRequired fin p res snap env = (Inr (Some f), env') \<Longrightarrow>
   (\<forall>e \<in> set (fin_Events f). ordinary e) \<and> (\<forall>r \<in> set_option (fin_Result f). rr_Status r = ''completed'')"
  unfolding well_behaved_def by (metis fst_conv)

lemma execute_run_ended:
  assumes "well_behaved s" "as_executor s = Some executor" "as_finalizer s = Some fin" "running sent w"
  shows "ended sent (execute_run clock quoted sink bad fin executor req prepared startedAt w)"
proof -
  let ?run = "Execute quoted (clock Execution_started) (clock Execution_ended) executor (journalObserver clock sink) (pr_Execution prepared) w"
  obtain y w2 where ex: "?run = (y, w2)" by fastforce
  have "running sent (snd ?run)"
    by (rule Execute_running) (use assms in \<open>auto simp: well_behaved_def\<close>)
  then have w2: "running sent w2" by (simp add: ex)
  show ?thesis
  proof (cases y)
    case (Inl e)
    then show ?thesis using finishError_ended [OF w2] by (simp add: execute_run_def ex)
  next
    case (Inr res)
    obtain z env where f: "rf_FinalizeRequired fin prepared res (Snapshot (rw_journal w2)) (rw_env w2) = (z, env)" by fastforce
    note w3 = running_env [THEN iffD2, OF w2, of env]
    show ?thesis
    proof (cases z)
      case (Inl e)
      then show ?thesis using finishError_ended [OF w3] by (simp add: execute_run_def ex Inr f)
    next
      case (Inr finalized)
      have "ended sent (conclude clock sink bad fin req prepared finalized startedAt (w2\<lparr>rw_env := env\<rparr>))"
        by (rule conclude_ended [OF w3]) (use finalizer_ordinary [OF assms(1,3)] f Inr in blast)
      then show ?thesis by (simp add: execute_run_def ex \<open>y = Inr res\<close> f Inr)
    qed
  qed
qed

lemma journal_ok_new [simp]: "journal_ok (NewJournal req)"
  by (simp add: journal_ok_def NewJournal_def)

lemma started_running:
  assumes "journal_record clock sink (Some (runStartedEvent req t)) (w\<lparr>rw_journal := NewJournal r\<rparr>) = (err, w')"
  obtains started where "aev_type started = ''run.started''" "err = fst (sink (Some started) (rw_next w))"
    "running (rw_sent w @ [started]) w'"
proof (rule journal_record_out [OF assms])
  fix e' assume e': "rw_sent w' = rw_sent (w\<lparr>rw_journal := NewJournal r\<rparr>) @ [e']" "aev_type e' = aev_type (runStartedEvent req t)"
    "raw_ok (aev_payload (runStartedEvent req t)) \<Longrightarrow> journal_ok (rw_journal (w\<lparr>rw_journal := NewJournal r\<rparr>)) \<Longrightarrow> journal_ok (rw_journal w')"
    "err = fst (sink (Some e') (rw_next (w\<lparr>rw_journal := NewJournal r\<rparr>)))"
  show thesis
    by (rule that [of e']) (use e' in \<open>simp_all add: runStartedEvent_def empty_event_def running_def\<close>)
qed

text \<open>C4: A run whose run.started was accepted ends in exactly one terminal event. Whatever fails afterwards - preparation,
  execution, finalization, the sink refusing an event - the events handed on are run.started, events that are not terminal,
  and last one terminal event, whose type and payload carry the status, message and error of the result that the caller
  gets.\<close>

theorem run_ends_once:
  assumes "complete_service s" "well_behaved s"
    and "\<And>e. aev_type e = ''run.started'' \<Longrightarrow> fst (sink (Some e) (rw_next w)) = None"
  shows "\<exists>started. aev_type started = ''run.started'' \<and>
    ended (rw_sent w @ [started]) (Run clock quoted sink bad (Some s) (Some req) w)"
proof -
  obtain prepare executor fin where s: "as_preparer s = Some prepare" "as_executor s = Some executor" "as_finalizer s = Some fin"
    "as_journal s = Some (\<lambda>r. Some (NewJournal (Some r)))"
    using assms(1) by (auto simp: complete_service_def)
  let ?req = "named_request (clock Named) req"
  obtain err w1 where r: "journal_record clock sink (Some (runStartedEvent ?req (clock Started))) (w\<lparr>rw_journal := NewJournal (Some ?req)\<rparr>) = (err, w1)"
    by fastforce
  obtain started where st: "aev_type started = ''run.started''" "err = fst (sink (Some started) (rw_next w))"
    "running (rw_sent w @ [started]) w1"
    by (rule started_running [OF r])
  have "err = None" using st(1,2) assms(3) by simp
  have "ended (rw_sent w @ [started]) (Run clock quoted sink bad (Some s) (Some req) w)"
    using st(3) by (auto simp: Run_def s r \<open>err = None\<close> Let_def split: prod.split sum.split
        intro!: finishError_ended execute_run_ended [OF assms(2) s(2,3)])
  then show ?thesis using st(1) by blast
qed

section \<open>The service that the worker builds\<close>

text \<open>\<open>NewService\<close> on the preparer, the finalizer and the journal of this package; the environment is the model store.\<close>

definition NewService ::
  "host \<Rightarrow> preparer \<Rightarrow> turn_files \<Rightarrow> go_time \<Rightarrow> agent_tool registry option \<Rightarrow> model_store option assistant_service" where
  "NewService h p f now executor =
     \<lparr>as_preparer = Some (\<lambda>r store. case Prepare h p (Some r) store of (x, store', downloads) \<Rightarrow> (x, store')),
      as_executor = Some executor,
      as_finalizer = Some
        \<lparr>rf_FinalizeRequired = (\<lambda>run res snap env. (map_sum id Some (FinalizeRequired f now (Some run) (Some res)), env)),
         rf_PostRunBestEffort = (\<lambda>run res snap env. env)\<rparr>,
      as_journal = Some (\<lambda>r. Some (NewJournal (Some r)))\<rparr>"

text \<open>What is declared to the user is what is archived with the run.\<close>

lemma finalized:
  assumes "FinalizeRequired f now (Some run) (Some res) = Inr fin"
  obtains result where "fin_Result fin = Some result" "rr_Status result = ''completed''"
    "fin_Events fin = map artifact_event (rr_Artifacts result)" "rr_Message result = er_Message res"
proof -
  obtain manifest events artifacts where c:
    "collectArtifacts f manifest (pr_Workspace run) (dw_ProjectID (rq_Workspace (pr_Request run))) = Inr (events, artifacts)"
    "fin_Events fin = events" "map_option rr_Artifacts (fin_Result fin) = Some artifacts"
    "map_option rr_Status (fin_Result fin) = Some ''completed''" "map_option rr_Message (fin_Result fin) = Some (er_Message res)"
    using assms by (auto simp: FinalizeRequired_def split: sum.splits prod.splits option.splits)
  have "events = map artifact_event artifacts"
    using c(1) by (auto simp: collectArtifacts_def Let_def split: option.splits sum.splits)
  with c(2-) show thesis by (auto intro: that)
qed

lemma artifact_ordinary: "ordinary (artifact_event p)"
  by (simp add: artifact_event_def ordinary_def isTerminalEvent_def empty_event_def)

lemma NewService_complete: "complete_service (NewService h p f now executor)"
  by (simp add: complete_service_def NewService_def)

lemma NewService_well_behaved:
  assumes "\<And>r kind quoted rt request e. executor = Some r \<Longrightarrow> Resolve quoted r kind = Inr rt \<Longrightarrow> emits (rt request) e \<Longrightarrow> ordinary e"
  shows "well_behaved (NewService h p f now executor)"
proof -
  have "(\<forall>e \<in> set (fin_Events fin). ordinary e) \<and> (\<forall>r \<in> set_option (fin_Result fin). rr_Status r = ''completed'')"
    if "map_sum id Some (FinalizeRequired f now (Some run) (Some res)) = Inr (Some fin)" for run res fin
  proof -
    have "FinalizeRequired f now (Some run) (Some res) = Inr fin"
      using that by (cases "FinalizeRequired f now (Some run) (Some res)") simp_all
    then show ?thesis by (rule finalized) (auto simp: artifact_ordinary)
  qed
  with assms show ?thesis unfolding well_behaved_def NewService_def by auto
qed

definition demo_runtime :: "agent_tool execution_request \<Rightarrow> runtime_program" where
  "demo_runtime request = Emits (Some (empty_event ''message.delta''))
     (\<lambda>answer. case answer of
        Some err \<Rightarrow> Fails err
      | None \<Rightarrow> Returns \<lparr>er_Message = ''done'', er_Usage = None, er_ToolCalls = [], er_ProviderConversationID = []\<rparr>)"

definition demo_files :: turn_files where
  "demo_files =
     \<lparr>tf_disk = demo_disk, tf_parse = demo_line, tf_bad = (\<lambda>_. errorf ''bad''), tf_line = (\<lambda>_. []), tf_ctxErr = None,
      tf_manifest = Absent, tf_baseline = Absent, tf_files = Inr [], tf_repo_missing = (\<lambda>_. True), tf_append = None,
      tf_upload = \<lparr>up_serverAddr = [], up_orgID = 0, up_config = Inl (errorf ''none''), up_read = (\<lambda>_. None), up_id = (\<lambda>_. []),
        up_buildURI = (\<lambda>_ _ _. Inr []), up_presign = (\<lambda>_ _. Inr []), up_put = (\<lambda>_ _ _. Inr (200, []))\<rparr>,
      tf_uuid = (\<lambda>_. []), tf_has_git = (\<lambda>_. False), tf_git = (\<lambda>_. None)\<rparr>"

definition demo_service :: "model_store option assistant_service" where
  "demo_service = NewService demo_host demo_preparer demo_files no_time
     (Some (Register ''native'' (Some demo_runtime) NewRegistry))"

definition demo_world :: "(unit, model_store option) run_world" where
  "demo_world = \<lparr>rw_journal = NewJournal None, rw_next = (), rw_env = Some (NewModelStore []), rw_sent = []\<rparr>"

lemma demo_well_behaved: "well_behaved demo_service"
  unfolding demo_service_def
proof (rule NewService_well_behaved)
  fix r kind quoted rt request e
  assume "Some (Register ''native'' (Some demo_runtime) NewRegistry) = Some r" "Resolve quoted r kind = Inr rt" "emits (rt request) e"
  then show "ordinary e"
    by (auto simp: Register_def NewRegistry_def Resolve_def Let_def demo_runtime_def ordinary_def empty_event_def isTerminalEvent_def
        split: if_splits option.splits)
qed

lemma run_ends_once_witness:
  "\<exists>started. aev_type started = ''run.started'' \<and>
     ended [started] (Run (\<lambda>_. no_time) (\<lambda>s. s) (\<lambda>_ n. (None, n)) (errorf ''bad'') (Some demo_service)
       (Some (demo_run_request ''k1'')) demo_world)"
proof -
  have "complete_service demo_service" unfolding demo_service_def by (rule NewService_complete)
  then show ?thesis
    using run_ends_once [OF _ demo_well_behaved, of "\<lambda>_ n. (None, n)" demo_world] by (simp add: demo_world_def)
qed

section \<open>A payload that is no JSON\<close>

text \<open>An event in the journal that the archive takes over and that cannot be encoded; nothing terminal so far.\<close>

definition poisonous :: "agent_event \<Rightarrow> bool" where
  "poisonous e \<longleftrightarrow> \<not> raw_ok (aev_payload e) \<and> \<not> unarchived (aev_type e)"

definition poisoned :: "agent_event list \<Rightarrow> ('n, 'e) run_world \<Rightarrow> bool" where
  "poisoned sent w \<longleftrightarrow> (\<exists>e \<in> set (jn_rawEvents (rw_journal w)). poisonous e) \<and>
     (\<exists>mid. rw_sent w = sent @ mid \<and> (\<forall>e \<in> set mid. \<not> isTerminalEvent (aev_type e)))"

lemma dec_delta_bad: "\<not> raw_ok p \<Longrightarrow> dec_delta p = None"
  by (cases p) (simp_all add: dec_delta_def unmarshal_def)

lemma archive_step_bad:
  assumes "(\<exists>r \<in> set (fst a). \<not> raw_ok (jr_Payload r)) \<or> poisonous e"
  shows "\<exists>r \<in> set (fst (archive_step a e)). \<not> raw_ok (jr_Payload r)"
proof -
  obtain rs m where a: "a = (rs, m)" by fastforce
  show ?thesis
  proof (cases "poisonous e")
    case True
    then show ?thesis by (auto simp: archive_step_def a poisonous_def Let_def dec_delta_bad record_of_def)
  next
    case False
    then obtain j where j: "j < length rs" "\<not> raw_ok (jr_Payload (rs ! j))" using assms by (auto simp: a in_set_conv_nth)
    have "\<exists>r \<in> set (rs[i := x]). \<not> raw_ok (jr_Payload r)" if "dec_delta (jr_Payload (rs ! i)) = Some old" for i x old
    proof -
      have "i \<noteq> j" using that j(2) dec_delta_bad by auto
      then have "rs[i := x] ! j = rs ! j" by simp
      then show ?thesis using j by (metis length_list_update nth_mem)
    qed
    then show ?thesis using j by (auto simp: archive_step_def a Let_def split: option.split)
  qed
qed

lemma archive_bad: "\<exists>e \<in> set es. poisonous e \<Longrightarrow> \<exists>r \<in> set (archiveEvents es). \<not> raw_ok (jr_Payload r)"
proof -
  assume "\<exists>e \<in> set es. poisonous e"
  then have "\<exists>r \<in> set (fst (archive_all es)). \<not> raw_ok (jr_Payload r)"
  proof (induction es rule: rev_induct)
    case (snoc e es)
    then show ?case using archive_step_bad [of "archive_all es" e] by (auto simp: archive_all_snoc)
  qed simp
  then show ?thesis by (simp add: archiveEvents_def)
qed

lemma poisoned_no_terminal: "poisoned sent w \<Longrightarrow> \<exists>err. newTerminalEvent bad (Some res) t (rw_journal w) = Inl err"
  using archive_bad [of "jn_rawEvents (rw_journal w)"]
  by (auto simp: poisoned_def newTerminalEvent_def Let_def raws_ok_terminal_payload_def terminal_payload_of_def
      raws_ok_terminal_event_record_def terminal_record_def Snapshot_def)

lemma poisoned_record:
  assumes "\<not> isTerminalEvent (aev_type e)"
    and "poisoned sent w \<or> poisonous e \<and> (\<exists>mid. rw_sent w = sent @ mid \<and> (\<forall>e \<in> set mid. \<not> isTerminalEvent (aev_type e)))"
  shows "poisoned sent (snd (journal_record clock sink (Some e) w))"
proof -
  obtain e' j where r: "Record (clock (Recorded (length (rw_sent w)))) e (rw_journal w) = (e', j)" by fastforce
  have "jn_rawEvents j = jn_rawEvents (rw_journal w) @ [e']" "aev_type e' = aev_type e" "aev_payload e' = aev_payload e"
    using Record_maxSeq(2-4) [OF r] assms(1) by simp_all
  then show ?thesis using assms
    by (auto simp: journal_record_def r Let_def poisoned_def poisonous_def split: prod.split)
qed

interpretation po: observer_invariant "journalObserver clock sink" "\<lambda>e. \<not> isTerminalEvent (aev_type e)" "poisoned sent"
  for clock sink sent
proof
  fix e :: agent_event and w :: "('a, 'b) run_world"
  assume w: "poisoned sent w"
  show "poisoned sent (snd (journalObserver clock sink None w))"
    using w by (simp add: journalObserver_def journal_record_def)
  assume "\<not> isTerminalEvent (aev_type e)"
  then show "poisoned sent (snd (journalObserver clock sink (Some e) w))"
    using poisoned_record [of e sent w clock sink] w by (simp add: journalObserver_def)
qed

lemma poisoned_env [simp]: "poisoned sent (w\<lparr>rw_env := env\<rparr>) = poisoned sent w"
  by (simp add: poisoned_def)

lemma poisoned_events:
  "\<forall>e \<in> set es. \<not> isTerminalEvent (aev_type e) \<Longrightarrow> poisoned sent w \<Longrightarrow> poisoned sent (snd (record_events clock sink es w))"
proof (induction es arbitrary: w)
  case (Cons e es)
  then have "poisoned sent (snd (journal_record clock sink (Some e) w))" by (intro poisoned_record) simp_all
  with Cons show ?case by (auto split: prod.split option.split)
qed simp

lemma finishError_poisoned:
  assumes "poisoned sent w"
  shows "poisoned sent (snd (finishError clock sink bad fin req prepared phase runErr startedAt w))"
proof -
  let ?res = "failed_result req phase runErr (rw_journal w) startedAt (clock Completed)"
  obtain err where e: "newTerminalEvent bad (Some ?res)
      (if rr_Status ?res = ''cancelled'' then ''run.cancelled'' else ''run.failed'') (rw_journal w) = Inl err"
    using poisoned_no_terminal [OF assms] by blast
  show ?thesis unfolding finishError_def Let_def e by (simp add: assms)
qed

lemma conclude_poisoned:
  assumes "poisoned sent w" "\<And>f. finalized = Some f \<Longrightarrow> \<forall>e \<in> set (fin_Events f). \<not> isTerminalEvent (aev_type e)"
  shows "poisoned sent (snd (conclude clock sink bad fin req prepared finalized startedAt w))"
proof (cases "Option.bind finalized (\<lambda>f. map_option (\<lambda>r. (r, fin_Events f)) (fin_Result f))")
  case None
  then show ?thesis using finishError_poisoned [OF assms(1)] by (simp add: conclude_def)
next
  case (Some re)
  then obtain f res where f: "finalized = Some f" "fin_Result f = Some res" "re = (res, fin_Events f)"
    by (auto simp: bind_eq_Some_conv)
  obtain err w1 where r1: "record_events clock sink (fin_Events f) w = (err, w1)" by fastforce
  have w1: "poisoned sent w1" using poisoned_events [OF assms(2) [OF f(1)] assms(1), of clock sink] by (simp add: r1)
  note no = poisoned_no_terminal [OF w1, of bad _ "''run.completed''"]
  show ?thesis
  proof (cases err)
    case None
    obtain e where "newTerminalEvent bad (Some (res
        \<lparr>rr_StartedAt := (if is_zero (rr_StartedAt res) then startedAt else rr_StartedAt res),
         rr_CompletedAt := (if is_zero (rr_CompletedAt res) then clock Completed else rr_CompletedAt res)\<rparr>)) ''run.completed''
        (rw_journal w1) = Inl e"
      using no by blast
    then show ?thesis using finishError_poisoned [OF w1]
      by (simp only: conclude_def Some f(3) r1 None Let_def option.case prod.case sum.case)
  qed (use finishError_poisoned [OF w1] Some f r1 in \<open>simp add: conclude_def Let_def\<close>)
qed

text \<open>The observer drops the events of the executor, so an execution is its runtime's program.\<close>

lemma Execute_is_program:
  assumes "trim_space (xr_ExecutionID request) \<noteq> []" "Resolve quoted r (trim_space (xr_Runtime request)) = Inr rt"
  shows "Execute quoted t1 t2 (Some r) (journalObserver clock sink) request w = run_program (journalObserver clock sink) (rt request) w"
proof -
  obtain x w1 where "run_program (journalObserver clock sink) (rt request) w = (x, w1)" by fastforce
  then show ?thesis using assms by (cases x) (simp_all add: Execute_def Let_def journalObserver_def)
qed

lemma execute_run_poisoned:
  assumes "trim_space (xr_ExecutionID (pr_Execution prepared)) \<noteq> []"
    and "Resolve quoted r (trim_space (xr_Runtime (pr_Execution prepared))) = Inr rt"
    and p: "rt (pr_Execution prepared) = Emits (Some e) k" and e: "poisonous e" "\<not> isTerminalEvent (aev_type e)" "\<not> execution_event e"
    and k: "\<And>answer e'. emits (k answer) e' \<Longrightarrow> \<not> isTerminalEvent (aev_type e')"
    and fin: "\<And>res snap env f. fst (rf_FinalizeRequired fin prepared res snap env) = Inr (Some f) \<Longrightarrow>
      \<forall>e \<in> set (fin_Events f). \<not> isTerminalEvent (aev_type e)"
    and w: "rw_sent w = sent @ mid" "\<forall>e \<in> set mid. \<not> isTerminalEvent (aev_type e)"
  shows "poisoned sent (snd (execute_run clock quoted sink bad fin (Some r) req prepared startedAt w))"
proof -
  have run: "Execute quoted (clock Execution_started) (clock Execution_ended) (Some r) (journalObserver clock sink) (pr_Execution prepared) w =
      run_program (journalObserver clock sink) (Emits (Some e) k) w"
    using Execute_is_program [OF assms(1,2)] p by simp
  obtain x w2 where x: "run_program (journalObserver clock sink) (Emits (Some e) k) w = (x, w2)" by fastforce
  note run = run [unfolded x]
  have "poisoned sent (snd (journal_record clock sink (Some e) w))" using e w by (intro poisoned_record) auto
  moreover have "journalObserver clock sink (Some e) w = journal_record clock sink (Some e) w"
    using e(3) by (simp add: journalObserver_def execution_event_def)
  ultimately have "poisoned sent (snd (run_program (journalObserver clock sink) (Emits (Some e) k) w))"
    by (auto intro!: po.inv_program dest: k)
  then have w2: "poisoned sent w2" by (simp only: x snd_conv)
  show ?thesis
  proof (cases x)
    case (Inl err)
    then show ?thesis using finishError_poisoned [OF w2] by (simp add: execute_run_def run)
  next
    case (Inr res)
    obtain z env where f: "rf_FinalizeRequired fin prepared res (Snapshot (rw_journal w2)) (rw_env w2) = (z, env)" by fastforce
    note w3 = poisoned_env [THEN iffD2, OF w2, of env]
    show ?thesis
    proof (cases z)
      case (Inl err)
      then show ?thesis using finishError_poisoned [OF w3] by (simp add: execute_run_def run Inr f)
    next
      case (Inr finalized)
      have "poisoned sent (snd (conclude clock sink bad fin req prepared finalized startedAt (w2\<lparr>rw_env := env\<rparr>)))"
        by (rule conclude_poisoned [OF w3]) (use fin [of res "Snapshot (rw_journal w2)" "rw_env w2"] f Inr in auto)
      then show ?thesis by (simp add: execute_run_def run \<open>x = Inr res\<close> f Inr)
    qed
  qed
qed

text \<open>An event with a payload that is not JSON silences the end of a run: when the runtime of the prepared run first
  emits such an event, of a type that the archive keeps, the sink is handed no terminal event at all, neither run.completed
  nor run.failed, because the encoding of both carries the archive. The caller still gets an error.\<close>

theorem bad_payload_no_terminal:
  assumes s: "as_preparer s = Some (\<lambda>q env. (Inr prepared, env))" "as_executor s = Some (Some r)" "as_finalizer s = Some fin"
      "as_journal s = Some (\<lambda>q. Some (NewJournal (Some q)))"
    and rt: "trim_space (xr_ExecutionID (pr_Execution prepared)) \<noteq> []"
      "Resolve quoted r (trim_space (xr_Runtime (pr_Execution prepared))) = Inr rt" "rt (pr_Execution prepared) = Emits (Some e) k"
    and e: "poisonous e" "\<not> isTerminalEvent (aev_type e)" "\<not> execution_event e"
    and k: "\<And>answer e'. emits (k answer) e' \<Longrightarrow> \<not> isTerminalEvent (aev_type e')"
    and f: "\<And>res snap env f. fst (rf_FinalizeRequired fin prepared res snap env) = Inr (Some f) \<Longrightarrow>
      \<forall>e \<in> set (fin_Events f). \<not> isTerminalEvent (aev_type e)"
  shows "\<exists>mid. rw_sent (snd (Run clock quoted sink bad (Some s) (Some req) w)) = rw_sent w @ mid \<and>
    (\<forall>e \<in> set mid. \<not> isTerminalEvent (aev_type e))"
proof -
  let ?req = "named_request (clock Named) req"
  obtain err w1 where r1: "journal_record clock sink (Some (runStartedEvent ?req (clock Started))) (w\<lparr>rw_journal := NewJournal (Some ?req)\<rparr>) = (err, w1)"
    by fastforce
  obtain started where st: "aev_type started = ''run.started''" "running (rw_sent w @ [started]) w1"
    using started_running [OF r1] by metis
  obtain mid where mid: "rw_sent w1 = rw_sent w @ started # mid" "\<forall>e \<in> set mid. \<not> isTerminalEvent (aev_type e)"
    using st(2) by (auto simp: running_def)
  have nt: "\<forall>e \<in> set (started # mid). \<not> isTerminalEvent (aev_type e)" using mid(2) st(1) by (simp add: isTerminalEvent_def)
  show ?thesis
  proof (cases err)
    case None
    have "poisoned (rw_sent w) (snd (execute_run clock quoted sink bad fin (Some r) ?req prepared (clock Started) (w1\<lparr>rw_env := rw_env w1\<rparr>)))"
      by (rule execute_run_poisoned [OF rt e k f _ nt]) (use mid(1) in auto)
    then show ?thesis by (simp add: Run_def s r1 None Let_def poisoned_def)
  next
    case (Some x)
    then show ?thesis using mid(1) nt by (intro exI [of _ "started # mid"]) (simp add: Run_def s r1 Let_def)
  qed
qed

definition demo_execution :: "agent_tool execution_request" where
  "demo_execution = execution_of (demo_run_request ''k1'') [] [] (only_dir ''/w'')"

definition demo_prepared_run :: prepared_run where
  "demo_prepared_run = \<lparr>pr_Request = demo_run_request ''k1'', pr_Execution = demo_execution, pr_Workspace = only_dir ''/w''\<rparr>"

definition bad_event :: agent_event where
  "bad_event = (empty_event ''tool_call.started'')\<lparr>aev_payload := Raw_bad ''{''\<rparr>"

definition demo_bad_runtime :: "agent_tool execution_request \<Rightarrow> runtime_program" where
  "demo_bad_runtime request = Emits (Some bad_event) (\<lambda>_. Fails (errorf ''stopped''))"

definition demo_bad_service :: "unit assistant_service" where
  "demo_bad_service =
     \<lparr>as_preparer = Some (\<lambda>q env. (Inr demo_prepared_run, env)),
      as_executor = Some (Some (Register ''native'' (Some demo_bad_runtime) NewRegistry)),
      as_finalizer = Some \<lparr>rf_FinalizeRequired = (\<lambda>_ _ _ env. (Inr None, env)), rf_PostRunBestEffort = (\<lambda>_ _ _ env. env)\<rparr>,
      as_journal = Some (\<lambda>q. Some (NewJournal (Some q)))\<rparr>"

lemma bad_payload_no_terminal_witness:
  "\<exists>mid. rw_sent (snd (Run (\<lambda>_. no_time) (\<lambda>s. s) (\<lambda>_ n. (None, n)) (errorf ''bad'') (Some demo_bad_service)
       (Some (demo_run_request ''k1'')) \<lparr>rw_journal = NewJournal None, rw_next = (), rw_env = (), rw_sent = []\<rparr>)) = mid \<and>
     (\<forall>e \<in> set mid. \<not> isTerminalEvent (aev_type e))"
proof -
  have id: "xr_ExecutionID (pr_Execution demo_prepared_run) = ''run_1''" "xr_Runtime (pr_Execution demo_prepared_run) = ''native''"
    by code_simp+
  have n: "trim_space ''run_1'' \<noteq> []" "trim_space ''native'' = ''native''" "normalizeKind ''native'' = ''native''" by code_simp+
  have res: "Resolve (\<lambda>s. s) (Register ''native'' (Some demo_bad_runtime) NewRegistry)
      (trim_space (xr_Runtime (pr_Execution demo_prepared_run))) = Inr demo_bad_runtime"
    unfolding id n(2) by (rule Resolve_Register) (simp_all add: n)
  have bad: "poisonous bad_event" "\<not> isTerminalEvent (aev_type bad_event)" "\<not> execution_event bad_event"
    by (simp_all add: bad_event_def poisonous_def unarchived_def isTerminalEvent_def execution_event_def empty_event_def)
  let ?w = "\<lparr>rw_journal = NewJournal None, rw_next = (), rw_env = (), rw_sent = []\<rparr>"
  have "\<exists>mid. rw_sent (snd (Run (\<lambda>_. no_time) (\<lambda>s. s) (\<lambda>_ n. (None, n)) (errorf ''bad'') (Some demo_bad_service)
       (Some (demo_run_request ''k1'')) ?w)) = rw_sent ?w @ mid \<and> (\<forall>e \<in> set mid. \<not> isTerminalEvent (aev_type e))"
    by (rule bad_payload_no_terminal [OF _ _ _ _ _ res _ bad])
       (simp_all add: demo_bad_service_def demo_bad_runtime_def id n(1), simp_all)
  then show ?thesis by simp
qed

end
