(* ===== verification/Streaming.thy ===== *)
theory Streaming
  imports ServerRuns
begin

text \<open>
  The live stream of a session (\<open>StreamSessionEvents\<close> and its helpers in \<open>backend/internal/service/session_service.go\<close>,
  \<open>SubscribeFrom\<close> in \<open>backend/internal/infra/mq/nats.go\<close>). The handler of a delivered event is a function; the two
  subscriptions, their goroutines, the client and the return of the call are the steps of \<open>sse_step\<close>. What the bus
  delivers, on which lane and in which order, is left to the steps. A sink that refuses an event is only logged, so the
  events that were handed to it are what the state records.

  Lemmas: what a client is shown is a function of what was delivered; when the stream ends, and when it cannot; that a
  replay starts early enough for the run that is being executed.
\<close>

section \<open>Replay\<close>

record replay_state =
  rl_StreamStartSeq :: nat
  rl_StateStartSeq :: nat
  rl_MessageIDs :: "string list"

definition min_start :: "nat option \<Rightarrow> nat \<Rightarrow> nat" where
  "min_start seq acc = (case seq of None \<Rightarrow> acc | Some q \<Rightarrow> if 0 < q \<and> (acc = 0 \<or> q < acc) then q else acc)"

definition replay_step :: "replay_state \<Rightarrow> session_message \<Rightarrow> replay_state" where
  "replay_step state message =
     \<lparr>rl_StreamStartSeq = min_start (responseStreamStartSeq (sm_Metadata message)) (rl_StreamStartSeq state),
      rl_StateStartSeq = min_start (stateStartSeq (sm_Metadata message)) (rl_StateStartSeq state),
      rl_MessageIDs = rl_MessageIDs state @ [show_nat (sm_ID message)]\<rparr>"

definition getSessionReplayState :: "int \<Rightarrow> nat \<Rightarrow> store \<Rightarrow> replay_state" where
  "getSessionReplayState now sessionID st =
     foldl replay_step \<lparr>rl_StreamStartSeq = 0, rl_StateStartSeq = 0, rl_MessageIDs = []\<rparr>
       (GetRecentProcessingUserMessages sessionID (now - sessionProcessingWindow) st)"

text \<open>The sequence numbers from which the stream lane and the state lane are subscribed.\<close>

definition start_seqs :: "replay_state option \<Rightarrow> int \<times> int" where
  "start_seqs replay =
     (let stateStart = (case replay of
          None \<Rightarrow> 0
        | Some r \<Rightarrow> if 0 < rl_StateStartSeq r \<and> rl_StateStartSeq r \<le> 2 ^ 63 - 1 then int (rl_StateStartSeq r) else 0)
      in (if 0 < stateStart then stateStart else 0, stateStart))"

datatype delivery = New_only | From_sequence nat

text \<open>\<open>lastSeq\<close> is the last sequence of the topic's stream, if it has one and could be asked.\<close>

definition SubscribeFrom :: "int \<Rightarrow> nat option \<Rightarrow> delivery" where
  "SubscribeFrom startSeq lastSeq =
     (if startSeq \<le> 0 then New_only
      else if (case lastSeq of Some q \<Rightarrow> q + 1 < nat startSeq | None \<Rightarrow> False) then New_only
      else From_sequence (nat startSeq))"

definition runEventMatchesReplyIDs :: "run_event \<Rightarrow> string list \<Rightarrow> bool" where
  "runEventMatchesReplyIDs ev ids \<longleftrightarrow> ids \<noteq> [] \<and> (\<exists>i \<in> set (rb_reply_to (env_body ev)). i \<in> set ids)"

section \<open>One event\<close>

datatype lane = Stream_lane | State_lane

datatype subscription = Subscribing | Subscribed | Stopped

record sse =
  ss_seen :: "int list"
  ss_shown :: "session_event list"
  ss_delivered :: "run_event list"
  ss_done :: bool
  ss_failed :: bool
  ss_lanes :: "lane \<Rightarrow> subscription"
  ss_returned :: bool

definition new_sse :: sse where
  "new_sse = \<lparr>ss_seen = [], ss_shown = [], ss_delivered = [], ss_done = False, ss_failed = False,
     ss_lanes = (\<lambda>_. Subscribing), ss_returned = False\<rparr>"

definition mark :: "int \<Rightarrow> sse \<Rightarrow> bool \<times> sse" where
  "mark seq s = (if seq \<in> set (ss_seen s) then (False, s) else (True, s\<lparr>ss_seen := seq # ss_seen s\<rparr>))"

definition closing :: "string \<Rightarrow> bool" where
  "closing t \<longleftrightarrow> t = EventCompleted \<or> t = EventFailed \<or> t = EventCancelled"

definition emitEvent :: "(int \<Rightarrow> string) \<Rightarrow> replay_state option \<Rightarrow> run_event \<Rightarrow> sse \<Rightarrow> sse" where
  "emitEvent rfc3339 replay ev s =
     (if rb_seq (env_body ev) = 0 then s
      else if (case replay of Some r \<Rightarrow> \<not> runEventMatchesReplyIDs ev (rl_MessageIDs r) | None \<Rightarrow> False) then s
      else
        (case mark (rb_seq (env_body ev)) s of
           (False, s) \<Rightarrow> s
         | (True, s) \<Rightarrow>
             (case ProjectRunEvent rfc3339 ev of
                None \<Rightarrow> s
              | Some se \<Rightarrow>
                  s\<lparr>ss_shown := ss_shown s @ [se], ss_done := (ss_done s \<or> closing (sv_Type se))\<rparr>)))"

section \<open>The stream\<close>

text \<open>
  A subscription is made or fails; a failure of the stream lane cancels the context of both goroutines, one of the state
  lane is only logged. A subscribed lane delivers until it stops, which it may when its context is done. The call itself
  waits for \<open>innerCtx\<close>, which only a terminal event or the client ends, and then for the goroutines.
\<close>

inductive sse_step :: "(int \<Rightarrow> string) \<Rightarrow> replay_state option \<Rightarrow> sse \<Rightarrow> sse \<Rightarrow> bool" for rfc3339 replay where
  subscribe: "ss_lanes s l = Subscribing \<Longrightarrow> sse_step rfc3339 replay s (s\<lparr>ss_lanes := (ss_lanes s)(l := Subscribed)\<rparr>)"
| fail_stream: "ss_lanes s Stream_lane = Subscribing \<Longrightarrow>
    sse_step rfc3339 replay s (s\<lparr>ss_lanes := (ss_lanes s)(Stream_lane := Stopped), ss_failed := True\<rparr>)"
| fail_state: "ss_lanes s State_lane = Subscribing \<Longrightarrow>
    sse_step rfc3339 replay s (s\<lparr>ss_lanes := (ss_lanes s)(State_lane := Stopped)\<rparr>)"
| deliver: "ss_lanes s l = Subscribed \<Longrightarrow>
    sse_step rfc3339 replay s ((emitEvent rfc3339 replay ev s)\<lparr>ss_delivered := ss_delivered s @ [ev]\<rparr>)"
| stop: "ss_lanes s l = Subscribed \<Longrightarrow> ss_done s \<or> ss_failed s \<Longrightarrow>
    sse_step rfc3339 replay s (s\<lparr>ss_lanes := (ss_lanes s)(l := Stopped)\<rparr>)"
| client_leaves: "sse_step rfc3339 replay s (s\<lparr>ss_done := True\<rparr>)"
| call_returns: "ss_done s \<Longrightarrow> (\<And>l. ss_lanes s l = Stopped) \<Longrightarrow> sse_step rfc3339 replay s (s\<lparr>ss_returned := True\<rparr>)"

inductive sse_reachable :: "(int \<Rightarrow> string) \<Rightarrow> replay_state option \<Rightarrow> sse \<Rightarrow> bool" for rfc3339 replay where
  start: "sse_reachable rfc3339 replay new_sse"
| step: "sse_reachable rfc3339 replay s \<Longrightarrow> sse_step rfc3339 replay s s' \<Longrightarrow> sse_reachable rfc3339 replay s'"

section \<open>What is shown\<close>

definition relevant :: "replay_state option \<Rightarrow> run_event \<Rightarrow> bool" where
  "relevant replay ev \<longleftrightarrow> rb_seq (env_body ev) \<noteq> 0 \<and>
     (case replay of Some r \<Rightarrow> runEventMatchesReplyIDs ev (rl_MessageIDs r) | None \<Rightarrow> True)"

text \<open>The events that are the first of their number, in their order.\<close>

definition firsts :: "run_event list \<Rightarrow> run_event list" where
  "firsts evs = map (nth evs) (filter (\<lambda>i. \<forall>j < i. rb_seq (env_body (evs ! j)) \<noteq> rb_seq (env_body (evs ! i))) [0..<length evs])"

definition shown_of :: "(int \<Rightarrow> string) \<Rightarrow> replay_state option \<Rightarrow> run_event list \<Rightarrow> session_event list" where
  "shown_of rfc3339 replay evs = List.map_filter (ProjectRunEvent rfc3339) (firsts (filter (relevant replay) evs))"

lemma firsts_snoc:
  "firsts (evs @ [e]) = firsts evs @ (if rb_seq (env_body e) \<in> (\<lambda>e. rb_seq (env_body e)) ` set evs then [] else [e])"
proof -
  let ?q = "\<lambda>e. rb_seq (env_body e)" and ?n = "length evs"
  have "filter (\<lambda>i. \<forall>j < i. ?q ((evs @ [e]) ! j) \<noteq> ?q ((evs @ [e]) ! i)) [0..<?n] =
      filter (\<lambda>i. \<forall>j < i. ?q (evs ! j) \<noteq> ?q (evs ! i)) [0..<?n]"
    by (rule filter_cong) (auto simp: nth_append)
  moreover have "(\<forall>j < ?n. ?q ((evs @ [e]) ! j) \<noteq> ?q ((evs @ [e]) ! ?n)) \<longleftrightarrow> ?q e \<notin> ?q ` set evs"
    by (auto simp: nth_append image_iff all_set_conv_all_nth)
  ultimately show ?thesis by (simp add: firsts_def nth_append)
qed

lemma firsts_seqs: "(\<lambda>e. rb_seq (env_body e)) ` set (firsts evs) = (\<lambda>e. rb_seq (env_body e)) ` set evs \<and>
    distinct (map (\<lambda>e. rb_seq (env_body e)) (firsts evs))"
proof (induction evs rule: rev_induct)
  case (snoc e evs)
  then show ?case by (auto simp: firsts_snoc image_iff)
qed (simp add: firsts_def)

lemma emit_cases:
  "emitEvent rfc3339 replay ev s =
     (if relevant replay ev \<and> rb_seq (env_body ev) \<notin> set (ss_seen s)
      then (case ProjectRunEvent rfc3339 ev of
              None \<Rightarrow> s\<lparr>ss_seen := rb_seq (env_body ev) # ss_seen s\<rparr>
            | Some se \<Rightarrow> s\<lparr>ss_seen := rb_seq (env_body ev) # ss_seen s, ss_shown := ss_shown s @ [se],
                ss_done := (ss_done s \<or> closing (sv_Type se))\<rparr>)
      else s)"
  by (auto simp: emitEvent_def relevant_def mark_def split: option.splits)

definition sse_inv :: "(int \<Rightarrow> string) \<Rightarrow> replay_state option \<Rightarrow> sse \<Rightarrow> bool" where
  "sse_inv rfc3339 replay s \<longleftrightarrow>
     ss_shown s = shown_of rfc3339 replay (ss_delivered s) \<and>
     set (ss_seen s) = (\<lambda>e. rb_seq (env_body e)) ` set (filter (relevant replay) (ss_delivered s)) \<and>
     ((\<exists>se \<in> set (ss_shown s). closing (sv_Type se)) \<longrightarrow> ss_done s)"

lemma sse_inv_deliver:
  assumes "sse_inv rfc3339 replay s"
  shows "sse_inv rfc3339 replay ((emitEvent rfc3339 replay ev s)\<lparr>ss_delivered := ss_delivered s @ [ev]\<rparr>)"
proof (cases "relevant replay ev \<and> rb_seq (env_body ev) \<notin> set (ss_seen s)")
  case True
  then have "shown_of rfc3339 replay (ss_delivered s @ [ev]) =
      ss_shown s @ (case ProjectRunEvent rfc3339 ev of None \<Rightarrow> [] | Some se \<Rightarrow> [se])"
    using assms by (simp add: sse_inv_def shown_of_def firsts_snoc List.map_filter_def split: option.split)
  then show ?thesis using True assms by (auto simp: emit_cases sse_inv_def split: option.split)
next
  case False
  then have "shown_of rfc3339 replay (ss_delivered s @ [ev]) = ss_shown s"
    using assms by (auto simp: sse_inv_def shown_of_def firsts_snoc)
  then show ?thesis using False assms by (auto simp: emit_cases sse_inv_def)
qed

lemma sse_reachable_inv: "sse_reachable rfc3339 replay s \<Longrightarrow> sse_inv rfc3339 replay s"
proof (induction rule: sse_reachable.induct)
  case start
  then show ?case by (simp add: sse_inv_def new_sse_def shown_of_def firsts_def List.map_filter_def)
next
  case (step s s')
  from step(2) show ?case
  proof cases
    case (deliver l ev)
    then show ?thesis using sse_inv_deliver [OF step.IH] by simp
  qed (use step.IH in \<open>auto simp: sse_inv_def\<close>)
qed

text \<open>C11: A client is shown exactly the events that were delivered for it, once each and in the order of their delivery over
  both lanes: the projection of the first delivered event of every sequence number that is not zero and, in a replay, that
  answers a message being processed. So an event of another run that repeats a number is never shown.\<close>

theorem shown_once_in_order:
  assumes "sse_reachable rfc3339 replay s"
  shows "ss_shown s = shown_of rfc3339 replay (ss_delivered s) \<and> distinct (map sv_Sequence (ss_shown s))"
proof -
  have sv: "sv_Sequence se = rb_seq (env_body e)" if "ProjectRunEvent rfc3339 e = Some se" for e se
    using that by (auto simp: ProjectRunEvent_def)
  have "distinct (map sv_Sequence (List.map_filter (ProjectRunEvent rfc3339) es)) \<and>
      set (map sv_Sequence (List.map_filter (ProjectRunEvent rfc3339) es)) \<subseteq> (\<lambda>e. rb_seq (env_body e)) ` set es"
    if "distinct (map (\<lambda>e. rb_seq (env_body e)) es)" for es
    using that by (induction es) (auto simp: List.map_filter_simps sv split: option.split)
  then show ?thesis
    using sse_reachable_inv [OF assms] firsts_seqs by (simp add: sse_inv_def shown_of_def)
qed

section \<open>How a stream ends\<close>

definition lanes_left :: "sse \<Rightarrow> lane set" where
  "lanes_left s = {l. ss_lanes s l \<noteq> Stopped}"

lemma stop_lane:
  assumes "ss_done s"
  shows "\<exists>s'. (sse_step rfc3339 replay)\<^sup>*\<^sup>* s s' \<and> ss_lanes s' = (ss_lanes s)(l := Stopped) \<and> ss_done s'"
proof (cases "ss_lanes s l")
  case Subscribing
  let ?s1 = "s\<lparr>ss_lanes := (ss_lanes s)(l := Subscribed)\<rparr>"
  have "sse_step rfc3339 replay s ?s1" using sse_step.subscribe [OF Subscribing] .
  moreover have "sse_step rfc3339 replay ?s1 (?s1\<lparr>ss_lanes := (ss_lanes ?s1)(l := Stopped)\<rparr>)"
    by (rule sse_step.stop) (use assms in simp_all)
  ultimately have "(sse_step rfc3339 replay)\<^sup>*\<^sup>* s (?s1\<lparr>ss_lanes := (ss_lanes ?s1)(l := Stopped)\<rparr>)" by auto
  then show ?thesis
    using assms by (intro exI [of _ "?s1\<lparr>ss_lanes := (ss_lanes ?s1)(l := Stopped)\<rparr>"]) simp
next
  case Subscribed
  have "sse_step rfc3339 replay s (s\<lparr>ss_lanes := (ss_lanes s)(l := Stopped)\<rparr>)"
    by (rule sse_step.stop) (use assms Subscribed in simp_all)
  then have "(sse_step rfc3339 replay)\<^sup>*\<^sup>* s (s\<lparr>ss_lanes := (ss_lanes s)(l := Stopped)\<rparr>)" by auto
  then show ?thesis
    using assms by (intro exI [of _ "s\<lparr>ss_lanes := (ss_lanes s)(l := Stopped)\<rparr>"]) simp
next
  case Stopped
  then show ?thesis using assms by (intro exI [of _ s]) (auto simp: fun_eq_iff)
qed

text \<open>The first terminal event ends the stream: once one has been shown, the call can run to its return without
  another event, whatever the state of its subscriptions.\<close>

theorem stream_returns_after_terminal:
  assumes "sse_reachable rfc3339 replay s" "se \<in> set (ss_shown s)" "closing (sv_Type se)"
  shows "\<exists>s'. (sse_step rfc3339 replay)\<^sup>*\<^sup>* s s' \<and> ss_returned s'"
proof -
  have "ss_done s" using sse_reachable_inv [OF assms(1)] assms(2,3) by (auto simp: sse_inv_def)
  then obtain s1 where s1: "(sse_step rfc3339 replay)\<^sup>*\<^sup>* s s1" "ss_lanes s1 = (ss_lanes s)(Stream_lane := Stopped)" "ss_done s1"
    using stop_lane by blast
  obtain s2 where s2: "(sse_step rfc3339 replay)\<^sup>*\<^sup>* s1 s2" "ss_lanes s2 = (ss_lanes s1)(State_lane := Stopped)" "ss_done s2"
    using stop_lane [OF s1(3)] by blast
  have "ss_lanes s2 l = Stopped" for l using s1(2) s2(2) by (cases l) simp_all
  then have "sse_step rfc3339 replay s2 (s2\<lparr>ss_returned := True\<rparr>)" using s2(3) by (intro sse_step.call_returns)
  then show ?thesis using s1(1) s2(1) by (intro exI [of _ "s2\<lparr>ss_returned := True\<rparr>"]) auto
qed

text \<open>A failed subscription hangs: when the subscription of the stream lane fails and the state lane has stopped with
  it, no error is returned and nothing can be shown any more; the only thing that can still happen is that the client goes
  away.\<close>

theorem failed_subscription_hangs:
  assumes "sse_reachable rfc3339 replay s" "ss_failed s" "ss_lanes s State_lane = Stopped" "\<not> ss_done s"
    and "sse_step rfc3339 replay s s'"
  shows "s' = s\<lparr>ss_done := True\<rparr>"
proof -
  have "ss_failed s \<longrightarrow> ss_lanes s Stream_lane = Stopped"
    using assms(1)
  proof (induction rule: sse_reachable.induct)
    case (step s s')
    from step(2) show ?case
      by cases (use step(3) in \<open>auto simp: emit_cases split: option.splits\<close>)
  qed (simp add: new_sse_def)
  then have "ss_lanes s l = Stopped" for l using assms(2,3) by (cases l) simp_all
  with assms(4,5) show ?thesis by (auto elim: sse_step.cases)
qed

section \<open>A replay reaches back far enough\<close>

lemma min_start_bounds:
  "a \<noteq> 0 \<Longrightarrow> 0 < min_start q a \<and> min_start q a \<le> a"
  "0 < k \<Longrightarrow> 0 < min_start (Some k) a \<and> min_start (Some k) a \<le> k"
  by (auto simp: min_start_def split: option.split)

lemma min_start_fold:
  "a \<noteq> 0 \<Longrightarrow> 0 < foldl (\<lambda>a m. min_start (f m) a) a ms \<and> foldl (\<lambda>a m. min_start (f m) a) a ms \<le> a"
proof (induction ms arbitrary: a)
  case (Cons m ms)
  note b = min_start_bounds(1) [OF Cons.prems, of "f m"]
  from Cons.IH [of "min_start (f m) a"] b show ?case by simp
qed simp

lemma min_start_reached:
  "m \<in> set ms \<Longrightarrow> f m = Some q \<Longrightarrow> 0 < q \<Longrightarrow>
     0 < foldl (\<lambda>a m. min_start (f m) a) a ms \<and> foldl (\<lambda>a m. min_start (f m) a) a ms \<le> q"
proof (induction ms arbitrary: a)
  case (Cons x ms)
  show ?case
  proof (cases "m = x")
    case True
    note b = min_start_bounds(2) [OF Cons.prems(3), of a]
    from min_start_fold [of "min_start (f x) a" f ms] b True Cons.prems(2) show ?thesis by simp
  qed (use Cons in simp)
qed simp

lemma replay_fold:
  "rl_StateStartSeq (foldl replay_step r ms) = foldl (\<lambda>a m. min_start (stateStartSeq (sm_Metadata m)) a) (rl_StateStartSeq r) ms"
  "rl_MessageIDs (foldl replay_step r ms) = rl_MessageIDs r @ map (\<lambda>m. show_nat (sm_ID m)) ms"
  by (induction ms arbitrary: r) (simp_all add: replay_step_def)

lemma started_state_seq: "0 < sr_StateStartSeq req \<Longrightarrow> stateStartSeq (started_metadata req md) = Some (sr_StateStartSeq req)"
  by (simp add: stateStartSeq_def seq_value_def started_metadata_def Let_def setStateStartSeq_def set_extra_def update_conv')


section \<open>Witnesses\<close>

definition demo_shown :: "string \<Rightarrow> sse" where
  "demo_shown kind =
     (let s = new_sse\<lparr>ss_lanes := (ss_lanes new_sse)(State_lane := Subscribed)\<rparr>
      in (emitEvent (\<lambda>_. []) None (demo_run_event kind) s)\<lparr>ss_delivered := ss_delivered s @ [demo_run_event kind]\<rparr>)"

lemma demo_shown_reachable: "sse_reachable (\<lambda>_. []) None (demo_shown kind)"
proof -
  let ?s = "new_sse\<lparr>ss_lanes := (ss_lanes new_sse)(State_lane := Subscribed)\<rparr>"
  have "sse_reachable (\<lambda>_. []) None ?s"
    by (rule sse_reachable.step [OF sse_reachable.start]) (rule sse_step.subscribe, simp add: new_sse_def)
  then show ?thesis
    unfolding demo_shown_def Let_def by (rule sse_reachable.step) (rule sse_step.deliver [where l = State_lane], simp)
qed

lemma demo_shown_closed: "\<exists>se. ss_shown (demo_shown RunEventRunCompleted) = [se] \<and> closing (sv_Type se)"
proof -
  have "live_view (\<lambda>_. []) (demo_run_event RunEventRunCompleted) = Some (EventCompleted,
      Terminal_view (terminalPayloadFromMessaging (rb_run_completed (env_body (demo_run_event RunEventRunCompleted))) None))"
    by (simp add: live_view_def demo_run_event_def msg_defs Let_def)
  then show ?thesis
    by (simp add: demo_shown_def Let_def emit_cases relevant_def new_sse_def ProjectRunEvent_def demo_run_event_def closing_def)
qed

lemma shown_once_in_order_witness:
  "ss_shown (demo_shown RunEventRunCompleted) = shown_of (\<lambda>_. []) None [demo_run_event RunEventRunCompleted] \<and>
     length (ss_shown (demo_shown RunEventRunCompleted)) = 1"
proof -
  have "ss_delivered (demo_shown RunEventRunCompleted) = [demo_run_event RunEventRunCompleted]"
    by (simp add: demo_shown_def Let_def new_sse_def)
  then show ?thesis using shown_once_in_order [OF demo_shown_reachable [of RunEventRunCompleted]] demo_shown_closed by auto
qed

lemma stream_returns_after_terminal_witness:
  "\<exists>s'. (sse_step (\<lambda>_. []) None)\<^sup>*\<^sup>* (demo_shown RunEventRunCompleted) s' \<and> ss_returned s'"
proof -
  obtain se where "ss_shown (demo_shown RunEventRunCompleted) = [se]" "closing (sv_Type se)" using demo_shown_closed by blast
  then show ?thesis using stream_returns_after_terminal [OF demo_shown_reachable, of se RunEventRunCompleted] by simp
qed

lemma failed_subscription_hangs_witness:
  "\<exists>s. sse_reachable (\<lambda>_. []) None s \<and> ss_failed s \<and> (\<forall>s'. sse_step (\<lambda>_. []) None s s' \<longrightarrow> s' = s\<lparr>ss_done := True\<rparr>)"
proof -
  let ?a = "new_sse\<lparr>ss_lanes := (ss_lanes new_sse)(State_lane := Stopped)\<rparr>"
  let ?b = "?a\<lparr>ss_lanes := (ss_lanes ?a)(Stream_lane := Stopped), ss_failed := True\<rparr>"
  have "sse_reachable (\<lambda>_. []) None ?a"
    by (rule sse_reachable.step [OF sse_reachable.start]) (rule sse_step.fail_state, simp add: new_sse_def)
  then have r: "sse_reachable (\<lambda>_. []) None ?b"
    by (rule sse_reachable.step) (rule sse_step.fail_stream, simp add: new_sse_def)
  have "ss_failed ?b" "ss_lanes ?b State_lane = Stopped" "\<not> ss_done ?b" by (simp_all add: new_sse_def)
  note hangs = failed_subscription_hangs [OF r this]
  show ?thesis
  proof (intro exI [of _ ?b] conjI allI impI)
    show "sse_step (\<lambda>_. []) None ?b s' \<Longrightarrow> s' = ?b\<lparr>ss_done := True\<rparr>" for s' by (rule hangs)
  qed (use r in simp_all)
qed


end
