(* ===== verification/Interactions.thy ===== *)
theory Interactions
  imports RunHandler "HOL-Library.Multiset"
begin

text \<open>
  Approvals and questions on the worker: the dispatcher of its command lanes (\<open>backend/internal/worker/command/dispatcher.go\<close>),
  the handler of the interaction lane (\<open>backend/internal/worker/command/interaction/handler.go\<close>) and the router that holds the
  calls of runtimes that wait for a user (\<open>backend/agent/runtime/provider/interaction_router.go\<close>). A section under the mutex of the
  router is a function; the waiting calls and the handler of the lane, which takes one command after the other, are the
  steps of \<open>desk_step\<close>. Approvals and questions are two desks of the same kind.

  Lemmas: an answer reaches the call it is for; when a resolver can be blocked, and that it then stays so; that a call that
  has been answered can return.
\<close>

section \<open>The dispatcher\<close>

record dispatcher_config =
  dc_OrgID :: nat
  dc_WorkerID :: nat

datatype dispatcher_error =
    Org_id_required | Worker_id_required | Subscriber_required | Handler_required string
  | Lane_subject string subject_error

definition NewDispatcher :: "dispatcher_config \<Rightarrow> bool \<Rightarrow> (string \<Rightarrow> bool) \<Rightarrow> dispatcher_error option" where
  "NewDispatcher cfg sub handlers =
     (if dc_OrgID cfg = 0 then Some Org_id_required
      else if dc_WorkerID cfg = 0 then Some Worker_id_required
      else if \<not> sub then Some Subscriber_required
      else map_option Handler_required (find (\<lambda>l. \<not> handlers l) [LaneRun, LaneControl, LaneInteraction, LaneSkill]))"

text \<open>The subjects that \<open>Run\<close> subscribes to, up to the first that cannot be built.\<close>

fun lane_topics :: "dispatcher_config \<Rightarrow> string list \<Rightarrow> dispatcher_error + (string \<times> string) list" where
  "lane_topics cfg [] = Inr []"
| "lane_topics cfg (l # ls) =
     (case WorkerCommandSubject (dc_OrgID cfg) (dc_WorkerID cfg) l of
        Inl e \<Rightarrow> Inl (Lane_subject l e)
      | Inr topic \<Rightarrow> map_sum id (\<lambda>ts. (l, topic) # ts) (lane_topics cfg ls))"

text \<open>How a subscription ended, in the order in which the lanes report it. The first error that is no cancellation is
  returned, and cancels the other lanes.\<close>

datatype 'e lane_end = Lane_ok | Lane_cancelled | Lane_failed 'e

fun dispatch_result :: "'e lane_end list \<Rightarrow> 'e option" where
  "dispatch_result [] = None"
| "dispatch_result (Lane_failed e # es) = Some e"
| "dispatch_result (_ # es) = dispatch_result es"

datatype parse_error = Unmarshal_command | Unexpected_type string

definition parseCommand :: "worker_command option \<Rightarrow> parse_error + worker_command" where
  "parseCommand data =
     (case data of
        None \<Rightarrow> Inl Unmarshal_command
      | Some cmd \<Rightarrow> if env_type cmd \<noteq> MessageTypeWorkerCommand then Inl (Unexpected_type (env_type cmd)) else Inr cmd)"

text \<open>\<open>handleRun\<close>, \<open>handleControl\<close>, \<open>handleInteraction\<close>, \<open>handleSkill\<close>: a message that is no command goes to no handler,
  and what the handler answers is only logged.\<close>

definition handle_lane :: "(worker_command \<Rightarrow> 's \<Rightarrow> 'r \<times> 's) \<Rightarrow> worker_command option \<Rightarrow> 's \<Rightarrow> 's" where
  "handle_lane handler data s = (case parseCommand data of Inl _ \<Rightarrow> s | Inr cmd \<Rightarrow> snd (handler cmd s))"

section \<open>The handler of the lane\<close>

datatype 'e interaction_error =
    Unknown_interaction string
  | Bad_payload payload_error
  | Resolver_error 'e

record ('s, 'e) resolver =
  rv_Approval :: "string \<Rightarrow> string \<Rightarrow> string \<Rightarrow> 's \<Rightarrow> 'e option \<times> 's"
  rv_Question :: "string \<Rightarrow> string slice slice \<Rightarrow> 's \<Rightarrow> 'e option \<times> 's"

definition handleApproval :: "('s, 'e) resolver \<Rightarrow> worker_command \<Rightarrow> 's \<Rightarrow> 'e interaction_error option \<times> 's" where
  "handleApproval h cmd s =
     (case DecodeCommandPayload (dec_struct dec_approval_resolve_payload) (Some (env_body cmd)) of
        Inl e \<Rightarrow> (Some (Bad_payload e), s)
      | Inr payload \<Rightarrow>
          map_prod (map_option Resolver_error) id
            (rv_Approval h (tx_request_id (env_trace cmd)) (ap_action payload) (ap_reason payload) s))"

definition handleQuestion :: "('s, 'e) resolver \<Rightarrow> worker_command \<Rightarrow> 's \<Rightarrow> 'e interaction_error option \<times> 's" where
  "handleQuestion h cmd s =
     (case DecodeCommandPayload (dec_struct dec_question_answer_payload) (Some (env_body cmd)) of
        Inl e \<Rightarrow> (Some (Bad_payload e), s)
      | Inr payload \<Rightarrow>
          map_prod (map_option Resolver_error) id (rv_Question h (tx_request_id (env_trace cmd)) (qp_answers payload) s))"

definition HandleInteractionCommand ::
  "('s, 'e) resolver \<Rightarrow> worker_command \<Rightarrow> 's \<Rightarrow> 'e interaction_error option \<times> 's" where
  "HandleInteractionCommand h cmd s =
     (let t = wb_command_type (env_body cmd) in
      if t = CommandTypeApprovalResolve then handleApproval h cmd s
      else if t = CommandTypeQuestionAnswer then handleQuestion h cmd s
      else (Some (Unknown_interaction t), s))"

section \<open>The router\<close>

record approval_decision =
  ad_RequestID :: string
  ad_Action :: string
  ad_Reason :: string

record question_answer =
  qa_RequestID :: string
  qa_Answers :: "string slice slice"

text \<open>
  The calls that wait at one desk. Call \<open>n\<close> is the \<open>n\<close>-th that was made, and \<open>n\<close> also names its channel, of one place:
  \<open>dk_calls\<close> are their request ids, \<open>dk_resolves\<close> the ids that a resolver has found, \<open>dk_sending\<close> is the send of the handler
  that has not happened yet. A call is in its \<open>select\<close>, or has left it with a result and is about to delete its entry.
\<close>

record 'd desk =
  dk_pending :: "string \<Rightarrow> nat option"
  dk_calls :: "string list"
  dk_chan :: "nat \<Rightarrow> 'd option"
  dk_waiting :: "nat set"
  dk_leaving :: "nat set"
  dk_result :: "nat \<Rightarrow> 'd option option"
  dk_sending :: "(nat \<times> 'd) option"
  dk_resolves :: "string list"

definition new_desk :: "'d desk" where
  "new_desk = \<lparr>dk_pending = \<lambda>_. None, dk_calls = [], dk_chan = \<lambda>_. None, dk_waiting = {}, dk_leaving = {},
     dk_result = \<lambda>_. None, dk_sending = None, dk_resolves = []\<rparr>"

record interaction_router =
  ir_pendingApproval :: "approval_decision desk"
  ir_pendingQuestion :: "question_answer desk"

definition NewInteractionRouter :: interaction_router where
  "NewInteractionRouter = \<lparr>ir_pendingApproval = new_desk, ir_pendingQuestion = new_desk\<rparr>"

definition register_call :: "string \<Rightarrow> 'd desk \<Rightarrow> 'd desk" where
  "register_call requestID s =
     (let ch = length (dk_calls s)
      in s\<lparr>dk_pending := (dk_pending s)(requestID \<mapsto> ch), dk_calls := dk_calls s @ [requestID],
           dk_waiting := insert ch (dk_waiting s)\<rparr>)"

definition leave_select :: "nat \<Rightarrow> 'd option \<Rightarrow> 'd desk \<Rightarrow> 'd desk" where
  "leave_select ch r s =
     s\<lparr>dk_waiting := dk_waiting s - {ch}, dk_leaving := insert ch (dk_leaving s), dk_result := (dk_result s)(ch \<mapsto> r)\<rparr>"

definition receive_decision :: "nat \<Rightarrow> 'd \<Rightarrow> 'd desk \<Rightarrow> 'd desk" where
  "receive_decision ch d s = (leave_select ch (Some d) s)\<lparr>dk_chan := (dk_chan s)(ch := None)\<rparr>"

definition delete_entry :: "nat \<Rightarrow> 'd desk \<Rightarrow> 'd desk" where
  "delete_entry ch s =
     s\<lparr>dk_pending := (dk_pending s)(dk_calls s ! ch := None), dk_leaving := dk_leaving s - {ch}\<rparr>"

text \<open>The lookup of a resolver: an unknown id is an error, otherwise the decision is to be sent.\<close>

definition find_call :: "string \<Rightarrow> 'd \<Rightarrow> 'd desk \<Rightarrow> string option \<times> 'd desk" where
  "find_call requestID d s =
     (case dk_pending s requestID of
        None \<Rightarrow> (Some requestID, s)
      | Some ch \<Rightarrow> (None, s\<lparr>dk_sending := Some (ch, d), dk_resolves := dk_resolves s @ [requestID]\<rparr>))"

definition send_decision :: "'d desk \<Rightarrow> 'd desk" where
  "send_decision s =
     (case dk_sending s of
        Some (ch, d) \<Rightarrow> if dk_chan s ch = None then s\<lparr>dk_chan := (dk_chan s)(ch \<mapsto> d), dk_sending := None\<rparr> else s
      | None \<Rightarrow> s)"

definition ResolveApproval :: "string \<Rightarrow> string \<Rightarrow> string \<Rightarrow> interaction_router \<Rightarrow> string option \<times> interaction_router" where
  "ResolveApproval requestID action reason r =
     (let (e, s) = find_call requestID \<lparr>ad_RequestID = requestID, ad_Action = action, ad_Reason = reason\<rparr> (ir_pendingApproval r)
      in (e, r\<lparr>ir_pendingApproval := s\<rparr>))"

definition ResolveQuestion :: "string \<Rightarrow> string slice slice \<Rightarrow> interaction_router \<Rightarrow> string option \<times> interaction_router" where
  "ResolveQuestion requestID answers r =
     (let (e, s) = find_call requestID \<lparr>qa_RequestID = requestID, qa_Answers = answers\<rparr> (ir_pendingQuestion r)
      in (e, r\<lparr>ir_pendingQuestion := s\<rparr>))"

definition router_resolver :: "(interaction_router, string) resolver" where
  "router_resolver = \<lparr>rv_Approval = ResolveApproval, rv_Question = ResolveQuestion\<rparr>"

section \<open>The desks at work\<close>

text \<open>\<open>key\<close> is the request id that a decision carries. The handler looks a call up only when it is not sending.\<close>

inductive desk_step :: "('d \<Rightarrow> string) \<Rightarrow> 'd desk \<Rightarrow> 'd desk \<Rightarrow> bool" for key where
  call: "desk_step key s (register_call requestID s)"
| found: "dk_sending s = None \<Longrightarrow> desk_step key s (snd (find_call (key d) d s))"
| sent: "dk_sending s = Some (ch, d) \<Longrightarrow> dk_chan s ch = None \<Longrightarrow> desk_step key s (send_decision s)"
| received: "ch \<in> dk_waiting s \<Longrightarrow> dk_chan s ch = Some d \<Longrightarrow> desk_step key s (receive_decision ch d s)"
| cancelled: "ch \<in> dk_waiting s \<Longrightarrow> desk_step key s (leave_select ch None s)"
| left: "ch \<in> dk_leaving s \<Longrightarrow> desk_step key s (delete_entry ch s)"

inductive desk_reachable :: "('d \<Rightarrow> string) \<Rightarrow> 'd desk \<Rightarrow> bool" for key where
  start: "desk_reachable key new_desk"
| step: "desk_reachable key s \<Longrightarrow> desk_step key s s' \<Longrightarrow> desk_reachable key s'"

lemmas desk_ops = register_call_def leave_select_def receive_decision_def delete_entry_def find_call_def send_decision_def

section \<open>Invariants\<close>

definition calls_ok :: "('d \<Rightarrow> string) \<Rightarrow> 'd desk \<Rightarrow> bool" where
  "calls_ok key s \<longleftrightarrow>
     (\<forall>i ch. dk_pending s i = Some ch \<longrightarrow> ch < length (dk_calls s) \<and> dk_calls s ! ch = i) \<and>
     (\<forall>ch d. dk_chan s ch = Some d \<or> dk_sending s = Some (ch, d) \<or> dk_result s ch = Some (Some d) \<longrightarrow>
        ch < length (dk_calls s) \<and> key d = dk_calls s ! ch) \<and>
     dk_waiting s \<union> dk_leaving s \<subseteq> {..<length (dk_calls s)} \<and> dk_waiting s \<inter> dk_leaving s = {} \<and>
     (\<forall>ch. dk_result s ch \<noteq> None \<longrightarrow> ch < length (dk_calls s) \<and> ch \<notin> dk_waiting s) \<and>
     set (dk_resolves s) \<subseteq> set (dk_calls s)"

lemma calls_ok_step:
  assumes "calls_ok key s" "desk_step key s s'"
  shows "calls_ok key s'"
  using assms(2)
proof cases
  case (call requestID)
  then show ?thesis using assms(1) by (auto simp: calls_ok_def register_call_def Let_def nth_append less_Suc_eq)
next
  case (found d)
  have "key d \<in> set (dk_calls s)" if "dk_pending s (key d) = Some c" for c
    using that assms(1) nth_mem [of c "dk_calls s"] by (auto simp: calls_ok_def)
  then show ?thesis using assms(1) found by (auto simp: calls_ok_def find_call_def split: option.split)
next
  case (sent ch d)
  then show ?thesis using assms(1) by (auto simp: calls_ok_def send_decision_def)
next
  case (received ch d)
  then show ?thesis using assms(1) by (auto simp: calls_ok_def receive_decision_def leave_select_def)
next
  case (cancelled ch)
  then show ?thesis using assms(1) by (auto simp: calls_ok_def leave_select_def)
next
  case (left ch)
  then show ?thesis using assms(1) by (auto simp: calls_ok_def delete_entry_def)
qed

lemma reachable_calls_ok: "desk_reachable key s \<Longrightarrow> calls_ok key s"
  by (induction rule: desk_reachable.induct) (auto simp: calls_ok_step, simp add: calls_ok_def new_desk_def)

text \<open>The decisions that are on their way to a call.\<close>

definition tokens :: "nat \<Rightarrow> 'd desk \<Rightarrow> nat" where
  "tokens ch s = (if dk_chan s ch = None then 0 else 1) + (case dk_sending s of Some (c, _) \<Rightarrow> if c = ch then 1 else 0 | None \<Rightarrow> 0)"

lemma tokens_step:
  assumes "calls_ok key s" "\<And>ch. ch < length (dk_calls s) \<Longrightarrow> tokens ch s \<le> count_list (dk_resolves s) (dk_calls s ! ch)"
    "desk_step key s s'" "ch < length (dk_calls s')"
  shows "tokens ch s' \<le> count_list (dk_resolves s') (dk_calls s' ! ch)"
  using assms(3)
proof cases
  case (call requestID)
  show ?thesis
  proof (cases "ch < length (dk_calls s)")
    case True
    then show ?thesis using assms(2) [OF True] call
      by (simp add: tokens_def register_call_def Let_def nth_append)
  next
    case False
    then have "tokens ch s' = 0" using assms(1) call
      by (auto simp: tokens_def register_call_def Let_def calls_ok_def split: option.split)
    then show ?thesis by simp
  qed
next
  case (found d)
  then show ?thesis using assms(1,2,4)
    by (cases "dk_pending s (key d)") (auto simp: tokens_def find_call_def calls_ok_def count_list_append)
next
  case (sent c d)
  then show ?thesis using assms(2) [of ch] assms(4) by (auto simp: tokens_def send_decision_def)
next
  case (received c d)
  then show ?thesis using assms(2) [of ch] assms(4) by (auto simp: tokens_def receive_decision_def leave_select_def)
next
  case (cancelled c)
  then show ?thesis using assms(2) [of ch] assms(4) by (simp add: tokens_def leave_select_def)
next
  case (left c)
  then show ?thesis using assms(2) [of ch] assms(4) by (simp add: tokens_def delete_entry_def)
qed

lemma reachable_tokens:
  "desk_reachable key s \<Longrightarrow> ch < length (dk_calls s) \<Longrightarrow> tokens ch s \<le> count_list (dk_resolves s) (dk_calls s ! ch)"
proof (induction arbitrary: ch rule: desk_reachable.induct)
  case (step s s')
  show ?case by (rule tokens_step [OF reachable_calls_ok [OF step(1)] step.IH step(2) step.prems])
qed (simp add: new_desk_def)

text \<open>When no two calls have the same request id.\<close>

definition open_ok :: "'d desk \<Rightarrow> bool" where
  "open_ok s \<longleftrightarrow>
     (\<forall>ch \<in> dk_waiting s. dk_pending s (dk_calls s ! ch) = Some ch) \<and>
     (\<forall>ch \<in> dk_waiting s. dk_calls s ! ch \<in> set (dk_resolves s) \<longrightarrow> 0 < tokens ch s)"

lemma open_ok_step:
  assumes "calls_ok key s" "open_ok s" "desk_step key s s'" "distinct (dk_calls s')"
  shows "open_ok s'"
  using assms(3)
proof cases
  case (call requestID)
  let ?n = "length (dk_calls s)"
  have fresh: "requestID \<notin> set (dk_calls s)" using assms(4) call by (simp add: register_call_def Let_def)
  have old: "ch < ?n" "dk_calls s ! ch \<noteq> requestID" if "ch \<in> dk_waiting s" for ch
    using that fresh assms(1) nth_mem [of ch "dk_calls s"] by (auto simp: calls_ok_def)
  have s': "dk_pending s' = (dk_pending s)(requestID \<mapsto> ?n)" "dk_calls s' = dk_calls s @ [requestID]"
    "dk_waiting s' = insert ?n (dk_waiting s)" "dk_resolves s' = dk_resolves s" "tokens ch s' = tokens ch s" for ch
    by (simp_all add: call register_call_def Let_def tokens_def)
  have "requestID \<notin> set (dk_resolves s)" using fresh assms(1) by (auto simp: calls_ok_def)
  then show ?thesis using old assms(2) unfolding open_ok_def s' by (simp add: nth_append)
next
  case (found d)
  show ?thesis
  proof (cases "dk_pending s (key d)")
    case None
    then show ?thesis using assms(2) found by (simp add: find_call_def)
  next
    case (Some c)
    then have s': "s' = s\<lparr>dk_sending := Some (c, d), dk_resolves := dk_resolves s @ [key d]\<rparr>"
      using found by (simp add: find_call_def)
    have "0 < tokens ch s'" if "ch \<in> dk_waiting s" "dk_calls s ! ch \<in> set (dk_resolves s')" for ch
    proof (cases "dk_calls s ! ch = key d")
      case True
      then have "c = ch" using that(1) assms(2) Some by (auto simp: open_ok_def)
      then show ?thesis by (simp add: s' tokens_def)
    next
      case False
      then have "0 < tokens ch s" using that assms(2) by (auto simp: open_ok_def s')
      then show ?thesis using found(2) by (simp add: s' tokens_def split: if_splits)
    qed
    then show ?thesis using assms(2) by (auto simp: open_ok_def s')
  qed
next
  case (sent c d)
  then show ?thesis using assms(2) by (auto simp: open_ok_def tokens_def send_decision_def)
next
  case (received c d)
  then show ?thesis using assms(2) by (auto simp: open_ok_def tokens_def receive_decision_def leave_select_def)
next
  case (cancelled c)
  then show ?thesis using assms(2) by (auto simp: open_ok_def tokens_def leave_select_def)
next
  case (left c)
  have "dk_calls s ! ch \<noteq> dk_calls s ! c" if "ch \<in> dk_waiting s" for ch
  proof -
    have "ch < length (dk_calls s)" "c < length (dk_calls s)" "ch \<noteq> c" using that left(2) assms(1) by (auto simp: calls_ok_def)
    moreover have "distinct (dk_calls s)" using assms(4) left(1) by (simp add: delete_entry_def)
    ultimately show ?thesis by (simp add: nth_eq_iff_index_eq)
  qed
  then show ?thesis using assms(2) left by (auto simp: open_ok_def tokens_def delete_entry_def)
qed

lemma calls_grow: "desk_step key s s' \<Longrightarrow> distinct (dk_calls s') \<Longrightarrow> distinct (dk_calls s)"
  by (cases rule: desk_step.cases) (auto simp: desk_ops Let_def split: option.splits if_splits)

lemma reachable_open_ok: "desk_reachable key s \<Longrightarrow> distinct (dk_calls s) \<Longrightarrow> open_ok s"
proof (induction rule: desk_reachable.induct)
  case (step s s')
  show ?case
    by (rule open_ok_step [OF reachable_calls_ok [OF step(1)] step.IH step(2) step.prems]) (rule calls_grow [OF step(2) step.prems])
qed (simp add: new_desk_def open_ok_def)

lemma count_distinct_le: "distinct xs \<Longrightarrow> count_list xs x \<le> 1"
  by (induction xs) (auto simp: count_notin)

section \<open>What the desks keep\<close>

text \<open>An answer reaches the call it is for: what a call returns carries the request id of that call, whatever else is
  asked, answered or given up meanwhile.\<close>

theorem answer_for_its_call:
  assumes "desk_reachable key s" "dk_result s ch = Some (Some d)"
  shows "ch < length (dk_calls s) \<and> key d = dk_calls s ! ch"
  using reachable_calls_ok [OF assms(1)] assms(2) by (auto simp: calls_ok_def)

text \<open>C25: The lane is not blocked by users who answer once: as long as no request id has been answered twice, the send of
  the handler finds its channel empty.\<close>

theorem answer_never_blocks:
  assumes "desk_reachable key s" "distinct (dk_resolves s)" "dk_sending s = Some (ch, d)"
  shows "dk_chan s ch = None"
proof -
  have "ch < length (dk_calls s)" using reachable_calls_ok [OF assms(1)] assms(3) by (auto simp: calls_ok_def)
  then have "tokens ch s \<le> count_list (dk_resolves s) (dk_calls s ! ch)" by (rule reachable_tokens [OF assms(1)])
  also have "\<dots> \<le> 1" by (rule count_distinct_le [OF assms(2)])
  finally show ?thesis using assms(3) by (simp add: tokens_def split: if_splits)
qed

text \<open>A call that has been answered can return: when request ids are not reused, a call that waits and whose id was found
  by a resolver can return with a decision for its id, by the steps of the lane and its own only, however often it was answered.\<close>

theorem answered_call_returns:
  assumes "desk_reachable key s" "distinct (dk_calls s)" "ch \<in> dk_waiting s" "dk_calls s ! ch \<in> set (dk_resolves s)"
  shows "\<exists>s' d. (desk_step key)\<^sup>*\<^sup>* s s' \<and> dk_result s' ch = Some (Some d) \<and> key d = dk_calls s ! ch"
proof -
  note ok = reachable_calls_ok [OF assms(1)]
  have "0 < tokens ch s" using reachable_open_ok [OF assms(1,2)] assms(3,4) by (simp add: open_ok_def)
  show ?thesis
  proof (cases "dk_chan s ch")
    case (Some d)
    have "desk_step key s (receive_decision ch d s)" by (rule desk_step.received [OF assms(3) Some])
    then show ?thesis using ok Some
      by (intro exI [of _ "receive_decision ch d s"] exI [of _ d]) (auto simp: receive_decision_def leave_select_def calls_ok_def)
  next
    case None
    with \<open>0 < tokens ch s\<close> obtain d where d: "dk_sending s = Some (ch, d)" by (auto simp: tokens_def split: option.splits if_splits)
    let ?t = "send_decision s"
    have t: "desk_step key s ?t" "dk_chan ?t ch = Some d" "ch \<in> dk_waiting ?t"
      using desk_step.sent [OF d None] d None assms(3) by (simp_all add: send_decision_def)
    then have "desk_step key ?t (receive_decision ch d ?t)" by (intro desk_step.received)
    with t(1) show ?thesis using ok d
      by (intro exI [of _ "receive_decision ch d ?t"] exI [of _ d]) (auto simp: receive_decision_def leave_select_def calls_ok_def)
  qed
qed

text \<open>A lane that is stuck stays stuck: once the handler sends to a call that has left its \<open>select\<close> with an answer still in
  its channel, no step of any kind completes that send, so no later approval of any session is handled.\<close>

theorem stuck_lane_stays_stuck:
  assumes "desk_reachable key s" "dk_sending s = Some (ch, d)" "dk_chan s ch \<noteq> None" "ch \<notin> dk_waiting s"
    and "(desk_step key)\<^sup>*\<^sup>* s s'"
  shows "dk_sending s' = Some (ch, d) \<and> dk_resolves s' = dk_resolves s"
proof -
  have "ch < length (dk_calls s)" using reachable_calls_ok [OF assms(1)] assms(2) by (auto simp: calls_ok_def)
  with assms(5) have "dk_sending s' = Some (ch, d) \<and> dk_chan s' ch = dk_chan s ch \<and> ch \<notin> dk_waiting s' \<and>
      ch < length (dk_calls s') \<and> dk_resolves s' = dk_resolves s"
  proof (induction rule: rtranclp_induct)
    case (step t u)
    from step(2) show ?case
      by cases (use step(3) step.prems assms(3) in \<open>auto simp: desk_ops Let_def split: option.splits\<close>)
  qed (use assms in simp)
  then show ?thesis by simp
qed

section \<open>Witnesses\<close>

definition demo_desk :: "string list \<Rightarrow> approval_decision desk" where
  "demo_desk ids = foldl (\<lambda>s i. register_call i s) new_desk ids"

definition demo_decision :: "string \<Rightarrow> approval_decision" where
  "demo_decision action = \<lparr>ad_RequestID = ''r1'', ad_Action = action, ad_Reason = []\<rparr>"

lemma demo_desk_reachable: "desk_reachable ad_RequestID (demo_desk ids)"
proof (induction ids rule: rev_induct)
  case (snoc i ids)
  then show ?case unfolding demo_desk_def by (simp add: desk_reachable.step [OF _ desk_step.call])
qed (simp add: demo_desk_def desk_reachable.start)

definition demo_found :: "approval_decision desk" where
  "demo_found = snd (find_call ''r1'' (demo_decision ''approve'') (demo_desk [''r1'', ''r2'']))"

lemma demo_found_state:
  "dk_sending demo_found = Some (0, demo_decision ''approve'')" "dk_calls demo_found = [''r1'', ''r2'']"
  "dk_resolves demo_found = [''r1'']" "dk_waiting demo_found = {0, 1}" "dk_chan demo_found = (\<lambda>_. None)"
  "dk_pending demo_found ''r1'' = Some 0"
  by (auto simp: demo_found_def demo_desk_def find_call_def register_call_def new_desk_def)

lemma demo_found_reachable: "desk_reachable ad_RequestID demo_found"
proof -
  have "dk_sending (demo_desk [''r1'', ''r2'']) = None" by (simp add: demo_desk_def register_call_def new_desk_def)
  from desk_reachable.step [OF demo_desk_reachable desk_step.found [OF this, of ad_RequestID "demo_decision ''approve''"]]
  show ?thesis by (simp add: demo_found_def demo_decision_def)
qed

definition demo_sent :: "approval_decision desk" where
  "demo_sent = send_decision demo_found"

lemma demo_sent_reachable: "desk_reachable ad_RequestID demo_sent"
  unfolding demo_sent_def
  by (rule desk_reachable.step [OF demo_found_reachable desk_step.sent [OF demo_found_state(1)]]) (simp add: demo_found_state)

lemma demo_sent_state:
  "dk_sending demo_sent = None" "dk_chan demo_sent 0 = Some (demo_decision ''approve'')" "dk_waiting demo_sent = {0, 1}"
  "dk_calls demo_sent = [''r1'', ''r2'']" "dk_pending demo_sent ''r1'' = Some 0"
  by (simp_all add: demo_sent_def send_decision_def demo_found_state)

lemma answer_for_its_call_witness:
  "\<exists>s. desk_reachable ad_RequestID s \<and> dk_result s 0 = Some (Some (demo_decision ''approve'')) \<and> dk_calls s ! 0 = ''r1''"
proof -
  let ?s = "receive_decision 0 (demo_decision ''approve'') demo_sent"
  have r: "desk_reachable ad_RequestID ?s"
    by (rule desk_reachable.step [OF demo_sent_reachable desk_step.received]) (simp_all add: demo_sent_state)
  have "dk_result ?s 0 = Some (Some (demo_decision ''approve''))" by (simp add: receive_decision_def leave_select_def)
  with answer_for_its_call [OF r this] r show ?thesis by (intro exI [of _ ?s]) (simp add: demo_decision_def)
qed

lemma answer_never_blocks_witness: "desk_reachable ad_RequestID demo_found \<and> dk_chan demo_found 0 = None"
  using answer_never_blocks [OF demo_found_reachable _ demo_found_state(1)] demo_found_reachable by (simp add: demo_found_state)

lemma answered_call_returns_witness:
  "\<exists>s' d. (desk_step ad_RequestID)\<^sup>*\<^sup>* demo_found s' \<and> dk_result s' 0 = Some (Some d) \<and> ad_RequestID d = ''r1''"
  using answered_call_returns [OF demo_found_reachable, of 0] by (simp add: demo_found_state)

text \<open>One call, answered, cancelled before it takes the answer, and answered again.\<close>

lemma stuck_lane_stays_stuck_witness:
  "\<exists>s. desk_reachable ad_RequestID s \<and> distinct (dk_calls s) \<and>
     (\<forall>s'. (desk_step ad_RequestID)\<^sup>*\<^sup>* s s' \<longrightarrow> dk_sending s' = Some (0, demo_decision ''deny'') \<and> dk_resolves s' = dk_resolves s)"
proof -
  let ?c = "leave_select 0 None demo_sent"
  let ?s = "snd (find_call ''r1'' (demo_decision ''deny'') ?c)"
  have "desk_reachable ad_RequestID ?c"
    by (rule desk_reachable.step [OF demo_sent_reachable desk_step.cancelled]) (simp add: demo_sent_state)
  moreover have "dk_sending ?c = None" by (simp add: leave_select_def demo_sent_state)
  ultimately have "desk_reachable ad_RequestID (snd (find_call (ad_RequestID (demo_decision ''deny'')) (demo_decision ''deny'') ?c))"
    by (rule desk_reachable.step [OF _ desk_step.found])
  then have r: "desk_reachable ad_RequestID ?s" by (simp add: demo_decision_def)
  have s: "dk_sending ?s = Some (0, demo_decision ''deny'')" "dk_chan ?s 0 \<noteq> None" "0 \<notin> dk_waiting ?s"
    by (simp_all add: find_call_def leave_select_def demo_sent_state)
  have "distinct (dk_calls ?s)" by (simp add: find_call_def leave_select_def demo_sent_state)
  with r stuck_lane_stays_stuck [OF r s] show ?thesis by blast
qed

end
