(* ===== verification/SessionCalls.thy ===== *)
theory SessionCalls
  imports Streaming Interactions
begin

text \<open>
  The calls of clients on a session (\<open>backend/internal/service/session_service.go\<close>, \<open>worker_resolution.go\<close>, with the statements of
  \<open>backend/internal/infra/db/session_dao.go\<close> and \<open>session_message_dao.go\<close>): creating, reading, updating, deleting it, its status,
  its messages, and what is sent to its worker: cancelling a run, approvals, answers. A call takes the caller that authentication
  found, and returns an error (the text of the code) or its result, and the tables; a call that publishes also returns the
  commands that were put on the bus.

  Lemmas: only the owner of a session reads or changes it, and changes nothing else; an ended session stays ended; a
  command reaches the run or the call it is for.
\<close>

section \<open>Statements\<close>

definition SessionStatusActive :: string where "SessionStatusActive = ''active''"
definition SessionStatusPaused :: string where "SessionStatusPaused = ''paused''"
definition SessionStatusEnded :: string where "SessionStatusEnded = ''ended''"
definition SessionStatusExpired :: string where "SessionStatusExpired = ''expired''"

lemmas session_statuses = SessionStatusActive_def SessionStatusPaused_def SessionStatusEnded_def SessionStatusExpired_def

definition GetSessionByID :: "nat \<Rightarrow> store \<Rightarrow> session option" where
  "GetSessionByID i st = find (\<lambda>s. se_DeletedAt s = None \<and> se_ID s = i) (st_sessions st)"

definition GetMessageByID :: "nat \<Rightarrow> store \<Rightarrow> session_message option" where
  "GetMessageByID i st = find (\<lambda>m. sm_DeletedAt m = None \<and> sm_ID m = i) (st_messages st)"

definition PublicIDExists :: "string \<Rightarrow> store \<Rightarrow> bool" where
  "PublicIDExists publicID st \<longleftrightarrow> GetSessionByPublicID publicID st \<noteq> None"

text \<open>Every row is kept, so the next key is above all of them.\<close>

definition next_session_id :: "store \<Rightarrow> nat" where
  "next_session_id st = Suc (fold max (map se_ID (st_sessions st)) 0)"

definition db_CreateSession :: "int \<Rightarrow> session \<Rightarrow> store \<Rightarrow> session \<times> store" where
  "db_CreateSession now s st =
     (let row = s\<lparr>se_ID := next_session_id st, se_CreatedAt := now, se_UpdatedAt := now\<rparr>
      in (row, st\<lparr>st_sessions := st_sessions st @ [row]\<rparr>))"

text \<open>
  \<open>Save\<close> of a row that was read before: all its columns are written to the live row of its key; when there is none, because the row has
  been deleted since, \<open>Save\<close> inserts the row again and overwrites the deleted one.
\<close>

definition db_UpdateSession :: "int \<Rightarrow> session \<Rightarrow> store \<Rightarrow> store" where
  "db_UpdateSession now s st =
     st\<lparr>st_sessions := map (\<lambda>r. if se_ID r = se_ID s then s\<lparr>se_UpdatedAt := now\<rparr> else r) (st_sessions st)\<rparr>"

definition db_DeleteSession :: "int \<Rightarrow> nat \<Rightarrow> store \<Rightarrow> store" where
  "db_DeleteSession now i st = update_session i (\<lambda>s. s\<lparr>se_DeletedAt := Some now\<rparr>) st"

definition update_status :: "int \<Rightarrow> string \<Rightarrow> nat \<Rightarrow> store \<Rightarrow> store" where
  "update_status now v i st = update_session i (\<lambda>s. s\<lparr>se_Status := v, se_UpdatedAt := now\<rparr>) st"

definition ExpireSessions :: "int \<Rightarrow> store \<Rightarrow> store" where
  "ExpireSessions now st =
     st\<lparr>st_sessions := map (\<lambda>s. if se_DeletedAt s = None \<and> se_Status s = SessionStatusActive \<and>
            (case se_ExpiredAt s of Some t \<Rightarrow> t \<le> now | None \<Rightarrow> False)
          then s\<lparr>se_Status := SessionStatusExpired, se_UpdatedAt := now\<rparr> else s) (st_sessions st)\<rparr>"

text \<open>A page of messages, and how many there are.\<close>

definition db_GetSessionMessages :: "nat \<Rightarrow> int \<Rightarrow> int \<Rightarrow> store \<Rightarrow> session_message list \<times> nat" where
  "db_GetSessionMessages sessionID page perPage st =
     (let rows = sort_key sm_Sequence (live_messages sessionID st);
          rest = drop (nat ((page - 1) * perPage)) rows
      in (if perPage < 0 then rest else take (nat perPage) rest, length rows))"

section \<open>Callers\<close>

record caller =
  ca_Uin :: nat
  ca_OrgID :: nat
  ca_WorkerID :: nat
  ca_Kind :: string

definition CallerKindWorker :: string where "CallerKindWorker = ''worker''"

definition requireCallerOrg :: "caller option \<Rightarrow> string + caller" where
  "requireCallerOrg who =
     (case who of
        None \<Rightarrow> Inl ''user not authenticated or org not set''
      | Some c \<Rightarrow> if ca_OrgID c = 0 then Inl ''user not authenticated or org not set'' else Inr c)"

definition verifyUserPermission :: "nat \<Rightarrow> nat \<Rightarrow> string option" where
  "verifyUserPermission ownerID uin = (if ownerID \<noteq> uin then Some ''permission denied'' else None)"

definition getSessionForCaller :: "caller option \<Rightarrow> string \<Rightarrow> store \<Rightarrow> string + (session \<times> caller)" where
  "getSessionForCaller who sessionID st =
     (case requireCallerOrg who of
        Inl e \<Rightarrow> Inl e
      | Inr c \<Rightarrow>
          (case GetSessionByPublicID sessionID st of
             None \<Rightarrow> Inl ''session not found''
           | Some s \<Rightarrow>
               if se_OrgID s \<noteq> ca_OrgID c then Inl ''permission denied''
               else (case verifyUserPermission (se_Uin s) (ca_Uin c) of Some e \<Rightarrow> Inl e | None \<Rightarrow> Inr (s, c))))"

definition getSessionMessagesForCaller :: "caller option \<Rightarrow> string \<Rightarrow> store \<Rightarrow> string + session" where
  "getSessionMessagesForCaller who sessionID st =
     (case requireCallerOrg who of
        Inl e \<Rightarrow> Inl e
      | Inr c \<Rightarrow>
          (case GetSessionByPublicID sessionID st of
             None \<Rightarrow> Inl ''session not found''
           | Some s \<Rightarrow>
               if se_OrgID s \<noteq> ca_OrgID c then Inl ''permission denied''
               else if ca_Kind c = CallerKindWorker then
                 (if ca_WorkerID c = 0 \<or> se_AllocatedAssistantID s \<noteq> ca_WorkerID c then Inl ''permission denied'' else Inr s)
               else (case verifyUserPermission (se_Uin s) (ca_Uin c) of Some e \<Rightarrow> Inl e | None \<Rightarrow> Inr s)))"

section \<open>What a client is shown of the rows\<close>

record contract_session =
  cn_SessionID :: string
  cn_Type :: string
  cn_Uin :: nat
  cn_OrgID :: nat
  cn_AssistantID :: nat
  cn_AllocatedAssistantID :: nat
  cn_Status :: string
  cn_RuntimeStatus :: string
  cn_Title :: string
  cn_TitleManuallySet :: bool
  cn_Metadata :: "object_metadata option"
  cn_MessageCount :: int
  cn_LastMessageAt :: "int option"
  cn_ExpiredAt :: "int option"
  cn_CreatedAt :: int
  cn_UpdatedAt :: int

definition convertToContractSession :: "session \<Rightarrow> contract_session" where
  "convertToContractSession s =
     \<lparr>cn_SessionID = se_PublicID s, cn_Type = se_Type s, cn_Uin = se_Uin s, cn_OrgID = se_OrgID s,
      cn_AssistantID = se_AssistantID s, cn_AllocatedAssistantID = se_AllocatedAssistantID s, cn_Status = se_Status s,
      cn_RuntimeStatus = [], cn_Title = se_Title s, cn_TitleManuallySet = se_TitleManuallySet s,
      cn_Metadata = (if om_Tags (se_Metadata s) \<noteq> None \<or> om_Extra (se_Metadata s) \<noteq> None then Some (se_Metadata s) else None),
      cn_MessageCount = se_MessageCount s, cn_LastMessageAt = se_LastMessageAt s, cn_ExpiredAt = se_ExpiredAt s,
      cn_CreatedAt = se_CreatedAt s, cn_UpdatedAt = se_UpdatedAt s\<rparr>"

definition hasMessageUsage :: "message_usage \<Rightarrow> bool" where
  "hasMessageUsage u \<longleftrightarrow> mg_InputTokens u \<noteq> 0 \<or> mg_OutputTokens u \<noteq> 0 \<or> mg_TotalTokens u \<noteq> 0"

definition isHiddenSessionHistoryChunk :: "string \<Rightarrow> bool" where
  "isHiddenSessionHistoryChunk t \<longleftrightarrow> t = EventTodoSnapshot \<or> t = EventTodoUpdated"

record contract_message =
  cx_ID :: string
  cx_SessionID :: string
  cx_Role :: string
  cx_Content :: string
  cx_ErrorMsg :: string
  cx_Chunks :: "session_event list"
  cx_Artifacts :: "message_artifact list"
  cx_Attachments :: "message_attachment list"
  cx_Timestamp :: int
  cx_MessageType :: string
  cx_Metadata :: "object_metadata option"
  cx_Usage :: "message_usage option"
  cx_Sequence :: int
  cx_CreatedAt :: int

definition convertToContractSessionMessage :: "session_message \<Rightarrow> string \<Rightarrow> contract_message" where
  "convertToContractSessionMessage m publicID =
     \<lparr>cx_ID = show_nat (sm_ID m), cx_SessionID = publicID, cx_Role = sm_Role m, cx_Content = sm_Content m,
      cx_ErrorMsg = sm_ErrorMsg m,
      cx_Chunks = List.map_filter (\<lambda>c. if isHiddenSessionHistoryChunk (ck_Type c) then None else ProjectRunEventRecord publicID c)
        (sm_Chunks m),
      cx_Artifacts = sm_Artifacts m, cx_Attachments = sm_Attachments m, cx_Timestamp = sm_Timestamp m,
      cx_MessageType = sm_MessageType m,
      cx_Metadata = (if om_Extra (sm_Metadata m) \<noteq> None then Some (sm_Metadata m) else None),
      cx_Usage = (if hasMessageUsage (sm_Usage m) then Some (sm_Usage m) else None),
      cx_Sequence = sm_Sequence m, cx_CreatedAt = sm_CreatedAt m\<rparr>"

definition sessionRuntimeStatus :: "int \<Rightarrow> nat \<Rightarrow> store \<Rightarrow> string" where
  "sessionRuntimeStatus now sessionID st =
     (if GetRecentProcessingUserMessages sessionID (now - sessionProcessingWindow) st \<noteq> [] then ''responding'' else ''idle'')"

section \<open>Workers\<close>

text \<open>The deployments of workers, and the inferrer that may be configured.\<close>

record deployment =
  dy_OrgID :: nat
  dy_WorkerID :: nat
  dy_AssistantID :: nat

record worker_env =
  we_byAssistant :: "nat \<Rightarrow> deployment option"
  we_default :: "nat \<Rightarrow> deployment option"
  we_inferrer :: "(nat \<Rightarrow> string \<Rightarrow> nat) option"

definition legacyDefaultWorkerID :: nat where "legacyDefaultWorkerID = 1"

definition resolveDefaultRuntimeWorker :: "worker_env \<Rightarrow> nat \<Rightarrow> nat \<times> nat" where
  "resolveDefaultRuntimeWorker we orgID =
     (case we_default we orgID of
        Some d \<Rightarrow> (dy_AssistantID d, dy_WorkerID d)
      | None \<Rightarrow>
          (case we_inferrer we of
             Some infer \<Rightarrow> if infer orgID [] > 0 then (0, infer orgID []) else (0, legacyDefaultWorkerID)
           | None \<Rightarrow> (0, legacyDefaultWorkerID)))"

definition resolveRuntimeWorker :: "worker_env \<Rightarrow> nat \<Rightarrow> nat \<Rightarrow> string + (nat \<times> nat)" where
  "resolveRuntimeWorker we orgID assistantID =
     (if assistantID > 0 then
        (case we_byAssistant we assistantID of
           None \<Rightarrow> Inl ''worker deployment not found for assistant''
         | Some d \<Rightarrow>
             if dy_OrgID d \<noteq> orgID then Inl ''worker deployment organization mismatch'' else Inr (assistantID, dy_WorkerID d))
      else Inr (resolveDefaultRuntimeWorker we orgID))"

section \<open>A session\<close>

record create_session_request =
  cs_SessionID :: string
  cs_Type :: string
  cs_AssistantID :: nat
  cs_Title :: string
  cs_Metadata :: "object_metadata option"
  cs_ExpiredAt :: "int option"

record update_session_request =
  us_Title :: string
  us_Metadata :: "object_metadata option"
  us_ExpiredAt :: "int option"

text \<open>\<open>newID\<close> is the generated id, \<open>GenerateIDBase58\<close>.\<close>

definition CreateSession ::
  "worker_env \<Rightarrow> int \<Rightarrow> string \<Rightarrow> caller option \<Rightarrow> create_session_request \<Rightarrow> store \<Rightarrow> (string + contract_session) \<times> store" where
  "CreateSession we now newID who req st =
     (if cs_Type req = [] then (Inl ''type is required'', st)
      else
        (case who of
           None \<Rightarrow> (Inl ''user not authenticated or org not set'', st)
         | Some c \<Rightarrow>
             if ca_Uin c = 0 \<or> ca_OrgID c = 0 then (Inl ''user not authenticated or org not set'', st)
             else
               (let sessionID = (if cs_SessionID req = [] then ''sess_'' @ newID else cs_SessionID req)
                in if PublicIDExists sessionID st then (Inl ''session with this public_id already exists'', st)
                   else
                     (case resolveRuntimeWorker we (ca_OrgID c) (cs_AssistantID req) of
                        Inl e \<Rightarrow> (Inl e, st)
                      | Inr (assistantID, workerID) \<Rightarrow>
                          (let session =
                             \<lparr>se_ID = 0, se_CreatedAt = 0, se_UpdatedAt = 0, se_DeletedAt = None, se_PublicID = sessionID,
                              se_Type = cs_Type req, se_Uin = ca_Uin c, se_OrgID = ca_OrgID c, se_AssistantID = assistantID,
                              se_AllocatedAssistantID = workerID, se_TaskID = None, se_ProjectID = None,
                              se_Status = SessionStatusActive, se_Title = cs_Title req, se_TitleManuallySet = False,
                              se_Metadata = (case cs_Metadata req of Some m \<Rightarrow> m | None \<Rightarrow> no_metadata), se_MessageCount = 0,
                              se_LastMessageAt = None, se_ExpiredAt = cs_ExpiredAt req\<rparr>;
                               (row, st') = db_CreateSession now session st
                           in (Inr (convertToContractSession row), st'))))))"

definition GetSession :: "int \<Rightarrow> caller option \<Rightarrow> string \<Rightarrow> store \<Rightarrow> string + contract_session" where
  "GetSession now who sessionID st =
     (if sessionID = [] then Inl ''session_id is required''
      else
        (case getSessionForCaller who sessionID st of
           Inl e \<Rightarrow> Inl e
         | Inr (s, c) \<Rightarrow> Inr ((convertToContractSession s)\<lparr>cn_RuntimeStatus := sessionRuntimeStatus now (se_ID s) st\<rparr>)))"

definition updated_by :: "update_session_request \<Rightarrow> session \<Rightarrow> session" where
  "updated_by req s =
     (let s = (if us_Title req \<noteq> [] then s\<lparr>se_TitleManuallySet := True, se_Title := us_Title req\<rparr> else s);
          s = (case us_Metadata req of Some m \<Rightarrow> s\<lparr>se_Metadata := m\<rparr> | None \<Rightarrow> s)
      in case us_ExpiredAt req of Some t \<Rightarrow> s\<lparr>se_ExpiredAt := Some t\<rparr> | None \<Rightarrow> s)"

definition UpdateSession ::
  "int \<Rightarrow> caller option \<Rightarrow> string \<Rightarrow> update_session_request \<Rightarrow> store \<Rightarrow> (string + contract_session) \<times> store" where
  "UpdateSession now who sessionID req st =
     (case getSessionForCaller who sessionID st of
        Inl e \<Rightarrow> (Inl e, st)
      | Inr (s, c) \<Rightarrow>
          (let s' = (updated_by req s)\<lparr>se_UpdatedAt := now\<rparr>
           in (Inr (convertToContractSession s'), db_UpdateSession now s' st)))"

definition DeleteSession :: "int \<Rightarrow> caller option \<Rightarrow> string \<Rightarrow> store \<Rightarrow> string option \<times> store" where
  "DeleteSession now who sessionID st =
     (case getSessionForCaller who sessionID st of
        Inl e \<Rightarrow> (Some e, st)
      | Inr (s, c) \<Rightarrow> (None, db_DeleteSession now (se_ID s) st))"

definition ActivateSession :: "int \<Rightarrow> caller option \<Rightarrow> string \<Rightarrow> store \<Rightarrow> string option \<times> store" where
  "ActivateSession now who sessionID st =
     (case getSessionForCaller who sessionID st of
        Inl e \<Rightarrow> (Some e, st)
      | Inr (s, c) \<Rightarrow>
          if se_Status s = SessionStatusEnded then (Some ''cannot activate from ended state'', st)
          else (None, update_status now SessionStatusActive (se_ID s) st))"

definition PauseSession :: "int \<Rightarrow> caller option \<Rightarrow> string \<Rightarrow> store \<Rightarrow> string option \<times> store" where
  "PauseSession now who sessionID st =
     (case getSessionForCaller who sessionID st of
        Inl e \<Rightarrow> (Some e, st)
      | Inr (s, c) \<Rightarrow>
          if se_Status s = SessionStatusEnded \<or> se_Status s = SessionStatusExpired
          then (Some (''cannot pause from '' @ se_Status s @ '' state''), st)
          else (None, update_status now SessionStatusPaused (se_ID s) st))"

definition EndSession :: "int \<Rightarrow> caller option \<Rightarrow> string \<Rightarrow> store \<Rightarrow> string option \<times> store" where
  "EndSession now who sessionID st =
     (case getSessionForCaller who sessionID st of
        Inl e \<Rightarrow> (Some e, st)
      | Inr (s, c) \<Rightarrow>
          if se_Status s = SessionStatusEnded then (Some ''session already ended'', st)
          else (None, update_status now SessionStatusEnded (se_ID s) st))"

definition ResumeSession :: "int \<Rightarrow> caller option \<Rightarrow> string \<Rightarrow> store \<Rightarrow> string option \<times> store" where
  "ResumeSession now who sessionID st =
     (case getSessionForCaller who sessionID st of
        Inl e \<Rightarrow> (Some e, st)
      | Inr (s, c) \<Rightarrow>
          if se_Status s \<noteq> SessionStatusPaused then (Some ''can only resume from paused state'', st)
          else (None, update_status now SessionStatusActive (se_ID s) st))"

section \<open>Its messages\<close>

definition GetSessionMessages ::
  "caller option \<Rightarrow> string \<Rightarrow> int \<Rightarrow> int \<Rightarrow> store \<Rightarrow> string + (nat \<times> contract_message list)" where
  "GetSessionMessages who sessionID page perPage st =
     (case getSessionMessagesForCaller who sessionID st of
        Inl e \<Rightarrow> Inl e
      | Inr s \<Rightarrow>
          (let (rows, total) = db_GetSessionMessages (se_ID s) page perPage st
           in Inr (total, map (\<lambda>m. convertToContractSessionMessage m (se_PublicID s)) rows)))"

definition delete_message_call :: "int \<Rightarrow> caller option \<Rightarrow> nat \<Rightarrow> store \<Rightarrow> string option \<times> store" where
  "delete_message_call now who messageID st =
     (case GetMessageByID messageID st of
        None \<Rightarrow> (Some ''message not found'', st)
      | Some m \<Rightarrow>
          (case GetSessionByID (sm_SessionID m) st of
             None \<Rightarrow> (Some ''session not found'', st)
           | Some s \<Rightarrow>
               (case requireCallerOrg who of
                  Inl e \<Rightarrow> (Some e, st)
                | Inr c \<Rightarrow>
                    if se_OrgID s \<noteq> ca_OrgID c then (Some ''permission denied'', st)
                    else (case verifyUserPermission (se_Uin s) (ca_Uin c) of
                            Some e \<Rightarrow> (Some e, st)
                          | None \<Rightarrow> (None, DeleteMessage now messageID st)))))"

definition clear_messages_call :: "int \<Rightarrow> caller option \<Rightarrow> string \<Rightarrow> store \<Rightarrow> string option \<times> store" where
  "clear_messages_call now who sessionID st =
     (case getSessionForCaller who sessionID st of
        Inl e \<Rightarrow> (Some e, st)
      | Inr (s, c) \<Rightarrow>
          (None, db_UpdateSession now (s\<lparr>se_MessageCount := 0, se_LastMessageAt := None, se_UpdatedAt := now\<rparr>)
                   (ClearSessionMessages now (se_ID s) st)))"

section \<open>What is sent to the worker\<close>

text \<open>\<open>publish\<close> answers with the error of the bus; a command is put on the bus whatever it answers.\<close>

type_synonym bus = "string \<Rightarrow> worker_command \<Rightarrow> string option"

definition subject_text :: "subject_error \<Rightarrow> string" where
  "subject_text e =
     (case e of OrgID_required \<Rightarrow> ''orgID is required'' | WorkerID_required \<Rightarrow> ''workerID is required''
      | SessionID_required \<Rightarrow> ''sessionID is required'' | Lane_required \<Rightarrow> ''lane is required'')"

record cancel_request =
  cq_RunID :: string
  cq_Reason :: string

definition CancelSessionRun ::
  "bus \<Rightarrow> int \<Rightarrow> string \<Rightarrow> caller option \<Rightarrow> string \<Rightarrow> cancel_request \<Rightarrow> store \<Rightarrow>
   (string + string) \<times> (string \<times> worker_command) list" where
  "CancelSessionRun publish now newID who sessionID req st =
     (case getSessionForCaller who sessionID st of
        Inl e \<Rightarrow> (Inl e, [])
      | Inr (s, c) \<Rightarrow>
          (let workerID = se_AllocatedAssistantID s
           in if workerID = 0 then (Inr ''no_active_run'', [])
              else
                (case WorkerCommandSubject (ca_OrgID c) workerID LaneControl of
                   Inl e \<Rightarrow> (Inl (''build control topic: '' @ subject_text e), [])
                 | Inr topic \<Rightarrow>
                     (let cmd = NewCancelRunCommand now (''ctrl_'' @ newID)
                                  \<lparr>rt_org_id = ca_OrgID c, rt_session_id = sessionID, rt_worker_id = workerID\<rparr>
                                  \<lparr>cr_run_id = cq_RunID req, cr_reason = cq_Reason req\<rparr> (cq_RunID req)
                      in case publish topic cmd of
                           Some e \<Rightarrow> (Inl (''publish cancel control: '' @ e), [(topic, cmd)])
                         | None \<Rightarrow> (Inr ''cancelled'', [(topic, cmd)])))))"

record approval_call =
  pq_SessionID :: string
  pq_RequestID :: string
  pq_Action :: string
  pq_Reason :: string

record answer_call =
  nq_SessionID :: string
  nq_RequestID :: string
  nq_Answers :: "string slice slice"

text \<open>The worker of a session, or the default one of the organisation.\<close>

definition interaction_worker :: "worker_env \<Rightarrow> session \<Rightarrow> caller \<Rightarrow> nat" where
  "interaction_worker we s c =
     (if se_AllocatedAssistantID s = 0 then snd (resolveDefaultRuntimeWorker we (ca_OrgID c)) else se_AllocatedAssistantID s)"

definition SubmitApproval ::
  "worker_env \<Rightarrow> bus \<Rightarrow> int \<Rightarrow> string \<Rightarrow> caller option \<Rightarrow> approval_call \<Rightarrow> store \<Rightarrow>
   string option \<times> (string \<times> worker_command) list" where
  "SubmitApproval we publish now newID who req st =
     (case getSessionForCaller who (pq_SessionID req) st of
        Inl e \<Rightarrow> (Some e, [])
      | Inr (s, c) \<Rightarrow>
          (let workerID = interaction_worker we s c
           in case WorkerCommandSubject (ca_OrgID c) workerID LaneInteraction of
                Inl e \<Rightarrow> (Some (''build approval topic: '' @ subject_text e), [])
              | Inr topic \<Rightarrow>
                  (let cmd = NewApprovalResolveCommand now (''approval_'' @ newID)
                               \<lparr>rt_org_id = ca_OrgID c, rt_session_id = pq_SessionID req, rt_worker_id = workerID\<rparr>
                               \<lparr>ap_action = pq_Action req, ap_reason = pq_Reason req\<rparr> (pq_RequestID req)
                   in (publish topic cmd, [(topic, cmd)]))))"

definition SubmitQuestionAnswer ::
  "worker_env \<Rightarrow> bus \<Rightarrow> int \<Rightarrow> string \<Rightarrow> caller option \<Rightarrow> answer_call \<Rightarrow> store \<Rightarrow>
   string option \<times> (string \<times> worker_command) list" where
  "SubmitQuestionAnswer we publish now newID who req st =
     (case getSessionForCaller who (nq_SessionID req) st of
        Inl e \<Rightarrow> (Some e, [])
      | Inr (s, c) \<Rightarrow>
          (let workerID = interaction_worker we s c
           in case WorkerCommandSubject (ca_OrgID c) workerID LaneInteraction of
                Inl e \<Rightarrow> (Some (''build question answer topic: '' @ subject_text e), [])
              | Inr topic \<Rightarrow>
                  (let cmd = NewQuestionAnswerCommand now (''question_'' @ newID)
                               \<lparr>rt_org_id = ca_OrgID c, rt_session_id = nq_SessionID req, rt_worker_id = workerID\<rparr>
                               \<lparr>qp_answers = nq_Answers req\<rparr> (nq_RequestID req)
                   in (publish topic cmd, [(topic, cmd)]))))"

section \<open>Any call\<close>

datatype client_call =
    Create create_session_request
  | Update string update_session_request
  | Delete string
  | Activate string
  | Pause string
  | End string
  | Resume string
  | Delete_message nat
  | Clear string
  | Cancel_run string cancel_request
  | Approve approval_call
  | Answer answer_call
  | Expire

definition perform ::
  "worker_env \<Rightarrow> bus \<Rightarrow> int \<Rightarrow> string \<Rightarrow> caller option \<Rightarrow> client_call \<Rightarrow> store \<Rightarrow> (string \<times> worker_command) list \<times> store" where
  "perform we publish now newID who k st =
     (case k of
        Create req \<Rightarrow> ([], snd (CreateSession we now newID who req st))
      | Update p req \<Rightarrow> ([], snd (UpdateSession now who p req st))
      | Delete p \<Rightarrow> ([], snd (DeleteSession now who p st))
      | Activate p \<Rightarrow> ([], snd (ActivateSession now who p st))
      | Pause p \<Rightarrow> ([], snd (PauseSession now who p st))
      | End p \<Rightarrow> ([], snd (EndSession now who p st))
      | Resume p \<Rightarrow> ([], snd (ResumeSession now who p st))
      | Delete_message i \<Rightarrow> ([], snd (delete_message_call now who i st))
      | Clear p \<Rightarrow> ([], snd (clear_messages_call now who p st))
      | Cancel_run p req \<Rightarrow> (snd (CancelSessionRun publish now newID who p req st), st)
      | Approve req \<Rightarrow> (snd (SubmitApproval we publish now newID who req st), st)
      | Answer req \<Rightarrow> (snd (SubmitQuestionAnswer we publish now newID who req st), st)
      | Expire \<Rightarrow> ([], ExpireSessions now st))"

definition unique_sessions :: "store \<Rightarrow> bool" where
  "unique_sessions st \<longleftrightarrow> distinct (map se_ID (st_sessions st))"

definition owns :: "caller option \<Rightarrow> session \<Rightarrow> bool" where
  "owns who s \<longleftrightarrow> (\<exists>c. who = Some c \<and> ca_OrgID c = se_OrgID s \<and> ca_Uin c = se_Uin s)"

lemma found_session:
  "GetSessionByPublicID p st = Some s \<Longrightarrow> s \<in> set (st_sessions st) \<and> se_DeletedAt s = None \<and> se_PublicID s = p"
  by (auto simp: GetSessionByPublicID_def find_Some_iff)

lemma found_session_id: "GetSessionByID i st = Some s \<Longrightarrow> s \<in> set (st_sessions st) \<and> se_DeletedAt s = None \<and> se_ID s = i"
  by (auto simp: GetSessionByID_def find_Some_iff)

lemma same_session: "unique_sessions st \<Longrightarrow> s \<in> set (st_sessions st) \<Longrightarrow> r \<in> set (st_sessions st) \<Longrightarrow> se_ID s = se_ID r \<Longrightarrow> s = r"
  by (auto simp: unique_sessions_def distinct_map inj_on_def)

lemma caller_session:
  "getSessionForCaller who p st = Inr (s, c) \<Longrightarrow>
     GetSessionByPublicID p st = Some s \<and> who = Some c \<and> ca_OrgID c = se_OrgID s \<and> ca_Uin c = se_Uin s \<and> ca_OrgID c \<noteq> 0"
  by (auto simp: getSessionForCaller_def requireCallerOrg_def verifyUserPermission_def split: option.splits sum.splits if_splits)

lemma caller_owns: "getSessionForCaller who p st = Inr (s, c) \<Longrightarrow> owns who s"
  by (auto dest: caller_session simp: owns_def)

text \<open>What a call may do to the tables: nothing, add a session, change the one it names, or expire.\<close>

definition changes_only :: "session \<Rightarrow> store \<Rightarrow> store \<Rightarrow> bool" where
  "changes_only s st st' \<longleftrightarrow>
     (\<exists>f. st_sessions st' = map (\<lambda>r. if se_ID r = se_ID s then f r else r) (st_sessions st) \<and>
          (se_Status s = SessionStatusEnded \<longrightarrow> se_Status (f s) = SessionStatusEnded) \<and> se_ID (f s) = se_ID s) \<and>
     (\<forall>m \<in> set (st_messages st). sm_SessionID m \<noteq> se_ID s \<longrightarrow> m \<in> set (st_messages st'))"

lemma changes_update:
  assumes "se_Status s = SessionStatusEnded \<longrightarrow> se_Status (f s) = SessionStatusEnded" "se_ID (f s) = se_ID s"
  shows "changes_only s st (update_session (se_ID s) f st)"
  unfolding changes_only_def
  by (intro conjI exI [of _ "\<lambda>r. if se_DeletedAt r = None then f r else r"]) (use assms in \<open>auto simp: update_session_def\<close>)

lemma changes_save:
  assumes "se_ID s' = se_ID s" "se_Status s' = se_Status s"
    "\<And>m. m \<in> set (st_messages st) \<Longrightarrow> sm_SessionID m \<noteq> se_ID s \<Longrightarrow> m \<in> set (st_messages st0)" "st_sessions st0 = st_sessions st"
  shows "changes_only s st (db_UpdateSession now s' st0)"
  unfolding changes_only_def
  by (intro conjI exI [of _ "\<lambda>r. s'\<lparr>se_UpdatedAt := now\<rparr>"]) (use assms in \<open>auto simp: db_UpdateSession_def\<close>)

lemma updated_by_kept [simp]:
  "se_ID (updated_by req s) = se_ID s" "se_Status (updated_by req s) = se_Status s"
  by (simp_all add: updated_by_def Let_def split: option.split)

lemma changes_status:
  "se_Status s \<noteq> SessionStatusEnded \<Longrightarrow> changes_only s st (update_status now v (se_ID s) st)"
  unfolding update_status_def by (rule changes_update) simp_all

lemma session_calls_change:
  assumes "getSessionForCaller who p st = Inr (s, c)"
  shows "changes_only s st (snd (UpdateSession now who p req st))" "changes_only s st (snd (DeleteSession now who p st))"
    and "snd (ActivateSession now who p st) = st \<or> changes_only s st (snd (ActivateSession now who p st))"
    and "snd (PauseSession now who p st) = st \<or> changes_only s st (snd (PauseSession now who p st))"
    and "snd (EndSession now who p st) = st \<or> changes_only s st (snd (EndSession now who p st))"
    and "snd (ResumeSession now who p st) = st \<or> changes_only s st (snd (ResumeSession now who p st))"
    and "changes_only s st (snd (clear_messages_call now who p st))"
proof -
  note refl = assms
  show "changes_only s st (snd (UpdateSession now who p req st))"
    using assms by (auto simp: UpdateSession_def Let_def intro!: changes_save)
  show "changes_only s st (snd (DeleteSession now who p st))"
    using assms by (auto simp: DeleteSession_def db_DeleteSession_def intro!: changes_update)
  show "changes_only s st (snd (clear_messages_call now who p st))"
    using assms by (auto simp: clear_messages_call_def ClearSessionMessages_def image_iff intro!: changes_save)
  show "snd (ActivateSession now who p st) = st \<or> changes_only s st (snd (ActivateSession now who p st))"
    using assms by (auto simp: ActivateSession_def intro!: changes_status)
  show "snd (PauseSession now who p st) = st \<or> changes_only s st (snd (PauseSession now who p st))"
    using assms by (auto simp: PauseSession_def intro!: changes_status)
  show "snd (EndSession now who p st) = st \<or> changes_only s st (snd (EndSession now who p st))"
    using assms by (auto simp: EndSession_def intro!: changes_status)
  show "snd (ResumeSession now who p st) = st \<or> changes_only s st (snd (ResumeSession now who p st))"
    using assms by (auto simp: ResumeSession_def session_statuses intro!: changes_status)
qed

lemma refused_calls:
  assumes "getSessionForCaller who p st = Inl e"
  shows "snd (UpdateSession now who p req st) = st" "snd (DeleteSession now who p st) = st" "snd (ActivateSession now who p st) = st"
    "snd (PauseSession now who p st) = st" "snd (EndSession now who p st) = st" "snd (ResumeSession now who p st) = st"
    "snd (clear_messages_call now who p st) = st"
  using assms
  by (simp_all add: UpdateSession_def DeleteSession_def ActivateSession_def PauseSession_def EndSession_def ResumeSession_def
      clear_messages_call_def)

lemma delete_message_cases:
  "snd (delete_message_call now who i st) = st \<or>
   (\<exists>m s. GetMessageByID i st = Some m \<and> GetSessionByID (sm_SessionID m) st = Some s \<and> owns who s \<and>
      snd (delete_message_call now who i st) = DeleteMessage now i st)"
  by (auto simp: delete_message_call_def requireCallerOrg_def verifyUserPermission_def owns_def split: option.split sum.splits)

lemma create_cases:
  "snd (CreateSession we now newID who req st) = st \<or>
   (\<exists>row. st_sessions (snd (CreateSession we now newID who req st)) = st_sessions st @ [row] \<and> se_ID row = next_session_id st \<and>
      st_messages (snd (CreateSession we now newID who req st)) = st_messages st)"
  by (auto simp: CreateSession_def Let_def db_CreateSession_def split: option.split sum.split)

section \<open>Sessions are private\<close>

lemma perform_cases:
  fixes k :: client_call
  obtains (same) "snd (perform we publish now newID who k st) = st"
  | (create) row where "st_sessions (snd (perform we publish now newID who k st)) = st_sessions st @ [row]"
      "se_ID row = next_session_id st" "st_messages (snd (perform we publish now newID who k st)) = st_messages st"
  | (own) s where "s \<in> set (st_sessions st)" "owns who s" "changes_only s st (snd (perform we publish now newID who k st))"
  | (message) i m s where "GetMessageByID i st = Some m" "GetSessionByID (sm_SessionID m) st = Some s" "owns who s"
      "snd (perform we publish now newID who k st) = DeleteMessage now i st"
  | (expire) "snd (perform we publish now newID who k st) = ExpireSessions now st" "k = Expire"
proof -
  have call: thesis if "\<And>e. getSessionForCaller who p st = Inl e \<Longrightarrow> snd (perform we publish now newID who k st) = st"
    and "\<And>s c. getSessionForCaller who p st = Inr (s, c) \<Longrightarrow>
      snd (perform we publish now newID who k st) = st \<or> changes_only s st (snd (perform we publish now newID who k st))" for p
  proof (cases "getSessionForCaller who p st")
    case (Inr a)
    obtain s c where a: "a = (s, c)" by (cases a)
    from that(2) [of s c] Inr a caller_owns [of who p st s c] caller_session [of who p st s c] found_session [of p st s]
    show thesis by (auto intro: same own)
  qed (use that(1) same in blast)
  show thesis
  proof (cases k)
    case (Create req)
    from create_cases [of we now newID who req st] Create show thesis by (auto simp: perform_def intro: same create)
  next
    case (Delete_message i)
    from delete_message_cases [of now who i st] Delete_message show thesis by (auto simp: perform_def intro: same message)
  next
    case Expire
    then show thesis by (intro expire) (simp_all add: perform_def)
  next
    case (Update p req)
    then show thesis by (intro call [of p]) (simp_all add: perform_def refused_calls session_calls_change)
  next
    case (Delete p)
    then show thesis by (intro call [of p]) (simp_all add: perform_def refused_calls session_calls_change)
  next
    case (Activate p)
    then show thesis by (intro call [of p]) (simp_all add: perform_def refused_calls session_calls_change)
  next
    case (Pause p)
    then show thesis by (intro call [of p]) (simp_all add: perform_def refused_calls session_calls_change)
  next
    case (End p)
    then show thesis by (intro call [of p]) (simp_all add: perform_def refused_calls session_calls_change)
  next
    case (Resume p)
    then show thesis by (intro call [of p]) (simp_all add: perform_def refused_calls session_calls_change)
  next
    case (Clear p)
    then show thesis by (intro call [of p]) (simp_all add: perform_def refused_calls session_calls_change)
  qed (use same in \<open>simp_all add: perform_def\<close>)
qed

lemma sent_commands:
  assumes "(topic, cmd) \<in> set (fst (perform we publish now newID who k st))"
  shows "\<exists>s c. getSessionForCaller who (rt_session_id (env_route cmd)) st = Inr (s, c) \<and> rt_org_id (env_route cmd) = se_OrgID s"
  using assms
  by (cases k)
    (auto simp: perform_def CancelSessionRun_def SubmitApproval_def SubmitQuestionAnswer_def Let_def command_builders
      dest: caller_session split: sum.splits option.splits if_splits)


section \<open>The life of a session\<close>

lemma next_session_id_fresh: "s \<in> set (st_sessions st) \<Longrightarrow> se_ID s < next_session_id st"
proof -
  have "x \<le> fold max xs a \<and> a \<le> fold max xs a" if "x \<in> set xs \<or> x = a" for x a and xs :: "nat list"
    using that by (induction xs arbitrary: a x) (auto intro: order_trans [OF max.cobounded1] order_trans [OF max.cobounded2])
  then show "s \<in> set (st_sessions st) \<Longrightarrow> ?thesis" by (simp add: next_session_id_def less_Suc_eq_le)
qed

lemma unique_after:
  assumes "unique_sessions st"
  shows "unique_sessions (snd (perform we publish now newID who k st))"
proof (cases rule: perform_cases [of we publish now newID who k st])
  case (create row)
  then show ?thesis using assms next_session_id_fresh [of _ st] by (force simp: unique_sessions_def)
next
  case (own s)
  then obtain f where f: "st_sessions (snd (perform we publish now newID who k st)) =
      map (\<lambda>r. if se_ID r = se_ID s then f r else r) (st_sessions st)" "se_ID (f s) = se_ID s" by (auto simp: changes_only_def)
  have "map se_ID (map (\<lambda>r. if se_ID r = se_ID s then f r else r) (st_sessions st)) = map se_ID (st_sessions st)"
  proof -
    have "x = s" if "x \<in> set (st_sessions st)" "se_ID x = se_ID s" for x by (rule same_session [OF assms that(1) own(1) that(2)])
    then show ?thesis using f(2) by force
  qed
  then show ?thesis using assms unfolding unique_sessions_def f(1) by metis
qed (use assms in \<open>simp_all add: unique_sessions_def DeleteMessage_def ExpireSessions_def comp_def if_distrib cong: if_cong\<close>)

definition run_calls ::
  "worker_env \<Rightarrow> bus \<Rightarrow> (int \<times> string \<times> caller option \<times> client_call) list \<Rightarrow> store \<Rightarrow> store" where
  "run_calls we publish ks st = foldl (\<lambda>st (now, newID, who, k). snd (perform we publish now newID who k st)) st ks"

definition ended_row :: "nat \<Rightarrow> store \<Rightarrow> bool" where
  "ended_row i st \<longleftrightarrow> (\<exists>s \<in> set (st_sessions st). se_ID s = i \<and> se_Status s = SessionStatusEnded)"

lemma ended_after:
  assumes "unique_sessions st" "ended_row i st"
  shows "ended_row i (snd (perform we publish now newID who k st))"
proof -
  obtain r where r: "r \<in> set (st_sessions st)" "se_ID r = i" "se_Status r = SessionStatusEnded"
    using assms(2) by (auto simp: ended_row_def)
  show ?thesis
  proof (cases rule: perform_cases [of we publish now newID who k st])
    case (own s)
    then obtain f where f: "st_sessions (snd (perform we publish now newID who k st)) =
        map (\<lambda>r. if se_ID r = se_ID s then f r else r) (st_sessions st)" "se_ID (f s) = se_ID s"
        "se_Status s = SessionStatusEnded \<longrightarrow> se_Status (f s) = SessionStatusEnded" by (auto simp: changes_only_def)
    let ?r = "if se_ID r = se_ID s then f r else r"
    have "?r \<in> set (st_sessions (snd (perform we publish now newID who k st)))" unfolding f(1) using r(1) by auto
    moreover have "se_ID ?r = i \<and> se_Status ?r = SessionStatusEnded"
    proof (cases "se_ID r = se_ID s")
      case True
      then have "r = s" by (rule same_session [OF assms(1) r(1) own(1)])
      then show ?thesis using f(2,3) r by simp
    qed (use r in simp)
    ultimately show ?thesis by (auto simp: ended_row_def)
  next
    case expire
    let ?f = "\<lambda>s. if se_DeletedAt s = None \<and> se_Status s = SessionStatusActive \<and> (case se_ExpiredAt s of Some t \<Rightarrow> t \<le> now | None \<Rightarrow> False)
          then s\<lparr>se_Status := SessionStatusExpired, se_UpdatedAt := now\<rparr> else s"
    have "?f r = r" using r(3) by (simp add: session_statuses)
    then have "r \<in> set (map ?f (st_sessions st))" using r(1) unfolding set_map by (intro image_eqI [of r ?f r]) simp_all
    moreover have "st_sessions (snd (perform we publish now newID who k st)) = map ?f (st_sessions st)"
      unfolding expire(1) ExpireSessions_def by simp
    ultimately show ?thesis using r(2,3) unfolding ended_row_def by (intro bexI [of _ r]) simp_all
  next
    case (message j m s)
    then show ?thesis using r unfolding ended_row_def by (intro bexI [of _ r]) (simp_all add: DeleteMessage_def)
  next
    case (create row)
    then show ?thesis using r unfolding ended_row_def by (intro bexI [of _ r]) simp_all
  next
    case same
    then show ?thesis using assms(2) by simp
  qed
qed


section \<open>Commands reach what they are for\<close>


text \<open>C24: An approval resolves the call with its request id, as it was submitted: the command that \<open>SubmitApproval\<close> publishes makes
  the worker's router hand the same action and reason to the call registered under that id, in whatever session that call is made.
  The session that the caller owns only chooses the worker.\<close>

theorem approval_reaches_its_call:
  assumes "getSessionForCaller who (pq_SessionID req) st = Inr (s, c)" "0 < se_AllocatedAssistantID s"
    "dk_pending (ir_pendingApproval r) (pq_RequestID req) = Some ch"
  shows "\<exists>topic cmd r'. SubmitApproval we publish now newID who req st = (publish topic cmd, [(topic, cmd)]) \<and>
     WorkerCommandSubject (se_OrgID s) (se_AllocatedAssistantID s) LaneInteraction = Inr topic \<and>
     HandleInteractionCommand router_resolver cmd r = (None, r') \<and>
     dk_sending (ir_pendingApproval r') =
       Some (ch, \<lparr>ad_RequestID = pq_RequestID req, ad_Action = pq_Action req, ad_Reason = pq_Reason req\<rparr>)"
proof -
  have c: "ca_OrgID c = se_OrgID s" "se_OrgID s \<noteq> 0" using caller_session [OF assms(1)] by auto
  let ?cmd = "NewApprovalResolveCommand now (''approval_'' @ newID)
      \<lparr>rt_org_id = se_OrgID s, rt_session_id = pq_SessionID req, rt_worker_id = se_AllocatedAssistantID s\<rparr>
      \<lparr>ap_action = pq_Action req, ap_reason = pq_Reason req\<rparr> (pq_RequestID req)"
  obtain topic where t: "WorkerCommandSubject (se_OrgID s) (se_AllocatedAssistantID s) LaneInteraction = Inr topic"
    using c(2) assms(2) by (simp add: WorkerCommandSubject_def msg_defs)
  have sent: "SubmitApproval we publish now newID who req st = (publish topic ?cmd, [(topic, ?cmd)])"
    using assms c t by (simp add: SubmitApproval_def interaction_worker_def Let_def)
  have "tx_request_id (env_trace ?cmd) = pq_RequestID req" "wb_command_type (env_body ?cmd) = CommandTypeApprovalResolve"
    "DecodeCommandPayload (dec_struct dec_approval_resolve_payload) (Some (env_body ?cmd)) =
      Inr \<lparr>ap_action = pq_Action req, ap_reason = pq_Reason req\<rparr>"
    by (simp_all add: command_builders approval_codec.decode_built)
  then have "HandleInteractionCommand router_resolver ?cmd r =
      (None, snd (ResolveApproval (pq_RequestID req) (pq_Action req) (pq_Reason req) r))"
    using assms(3) by (simp add: HandleInteractionCommand_def handleApproval_def router_resolver_def ResolveApproval_def find_call_def)
  moreover have "dk_sending (ir_pendingApproval (snd (ResolveApproval (pq_RequestID req) (pq_Action req) (pq_Reason req) r))) =
      Some (ch, \<lparr>ad_RequestID = pq_RequestID req, ad_Action = pq_Action req, ad_Reason = pq_Reason req\<rparr>)"
    using assms(3) by (simp add: ResolveApproval_def find_call_def)
  ultimately show ?thesis using sent t by blast
qed

section \<open>Witnesses\<close>

definition demo_owner :: caller where
  "demo_owner = \<lparr>ca_Uin = 3, ca_OrgID = 7, ca_WorkerID = 0, ca_Kind = ''user''\<rparr>"

definition demo_message_row :: session_message where
  "demo_message_row = posted_row demo_post demo_session 4 demo_hi demo_store"

definition demo_tables_ended :: store where
  "demo_tables_ended = demo_store\<lparr>st_sessions := [demo_session\<lparr>se_Status := SessionStatusEnded\<rparr>], st_messages := [demo_message_row]\<rparr>"

lemma demo_owner_session:
  "getSessionForCaller (Some demo_owner) ''s'' demo_store = Inr (demo_session, demo_owner)"
  by (simp add: getSessionForCaller_def requireCallerOrg_def demo_session_found(1) verifyUserPermission_def demo_owner_def demo_session_def)

text \<open>A server without worker deployments, and a bus that takes every command.\<close>

definition demo_workers :: worker_env where
  "demo_workers = \<lparr>we_byAssistant = \<lambda>_. None, we_default = \<lambda>_. None, we_inferrer = None\<rparr>"

definition demo_bus :: bus where "demo_bus topic cmd = None"




lemma approval_reaches_its_call_witness:
  "\<exists>topic cmd r'. SubmitApproval demo_workers demo_bus 9 ''x'' (Some demo_owner)
       \<lparr>pq_SessionID = ''s'', pq_RequestID = ''r1'', pq_Action = ''deny'', pq_Reason = ''no''\<rparr> demo_store = (None, [(topic, cmd)]) \<and>
     HandleInteractionCommand router_resolver cmd (NewInteractionRouter\<lparr>ir_pendingApproval := demo_desk [''r1'']\<rparr>) = (None, r') \<and>
     dk_sending (ir_pendingApproval r') = Some (0, \<lparr>ad_RequestID = ''r1'', ad_Action = ''deny'', ad_Reason = ''no''\<rparr>)"
proof -
  let ?req = "\<lparr>pq_SessionID = ''s'', pq_RequestID = ''r1'', pq_Action = ''deny'', pq_Reason = ''no''\<rparr>"
  let ?r = "NewInteractionRouter\<lparr>ir_pendingApproval := demo_desk [''r1'']\<rparr>"
  have "getSessionForCaller (Some demo_owner) (pq_SessionID ?req) demo_store = Inr (demo_session, demo_owner)"
    by (simp add: demo_owner_session)
  moreover have "0 < se_AllocatedAssistantID demo_session" by (simp add: demo_session_def)
  moreover have "dk_pending (ir_pendingApproval ?r) (pq_RequestID ?req) = Some 0"
    by (simp add: demo_desk_def register_call_def new_desk_def)
  ultimately show ?thesis using approval_reaches_its_call [of "Some demo_owner" ?req demo_store demo_session demo_owner ?r 0 demo_workers demo_bus 9 "''x''"]
    by (auto simp: demo_bus_def)
qed

end
