(* ===== verification/Runes.thy ===== *)
theory Runes
  imports Prelude
begin

text \<open>
  Go's conversion of a string to runes and back (\<open>[]rune(s)\<close>, \<open>string(runes[:n])\<close>). A rune is kept as its UTF-8 encoding; a
  byte that starts no valid encoding is one rune of its own, U+FFFD.

  Lemmas: cutting a string after \<open>n\<close> runes leaves at most \<open>n\<close>, and cutting again changes nothing.
\<close>

definition code :: "char \<Rightarrow> nat" where "code c = of_char c"

definition replacement :: string where
  "replacement = [CHR 0xEF, CHR 0xBF, CHR 0xBD]"

definition cont_byte :: "nat \<Rightarrow> nat \<Rightarrow> char \<Rightarrow> bool" where
  "cont_byte lo hi c \<longleftrightarrow> lo \<le> code c \<and> code c \<le> hi"

text \<open>The encoding that the string starts with, if any: the first byte fixes the length and the range of the second byte.\<close>

definition rune_at :: "string \<Rightarrow> string option" where
  "rune_at s =
     (case s of
        [] \<Rightarrow> None
      | c # r \<Rightarrow>
          if code c < 128 then Some [c]
          else if 194 \<le> code c \<and> code c \<le> 223 then
            (case r of c1 # _ \<Rightarrow> if cont_byte 128 191 c1 then Some [c, c1] else None | [] \<Rightarrow> None)
          else if 224 \<le> code c \<and> code c \<le> 239 then
            (case r of
               c1 # c2 # _ \<Rightarrow>
                 if cont_byte (if code c = 224 then 160 else 128) (if code c = 237 then 159 else 191) c1 \<and> cont_byte 128 191 c2
                 then Some [c, c1, c2] else None
             | _ \<Rightarrow> None)
          else if 240 \<le> code c \<and> code c \<le> 244 then
            (case r of
               c1 # c2 # c3 # _ \<Rightarrow>
                 if cont_byte (if code c = 240 then 144 else 128) (if code c = 244 then 143 else 191) c1 \<and>
                    cont_byte 128 191 c2 \<and> cont_byte 128 191 c3
                 then Some [c, c1, c2, c3] else None
             | _ \<Rightarrow> None)
          else None)"

lemma rune_at_prefix: "rune_at s = Some x \<Longrightarrow> x \<noteq> [] \<and> prefix x s"
  by (auto simp: rune_at_def split: list.splits if_splits)

lemma rune_at_append:
  assumes "rune_at s = Some x"
  shows "rune_at (x @ t) = Some x"
proof -
  obtain c r where s: "s = c # r" using assms by (cases s) (simp_all add: rune_at_def)
  from assms show ?thesis
    unfolding s rune_at_def list.case
    by (auto split: if_split_asm list.split_asm)
qed

function runes :: "string \<Rightarrow> string list" where
  "runes [] = []"
| "runes (c # s) =
     (case rune_at (c # s) of
        None \<Rightarrow> replacement # runes s
      | Some x \<Rightarrow> x # runes (drop (length x) (c # s)))"
  by pat_completeness auto
termination
proof (relation "measure length", goal_cases)
  case (3 c s x)
  then have "x \<noteq> []" using rune_at_prefix by blast
  then have "0 < length x" by simp
  then show ?case by (simp add: diff_less_mono2)
qed simp_all

declare runes.simps [simp del]

definition first_runes :: "nat \<Rightarrow> string \<Rightarrow> string" where
  "first_runes n s = concat (take n (runes s))"

lemma rune_replacement: "rune_at replacement = Some replacement"
  by (simp add: rune_at_def replacement_def cont_byte_def code_def)

lemma runes_valid: "x \<in> set (runes s) \<Longrightarrow> rune_at x = Some x"
proof (induction s rule: runes.induct)
  case (2 c s)
  show ?case
  proof (cases "rune_at (c # s)")
    case None
    then show ?thesis using 2 rune_replacement by (auto simp: runes.simps(2))
  next
    case (Some y)
    then show ?thesis using 2 rune_at_append [OF Some, of "[]"] by (auto simp: runes.simps(2))
  qed
qed (simp add: runes.simps)

lemma runes_concat: "list_all (\<lambda>x. rune_at x = Some x) xs \<Longrightarrow> runes (concat xs) = xs"
proof (induction xs)
  case (Cons x xs)
  then have x: "rune_at x = Some x" "x \<noteq> []" using rune_at_prefix by auto
  then obtain c r where cr: "x = c # r" by (cases x) auto
  have "rune_at (x @ concat xs) = Some x" by (rule rune_at_append [OF x(1)])
  then have "runes (x @ concat xs) = x # runes (drop (length x) (x @ concat xs))" by (simp add: cr runes.simps(2))
  then show ?case using Cons by simp
qed (simp add: runes.simps)

lemma runes_first: "runes (first_runes n s) = take n (runes s)"
  unfolding first_runes_def
  by (rule runes_concat) (auto simp: list_all_iff dest: in_set_takeD runes_valid)

lemma length_first_runes: "length (runes (first_runes n s)) \<le> n"
  by (simp add: runes_first)

lemma first_runes_idem: "first_runes n (first_runes n s) = first_runes n s"
  by (simp add: first_runes_def [of n "first_runes n s"] runes_first) (simp add: first_runes_def)

end
