(* ===== verification/Titles.thy ===== *)
theory Titles
  imports SessionCalls Runes
begin

text \<open>
  Titles that a language model generates in the background (\<open>HandleSessionTitleRequest\<close> and what it calls in
  \<open>backend/internal/service/session_service.go\<close>). A request reads the rows, asks the model, which takes seconds, and writes the rows it
  read back whole; what everybody else does to the tables while the model is asked is an argument, a function on the
  tables. Of a project and a task the model has the columns that the code reads or changes.

  Lemmas: the form of a generated title; what a late title does to a session that has changed meanwhile; who is shown a new work title.
\<close>

section \<open>Rows\<close>

record work_row =
  wk_ID :: nat
  wk_PublicID :: string
  wk_Text :: string
  wk_UpdatedAt :: int
  wk_DeletedAt :: "int option"

text \<open>\<open>wk_Text\<close> is the name of a project and the title of a task.\<close>

record work_tables =
  wt_store :: store
  wt_projects :: "work_row list"
  wt_tasks :: "work_row list"

definition live_row :: "nat \<Rightarrow> work_row list \<Rightarrow> work_row option" where
  "live_row i rows = find (\<lambda>r. wk_DeletedAt r = None \<and> wk_ID r = i) rows"

definition save_row :: "int \<Rightarrow> work_row \<Rightarrow> work_row list \<Rightarrow> work_row list" where
  "save_row now r rows = map (\<lambda>x. if wk_ID x = wk_ID r then r\<lparr>wk_UpdatedAt := now\<rparr> else x) rows"

definition GetLatestMessage :: "nat \<Rightarrow> store \<Rightarrow> session_message option" where
  "GetLatestMessage sessionID st =
     (case rev (sort_key sm_Sequence (live_messages sessionID st)) of [] \<Rightarrow> None | m # _ \<Rightarrow> Some m)"

definition GetRecentSessionMessages :: "nat \<Rightarrow> nat \<Rightarrow> store \<Rightarrow> session_message list" where
  "GetRecentSessionMessages sessionID limit st =
     rev (take limit (rev (sort_key sm_Sequence (live_messages sessionID st))))"

definition firstUserMessage :: "nat \<Rightarrow> store \<Rightarrow> session_message option" where
  "firstUserMessage sessionID st =
     (case sort_key sm_Sequence (filter (\<lambda>m. sm_Role m = MessageRoleUser) (live_messages sessionID st)) of
        [] \<Rightarrow> None | m # _ \<Rightarrow> Some m)"

section \<open>Texts\<close>

definition workTitleMaxRunes :: nat where "workTitleMaxRunes = 50"

definition quotes :: "string list" where
  "quotes =
     [[CHR 0x22], [CHR 0x27], [CHR 0x60],
      [CHR 0xE2, CHR 0x80, CHR 0x9C], [CHR 0xE2, CHR 0x80, CHR 0x9D], [CHR 0xE2, CHR 0x80, CHR 0x98],
      [CHR 0xE2, CHR 0x80, CHR 0x99], [CHR 0xE3, CHR 0x80, CHR 0x8C], [CHR 0xE3, CHR 0x80, CHR 0x8D],
      [CHR 0xE3, CHR 0x80, CHR 0x8E], [CHR 0xE3, CHR 0x80, CHR 0x8F]]"

definition trim_quotes :: "string \<Rightarrow> string" where
  "trim_quotes s = rev (strip (map rev quotes) (rev (strip quotes s)))"

definition fallbackWorkTitle :: "string \<Rightarrow> string" where
  "fallbackWorkTitle message = first_runes workTitleMaxRunes (trim_space message)"

definition sanitizeGeneratedWorkTitle :: "string \<Rightarrow> string" where
  "sanitizeGeneratedWorkTitle title =
     (let title = trim_space (trim_quotes (trim_space title))
      in if workTitleMaxRunes < length (runes title) then first_runes workTitleMaxRunes title else title)"

definition buildRecentMessages :: "nat \<Rightarrow> store \<Rightarrow> string" where
  "buildRecentMessages sessionID st =
     concat (map (\<lambda>m. sm_Role m @ '': '' @ sm_Content m @ [CHR 0x0A]) (GetRecentSessionMessages sessionID 10 st))"

section \<open>The title of a session\<close>

text \<open>What the model answers: a text, and whether the call failed.\<close>

record title_model =
  tm_session :: "string \<Rightarrow> string \<Rightarrow> string \<times> bool"
  tm_work :: "string \<Rightarrow> string \<times> bool"

text \<open>\<open>session\<close> is the row as it was read; \<open>others\<close> is what happens to the tables until the model has answered. The result is the row in
  memory and the tables.\<close>

definition renameSession ::
  "title_model \<Rightarrow> int \<Rightarrow> (work_tables \<Rightarrow> work_tables) \<Rightarrow> session \<Rightarrow> work_tables \<Rightarrow> session \<times> work_tables" where
  "renameSession tm now others session w =
     (let recent = buildRecentMessages (se_ID session) (wt_store w);
          (text, failed) = tm_session tm (se_Title session) recent;
          title = trim_space text;
          w = others w;
          update = (\<lambda>title. let s = session\<lparr>se_Title := title, se_UpdatedAt := now\<rparr>
                             in (s, w\<lparr>wt_store := db_UpdateSession now s (wt_store w)\<rparr>))
      in if failed then
           if se_Title session \<noteq> [] \<and> se_Title session \<noteq> ''New Session'' then (session, w)
           else
             (let title = (case GetLatestMessage (se_ID session) (wt_store w) of
                             None \<Rightarrow> title
                           | Some m \<Rightarrow> if 100 < length (runes (sm_Content m)) then first_runes 100 (sm_Content m) else sm_Content m)
              in if title = [] then (session, w) else update title)
         else if title = ''KEEP'' then (session, w)
         else update title)"

definition tryAutoUpdateTitle ::
  "title_model \<Rightarrow> int \<Rightarrow> (work_tables \<Rightarrow> work_tables) \<Rightarrow> session \<Rightarrow> work_tables \<Rightarrow> session \<times> work_tables" where
  "tryAutoUpdateTitle tm now others session w =
     (if se_TitleManuallySet session then (session, w)
      else if 3 \<le> se_MessageCount session then (session, w)
      else renameSession tm now others session w)"

section \<open>The title of a project and a task\<close>

definition work_title_of :: "session \<Rightarrow> work_row \<Rightarrow> work_row \<Rightarrow> m_work_title" where
  "work_title_of session project task =
     \<lparr>mwt_project_id = wk_PublicID project, mwt_project_name = wk_Text project, mwt_task_id = wk_PublicID task,
      mwt_task_title = wk_Text task, mwt_session_id = se_PublicID session, mwt_session_title = se_Title session\<rparr>"

definition work_title_event :: "int \<Rightarrow> session \<Rightarrow> work_row \<Rightarrow> work_row \<Rightarrow> run_event" where
  "work_title_event now session project task =
     \<lparr>env_id = ''work-title:'' @ se_PublicID session @ '':'' @ show_int (now div 1000000), env_type = MessageTypeRunEvent,
      env_created_at = now, env_trace = no_trace,
      env_route = \<lparr>rt_org_id = se_OrgID session, rt_session_id = se_PublicID session, rt_worker_id = 0\<rparr>,
      env_body = \<lparr>rb_seq = now div 1000000, rb_event = RunEventWorkTitleUpdated,
        rb_payload = (plain_payload [])\<lparr>rp_role := [], rp_work_title := Some (work_title_of session project task)\<rparr>,
        rb_reply_to = [], rb_run_completed = None, rb_error = None\<rparr>,
      env_metadata = Raw_empty\<rparr>"

definition publishWorkTitleUpdated :: "int \<Rightarrow> session \<Rightarrow> work_row \<Rightarrow> work_row \<Rightarrow> (string \<times> run_event) list" where
  "publishWorkTitleUpdated now session project task =
     (if se_OrgID session = 0 \<or> se_PublicID session = [] then []
      else
        (case RunEventSubject (se_OrgID session) (se_PublicID session) RunEventLaneState of
           Inl _ \<Rightarrow> []
         | Inr topic \<Rightarrow> [(topic, work_title_event now session project task)]))"

definition tryAutoUpdateWorkTitle ::
  "title_model \<Rightarrow> int \<Rightarrow> (work_tables \<Rightarrow> work_tables) \<Rightarrow> session \<Rightarrow> work_tables \<Rightarrow> (string \<times> run_event) list \<times> work_tables" where
  "tryAutoUpdateWorkTitle tm now others session w =
     (if se_Type session \<noteq> ''task'' \<or> 3 \<le> se_MessageCount session then ([], w)
      else
        (case (se_ProjectID session, se_TaskID session) of
           (Some p, Some t) \<Rightarrow>
             (case (live_row p (wt_projects w), live_row t (wt_tasks w), firstUserMessage (se_ID session) (wt_store w)) of
                (Some project, Some task, Some first) \<Rightarrow>
                  (let fallback = fallbackWorkTitle (sm_Content first)
                   in if wk_Text project \<noteq> fallback \<and> wk_Text task \<noteq> fallback then ([], w)
                      else
                        (let (text, failed) = tm_work tm (sm_Content first);
                             title = sanitizeGeneratedWorkTitle text;
                             w = others w
                         in if failed \<or> title = [] then ([], w)
                            else
                              (let project' = (if wk_Text project = fallback then project\<lparr>wk_Text := title, wk_UpdatedAt := now\<rparr> else project);
                                   projects' = (if wk_Text project = fallback then save_row now project' (wt_projects w) else wt_projects w);
                                   task' = (if wk_Text task = fallback then task\<lparr>wk_Text := title, wk_UpdatedAt := now\<rparr> else task);
                                   tasks' = (if wk_Text task = fallback then save_row now task' (wt_tasks w) else wt_tasks w);
                                   session' = (if se_Title session = fallback
                                     then session\<lparr>se_Title := title, se_UpdatedAt := now\<rparr> else session);
                                   store' = (if se_Title session = fallback
                                     then db_UpdateSession now session' (wt_store w) else wt_store w)
                               in (publishWorkTitleUpdated now session' project' task',
                                   w\<lparr>wt_store := store', wt_projects := projects', wt_tasks := tasks'\<rparr>))))
              | _ \<Rightarrow> ([], w))
         | _ \<Rightarrow> ([], w)))"

definition HandleSessionTitleRequest ::
  "title_model \<Rightarrow> int \<Rightarrow> (work_tables \<Rightarrow> work_tables) \<Rightarrow> (work_tables \<Rightarrow> work_tables) \<Rightarrow> string \<Rightarrow> work_tables \<Rightarrow>
   (string \<times> run_event) list \<times> work_tables" where
  "HandleSessionTitleRequest tm now others others' sessionID w =
     (case GetSessionByPublicID sessionID (wt_store w) of
        None \<Rightarrow> ([], w)
      | Some session \<Rightarrow>
          (let (session, w) = tryAutoUpdateTitle tm now others session w
           in tryAutoUpdateWorkTitle tm now others' session w))"

section \<open>Properties\<close>

lemma title_form:
  "length (runes (fallbackWorkTitle c)) \<le> workTitleMaxRunes" "length (runes (sanitizeGeneratedWorkTitle c)) \<le> workTitleMaxRunes"
  by (simp_all add: fallbackWorkTitle_def sanitizeGeneratedWorkTitle_def Let_def length_first_runes)

lemma saved_row:
  "r \<in> set (st_sessions st) \<Longrightarrow> se_ID r = se_ID s \<Longrightarrow> s\<lparr>se_UpdatedAt := now\<rparr> \<in> set (st_sessions (db_UpdateSession now s st))"
  by (force simp: db_UpdateSession_def)

text \<open>C26: A late title undoes what happened meanwhile: when the model answers a title for a session whose row was read before, the whole
  row is written back as it was read, so a session that has been ended, deleted, renamed by its user or posted to since then is live
  again with its old status, its old number of messages and the generated title.\<close>

theorem late_title_undoes:
  assumes "GetSessionByPublicID p (wt_store w) = Some s" "\<not> se_TitleManuallySet s" "se_MessageCount s < 3"
    and "tm_session tm (se_Title s) (buildRecentMessages (se_ID s) (wt_store w)) = (text, False)" "trim_space text \<noteq> ''KEEP''"
    and "r \<in> set (st_sessions (wt_store (others w)))" "se_ID r = se_ID s"
  shows "\<exists>s' w'. tryAutoUpdateTitle tm now others s w = (s', w') \<and> s' = s\<lparr>se_Title := trim_space text, se_UpdatedAt := now\<rparr> \<and>
     s' \<in> set (st_sessions (wt_store w')) \<and>
     HandleSessionTitleRequest tm now others others' p w = tryAutoUpdateWorkTitle tm now others' s' w'"
proof -
  let ?s = "s\<lparr>se_Title := trim_space text, se_UpdatedAt := now\<rparr>"
  let ?w = "(others w)\<lparr>wt_store := db_UpdateSession now ?s (wt_store (others w))\<rparr>"
  have titled: "tryAutoUpdateTitle tm now others s w = (?s, ?w)"
    using assms(2-5) by (simp add: tryAutoUpdateTitle_def renameSession_def Let_def)
  moreover have "?s \<in> set (st_sessions (wt_store ?w))" using saved_row [OF assms(6), of ?s now] assms(7) by simp
  moreover have "HandleSessionTitleRequest tm now others others' p w = tryAutoUpdateWorkTitle tm now others' ?s ?w"
    using assms(1) titled by (simp add: HandleSessionTitleRequest_def)
  ultimately show ?thesis by blast
qed

lemma live_title_event: "live_view rfc3339 (work_title_event now s pr ta) =
    Some (EventWorkTitleUpdated, Title_view (title_view_of (work_title_of s pr ta)))"
  by (simp add: live_view_def work_title_event_def msg_defs Let_def plain_payload_def)

text \<open>A new work title is shown to live clients only: the event is shown to a client that streams the session live and has not
  seen an event of that number, and to no client that asked for a replay, because it answers no message.\<close>

theorem work_title_live_only:
  assumes "publishWorkTitleUpdated now s pr ta = [(topic, ev)]" "now div 1000000 \<notin> set (ss_seen x)" "1000000 \<le> now"
  shows "emitEvent rfc3339 (Some replay) ev x = x \<and>
     (\<exists>se. ss_shown (emitEvent rfc3339 None ev x) = ss_shown x @ [se] \<and> sv_Type se = EventWorkTitleUpdated \<and>
        sv_Payload se = Title_view (title_view_of (work_title_of s pr ta)))"
proof -
  have ev: "ev = work_title_event now s pr ta"
    using assms(1) by (auto simp: publishWorkTitleUpdated_def split: if_splits sum.splits)
  have "0 < now div 1000000" using assms(3) by (simp add: pos_imp_zdiv_pos_iff)
  then have q: "rb_seq (env_body ev) = now div 1000000" "rb_reply_to (env_body ev) = []" "now div 1000000 \<noteq> 0"
    by (simp_all add: ev work_title_event_def)
  have "ProjectRunEvent rfc3339 ev = Some \<lparr>sv_Type = EventWorkTitleUpdated, sv_SessionID = se_PublicID s,
      sv_Payload = Title_view (title_view_of (work_title_of s pr ta)), sv_Sequence = now div 1000000, sv_Timestamp = now div 1000000\<rparr>"
    unfolding ProjectRunEvent_def ev live_title_event by (simp add: work_title_event_def)
  then show ?thesis using q assms(2) by (simp add: emit_cases relevant_def runEventMatchesReplyIDs_def)
qed

text \<open>A work title replaces only a text that was never edited: a project or a task whose text, when it is read, is not the
  shortened first message keeps its row, whatever the model answers.\<close>

theorem edited_work_title_kept:
  assumes "live_row i (wt_projects w) = Some pr" "se_ProjectID s = Some i" "firstUserMessage (se_ID s) (wt_store w) = Some m"
    and "wk_Text pr \<noteq> fallbackWorkTitle (sm_Content m)"
  shows "wt_projects (snd (tryAutoUpdateWorkTitle tm now others s w)) \<in> {wt_projects w, wt_projects (others w)}"
  using assms
  by (simp add: tryAutoUpdateWorkTitle_def Let_def split: option.split prod.split)

section \<open>Witnesses\<close>

definition demo_works :: work_tables where
  "demo_works = \<lparr>wt_store = demo_store, wt_projects = [], wt_tasks = []\<rparr>"

definition demo_model :: title_model where
  "demo_model = \<lparr>tm_session = \<lambda>_ _. (''greeting'', False), tm_work = \<lambda>_. (''greeting'', False)\<rparr>"

text \<open>The owner ends the session while the model is asked.\<close>

definition demo_end :: "work_tables \<Rightarrow> work_tables" where
  "demo_end w = w\<lparr>wt_store := snd (EndSession 8 (Some demo_owner) ''s'' (wt_store w))\<rparr>"

lemma late_title_undoes_witness:
  "ended_row 4 (wt_store (demo_end demo_works)) \<and>
   (\<exists>s' w'. tryAutoUpdateTitle demo_model 9 demo_end demo_session demo_works = (s', w') \<and> s' \<in> set (st_sessions (wt_store w')) \<and>
      se_ID s' = 4 \<and> se_Status s' = SessionStatusActive \<and> se_Title s' = ''greeting'')"
proof -
  have t: "trim_space ''greeting'' = ''greeting''" by code_simp
  have found: "GetSessionByPublicID ''s'' (wt_store demo_works) = Some demo_session"
    by (simp add: demo_works_def demo_session_found(1))
  have e: "st_sessions (wt_store (demo_end demo_works)) = [demo_session\<lparr>se_Status := SessionStatusEnded, se_UpdatedAt := 8\<rparr>]"
    using demo_owner_session
    by (simp add: demo_end_def demo_works_def EndSession_def demo_session_def session_statuses update_status_def update_session_def demo_store_def)
  have "\<exists>s' w'. tryAutoUpdateTitle demo_model 9 demo_end demo_session demo_works = (s', w') \<and>
      s' = demo_session\<lparr>se_Title := trim_space ''greeting'', se_UpdatedAt := 9\<rparr> \<and> s' \<in> set (st_sessions (wt_store w')) \<and>
      HandleSessionTitleRequest demo_model 9 demo_end id ''s'' demo_works = tryAutoUpdateWorkTitle demo_model 9 id s' w'"
    by (rule late_title_undoes [where r = "demo_session\<lparr>se_Status := SessionStatusEnded, se_UpdatedAt := 8\<rparr>"])
      (simp_all add: e t found demo_model_def demo_session_def)
  then obtain s' w' where s': "tryAutoUpdateTitle demo_model 9 demo_end demo_session demo_works = (s', w')"
    "s' = demo_session\<lparr>se_Title := ''greeting'', se_UpdatedAt := 9\<rparr>" "s' \<in> set (st_sessions (wt_store w'))" unfolding t by blast
  have "se_ID s' = 4 \<and> se_Status s' = SessionStatusActive \<and> se_Title s' = ''greeting''"
    by (simp add: s'(2) demo_session_def session_statuses)
  moreover have "ended_row 4 (wt_store (demo_end demo_works))" by (simp add: ended_row_def e demo_session_def)
  ultimately show ?thesis using s'(1,3) by blast
qed

lemma work_title_live_only_witness:
  "\<exists>ev. publishWorkTitleUpdated 5000000 demo_session
       \<lparr>wk_ID = 9, wk_PublicID = ''p'', wk_Text = ''n'', wk_UpdatedAt = 0, wk_DeletedAt = None\<rparr>
       \<lparr>wk_ID = 8, wk_PublicID = ''t'', wk_Text = ''n'', wk_UpdatedAt = 0, wk_DeletedAt = None\<rparr> =
     [(''org.7.session.s.run.state'', ev)] \<and> length (ss_shown (emitEvent (\<lambda>_. []) None ev new_sse)) = 1"
proof -
  let ?p = "\<lparr>wk_ID = 9, wk_PublicID = ''p'', wk_Text = ''n'', wk_UpdatedAt = 0, wk_DeletedAt = None\<rparr>"
  let ?t = "\<lparr>wk_ID = 8, wk_PublicID = ''t'', wk_Text = ''n'', wk_UpdatedAt = 0, wk_DeletedAt = None\<rparr>"
  have seven: "show_nat 7 = ''7''" by code_simp
  have p: "publishWorkTitleUpdated 5000000 demo_session ?p ?t =
      [(''org.7.session.s.run.state'', work_title_event 5000000 demo_session ?p ?t)]"
    by (simp add: publishWorkTitleUpdated_def RunEventSubject_def demo_session_def msg_defs seven)
  have "(5000000 :: int) div 1000000 \<notin> set (ss_seen new_sse)" "(1000000 :: int) \<le> 5000000" by (simp_all add: new_sse_def)
  from work_title_live_only [OF p this, of "\<lambda>_. []"] obtain se where
    "ss_shown (emitEvent (\<lambda>_. []) None (work_title_event 5000000 demo_session ?p ?t) new_sse) = ss_shown new_sse @ [se]" by blast
  then have "length (ss_shown (emitEvent (\<lambda>_. []) None (work_title_event 5000000 demo_session ?p ?t) new_sse)) = 1"
    by (simp only: length_append) (simp add: new_sse_def)
  then show ?thesis using p by blast
qed

lemma edited_work_title_kept_witness:
  "\<exists>w s. wt_projects w = [\<lparr>wk_ID = 9, wk_PublicID = ''p'', wk_Text = ''mine'', wk_UpdatedAt = 0, wk_DeletedAt = None\<rparr>] \<and>
     wt_projects (snd (tryAutoUpdateWorkTitle demo_model 9 id s w)) = wt_projects w"
proof -
  let ?p = "\<lparr>wk_ID = 9, wk_PublicID = ''p'', wk_Text = ''mine'', wk_UpdatedAt = 0, wk_DeletedAt = None\<rparr>"
  let ?w = "demo_works\<lparr>wt_store := demo_store\<lparr>st_messages := [demo_message_row]\<rparr>, wt_projects := [?p]\<rparr>"
  have "trim_space ''hi'' = ''hi''" "first_runes 50 ''hi'' = ''hi''" by code_simp+
  then have f: "fallbackWorkTitle (sm_Content demo_message_row) = ''hi''"
    by (simp add: fallbackWorkTitle_def workTitleMaxRunes_def demo_message_row_def posted_row_def buildMessage_def demo_hi_def)
  have "live_row 9 (wt_projects ?w) = Some ?p" by (simp add: live_row_def)
  moreover have "se_ProjectID demo_session = Some 9" by (simp add: demo_session_def)
  moreover have "firstUserMessage (se_ID demo_session) (wt_store ?w) = Some demo_message_row"
    by (simp add: firstUserMessage_def live_messages_def demo_message_row_def posted_row_def buildMessage_def demo_hi_def row_consts)
  moreover have "wk_Text ?p \<noteq> fallbackWorkTitle (sm_Content demo_message_row)" by (simp add: f)
  ultimately have "wt_projects (snd (tryAutoUpdateWorkTitle demo_model 9 id demo_session ?w)) \<in> {wt_projects ?w, wt_projects (id ?w)}"
    by (rule edited_work_title_kept)
  then show ?thesis by (intro exI [of _ ?w] exI [of _ demo_session]) simp
qed

end
