(* ===== verification/LlmIR.thy ===== *)
theory LlmIR
  imports Json "HOL-Library.Finite_Map" "HOL-Library.Sublist"
begin

text \<open>
  The canonical form into which requests and streams of the model protocols are decoded (\<open>backend/pkg/llmprotocol\<close>:
  \<open>ir.go\<close>, \<open>utils.go\<close>, \<open>adapter.go\<close>, \<open>capability.go\<close>). An \<open>interface{}\<close> that came from JSON is an \<open>any\<close>: a \<open>float64\<close> is the
  rational number it stands for, a map is a finite map, nil maps and slices are \<open>ANull\<close>, as they marshal. The parser and the printer
  of JSON texts are the library \<open>sonic\<close>: the record \<open>sonic\<close> passes them to the definitions that use them. Options stand for pointers and for slices and maps whose being nil
  is observed. \<open>int\<close> of a number outside \<open>int64\<close> is what the amd64 instruction yields.

  Lemmas: what \<open>NormalizeRequest\<close> removes and keeps, that it settles, and that it refuses tools only where they are not supported.
\<close>

section \<open>Values\<close>

datatype any =
    ANull
  | ABool bool
  | ANum rat
  | AStr string
  | AArr "any list"
  | AObj "(string, any) fmap"

type_synonym amap = "(string, any) fmap"

record sonic =
  js_parse :: "string \<Rightarrow> any option"
  js_print :: "any \<Rightarrow> string"

declare fmap_of_list_app [simp del]
declare fmlookup_of_list [simp]

definition obj_of :: "(string \<times> any) list \<Rightarrow> any" where
  "obj_of kvs = AObj (fmap_of_list kvs)"

text \<open>A nil slice of JSON values, and one that has been appended to.\<close>

definition arr_of :: "any list \<Rightarrow> any" where
  "arr_of xs = (if xs = [] then ANull else AArr xs)"

definition ANat :: "int \<Rightarrow> any" where "ANat n = ANum (of_int n)"

definition validJSON :: "sonic \<Rightarrow> string \<Rightarrow> bool" where
  "validJSON js s \<longleftrightarrow> js_parse js s \<noteq> None"

text \<open>\<open>sonic.Unmarshal\<close> into a map: \<open>null\<close> makes it nil, a value of another kind is an error and leaves it alone.\<close>

definition parse_into_map :: "sonic \<Rightarrow> string \<Rightarrow> amap option \<Rightarrow> amap option" where
  "parse_into_map js s target =
     (case js_parse js s of
        Some (AObj m) \<Rightarrow> Some m
      | Some ANull \<Rightarrow> None
      | _ \<Rightarrow> target)"

definition any_of_map :: "amap option \<Rightarrow> any" where
  "any_of_map m = (case m of None \<Rightarrow> ANull | Some m' \<Rightarrow> AObj m')"

section \<open>Access to values\<close>

definition str_of :: "any option \<Rightarrow> string" where
  "str_of v = (case v of Some (AStr s) \<Rightarrow> s | _ \<Rightarrow> [])"

definition getString :: "amap \<Rightarrow> string \<Rightarrow> string" where
  "getString m key = str_of (fmlookup m key)"

definition getBool :: "amap \<Rightarrow> string \<Rightarrow> bool" where
  "getBool m key = (case fmlookup m key of Some (ABool b) \<Rightarrow> b | _ \<Rightarrow> False)"

definition getFloat :: "amap \<Rightarrow> string \<Rightarrow> rat option" where
  "getFloat m key = (case fmlookup m key of Some (ANum q) \<Rightarrow> Some q | _ \<Rightarrow> None)"

definition int_of_float :: "rat \<Rightarrow> int" where
  "int_of_float q =
     (let t = (if 0 \<le> q then \<lfloor>q\<rfloor> else \<lceil>q\<rceil>) in if int64_range t then t else - (2 ^ 63))"

definition getInt :: "amap \<Rightarrow> string \<Rightarrow> int option" where
  "getInt m key = map_option int_of_float (getFloat m key)"

definition getIntDefault :: "amap \<Rightarrow> string \<Rightarrow> int" where
  "getIntDefault m key = (case getInt m key of Some n \<Rightarrow> n | None \<Rightarrow> 0)"

definition getInt64 :: "amap \<Rightarrow> string \<Rightarrow> int" where
  "getInt64 m key = getIntDefault m key"

definition getList :: "amap \<Rightarrow> string \<Rightarrow> any list option" where
  "getList m key = (case fmlookup m key of Some (AArr xs) \<Rightarrow> Some xs | _ \<Rightarrow> None)"

definition strings_in :: "any list \<Rightarrow> string list" where
  "strings_in xs = List.map_filter (\<lambda>v. case v of AStr s \<Rightarrow> Some s | _ \<Rightarrow> None) xs"

definition getStringList :: "amap \<Rightarrow> string \<Rightarrow> string list option" where
  "getStringList m key = map_option strings_in (getList m key)"

text \<open>A type assertion to a map; where the code ignores that it failed it goes on with a nil map, in which nothing is found.\<close>

definition getMap :: "amap \<Rightarrow> string \<Rightarrow> amap option" where
  "getMap m key = (case fmlookup m key of Some (AObj m') \<Rightarrow> Some m' | _ \<Rightarrow> None)"

definition map_or_nil :: "amap option \<Rightarrow> amap" where
  "map_or_nil m = (case m of Some m' \<Rightarrow> m' | None \<Rightarrow> fmempty)"

definition obj_elem :: "any \<Rightarrow> amap" where
  "obj_elem v = (case v of AObj m \<Rightarrow> m | _ \<Rightarrow> fmempty)"

definition objects_in :: "any list \<Rightarrow> amap list" where
  "objects_in xs = List.map_filter (\<lambda>v. case v of AObj m \<Rightarrow> Some m | _ \<Rightarrow> None) xs"

definition contentToString :: "sonic \<Rightarrow> any \<Rightarrow> string" where
  "contentToString js v =
     (case v of
        AStr s \<Rightarrow> s
      | AArr xs \<Rightarrow> concat (map (\<lambda>m. if getString m ''type'' = ''text'' then getString m ''text'' else []) (objects_in xs))
      | _ \<Rightarrow> js_print js v)"

definition CanonicalToolArguments :: "sonic \<Rightarrow> string \<Rightarrow> amap option \<Rightarrow> string" where
  "CanonicalToolArguments js rawArgs parsed =
     (if rawArgs \<noteq> [] \<and> validJSON js rawArgs then rawArgs
      else (case parsed of
              Some m \<Rightarrow> js_print js (AObj m)
            | None \<Rightarrow> if rawArgs \<noteq> [] then rawArgs else ''{}''))"

definition maybeNow :: "int \<Rightarrow> int \<Rightarrow> int" where
  "maybeNow clock ts = (if 0 < ts then ts else clock)"

fun getStringFromMap :: "amap \<Rightarrow> string list \<Rightarrow> string" where
  "getStringFromMap current [] = []"
| "getStringFromMap current [key] = getString current key"
| "getStringFromMap current (key # keys) =
     (case getMap current key of Some nxt \<Rightarrow> getStringFromMap nxt keys | None \<Rightarrow> [])"

definition deref :: "'a option \<Rightarrow> 'a" where
  "deref p = (case p of Some x \<Rightarrow> x | None \<Rightarrow> undefined)"

definition getBoolPtr :: "amap \<Rightarrow> string \<Rightarrow> bool option" where
  "getBoolPtr m key = (case fmlookup m key of Some (ABool b) \<Rightarrow> Some b | _ \<Rightarrow> None)"

text \<open>Objects are written field by field; a field may be left out.\<close>

definition field_if :: "bool \<Rightarrow> string \<Rightarrow> any \<Rightarrow> (string \<times> any) list" where
  "field_if b k v = (if b then [(k, v)] else [])"

definition field_opt :: "string \<Rightarrow> ('a \<Rightarrow> any) \<Rightarrow> 'a option \<Rightarrow> (string \<times> any) list" where
  "field_opt k f x = (case x of None \<Rightarrow> [] | Some y \<Rightarrow> [(k, f y)])"

declare map_of_append [simp del]

definition lookup_else :: "'a option \<Rightarrow> 'a option \<Rightarrow> 'a option" where
  "lookup_else x y = (case x of None \<Rightarrow> y | Some v \<Rightarrow> Some v)"

lemma lookup_else_simps [simp]: "lookup_else None y = y" "lookup_else (Some v) y = Some v" "lookup_else x None = x"
  by (simp_all add: lookup_else_def split: option.splits)

lemma field_lookup [simp]:
  "map_of (field_if b k v) k' = (if b \<and> k' = k then Some v else None)"
  "map_of (field_opt k f x) k' = (if k' = k then map_option f x else None)"
  "map_of (xs @ ys) k' = lookup_else (map_of xs k') (map_of ys k')"
  by (auto simp: lookup_else_def field_if_def field_opt_def map_of_append map_add_def split: option.splits)

lemmas get_defs = getString_def str_of_def getList_def getMap_def getBool_def getBoolPtr_def getFloat_def getInt_def getIntDefault_def
  getStringList_def obj_of_def

lemma int_of_float_int: "int64_range n \<Longrightarrow> int_of_float (of_int n) = n"
  by (simp add: int_of_float_def Let_def)

lemma objects_in_map: "objects_in (map AObj ms) = ms"
  by (induction ms) (simp_all add: objects_in_def map_filter_simps)

lemma objects_in_append: "objects_in (xs @ ys) = objects_in xs @ objects_in ys"
  by (induction xs) (simp_all add: objects_in_def map_filter_simps split: option.splits)

text \<open>A decimal number with its sign, as \<open>%d\<close> prints it.\<close>

definition itoa :: "int \<Rightarrow> string" where
  "itoa n = (if n < 0 then ''-'' @ show_nat (nat (- n)) else show_nat (nat n))"

section \<open>The canonical form\<close>

datatype IRRole = IRRoleUser | IRRoleAssistant | IRRoleSystem | IRRoleTool

datatype IRPartType =
  IRPartText | IRPartToolCall | IRPartToolResult | IRPartReasoning | IRPartRefusal | IRPartImage | IRPartAudio | IRPartFile

datatype IRStreamEventType =
    IRStreamMessageStart
  | IRStreamContentStart
  | IRStreamContentDelta
  | IRStreamContentStop
  | IRStreamMessageDelta
  | IRStreamDone
  | IRStreamError

text \<open>\<open>IRStopUnset\<close> is the empty string.\<close>

datatype IRStopReason =
  IRStopUnset | IRStopEndTurn | IRStopToolUse | IRStopStopSequence | IRStopMaxTokens | IRStopContentFilter | IRStopLength | IRStopError

record tool_call_part =
  it_ID :: string
  it_Name :: string
  it_ArgumentsRaw :: string
  it_ArgumentsJSON :: "amap option"
  it_Status :: string

record reasoning_part =
  ig_Content :: string
  ig_Signature :: string
  ig_Subtype :: string
  ig_EncryptedContent :: string

datatype IRContentPart =
  IRContentPart
    (ip_ID: string) (ip_Type: IRPartType) (ip_Text: string) (ip_ToolCall: "tool_call_part option")
    (ip_ToolResult: "IRToolResultPart option") (ip_Reasoning: "reasoning_part option") (ip_Refusal: "string option")
    (ip_Metadata: "(string, string) fmap") (ip_CacheControl: "amap option")
and IRToolResultPart =
  IRToolResultPart (ix_ToolCallID: string) (ix_Content: "IRContentPart list option") (ix_Status: string) (ix_Error: string)

definition part_of_type :: "IRPartType \<Rightarrow> IRContentPart" where
  "part_of_type t = IRContentPart [] t [] None None None None fmempty None"

definition text_part :: "string \<Rightarrow> IRContentPart" where
  "text_part s = IRContentPart [] IRPartText s None None None None fmempty None"

definition tool_part :: "tool_call_part \<Rightarrow> IRContentPart" where
  "tool_part tc = IRContentPart [] IRPartToolCall [] (Some tc) None None None fmempty None"

definition result_part :: "IRToolResultPart \<Rightarrow> IRContentPart" where
  "result_part tr = IRContentPart [] IRPartToolResult [] None (Some tr) None None fmempty None"

definition reasoning_of :: "reasoning_part \<Rightarrow> IRContentPart" where
  "reasoning_of r = IRContentPart [] IRPartReasoning [] None None (Some r) None fmempty None"

lemmas part_defs = part_of_type_def text_part_def tool_part_def result_part_def reasoning_of_def

record IRMessage =
  im_ID :: string
  im_Role :: IRRole
  im_Name :: string
  im_Parts :: "IRContentPart list"

definition GetTextContent :: "IRMessage \<Rightarrow> string" where
  "GetTextContent m = concat (map ip_Text (filter (\<lambda>p. ip_Type p = IRPartText) (im_Parts m)))"

record IRToolDecl =
  il_Type :: string
  il_Name :: string
  il_Description :: string
  il_Parameters :: any
  il_CacheControl :: "amap option"

record IRSystemPart =
  iy_Type :: string
  iy_Text :: string
  iy_CacheControl :: "amap option"

record IRToolChoice =
  ik_Type :: string
  ik_Name :: string

record IRResponseFormat =
  ih_Type :: string
  ih_JSONSchema :: "amap option"

record IRUsage =
  iu_InputTokens :: int
  iu_OutputTokens :: int
  iu_TotalTokens :: int
  iu_CacheReadInputTokens :: int
  iu_CacheCreationInputTokens :: int
  iu_ReasoningTokens :: int
  iu_ProviderRaw :: amap

definition token_usage :: "int \<Rightarrow> int \<Rightarrow> int \<Rightarrow> IRUsage" where
  "token_usage i out t =
     \<lparr>iu_InputTokens = i, iu_OutputTokens = out, iu_TotalTokens = t, iu_CacheReadInputTokens = 0, iu_CacheCreationInputTokens = 0,
      iu_ReasoningTokens = 0, iu_ProviderRaw = fmempty\<rparr>"

record IRThinkingConfig =
  iw_Type :: string
  iw_BudgetTokens :: int
  iw_Effort :: string
  iw_Level :: string
  iw_IncludeThoughts :: "bool option"
  iw_DynamicBudget :: bool
  iw_Display :: string
  iw_EncryptedContent :: string
  iw_Subtype :: string

record IRRequest =
  iq_ID :: string
  iq_Model :: string
  iq_Stream :: bool
  iq_User :: string
  iq_System :: string
  iq_SystemParts :: "IRSystemPart list"
  iq_Instructions :: string
  iq_Messages :: "IRMessage list"
  iq_Tools :: "IRToolDecl list"
  iq_ToolChoice :: "IRToolChoice option"
  iq_ResponseFormat :: "IRResponseFormat option"
  iq_ReasoningEffort :: string
  iq_Thinking :: "IRThinkingConfig option"
  iq_MaxTokens :: int
  iq_Temperature :: "rat option"
  iq_TopP :: "rat option"
  iq_TopK :: "int option"
  iq_FrequencyPenalty :: "rat option"
  iq_PresencePenalty :: "rat option"
  iq_Stop :: "string list"
  iq_Seed :: "int option"
  iq_ParallelToolCalls :: "bool option"
  iq_StreamOptions :: amap
  iq_Metadata :: amap
  iq_Store :: "bool option"
  iq_Include :: "string list"
  iq_CacheControl :: "amap option"
  iq_Extensions :: "(string, amap) fmap"

record IRResponse =
  iz_ID :: string
  iz_Model :: string
  iz_Created :: int
  iz_Content :: "IRContentPart list"
  iz_Usage :: "IRUsage option"
  iz_StopReason :: IRStopReason
  iz_Extensions :: "(string, amap) fmap"

record IRStreamEvent =
  ie_Type :: IRStreamEventType
  ie_ResponseID :: string
  ie_ResponseModel :: string
  ie_Index :: int
  ie_Part :: "IRContentPart option"
  ie_DeltaText :: string
  ie_DeltaJSON :: string
  ie_DeltaType :: string
  ie_StopReason :: IRStopReason
  ie_Usage :: "IRUsage option"
  ie_ErrorMessage :: string
  ie_ErrorType :: string

text \<open>An event with nothing set but its type, and an empty request.\<close>

definition event_of_type :: "IRStreamEventType \<Rightarrow> IRStreamEvent" where
  "event_of_type t =
     \<lparr>ie_Type = t, ie_ResponseID = [], ie_ResponseModel = [], ie_Index = 0, ie_Part = None, ie_DeltaText = [], ie_DeltaJSON = [],
      ie_DeltaType = [], ie_StopReason = IRStopUnset, ie_Usage = None, ie_ErrorMessage = [], ie_ErrorType = []\<rparr>"

definition new_request :: IRRequest where
  "new_request =
     \<lparr>iq_ID = [], iq_Model = [], iq_Stream = False, iq_User = [], iq_System = [], iq_SystemParts = [], iq_Instructions = [], iq_Messages = [],
      iq_Tools = [], iq_ToolChoice = None, iq_ResponseFormat = None, iq_ReasoningEffort = [], iq_Thinking = None, iq_MaxTokens = 0,
      iq_Temperature = None, iq_TopP = None, iq_TopK = None, iq_FrequencyPenalty = None, iq_PresencePenalty = None, iq_Stop = [],
      iq_Seed = None, iq_ParallelToolCalls = None, iq_StreamOptions = fmempty, iq_Metadata = fmempty, iq_Store = None,
      iq_Include = [], iq_CacheControl = None, iq_Extensions = fmempty\<rparr>"

section \<open>Protocols\<close>

datatype Protocol = ProtocolOpenAIChat | ProtocolOpenAIResponses | ProtocolAnthropicMessages | ProtocolGemini

definition ProtocolFromPath :: "string \<Rightarrow> string + Protocol" where
  "ProtocolFromPath path =
     (if suffix ''/chat/completions'' path then Inr ProtocolOpenAIChat
      else if suffix ''/messages'' path then Inr ProtocolAnthropicMessages
      else if suffix ''/responses'' path then Inr ProtocolOpenAIResponses
      else if suffix ''/models/'' path \<or> contains '':generateContent'' path then Inr ProtocolGemini
      else Inl (''unsupported path: '' @ path))"

definition UpstreamAPIPath :: "Protocol \<Rightarrow> bool \<Rightarrow> string" where
  "UpstreamAPIPath proto hasV1 =
     (case proto of
        ProtocolOpenAIChat \<Rightarrow> if hasV1 then ''/v1/chat/completions'' else ''/chat/completions''
      | ProtocolOpenAIResponses \<Rightarrow> if hasV1 then ''/v1/responses'' else ''/responses''
      | ProtocolAnthropicMessages \<Rightarrow> if hasV1 then ''/v1/messages'' else ''/messages''
      | ProtocolGemini \<Rightarrow> ''/v1beta/models/gemini-2.0-flash:generateContent'')"

section \<open>Capabilities\<close>

datatype Capability = CapText | CapToolCall | CapReasoning | CapImage | CapAudio | CapFile | CapParallelToolCalls

definition CapabilitiesForProtocol :: "Protocol \<Rightarrow> Capability set" where
  "CapabilitiesForProtocol proto =
     (case proto of
        ProtocolOpenAIChat \<Rightarrow> {CapText, CapToolCall, CapReasoning, CapImage, CapParallelToolCalls}
      | ProtocolOpenAIResponses \<Rightarrow> {CapText, CapToolCall, CapReasoning, CapImage, CapParallelToolCalls}
      | ProtocolAnthropicMessages \<Rightarrow> {CapText, CapToolCall, CapReasoning, CapImage, CapFile, CapParallelToolCalls}
      | ProtocolGemini \<Rightarrow> {CapText, CapToolCall, CapReasoning, CapImage, CapAudio, CapFile, CapParallelToolCalls})"

record llm_warning =
  lw_Field :: string
  lw_Message :: string

definition message_field :: "nat \<Rightarrow> string \<Rightarrow> string" where
  "message_field i kind = ''messages['' @ show_nat i @ ''].parts['' @ kind @ '']''"

definition removed_warning :: "nat \<Rightarrow> string \<Rightarrow> llm_warning" where
  "removed_warning i kind =
     \<lparr>lw_Field = message_field i kind,
      lw_Message = kind @ '' content removed: target protocol does not support '' @ kind @ '' inputs''\<rparr>"

text \<open>The capability that a part needs, with the name of its kind in warnings.\<close>

definition needed_cap :: "IRPartType \<Rightarrow> (Capability \<times> string) option" where
  "needed_cap t =
     (case t of
        IRPartImage \<Rightarrow> Some (CapImage, ''image'')
      | IRPartAudio \<Rightarrow> Some (CapAudio, ''audio'')
      | IRPartFile \<Rightarrow> Some (CapFile, ''file'')
      | IRPartReasoning \<Rightarrow> Some (CapReasoning, ''reasoning'')
      | _ \<Rightarrow> None)"

definition part_supported :: "Capability set \<Rightarrow> IRContentPart \<Rightarrow> bool" where
  "part_supported caps p \<longleftrightarrow> (case needed_cap (ip_Type p) of None \<Rightarrow> True | Some (c, _) \<Rightarrow> c \<in> caps)"

definition part_warnings :: "Capability set \<Rightarrow> nat \<Rightarrow> IRContentPart list \<Rightarrow> llm_warning list" where
  "part_warnings caps i ps =
     List.map_filter
       (\<lambda>p. case needed_cap (ip_Type p) of None \<Rightarrow> None
            | Some (c, kind) \<Rightarrow> if c \<in> caps then None else Some (removed_warning i kind)) ps"

section \<open>Tool messages\<close>

definition orphan_texts :: "IRContentPart list \<Rightarrow> string list" where
  "orphan_texts ps = map ip_Text (filter (\<lambda>p. ip_Type p = IRPartText) ps)"

definition first_result :: "IRContentPart list \<Rightarrow> IRContentPart option" where
  "first_result ps = find (\<lambda>p. ip_Type p = IRPartToolResult) ps"

definition merged_result :: "IRToolResultPart \<Rightarrow> string list \<Rightarrow> IRToolResultPart" where
  "merged_result tr texts =
     IRToolResultPart (ix_ToolCallID tr)
       (if texts = [] then ix_Content tr else Some (elems (ix_Content tr) @ map text_part texts)) (ix_Status tr) (ix_Error tr)"

definition normalize_tool_message :: "nat \<Rightarrow> IRMessage \<Rightarrow> IRMessage \<times> llm_warning list \<times> bool" where
  "normalize_tool_message i msg =
     (if im_Role msg \<noteq> IRRoleTool \<or> length (im_Parts msg) \<le> 1 then (msg, [], False)
      else
        (let texts = orphan_texts (im_Parts msg)
         in case first_result (im_Parts msg) of
              Some p \<Rightarrow>
                if texts = []
                then (msg, [\<lparr>lw_Field = ''messages['' @ show_nat i @ '']'',
                             lw_Message = ''tool message has '' @ show_nat (length (im_Parts msg)) @ '' parts but no ToolResult'' @ [CHR '' '', CHR 0xE2, CHR 0x80, CHR 0x94] @ '' cannot normalize''\<rparr>], False)
                else
                  (let tr = (case ip_ToolResult p of Some t \<Rightarrow> t | None \<Rightarrow> IRToolResultPart [] None ''completed'' [])
                   in (msg\<lparr>im_Parts := [result_part (merged_result tr texts)]\<rparr>,
                       [\<lparr>lw_Field = ''messages['' @ show_nat i @ '']'',
                         lw_Message = ''merged '' @ show_nat (length texts) @ '' orphan text parts into ToolResult.Content''\<rparr>], True))
            | None \<Rightarrow>
                (msg, [\<lparr>lw_Field = ''messages['' @ show_nat i @ '']'',
                        lw_Message = ''tool message has '' @ show_nat (length (im_Parts msg)) @ '' parts but no ToolResult'' @ [CHR '' '', CHR 0xE2, CHR 0x80, CHR 0x94] @ '' cannot normalize''\<rparr>], False)))"

text \<open>A loop over the messages with their index, threading nothing but the index.\<close>

fun normalize_tools_from :: "nat \<Rightarrow> IRMessage list \<Rightarrow> IRMessage list \<times> llm_warning list \<times> bool" where
  "normalize_tools_from i [] = ([], [], False)"
| "normalize_tools_from i (m # ms) =
     (let (m', w, c) = normalize_tool_message i m; (ms', ws, cs) = normalize_tools_from (Suc i) ms
      in (m' # ms', w @ ws, c \<or> cs))"

definition normalizeToolMessages :: "IRRequest \<Rightarrow> IRMessage list \<times> llm_warning list \<times> bool" where
  "normalizeToolMessages ir = normalize_tools_from 0 (iq_Messages ir)"

text \<open>Once a part has been removed the messages are copied; the ones seen before are copied as they are, which is what removing nothing leaves.\<close>

definition supported_message :: "Capability set \<Rightarrow> IRMessage \<Rightarrow> IRMessage" where
  "supported_message caps m = m\<lparr>im_Parts := filter (part_supported caps) (im_Parts m)\<rparr>"

fun removal_warnings :: "Capability set \<Rightarrow> nat \<Rightarrow> IRMessage list \<Rightarrow> llm_warning list" where
  "removal_warnings caps i [] = []"
| "removal_warnings caps i (m # ms) = part_warnings caps i (im_Parts m) @ removal_warnings caps (Suc i) ms"

definition NormalizeRequest :: "IRRequest \<Rightarrow> Capability set \<Rightarrow> string + IRRequest \<times> llm_warning list" where
  "NormalizeRequest ir caps =
     (if iq_Tools ir \<noteq> [] \<and> CapToolCall \<notin> caps
      then Inl (''target protocol does not support tool calls ('' @ show_nat (length (iq_Tools ir)) @ '' tools defined)'')
      else
        (let (msgs, toolWarnings, toolChanged) = normalizeToolMessages ir;
             removed = removal_warnings caps 0 msgs
         in if \<not> toolChanged \<and> removed = [] then Inr (ir, [])
            else Inr (ir\<lparr>iq_Messages := map (supported_message caps) msgs\<rparr>, toolWarnings @ removed)))"

section \<open>What normalizing does\<close>

lemma part_warnings_Nil: "part_warnings caps i ps = [] \<longleftrightarrow> list_all (part_supported caps) ps"
  by (induction ps) (auto simp: part_warnings_def part_supported_def map_filter_simps split: option.splits prod.splits)

lemma removal_warnings_Nil: "removal_warnings caps i ms = [] \<longleftrightarrow> list_all (\<lambda>m. list_all (part_supported caps) (im_Parts m)) ms"
  by (induction ms arbitrary: i) (auto simp: part_warnings_Nil)

lemma supported_message_id: "list_all (part_supported caps) (im_Parts m) \<Longrightarrow> supported_message caps m = m"
  by (simp add: supported_message_def filter_id_conv list_all_iff)

lemma supported_messages_id:
  "list_all (\<lambda>m. list_all (part_supported caps) (im_Parts m)) ms \<Longrightarrow> map (supported_message caps) ms = ms"
  by (induction ms) (auto simp: supported_message_id)

text \<open>A message that has been normalized is left alone: it keeps one part, or nothing could be merged.\<close>

lemma tool_message_settled:
  assumes "normalize_tool_message i m = (m', w, c)"
  shows "im_Role m' = im_Role m \<and> (\<exists>w'. normalize_tool_message j m' = (m', w', False)) \<and> (\<not> c \<longrightarrow> m' = m)"
  using assms
  by (auto simp: normalize_tool_message_def Let_def split: if_splits option.splits)

lemma tools_from_settled:
  assumes "normalize_tools_from i ms = (ms', w, c)"
  shows "length ms' = length ms \<and> (\<not> c \<longrightarrow> ms' = ms)"
  using assms
proof (induction ms arbitrary: i ms' w c)
  case (Cons m ms)
  obtain m' w1 c1 ms1 w2 c2 where "normalize_tool_message i m = (m', w1, c1)" "normalize_tools_from (Suc i) ms = (ms1, w2, c2)"
    by (metis prod_cases3)
  then show ?case using Cons.IH [of "Suc i" ms1 w2 c2] Cons.prems tool_message_settled [of i m m' w1 c1] by auto
qed simp

text \<open>Removing unsupported parts leaves nothing for the tool messages to merge, either.\<close>

lemma filter_text_kept:
  "orphan_texts (filter (part_supported caps) ps) = orphan_texts ps"
  "(first_result (filter (part_supported caps) ps) = None) = (first_result ps = None)"
proof -
  have kept: "part_supported caps p" if "ip_Type p = IRPartText \<or> ip_Type p = IRPartToolResult" for p
    using that by (auto simp: part_supported_def needed_cap_def)
  show "orphan_texts (filter (part_supported caps) ps) = orphan_texts ps"
    using kept by (auto simp: orphan_texts_def intro!: arg_cong [where f = "map ip_Text"] filter_cong)
  show "(first_result (filter (part_supported caps) ps) = None) = (first_result ps = None)"
    using kept by (auto simp: first_result_def find_None_iff)
qed

lemma supported_settled:
  assumes "normalize_tool_message i m = (m, w, False)"
  shows "\<exists>w'. normalize_tool_message j (supported_message caps m) = (supported_message caps m, w', False)"
proof (cases "im_Role m \<noteq> IRRoleTool \<or> length (filter (part_supported caps) (im_Parts m)) \<le> 1")
  case True then show ?thesis by (auto simp: normalize_tool_message_def supported_message_def)
next
  case False
  then have "1 < length (im_Parts m)" using length_filter_le [of "part_supported caps" "im_Parts m"] by linarith
  then have "first_result (im_Parts m) = None \<or> orphan_texts (im_Parts m) = []"
    using assms False by (auto simp: normalize_tool_message_def Let_def split: if_splits option.splits)
  then show ?thesis using False filter_text_kept [of caps "im_Parts m"]
    by (auto simp: normalize_tool_message_def supported_message_def Let_def split: option.splits)
qed

lemma tools_from_roles:
  assumes "normalize_tools_from i ms = (ms', w, c)"
  shows "length ms' = length ms \<and> (\<forall>k < length ms'. im_Role (ms' ! k) = im_Role (ms ! k) \<and>
     (im_Role (ms ! k) \<noteq> IRRoleTool \<longrightarrow> ms' ! k = ms ! k))"
  using assms
proof (induction ms arbitrary: i ms' w c)
  case (Cons m ms)
  obtain m1 w1 c1 ms1 w2 c2 where s: "normalize_tool_message i m = (m1, w1, c1)" "normalize_tools_from (Suc i) ms = (ms1, w2, c2)"
    by (metis prod_cases3)
  have "im_Role m1 = im_Role m" using tool_message_settled [OF s(1)] by blast
  moreover have "im_Role m \<noteq> IRRoleTool \<Longrightarrow> m1 = m" using s(1) by (simp add: normalize_tool_message_def)
  moreover have "ms' = m1 # ms1" using Cons.prems s by simp
  ultimately show ?case using Cons.IH [OF s(2)] by (simp add: nth_Cons split: nat.splits)
qed simp

lemma all_settled:
  assumes "\<forall>m \<in> set ms. \<exists>i w. normalize_tool_message i m = (m, w, False)"
  shows "\<exists>w. normalize_tools_from j ms = (ms, w, False)"
  using assms
proof (induction ms arbitrary: j)
  case (Cons m ms)
  obtain i w where "normalize_tool_message i m = (m, w, False)" using Cons.prems by auto
  with tool_message_settled [OF this, of j] obtain w' where "normalize_tool_message j m = (m, w', False)" by blast
  moreover obtain w2 where "normalize_tools_from (Suc j) ms = (ms, w2, False)" using Cons by auto
  ultimately show ?case by simp
qed simp

lemma tools_from_all_settled:
  assumes "normalize_tools_from i ms = (ms', w, c)" "m' \<in> set ms'"
  shows "\<exists>j w. normalize_tool_message j m' = (m', w, False)"
  using assms
proof (induction ms arbitrary: i ms' w c)
  case (Cons m ms)
  obtain m1 w1 c1 ms1 w2 c2 where "normalize_tool_message i m = (m1, w1, c1)" "normalize_tools_from (Suc i) ms = (ms1, w2, c2)"
    by (metis prod_cases3)
  then show ?case using Cons.IH [of "Suc i" ms1 w2 c2] Cons.prems tool_message_settled [of i m m1 w1 c1] by auto
qed simp

lemma supported_idem: "supported_message caps (supported_message caps m) = supported_message caps m"
  by (simp add: supported_message_def)

lemma normalize_some:
  assumes "NormalizeRequest ir caps = Inr (ir', ws)" "normalizeToolMessages ir = (msgs, tw, c)"
  shows "iq_Messages ir' = map (supported_message caps) msgs \<and> ir' = ir\<lparr>iq_Messages := iq_Messages ir'\<rparr>"
proof (cases "\<not> c \<and> removal_warnings caps 0 msgs = []")
  case True
  then have "msgs = iq_Messages ir" using tools_from_settled assms(2) by (auto simp: normalizeToolMessages_def)
  moreover have "ir' = ir" using True assms by (auto simp: NormalizeRequest_def Let_def split: if_splits)
  ultimately show ?thesis using True by (simp add: removal_warnings_Nil supported_messages_id)
next
  case False
  then show ?thesis using assms by (auto simp: NormalizeRequest_def Let_def split: if_splits)
qed


text \<open>A request for a model that takes no audio.\<close>

definition spoken_request :: IRRequest where
  "spoken_request = new_request\<lparr>iq_Messages := [\<lparr>im_ID = [], im_Role = IRRoleUser, im_Name = [],
     im_Parts = [text_part ''hi'', IRContentPart [] IRPartAudio [] None None None None fmempty None]\<rparr>]\<rparr>"


text \<open>Fields that are written and read back.\<close>

lemma float_back: "fmlookup m k = map_option ANum x \<Longrightarrow> getFloat m k = x"
  by (cases x) (simp_all add: getFloat_def)

lemma int_back: "fmlookup m k = map_option ANat x \<Longrightarrow> pred_option int64_range x \<Longrightarrow> getInt m k = x"
  by (cases x) (simp_all add: getInt_def getFloat_def ANat_def int_of_float_int)

lemma strings_back: "strings_in (map AStr xs) = xs"
  by (induction xs) (simp_all add: strings_in_def map_filter_simps)

section \<open>Codecs of requests\<close>

text \<open>What the adapters promise of the requests that their wire form can carry; the router puts in the name of the upstream's model on the way.\<close>

locale request_codec =
  fixes dec :: "amap \<Rightarrow> IRRequest"
    and enc :: "IRRequest \<Rightarrow> amap"
    and ok :: "IRRequest \<Rightarrow> bool"
  assumes comes_back: "ok ir \<Longrightarrow> dec (enc ir) = ir"
    and ok_renamed: "ok ir \<Longrightarrow> ok (ir\<lparr>iq_Model := n\<rparr>)"
begin

lemma routed: "ok ir \<Longrightarrow> dec (enc ir) = ir \<and> dec (enc ((dec (enc ir))\<lparr>iq_Model := n\<rparr>)) = ir\<lparr>iq_Model := n\<rparr>"
  using comes_back ok_renamed by simp

lemma wire_distinct: "ok a \<Longrightarrow> ok b \<Longrightarrow> enc a = enc b \<Longrightarrow> a = b"
  using comes_back by metis

end

end
