(* ===== verification/StreamAgg.thy ===== *)
theory StreamAgg
  imports LlmIR
begin

text \<open>
  The aggregator that completes the stream of a model (\<open>backend/pkg/llmprotocol/stream_aggregator.go\<close>). The items are a map from output indices; a
  handler returns the events it emits and the aggregator. A pointer to an item that a handler changes is the item written back to the map.

  Lemmas: the aggregator's invariant relative to what it has emitted, and what it guarantees of a whole stream.
\<close>

section \<open>State\<close>

datatype ItemType = ItemUnknown | ItemText | ItemToolCall | ItemReasoning

record toolCallLifecycle =
  lt_callID :: string
  lt_name :: string

record itemLifecycle =
  li_index :: int
  li_itemID :: string
  li_itemType :: ItemType
  li_added :: bool
  li_contentAdded :: bool
  li_stopped :: bool
  li_toolCall :: "toolCallLifecycle option"

record StreamAggregator =
  sa_responseStarted :: bool
  sa_responseID :: string
  sa_responseModel :: string
  sa_stopReason :: IRStopReason
  sa_usage :: "IRUsage option"
  sa_doneReceived :: bool
  sa_doneSent :: bool
  sa_doneResult :: "IRStreamEvent list option"
  sa_items :: "(int, itemLifecycle) fmap"
  sa_itemIndices :: "int list"

definition NewStreamAggregator :: StreamAggregator where
  "NewStreamAggregator =
     \<lparr>sa_responseStarted = False, sa_responseID = [], sa_responseModel = [], sa_stopReason = IRStopUnset, sa_usage = None,
      sa_doneReceived = False, sa_doneSent = False, sa_doneResult = None, sa_items = fmempty, sa_itemIndices = []\<rparr>"

section \<open>Helpers\<close>

definition synthesizeResponseCreated :: "StreamAggregator \<Rightarrow> IRStreamEvent" where
  "synthesizeResponseCreated sa =
     (event_of_type IRStreamMessageStart)\<lparr>ie_ResponseID := sa_responseID sa, ie_ResponseModel := sa_responseModel sa\<rparr>"

definition ensureResponsePreamble :: "StreamAggregator \<Rightarrow> IRStreamEvent list \<times> StreamAggregator" where
  "ensureResponsePreamble sa =
     (if sa_responseStarted sa then ([], sa)
      else ([synthesizeResponseCreated sa], sa\<lparr>sa_responseStarted := True\<rparr>))"

definition named_item :: "itemLifecycle \<Rightarrow> itemLifecycle" where
  "named_item it = (if li_itemID it = [] then it\<lparr>li_itemID := ''item_'' @ itoa (li_index it)\<rparr> else it)"

definition synthesizeOutputItemAdded :: "itemLifecycle \<Rightarrow> IRStreamEvent \<times> itemLifecycle" where
  "synthesizeOutputItemAdded it0 =
     (let it = named_item it0;
          start = (event_of_type IRStreamContentStart)\<lparr>ie_Index := li_index it\<rparr>
      in (case li_itemType it of
            ItemToolCall \<Rightarrow>
              (let (callID, callName) =
                     (case li_toolCall it of
                        None \<Rightarrow> (li_itemID it, [])
                      | Some tc \<Rightarrow> (if lt_callID tc \<noteq> [] then lt_callID tc else li_itemID it, lt_name tc))
               in start\<lparr>ie_Part := Some (IRContentPart callID IRPartToolCall []
                    (Some \<lparr>it_ID = callID, it_Name = callName, it_ArgumentsRaw = [], it_ArgumentsJSON = None, it_Status = []\<rparr>)
                    None None None fmempty None)\<rparr>)
          | ItemReasoning \<Rightarrow> start\<lparr>ie_Part := Some (part_of_type IRPartReasoning)\<rparr>
          | _ \<Rightarrow> start\<lparr>ie_Part := Some (part_of_type IRPartText)\<rparr>, it))"

definition put_item :: "itemLifecycle \<Rightarrow> StreamAggregator \<Rightarrow> StreamAggregator" where
  "put_item it sa = sa\<lparr>sa_items := fmupd (li_index it) it (sa_items sa)\<rparr>"

definition ensureItem :: "int \<Rightarrow> ItemType \<Rightarrow> StreamAggregator \<Rightarrow> itemLifecycle \<times> StreamAggregator" where
  "ensureItem idx itemType sa =
     (case fmlookup (sa_items sa) idx of
        None \<Rightarrow>
          (let it = \<lparr>li_index = idx, li_itemID = [], li_itemType = itemType, li_added = False, li_contentAdded = False,
                     li_stopped = False, li_toolCall = None\<rparr>
           in (it, sa\<lparr>sa_items := fmupd idx it (sa_items sa), sa_itemIndices := sa_itemIndices sa @ [idx]\<rparr>))
      | Some it \<Rightarrow>
          if li_itemType it = ItemUnknown \<and> itemType \<noteq> ItemUnknown
          then (let it' = it\<lparr>li_itemType := itemType\<rparr> in (it', sa\<lparr>sa_items := fmupd idx it' (sa_items sa)\<rparr>))
          else (it, sa))"

definition inferItemType :: "IRStreamEvent \<Rightarrow> ItemType" where
  "inferItemType evt =
     (if ie_DeltaText evt \<noteq> [] \<and> ie_DeltaType evt = ''reasoning'' then ItemReasoning
      else if ie_DeltaJSON evt \<noteq> [] then ItemToolCall
      else if ie_DeltaText evt \<noteq> [] then ItemText
      else if ie_DeltaType evt = ''reasoning'' then ItemReasoning
      else ItemUnknown)"

definition track_tool :: "IRStreamEvent \<Rightarrow> itemLifecycle \<Rightarrow> itemLifecycle" where
  "track_tool evt it =
     (case ie_Part evt of
        Some p \<Rightarrow>
          (case (ip_Type p, ip_ToolCall p) of
             (IRPartToolCall, Some tc) \<Rightarrow>
               (let l = (case li_toolCall it of Some l \<Rightarrow> l | None \<Rightarrow> \<lparr>lt_callID = [], lt_name = []\<rparr>);
                    l = (if it_ID tc \<noteq> [] then l\<lparr>lt_callID := it_ID tc\<rparr> else l);
                    l = (if it_Name tc \<noteq> [] then l\<lparr>lt_name := it_Name tc\<rparr> else l)
                in it\<lparr>li_toolCall := Some l\<rparr>)
           | _ \<Rightarrow> it)
      | None \<Rightarrow> it)"

definition track_id :: "IRStreamEvent \<Rightarrow> itemLifecycle \<Rightarrow> itemLifecycle" where
  "track_id evt it =
     (case ie_Part evt of
        Some p \<Rightarrow> if ip_ID p \<noteq> [] \<and> li_itemID it = [] then it\<lparr>li_itemID := ip_ID p\<rparr> else it
      | None \<Rightarrow> it)"

definition sortedItemIndices :: "StreamAggregator \<Rightarrow> int list" where
  "sortedItemIndices sa = (if length (sa_itemIndices sa) \<le> 1 then sa_itemIndices sa else sort (sa_itemIndices sa))"

section \<open>Handlers\<close>

definition handleMessageStart :: "IRStreamEvent \<Rightarrow> StreamAggregator \<Rightarrow> IRStreamEvent list \<times> StreamAggregator" where
  "handleMessageStart evt sa =
     ([evt], sa\<lparr>sa_responseID := ie_ResponseID evt, sa_responseModel := ie_ResponseModel evt, sa_responseStarted := True\<rparr>)"

definition start_item_type :: "IRStreamEvent \<Rightarrow> ItemType" where
  "start_item_type evt =
     (case ie_Part evt of
        None \<Rightarrow> ItemUnknown
      | Some p \<Rightarrow>
          (case ip_Type p of
             IRPartText \<Rightarrow> ItemText
           | IRPartToolCall \<Rightarrow> ItemToolCall
           | IRPartReasoning \<Rightarrow> ItemReasoning
           | _ \<Rightarrow> ItemUnknown))"

definition handleContentStart :: "IRStreamEvent \<Rightarrow> StreamAggregator \<Rightarrow> IRStreamEvent list \<times> StreamAggregator" where
  "handleContentStart evt sa0 =
     (let (result, sa) = ensureResponsePreamble sa0;
          (it, sa) = ensureItem (ie_Index evt) (start_item_type evt) sa;
          it = (track_tool evt (track_id evt it))\<lparr>li_added := True\<rparr>;
          it = (if li_itemType it = ItemText then it\<lparr>li_contentAdded := True\<rparr> else it)
      in (result @ [evt], put_item it sa))"

text \<open>The event of a delta is changed in place when its index is negative.\<close>

definition nonneg_index :: "IRStreamEvent \<Rightarrow> IRStreamEvent" where
  "nonneg_index evt = (if ie_Index evt < 0 then evt\<lparr>ie_Index := 0\<rparr> else evt)"

definition handleContentDelta :: "IRStreamEvent \<Rightarrow> StreamAggregator \<Rightarrow> IRStreamEvent list \<times> StreamAggregator" where
  "handleContentDelta evt0 sa0 =
     (let (result, sa) = ensureResponsePreamble sa0;
          itemType = inferItemType evt0;
          evt = nonneg_index evt0;
          (it, sa) = ensureItem (ie_Index evt) itemType sa;
          (result, it) =
            (if li_added it then (result, it)
             else (let (start, it) = synthesizeOutputItemAdded it in (result @ [start], it\<lparr>li_added := True\<rparr>)));
          it = (if li_itemType it = ItemText \<and> \<not> li_contentAdded it then it\<lparr>li_contentAdded := True\<rparr> else it);
          it = track_tool evt it
      in (result @ [evt], put_item it sa))"

definition handleContentStop :: "IRStreamEvent \<Rightarrow> StreamAggregator \<Rightarrow> IRStreamEvent list \<times> StreamAggregator" where
  "handleContentStop evt sa0 =
     (let (result, sa) = ensureResponsePreamble sa0;
          (result, it, sa) =
            (case fmlookup (sa_items sa) (ie_Index evt) of
               Some it \<Rightarrow> (result, it, sa)
             | None \<Rightarrow>
                 (let (it, sa) = ensureItem (ie_Index evt) ItemUnknown sa
                  in if li_added it then (result, it, sa)
                     else (let (start, it) = synthesizeOutputItemAdded it in (result @ [start], it\<lparr>li_added := True\<rparr>, sa))));
          it = (if li_stopped it then it else it\<lparr>li_stopped := True\<rparr>)
      in (result @ [evt], put_item it sa))"

definition handleMessageDelta :: "IRStreamEvent \<Rightarrow> StreamAggregator \<Rightarrow> IRStreamEvent list \<times> StreamAggregator" where
  "handleMessageDelta evt sa0 =
     (let sa = (if ie_StopReason evt \<noteq> IRStopUnset then sa0\<lparr>sa_stopReason := ie_StopReason evt\<rparr> else sa0);
          sa = (if ie_Usage evt \<noteq> None then sa\<lparr>sa_usage := ie_Usage evt\<rparr> else sa)
      in if \<not> sa_responseStarted sa then ([synthesizeResponseCreated sa, evt], sa) else ([evt], sa))"

text \<open>The items that are still open, in the order of their indices.\<close>

definition close_item :: "itemLifecycle \<Rightarrow> IRStreamEvent list \<times> itemLifecycle" where
  "close_item it =
     (let (starts, it) =
            (if \<not> li_added it \<and> li_itemType it = ItemText \<and> \<not> li_contentAdded it
             then (let (start, it) = synthesizeOutputItemAdded it in ([start], it\<lparr>li_added := True\<rparr>))
             else ([], it))
      in (starts @ [(event_of_type IRStreamContentStop)\<lparr>ie_Index := li_index it\<rparr>], it))"

fun close_items :: "int list \<Rightarrow> StreamAggregator \<Rightarrow> IRStreamEvent list \<times> StreamAggregator" where
  "close_items [] sa = ([], sa)"
| "close_items (idx # is) sa =
     (case fmlookup (sa_items sa) idx of
        None \<Rightarrow> close_items is sa
      | Some it \<Rightarrow>
          if li_stopped it then close_items is sa
          else (let (evs, it) = close_item it; (rest, sa) = close_items is (put_item it sa) in (evs @ rest, sa)))"

definition handleDone :: "StreamAggregator \<Rightarrow> IRStreamEvent list \<times> StreamAggregator" where
  "handleDone sa0 =
     (let sa = sa0\<lparr>sa_doneReceived := True\<rparr>
      in if sa_doneSent sa then ([], sa)
         else (case sa_doneResult sa of
                 Some cached \<Rightarrow> (cached, sa)
               | None \<Rightarrow>
                   (let (preamble, sa) = ensureResponsePreamble sa;
                        (closed, sa) = close_items (sortedItemIndices sa) sa;
                        result = preamble @ closed @
                          [(event_of_type IRStreamMessageDelta)\<lparr>ie_StopReason := sa_stopReason sa, ie_Usage := sa_usage sa\<rparr>,
                           (event_of_type IRStreamDone)\<lparr>ie_Usage := sa_usage sa\<rparr>]
                    in (result, sa\<lparr>sa_doneSent := True, sa_doneResult := Some result\<rparr>))))"

definition ProcessIREvent :: "IRStreamEvent \<Rightarrow> StreamAggregator \<Rightarrow> IRStreamEvent list \<times> StreamAggregator" where
  "ProcessIREvent evt sa =
     (if sa_doneSent sa then ([], sa)
      else (case ie_Type evt of
              IRStreamMessageStart \<Rightarrow> handleMessageStart evt sa
            | IRStreamContentStart \<Rightarrow> handleContentStart evt sa
            | IRStreamContentDelta \<Rightarrow> handleContentDelta evt sa
            | IRStreamContentStop \<Rightarrow> handleContentStop evt sa
            | IRStreamMessageDelta \<Rightarrow> handleMessageDelta evt sa
            | IRStreamDone \<Rightarrow> handleDone sa
            | IRStreamError \<Rightarrow> ([evt], sa)))"

definition Finalize :: "StreamAggregator \<Rightarrow> IRStreamEvent list \<times> StreamAggregator" where
  "Finalize sa = (if sa_doneSent sa then ([], sa) else handleDone sa)"

definition IsDone :: "StreamAggregator \<Rightarrow> bool" where
  "IsDone sa = sa_doneSent sa"

text \<open>The events of a whole upstream stream, then the end of it.\<close>

fun process_all :: "IRStreamEvent list \<Rightarrow> StreamAggregator \<Rightarrow> IRStreamEvent list \<times> StreamAggregator" where
  "process_all [] sa = ([], sa)"
| "process_all (e # es) sa =
     (let (out, sa) = ProcessIREvent e sa; (outs, sa) = process_all es sa in (out @ outs, sa))"

definition aggregated :: "IRStreamEvent list \<Rightarrow> IRStreamEvent list" where
  "aggregated es =
     (let (out, sa) = process_all es NewStreamAggregator in out @ fst (Finalize sa))"

section \<open>What a stream keeps\<close>

definition has_index :: "IRStreamEventType \<Rightarrow> IRStreamEvent list \<Rightarrow> int set" where
  "has_index t es = ie_Index ` {e \<in> set es. ie_Type e = t}"

definition is_item_event :: "IRStreamEvent \<Rightarrow> bool" where
  "is_item_event e \<longleftrightarrow> ie_Type e \<in> {IRStreamContentStart, IRStreamContentDelta, IRStreamContentStop}"

text \<open>Nothing happens to an item before its start.\<close>

fun items_ordered :: "int set \<Rightarrow> IRStreamEvent list \<Rightarrow> bool" where
  "items_ordered open_now [] = True"
| "items_ordered open_now (e # es) =
     (if ie_Type e = IRStreamContentStart then items_ordered (insert (ie_Index e) open_now) es
      else (is_item_event e \<longrightarrow> ie_Index e \<in> open_now) \<and> items_ordered open_now es)"

text \<open>Apart from errors, the first event creates the response.\<close>

definition proper :: "IRStreamEvent list \<Rightarrow> IRStreamEvent list" where
  "proper es = filter (\<lambda>e. ie_Type e \<noteq> IRStreamError) es"

definition created_first :: "IRStreamEvent list \<Rightarrow> bool" where
  "created_first es \<longleftrightarrow> (case proper es of [] \<Rightarrow> True | e # _ \<Rightarrow> ie_Type e = IRStreamMessageStart)"

definition deltas :: "IRStreamEvent list \<Rightarrow> IRStreamEvent list" where
  "deltas es = filter (\<lambda>e. ie_Type e = IRStreamContentDelta) es"

definition no_done :: "IRStreamEvent list \<Rightarrow> bool" where
  "no_done es \<longleftrightarrow> list_all (\<lambda>e. ie_Type e \<noteq> IRStreamDone) es"

lemma has_index_simps [simp]:
  "has_index t [] = {}"
  "has_index t (e # es) = (if ie_Type e = t then insert (ie_Index e) (has_index t es) else has_index t es)"
  "has_index t (a @ b) = has_index t a \<union> has_index t b"
  by (auto simp: has_index_def)

lemma items_ordered_append:
  "items_ordered S (a @ b) \<longleftrightarrow> items_ordered S a \<and> items_ordered (S \<union> has_index IRStreamContentStart a) b"
  by (induction a arbitrary: S) (auto simp: Un_insert_right)

lemma proper_append [simp]: "proper (a @ b) = proper a @ proper b"
  by (simp add: proper_def)

lemma created_append: "created_first (a @ b) \<longleftrightarrow> created_first a \<and> (proper a = [] \<longrightarrow> created_first b)"
  by (auto simp: created_first_def split: list.splits)

lemma no_done_append [simp]: "no_done (a @ b) \<longleftrightarrow> no_done a \<and> no_done b"
  by (simp add: no_done_def)

lemma deltas_append [simp]: "deltas (a @ b) = deltas a @ deltas b"
  by (simp add: deltas_def)

text \<open>
  The aggregator that has not finished, and what it has emitted: its items are those that were started, all of them added, and a stopped one
  has been stopped in what was emitted.
\<close>

definition stream_inv :: "StreamAggregator \<Rightarrow> IRStreamEvent list \<Rightarrow> bool" where
  "stream_inv sa out \<longleftrightarrow>
     \<not> sa_doneSent sa \<and> sa_doneResult sa = None \<and>
     set (sa_itemIndices sa) = fset (fmdom (sa_items sa)) \<and>
     (\<forall>i it. fmlookup (sa_items sa) i = Some it \<longrightarrow>
        li_index it = i \<and> li_added it \<and> (li_stopped it \<longrightarrow> i \<in> has_index IRStreamContentStop out)) \<and>
     has_index IRStreamContentStart out = fset (fmdom (sa_items sa)) \<and>
     items_ordered {} out \<and> no_done out \<and> created_first out \<and> (sa_responseStarted sa \<longrightarrow> proper out \<noteq> [])"

lemma stream_inv_new: "stream_inv NewStreamAggregator []"
  by (simp add: stream_inv_def NewStreamAggregator_def no_done_def created_first_def proper_def)

lemma item_event_proper: "is_item_event e \<Longrightarrow> proper [e] = [e] \<and> no_done [e]"
  by (auto simp: is_item_event_def proper_def no_done_def)

lemma preamble_inv:
  assumes "stream_inv sa out" "ensureResponsePreamble sa = (r, sa')"
  shows "stream_inv sa' (out @ r) \<and> sa_responseStarted sa' \<and> deltas r = [] \<and> sa_items sa' = sa_items sa \<and>
     sa_itemIndices sa' = sa_itemIndices sa"
  using assms
  by (auto simp: ensureResponsePreamble_def stream_inv_def synthesizeResponseCreated_def event_of_type_def items_ordered_append
      is_item_event_def no_done_def created_append created_first_def proper_def deltas_def split: if_splits list.splits)

text \<open>An item event for an item that is started already, or is started just before it.\<close>

definition touched :: "itemLifecycle \<Rightarrow> StreamAggregator \<Rightarrow> StreamAggregator" where
  "touched it sa =
     sa\<lparr>sa_items := fmupd (li_index it) it (sa_items sa),
        sa_itemIndices := (if li_index it |\<in>| fmdom (sa_items sa) then sa_itemIndices sa else sa_itemIndices sa @ [li_index it])\<rparr>"

lemma touched_inv:
  assumes "stream_inv sa out" "sa_responseStarted sa" "li_added it"
    "is_item_event evt" "ie_Index evt = li_index it"
    "ss = [] \<and> (li_index it |\<in>| fmdom (sa_items sa) \<or> ie_Type evt = IRStreamContentStart) \<or>
     (\<exists>s. ss = [s] \<and> ie_Type s = IRStreamContentStart \<and> ie_Index s = li_index it)"
    "li_stopped it \<longrightarrow> ie_Type evt = IRStreamContentStop \<or> (\<exists>it0. fmlookup (sa_items sa) (li_index it) = Some it0 \<and> li_stopped it0)"
  shows "stream_inv (touched it sa) (out @ ss @ [evt])"
proof -
  have first: "proper out \<noteq> []" using assms(1,2) by (simp add: stream_inv_def)
  have started: "no_done ss" "items_ordered (fset (fmdom (sa_items sa))) (ss @ [evt])"
    "has_index IRStreamContentStart (ss @ [evt]) \<union> fset (fmdom (sa_items sa)) = insert (li_index it) (fset (fmdom (sa_items sa)))"
    using assms(4,5,6) by (auto simp: no_done_def is_item_event_def)
  have old: "has_index IRStreamContentStart out = fset (fmdom (sa_items sa))" "items_ordered {} out" "no_done out" "created_first out"
    "set (sa_itemIndices sa) = fset (fmdom (sa_items sa))" "\<not> sa_doneSent sa" "sa_doneResult sa = None"
    using assms(1) by (auto simp: stream_inv_def)
  have "created_first (out @ ss @ [evt])" using old(4) first by (simp add: created_append)
  moreover have "items_ordered {} (out @ ss @ [evt])" using started(2) old by (simp add: items_ordered_append [of _ out])
  moreover have stopped: "li_stopped it \<longrightarrow> li_index it \<in> has_index IRStreamContentStop (out @ ss @ [evt])"
    using assms(1,5,7) by (auto simp: stream_inv_def)
  moreover have "set (sa_itemIndices (touched it sa)) = fset (fmdom (sa_items (touched it sa)))"
    using old(5) by (auto simp: touched_def)
  moreover have "li_index it' = i \<and> li_added it' \<and> (li_stopped it' \<longrightarrow> i \<in> has_index IRStreamContentStop (out @ ss @ [evt]))"
    if "fmlookup (sa_items (touched it sa)) i = Some it'" for i it'
    using that assms(1,3) stopped by (auto simp: stream_inv_def touched_def split: if_splits)
  moreover have "has_index IRStreamContentStart (out @ ss @ [evt]) = fset (fmdom (sa_items (touched it sa)))"
  proof -
    have "has_index IRStreamContentStart (out @ ss @ [evt]) = fset (fmdom (sa_items sa)) \<union> has_index IRStreamContentStart (ss @ [evt])"
      by (simp only: has_index_simps(3) old(1))
    also have "\<dots> = insert (li_index it) (fset (fmdom (sa_items sa)))" using started(3) by (simp only: Un_commute)
    finally show ?thesis by (simp add: touched_def)
  qed
  moreover have "no_done (out @ ss @ [evt])" using old(3) started(1) item_event_proper [OF assms(4)] by simp
  moreover have "proper (out @ ss @ [evt]) \<noteq> []" using first by simp
  moreover have "\<not> sa_doneSent (touched it sa)" "sa_doneResult (touched it sa) = None" using old by (simp_all add: touched_def)
  ultimately show ?thesis unfolding stream_inv_def by blast
qed

section \<open>Every handler keeps it\<close>

lemma track_simps [simp]:
  "li_index (track_tool e it) = li_index it" "li_added (track_tool e it) = li_added it" "li_stopped (track_tool e it) = li_stopped it"
  "li_index (track_id e it) = li_index it" "li_added (track_id e it) = li_added it" "li_stopped (track_id e it) = li_stopped it"
  by (simp_all add: track_tool_def track_id_def Let_def split: option.splits IRPartType.splits)

lemma named_item_simps [simp]:
  "li_index (named_item it) = li_index it" "li_stopped (named_item it) = li_stopped it"
  "li_itemType (named_item it) = li_itemType it" "li_toolCall (named_item it) = li_toolCall it"
  by (simp_all add: named_item_def)

lemma synthesized_start:
  assumes "synthesizeOutputItemAdded it = (e, it')"
  shows "ie_Type e = IRStreamContentStart" "ie_Index e = li_index it" "li_index it' = li_index it" "li_stopped it' = li_stopped it"
  using assms
  by (auto simp: synthesizeOutputItemAdded_def event_of_type_def Let_def split: ItemType.splits option.splits prod.splits)

lemma ensured_item:
  assumes "stream_inv sa out" "ensureItem i t sa = (it, sa')"
  shows "li_index it = i"
    and "li_index it' = i \<Longrightarrow> put_item it' sa' = touched it' sa"
    and "i |\<in>| fmdom (sa_items sa) \<longleftrightarrow> li_added it"
    and "li_stopped it \<longrightarrow> (\<exists>it0. fmlookup (sa_items sa) i = Some it0 \<and> li_stopped it0)"
  using assms
  by (auto simp: ensureItem_def stream_inv_def put_item_def touched_def Let_def fmlookup_dom_iff split: option.splits if_splits)

lemma start_inv:
  assumes "stream_inv sa out" "ie_Type evt = IRStreamContentStart" "handleContentStart evt sa = (es, sa')"
  shows "stream_inv sa' (out @ es) \<and> deltas es = []"
proof -
  obtain r sa1 where p: "ensureResponsePreamble sa = (r, sa1)" by fastforce
  obtain it sa2 where i: "ensureItem (ie_Index evt) (start_item_type evt) sa1 = (it, sa2)" by fastforce
  note inv1 = preamble_inv [OF assms(1) p]
  define it1 where "it1 = (let it = (track_tool evt (track_id evt it))\<lparr>li_added := True\<rparr>
     in if li_itemType it = ItemText then it\<lparr>li_contentAdded := True\<rparr> else it)"
  have it1: "li_index it1 = ie_Index evt" "li_added it1" "li_stopped it1 = li_stopped it"
    using ensured_item(1) [OF conjunct1 [OF inv1] i] by (simp_all add: it1_def Let_def)
  have "es = r @ [evt]" "sa' = put_item it1 sa2"
    using assms(3) p i by (auto simp: handleContentStart_def it1_def Let_def)
  moreover have "stream_inv (touched it1 sa1) ((out @ r) @ [] @ [evt])"
    by (rule touched_inv) (use inv1 it1 assms(2) ensured_item(4) [OF conjunct1 [OF inv1] i] in \<open>auto simp: is_item_event_def\<close>)
  ultimately show ?thesis using inv1 assms(2) ensured_item(2) [OF conjunct1 [OF inv1] i it1(1)] by (simp add: deltas_def)
qed

lemma delta_inv:
  assumes "stream_inv sa out" "ie_Type evt = IRStreamContentDelta" "handleContentDelta evt sa = (es, sa')"
  shows "stream_inv sa' (out @ es) \<and> deltas es = [nonneg_index evt]"
proof -
  obtain r sa1 where p: "ensureResponsePreamble sa = (r, sa1)" by fastforce
  obtain it sa2 where i: "ensureItem (ie_Index (nonneg_index evt)) (inferItemType evt) sa1 = (it, sa2)" by fastforce
  note inv1 = preamble_inv [OF assms(1) p]
  note item = ensured_item [OF conjunct1 [OF inv1] i]
  obtain e it0 where s: "synthesizeOutputItemAdded it = (e, it0)" by fastforce
  define ss where "ss = (if li_added it then [] else [e])"
  define it1 where "it1 = (if li_added it then it else it0\<lparr>li_added := True\<rparr>)"
  define it2 where "it2 = track_tool (nonneg_index evt)
     (if li_itemType it1 = ItemText \<and> \<not> li_contentAdded it1 then it1\<lparr>li_contentAdded := True\<rparr> else it1)"
  have it2: "li_index it2 = ie_Index (nonneg_index evt)" "li_added it2" "li_stopped it2 = li_stopped it"
    using item(1) synthesized_start [OF s] by (simp_all add: it1_def it2_def)
  have t: "ie_Type (nonneg_index evt) = IRStreamContentDelta" using assms(2) by (simp add: nonneg_index_def)
  have "es = r @ ss @ [nonneg_index evt]" "sa' = put_item it2 sa2"
    using assms(3) p i s by (auto simp: handleContentDelta_def ss_def it1_def it2_def Let_def split: if_splits)
  moreover have "stream_inv (touched it2 sa1) ((out @ r) @ ss @ [nonneg_index evt])"
    by (rule touched_inv) (use inv1 it2 t item synthesized_start [OF s] in \<open>auto simp: is_item_event_def ss_def\<close>)
  moreover have "deltas ss = []" using synthesized_start [OF s] by (simp add: ss_def deltas_def)
  ultimately show ?thesis using inv1 t item(2) [OF it2(1)] by (simp add: deltas_def)
qed

lemma stop_inv:
  assumes "stream_inv sa out" "ie_Type evt = IRStreamContentStop" "handleContentStop evt sa = (es, sa')"
  shows "stream_inv sa' (out @ es) \<and> deltas es = []"
proof -
  obtain r sa1 where p: "ensureResponsePreamble sa = (r, sa1)" by fastforce
  note inv1 = preamble_inv [OF assms(1) p]
  show ?thesis
  proof (cases "fmlookup (sa_items sa1) (ie_Index evt)")
    case (Some it)
    define it1 where "it1 = (if li_stopped it then it else it\<lparr>li_stopped := True\<rparr>)"
    have it: "li_index it = ie_Index evt" "li_added it" using Some inv1 by (auto simp: stream_inv_def)
    have "es = r @ [evt]" "sa' = put_item it1 sa1"
      using assms(3) p Some by (auto simp: handleContentStop_def it1_def Let_def)
    moreover have "put_item it1 sa1 = touched it1 sa1"
      using Some it by (auto simp: put_item_def touched_def it1_def fmlookup_dom_iff)
    moreover have "stream_inv (touched it1 sa1) ((out @ r) @ [] @ [evt])"
      by (rule touched_inv) (use inv1 it assms(2) Some in \<open>auto simp: is_item_event_def it1_def fmlookup_dom_iff\<close>)
    ultimately show ?thesis using inv1 assms(2) by (simp add: deltas_def)
  next
    case None
    obtain it sa2 where i: "ensureItem (ie_Index evt) ItemUnknown sa1 = (it, sa2)" by fastforce
    note item = ensured_item [OF conjunct1 [OF inv1] i]
    obtain e it0 where s: "synthesizeOutputItemAdded it = (e, it0)" by fastforce
    have new: "\<not> li_added it" "\<not> li_stopped it" using item None by (auto simp: fmlookup_dom_iff)
    define it1 where "it1 = it0\<lparr>li_added := True, li_stopped := True\<rparr>"
    have it1: "li_index it1 = ie_Index evt" "li_added it1" using item(1) synthesized_start [OF s] by (simp_all add: it1_def)
    have "es = r @ [e] @ [evt]" "sa' = put_item it1 sa2"
      using assms(3) p None i s new synthesized_start [OF s] by (auto simp: handleContentStop_def it1_def Let_def)
    moreover have "stream_inv (touched it1 sa1) ((out @ r) @ [e] @ [evt])"
      by (rule touched_inv) (use inv1 it1 item assms(2) synthesized_start [OF s] in \<open>auto simp: is_item_event_def\<close>)
    ultimately show ?thesis using inv1 assms(2) item(2) [OF it1(1)] synthesized_start [OF s] by (simp add: deltas_def)
  qed
qed

text \<open>Events that are not about an item, and that the invariant does not read.\<close>

lemma other_inv:
  assumes "stream_inv sa out" "\<forall>e \<in> set es. \<not> is_item_event e \<and> ie_Type e \<noteq> IRStreamDone" "created_first (out @ es)"
    "sa' = sa\<lparr>sa_responseStarted := b, sa_responseID := x, sa_responseModel := y, sa_stopReason := z, sa_usage := u\<rparr>"
    "b \<longrightarrow> proper (out @ es) \<noteq> []"
  shows "stream_inv sa' (out @ es) \<and> deltas es = []"
proof -
  have "has_index IRStreamContentStart es = {}" "deltas es = []" "no_done es" "items_ordered S es" for S
    using assms(2) by (induction es arbitrary: S) (auto simp: is_item_event_def deltas_def no_done_def)
  then show ?thesis using assms(1,3,4,5) by (auto simp: stream_inv_def items_ordered_append)
qed

lemma message_start_inv:
  assumes "stream_inv sa out" "ie_Type evt = IRStreamMessageStart" "handleMessageStart evt sa = (es, sa')"
  shows "stream_inv sa' (out @ es) \<and> deltas es = []"
  using assms
  by (intro other_inv [where b = True and x = "ie_ResponseID evt" and y = "ie_ResponseModel evt" and z = "sa_stopReason sa" and u = "sa_usage sa"])
     (auto simp: handleMessageStart_def is_item_event_def created_append stream_inv_def created_first_def proper_def split: list.splits)

lemma message_delta_inv:
  assumes "stream_inv sa out" "ie_Type evt = IRStreamMessageDelta" "handleMessageDelta evt sa = (es, sa')"
  shows "stream_inv sa' (out @ es) \<and> deltas es = []"
  using assms
  by (intro other_inv [where b = "sa_responseStarted sa" and x = "sa_responseID sa" and y = "sa_responseModel sa"
        and z = "sa_stopReason sa'" and u = "sa_usage sa'"])
     (auto simp: handleMessageDelta_def Let_def is_item_event_def created_append stream_inv_def created_first_def proper_def
       synthesizeResponseCreated_def event_of_type_def split: if_splits list.splits)

lemma error_inv:
  assumes "stream_inv sa out" "ie_Type evt = IRStreamError"
  shows "stream_inv sa (out @ [evt]) \<and> deltas [evt] = []"
  using assms
  by (intro other_inv [where b = "sa_responseStarted sa" and x = "sa_responseID sa" and y = "sa_responseModel sa"
        and z = "sa_stopReason sa" and u = "sa_usage sa"])
     (auto simp: is_item_event_def created_append stream_inv_def created_first_def proper_def)

section \<open>The end of a stream\<close>

definition complete_stream :: "IRStreamEvent list \<Rightarrow> bool" where
  "complete_stream out \<longleftrightarrow>
     (\<exists>body delta finish. out = body @ [delta, finish] \<and> no_done body \<and> ie_Type delta = IRStreamMessageDelta \<and> ie_Type finish = IRStreamDone) \<and>
     items_ordered {} out \<and> created_first out \<and>
     has_index IRStreamContentStart out \<subseteq> has_index IRStreamContentStop out"

lemma put_same: "fmlookup (sa_items sa) (li_index it) = Some it \<Longrightarrow> put_item it sa = sa"
proof -
  assume "fmlookup (sa_items sa) (li_index it) = Some it"
  then have "fmupd (li_index it) it (sa_items sa) = sa_items sa" by (intro fmap_ext) auto
  then show ?thesis by (simp add: put_item_def)
qed

lemma close_items_out:
  assumes "stream_inv sa out" "set is \<subseteq> fset (fmdom (sa_items sa))" "close_items is sa = (es, sa')"
  shows "sa' = sa \<and> (\<forall>e \<in> set es. ie_Type e = IRStreamContentStop \<and> ie_Index e \<in> fset (fmdom (sa_items sa))) \<and>
     set is \<subseteq> has_index IRStreamContentStop (out @ es)"
  using assms(2,3)
proof (induction "is" arbitrary: es sa')
  case (Cons i "is")
  obtain it where it: "fmlookup (sa_items sa) i = Some it" using Cons.prems(1) by (auto simp: fmlookup_dom_iff)
  then have inv: "li_index it = i" "li_added it" "li_stopped it \<Longrightarrow> i \<in> has_index IRStreamContentStop out"
    using assms(1) by (auto simp: stream_inv_def)
  obtain rest sa1 where r: "close_items is sa = (rest, sa1)" by fastforce
  note IH = Cons.IH [OF _ r]
  show ?case
  proof (cases "li_stopped it")
    case True
    then show ?thesis using Cons.prems IH it r inv by auto
  next
    case False
    have "put_item it sa = sa" using it inv by (simp add: put_same)
    then have "es = (event_of_type IRStreamContentStop)\<lparr>ie_Index := i\<rparr> # rest" "sa' = sa1"
      using Cons.prems(2) it r False inv by (simp_all add: close_item_def)
    then show ?thesis using Cons.prems(1) IH by (auto simp: event_of_type_def)
  qed
qed simp

lemma stops_only:
  assumes "\<forall>e \<in> set es. ie_Type e = IRStreamContentStop \<and> ie_Index e \<in> S"
  shows "items_ordered S es \<and> no_done es \<and> deltas es = [] \<and> has_index IRStreamContentStart es = {}"
  using assms by (induction es) (auto simp: no_done_def deltas_def)

lemma done_inv:
  assumes "stream_inv sa out" "handleDone sa = (es, sa')"
  shows "complete_stream (out @ es) \<and> sa_doneSent sa' \<and> deltas es = []"
proof -
  let ?sa = "sa\<lparr>sa_doneReceived := True\<rparr>"
  have inv0: "stream_inv ?sa out" using assms(1) by (simp add: stream_inv_def)
  obtain r sa1 where p: "ensureResponsePreamble ?sa = (r, sa1)" by fastforce
  note inv1 = preamble_inv [OF inv0 p]
  obtain cs sa2 where c: "close_items (sortedItemIndices sa1) sa1 = (cs, sa2)" by fastforce
  have "set (sortedItemIndices sa1) = fset (fmdom (sa_items sa1))"
    using inv1 by (auto simp: sortedItemIndices_def stream_inv_def)
  with close_items_out [OF conjunct1 [OF inv1] _ c] have closed: "sa2 = sa1"
      "\<forall>e \<in> set cs. ie_Type e = IRStreamContentStop \<and> ie_Index e \<in> fset (fmdom (sa_items sa1))"
      "fset (fmdom (sa_items sa1)) \<subseteq> has_index IRStreamContentStop (out @ r @ cs)"
    by auto
  define delta where "delta = (event_of_type IRStreamMessageDelta)\<lparr>ie_StopReason := sa_stopReason sa2, ie_Usage := sa_usage sa2\<rparr>"
  define finish where "finish = (event_of_type IRStreamDone)\<lparr>ie_Usage := sa_usage sa2\<rparr>"
  have es: "es = r @ cs @ [delta, finish]" "sa_doneSent sa'"
    using assms p c by (auto simp: handleDone_def stream_inv_def delta_def finish_def Let_def)
  have types: "ie_Type delta = IRStreamMessageDelta" "ie_Type finish = IRStreamDone" by (simp_all add: delta_def finish_def event_of_type_def)
  have i1: "items_ordered {} (out @ r)" "has_index IRStreamContentStart (out @ r) = fset (fmdom (sa_items sa1))" "no_done (out @ r)"
    "created_first (out @ r)" "proper (out @ r) \<noteq> []"
    using inv1 by (auto simp: stream_inv_def)
  note cs = stops_only [OF closed(2)]
  have "items_ordered {} ((out @ r) @ cs @ [delta, finish])"
    unfolding items_ordered_append [of "{}" "out @ r"] i1(2) using i1(1) cs types by (simp add: items_ordered_append is_item_event_def)
  moreover have "created_first ((out @ r) @ cs @ [delta, finish])"
    unfolding created_append [of "out @ r"] using i1(4,5) by blast
  moreover have "has_index IRStreamContentStart ((out @ r) @ cs @ [delta, finish]) \<subseteq> has_index IRStreamContentStop ((out @ r) @ cs @ [delta, finish])"
    unfolding has_index_simps(3) [of _ "out @ r"] i1(2) using closed(3) cs types by auto
  moreover have "\<exists>body d f. out @ es = body @ [d, f] \<and> no_done body \<and> ie_Type d = IRStreamMessageDelta \<and> ie_Type f = IRStreamDone"
    using i1(3) cs types by (intro exI [of _ "out @ r @ cs"] exI [of _ delta] exI [of _ finish]) (simp add: es)
  moreover have "deltas es = []" using inv1 cs types by (simp add: es deltas_def)
  ultimately show ?thesis using es(2) by (simp add: complete_stream_def es(1))
qed

section \<open>Whole streams\<close>

lemma process_inv:
  assumes "stream_inv sa out" "ProcessIREvent e sa = (es, sa')" "ie_Type e \<noteq> IRStreamDone"
  shows "stream_inv sa' (out @ es) \<and> deltas es = map nonneg_index (deltas [e])"
proof -
  have n: "\<not> sa_doneSent sa" using assms(1) by (simp add: stream_inv_def)
  show ?thesis
  proof (cases "ie_Type e")
    case IRStreamMessageStart
    then show ?thesis using message_start_inv [OF assms(1), of e] assms(2) n by (simp add: ProcessIREvent_def deltas_def)
  next
    case IRStreamContentStart
    then show ?thesis using start_inv [OF assms(1), of e] assms(2) n by (simp add: ProcessIREvent_def deltas_def)
  next
    case IRStreamContentDelta
    then show ?thesis using delta_inv [OF assms(1), of e] assms(2) n by (simp add: ProcessIREvent_def deltas_def)
  next
    case IRStreamContentStop
    then show ?thesis using stop_inv [OF assms(1), of e] assms(2) n by (simp add: ProcessIREvent_def deltas_def)
  next
    case IRStreamMessageDelta
    then show ?thesis using message_delta_inv [OF assms(1), of e] assms(2) n by (simp add: ProcessIREvent_def deltas_def)
  next
    case IRStreamError
    then show ?thesis using error_inv [OF assms(1), of e] assms(2) n by (auto simp: ProcessIREvent_def deltas_def)
  qed (use assms(3) in simp)
qed

lemma process_finished: "sa_doneSent sa \<Longrightarrow> process_all es sa = ([], sa)"
  by (induction es) (auto simp: ProcessIREvent_def)

definition before_done :: "IRStreamEvent list \<Rightarrow> IRStreamEvent list" where
  "before_done es = takeWhile (\<lambda>e. ie_Type e \<noteq> IRStreamDone) es"

lemma process_all_inv:
  assumes "stream_inv sa out" "process_all es sa = (os, sa')"
  shows "(stream_inv sa' (out @ os) \<or> sa_doneSent sa' \<and> complete_stream (out @ os)) \<and>
     deltas os = map nonneg_index (deltas (before_done es))"
  using assms
proof (induction es arbitrary: sa out os sa')
  case Nil then show ?case by (simp add: before_done_def deltas_def)
next
  case (Cons e es)
  obtain o1 sa1 where p: "ProcessIREvent e sa = (o1, sa1)" by fastforce
  obtain o2 sa2 where q: "process_all es sa1 = (o2, sa2)" by fastforce
  have os: "os = o1 @ o2" "sa' = sa2" using Cons.prems(2) p q by simp_all
  show ?case
  proof (cases "ie_Type e = IRStreamDone")
    case True
    then have "handleDone sa = (o1, sa1)" using p Cons.prems(1) by (simp add: ProcessIREvent_def stream_inv_def)
    from done_inv [OF Cons.prems(1) this] show ?thesis
      using q os True process_finished [of sa1 es] by (simp add: before_done_def deltas_def)
  next
    case False
    from process_inv [OF Cons.prems(1) p False] have "stream_inv sa1 (out @ o1)" "deltas o1 = map nonneg_index (deltas [e])" by auto
    with Cons.IH [OF this(1) q] show ?thesis using os False by (simp add: before_done_def deltas_def)
  qed
qed

lemma aggregated_complete:
  "complete_stream (aggregated es) \<and> deltas (aggregated es) = map nonneg_index (deltas (before_done es))"
proof -
  obtain os sa where p: "process_all es NewStreamAggregator = (os, sa)" by fastforce
  obtain fs sa' where f: "Finalize sa = (fs, sa')" by fastforce
  from process_all_inv [OF stream_inv_new p] consider (live) "stream_inv sa os" | (ended) "sa_doneSent sa" "complete_stream os"
    and "deltas os = map nonneg_index (deltas (before_done es))" by auto
  then have "complete_stream (os @ fs) \<and> deltas fs = []"
  proof cases
    case live
    then have "handleDone sa = (fs, sa')" using f by (simp add: Finalize_def stream_inv_def)
    then show ?thesis using done_inv [OF live] by blast
  next
    case ended
    then show ?thesis using f by (simp add: Finalize_def deltas_def)
  qed
  then show ?thesis using process_all_inv [OF stream_inv_new p] p f by (simp add: aggregated_def)
qed

text \<open>C14: Whatever events an upstream adapter makes of a model's stream, in whatever order, the entry adapter is given a complete stream: apart from errors the
  response is created first; no item gets a delta or a stop before it was started; every item that was started is stopped; the last two events are the message
  delta and the only \<open>IRStreamDone\<close>; and the deltas are those of the upstream before its own end, in order, none lost and none added.\<close>

theorem aggregated_stream_complete:
  "complete_stream (aggregated es) \<and> deltas (aggregated es) = map nonneg_index (deltas (before_done es))"
  by (rule aggregated_complete)

text \<open>The end comes once: after it \<open>Finalize\<close> emits nothing and changes nothing.\<close>

lemma finalize_once: "Finalize (snd (Finalize sa)) = ([], snd (Finalize sa))" if "sa_doneResult sa = None"
  using that by (simp add: Finalize_def handleDone_def Let_def split: prod.splits)

lemma delta_opens: "\<exists>ss. fst (handleContentDelta e sa) = fst (ensureResponsePreamble sa) @ ss"
  by (auto simp: handleContentDelta_def Let_def case_prod_beta)

text \<open>A stream that opens with usage, or any other message delta, creates the response twice: the event that was made up is not remembered.\<close>

lemma response_created_twice:
  assumes "\<not> sa_doneSent sa" "\<not> sa_responseStarted sa" "ie_Type d = IRStreamMessageDelta" "ie_Type e = IRStreamContentDelta"
  obtains x y z sa1 where "ProcessIREvent d sa = ([x, d], sa1)" "fst (ProcessIREvent e sa1) = y # z"
    "ie_Type x = IRStreamMessageStart" "ie_Type y = IRStreamMessageStart"
proof -
  define sa1 where "sa1 = (let sb = (if ie_StopReason d \<noteq> IRStopUnset then sa\<lparr>sa_stopReason := ie_StopReason d\<rparr> else sa)
     in if ie_Usage d \<noteq> None then sb\<lparr>sa_usage := ie_Usage d\<rparr> else sb)"
  have kept: "\<not> sa_responseStarted sa1" "\<not> sa_doneSent sa1" using assms(1,2) by (simp_all add: sa1_def Let_def)
  define x where "x = synthesizeResponseCreated sa1"
  have "handleMessageDelta d sa = (if \<not> sa_responseStarted sa1 then ([x, d], sa1) else ([d], sa1))"
    unfolding handleMessageDelta_def sa1_def x_def Let_def by (rule refl)
  then have d: "ProcessIREvent d sa = ([x, d], sa1)" "ie_Type x = IRStreamMessageStart" "\<not> sa_responseStarted sa1" "\<not> sa_doneSent sa1"
    using assms(1,3) kept by (simp_all add: ProcessIREvent_def x_def synthesizeResponseCreated_def event_of_type_def)
  have "fst (ensureResponsePreamble sa1) = [synthesizeResponseCreated sa1]" using d(3) by (simp add: ensureResponsePreamble_def)
  then obtain z where "fst (ProcessIREvent e sa1) = synthesizeResponseCreated sa1 # z"
    using assms(4) d(4) delta_opens [of e sa1] by (auto simp: ProcessIREvent_def)
  then show thesis using that [OF d(1) _ d(2)] by (simp add: synthesizeResponseCreated_def event_of_type_def)
qed

end
