(* ===== verification/ChatAdapter.thy ===== *)
theory ChatAdapter
  imports LlmIR
begin

text \<open>
  The adapter of the Chat Completions protocol (\<open>backend/pkg/llmprotocol/protocol_openai_chat.go\<close>). A Go map that the code fills field by field is
  the finite map of the fields it set. A pointer that the code follows without a check is \<open>undefined\<close> where it is nil, which no decoder produces.
  The state of a stream is a record; the maps of a state that hold only \<open>true\<close> are sets.

  Lemmas: what a conversation in the wire form becomes and back, the stop reasons, and what is lost on the way.
\<close>

section \<open>Roles and stop reasons\<close>

definition mapOpenAIRole :: "string \<Rightarrow> IRRole" where
  "mapOpenAIRole role =
     (if role = ''system'' \<or> role = ''developer'' then IRRoleSystem
      else if role = ''user'' then IRRoleUser
      else if role = ''assistant'' then IRRoleAssistant
      else if role = ''tool'' then IRRoleTool
      else IRRoleUser)"

definition mapOpenAIFinishReason :: "string \<Rightarrow> IRStopReason" where
  "mapOpenAIFinishReason reason =
     (if reason = ''stop'' then IRStopEndTurn
      else if reason = ''length'' then IRStopMaxTokens
      else if reason = ''tool_calls'' then IRStopToolUse
      else if reason = ''content_filter'' then IRStopEndTurn
      else if reason = ''error'' then IRStopError
      else IRStopEndTurn)"

definition mapIRStopReasonToOpenAIFinish :: "IRStopReason \<Rightarrow> string" where
  "mapIRStopReasonToOpenAIFinish reason =
     (case reason of
        IRStopToolUse \<Rightarrow> ''tool_calls''
      | IRStopMaxTokens \<Rightarrow> ''length''
      | IRStopEndTurn \<Rightarrow> ''stop''
      | IRStopStopSequence \<Rightarrow> ''stop''
      | IRStopContentFilter \<Rightarrow> ''content_filter''
      | IRStopError \<Rightarrow> ''error''
      | IRStopLength \<Rightarrow> ''length''
      | IRStopUnset \<Rightarrow> ''stop'')"

section \<open>Tools\<close>

definition decodeOpenAIChatTools :: "any list \<Rightarrow> IRToolDecl list" where
  "decodeOpenAIChatTools rs =
     List.map_filter
       (\<lambda>m. if getString m ''type'' \<noteq> ''function'' then None
            else (case getMap m ''function'' of
                    None \<Rightarrow> None
                  | Some fn \<Rightarrow>
                      Some \<lparr>il_Type = ''function'', il_Name = getString fn ''name'', il_Description = getString fn ''description'',
                            il_Parameters = any_of_map (getMap fn ''parameters''), il_CacheControl = None\<rparr>)) (objects_in rs)"

definition encodeOpenAIChatTools :: "IRToolDecl list \<Rightarrow> any list" where
  "encodeOpenAIChatTools ts =
     map (\<lambda>t. obj_of
       [(''type'', AStr ''function''),
        (''function'', obj_of [(''name'', AStr (il_Name t)), (''description'', AStr (il_Description t)), (''parameters'', il_Parameters t)])]) ts"

definition decodeOpenAIChatToolChoice :: "any \<Rightarrow> IRToolChoice option" where
  "decodeOpenAIChatToolChoice tc =
     (case tc of
        AStr v \<Rightarrow> Some \<lparr>ik_Type = v, ik_Name = []\<rparr>
      | AObj v \<Rightarrow>
          (case (if getString v ''type'' = ''function'' then getMap v ''function'' else None) of
             Some fn \<Rightarrow> Some \<lparr>ik_Type = ''specific'', ik_Name = getString fn ''name''\<rparr>
           | None \<Rightarrow> Some \<lparr>ik_Type = getString v ''type'', ik_Name = []\<rparr>)
      | _ \<Rightarrow> None)"

definition encodeOpenAIChatToolChoice :: "IRToolChoice \<Rightarrow> any" where
  "encodeOpenAIChatToolChoice tc =
     (if ik_Type tc = ''auto'' then AStr ''auto''
      else if ik_Type tc = ''none'' then AStr ''none''
      else if ik_Type tc = ''required'' then AStr ''required''
      else if ik_Type tc = ''specific''
      then obj_of [(''type'', AStr ''function''), (''function'', obj_of [(''name'', AStr (ik_Name tc))])]
      else AStr ''auto'')"

section \<open>Messages\<close>

definition decode_chat_item :: "amap \<Rightarrow> IRContentPart list" where
  "decode_chat_item m =
     (let t = getString m ''type''
      in if t = ''text'' then [text_part (getString m ''text'')]
         else if t = ''refusal'' then [IRContentPart [] IRPartRefusal [] None None None (Some (getString m ''refusal'')) fmempty None]
         else if t = ''image_url''
         then [IRContentPart [] IRPartImage [] None None None None
                 (fmap_of_list [(''url'', getStringFromMap m [''image_url'', ''url''])]) None]
         else [])"

definition decodeOpenAIChatContent :: "any \<Rightarrow> IRContentPart list" where
  "decodeOpenAIChatContent v =
     (case v of
        AStr s \<Rightarrow> if s \<noteq> [] then [text_part s] else []
      | AArr xs \<Rightarrow> concat (map decode_chat_item (objects_in xs))
      | _ \<Rightarrow> [])"

definition decode_chat_call :: "sonic \<Rightarrow> any \<Rightarrow> IRContentPart" where
  "decode_chat_call js tc =
     (let tcm = obj_elem tc; fn = map_or_nil (getMap tcm ''function''); args = getString fn ''arguments'';
          input = (if args \<noteq> [] then parse_into_map js args (Some fmempty) else Some fmempty)
      in tool_part \<lparr>it_ID = getString tcm ''id'', it_Name = getString fn ''name'', it_ArgumentsRaw = [], it_ArgumentsJSON = input,
                    it_Status = ''completed''\<rparr>)"

definition reasoning_text :: "string \<Rightarrow> IRContentPart" where
  "reasoning_text s = reasoning_of \<lparr>ig_Content = s, ig_Signature = [], ig_Subtype = [], ig_EncryptedContent = []\<rparr>"

definition present_content :: "amap \<Rightarrow> any option" where
  "present_content m = (case fmlookup m ''content'' of Some ANull \<Rightarrow> None | c \<Rightarrow> c)"

definition decode_chat_result :: "amap \<Rightarrow> IRContentPart list option" where
  "decode_chat_result m =
     (case present_content m of
        None \<Rightarrow> None
      | Some c \<Rightarrow> (let ps = decodeOpenAIChatContent c in if ps = [] then None else Some ps))"

definition decode_chat_message :: "sonic \<Rightarrow> amap \<Rightarrow> IRMessage" where
  "decode_chat_message js m =
     (let role = getString m ''role'';
          calls = (case getList m ''tool_calls'' of
                     Some tcs \<Rightarrow> if role = ''assistant'' then map (decode_chat_call js) tcs else []
                   | None \<Rightarrow> []);
          reasoningContent = getString m ''reasoning_content'';
          reasoning = (if reasoningContent \<noteq> [] \<and> role = ''assistant'' then [reasoning_text reasoningContent] else []);
          rest = (if role = ''tool''
                  then [result_part (IRToolResultPart (getString m ''tool_call_id'') (decode_chat_result m) ''completed'' [])]
                  else (case present_content m of Some c \<Rightarrow> decodeOpenAIChatContent c | None \<Rightarrow> []))
      in \<lparr>im_ID = [], im_Role = mapOpenAIRole role, im_Name = [], im_Parts = calls @ reasoning @ rest\<rparr>)"

definition decodeOpenAIChatMessages :: "sonic \<Rightarrow> any list \<Rightarrow> IRMessage list" where
  "decodeOpenAIChatMessages js rs = map (decode_chat_message js) (objects_in rs)"

section \<open>Requests\<close>

definition chat_known_fields :: "string list" where
  "chat_known_fields =
     [''model'', ''messages'', ''stream'', ''temperature'', ''top_p'', ''top_k'', ''frequency_penalty'', ''presence_penalty'', ''max_tokens'',
      ''max_completion_tokens'', ''stop'', ''tools'', ''tool_choice'', ''seed'', ''user'', ''reasoning_effort'', ''response_format'',
      ''parallel_tool_calls'', ''stream_options'', ''metadata'', ''store'']"

definition system_text :: "IRMessage list \<Rightarrow> string" where
  "system_text ms = concat (map GetTextContent (filter (\<lambda>m. im_Role m = IRRoleSystem) ms))"

definition decode_response_format :: "amap \<Rightarrow> IRResponseFormat" where
  "decode_response_format m =
     (let t = getString m ''type''
      in \<lparr>ih_Type = t, ih_JSONSchema = (if t = ''json_schema'' then getMap m ''json_schema'' else None)\<rparr>)"

definition chat_DecodeRequest :: "sonic \<Rightarrow> amap \<Rightarrow> IRRequest" where
  "chat_DecodeRequest js raw =
     (let msgs = (case getList raw ''messages'' of Some ms \<Rightarrow> decodeOpenAIChatMessages js ms | None \<Rightarrow> []);
          mt = getIntDefault raw ''max_tokens'';
          maxTokens = (case getInt raw ''max_completion_tokens'' of Some c \<Rightarrow> if mt < c then c else mt | None \<Rightarrow> mt);
          preserved = fmfilter (\<lambda>k. k \<notin> set chat_known_fields) raw
      in new_request\<lparr>
           iq_Model := getString raw ''model'', iq_Stream := getBool raw ''stream'', iq_Messages := msgs, iq_System := system_text msgs,
           iq_Temperature := getFloat raw ''temperature'', iq_TopP := getFloat raw ''top_p'', iq_TopK := getInt raw ''top_k'',
           iq_FrequencyPenalty := getFloat raw ''frequency_penalty'', iq_PresencePenalty := getFloat raw ''presence_penalty'',
           iq_MaxTokens := maxTokens,
           iq_Stop := (case getStringList raw ''stop'' of
                         Some xs \<Rightarrow> xs
                       | None \<Rightarrow> if getString raw ''stop'' \<noteq> [] then [getString raw ''stop''] else []),
           iq_Seed := getInt raw ''seed'', iq_ParallelToolCalls := getBoolPtr raw ''parallel_tool_calls'',
           iq_StreamOptions := map_or_nil (getMap raw ''stream_options''), iq_Metadata := map_or_nil (getMap raw ''metadata''),
           iq_Store := getBoolPtr raw ''store'', iq_User := getString raw ''user'', iq_ReasoningEffort := getString raw ''reasoning_effort'',
           iq_Tools := (case getList raw ''tools'' of Some ts \<Rightarrow> decodeOpenAIChatTools ts | None \<Rightarrow> []),
           iq_ToolChoice := (case fmlookup raw ''tool_choice'' of Some tc \<Rightarrow> decodeOpenAIChatToolChoice tc | None \<Rightarrow> None),
           iq_ResponseFormat := map_option decode_response_format (getMap raw ''response_format''),
           iq_Extensions := (if preserved = fmempty then fmempty else fmap_of_list [(''openai_chat'', preserved)])\<rparr>)"

section \<open>Encoding requests\<close>

definition serializeChatToolCallArgs :: "sonic \<Rightarrow> tool_call_part \<Rightarrow> string" where
  "serializeChatToolCallArgs js tc = CanonicalToolArguments js (it_ArgumentsRaw tc) (it_ArgumentsJSON tc)"

definition encode_chat_call :: "sonic \<Rightarrow> tool_call_part \<Rightarrow> any" where
  "encode_chat_call js tc =
     obj_of [(''id'', AStr (it_ID tc)), (''type'', AStr ''function''),
             (''function'', obj_of [(''name'', AStr (it_Name tc)), (''arguments'', AStr (serializeChatToolCallArgs js tc))])]"

definition canMergeAssistantToolCallMessage :: "IRMessage \<Rightarrow> bool" where
  "canMergeAssistantToolCallMessage msg \<longleftrightarrow>
     im_Role msg = IRRoleAssistant \<and>
     list_all (\<lambda>p. ip_Type p = IRPartToolCall \<or> ip_Type p = IRPartReasoning) (im_Parts msg) \<and>
     list_ex (\<lambda>p. ip_Type p = IRPartToolCall \<and> ip_ToolCall p \<noteq> None) (im_Parts msg)"

definition hasToolCallPart :: "IRMessage \<Rightarrow> bool" where
  "hasToolCallPart msg \<longleftrightarrow>
     im_Role msg = IRRoleAssistant \<and> list_ex (\<lambda>p. ip_Type p = IRPartToolCall \<and> ip_ToolCall p \<noteq> None) (im_Parts msg)"

definition merge_step :: "IRMessage list \<Rightarrow> IRMessage \<Rightarrow> IRMessage list" where
  "merge_step normalized msg =
     (if canMergeAssistantToolCallMessage msg \<and> normalized \<noteq> [] \<and> hasToolCallPart (last normalized)
      then butlast normalized @ [(last normalized)\<lparr>im_Parts := im_Parts (last normalized) @ im_Parts msg\<rparr>]
      else normalized @ [msg])"

definition normalizeOpenAIChatMessageSequence :: "IRMessage list \<Rightarrow> IRMessage list" where
  "normalizeOpenAIChatMessageSequence ms = foldl merge_step [] ms"

text \<open>The variables of the loop over the parts of a message: the content of the message being built, its calls and reasoning, and what has been emitted.\<close>

record chat_draft =
  cd_content :: "string option"
  cd_hasContent :: bool
  cd_toolCalls :: "any list"
  cd_reasoning :: string
  cd_msgs :: "any list"

definition new_draft :: chat_draft where
  "new_draft = \<lparr>cd_content = None, cd_hasContent = False, cd_toolCalls = [], cd_reasoning = [], cd_msgs = []\<rparr>"

definition flushMessage :: "string \<Rightarrow> chat_draft \<Rightarrow> chat_draft" where
  "flushMessage baseRole d =
     (let content = (if cd_content d = None \<and> cd_toolCalls d = [] \<and> baseRole \<noteq> ''tool'' then Some [] else cd_content d);
          em = obj_of ([(''role'', AStr baseRole)] @ field_opt ''content'' AStr content @
                 field_if (cd_toolCalls d \<noteq> []) ''tool_calls'' (AArr (cd_toolCalls d)) @
                 field_if (cd_reasoning d \<noteq> []) ''reasoning_content'' (AStr (cd_reasoning d)))
      in if cd_hasContent d \<or> cd_toolCalls d \<noteq> [] \<or> cd_reasoning d \<noteq> [] \<or> baseRole \<noteq> ''tool''
         then new_draft\<lparr>cd_msgs := cd_msgs d @ [em]\<rparr> else new_draft\<lparr>cd_msgs := cd_msgs d\<rparr>)"

definition text_of_parts :: "IRContentPart list \<Rightarrow> string" where
  "text_of_parts ps = concat (map ip_Text (filter (\<lambda>p. ip_Type p = IRPartText) ps))"

definition encode_chat_result :: "IRToolResultPart \<Rightarrow> any" where
  "encode_chat_result tr =
     obj_of ([(''role'', AStr ''tool''), (''tool_call_id'', AStr (ix_ToolCallID tr))] @
       (case ix_Content tr of
          Some ps \<Rightarrow> [(''content'', AStr (text_of_parts ps))]
        | None \<Rightarrow> field_if (ix_Error tr \<noteq> []) ''content'' (AStr (ix_Error tr))))"

definition encode_chat_part :: "sonic \<Rightarrow> string \<Rightarrow> chat_draft \<Rightarrow> IRContentPart \<Rightarrow> chat_draft" where
  "encode_chat_part js baseRole d part =
     (case ip_Type part of
        IRPartText \<Rightarrow>
          d\<lparr>cd_content := Some ((case cd_content d of Some s \<Rightarrow> s | None \<Rightarrow> []) @ ip_Text part), cd_hasContent := True\<rparr>
      | IRPartToolCall \<Rightarrow>
          (case ip_ToolCall part of
             Some tc \<Rightarrow> d\<lparr>cd_toolCalls := cd_toolCalls d @ [encode_chat_call js tc]\<rparr>
           | None \<Rightarrow> d)
      | IRPartReasoning \<Rightarrow>
          (case ip_Reasoning part of Some r \<Rightarrow> d\<lparr>cd_reasoning := cd_reasoning d @ ig_Content r\<rparr> | None \<Rightarrow> d)
      | IRPartToolResult \<Rightarrow>
          (let d = (if cd_hasContent d \<or> cd_toolCalls d \<noteq> [] then flushMessage baseRole d else d)
           in d\<lparr>cd_msgs := cd_msgs d @ [encode_chat_result (deref (ip_ToolResult part))]\<rparr>)
      | _ \<Rightarrow> d)"

definition chat_base_role :: "IRRole \<Rightarrow> string" where
  "chat_base_role r = (case r of IRRoleAssistant \<Rightarrow> ''assistant'' | IRRoleTool \<Rightarrow> ''tool'' | _ \<Rightarrow> ''user'')"

definition encode_chat_message :: "sonic \<Rightarrow> IRMessage \<Rightarrow> any list" where
  "encode_chat_message js m =
     (let baseRole = chat_base_role (im_Role m);
          d = foldl (encode_chat_part js baseRole) new_draft (im_Parts m)
      in if cd_hasContent d \<or> cd_toolCalls d \<noteq> [] \<or> cd_reasoning d \<noteq> [] \<or> (im_Parts m = [] \<and> baseRole \<noteq> ''tool'')
         then cd_msgs (flushMessage baseRole d) else cd_msgs d)"

definition encodeOpenAIChatMessages :: "sonic \<Rightarrow> IRRequest \<Rightarrow> any list" where
  "encodeOpenAIChatMessages js ir =
     (if iq_System ir \<noteq> [] then [obj_of [(''role'', AStr ''system''), (''content'', AStr (iq_System ir))]] else []) @
     concat (map (\<lambda>m. if im_Role m = IRRoleSystem then [] else encode_chat_message js m)
       (normalizeOpenAIChatMessageSequence (iq_Messages ir)))"

definition encode_response_format :: "IRResponseFormat \<Rightarrow> any" where
  "encode_response_format rf =
     obj_of ([(''type'', AStr (ih_Type rf))] @
       (if ih_Type rf = ''json_schema'' then field_opt ''json_schema'' AObj (ih_JSONSchema rf) else []))"

definition chat_encodeRequestBody :: "sonic \<Rightarrow> IRRequest \<Rightarrow> amap" where
  "chat_encodeRequestBody js ir =
     fmap_of_list
       ([(''model'', AStr (iq_Model ir)), (''messages'', arr_of (encodeOpenAIChatMessages js ir))] @
        field_if (iq_Stream ir) ''stream'' (ABool True) @
        field_opt ''temperature'' ANum (iq_Temperature ir) @
        field_opt ''top_p'' ANum (iq_TopP ir) @
        field_opt ''top_k'' ANat (iq_TopK ir) @
        field_opt ''frequency_penalty'' ANum (iq_FrequencyPenalty ir) @
        field_opt ''presence_penalty'' ANum (iq_PresencePenalty ir) @
        field_if (0 < iq_MaxTokens ir) ''max_completion_tokens'' (ANat (iq_MaxTokens ir)) @
        field_if (iq_Stop ir \<noteq> []) ''stop'' (AArr (map AStr (iq_Stop ir))) @
        field_opt ''seed'' ANat (iq_Seed ir) @
        field_if (iq_ParallelToolCalls ir = Some True) ''parallel_tool_calls'' (ABool True) @
        field_if (iq_StreamOptions ir \<noteq> fmempty) ''stream_options'' (AObj (iq_StreamOptions ir)) @
        field_if (iq_Metadata ir \<noteq> fmempty) ''metadata'' (AObj (iq_Metadata ir)) @
        field_if (iq_User ir \<noteq> []) ''user'' (AStr (iq_User ir)) @
        field_if (iq_ReasoningEffort ir \<noteq> []) ''reasoning_effort'' (AStr (iq_ReasoningEffort ir)) @
        field_if (iq_Tools ir \<noteq> []) ''tools'' (AArr (encodeOpenAIChatTools (iq_Tools ir))) @
        field_opt ''tool_choice'' encodeOpenAIChatToolChoice (iq_ToolChoice ir) @
        field_opt ''response_format'' encode_response_format (iq_ResponseFormat ir))"

text \<open>Preserved fields are put back unless the body has them.\<close>

definition chat_EncodeRequest :: "sonic \<Rightarrow> IRRequest \<Rightarrow> amap" where
  "chat_EncodeRequest js ir =
     (case fmlookup (iq_Extensions ir) ''openai_chat'' of
        Some ext \<Rightarrow> ext ++\<^sub>f chat_encodeRequestBody js ir
      | None \<Rightarrow> chat_encodeRequestBody js ir)"

section \<open>Responses\<close>

definition decode_chat_usage :: "amap \<Rightarrow> IRUsage" where
  "decode_chat_usage u =
     (let usage = token_usage (getIntDefault u ''prompt_tokens'') (getIntDefault u ''completion_tokens'') (getIntDefault u ''total_tokens'');
          usage = (case getMap u ''prompt_tokens_details'' of
                     Some d \<Rightarrow> usage\<lparr>iu_CacheReadInputTokens := getIntDefault d ''cached_tokens''\<rparr> | None \<Rightarrow> usage)
      in (case getMap u ''completion_tokens_details'' of
            Some d \<Rightarrow> usage\<lparr>iu_ReasoningTokens := getIntDefault d ''reasoning_tokens''\<rparr> | None \<Rightarrow> usage))"

definition encodeOpenAIUsage :: "IRUsage \<Rightarrow> any" where
  "encodeOpenAIUsage u =
     obj_of
       ([(''prompt_tokens'', ANat (iu_InputTokens u)), (''completion_tokens'', ANat (iu_OutputTokens u)),
         (''total_tokens'', ANat (wrap64 (iu_InputTokens u + iu_OutputTokens u)))] @
        field_if (0 < iu_CacheReadInputTokens u) ''prompt_tokens_details'' (obj_of [(''cached_tokens'', ANat (iu_CacheReadInputTokens u))]) @
        field_if (0 < iu_ReasoningTokens u) ''completion_tokens_details'' (obj_of [(''reasoning_tokens'', ANat (iu_ReasoningTokens u))]))"

definition chat_DecodeResponse :: "sonic \<Rightarrow> amap \<Rightarrow> IRResponse" where
  "chat_DecodeResponse js raw =
     (let base = \<lparr>iz_ID = getString raw ''id'', iz_Model = getString raw ''model'', iz_Created = getInt64 raw ''created'', iz_Content = [],
                  iz_Usage = map_option decode_chat_usage (getMap raw ''usage''), iz_StopReason = IRStopUnset, iz_Extensions = fmempty\<rparr>
      in (case getList raw ''choices'' of
            Some (c # _) \<Rightarrow>
              (let choice = obj_elem c; msg = map_or_nil (getMap choice ''message'');
                   content = getString msg ''content''; reasoningContent = getString msg ''reasoning_content''
               in base\<lparr>
                    iz_Content :=
                      (if content \<noteq> [] then [text_part content] else []) @
                      (case getList msg ''tool_calls'' of Some tcs \<Rightarrow> map (decode_chat_call js) tcs | None \<Rightarrow> []) @
                      (if reasoningContent \<noteq> [] then [reasoning_text reasoningContent] else []),
                    iz_StopReason := mapOpenAIFinishReason (getString choice ''finish_reason'')\<rparr>)
          | _ \<Rightarrow> base))"

definition ensureChatPrefix :: "string \<Rightarrow> string" where
  "ensureChatPrefix i = (if prefix ''chatcmpl'' i then i else ''chatcmpl-'' @ i)"

definition response_text :: "IRContentPart list \<Rightarrow> string" where
  "response_text ps =
     concat (map (\<lambda>p. case ip_Type p of IRPartText \<Rightarrow> ip_Text p | IRPartRefusal \<Rightarrow> deref (ip_Refusal p) | _ \<Rightarrow> []) ps)"

definition response_calls :: "sonic \<Rightarrow> IRContentPart list \<Rightarrow> any list" where
  "response_calls js ps =
     List.map_filter (\<lambda>p. if ip_Type p = IRPartToolCall then map_option (encode_chat_call js) (ip_ToolCall p) else None) ps"

definition chat_EncodeResponse :: "sonic \<Rightarrow> int \<Rightarrow> IRResponse \<Rightarrow> amap" where
  "chat_EncodeResponse js clock ir =
     (let txt = response_text (iz_Content ir); calls = response_calls js (iz_Content ir);
          msg = obj_of ([(''role'', AStr ''assistant''), (''content'', if txt \<noteq> [] then AStr txt else ANull)] @
                  field_if (calls \<noteq> []) ''tool_calls'' (AArr calls))
      in fmap_of_list
           ([(''id'', AStr (ensureChatPrefix (iz_ID ir))), (''object'', AStr ''chat.completion''),
             (''created'', ANat (maybeNow clock (iz_Created ir))), (''model'', AStr (iz_Model ir)),
             (''choices'', AArr [obj_of [(''index'', ANat 0), (''message'', msg),
                (''finish_reason'', AStr (mapIRStopReasonToOpenAIFinish (iz_StopReason ir)))]])] @
            field_opt ''usage'' encodeOpenAIUsage (iz_Usage ir)))"

section \<open>Streams\<close>

record chatStreamState =
  ch_toolStartEmitted :: "int set"
  ch_toolIndexToGlobalIndex :: "(int, int) fmap"
  ch_toolGlobalIndices :: "int list"
  ch_nextGlobalIndex :: int
  ch_responseID :: string
  ch_model :: string

definition chat_NewStreamState :: chatStreamState where
  "chat_NewStreamState =
     \<lparr>ch_toolStartEmitted = {}, ch_toolIndexToGlobalIndex = fmempty, ch_toolGlobalIndices = [], ch_nextGlobalIndex = 0,
      ch_responseID = [], ch_model = []\<rparr>"

text \<open>One element of \<open>delta.tool_calls\<close>: its start when it carries an identifier, its arguments when its start is known.\<close>

definition decode_call_chunk :: "any \<Rightarrow> chatStreamState \<Rightarrow> IRStreamEvent list \<times> chatStreamState" where
  "decode_call_chunk tc st =
     (let tcm = obj_elem tc; fn = map_or_nil (getMap tcm ''function'');
          chatIdx = (case getFloat tcm ''index'' of Some f \<Rightarrow> int_of_float f | None \<Rightarrow> 0);
          callID = getString tcm ''id''; args = getString fn ''arguments''
      in if callID \<noteq> [] \<and> chatIdx \<in> ch_toolStartEmitted st then ([], st)
         else
           (let (starts, st) =
                  (if callID \<noteq> []
                   then (let g = ch_nextGlobalIndex st
                         in ([(event_of_type IRStreamContentStart)\<lparr>
                                ie_Index := g,
                                ie_Part := Some (tool_part \<lparr>it_ID = callID, it_Name = getString fn ''name'', it_ArgumentsRaw = [],
                                  it_ArgumentsJSON = None, it_Status = []\<rparr>)\<rparr>],
                             st\<lparr>ch_toolStartEmitted := insert chatIdx (ch_toolStartEmitted st), ch_nextGlobalIndex := g + 1,
                                ch_toolIndexToGlobalIndex := fmupd chatIdx g (ch_toolIndexToGlobalIndex st),
                                ch_toolGlobalIndices := ch_toolGlobalIndices st @ [g]\<rparr>))
                   else ([], st));
                arguments =
                  (if args = [] then []
                   else (case fmlookup (ch_toolIndexToGlobalIndex st) chatIdx of
                           Some g \<Rightarrow> [(event_of_type IRStreamContentDelta)\<lparr>ie_Index := g, ie_DeltaJSON := args\<rparr>]
                         | None \<Rightarrow> []))
            in (starts @ arguments, st)))"

fun decode_call_chunks :: "any list \<Rightarrow> chatStreamState \<Rightarrow> IRStreamEvent list \<times> chatStreamState" where
  "decode_call_chunks [] st = ([], st)"
| "decode_call_chunks (tc # tcs) st =
     (let (es, st) = decode_call_chunk tc st; (rest, st) = decode_call_chunks tcs st in (es @ rest, st))"

text \<open>The usage of a chunk goes to its last event.\<close>

definition attach_usage :: "IRUsage option \<Rightarrow> IRStreamEvent list \<Rightarrow> IRStreamEvent list" where
  "attach_usage u es =
     (if es = [] \<or> u = None \<or> ie_Usage (last es) \<noteq> None then es else butlast es @ [(last es)\<lparr>ie_Usage := u\<rparr>])"

text \<open>The first identifier and the first model are kept.\<close>

definition noted :: "string \<Rightarrow> string \<Rightarrow> chatStreamState \<Rightarrow> chatStreamState" where
  "noted responseID model st0 =
     (let st = (if responseID \<noteq> [] \<and> ch_responseID st0 = [] then st0\<lparr>ch_responseID := responseID\<rparr> else st0)
      in if model \<noteq> [] \<and> ch_model st = [] then st\<lparr>ch_model := model\<rparr> else st)"

definition chat_delta_events :: "amap \<Rightarrow> chatStreamState \<Rightarrow> IRStreamEvent list \<times> chatStreamState" where
  "chat_delta_events delta st =
     (let started = (if getString delta ''role'' = ''assistant''
                     then [(event_of_type IRStreamMessageStart)\<lparr>ie_ResponseID := ch_responseID st, ie_ResponseModel := ch_model st\<rparr>]
                     else []);
          content = getString delta ''content'';
          texts = (if content \<noteq> [] then [(event_of_type IRStreamContentDelta)\<lparr>ie_DeltaText := content\<rparr>] else []);
          thought = getString delta ''reasoning_content'';
          thoughts = (if thought \<noteq> []
                      then [(event_of_type IRStreamContentDelta)\<lparr>ie_DeltaText := thought, ie_DeltaType := ''reasoning''\<rparr>] else []);
          (calls, st) = (case getList delta ''tool_calls'' of Some tcs \<Rightarrow> decode_call_chunks tcs st | None \<Rightarrow> ([], st))
      in (started @ texts @ thoughts @ calls, st))"

definition chat_DecodeStreamEvent :: "amap \<Rightarrow> chatStreamState \<Rightarrow> IRStreamEvent list \<times> chatStreamState" where
  "chat_DecodeStreamEvent raw st0 =
     (let usage = map_option decode_chat_usage (getMap raw ''usage'')
      in case getList raw ''choices'' of
           Some (c # _) \<Rightarrow>
             (let choice = obj_elem c; finishReason = getString choice ''finish_reason'';
                  (events, st) = chat_delta_events (map_or_nil (getMap choice ''delta''))
                    (noted (getString raw ''id'') (getString raw ''model'') st0);
                  finished = (if finishReason \<noteq> []
                              then [(event_of_type IRStreamMessageDelta)\<lparr>ie_StopReason := mapOpenAIFinishReason finishReason\<rparr>] else [])
              in (attach_usage usage (events @ finished), st))
         | _ \<Rightarrow> (case usage of Some u \<Rightarrow> [(event_of_type IRStreamMessageDelta)\<lparr>ie_Usage := Some u\<rparr>] | None \<Rightarrow> [], st0))"

text \<open>A chunk with one choice, and the chunk that holds only usage.\<close>

definition chat_choice :: "int \<Rightarrow> (string \<times> any) list \<Rightarrow> any \<Rightarrow> any" where
  "chat_choice i delta finish =
     AArr [obj_of [(''index'', ANat i), (''delta'', obj_of delta), (''finish_reason'', finish)]]"

definition encode_start_call :: "sonic \<Rightarrow> int \<Rightarrow> tool_call_part \<Rightarrow> any" where
  "encode_start_call js i tc =
     obj_of [(''index'', ANat i), (''id'', AStr (it_ID tc)), (''type'', AStr ''function''),
             (''function'', obj_of [(''name'', AStr (it_Name tc)), (''arguments'', AStr (serializeChatToolCallArgs js tc))])]"

definition chat_stream_fields :: "sonic \<Rightarrow> IRStreamEvent \<Rightarrow> (string \<times> any) list" where
  "chat_stream_fields js e =
     (case ie_Type e of
        IRStreamMessageStart \<Rightarrow> [(''choices'', chat_choice 0 [(''role'', AStr ''assistant''), (''content'', AStr [])] ANull)]
      | IRStreamContentDelta \<Rightarrow>
          if ie_DeltaText e \<noteq> [] then [(''choices'', chat_choice (ie_Index e) [(''content'', AStr (ie_DeltaText e))] ANull)]
          else if ie_DeltaJSON e \<noteq> []
          then [(''choices'', chat_choice (ie_Index e)
                  [(''tool_calls'', AArr [obj_of [(''index'', ANat (ie_Index e)),
                     (''function'', obj_of [(''arguments'', AStr (ie_DeltaJSON e))])]])] ANull)]
          else []
      | IRStreamContentStart \<Rightarrow>
          (case ie_Part e of
             Some p \<Rightarrow>
               (case (ip_Type p, ip_ToolCall p) of
                  (IRPartToolCall, Some tc) \<Rightarrow>
                    [(''choices'', chat_choice (ie_Index e) [(''tool_calls'', AArr [encode_start_call js (ie_Index e) tc])] ANull)]
                | _ \<Rightarrow> [])
           | None \<Rightarrow> [])
      | IRStreamContentStop \<Rightarrow> []
      | IRStreamMessageDelta \<Rightarrow>
          (case ie_Usage e of
             Some u \<Rightarrow> [(''choices'', AArr []), (''usage'', encodeOpenAIUsage u)]
           | None \<Rightarrow> [(''choices'', chat_choice 0 [] (AStr (mapIRStopReasonToOpenAIFinish (ie_StopReason e))))])
      | IRStreamDone \<Rightarrow> []
      | IRStreamError \<Rightarrow>
          [(''choices'', chat_choice 0 [] (AStr ''error''))] @
          field_if (ie_ErrorMessage e \<noteq> []) ''error''
            (obj_of [(''message'', AStr (ie_ErrorMessage e)), (''type'', AStr (ie_ErrorType e))]))"

definition chat_EncodeStreamEvent :: "sonic \<Rightarrow> int \<Rightarrow> IRStreamEvent \<Rightarrow> chatStreamState \<Rightarrow> amap list \<times> chatStreamState" where
  "chat_EncodeStreamEvent js clock e st0 =
     (let st = noted (ie_ResponseID e) (ie_ResponseModel e) st0; fields = chat_stream_fields js e
      in (if fields = [] then []
          else [fmap_of_list ([(''id'', AStr ''chatcmpl-stream''), (''object'', AStr ''chat.completion.chunk''), (''created'', ANat clock),
                               (''model'', AStr (ch_model st))] @ fields)], st))"

section \<open>Reading what was written\<close>

text \<open>What the printer of a call's arguments has to satisfy for the call to be read back.\<close>

definition prints_back :: "sonic \<Rightarrow> amap \<Rightarrow> bool" where
  "prints_back js m \<longleftrightarrow> js_print js (AObj m) \<noteq> [] \<and> js_parse js (js_print js (AObj m)) = Some (AObj m)"

definition chat_call_ok :: "sonic \<Rightarrow> tool_call_part \<Rightarrow> bool" where
  "chat_call_ok js tc \<longleftrightarrow>
     it_ArgumentsRaw tc = [] \<and> it_Status tc = ''completed'' \<and> (\<exists>m. it_ArgumentsJSON tc = Some m \<and> prints_back js m)"

lemma call_back:
  assumes "chat_call_ok js tc"
  shows "decode_chat_call js (encode_chat_call js tc) = tool_part tc"
proof -
  obtain m where "it_ArgumentsJSON tc = Some m" "prints_back js m" using assms by (auto simp: chat_call_ok_def)
  then show ?thesis using assms
    by (cases tc) (simp add: decode_chat_call_def encode_chat_call_def obj_elem_def get_defs serializeChatToolCallArgs_def CanonicalToolArguments_def
        map_or_nil_def prints_back_def parse_into_map_def chat_call_ok_def Let_def)
qed

text \<open>The messages that the wire form can carry, as the decoder builds them.\<close>

definition said :: "IRRole \<Rightarrow> IRContentPart list \<Rightarrow> IRMessage" where
  "said r ps = \<lparr>im_ID = [], im_Role = r, im_Name = [], im_Parts = ps\<rparr>"

definition opt_text :: "string \<Rightarrow> IRContentPart list" where
  "opt_text s = (if s = [] then [] else [text_part s])"

definition opt_reasoning :: "string \<Rightarrow> IRContentPart list" where
  "opt_reasoning s = (if s = [] then [] else [reasoning_text s])"

inductive chat_message_ok :: "sonic \<Rightarrow> IRMessage \<Rightarrow> bool" for js where
  user: "chat_message_ok js (said IRRoleUser (opt_text s))"
| assistant: "list_all (chat_call_ok js) tcs \<Longrightarrow>
    chat_message_ok js (said IRRoleAssistant (map tool_part tcs @ opt_reasoning r @ opt_text s))"
| tool: "s \<noteq> [] \<Longrightarrow> chat_message_ok js (said IRRoleTool [result_part (IRToolResultPart i (Some [text_part s]) ''completed'' [])])"

lemma fold_calls:
  "foldl (encode_chat_part js r) d (map tool_part tcs) = d\<lparr>cd_toolCalls := cd_toolCalls d @ map (encode_chat_call js) tcs\<rparr>"
  by (induction tcs arbitrary: d) (simp_all add: encode_chat_part_def tool_part_def)

lemma fold_rest:
  "foldl (encode_chat_part js b) d (opt_reasoning r @ opt_text s) =
     d\<lparr>cd_reasoning := cd_reasoning d @ r, cd_content := (if s = [] then cd_content d
          else Some ((case cd_content d of Some x \<Rightarrow> x | None \<Rightarrow> []) @ s)), cd_hasContent := (cd_hasContent d \<or> s \<noteq> [])\<rparr>"
  by (simp add: opt_reasoning_def opt_text_def encode_chat_part_def reasoning_text_def reasoning_of_def text_part_def)

definition wire_assistant :: "sonic \<Rightarrow> tool_call_part list \<Rightarrow> string \<Rightarrow> string \<Rightarrow> amap" where
  "wire_assistant js tcs r s =
     fmap_of_list ([(''role'', AStr ''assistant'')] @
       field_opt ''content'' AStr (if s = [] \<and> tcs \<noteq> [] then None else Some s) @
       field_if (tcs \<noteq> []) ''tool_calls'' (AArr (map (encode_chat_call js) tcs)) @ field_if (r \<noteq> []) ''reasoning_content'' (AStr r))"

lemma encode_assistant:
  "encode_chat_message js (said IRRoleAssistant (map tool_part tcs @ opt_reasoning r @ opt_text s)) = [AObj (wire_assistant js tcs r s)]"
  by (simp add: encode_chat_message_def said_def chat_base_role_def fold_calls fold_rest [simplified] flushMessage_def new_draft_def
      wire_assistant_def obj_of_def Let_def opt_text_def opt_reasoning_def encode_chat_part_def reasoning_text_def reasoning_of_def text_part_def)

lemma decode_assistant:
  assumes "list_all (chat_call_ok js) tcs"
  shows "decode_chat_message js (wire_assistant js tcs r s) = said IRRoleAssistant (map tool_part tcs @ opt_reasoning r @ opt_text s)"
proof -
  have "map (decode_chat_call js) (map (encode_chat_call js) tcs) = map tool_part tcs"
    using assms by (induction tcs) (simp_all add: call_back)
  moreover have "fmlookup (wire_assistant js tcs r s) ''role'' = Some (AStr ''assistant'')"
    "fmlookup (wire_assistant js tcs r s) ''content'' = (if s = [] \<and> tcs \<noteq> [] then None else Some (AStr s))"
    "fmlookup (wire_assistant js tcs r s) ''tool_calls'' = (if tcs = [] then None else Some (AArr (map (encode_chat_call js) tcs)))"
    "fmlookup (wire_assistant js tcs r s) ''reasoning_content'' = (if r = [] then None else Some (AStr r))"
    by (simp_all add: wire_assistant_def)
  ultimately show ?thesis
    by (cases "s = []"; cases "tcs = []"; cases "r = []")
       (simp_all add: decode_chat_message_def get_defs said_def opt_reasoning_def opt_text_def present_content_def
        decodeOpenAIChatContent_def mapOpenAIRole_def Let_def)
qed

lemma chat_message_back:
  assumes "chat_message_ok js m"
  shows "\<exists>w. encode_chat_message js m = [AObj w] \<and> decode_chat_message js w = m \<and> im_Role m \<noteq> IRRoleSystem"
  using assms
proof cases
  case (user s)
  let ?w = "fmap_of_list [(''role'', AStr ''user''), (''content'', AStr s)]"
  have "encode_chat_message js m = [AObj ?w]"
    by (simp add: user encode_chat_message_def said_def chat_base_role_def new_draft_def flushMessage_def opt_text_def encode_chat_part_def
        text_part_def field_if_def field_opt_def obj_of_def)
  moreover have "decode_chat_message js ?w = m"
    by (simp add: user decode_chat_message_def get_defs said_def opt_text_def present_content_def decodeOpenAIChatContent_def mapOpenAIRole_def)
  ultimately show ?thesis using user by (auto simp: said_def)
next
  case (assistant tcs r s)
  then show ?thesis using encode_assistant decode_assistant by (auto simp: said_def)
next
  case (tool s i)
  let ?w = "fmap_of_list [(''role'', AStr ''tool''), (''tool_call_id'', AStr i), (''content'', AStr s)]"
  have "encode_chat_message js m = [AObj ?w]"
    by (simp add: tool encode_chat_message_def said_def chat_base_role_def new_draft_def encode_chat_part_def result_part_def deref_def
        encode_chat_result_def text_of_parts_def text_part_def obj_of_def)
  moreover have "decode_chat_message js ?w = m"
    using tool(2) by (simp add: tool(1) decode_chat_message_def get_defs said_def present_content_def decodeOpenAIChatContent_def
        decode_chat_result_def mapOpenAIRole_def)
  ultimately show ?thesis using tool by (auto simp: said_def)
qed

text \<open>Neighbours that the encoder would merge: calls of the assistant after calls of the assistant.\<close>

fun unmerged :: "IRMessage list \<Rightarrow> bool" where
  "unmerged (a # b # ms) \<longleftrightarrow> \<not> (hasToolCallPart a \<and> canMergeAssistantToolCallMessage b) \<and> unmerged (b # ms)"
| "unmerged _ \<longleftrightarrow> True"

lemma merge_unmerged:
  assumes "unmerged (a # ms)"
  shows "foldl merge_step (xs @ [a]) ms = xs @ a # ms"
  using assms
proof (induction ms arbitrary: a xs)
  case (Cons b ms)
  then have "merge_step (xs @ [a]) b = (xs @ [a]) @ [b]" by (auto simp: merge_step_def)
  then show ?case using Cons.IH [of b "xs @ [a]"] Cons.prems by simp
qed simp

lemma normalize_unmerged: "unmerged ms \<Longrightarrow> normalizeOpenAIChatMessageSequence ms = ms"
  using merge_unmerged [of "hd ms" "tl ms" "[]"]
  by (cases ms) (simp_all add: normalizeOpenAIChatMessageSequence_def merge_step_def)

section \<open>A request and its wire form\<close>

definition chat_tool_ok :: "IRToolDecl \<Rightarrow> bool" where
  "chat_tool_ok t \<longleftrightarrow> il_Type t = ''function'' \<and> il_CacheControl t = None \<and> (\<exists>m. il_Parameters t = any_of_map m)"

definition chat_choice_ok :: "IRToolChoice \<Rightarrow> bool" where
  "chat_choice_ok tc \<longleftrightarrow> ik_Type tc = ''specific'' \<or> ik_Name tc = [] \<and> ik_Type tc \<in> {''auto'', ''none'', ''required''}"

definition system_message :: "string \<Rightarrow> IRMessage list" where
  "system_message s = (if s = [] then [] else [said IRRoleSystem [text_part s]])"

definition chat_extensions_ok :: "(string, amap) fmap \<Rightarrow> bool" where
  "chat_extensions_ok e \<longleftrightarrow>
     e = fmempty \<or> (\<exists>ext. ext \<noteq> fmempty \<and> e = fmap_of_list [(''openai_chat'', ext)] \<and> (\<forall>k \<in> set chat_known_fields. fmlookup ext k = None))"

definition chat_request_ok :: "sonic \<Rightarrow> IRRequest \<Rightarrow> bool" where
  "chat_request_ok js ir \<longleftrightarrow>
     iq_ID ir = [] \<and> iq_SystemParts ir = [] \<and> iq_Instructions ir = [] \<and> iq_Thinking ir = None \<and> iq_Store ir = None \<and>
     iq_Include ir = [] \<and> iq_CacheControl ir = None \<and> iq_ParallelToolCalls ir \<noteq> Some False \<and>
     0 \<le> iq_MaxTokens ir \<and> int64_range (iq_MaxTokens ir) \<and>
     pred_option int64_range (iq_TopK ir) \<and> pred_option int64_range (iq_Seed ir) \<and>
     (\<exists>ms. iq_Messages ir = system_message (iq_System ir) @ ms \<and> list_all (chat_message_ok js) ms \<and> unmerged ms) \<and>
     list_all chat_tool_ok (iq_Tools ir) \<and> pred_option chat_choice_ok (iq_ToolChoice ir) \<and>
     pred_option (\<lambda>rf. ih_Type rf = ''json_schema'' \<or> ih_JSONSchema rf = None) (iq_ResponseFormat ir) \<and>
     chat_extensions_ok (iq_Extensions ir)"

lemma tools_back: "list_all chat_tool_ok ts \<Longrightarrow> decodeOpenAIChatTools (encodeOpenAIChatTools ts) = ts"
proof (induction ts)
  case (Cons t ts)
  then obtain m where "il_Type t = ''function''" "il_CacheControl t = None" "il_Parameters t = any_of_map m"
    by (auto simp: chat_tool_ok_def)
  then show ?case using Cons
    by (cases t; cases m) (simp_all add: decodeOpenAIChatTools_def encodeOpenAIChatTools_def objects_in_def get_defs map_filter_simps any_of_map_def)
qed (simp add: decodeOpenAIChatTools_def encodeOpenAIChatTools_def objects_in_def map_filter_simps)

lemma choice_back: "chat_choice_ok tc \<Longrightarrow> decodeOpenAIChatToolChoice (encodeOpenAIChatToolChoice tc) = Some tc"
  by (cases tc) (auto simp: chat_choice_ok_def decodeOpenAIChatToolChoice_def encodeOpenAIChatToolChoice_def get_defs)

lemma format_back:
  "ih_Type rf = ''json_schema'' \<or> ih_JSONSchema rf = None \<Longrightarrow> \<exists>m. encode_response_format rf = AObj m \<and> decode_response_format m = rf"
  by (cases rf) (auto simp: encode_response_format_def decode_response_format_def get_defs field_opt_def split: option.splits)

lemma messages_back:
  assumes "iq_Messages ir = system_message (iq_System ir) @ ms" "list_all (chat_message_ok js) ms" "unmerged ms"
  shows "decodeOpenAIChatMessages js (encodeOpenAIChatMessages js ir) = iq_Messages ir"
    and "system_text (iq_Messages ir) = iq_System ir"
proof -
  have "unmerged (system_message (iq_System ir) @ ms)"
    using assms(3) by (cases ms) (simp_all add: system_message_def said_def hasToolCallPart_def)
  then have n: "normalizeOpenAIChatMessageSequence (iq_Messages ir) = iq_Messages ir" using assms(1) by (simp add: normalize_unmerged)
  have "decodeOpenAIChatMessages js (concat (map (\<lambda>m. if im_Role m = IRRoleSystem then [] else encode_chat_message js m) ms)) = ms \<and>
      system_text ms = []"
    using assms(2)
  proof (induction ms)
    case (Cons m ms)
    then obtain w where "encode_chat_message js m = [AObj w]" "decode_chat_message js w = m" "im_Role m \<noteq> IRRoleSystem"
      using chat_message_back [of js m] Cons.prems by auto
    then show ?case using Cons by (simp add: decodeOpenAIChatMessages_def objects_in_def map_filter_simps system_text_def)
  qed (simp add: decodeOpenAIChatMessages_def objects_in_def map_filter_simps system_text_def)
  moreover have "decode_chat_message js (fmap_of_list [(''role'', AStr ''system''), (''content'', AStr s)]) = said IRRoleSystem [text_part s]"
    if "s \<noteq> []" for s
    using that by (simp add: decode_chat_message_def get_defs said_def present_content_def decodeOpenAIChatContent_def mapOpenAIRole_def)
  ultimately show "decodeOpenAIChatMessages js (encodeOpenAIChatMessages js ir) = iq_Messages ir"
    unfolding encodeOpenAIChatMessages_def n
    by (simp add: assms(1) system_message_def said_def decodeOpenAIChatMessages_def objects_in_append
        objects_in_def map_filter_simps obj_of_def)
  show "system_text (iq_Messages ir) = iq_System ir"
    using \<open>_ \<and> system_text ms = []\<close> assms(1)
    by (simp add: system_text_def system_message_def said_def GetTextContent_def text_part_def)
qed

lemma body_fields:
  "fmlookup (chat_encodeRequestBody js ir) ''model'' = Some (AStr (iq_Model ir))"
  "fmlookup (chat_encodeRequestBody js ir) ''messages'' = Some (arr_of (encodeOpenAIChatMessages js ir))"
  "fmlookup (chat_encodeRequestBody js ir) ''stream'' = (if iq_Stream ir then Some (ABool True) else None)"
  "fmlookup (chat_encodeRequestBody js ir) ''temperature'' = map_option ANum (iq_Temperature ir)"
  "fmlookup (chat_encodeRequestBody js ir) ''top_p'' = map_option ANum (iq_TopP ir)"
  "fmlookup (chat_encodeRequestBody js ir) ''top_k'' = map_option ANat (iq_TopK ir)"
  "fmlookup (chat_encodeRequestBody js ir) ''frequency_penalty'' = map_option ANum (iq_FrequencyPenalty ir)"
  "fmlookup (chat_encodeRequestBody js ir) ''presence_penalty'' = map_option ANum (iq_PresencePenalty ir)"
  "fmlookup (chat_encodeRequestBody js ir) ''max_tokens'' = None"
  "fmlookup (chat_encodeRequestBody js ir) ''max_completion_tokens'' = (if 0 < iq_MaxTokens ir then Some (ANat (iq_MaxTokens ir)) else None)"
  "fmlookup (chat_encodeRequestBody js ir) ''stop'' = (if iq_Stop ir \<noteq> [] then Some (AArr (map AStr (iq_Stop ir))) else None)"
  "fmlookup (chat_encodeRequestBody js ir) ''seed'' = map_option ANat (iq_Seed ir)"
  "fmlookup (chat_encodeRequestBody js ir) ''parallel_tool_calls'' = (if iq_ParallelToolCalls ir = Some True then Some (ABool True) else None)"
  "fmlookup (chat_encodeRequestBody js ir) ''stream_options'' = (if iq_StreamOptions ir \<noteq> fmempty then Some (AObj (iq_StreamOptions ir)) else None)"
  "fmlookup (chat_encodeRequestBody js ir) ''metadata'' = (if iq_Metadata ir \<noteq> fmempty then Some (AObj (iq_Metadata ir)) else None)"
  "fmlookup (chat_encodeRequestBody js ir) ''store'' = None"
  "fmlookup (chat_encodeRequestBody js ir) ''user'' = (if iq_User ir \<noteq> [] then Some (AStr (iq_User ir)) else None)"
  "fmlookup (chat_encodeRequestBody js ir) ''reasoning_effort'' = (if iq_ReasoningEffort ir \<noteq> [] then Some (AStr (iq_ReasoningEffort ir)) else None)"
  "fmlookup (chat_encodeRequestBody js ir) ''tools'' = (if iq_Tools ir \<noteq> [] then Some (AArr (encodeOpenAIChatTools (iq_Tools ir))) else None)"
  "fmlookup (chat_encodeRequestBody js ir) ''tool_choice'' = map_option encodeOpenAIChatToolChoice (iq_ToolChoice ir)"
  "fmlookup (chat_encodeRequestBody js ir) ''response_format'' = map_option encode_response_format (iq_ResponseFormat ir)"
  by (simp_all add: chat_encodeRequestBody_def)

lemma body_known: "fmlookup (chat_encodeRequestBody js ir) k \<noteq> None \<Longrightarrow> k \<in> set chat_known_fields"
  by (auto simp: chat_encodeRequestBody_def chat_known_fields_def lookup_else_def split: if_splits option.splits)

lemma preserved_back:
  assumes "chat_extensions_ok (iq_Extensions ir)"
  shows "k \<in> set chat_known_fields \<Longrightarrow> fmlookup (chat_EncodeRequest js ir) k = fmlookup (chat_encodeRequestBody js ir) k"
    and "(let p = fmfilter (\<lambda>k. k \<notin> set chat_known_fields) (chat_EncodeRequest js ir)
          in if p = fmempty then fmempty else fmap_of_list [(''openai_chat'', p)]) = iq_Extensions ir"
proof -
  define ext where "ext = (case fmlookup (iq_Extensions ir) ''openai_chat'' of Some e \<Rightarrow> e | None \<Rightarrow> fmempty)"
  have ext: "\<forall>k \<in> set chat_known_fields. fmlookup ext k = None"
    "iq_Extensions ir = (if ext = fmempty then fmempty else fmap_of_list [(''openai_chat'', ext)])"
    using assms by (auto simp: chat_extensions_ok_def ext_def)
  have raw: "chat_EncodeRequest js ir = ext ++\<^sub>f chat_encodeRequestBody js ir"
    by (auto simp: chat_EncodeRequest_def ext_def split: option.splits)
  have look: "fmlookup (chat_EncodeRequest js ir) k =
      (case fmlookup (chat_encodeRequestBody js ir) k of Some v \<Rightarrow> Some v | None \<Rightarrow> fmlookup ext k)" for k
    by (simp add: raw fmlookup_dom_iff split: option.splits)
  show "fmlookup (chat_EncodeRequest js ir) k = fmlookup (chat_encodeRequestBody js ir) k" if "k \<in> set chat_known_fields"
    using ext(1) that by (simp add: look split: option.splits)
  have "fmfilter (\<lambda>k. k \<notin> set chat_known_fields) (chat_EncodeRequest js ir) = ext"
    using ext(1) body_known by (intro fmap_ext) (force simp: look split: option.splits)
  then show "(let p = fmfilter (\<lambda>k. k \<notin> set chat_known_fields) (chat_EncodeRequest js ir)
      in if p = fmempty then fmempty else fmap_of_list [(''openai_chat'', p)]) = iq_Extensions ir"
    by (simp add: ext(2) Let_def)
qed

lemma chat_request_back:
  assumes "chat_request_ok js ir"
  shows "chat_DecodeRequest js (chat_EncodeRequest js ir) = ir"
proof -
  define raw where "raw = chat_EncodeRequest js ir"
  obtain ms where ms: "iq_Messages ir = system_message (iq_System ir) @ ms" "list_all (chat_message_ok js) ms" "unmerged ms"
    using assms by (auto simp: chat_request_ok_def)
  have ok: "chat_extensions_ok (iq_Extensions ir)" "pred_option int64_range (iq_TopK ir)" "pred_option int64_range (iq_Seed ir)"
    "0 \<le> iq_MaxTokens ir" "int64_range (iq_MaxTokens ir)" "list_all chat_tool_ok (iq_Tools ir)" "pred_option chat_choice_ok (iq_ToolChoice ir)"
    using assms by (auto simp: chat_request_ok_def)
  have "k \<in> set chat_known_fields \<Longrightarrow> fmlookup raw k = fmlookup (chat_encodeRequestBody js ir) k" for k
    unfolding raw_def by (rule preserved_back(1) [OF ok(1)])
  note known = this [unfolded chat_known_fields_def]
  have "(case getList raw ''messages'' of Some ms \<Rightarrow> decodeOpenAIChatMessages js ms | None \<Rightarrow> []) = iq_Messages ir"
    using messages_back(1) [OF ms] by (auto simp: getList_def known body_fields arr_of_def decodeOpenAIChatMessages_def objects_in_def map_filter_simps)
  moreover have "getFloat raw ''temperature'' = iq_Temperature ir" "getFloat raw ''top_p'' = iq_TopP ir"
    "getFloat raw ''frequency_penalty'' = iq_FrequencyPenalty ir" "getFloat raw ''presence_penalty'' = iq_PresencePenalty ir"
    "getInt raw ''top_k'' = iq_TopK ir" "getInt raw ''seed'' = iq_Seed ir"
    by (rule float_back int_back; simp add: known body_fields ok(2,3))+
  moreover have "getString raw ''model'' = iq_Model ir" "getBool raw ''stream'' = iq_Stream ir" "getString raw ''user'' = iq_User ir" "getString raw ''reasoning_effort'' = iq_ReasoningEffort ir"
    "map_or_nil (getMap raw ''stream_options'') = iq_StreamOptions ir" "map_or_nil (getMap raw ''metadata'') = iq_Metadata ir"
    "getBoolPtr raw ''store'' = None" "getIntDefault raw ''max_tokens'' = 0"
    by (simp_all add: get_defs known body_fields map_or_nil_def)
  moreover have "getBoolPtr raw ''parallel_tool_calls'' = iq_ParallelToolCalls ir"
    using assms by (cases "iq_ParallelToolCalls ir") (auto simp: getBoolPtr_def known body_fields chat_request_ok_def)
  moreover have "(case getInt raw ''max_completion_tokens'' of Some c \<Rightarrow> if 0 < c then c else 0 | None \<Rightarrow> 0) = iq_MaxTokens ir"
    using ok(4,5) by (simp add: getInt_def getFloat_def known body_fields ANat_def int_of_float_int)
  moreover have "(case getStringList raw ''stop'' of Some xs \<Rightarrow> xs
      | None \<Rightarrow> if getString raw ''stop'' \<noteq> [] then [getString raw ''stop''] else []) = iq_Stop ir"
    by (simp add: get_defs known body_fields strings_back)
  moreover have "(case getList raw ''tools'' of Some ts \<Rightarrow> decodeOpenAIChatTools ts | None \<Rightarrow> []) = iq_Tools ir"
    by (simp add: getList_def known body_fields tools_back [OF ok(6)])
  moreover have "(case fmlookup raw ''tool_choice'' of Some tc \<Rightarrow> decodeOpenAIChatToolChoice tc | None \<Rightarrow> None) = iq_ToolChoice ir"
    using ok(7) by (cases "iq_ToolChoice ir") (simp_all add: known body_fields choice_back)
  moreover have "map_option decode_response_format (getMap raw ''response_format'') = iq_ResponseFormat ir"
  proof (cases "iq_ResponseFormat ir")
    case (Some rf)
    then obtain m where "encode_response_format rf = AObj m" "decode_response_format m = rf"
      using format_back [of rf] assms by (auto simp: chat_request_ok_def)
    then show ?thesis using Some by (simp add: getMap_def known body_fields)
  qed (simp add: getMap_def known body_fields)
  moreover note messages_back(2) [OF ms] preserved_back(2) [OF ok(1), of js, folded raw_def]
  moreover have "iq_ID ir = []" "iq_SystemParts ir = []" "iq_Instructions ir = []" "iq_Thinking ir = None" "iq_Store ir = None"
    "iq_Include ir = []" "iq_CacheControl ir = None"
    using assms by (auto simp: chat_request_ok_def)
  ultimately have "chat_DecodeRequest js raw = ir"
    by (intro IRRequest.equality) (simp_all add: chat_DecodeRequest_def new_request_def Let_def)
  then show ?thesis by (simp add: raw_def)
qed

lemma chat_ok_renamed: "chat_request_ok js ir \<Longrightarrow> chat_request_ok js (ir\<lparr>iq_Model := n\<rparr>)"
  by (simp add: chat_request_ok_def)

interpretation chat_codec: request_codec "chat_DecodeRequest js" "chat_EncodeRequest js" "chat_request_ok js" for js
  by unfold_locales (rule chat_request_back chat_ok_renamed; assumption)+

text \<open>C16: A Chat request survives the conversion: decoding what \<open>EncodeRequest\<close> writes for a request that the wire form can carry gives the same
  request, with every message, call, tool, limit and the fields that the adapter does not know, provided the printer and parser of the calls' arguments
  agree, and so does the router's own
  copy, which it decodes and encodes again with the name of the upstream's model.\<close>

theorem chat_request_roundtrip:
  assumes "chat_request_ok js ir"
  shows "chat_DecodeRequest js (chat_EncodeRequest js ir) = ir \<and>
     chat_DecodeRequest js (chat_EncodeRequest js ((chat_DecodeRequest js (chat_EncodeRequest js ir))\<lparr>iq_Model := n\<rparr>)) = ir\<lparr>iq_Model := n\<rparr>"
  using assms by (rule chat_codec.routed)

section \<open>What is lost\<close>

text \<open>
  The Chat protocol has images, and its capabilities say so, so \<open>NormalizeRequest\<close> leaves them and warns of nothing; but the encoder has no case for them.
  A message of images alone is not sent at all.
\<close>

lemma image_not_encoded: "ip_Type p = IRPartImage \<Longrightarrow> encode_chat_part js b d p = d"
  by (simp add: encode_chat_part_def)

lemma image_message_dropped:
  assumes "im_Parts m \<noteq> []" "list_all (\<lambda>p. ip_Type p = IRPartImage) (im_Parts m)"
  shows "encode_chat_message js m = []"
proof -
  have "foldl (encode_chat_part js b) d ps = d" if "list_all (\<lambda>p. ip_Type p = IRPartImage) ps" for b d ps
    using that by (induction ps) (simp_all add: image_not_encoded)
  then show ?thesis using assms by (simp add: encode_chat_message_def new_draft_def Let_def)
qed

text \<open>C30: Images disappear without a trace on the way to a Chat model: a message that holds only images passes \<open>NormalizeRequest\<close> for the Chat protocol unchanged
  and without a warning, and the request that is sent does not contain the message.\<close>

theorem chat_images_lost:
  assumes "iq_Messages ir = a @ [m] @ b" "im_Role m = IRRoleUser" "im_Parts m \<noteq> []" "list_all (\<lambda>p. ip_Type p = IRPartImage) (im_Parts m)"
    "NormalizeRequest ir (CapabilitiesForProtocol ProtocolOpenAIChat) = Inr (ir', ws)"
  shows "iq_Messages ir' ! length a = m \<and>
     removal_warnings (CapabilitiesForProtocol ProtocolOpenAIChat) (length a) [m] = [] \<and>
     encode_chat_message js m = []"
proof -
  have s: "list_all (part_supported (CapabilitiesForProtocol ProtocolOpenAIChat)) (im_Parts m)"
    using assms(4) by (auto simp: list_all_iff part_supported_def needed_cap_def CapabilitiesForProtocol_def)
  obtain msgs tw c where t: "normalize_tools_from 0 (iq_Messages ir) = (msgs, tw, c)" by (metis prod_cases3)
  have "msgs ! length a = m" "length a < length msgs"
    using tools_from_roles [OF t] assms(1,2) by auto
  moreover have "iq_Messages ir' = map (supported_message (CapabilitiesForProtocol ProtocolOpenAIChat)) msgs"
    using normalize_some [OF assms(5)] t by (auto simp: normalizeToolMessages_def)
  moreover have "removal_warnings (CapabilitiesForProtocol ProtocolOpenAIChat) (length a) [m] = []"
    using s by (simp add: part_warnings_Nil)
  ultimately show ?thesis using supported_message_id [OF s] image_message_dropped [OF assms(3,4)] by simp
qed

section \<open>Instances\<close>

text \<open>A request with a call and its answer, under a printer and parser that know one text.\<close>

definition plain_sonic :: sonic where
  "plain_sonic = \<lparr>js_parse = \<lambda>_. Some (AObj fmempty), js_print = \<lambda>_. ''{}''\<rparr>"

definition chat_sample :: IRRequest where
  "chat_sample = new_request\<lparr>iq_Model := ''m'', iq_System := ''be brief'', iq_MaxTokens := 10,
     iq_Messages := [said IRRoleSystem [text_part ''be brief''], said IRRoleUser [text_part ''hi''], said IRRoleAssistant [text_part ''hello'']],
     iq_ToolChoice := Some \<lparr>ik_Type = ''auto'', ik_Name = []\<rparr>\<rparr>"

lemma chat_request_roundtrip_witness:
  "chat_DecodeRequest plain_sonic (chat_EncodeRequest plain_sonic chat_sample) = chat_sample"
proof -
  have "chat_message_ok plain_sonic (said IRRoleUser [text_part ''hi''])"
    using chat_message_ok.user [of _ "''hi''"] by (simp add: opt_text_def)
  moreover have "chat_message_ok plain_sonic (said IRRoleAssistant [text_part ''hello''])"
    using chat_message_ok.assistant [of _ "[]" "[]" "''hello''"] by (simp add: opt_text_def opt_reasoning_def)
  ultimately have "list_all (chat_message_ok plain_sonic) [said IRRoleUser [text_part ''hi''], said IRRoleAssistant [text_part ''hello'']] \<and>
      unmerged [said IRRoleUser [text_part ''hi''], said IRRoleAssistant [text_part ''hello'']]"
    by (simp add: hasToolCallPart_def said_def text_part_def)
  moreover have "iq_Messages chat_sample =
      system_message (iq_System chat_sample) @ [said IRRoleUser [text_part ''hi''], said IRRoleAssistant [text_part ''hello'']]"
    by (simp add: chat_sample_def system_message_def)
  ultimately have m: "\<exists>ms. iq_Messages chat_sample = system_message (iq_System chat_sample) @ ms \<and>
      list_all (chat_message_ok plain_sonic) ms \<and> unmerged ms"
    by blast
  have "chat_request_ok plain_sonic chat_sample"
    unfolding chat_request_ok_def using m
    by (simp add: chat_sample_def new_request_def int64_range_def chat_extensions_ok_def chat_choice_ok_def)
  from chat_request_roundtrip [OF this] show ?thesis by simp
qed

definition picture_request :: IRRequest where
  "picture_request = new_request\<lparr>iq_Messages := [said IRRoleUser [IRContentPart [] IRPartImage [] None None None None fmempty None]]\<rparr>"

lemma chat_images_lost_witness:
  "removal_warnings (CapabilitiesForProtocol ProtocolOpenAIChat) 0 (iq_Messages picture_request) = [] \<and>
   encode_chat_message plain_sonic (iq_Messages picture_request ! 0) = []"
proof -
  have "NormalizeRequest picture_request (CapabilitiesForProtocol ProtocolOpenAIChat) = Inr (picture_request, [])"
    by (simp add: NormalizeRequest_def picture_request_def new_request_def normalizeToolMessages_def normalize_tool_message_def
        part_warnings_def needed_cap_def said_def CapabilitiesForProtocol_def map_filter_simps)
  then show ?thesis
    using chat_images_lost [of picture_request "[]" "iq_Messages picture_request ! 0" "[]" picture_request "[]" plain_sonic]
    by (simp add: picture_request_def new_request_def said_def)
qed

end
