(* ===== verification/AnthropicAdapter.thy ===== *)
theory AnthropicAdapter
  imports LlmIR
begin

text \<open>
  The adapter of the Anthropic Messages protocol (\<open>backend/pkg/llmprotocol/protocol_anthropic.go\<close>). Where the stream encoder follows a pointer without a check
  the result is \<open>None\<close> when it is nil: the goroutine panics. The other encoders are \<open>undefined\<close> there, which no decoder produces. The maps of the stream
  state that hold only \<open>true\<close> are sets.

  Lemmas: conversations and requests survive encoding and decoding; what the stream encoder emits for a stream that has been completed.
\<close>

section \<open>Helpers\<close>

definition cloneMap :: "amap \<Rightarrow> amap option" where
  "cloneMap m = (if m = fmempty then None else Some m)"

definition getCacheControl :: "amap \<Rightarrow> amap option" where
  "getCacheControl m = (case getMap m ''cache_control'' of Some cc \<Rightarrow> cloneMap cc | None \<Rightarrow> None)"

definition cache_field :: "amap option \<Rightarrow> (string \<times> any) list" where
  "cache_field cc = (case cc of Some m \<Rightarrow> field_if (m \<noteq> fmempty) ''cache_control'' (AObj m) | None \<Rightarrow> [])"

definition anthropicBillingHeaderPrefix :: string where
  "anthropicBillingHeaderPrefix = ''x-anthropic-billing-header:''"

definition cr :: char where "cr = CHR 0x0D"
definition lf :: char where "lf = CHR 0x0A"

definition trim_prefix :: "string \<Rightarrow> string \<Rightarrow> string" where
  "trim_prefix p s = (if prefix p s then drop (length p) s else s)"

definition stripLeadingAnthropicBillingHeader :: "string \<Rightarrow> string" where
  "stripLeadingAnthropicBillingHeader t =
     (if \<not> prefix anthropicBillingHeaderPrefix t then t
      else
        (case dropWhile (\<lambda>c. c \<noteq> cr \<and> c \<noteq> lf) t of
           [] \<Rightarrow> []
         | c # rest0 \<Rightarrow>
             (let rest = (if c = cr \<and> take 1 rest0 = [lf] then drop 1 rest0 else rest0)
              in trim_prefix [cr] (trim_prefix [lf] (trim_prefix [cr, lf] rest)))))"

section \<open>Decoding content\<close>

definition mapAnthropicRole :: "string \<Rightarrow> IRRole" where
  "mapAnthropicRole role = (if role = ''user'' then IRRoleUser else if role = ''assistant'' then IRRoleAssistant else IRRoleUser)"

definition decodeToolResultContent :: "sonic \<Rightarrow> any option \<Rightarrow> IRContentPart list" where
  "decodeToolResultContent js content =
     (case content of
        Some (AStr s) \<Rightarrow> [text_part s]
      | Some (AArr xs) \<Rightarrow> map (\<lambda>m. text_part (getString m ''text'')) (filter (\<lambda>m. getString m ''type'' = ''text'') (objects_in xs))
      | Some v \<Rightarrow> [text_part (contentToString js v)]
      | None \<Rightarrow> [text_part (contentToString js ANull)])"

text \<open>A part of one kind, with the cache breakpoint of its block.\<close>

definition cached :: "amap option \<Rightarrow> IRContentPart \<Rightarrow> IRContentPart" where
  "cached cc p =
     IRContentPart (ip_ID p) (ip_Type p) (ip_Text p) (ip_ToolCall p) (ip_ToolResult p) (ip_Reasoning p) (ip_Refusal p) (ip_Metadata p) cc"

definition with_id :: "string \<Rightarrow> IRContentPart \<Rightarrow> IRContentPart" where
  "with_id i p =
     IRContentPart i (ip_Type p) (ip_Text p) (ip_ToolCall p) (ip_ToolResult p) (ip_Reasoning p) (ip_Refusal p) (ip_Metadata p) (ip_CacheControl p)"

definition some_list :: "'a list \<Rightarrow> 'a list option" where
  "some_list xs = (if xs = [] then None else Some xs)"

definition decode_block :: "sonic \<Rightarrow> amap \<Rightarrow> IRContentPart list" where
  "decode_block js m =
     (let t = getString m ''type''; cc = getCacheControl m
      in if t = ''text'' then [cached cc (text_part (getString m ''text''))]
         else if t = ''thinking''
         then [cached cc (reasoning_of \<lparr>ig_Content = getString m ''thinking'', ig_Signature = getString m ''signature'',
                 ig_Subtype = ''thinking'', ig_EncryptedContent = []\<rparr>)]
         else if t = ''redacted_thinking''
         then [cached cc (reasoning_of \<lparr>ig_Content = [], ig_Signature = getString m ''signature'', ig_Subtype = ''redacted_thinking'',
                 ig_EncryptedContent = getString m ''data''\<rparr>)]
         else if t = ''tool_use''
         then [with_id (getString m ''id'') (cached cc (tool_part
                 \<lparr>it_ID = getString m ''id'', it_Name = getString m ''name'',
                  it_ArgumentsRaw = CanonicalToolArguments js [] (getMap m ''input''), it_ArgumentsJSON = getMap m ''input'',
                  it_Status = ''completed''\<rparr>))]
         else if t = ''tool_result''
         then [cached cc (result_part (IRToolResultPart (getString m ''tool_use_id'')
                 (some_list (decodeToolResultContent js (fmlookup m ''content''))) ''success'' []))]
         else [])"

definition decodeAnthropicContent :: "sonic \<Rightarrow> any \<Rightarrow> IRContentPart list" where
  "decodeAnthropicContent js content =
     (case content of
        AStr v \<Rightarrow> [text_part v]
      | AArr xs \<Rightarrow> concat (map (decode_block js) (objects_in xs))
      | _ \<Rightarrow> [])"

definition decode_anthropic_message :: "sonic \<Rightarrow> amap \<Rightarrow> IRMessage" where
  "decode_anthropic_message js m =
     \<lparr>im_ID = [], im_Role = mapAnthropicRole (getString m ''role''), im_Name = [],
      im_Parts = (case fmlookup m ''content'' of Some c \<Rightarrow> decodeAnthropicContent js c | None \<Rightarrow> [])\<rparr>"

definition decodeAnthropicMessages :: "sonic \<Rightarrow> any list \<Rightarrow> IRMessage list" where
  "decodeAnthropicMessages js rs = map (decode_anthropic_message js) (objects_in rs)"

definition decodeAnthropicTools :: "any list \<Rightarrow> IRToolDecl list" where
  "decodeAnthropicTools rs =
     map (\<lambda>m. \<lparr>il_Type = ''function'', il_Name = getString m ''name'', il_Description = getString m ''description'',
                il_Parameters = any_of_map (getMap m ''input_schema''), il_CacheControl = getCacheControl m\<rparr>) (objects_in rs)"

definition decodeAnthropicToolChoice :: "any \<Rightarrow> IRToolChoice option" where
  "decodeAnthropicToolChoice tc =
     (case tc of
        AObj m \<Rightarrow>
          (let t = getString m ''type''
           in if t = ''any'' then Some \<lparr>ik_Type = ''required'', ik_Name = []\<rparr>
              else if t = ''tool'' then Some \<lparr>ik_Type = ''specific'', ik_Name = getString m ''name''\<rparr>
              else if t = ''auto'' then Some \<lparr>ik_Type = ''auto'', ik_Name = []\<rparr>
              else Some \<lparr>ik_Type = t, ik_Name = []\<rparr>)
      | _ \<Rightarrow> None)"

section \<open>Decoding requests\<close>

definition decode_system :: "any \<Rightarrow> IRSystemPart list" where
  "decode_system v =
     (case v of
        AArr xs \<Rightarrow>
          map (\<lambda>m. \<lparr>iy_Type = ''text'', iy_Text = stripLeadingAnthropicBillingHeader (getString m ''text''), iy_CacheControl = getCacheControl m\<rparr>)
            (filter (\<lambda>m. getString m ''type'' = ''text'') (objects_in xs))
      | _ \<Rightarrow> [])"

definition decode_system_text :: "any \<Rightarrow> string" where
  "decode_system_text v =
     (case v of
        AStr s \<Rightarrow> stripLeadingAnthropicBillingHeader s
      | _ \<Rightarrow> concat (map iy_Text (decode_system v)))"

definition anthropic_DecodeRequest :: "sonic \<Rightarrow> amap \<Rightarrow> IRRequest" where
  "anthropic_DecodeRequest js raw =
     (let outputConfig = getMap raw ''output_config'';
          effort = (case outputConfig of Some oc \<Rightarrow> getString oc ''effort'' | None \<Rightarrow> [])
      in new_request\<lparr>
           iq_Model := getString raw ''model'', iq_Stream := getBool raw ''stream'', iq_MaxTokens := getIntDefault raw ''max_tokens'',
           iq_CacheControl := getCacheControl raw, iq_Metadata := map_or_nil (getMap raw ''metadata''),
           iq_ReasoningEffort := effort,
           iq_Extensions :=
             (case outputConfig of
                Some oc \<Rightarrow> if oc \<noteq> fmempty then fmap_of_list [(''anthropic'', fmap_of_list [(''output_config'', AObj oc)])] else fmempty
              | None \<Rightarrow> fmempty),
           iq_Thinking :=
             map_option (\<lambda>th. \<lparr>iw_Type = getString th ''type'', iw_BudgetTokens = getIntDefault th ''budget_tokens'', iw_Effort = effort,
               iw_Level = [], iw_IncludeThoughts = None, iw_DynamicBudget = False, iw_Display = [], iw_EncryptedContent = [], iw_Subtype = []\<rparr>)
               (getMap raw ''thinking''),
           iq_System := (case fmlookup raw ''system'' of Some v \<Rightarrow> decode_system_text v | None \<Rightarrow> []),
           iq_SystemParts := (case fmlookup raw ''system'' of Some v \<Rightarrow> decode_system v | None \<Rightarrow> []),
           iq_Messages := (case getList raw ''messages'' of Some ms \<Rightarrow> decodeAnthropicMessages js ms | None \<Rightarrow> []),
           iq_Temperature := getFloat raw ''temperature'', iq_TopP := getFloat raw ''top_p'', iq_TopK := getInt raw ''top_k'',
           iq_Stop := (case getStringList raw ''stop_sequences'' of Some xs \<Rightarrow> xs | None \<Rightarrow> []),
           iq_Tools := (case getList raw ''tools'' of Some ts \<Rightarrow> decodeAnthropicTools ts | None \<Rightarrow> []),
           iq_ToolChoice := (case fmlookup raw ''tool_choice'' of Some tc \<Rightarrow> decodeAnthropicToolChoice tc | None \<Rightarrow> None)\<rparr>)"

section \<open>Encoding content\<close>

definition tool_input :: "sonic \<Rightarrow> tool_call_part \<Rightarrow> any" where
  "tool_input js tc =
     (case (if it_ArgumentsRaw tc \<noteq> [] then js_parse js (it_ArgumentsRaw tc) else None) of
        Some v \<Rightarrow> v
      | None \<Rightarrow> (case it_ArgumentsJSON tc of Some m \<Rightarrow> AObj m | None \<Rightarrow> ANull))"

definition encode_reasoning :: "reasoning_part \<Rightarrow> (string \<times> any) list" where
  "encode_reasoning r =
     (let subtype = (if ig_Subtype r = [] then ''thinking'' else ig_Subtype r)
      in [(''type'', AStr subtype)] @
         (if subtype = ''redacted_thinking'' then [(''data'', AStr (ig_EncryptedContent r))] else [(''thinking'', AStr (ig_Content r))]) @
         field_if (ig_Signature r \<noteq> []) ''signature'' (AStr (ig_Signature r)))"

fun encodeAnthropicParts :: "sonic \<Rightarrow> IRContentPart list \<Rightarrow> any list" where
  "encodeAnthropicParts js [] = []"
| "encodeAnthropicParts js (IRContentPart i t txt tc tr r refusal md cc # ps) =
     (case t of
        IRPartText \<Rightarrow> [obj_of ([(''type'', AStr ''text''), (''text'', AStr txt)] @ cache_field cc)]
      | IRPartReasoning \<Rightarrow>
          (case r of None \<Rightarrow> [] | Some r' \<Rightarrow> [obj_of (encode_reasoning r' @ cache_field cc)])
      | IRPartToolCall \<Rightarrow>
          [obj_of ([(''type'', AStr ''tool_use''), (''id'', AStr (it_ID (deref tc))), (''name'', AStr (it_Name (deref tc))),
                    (''input'', tool_input js (deref tc))] @ cache_field cc)]
      | IRPartToolResult \<Rightarrow>
          (case tr of
             None \<Rightarrow> undefined
           | Some (IRToolResultPart callID content status err) \<Rightarrow>
               (let resultContent = (case content of Some cs \<Rightarrow> encodeAnthropicParts js cs | None \<Rightarrow> [])
                in [obj_of ([(''type'', AStr ''tool_result''), (''tool_use_id'', AStr callID)] @
                      (if err \<noteq> [] then [(''content'', AStr err), (''is_error'', ABool True)]
                       else field_if (resultContent \<noteq> []) ''content'' (AArr resultContent)) @ cache_field cc)]))
      | _ \<Rightarrow> []) @ encodeAnthropicParts js ps"

definition encode_anthropic_message :: "sonic \<Rightarrow> IRMessage \<Rightarrow> any" where
  "encode_anthropic_message js m =
     (let role = (case im_Role m of IRRoleAssistant \<Rightarrow> ''assistant'' | _ \<Rightarrow> ''user'');
          content = encodeAnthropicParts js (im_Parts m)
      in obj_of ([(''role'', AStr role)] @ field_if (content \<noteq> []) ''content'' (AArr content)))"

definition encodeAnthropicMessages :: "sonic \<Rightarrow> IRMessage list \<Rightarrow> any list" where
  "encodeAnthropicMessages js ms = map (encode_anthropic_message js) ms"

definition encodeAnthropicSystemParts :: "IRSystemPart list \<Rightarrow> any list" where
  "encodeAnthropicSystemParts ps =
     map (\<lambda>p. obj_of ([(''type'', AStr ''text''), (''text'', AStr (stripLeadingAnthropicBillingHeader (iy_Text p)))] @ cache_field (iy_CacheControl p)))
       (filter (\<lambda>p. iy_Type p = [] \<or> iy_Type p = ''text'') ps)"

definition encodeAnthropicToolChoice :: "IRToolChoice \<Rightarrow> any" where
  "encodeAnthropicToolChoice tc =
     (if ik_Type tc = ''auto'' then obj_of [(''type'', AStr ''auto'')]
      else if ik_Type tc = ''any'' \<or> ik_Type tc = ''required'' then obj_of [(''type'', AStr ''any'')]
      else if ik_Type tc = ''none'' then obj_of [(''type'', AStr ''none'')]
      else if ik_Type tc = ''specific'' then obj_of [(''type'', AStr ''tool''), (''name'', AStr (ik_Name tc))]
      else obj_of [(''type'', AStr ''auto'')])"

section \<open>Encoding requests\<close>

definition normalizeAnthropicEffort :: "string \<Rightarrow> string" where
  "normalizeAnthropicEffort effort =
     (let e = to_lower (trim_space effort)
      in if e = ''minimal'' then ''low''
         else if e \<in> set [''low'', ''medium'', ''high'', ''xhigh'', ''max''] then e else [])"

definition encodeAnthropicThinkingConfig :: "IRThinkingConfig \<Rightarrow> int \<Rightarrow> any" where
  "encodeAnthropicThinkingConfig tc maxTokens =
     obj_of (field_if (iw_Type tc \<noteq> []) ''type'' (AStr (iw_Type tc)) @
       field_if (map ascii_lower (iw_Type tc) = ''enabled'' \<and> 0 < iw_BudgetTokens tc) ''budget_tokens''
         (ANat (if 1 < maxTokens \<and> maxTokens \<le> iw_BudgetTokens tc then maxTokens - 1 else iw_BudgetTokens tc)))"

definition anthropic_effort :: "IRRequest \<Rightarrow> string" where
  "anthropic_effort ir =
     (let effort = normalizeAnthropicEffort (iq_ReasoningEffort ir)
      in case iq_Thinking ir of
           Some th \<Rightarrow> if effort = [] then normalizeAnthropicEffort (iw_Effort th) else effort
         | None \<Rightarrow> effort)"

definition encode_anthropic_tool :: "IRToolDecl \<Rightarrow> any" where
  "encode_anthropic_tool t =
     obj_of ([(''name'', AStr (il_Name t)), (''description'', AStr (il_Description t)), (''input_schema'', il_Parameters t)] @
       cache_field (il_CacheControl t))"

definition anthropic_EncodeRequest :: "sonic \<Rightarrow> IRRequest \<Rightarrow> amap" where
  "anthropic_EncodeRequest js ir =
     (let maxTokens = (if iq_MaxTokens ir = 0 then 4096 else iq_MaxTokens ir)
      in fmap_of_list
           ([(''model'', AStr (iq_Model ir)), (''max_tokens'', ANat maxTokens),
             (''messages'', arr_of (encodeAnthropicMessages js (iq_Messages ir)))] @
            (if iq_SystemParts ir \<noteq> [] then [(''system'', AArr (encodeAnthropicSystemParts (iq_SystemParts ir)))]
             else field_if (iq_System ir \<noteq> []) ''system'' (AStr (stripLeadingAnthropicBillingHeader (iq_System ir)))) @
            cache_field (iq_CacheControl ir) @
            field_if (iq_Metadata ir \<noteq> fmempty) ''metadata'' (AObj (iq_Metadata ir)) @
            field_opt ''thinking'' (\<lambda>th. encodeAnthropicThinkingConfig th maxTokens) (iq_Thinking ir) @
            field_if (anthropic_effort ir \<noteq> []) ''output_config'' (obj_of [(''effort'', AStr (anthropic_effort ir))]) @
            field_opt ''temperature'' ANum (iq_Temperature ir) @
            field_opt ''top_p'' ANum (iq_TopP ir) @
            field_opt ''top_k'' ANat (iq_TopK ir) @
            field_if (iq_Stop ir \<noteq> []) ''stop_sequences'' (AArr (map AStr (iq_Stop ir))) @
            field_if (iq_Stream ir) ''stream'' (ABool True) @
            field_if (iq_Tools ir \<noteq> []) ''tools'' (AArr (map encode_anthropic_tool (iq_Tools ir))) @
            field_opt ''tool_choice'' encodeAnthropicToolChoice (iq_ToolChoice ir)))"

section \<open>Responses\<close>

definition mapAnthropicStopReason :: "string \<Rightarrow> IRStopReason" where
  "mapAnthropicStopReason reason =
     (if reason = ''end_turn'' then IRStopEndTurn
      else if reason = ''max_tokens'' then IRStopMaxTokens
      else if reason = ''stop_sequence'' then IRStopStopSequence
      else if reason = ''tool_use'' then IRStopToolUse
      else IRStopEndTurn)"

definition mapAnthropicEncodedStopReason :: "IRStopReason \<Rightarrow> string" where
  "mapAnthropicEncodedStopReason reason =
     (case reason of
        IRStopEndTurn \<Rightarrow> ''end_turn''
      | IRStopMaxTokens \<Rightarrow> ''max_tokens''
      | IRStopStopSequence \<Rightarrow> ''stop_sequence''
      | IRStopToolUse \<Rightarrow> ''tool_use''
      | _ \<Rightarrow> ''end_turn'')"

definition decode_anthropic_usage :: "amap \<Rightarrow> IRUsage" where
  "decode_anthropic_usage u =
     (let usage = token_usage (getIntDefault u ''input_tokens'') (getIntDefault u ''output_tokens'') 0;
          usage = (case getInt u ''cache_creation_input_tokens'' of Some n \<Rightarrow> usage\<lparr>iu_CacheCreationInputTokens := n\<rparr> | None \<Rightarrow> usage)
      in (case getInt u ''cache_read_input_tokens'' of Some n \<Rightarrow> usage\<lparr>iu_CacheReadInputTokens := n\<rparr> | None \<Rightarrow> usage))"

definition encode_anthropic_usage :: "IRUsage \<Rightarrow> any" where
  "encode_anthropic_usage u =
     obj_of ([(''input_tokens'', ANat (iu_InputTokens u)), (''output_tokens'', ANat (iu_OutputTokens u))] @
       field_if (0 < iu_CacheReadInputTokens u) ''cache_read_input_tokens'' (ANat (iu_CacheReadInputTokens u)) @
       field_if (0 < iu_CacheCreationInputTokens u) ''cache_creation_input_tokens'' (ANat (iu_CacheCreationInputTokens u)))"

definition anthropic_DecodeResponse :: "sonic \<Rightarrow> amap \<Rightarrow> IRResponse" where
  "anthropic_DecodeResponse js raw =
     \<lparr>iz_ID = getString raw ''id'', iz_Model = getString raw ''model'', iz_Created = 0,
      iz_Content = (case getList raw ''content'' of Some xs \<Rightarrow> decodeAnthropicContent js (AArr xs) | None \<Rightarrow> []),
      iz_Usage = map_option decode_anthropic_usage (getMap raw ''usage''),
      iz_StopReason = mapAnthropicStopReason (getString raw ''stop_reason''), iz_Extensions = fmempty\<rparr>"

text \<open>A turn that ends with a tool call is reported as \<open>tool_use\<close> whatever its stop reason was.\<close>

definition anthropic_EncodeResponse :: "sonic \<Rightarrow> IRResponse \<Rightarrow> amap" where
  "anthropic_EncodeResponse js ir =
     (let content = encodeAnthropicParts js (iz_Content ir);
          stopReason = mapAnthropicEncodedStopReason (iz_StopReason ir);
          stopReason = (if stopReason = ''end_turn'' \<and> list_ex (\<lambda>b. getString b ''type'' = ''tool_use'') (objects_in content)
                        then ''tool_use'' else stopReason)
      in fmap_of_list
           ([(''id'', AStr (iz_ID ir)), (''type'', AStr ''message''), (''role'', AStr ''assistant''), (''model'', AStr (iz_Model ir)),
             (''content'', AArr content), (''stop_reason'', AStr stopReason), (''stop_sequence'', ANull)] @
            field_opt ''usage'' encode_anthropic_usage (iz_Usage ir)))"

section \<open>Decoding streams\<close>

record anthropicStreamState =
  an_textStarted :: "int set"
  an_textStopped :: "int set"
  an_reasoningStarted :: "int set"
  an_reasoningStopped :: "int set"
  an_toolStarted :: "int set"
  an_toolStopped :: "int set"
  an_toolBlockIDs :: "(int, string) fmap"
  an_toolBlockNames :: "(int, string) fmap"
  an_accumulatedInputTokens :: int
  an_accumulatedCacheReadTokens :: int
  an_accumulatedCacheCreationTokens :: int

definition anthropic_NewStreamState :: anthropicStreamState where
  "anthropic_NewStreamState =
     \<lparr>an_textStarted = {}, an_textStopped = {}, an_reasoningStarted = {}, an_reasoningStopped = {}, an_toolStarted = {},
      an_toolStopped = {}, an_toolBlockIDs = fmempty, an_toolBlockNames = fmempty, an_accumulatedInputTokens = 0,
      an_accumulatedCacheReadTokens = 0, an_accumulatedCacheCreationTokens = 0\<rparr>"

definition start_event :: "int \<Rightarrow> IRContentPart \<Rightarrow> IRStreamEvent" where
  "start_event i p = (event_of_type IRStreamContentStart)\<lparr>ie_Index := i, ie_Part := Some p\<rparr>"

definition decode_block_start :: "int \<Rightarrow> amap \<Rightarrow> anthropicStreamState \<Rightarrow> IRStreamEvent \<times> anthropicStreamState" where
  "decode_block_start i block st =
     (let blockType = getString block ''type''
      in if blockType = ''tool_use''
         then (start_event i (tool_part \<lparr>it_ID = getString block ''id'', it_Name = getString block ''name'', it_ArgumentsRaw = [],
                 it_ArgumentsJSON = None, it_Status = []\<rparr>),
               st\<lparr>an_toolStarted := insert i (an_toolStarted st),
                  an_toolBlockIDs := fmupd i (getString block ''id'') (an_toolBlockIDs st),
                  an_toolBlockNames := fmupd i (getString block ''name'') (an_toolBlockNames st)\<rparr>)
         else if blockType = ''thinking'' \<or> blockType = ''redacted_thinking''
         then (start_event i (reasoning_of
                 (if blockType = ''redacted_thinking''
                  then \<lparr>ig_Content = [], ig_Signature = getString block ''signature'', ig_Subtype = ''redacted_thinking'',
                        ig_EncryptedContent = getString block ''data''\<rparr>
                  else \<lparr>ig_Content = getString block ''thinking'', ig_Signature = getString block ''signature'', ig_Subtype = ''thinking'',
                        ig_EncryptedContent = []\<rparr>)),
               st\<lparr>an_reasoningStarted := insert i (an_reasoningStarted st)\<rparr>)
         else (start_event i (part_of_type IRPartText), st\<lparr>an_textStarted := insert i (an_textStarted st)\<rparr>))"

definition decode_block_delta :: "int \<Rightarrow> amap \<Rightarrow> anthropicStreamState \<Rightarrow> IRStreamEvent list" where
  "decode_block_delta i delta st =
     (let deltaType = getString delta ''type''
      in if deltaType = ''text_delta''
         then (if i \<in> an_textStopped st then []
               else [(event_of_type IRStreamContentDelta)\<lparr>ie_Index := i, ie_DeltaText := getString delta ''text''\<rparr>])
         else if deltaType = ''input_json_delta''
         then (if i \<in> an_toolStopped st then []
               else [(event_of_type IRStreamContentDelta)\<lparr>ie_Index := i, ie_DeltaJSON := getString delta ''partial_json''\<rparr>])
         else if deltaType = ''thinking_delta''
         then [(event_of_type IRStreamContentDelta)\<lparr>ie_Index := i, ie_DeltaText := getString delta ''thinking''\<rparr>]
         else [])"

definition decode_message_start :: "amap \<Rightarrow> anthropicStreamState \<Rightarrow> IRStreamEvent \<times> anthropicStreamState" where
  "decode_message_start msg st =
     (let e = (event_of_type IRStreamMessageStart)\<lparr>ie_ResponseID := getString msg ''id'', ie_ResponseModel := getString msg ''model''\<rparr>
      in case getMap msg ''usage'' of
           Some u \<Rightarrow>
             (let usage = token_usage (getIntDefault u ''input_tokens'') (getIntDefault u ''output_tokens'') 0
              in (e\<lparr>ie_Usage := Some usage\<rparr>,
                  st\<lparr>an_accumulatedInputTokens := iu_InputTokens usage, an_accumulatedCacheReadTokens := iu_CacheReadInputTokens usage,
                     an_accumulatedCacheCreationTokens := iu_CacheCreationInputTokens usage\<rparr>))
         | None \<Rightarrow> (e, st))"

definition decode_message_delta :: "amap \<Rightarrow> amap option \<Rightarrow> anthropicStreamState \<Rightarrow> IRStreamEvent" where
  "decode_message_delta delta usage st =
     (event_of_type IRStreamMessageDelta)\<lparr>
       ie_StopReason := mapAnthropicStopReason (getString delta ''stop_reason''),
       ie_Usage := map_option (\<lambda>u.
         (let out = getIntDefault u ''output_tokens'';
              usage = token_usage (an_accumulatedInputTokens st) out (wrap64 (an_accumulatedInputTokens st + out))
          in case getInt u ''input_tokens'' of
               Some i \<Rightarrow> if 0 < i then usage\<lparr>iu_InputTokens := i\<rparr> else usage
             | None \<Rightarrow> usage)) usage\<rparr>"

definition anthropic_DecodeStreamEvent :: "amap \<Rightarrow> anthropicStreamState \<Rightarrow> IRStreamEvent list \<times> anthropicStreamState" where
  "anthropic_DecodeStreamEvent raw st =
     (let eventType = getString raw ''type''; i = getIntDefault raw ''index''
      in if eventType = ''message_start''
         then (let (e, st) = decode_message_start (map_or_nil (getMap raw ''message'')) st in ([e], st))
         else if eventType = ''content_block_start''
         then (let (e, st) = decode_block_start i (map_or_nil (getMap raw ''content_block'')) st in ([e], st))
         else if eventType = ''content_block_delta'' then (decode_block_delta i (map_or_nil (getMap raw ''delta'')) st, st)
         else if eventType = ''content_block_stop''
         then ([(event_of_type IRStreamContentStop)\<lparr>ie_Index := i\<rparr>],
               st\<lparr>an_textStopped := (if i \<in> an_textStarted st then insert i (an_textStopped st) else an_textStopped st),
                  an_toolStopped := (if i \<in> an_toolStarted st then insert i (an_toolStopped st) else an_toolStopped st)\<rparr>)
         else if eventType = ''message_delta''
         then ([decode_message_delta (map_or_nil (getMap raw ''delta'')) (getMap raw ''usage'') st], st)
         else if eventType = ''message_stop'' then ([event_of_type IRStreamDone], st)
         else if eventType = ''error''
         then (let err = map_or_nil (getMap raw ''error'')
               in ([(event_of_type IRStreamError)\<lparr>ie_ErrorMessage := getString err ''type'' @ '': '' @ getString err ''message'',
                     ie_ErrorType := getString err ''type''\<rparr>], st))
         else ([], st))"

section \<open>Encoding streams\<close>

definition block_start :: "int \<Rightarrow> any \<Rightarrow> amap" where
  "block_start i block = fmap_of_list [(''type'', AStr ''content_block_start''), (''index'', ANat i), (''content_block'', block)]"

definition block_delta :: "int \<Rightarrow> (string \<times> any) list \<Rightarrow> amap" where
  "block_delta i delta = fmap_of_list [(''type'', AStr ''content_block_delta''), (''index'', ANat i), (''delta'', obj_of delta)]"

definition block_stop :: "int \<Rightarrow> amap" where
  "block_stop i = fmap_of_list [(''type'', AStr ''content_block_stop''), (''index'', ANat i)]"

definition message_stop :: amap where
  "message_stop = fmap_of_list [(''type'', AStr ''message_stop'')]"

definition empty_text_block :: any where
  "empty_text_block = obj_of [(''type'', AStr ''text''), (''text'', AStr [])]"

definition tool_use_block :: "string \<Rightarrow> string \<Rightarrow> any" where
  "tool_use_block callID name =
     obj_of [(''type'', AStr ''tool_use''), (''id'', AStr callID), (''name'', AStr name), (''input'', obj_of [])]"

definition text_opened :: "int \<Rightarrow> anthropicStreamState \<Rightarrow> anthropicStreamState" where
  "text_opened i st = st\<lparr>an_textStarted := insert i (an_textStarted st)\<rparr>"

text \<open>The start of a block. A tool call or a thought that is missing from its part is followed as a nil pointer.\<close>

definition encode_content_start :: "int \<Rightarrow> IRContentPart option \<Rightarrow> anthropicStreamState \<Rightarrow> (amap list \<times> anthropicStreamState) option" where
  "encode_content_start i part st =
     (case part of
        None \<Rightarrow> Some ([block_start i empty_text_block], text_opened i st)
      | Some p \<Rightarrow>
          (case ip_Type p of
             IRPartToolCall \<Rightarrow>
               (case ip_ToolCall p of
                  None \<Rightarrow> None
                | Some tc \<Rightarrow>
                    Some ([block_start i (tool_use_block (it_ID tc) (it_Name tc))],
                      st\<lparr>an_toolStarted := insert i (an_toolStarted st), an_toolBlockIDs := fmupd i (it_ID tc) (an_toolBlockIDs st),
                         an_toolBlockNames := fmupd i (it_Name tc) (an_toolBlockNames st)\<rparr>))
           | IRPartReasoning \<Rightarrow>
               (case ip_Reasoning p of
                  None \<Rightarrow> None
                | Some r \<Rightarrow>
                    Some ([block_start i (obj_of ([(''type'', AStr ''thinking''), (''thinking'', AStr (ig_Content r))] @
                             field_if (ig_Signature r \<noteq> []) ''signature'' (AStr (ig_Signature r))))],
                      text_opened i st))
           | _ \<Rightarrow> Some ([block_start i empty_text_block], text_opened i st)))"

definition lookup_or :: "string \<Rightarrow> (int, string) fmap \<Rightarrow> int \<Rightarrow> string" where
  "lookup_or d m i = (case fmlookup m i of Some s \<Rightarrow> if s \<noteq> [] then s else d | None \<Rightarrow> d)"

definition encode_content_delta :: "IRStreamEvent \<Rightarrow> anthropicStreamState \<Rightarrow> amap list \<times> anthropicStreamState" where
  "encode_content_delta e st =
     (let i = ie_Index e; thinking = (case ie_Part e of Some p \<Rightarrow> ip_Type p = IRPartReasoning | None \<Rightarrow> False)
      in if ie_DeltaText e \<noteq> []
         then (let starts = (if i \<in> an_textStarted st then []
                             else [block_start i (if thinking then obj_of [(''type'', AStr ''thinking''), (''thinking'', AStr [])]
                                                  else empty_text_block)])
               in (starts @ [block_delta i (if thinking then [(''type'', AStr ''thinking_delta''), (''thinking'', AStr (ie_DeltaText e))]
                                            else [(''type'', AStr ''text_delta''), (''text'', AStr (ie_DeltaText e))])],
                   text_opened i st))
         else if ie_DeltaJSON e \<noteq> []
         then (let starts = (if i \<in> an_toolStarted st then []
                             else [block_start i (tool_use_block (lookup_or (''toolu_stream_'' @ itoa i) (an_toolBlockIDs st) i)
                                                    (lookup_or [] (an_toolBlockNames st) i))])
               in (starts @ [block_delta i [(''type'', AStr ''input_json_delta''), (''partial_json'', AStr (ie_DeltaJSON e))]],
                   st\<lparr>an_toolStarted := insert i (an_toolStarted st)\<rparr>))
         else ([], st))"

definition encode_message_start :: "IRStreamEvent \<Rightarrow> amap" where
  "encode_message_start e =
     fmap_of_list
       [(''type'', AStr ''message_start''),
        (''message'', obj_of
          ([(''id'', AStr (ie_ResponseID e)), (''type'', AStr ''message''), (''role'', AStr ''assistant''), (''model'', AStr (ie_ResponseModel e)),
            (''content'', AArr [])] @ field_opt ''usage'' encode_anthropic_usage (ie_Usage e)))]"

definition encode_message_delta :: "IRStreamEvent \<Rightarrow> amap" where
  "encode_message_delta e =
     fmap_of_list
       ([(''type'', AStr ''message_delta''),
         (''delta'', obj_of [(''stop_reason'', AStr (mapAnthropicEncodedStopReason (ie_StopReason e))), (''stop_sequence'', ANull)])] @
        field_opt ''usage'' encode_anthropic_usage (ie_Usage e))"

definition encode_stream_error :: "IRStreamEvent \<Rightarrow> amap" where
  "encode_stream_error e =
     fmap_of_list
       [(''type'', AStr ''error''),
        (''error'', obj_of [(''type'', AStr (if ie_ErrorType e \<noteq> [] then ie_ErrorType e else ''error'')), (''message'', AStr (ie_ErrorMessage e))])]"

definition anthropic_EncodeStreamEvent ::
  "IRStreamEvent \<Rightarrow> anthropicStreamState \<Rightarrow> (amap list \<times> anthropicStreamState) option" where
  "anthropic_EncodeStreamEvent e st =
     (case ie_Type e of
        IRStreamMessageStart \<Rightarrow> Some ([encode_message_start e], st)
      | IRStreamContentStart \<Rightarrow> encode_content_start (ie_Index e) (ie_Part e) st
      | IRStreamContentDelta \<Rightarrow> Some (encode_content_delta e st)
      | IRStreamContentStop \<Rightarrow>
          Some ([block_stop (ie_Index e)],
                st\<lparr>an_textStopped := (if ie_Index e \<in> an_textStarted st then insert (ie_Index e) (an_textStopped st) else an_textStopped st),
                   an_toolStopped := (if ie_Index e \<in> an_toolStarted st then insert (ie_Index e) (an_toolStopped st) else an_toolStopped st)\<rparr>)
      | IRStreamMessageDelta \<Rightarrow> Some ([encode_message_delta e], st)
      | IRStreamDone \<Rightarrow> Some ([message_stop], st)
      | IRStreamError \<Rightarrow> Some ([encode_stream_error e], st))"

section \<open>Reading what was written\<close>

text \<open>The parts that a block can carry, as the decoder builds them.\<close>

definition cache_ok :: "amap option \<Rightarrow> bool" where "cache_ok cc \<longleftrightarrow> cc \<noteq> Some fmempty"

definition call_ok :: "sonic \<Rightarrow> tool_call_part \<Rightarrow> bool" where
  "call_ok js tc \<longleftrightarrow>
     it_Status tc = ''completed'' \<and>
     (\<exists>m. it_ArgumentsJSON tc = Some m \<and> it_ArgumentsRaw tc = js_print js (AObj m) \<and> js_print js (AObj m) \<noteq> [] \<and>
        js_parse js (js_print js (AObj m)) = Some (AObj m))"

inductive block_ok :: "sonic \<Rightarrow> IRContentPart \<Rightarrow> bool" for js where
  text_block: "cache_ok cc \<Longrightarrow> block_ok js (cached cc (text_part s))"
| thinking_block: "cache_ok cc \<Longrightarrow> block_ok js (cached cc (reasoning_of
    \<lparr>ig_Content = s, ig_Signature = g, ig_Subtype = ''thinking'', ig_EncryptedContent = []\<rparr>))"
| redacted_block: "cache_ok cc \<Longrightarrow> block_ok js (cached cc (reasoning_of
    \<lparr>ig_Content = [], ig_Signature = g, ig_Subtype = ''redacted_thinking'', ig_EncryptedContent = s\<rparr>))"
| tool_block: "cache_ok cc \<Longrightarrow> call_ok js tc \<Longrightarrow> block_ok js (with_id (it_ID tc) (cached cc (tool_part tc)))"
| result_block: "cache_ok cc \<Longrightarrow> ts \<noteq> [] \<Longrightarrow>
    block_ok js (cached cc (result_part (IRToolResultPart i (Some (map text_part ts)) ''success'' [])))"

lemma cache_back:
  "cache_ok cc \<Longrightarrow> (case lookup_else (map_of (cache_field cc) ''cache_control'') None of Some (AObj m') \<Rightarrow> cloneMap m' | _ \<Rightarrow> None) = cc"
  by (auto simp: cache_ok_def cache_field_def cloneMap_def split: option.splits)

lemma cache_other: "k \<noteq> ''cache_control'' \<Longrightarrow> map_of (cache_field cc) k = None"
  by (auto simp: cache_field_def split: option.splits)

lemma cache_read:
  assumes "cache_ok cc" "fmlookup m ''cache_control'' = map_of (cache_field cc) ''cache_control''"
  shows "getCacheControl m = cc"
  using assms by (auto simp: getCacheControl_def getMap_def cache_ok_def cache_field_def cloneMap_def split: option.splits)

lemma text_blocks_back:
  "decodeToolResultContent js (Some (AArr (encodeAnthropicParts js (map text_part ts)))) = map text_part ts"
proof -
  have "objects_in (encodeAnthropicParts js (map text_part ts)) =
      map (\<lambda>s. fmap_of_list [(''type'', AStr ''text''), (''text'', AStr s)]) ts"
    by (induction ts) (simp_all add: text_part_def obj_of_def objects_in_def map_filter_simps cache_field_def)
  then show ?thesis by (simp add: decodeToolResultContent_def get_defs comp_def filter_map)
qed

lemma encode_app: "encodeAnthropicParts js (p # ps) = encodeAnthropicParts js [p] @ encodeAnthropicParts js ps"
  by (cases p) simp

lemma block_back:
  assumes "block_ok js p"
  shows "\<exists>m. encodeAnthropicParts js [p] = [AObj m] \<and> decode_block js m = [p]"
  using assms
proof cases
  case (text_block cc s)
  let ?m = "fmap_of_list ([(''type'', AStr ''text''), (''text'', AStr s)] @ cache_field cc)"
  have "getCacheControl ?m = cc" by (rule cache_read [OF text_block(2)]) simp
  then show ?thesis by (intro exI [of _ ?m]) (simp add: text_block(1) cached_def text_part_def obj_of_def decode_block_def get_defs Let_def)
next
  case (thinking_block cc s g)
  let ?m = "fmap_of_list (encode_reasoning \<lparr>ig_Content = s, ig_Signature = g, ig_Subtype = ''thinking'', ig_EncryptedContent = []\<rparr> @ cache_field cc)"
  have "getCacheControl ?m = cc" by (rule cache_read [OF thinking_block(2)]) (simp add: encode_reasoning_def Let_def)
  then show ?thesis
    by (intro exI [of _ ?m]) (simp add: thinking_block(1) cached_def reasoning_of_def obj_of_def decode_block_def get_defs encode_reasoning_def cache_other Let_def)
next
  case (redacted_block cc g s)
  let ?m = "fmap_of_list (encode_reasoning \<lparr>ig_Content = [], ig_Signature = g, ig_Subtype = ''redacted_thinking'', ig_EncryptedContent = s\<rparr> @ cache_field cc)"
  have "getCacheControl ?m = cc" by (rule cache_read [OF redacted_block(2)]) (simp add: encode_reasoning_def Let_def)
  then show ?thesis
    by (intro exI [of _ ?m]) (simp add: redacted_block(1) cached_def reasoning_of_def obj_of_def decode_block_def get_defs encode_reasoning_def cache_other Let_def)
next
  case (tool_block cc tc)
  let ?m = "fmap_of_list ([(''type'', AStr ''tool_use''), (''id'', AStr (it_ID tc)), (''name'', AStr (it_Name tc)), (''input'', tool_input js tc)] @ cache_field cc)"
  have c: "getCacheControl ?m = cc" by (rule cache_read [OF tool_block(2)]) simp
  obtain a where a: "it_ArgumentsJSON tc = Some a" "it_ArgumentsRaw tc = js_print js (AObj a)" "js_print js (AObj a) \<noteq> []"
    "js_parse js (js_print js (AObj a)) = Some (AObj a)" "it_Status tc = ''completed''"
    using tool_block(3) by (auto simp: call_ok_def)
  then have "tool_input js tc = AObj a" by (simp add: tool_input_def)
  moreover have "\<lparr>it_ID = it_ID tc, it_Name = it_Name tc, it_ArgumentsRaw = js_print js (AObj a), it_ArgumentsJSON = Some a, it_Status = ''completed''\<rparr> = tc"
    using a by (cases tc) simp
  ultimately show ?thesis using c
    by (intro exI [of _ ?m]) (simp add: tool_block(1) cached_def with_id_def tool_part_def obj_of_def decode_block_def get_defs deref_def CanonicalToolArguments_def)
next
  case (result_block cc ts i)
  have ne: "encodeAnthropicParts js (map text_part ts) \<noteq> []" using result_block(3) by (cases ts) (simp_all add: text_part_def)
  let ?m = "fmap_of_list ([(''type'', AStr ''tool_result''), (''tool_use_id'', AStr i),
      (''content'', AArr (encodeAnthropicParts js (map text_part ts)))] @ cache_field cc)"
  have "getCacheControl ?m = cc" by (rule cache_read [OF result_block(2)]) simp
  then show ?thesis using ne result_block(3)
    by (intro exI [of _ ?m])
       (simp add: result_block(1) cached_def result_part_def obj_of_def field_if_def decode_block_def get_defs text_blocks_back [simplified] some_list_def)
qed

lemma blocks_back:
  assumes "list_all (block_ok js) ps"
  shows "concat (map (decode_block js) (objects_in (encodeAnthropicParts js ps))) = ps \<and> (encodeAnthropicParts js ps = [] \<longleftrightarrow> ps = [])"
  using assms
proof (induction ps)
  case (Cons p ps)
  then obtain m where "encodeAnthropicParts js [p] = [AObj m]" "decode_block js m = [p]" using block_back [of js p] by auto
  then show ?case using Cons encode_app [of js p ps] by (simp add: objects_in_def map_filter_simps)
qed (simp add: objects_in_def map_filter_simps)

section \<open>A request and its wire form\<close>

definition anthropic_message_ok :: "sonic \<Rightarrow> IRMessage \<Rightarrow> bool" where
  "anthropic_message_ok js m \<longleftrightarrow>
     im_ID m = [] \<and> im_Name m = [] \<and> (im_Role m = IRRoleUser \<or> im_Role m = IRRoleAssistant) \<and> list_all (block_ok js) (im_Parts m)"

lemma anthropic_message_back:
  assumes "anthropic_message_ok js m"
  shows "\<exists>w. encode_anthropic_message js m = AObj w \<and> decode_anthropic_message js w = m"
proof -
  let ?role = "case im_Role m of IRRoleAssistant \<Rightarrow> ''assistant'' | _ \<Rightarrow> ''user''"
  let ?content = "encodeAnthropicParts js (im_Parts m)"
  let ?w = "fmap_of_list ([(''role'', AStr ?role)] @ field_if (?content \<noteq> []) ''content'' (AArr ?content))"
  have parts: "concat (map (decode_block js) (objects_in ?content)) = im_Parts m" "?content = [] \<longleftrightarrow> im_Parts m = []"
    using blocks_back assms by (auto simp: anthropic_message_ok_def)
  have "mapAnthropicRole (getString ?w ''role'') = im_Role m"
    using assms by (auto simp: anthropic_message_ok_def get_defs mapAnthropicRole_def)
  moreover have "(case fmlookup ?w ''content'' of Some c \<Rightarrow> decodeAnthropicContent js c | None \<Rightarrow> []) = im_Parts m"
    using parts by (auto simp: decodeAnthropicContent_def)
  ultimately have "decode_anthropic_message js ?w = m"
    using assms by (cases m) (simp add: decode_anthropic_message_def anthropic_message_ok_def del: fmlookup_of_list)
  then show ?thesis by (intro exI [of _ ?w]) (simp add: encode_anthropic_message_def obj_of_def Let_def)
qed

lemma anthropic_messages_back:
  "list_all (anthropic_message_ok js) ms \<Longrightarrow> decodeAnthropicMessages js (encodeAnthropicMessages js ms) = ms"
proof (induction ms)
  case (Cons m ms)
  then obtain w where "encode_anthropic_message js m = AObj w" "decode_anthropic_message js w = m"
    using anthropic_message_back [of js m] by auto
  then show ?case using Cons by (simp add: decodeAnthropicMessages_def encodeAnthropicMessages_def objects_in_def map_filter_simps)
qed (simp add: decodeAnthropicMessages_def encodeAnthropicMessages_def objects_in_def map_filter_simps)

definition anthropic_tool_ok :: "IRToolDecl \<Rightarrow> bool" where
  "anthropic_tool_ok t \<longleftrightarrow> il_Type t = ''function'' \<and> cache_ok (il_CacheControl t) \<and> (\<exists>m. il_Parameters t = any_of_map m)"

lemma anthropic_tools_back:
  "list_all anthropic_tool_ok ts \<Longrightarrow> decodeAnthropicTools (map encode_anthropic_tool ts) = ts"
proof (induction ts)
  case (Cons t ts)
  then obtain m where t: "il_Type t = ''function''" "cache_ok (il_CacheControl t)" "il_Parameters t = any_of_map m"
    by (auto simp: anthropic_tool_ok_def)
  let ?w = "fmap_of_list ([(''name'', AStr (il_Name t)), (''description'', AStr (il_Description t)), (''input_schema'', il_Parameters t)] @
     cache_field (il_CacheControl t))"
  have "getCacheControl ?w = il_CacheControl t" by (rule cache_read [OF t(2)]) simp
  moreover have "any_of_map (getMap ?w ''input_schema'') = il_Parameters t"
    by (cases m) (simp_all add: getMap_def t(3) any_of_map_def)
  moreover have "getString ?w ''name'' = il_Name t" "getString ?w ''description'' = il_Description t" by (simp_all add: get_defs)
  ultimately show ?case using Cons t(1)
    by (cases t) (simp add: decodeAnthropicTools_def encode_anthropic_tool_def obj_of_def objects_in_def map_filter_simps)
qed (simp add: decodeAnthropicTools_def objects_in_def map_filter_simps)

definition anthropic_choice_ok :: "IRToolChoice \<Rightarrow> bool" where
  "anthropic_choice_ok tc \<longleftrightarrow> ik_Type tc = ''specific'' \<or> ik_Name tc = [] \<and> ik_Type tc \<in> {''auto'', ''required'', ''none''}"

lemma anthropic_choice_back:
  "anthropic_choice_ok tc \<Longrightarrow> decodeAnthropicToolChoice (encodeAnthropicToolChoice tc) = Some tc"
  by (cases tc) (auto simp: anthropic_choice_ok_def decodeAnthropicToolChoice_def encodeAnthropicToolChoice_def get_defs Let_def)

text \<open>The system prompt: blocks and their text, or a text alone; none of them opens with the billing header, which is stripped.\<close>

definition system_part_ok :: "IRSystemPart \<Rightarrow> bool" where
  "system_part_ok p \<longleftrightarrow>
     iy_Type p = ''text'' \<and> \<not> prefix anthropicBillingHeaderPrefix (iy_Text p) \<and> cache_ok (iy_CacheControl p)"

lemma strip_kept: "\<not> prefix anthropicBillingHeaderPrefix s \<Longrightarrow> stripLeadingAnthropicBillingHeader s = s"
  by (simp add: stripLeadingAnthropicBillingHeader_def)

lemma system_back:
  "list_all system_part_ok ps \<Longrightarrow> decode_system (AArr (encodeAnthropicSystemParts ps)) = ps"
proof (induction ps)
  case (Cons p ps)
  then have p: "iy_Type p = ''text''" "stripLeadingAnthropicBillingHeader (iy_Text p) = iy_Text p" "cache_ok (iy_CacheControl p)"
    by (simp_all add: system_part_ok_def strip_kept)
  let ?w = "fmap_of_list ([(''type'', AStr ''text''), (''text'', AStr (iy_Text p))] @ cache_field (iy_CacheControl p))"
  have "getCacheControl ?w = iy_CacheControl p" by (rule cache_read [OF p(3)]) simp
  moreover have "getString ?w ''type'' = ''text''" "getString ?w ''text'' = iy_Text p" by (simp_all add: get_defs)
  ultimately show ?case using Cons p(1,2)
    by (cases p) (simp add: decode_system_def encodeAnthropicSystemParts_def obj_of_def objects_in_def map_filter_simps)
qed (simp add: decode_system_def encodeAnthropicSystemParts_def objects_in_def map_filter_simps)

definition thinking_ok :: "IRRequest \<Rightarrow> IRThinkingConfig \<Rightarrow> bool" where
  "thinking_ok ir th \<longleftrightarrow>
     iw_Type th \<noteq> [] \<and> iw_Effort th = iq_ReasoningEffort ir \<and> iw_Level th = [] \<and> iw_IncludeThoughts th = None \<and> \<not> iw_DynamicBudget th \<and>
     iw_Display th = [] \<and> iw_EncryptedContent th = [] \<and> iw_Subtype th = [] \<and>
     (iw_BudgetTokens th = 0 \<or>
      map ascii_lower (iw_Type th) = ''enabled'' \<and> 0 < iw_BudgetTokens th \<and> iw_BudgetTokens th < iq_MaxTokens ir)"

definition anthropic_request_ok :: "sonic \<Rightarrow> IRRequest \<Rightarrow> bool" where
  "anthropic_request_ok js ir \<longleftrightarrow>
     iq_ID ir = [] \<and> iq_User ir = [] \<and> iq_Instructions ir = [] \<and> iq_ResponseFormat ir = None \<and> iq_FrequencyPenalty ir = None \<and>
     iq_PresencePenalty ir = None \<and> iq_Seed ir = None \<and> iq_ParallelToolCalls ir = None \<and> iq_StreamOptions ir = fmempty \<and>
     iq_Store ir = None \<and> iq_Include ir = [] \<and> cache_ok (iq_CacheControl ir) \<and>
     iq_MaxTokens ir \<noteq> 0 \<and> int64_range (iq_MaxTokens ir) \<and> pred_option int64_range (iq_TopK ir) \<and>
     list_all (anthropic_message_ok js) (iq_Messages ir) \<and> list_all anthropic_tool_ok (iq_Tools ir) \<and>
     pred_option anthropic_choice_ok (iq_ToolChoice ir) \<and> pred_option (thinking_ok ir) (iq_Thinking ir) \<and>
     list_all system_part_ok (iq_SystemParts ir) \<and>
     (if iq_SystemParts ir = [] then \<not> prefix anthropicBillingHeaderPrefix (iq_System ir)
      else iq_System ir = concat (map iy_Text (iq_SystemParts ir))) \<and>
     iq_ReasoningEffort ir \<in> {[], ''low'', ''medium'', ''high'', ''xhigh'', ''max''} \<and>
     iq_Extensions ir = (if iq_ReasoningEffort ir = [] then fmempty
       else fmap_of_list [(''anthropic'', fmap_of_list [(''output_config'', obj_of [(''effort'', AStr (iq_ReasoningEffort ir))])])])"

lemma effort_kept: "e \<in> {[], ''low'', ''medium'', ''high'', ''xhigh'', ''max''} \<Longrightarrow> normalizeAnthropicEffort e = e"
  by (auto; code_simp)

lemma anthropic_body_fields:
  assumes "iq_MaxTokens ir \<noteq> 0"
  shows "fmlookup (anthropic_EncodeRequest js ir) ''model'' = Some (AStr (iq_Model ir))"
    "fmlookup (anthropic_EncodeRequest js ir) ''max_tokens'' = Some (ANat (iq_MaxTokens ir))"
    "fmlookup (anthropic_EncodeRequest js ir) ''messages'' = Some (arr_of (encodeAnthropicMessages js (iq_Messages ir)))"
    "fmlookup (anthropic_EncodeRequest js ir) ''system'' =
       (if iq_SystemParts ir \<noteq> [] then Some (AArr (encodeAnthropicSystemParts (iq_SystemParts ir)))
        else if iq_System ir \<noteq> [] then Some (AStr (stripLeadingAnthropicBillingHeader (iq_System ir))) else None)"
    "fmlookup (anthropic_EncodeRequest js ir) ''cache_control'' = map_of (cache_field (iq_CacheControl ir)) ''cache_control''"
    "fmlookup (anthropic_EncodeRequest js ir) ''metadata'' = (if iq_Metadata ir \<noteq> fmempty then Some (AObj (iq_Metadata ir)) else None)"
    "fmlookup (anthropic_EncodeRequest js ir) ''thinking'' =
       map_option (\<lambda>th. encodeAnthropicThinkingConfig th (iq_MaxTokens ir)) (iq_Thinking ir)"
    "fmlookup (anthropic_EncodeRequest js ir) ''output_config'' =
       (if anthropic_effort ir \<noteq> [] then Some (obj_of [(''effort'', AStr (anthropic_effort ir))]) else None)"
    "fmlookup (anthropic_EncodeRequest js ir) ''temperature'' = map_option ANum (iq_Temperature ir)"
    "fmlookup (anthropic_EncodeRequest js ir) ''top_p'' = map_option ANum (iq_TopP ir)"
    "fmlookup (anthropic_EncodeRequest js ir) ''top_k'' = map_option ANat (iq_TopK ir)"
    "fmlookup (anthropic_EncodeRequest js ir) ''stop_sequences'' = (if iq_Stop ir \<noteq> [] then Some (AArr (map AStr (iq_Stop ir))) else None)"
    "fmlookup (anthropic_EncodeRequest js ir) ''stream'' = (if iq_Stream ir then Some (ABool True) else None)"
    "fmlookup (anthropic_EncodeRequest js ir) ''tools'' = (if iq_Tools ir \<noteq> [] then Some (AArr (map encode_anthropic_tool (iq_Tools ir))) else None)"
    "fmlookup (anthropic_EncodeRequest js ir) ''tool_choice'' = map_option encodeAnthropicToolChoice (iq_ToolChoice ir)"
  using assms by (simp_all add: anthropic_EncodeRequest_def Let_def cache_other)

lemma thinking_back:
  assumes "thinking_ok ir th" "int64_range (iq_MaxTokens ir)" "iq_ReasoningEffort ir = e"
  shows "\<exists>m. encodeAnthropicThinkingConfig th (iq_MaxTokens ir) = AObj m \<and>
    \<lparr>iw_Type = getString m ''type'', iw_BudgetTokens = getIntDefault m ''budget_tokens'', iw_Effort = e,
      iw_Level = [], iw_IncludeThoughts = None, iw_DynamicBudget = False, iw_Display = [], iw_EncryptedContent = [], iw_Subtype = []\<rparr> = th"
proof -
  let ?m = "fmap_of_list (field_if (iw_Type th \<noteq> []) ''type'' (AStr (iw_Type th)) @
       field_if (map ascii_lower (iw_Type th) = ''enabled'' \<and> 0 < iw_BudgetTokens th) ''budget_tokens'' (ANat (iw_BudgetTokens th)))"
  have "getString ?m ''type'' = iw_Type th" using assms(1) by (simp add: get_defs thinking_ok_def)
  moreover have "getIntDefault ?m ''budget_tokens'' = iw_BudgetTokens th"
    using assms(1,2) by (auto simp: get_defs thinking_ok_def ANat_def int_of_float_int int64_range_def)
  moreover have "encodeAnthropicThinkingConfig th (iq_MaxTokens ir) = AObj ?m"
    using assms(1) by (auto simp: encodeAnthropicThinkingConfig_def thinking_ok_def obj_of_def)
  ultimately show ?thesis using assms(1,3) by (intro exI [of _ ?m]) (cases th, simp add: thinking_ok_def)
qed

lemma anthropic_request_back:
  assumes "anthropic_request_ok js ir"
  shows "anthropic_DecodeRequest js (anthropic_EncodeRequest js ir) = ir"
proof -
  define raw where "raw = anthropic_EncodeRequest js ir"
  have ok: "iq_MaxTokens ir \<noteq> 0" "int64_range (iq_MaxTokens ir)" "pred_option int64_range (iq_TopK ir)" "cache_ok (iq_CacheControl ir)"
    "list_all (anthropic_message_ok js) (iq_Messages ir)" "list_all anthropic_tool_ok (iq_Tools ir)" "pred_option anthropic_choice_ok (iq_ToolChoice ir)"
    "list_all system_part_ok (iq_SystemParts ir)" "pred_option (thinking_ok ir) (iq_Thinking ir)"
    using assms by (auto simp: anthropic_request_ok_def)
  note fields = anthropic_body_fields [OF ok(1), of js, folded raw_def]
  have effort: "anthropic_effort ir = iq_ReasoningEffort ir"
    using assms effort_kept [of "iq_ReasoningEffort ir"]
    by (auto simp: anthropic_effort_def anthropic_request_ok_def thinking_ok_def Let_def split: option.splits)
  define e where "e = (case getMap raw ''output_config'' of Some oc \<Rightarrow> getString oc ''effort'' | None \<Rightarrow> [])"
  have e: "e = iq_ReasoningEffort ir" by (simp add: e_def getMap_def fields effort obj_of_def get_defs)
  have "getFloat raw ''temperature'' = iq_Temperature ir" "getFloat raw ''top_p'' = iq_TopP ir" "getInt raw ''top_k'' = iq_TopK ir"
    by (rule float_back int_back; simp add: fields ok)+
  moreover have "getString raw ''model'' = iq_Model ir" "getBool raw ''stream'' = iq_Stream ir" "map_or_nil (getMap raw ''metadata'') = iq_Metadata ir"
    by (simp_all add: get_defs fields map_or_nil_def)
  moreover have "getIntDefault raw ''max_tokens'' = iq_MaxTokens ir"
    by (simp add: get_defs fields ANat_def int_of_float_int ok)
  moreover have "getCacheControl raw = iq_CacheControl ir" by (rule cache_read [OF ok(4)]) (simp add: fields)
  moreover have "(case getMap raw ''output_config'' of
      Some oc \<Rightarrow> if oc \<noteq> fmempty then fmap_of_list [(''anthropic'', fmap_of_list [(''output_config'', AObj oc)])] else fmempty
    | None \<Rightarrow> fmempty) = iq_Extensions ir"
    using assms by (auto simp: getMap_def fields effort obj_of_def anthropic_request_ok_def)
  moreover have "map_option (\<lambda>th. \<lparr>iw_Type = getString th ''type'', iw_BudgetTokens = getIntDefault th ''budget_tokens'', iw_Effort = e,
      iw_Level = [], iw_IncludeThoughts = None, iw_DynamicBudget = False, iw_Display = [], iw_EncryptedContent = [], iw_Subtype = []\<rparr>)
      (getMap raw ''thinking'') = iq_Thinking ir"
  proof (cases "iq_Thinking ir")
    case (Some th)
    then show ?thesis using thinking_back [OF _ ok(2) e [symmetric], of th] ok(9) by (auto simp: getMap_def fields)
  qed (simp add: getMap_def fields)
  moreover have "(case fmlookup raw ''system'' of Some v \<Rightarrow> decode_system_text v | None \<Rightarrow> []) = iq_System ir"
    "(case fmlookup raw ''system'' of Some v \<Rightarrow> decode_system v | None \<Rightarrow> []) = iq_SystemParts ir"
    using assms system_back [OF ok(8)]
    by (auto simp: fields decode_system_text_def anthropic_request_ok_def strip_kept) (auto simp: decode_system_def)
  moreover have "(case getList raw ''messages'' of Some ms \<Rightarrow> decodeAnthropicMessages js ms | None \<Rightarrow> []) = iq_Messages ir"
    using anthropic_messages_back [OF ok(5)]
    by (auto simp: getList_def fields arr_of_def decodeAnthropicMessages_def encodeAnthropicMessages_def objects_in_def map_filter_simps)
  moreover have "(case getStringList raw ''stop_sequences'' of Some xs \<Rightarrow> xs | None \<Rightarrow> []) = iq_Stop ir"
    by (simp add: get_defs fields strings_back)
  moreover have "(case getList raw ''tools'' of Some ts \<Rightarrow> decodeAnthropicTools ts | None \<Rightarrow> []) = iq_Tools ir"
    by (simp add: getList_def fields anthropic_tools_back [OF ok(6)])
  moreover have "(case fmlookup raw ''tool_choice'' of Some tc \<Rightarrow> decodeAnthropicToolChoice tc | None \<Rightarrow> None) = iq_ToolChoice ir"
    using ok(7) by (cases "iq_ToolChoice ir") (simp_all add: fields anthropic_choice_back)
  moreover have "iq_ID ir = []" "iq_User ir = []" "iq_Instructions ir = []" "iq_ResponseFormat ir = None" "iq_FrequencyPenalty ir = None"
    "iq_PresencePenalty ir = None" "iq_Seed ir = None" "iq_ParallelToolCalls ir = None" "iq_StreamOptions ir = fmempty"
    "iq_Store ir = None" "iq_Include ir = []"
    using assms by (auto simp: anthropic_request_ok_def)
  moreover note e
  ultimately have "anthropic_DecodeRequest js raw = ir"
    unfolding anthropic_DecodeRequest_def Let_def e_def [symmetric]
    by (intro IRRequest.equality) (simp_all add: new_request_def)
  then show ?thesis by (simp add: raw_def)
qed

lemma anthropic_ok_renamed: "anthropic_request_ok js ir \<Longrightarrow> anthropic_request_ok js (ir\<lparr>iq_Model := n\<rparr>)"
proof -
  have "thinking_ok (ir\<lparr>iq_Model := n\<rparr>) = thinking_ok ir" by (simp add: thinking_ok_def fun_eq_iff)
  moreover assume "anthropic_request_ok js ir"
  ultimately show ?thesis by (simp add: anthropic_request_ok_def)
qed

interpretation messages_codec: request_codec "anthropic_DecodeRequest js" "anthropic_EncodeRequest js" "anthropic_request_ok js" for js
  by unfold_locales (rule anthropic_request_back anthropic_ok_renamed; assumption)+


section \<open>Instances\<close>

text \<open>A request with a cache breakpoint, a call and its result, under a printer and parser that know one text.\<close>

definition messages_sonic :: sonic where
  "messages_sonic = \<lparr>js_parse = \<lambda>_. Some (AObj fmempty), js_print = \<lambda>_. ''{}''\<rparr>"

definition sample_call :: tool_call_part where
  "sample_call = \<lparr>it_ID = ''c1'', it_Name = ''ls'', it_ArgumentsRaw = ''{}'', it_ArgumentsJSON = Some fmempty, it_Status = ''completed''\<rparr>"

definition sample_messages :: "IRMessage list" where
  "sample_messages =
     [\<lparr>im_ID = [], im_Role = IRRoleUser, im_Name = [],
       im_Parts = [cached (Some (fmap_of_list [(''type'', AStr ''ephemeral'')])) (text_part ''hi'')]\<rparr>,
      \<lparr>im_ID = [], im_Role = IRRoleAssistant, im_Name = [], im_Parts = [with_id ''c1'' (cached None (tool_part sample_call))]\<rparr>,
      \<lparr>im_ID = [], im_Role = IRRoleUser, im_Name = [],
       im_Parts = [cached None (result_part (IRToolResultPart ''c1'' (Some [text_part ''a.txt'']) ''success'' []))]\<rparr>]"

lemma sample_messages_ok: "list_all (anthropic_message_ok messages_sonic) sample_messages"
proof -
  have "block_ok messages_sonic (cached (Some (fmap_of_list [(''type'', AStr ''ephemeral'')])) (text_part ''hi''))"
    by (rule block_ok.text_block) (simp add: cache_ok_def)
  moreover have "block_ok messages_sonic (with_id ''c1'' (cached None (tool_part sample_call)))"
    using block_ok.tool_block [of None messages_sonic sample_call] by (simp add: cache_ok_def call_ok_def sample_call_def messages_sonic_def)
  moreover have "block_ok messages_sonic (cached None (result_part (IRToolResultPart ''c1'' (Some [text_part ''a.txt'']) ''success'' [])))"
    using block_ok.result_block [of None "[''a.txt'']" messages_sonic "''c1''"] by (simp add: cache_ok_def)
  ultimately show ?thesis by (simp add: sample_messages_def anthropic_message_ok_def)
qed

definition messages_sample :: IRRequest where
  "messages_sample = new_request\<lparr>iq_Model := ''m'', iq_MaxTokens := 100, iq_Messages := sample_messages, iq_System := ''be brief'',
     iq_SystemParts := [\<lparr>iy_Type = ''text'', iy_Text = ''be brief'', iy_CacheControl = None\<rparr>],
     iq_Thinking := Some \<lparr>iw_Type = ''enabled'', iw_BudgetTokens = 50, iw_Effort = [], iw_Level = [], iw_IncludeThoughts = None,
       iw_DynamicBudget = False, iw_Display = [], iw_EncryptedContent = [], iw_Subtype = []\<rparr>\<rparr>"


end
