(* ===== verification/ModelRouter.thy ===== *)
theory ModelRouter
  imports Preparer StreamAgg ChatAdapter AnthropicAdapter
begin

text \<open>
  The model proxy of the worker (\<open>backend/internal/modelrouter/handler.go\<close>, \<open>backend/pkg/llmprotocol/adapter.go\<close>): a request of an agent is decoded, normalized and
  encoded for its upstream, and the answer, whole or as a stream of server-sent events, is converted back. The HTTP client is an argument: a function from
  the request to what comes of it. A panic of a handler is a value of its own. The adapters of the Responses and Gemini protocols are arguments, too. The client is one that takes
  everything it is sent; the log for debugging is left out.

  Lemmas: how the loop over the lines of an upstream decomposes into decoding, completing and encoding; what a client is sent.
\<close>

section \<open>Adapters\<close>

text \<open>The state of a stream is an \<open>interface{}\<close>; an adapter asserts its own type, which is the one that \<open>NewStreamState\<close> gave it.\<close>

datatype 'o stream_state = Chat_state chatStreamState | Anthropic_state anthropicStreamState | Other_state 'o

record 's ProtocolAdapter =
  pa_DecodeRequest :: "amap \<Rightarrow> IRRequest"
  pa_EncodeRequest :: "IRRequest \<Rightarrow> amap"
  pa_DecodeResponse :: "amap \<Rightarrow> IRResponse"
  pa_EncodeResponse :: "IRResponse \<Rightarrow> amap"
  pa_NewStreamState :: 's
  pa_DecodeStreamEvent :: "amap \<Rightarrow> 's \<Rightarrow> IRStreamEvent list \<times> 's"
  pa_EncodeStreamEvent :: "IRStreamEvent \<Rightarrow> 's \<Rightarrow> (amap list \<times> 's) option"

definition as_chat :: "'o stream_state \<Rightarrow> chatStreamState" where
  "as_chat s = (case s of Chat_state st \<Rightarrow> st | _ \<Rightarrow> undefined)"

definition as_anthropic :: "'o stream_state \<Rightarrow> anthropicStreamState" where
  "as_anthropic s = (case s of Anthropic_state st \<Rightarrow> st | _ \<Rightarrow> undefined)"

definition openAIChatAdapter :: "sonic \<Rightarrow> int \<Rightarrow> 'o stream_state ProtocolAdapter" where
  "openAIChatAdapter js clock =
     \<lparr>pa_DecodeRequest = chat_DecodeRequest js, pa_EncodeRequest = chat_EncodeRequest js,
      pa_DecodeResponse = chat_DecodeResponse js, pa_EncodeResponse = chat_EncodeResponse js clock,
      pa_NewStreamState = Chat_state chat_NewStreamState,
      pa_DecodeStreamEvent = (\<lambda>raw s. apsnd Chat_state (chat_DecodeStreamEvent raw (as_chat s))),
      pa_EncodeStreamEvent = (\<lambda>e s. Some (apsnd Chat_state (chat_EncodeStreamEvent js clock e (as_chat s))))\<rparr>"

definition anthropicMessagesAdapter :: "sonic \<Rightarrow> 'o stream_state ProtocolAdapter" where
  "anthropicMessagesAdapter js =
     \<lparr>pa_DecodeRequest = anthropic_DecodeRequest js, pa_EncodeRequest = anthropic_EncodeRequest js,
      pa_DecodeResponse = anthropic_DecodeResponse js, pa_EncodeResponse = anthropic_EncodeResponse js,
      pa_NewStreamState = Anthropic_state anthropic_NewStreamState,
      pa_DecodeStreamEvent = (\<lambda>raw s. apsnd Anthropic_state (anthropic_DecodeStreamEvent raw (as_anthropic s))),
      pa_EncodeStreamEvent = (\<lambda>e s. map_option (apsnd Anthropic_state) (anthropic_EncodeStreamEvent e (as_anthropic s)))\<rparr>"

definition GetAdapter :: "sonic \<Rightarrow> int \<Rightarrow> (Protocol \<Rightarrow> 'o stream_state ProtocolAdapter) \<Rightarrow> Protocol \<Rightarrow> 'o stream_state ProtocolAdapter" where
  "GetAdapter js clock others proto =
     (case proto of
        ProtocolOpenAIChat \<Rightarrow> openAIChatAdapter js clock
      | ProtocolAnthropicMessages \<Rightarrow> anthropicMessagesAdapter js
      | _ \<Rightarrow> others proto)"

section \<open>Errors for the client\<close>

definition encodeErrorForProtocol :: "string \<Rightarrow> string \<Rightarrow> Protocol \<Rightarrow> any" where
  "encodeErrorForProtocol message errType proto =
     (if proto = ProtocolAnthropicMessages
      then obj_of [(''type'', AStr ''error''), (''error'', obj_of [(''type'', AStr errType), (''message'', AStr message)])]
      else obj_of [(''error'', obj_of [(''message'', AStr message), (''type'', AStr errType)])])"

definition newEntryError :: "Protocol \<Rightarrow> string \<Rightarrow> any" where
  "newEntryError proto message = encodeErrorForProtocol message ''invalid_request_error'' proto"

text \<open>The package's own \<open>getString\<close>: a value that is not a string is printed by \<open>fmt\<close>, an argument.\<close>

definition getStringPrinted :: "(any \<Rightarrow> string) \<Rightarrow> amap \<Rightarrow> string \<Rightarrow> string" where
  "getStringPrinted sprint m key =
     (case fmlookup m key of None \<Rightarrow> [] | Some ANull \<Rightarrow> [] | Some (AStr s) \<Rightarrow> s | Some v \<Rightarrow> sprint v)"

definition error_in_body :: "(any \<Rightarrow> string) \<Rightarrow> amap \<Rightarrow> string \<times> string \<Rightarrow> string \<times> string" where
  "error_in_body sprint raw default' =
     (let of_obj = (\<lambda>errObj. (getStringPrinted sprint errObj ''message'', getStringPrinted sprint errObj ''type''))
      in if getStringPrinted sprint raw ''type'' = ''error''
         then (case getMap raw ''error'' of Some errObj \<Rightarrow> of_obj errObj | None \<Rightarrow> default')
         else (case getMap raw ''error'' of
                 Some errObj \<Rightarrow> of_obj errObj
               | None \<Rightarrow>
                   if getStringPrinted sprint raw ''message'' \<noteq> [] then (getStringPrinted sprint raw ''message'', snd default')
                   else default'))"

definition body_object :: "sonic \<Rightarrow> string \<Rightarrow> amap option" where
  "body_object js body = (case js_parse js body of Some (AObj m) \<Rightarrow> Some m | Some ANull \<Rightarrow> Some fmempty | _ \<Rightarrow> None)"

definition parseAndEncodeError :: "sonic \<Rightarrow> (any \<Rightarrow> string) \<Rightarrow> string \<Rightarrow> int \<Rightarrow> Protocol \<Rightarrow> any" where
  "parseAndEncodeError js sprint body statusCode entryProtocol =
     (let default' = (''upstream returned status '' @ itoa statusCode, ''upstream_error'');
          (message, errType) =
            (case (if body \<noteq> [] then body_object js body else None) of Some raw \<Rightarrow> error_in_body sprint raw default' | None \<Rightarrow> default')
      in encodeErrorForProtocol (if message = [] then body else message) (if errType = [] then ''upstream_error'' else errType) entryProtocol)"

section \<open>Calling the upstream\<close>

record http_request =
  hr_url :: string
  hr_headers :: "(string \<times> string) list"
  hr_body :: string

text \<open>What comes of a request: an error of the client, or a status and a body.\<close>

datatype http_outcome = Http_error string | Http_answer int string

definition setUpstreamRequest :: "upstream_config \<Rightarrow> Protocol \<Rightarrow> string \<Rightarrow> http_request" where
  "setUpstreamRequest cfg proto body =
     \<lparr>hr_url = trim_right_slash (uc_BaseURL cfg) @ UpstreamAPIPath proto (uc_BaseURLHasV1 cfg),
      hr_headers = (''Content-Type'', ''application/json'') #
        (if proto = ProtocolAnthropicMessages then [(''x-api-key'', uc_APIKey cfg), (''anthropic-version'', ''2023-06-01'')]
         else [(''Authorization'', ''Bearer '' @ uc_APIKey cfg)]),
      hr_body = body\<rparr>"

datatype upstream_failure = Failed string | Refused int string

definition doUpstream :: "string \<Rightarrow> (http_request \<Rightarrow> http_outcome) \<Rightarrow> http_request \<Rightarrow> upstream_failure + string" where
  "doUpstream what net req =
     (case net req of
        Http_error e \<Rightarrow> Inl (Failed (what @ '': '' @ e))
      | Http_answer status body \<Rightarrow> if 400 \<le> status then Inl (Refused status body) else Inr body)"

definition doUpstreamCall :: "(http_request \<Rightarrow> http_outcome) \<Rightarrow> http_request \<Rightarrow> upstream_failure + string" where
  "doUpstreamCall = doUpstream ''upstream request failed''"

definition doUpstreamStreamCall :: "(http_request \<Rightarrow> http_outcome) \<Rightarrow> http_request \<Rightarrow> upstream_failure + string" where
  "doUpstreamStreamCall = doUpstream ''upstream stream request failed''"

text \<open>What the client is answered: a status with a JSON value, the bytes of the upstream, or server-sent events.\<close>

datatype sse_frame = Payload string amap | Done_marker

datatype client_reply = Json_reply int any | Raw_stream string | Event_stream "sse_frame list" | Panicked

definition handleUpstreamError :: "sonic \<Rightarrow> (any \<Rightarrow> string) \<Rightarrow> Protocol \<Rightarrow> upstream_failure \<Rightarrow> client_reply" where
  "handleUpstreamError js sprint entryProtocol err =
     (case err of
        Failed e \<Rightarrow> Json_reply 502 (newEntryError entryProtocol (''upstream request failed: '' @ e))
      | Refused status body \<Rightarrow>
          Json_reply (if 500 \<le> status then 502 else status) (parseAndEncodeError js sprint body status entryProtocol))"

section \<open>Server-sent events\<close>

text \<open>\<open>bufio.Scanner\<close> with a buffer of 1 MiB: lines without their end, until one does not fit.\<close>

definition scan_limit :: nat where "scan_limit = 1048576"

function scan_lines :: "string \<Rightarrow> string list" where
  "scan_lines s =
     (let line = takeWhile (\<lambda>c. c \<noteq> lf) s; rest = dropWhile (\<lambda>c. c \<noteq> lf) s;
          clean = (if line \<noteq> [] \<and> last line = cr then butlast line else line)
      in if scan_limit \<le> length line then []
         else if rest = [] then (if line = [] then [] else [clean])
         else clean # scan_lines (drop 1 rest))"
  by pat_completeness auto
termination
proof (relation "measure length")
  fix s line rest :: string
  assume "rest = dropWhile (\<lambda>c. c \<noteq> lf) s" "rest \<noteq> []"
  then have "0 < length rest" "length rest \<le> length s" using length_dropWhile_le [of "\<lambda>c. c \<noteq> lf" s] by simp_all
  then have "length (drop 1 rest) < length s" by (simp only: length_drop)
  then show "(drop 1 rest, s) \<in> measure length" by simp
qed simp

definition formatSSE :: "sonic \<Rightarrow> Protocol \<Rightarrow> sse_frame \<Rightarrow> string" where
  "formatSSE js proto frame =
     (case frame of
        Done_marker \<Rightarrow> ''data: [DONE]'' @ [lf, lf]
      | Payload eventType m \<Rightarrow>
          (if proto = ProtocolOpenAIChat then ''data: '' @ js_print js (AObj m) @ [lf, lf]
           else ''event: '' @ eventType @ [lf] @ ''data: '' @ js_print js (AObj m) @ [lf, lf]))"

record ('u, 'e) sse_pipe =
  sp_currentEventType :: string
  sp_currentData :: string
  sp_upstreamState :: 'u
  sp_entryState :: 'e
  sp_aggregator :: StreamAggregator
  sp_written :: "sse_frame list"
  sp_returned :: bool

definition frame_of :: "string \<Rightarrow> amap \<Rightarrow> sse_frame" where
  "frame_of currentEventType payload = Payload (if currentEventType = [] then getString payload ''type'' else currentEventType) payload"

text \<open>\<open>writeIREvents\<close>; \<open>None\<close> when the encoder panics.\<close>

fun writeIREvents ::
  "'e ProtocolAdapter \<Rightarrow> Protocol \<Rightarrow> IRStreamEvent list \<Rightarrow> ('u, 'e) sse_pipe \<Rightarrow> ('u, 'e) sse_pipe option" where
  "writeIREvents entry entryProtocol [] p = Some p"
| "writeIREvents entry entryProtocol (e # es) p =
     (case pa_EncodeStreamEvent entry e (sp_entryState p) of
        None \<Rightarrow> None
      | Some (payloads, st) \<Rightarrow>
          writeIREvents entry entryProtocol es
            (p\<lparr>sp_entryState := st,
               sp_written := sp_written p @ map (frame_of (sp_currentEventType p)) payloads @
                 (if ie_Type e = IRStreamDone \<and> entryProtocol = ProtocolOpenAIChat then [Done_marker] else [])\<rparr>))"

fun aggregate_events ::
  "'e ProtocolAdapter \<Rightarrow> Protocol \<Rightarrow> IRStreamEvent list \<Rightarrow> ('u, 'e) sse_pipe \<Rightarrow> ('u, 'e) sse_pipe option" where
  "aggregate_events entry entryProtocol [] p = Some p"
| "aggregate_events entry entryProtocol (e # es) p =
     (let (fixed, sa) = ProcessIREvent e (sp_aggregator p)
      in case writeIREvents entry entryProtocol fixed (p\<lparr>sp_aggregator := sa\<rparr>) of
           None \<Rightarrow> None
         | Some p \<Rightarrow> aggregate_events entry entryProtocol es p)"

definition flushEvent ::
  "sonic \<Rightarrow> 'u ProtocolAdapter \<Rightarrow> 'e ProtocolAdapter \<Rightarrow> Protocol \<Rightarrow> ('u, 'e) sse_pipe \<Rightarrow> ('u, 'e) sse_pipe option" where
  "flushEvent js upstream entry entryProtocol p0 =
     (if sp_currentData p0 = [] then Some p0
      else
        (let p = p0\<lparr>sp_currentData := []\<rparr>
         in case body_object js (sp_currentData p0) of
              None \<Rightarrow> Some p
            | Some raw \<Rightarrow>
                (let (irEvents, st) = pa_DecodeStreamEvent upstream raw (sp_upstreamState p)
                 in map_option (\<lambda>p. p\<lparr>sp_currentEventType := []\<rparr>)
                      (aggregate_events entry entryProtocol irEvents (p\<lparr>sp_upstreamState := st\<rparr>)))))"

definition finalizeStream :: "'e ProtocolAdapter \<Rightarrow> Protocol \<Rightarrow> ('u, 'e) sse_pipe \<Rightarrow> ('u, 'e) sse_pipe option" where
  "finalizeStream entry entryProtocol p =
     (let (es, sa) = Finalize (sp_aggregator p) in writeIREvents entry entryProtocol es (p\<lparr>sp_aggregator := sa\<rparr>))"

definition pipe_line ::
  "sonic \<Rightarrow> 'u ProtocolAdapter \<Rightarrow> 'e ProtocolAdapter \<Rightarrow> Protocol \<Rightarrow> Protocol \<Rightarrow> string \<Rightarrow> ('u, 'e) sse_pipe \<Rightarrow> ('u, 'e) sse_pipe option" where
  "pipe_line js upstream entry upstreamProtocol entryProtocol line p =
     (if prefix ''event: '' line then Some (p\<lparr>sp_currentEventType := drop 7 line\<rparr>)
      else if prefix ''data: '' line
      then (let payload = drop 6 line
            in if payload = ''[DONE]''
               then (case flushEvent js upstream entry entryProtocol p of
                       None \<Rightarrow> None
                     | Some p \<Rightarrow>
                         map_option
                           (\<lambda>p. p\<lparr>sp_written := sp_written p @ (if upstreamProtocol = ProtocolOpenAIChat then [Done_marker] else []),
                                  sp_returned := True\<rparr>)
                           (finalizeStream entry entryProtocol p))
               else Some (p\<lparr>sp_currentData := sp_currentData p @ payload\<rparr>))
      else if line = [] \<and> sp_currentData p \<noteq> [] then flushEvent js upstream entry entryProtocol p
      else Some p)"

fun pipe_lines ::
  "sonic \<Rightarrow> 'u ProtocolAdapter \<Rightarrow> 'e ProtocolAdapter \<Rightarrow> Protocol \<Rightarrow> Protocol \<Rightarrow> string list \<Rightarrow> ('u, 'e) sse_pipe \<Rightarrow> ('u, 'e) sse_pipe option" where
  "pipe_lines js upstream entry upstreamProtocol entryProtocol [] p =
     (if IsDone (sp_aggregator p) then Some p else finalizeStream entry entryProtocol p)"
| "pipe_lines js upstream entry upstreamProtocol entryProtocol (line # lines) p =
     (case pipe_line js upstream entry upstreamProtocol entryProtocol line p of
        None \<Rightarrow> None
      | Some p \<Rightarrow> if sp_returned p then Some p else pipe_lines js upstream entry upstreamProtocol entryProtocol lines p)"

definition new_pipe :: "'u ProtocolAdapter \<Rightarrow> 'e ProtocolAdapter \<Rightarrow> ('u, 'e) sse_pipe" where
  "new_pipe upstream entry =
     \<lparr>sp_currentEventType = [], sp_currentData = [], sp_upstreamState = pa_NewStreamState upstream,
      sp_entryState = pa_NewStreamState entry, sp_aggregator = NewStreamAggregator, sp_written = [], sp_returned = False\<rparr>"

definition pipeConvertedSSE ::
  "sonic \<Rightarrow> 'u ProtocolAdapter \<Rightarrow> 'e ProtocolAdapter \<Rightarrow> Protocol \<Rightarrow> Protocol \<Rightarrow> string list \<Rightarrow> sse_frame list option" where
  "pipeConvertedSSE js upstream entry upstreamProtocol entryProtocol lines =
     map_option sp_written (pipe_lines js upstream entry upstreamProtocol entryProtocol lines (new_pipe upstream entry))"

section \<open>A request\<close>

text \<open>
  The two questions that are asked of a body before it is decoded, each by unmarshalling it into a struct with one field; the library answers them,
  with the case of keys and the kinds of values as it treats them.
\<close>

record body_reader =
  br_model :: "string \<Rightarrow> string option"
  br_stream :: "string \<Rightarrow> bool option"

definition extractModelField :: "body_reader \<Rightarrow> string \<Rightarrow> string" where
  "extractModelField br body = (case br_model br body of Some m \<Rightarrow> trim_space m | None \<Rightarrow> [])"

definition isStreamRequest :: "body_reader \<Rightarrow> string \<Rightarrow> bool" where
  "isStreamRequest br body = (case br_stream br body of Some b \<Rightarrow> b | None \<Rightarrow> False)"

definition extractGeminiModelFromPath :: "string \<Rightarrow> string" where
  "extractGeminiModelFromPath action0 =
     (let action = trim_prefix ''/'' action0
      in if CHR '':'' \<notin> set action then [] else rev (drop 1 (dropWhile (\<lambda>c. c \<noteq> CHR '':'') (rev action))))"

definition protocol_of_name :: "string \<Rightarrow> Protocol option" where
  "protocol_of_name name =
     (if name = ''openai_chat'' then Some ProtocolOpenAIChat
      else if name = ''openai_responses'' then Some ProtocolOpenAIResponses
      else if name = ''anthropic_messages'' then Some ProtocolAnthropicMessages
      else if name = ''gemini'' then Some ProtocolGemini
      else None)"

definition CapabilitiesForName :: "Protocol option \<Rightarrow> Capability set" where
  "CapabilitiesForName proto = (case proto of Some p \<Rightarrow> CapabilitiesForProtocol p | None \<Rightarrow> CapabilitiesForProtocol ProtocolOpenAIChat)"

definition handleNonStreamResponse ::
  "sonic \<Rightarrow> (any \<Rightarrow> string) \<Rightarrow> (http_request \<Rightarrow> http_outcome) \<Rightarrow> upstream_config \<Rightarrow> string \<Rightarrow> Protocol \<Rightarrow> Protocol \<Rightarrow>
   's ProtocolAdapter \<Rightarrow> 's ProtocolAdapter \<Rightarrow> client_reply" where
  "handleNonStreamResponse js sprint net cfg body entryProtocol upstreamProtocol entry upstream =
     (case doUpstreamCall net (setUpstreamRequest cfg upstreamProtocol body) of
        Inl err \<Rightarrow> handleUpstreamError js sprint entryProtocol err
      | Inr respBody \<Rightarrow>
          (case body_object js respBody of
             None \<Rightarrow> Json_reply 502 (newEntryError entryProtocol ''invalid upstream response'')
           | Some rawResp \<Rightarrow> Json_reply 200 (AObj (pa_EncodeResponse entry (pa_DecodeResponse upstream rawResp)))))"

definition handleStreamResponse ::
  "sonic \<Rightarrow> (any \<Rightarrow> string) \<Rightarrow> (http_request \<Rightarrow> http_outcome) \<Rightarrow> upstream_config \<Rightarrow> string \<Rightarrow> Protocol \<Rightarrow> Protocol \<Rightarrow>
   's ProtocolAdapter \<Rightarrow> 's ProtocolAdapter \<Rightarrow> client_reply" where
  "handleStreamResponse js sprint net cfg body entryProtocol upstreamProtocol entry upstream =
     (case doUpstreamStreamCall net (setUpstreamRequest cfg upstreamProtocol body) of
        Inl err \<Rightarrow> handleUpstreamError js sprint entryProtocol err
      | Inr respBody \<Rightarrow>
          if entryProtocol = upstreamProtocol then Raw_stream respBody
          else (case pipeConvertedSSE js upstream entry upstreamProtocol entryProtocol (scan_lines respBody) of
                  Some frames \<Rightarrow> Event_stream frames
                | None \<Rightarrow> Panicked))"

text \<open>\<open>handleModelRoute\<close>: the body of the request, and the \<open>modelAction\<close> of its path for the Gemini protocol.\<close>

definition handleModelRoute ::
  "sonic \<Rightarrow> body_reader \<Rightarrow> (string \<Rightarrow> string) \<Rightarrow> (any \<Rightarrow> string) \<Rightarrow> int \<Rightarrow> (Protocol \<Rightarrow> 'o stream_state ProtocolAdapter) \<Rightarrow>
   (http_request \<Rightarrow> http_outcome) \<Rightarrow> model_store \<Rightarrow> Protocol \<Rightarrow> string \<Rightarrow> string \<Rightarrow> client_reply" where
  "handleModelRoute js br quoted sprint clock others net store entryProtocol action body =
     (let refuse = (\<lambda>status message. Json_reply status (newEntryError entryProtocol message));
          model = extractModelField br body;
          model = (if model = [] \<and> entryProtocol = ProtocolGemini then extractGeminiModelFromPath action else model)
      in if model = [] then refuse 400 ''model field is required''
         else (case Resolve_model quoted store model of
                 Inl err \<Rightarrow> refuse 400 (ge_text err)
               | Inr cfg \<Rightarrow>
                   (case body_object js body of
                      None \<Rightarrow> refuse 400 ''invalid JSON request body''
                    | Some raw \<Rightarrow>
                        (let entry = GetAdapter js clock others entryProtocol; ir = pa_DecodeRequest entry raw;
                             upstreamProtocol = protocol_of_name (uc_Protocol cfg)
                         in case NormalizeRequest ir (CapabilitiesForName upstreamProtocol) of
                              Inl e \<Rightarrow> refuse 400 (''request incompatible with target protocol: '' @ e)
                            | Inr (normalized, _) \<Rightarrow>
                                (case upstreamProtocol of
                                   None \<Rightarrow> refuse 500 ''upstream protocol adapter not available''
                                 | Some proto \<Rightarrow>
                                     (let upstream = GetAdapter js clock others proto;
                                          upstreamBody = js_print js (AObj (pa_EncodeRequest upstream (normalized\<lparr>iq_Model := uc_ModelName cfg\<rparr>)))
                                      in (if isStreamRequest br body then handleStreamResponse else handleNonStreamResponse)
                                           js sprint net cfg upstreamBody entryProtocol proto entry upstream))))))"

section \<open>How a stream is converted\<close>

text \<open>Decoding a list of messages, and encoding a list of events: what the loop over the lines amounts to.\<close>

fun decode_all :: "'u ProtocolAdapter \<Rightarrow> amap list \<Rightarrow> 'u \<Rightarrow> IRStreamEvent list \<times> 'u" where
  "decode_all upstream [] st = ([], st)"
| "decode_all upstream (m # ms) st =
     (let (es, st) = pa_DecodeStreamEvent upstream m st; (rest, st) = decode_all upstream ms st in (es @ rest, st))"

fun encode_all :: "'e ProtocolAdapter \<Rightarrow> IRStreamEvent list \<Rightarrow> 'e \<Rightarrow> (amap list \<times> 'e) option" where
  "encode_all entry [] st = Some ([], st)"
| "encode_all entry (e # es) st =
     (case pa_EncodeStreamEvent entry e st of
        None \<Rightarrow> None
      | Some (ms, st) \<Rightarrow> (case encode_all entry es st of None \<Rightarrow> None | Some (rest, st) \<Rightarrow> Some (ms @ rest, st)))"

definition payloads_of :: "sse_frame list \<Rightarrow> amap list" where
  "payloads_of fs = List.map_filter (\<lambda>f. case f of Payload _ m \<Rightarrow> Some m | Done_marker \<Rightarrow> None) fs"

lemma payloads_simps [simp]:
  "payloads_of [] = []" "payloads_of (Payload n m # fs) = m # payloads_of fs" "payloads_of (Done_marker # fs) = payloads_of fs"
  "payloads_of (fs @ gs) = payloads_of fs @ payloads_of gs" "payloads_of (map (frame_of n) ms) = ms"
proof -
  show app: "payloads_of (fs @ gs) = payloads_of fs @ payloads_of gs" for fs gs
    by (induction fs) (simp_all add: payloads_of_def map_filter_simps split: option.splits)
  show "payloads_of (map (frame_of n) ms) = ms"
    by (induction ms) (simp_all add: payloads_of_def map_filter_simps frame_of_def)
qed (simp_all add: payloads_of_def map_filter_simps)

lemma encode_all_append:
  "encode_all entry (a @ b) st =
     (case encode_all entry a st of
        None \<Rightarrow> None
      | Some (ms, st) \<Rightarrow> (case encode_all entry b st of None \<Rightarrow> None | Some (rest, st) \<Rightarrow> Some (ms @ rest, st)))"
  by (induction a arbitrary: st) (auto split: option.splits prod.splits)

lemma process_all_append:
  "process_all (a @ b) sa = (let (x, sa) = process_all a sa; (y, sa) = process_all b sa in (x @ y, sa))"
  by (induction a arbitrary: sa) (auto simp: Let_def split: prod.splits)

text \<open>The state of the pipe after some events have been encoded.\<close>

definition advanced :: "('u, 'e) sse_pipe \<Rightarrow> StreamAggregator \<Rightarrow> IRStreamEvent list \<Rightarrow> 'e ProtocolAdapter \<Rightarrow> ('u, 'e) sse_pipe option \<Rightarrow> bool" where
  "advanced p sa es entry r \<longleftrightarrow>
     (case encode_all entry es (sp_entryState p) of
        None \<Rightarrow> r = None
      | Some (ms, st) \<Rightarrow>
          (\<exists>fs. payloads_of fs = ms \<and> r = Some (p\<lparr>sp_aggregator := sa, sp_entryState := st, sp_written := sp_written p @ fs\<rparr>)))"

lemma write_advances:
  "advanced p sa es entry (writeIREvents entry ep es (p\<lparr>sp_aggregator := sa\<rparr>))"
proof (induction es arbitrary: p)
  case Nil
  show ?case by (simp add: advanced_def exI [of _ "[]"])
next
  case (Cons e es)
  show ?case
  proof (cases "pa_EncodeStreamEvent entry e (sp_entryState p)")
    case None then show ?thesis by (simp add: advanced_def)
  next
    case (Some r)
    obtain ms st where r: "r = (ms, st)" by fastforce
    define f where "f = map (frame_of (sp_currentEventType p)) ms @
        (if ie_Type e = IRStreamDone \<and> ep = ProtocolOpenAIChat then [Done_marker] else [])"
    have f: "payloads_of f = ms" by (simp add: f_def)
    let ?p = "p\<lparr>sp_entryState := st, sp_written := sp_written p @ f\<rparr>"
    have w: "writeIREvents entry ep (e # es) (p\<lparr>sp_aggregator := sa\<rparr>) = writeIREvents entry ep es (?p\<lparr>sp_aggregator := sa\<rparr>)"
      using Some r by (cases p) (simp add: f_def)
    show ?thesis
    proof (cases "encode_all entry es st")
      case None
      then show ?thesis using Cons.IH [of ?p] Some r by (simp add: advanced_def w del: writeIREvents.simps)
    next
      case (Some r2)
      then obtain rest st2 where r2: "r2 = (rest, st2)" by fastforce
      then obtain fs where fs: "payloads_of fs = rest"
        "writeIREvents entry ep es (?p\<lparr>sp_aggregator := sa\<rparr>) = Some (?p\<lparr>sp_aggregator := sa, sp_entryState := st2, sp_written := sp_written ?p @ fs\<rparr>)"
        using Cons.IH [of ?p] Some by (auto simp: advanced_def)
      have "encode_all entry (e # es) (sp_entryState p) = Some (ms @ rest, st2)"
        using \<open>pa_EncodeStreamEvent entry e (sp_entryState p) = Some r\<close> r Some r2 by simp
      moreover have "writeIREvents entry ep (e # es) (p\<lparr>sp_aggregator := sa\<rparr>) =
          Some (p\<lparr>sp_aggregator := sa, sp_entryState := st2, sp_written := sp_written p @ (f @ fs)\<rparr>)"
        unfolding w fs(2) by simp
      ultimately show ?thesis unfolding advanced_def using f fs(1) by (auto intro!: exI [of _ "f @ fs"])
    qed
  qed
qed

lemma advanced_trans:
  assumes "advanced p sa1 es1 entry r1" "\<And>q. r1 = Some q \<Longrightarrow> advanced q sa2 es2 entry (r2 q)"
  shows "advanced p sa2 (es1 @ es2) entry (case r1 of None \<Rightarrow> None | Some q \<Rightarrow> r2 q)"
proof (cases "encode_all entry es1 (sp_entryState p)")
  case None
  then show ?thesis using assms(1) by (simp add: advanced_def encode_all_append)
next
  case (Some x)
  then obtain ms st where x: "x = (ms, st)" by fastforce
  then obtain fs where fs: "payloads_of fs = ms"
    "r1 = Some (p\<lparr>sp_aggregator := sa1, sp_entryState := st, sp_written := sp_written p @ fs\<rparr>)"
    using assms(1) Some by (auto simp: advanced_def)
  show ?thesis
  proof (cases "encode_all entry es2 st")
    case None
    then show ?thesis using assms(2) [OF fs(2)] Some x fs(2) by (simp add: advanced_def encode_all_append)
  next
    case (Some y)
    then obtain rest st2 where y: "y = (rest, st2)" by fastforce
    then obtain gs where gs: "payloads_of gs = rest"
      "r2 (p\<lparr>sp_aggregator := sa1, sp_entryState := st, sp_written := sp_written p @ fs\<rparr>) =
         Some (p\<lparr>sp_aggregator := sa2, sp_entryState := st2, sp_written := sp_written p @ (fs @ gs)\<rparr>)"
      using assms(2) [OF fs(2)] Some by (auto simp: advanced_def)
    have "encode_all entry (es1 @ es2) (sp_entryState p) = Some (ms @ rest, st2)"
      using \<open>encode_all entry es1 (sp_entryState p) = Some x\<close> x Some y by (simp add: encode_all_append)
    then show ?thesis unfolding advanced_def fs(2) using gs fs(1) by (auto intro!: exI [of _ "fs @ gs"])
  qed
qed

lemma aggregate_advances:
  "advanced p (snd (process_all es (sp_aggregator p))) (fst (process_all es (sp_aggregator p))) entry (aggregate_events entry ep es p)"
proof (induction es arbitrary: p)
  case Nil
  show ?case by (simp add: advanced_def exI [of _ "[]"])
next
  case (Cons e es)
  obtain fixed sa where f: "ProcessIREvent e (sp_aggregator p) = (fixed, sa)" by fastforce
  have "advanced p (snd (process_all es sa)) (fixed @ fst (process_all es sa)) entry
      (case writeIREvents entry ep fixed (p\<lparr>sp_aggregator := sa\<rparr>) of None \<Rightarrow> None | Some q \<Rightarrow> aggregate_events entry ep es q)"
  proof (rule advanced_trans [OF write_advances])
    fix q assume q: "writeIREvents entry ep fixed (p\<lparr>sp_aggregator := sa\<rparr>) = Some q"
    then have "sp_aggregator q = sa"
      using write_advances [of p sa fixed entry ep] by (auto simp: advanced_def split: option.splits prod.splits)
    then show "advanced q (snd (process_all es sa)) (fst (process_all es sa)) entry (aggregate_events entry ep es q)"
      using Cons.IH [of q] by simp
  qed
  then show ?case using f by (simp add: case_prod_beta Let_def)
qed

text \<open>Messages as an upstream sends them: an optional event line, a data line, an empty line.\<close>

definition sse_lines :: "string option \<times> string \<Rightarrow> string list" where
  "sse_lines c = (case fst c of Some n \<Rightarrow> [''event: '' @ n] | None \<Rightarrow> []) @ [''data: '' @ snd c, []]"

definition carries :: "sonic \<Rightarrow> string option \<times> string \<Rightarrow> amap \<Rightarrow> bool" where
  "carries js c m \<longleftrightarrow> snd c \<noteq> [] \<and> snd c \<noteq> ''[DONE]'' \<and> body_object js (snd c) = Some m"

definition stream_end :: "string list \<Rightarrow> bool" where
  "stream_end ends \<longleftrightarrow> ends = [] \<or> ends = [''data: [DONE]''] \<or> ends = [''data: [DONE]'', []]"

lemma flush_advances:
  assumes "sp_currentData p = d" "d \<noteq> []" "body_object js d = Some m" "pa_DecodeStreamEvent up m (sp_upstreamState p) = (es, ust)"
    "process_all es (sp_aggregator p) = (os, sa)"
  shows "case encode_all entry os (sp_entryState p) of
      None \<Rightarrow> flushEvent js up entry ep p = None
    | Some (ms, st) \<Rightarrow>
        (\<exists>q. flushEvent js up entry ep p = Some q \<and> payloads_of (sp_written q) = payloads_of (sp_written p) @ ms \<and>
           sp_entryState q = st \<and> sp_aggregator q = sa \<and> sp_upstreamState q = ust \<and> sp_currentData q = [] \<and>
           sp_returned q = sp_returned p)"
proof -
  let ?p = "p\<lparr>sp_currentData := [], sp_upstreamState := ust\<rparr>"
  have "flushEvent js up entry ep p = map_option (\<lambda>p. p\<lparr>sp_currentEventType := []\<rparr>) (aggregate_events entry ep es ?p)"
    using assms by (simp add: flushEvent_def Let_def)
  moreover have "advanced ?p sa os entry (aggregate_events entry ep es ?p)"
    using aggregate_advances [of ?p es entry ep] assms(5) by simp
  ultimately show ?thesis by (auto simp: advanced_def split: option.splits)
qed

lemma chunk_advances:
  assumes "carries js c m" "sp_currentData p = []" "\<not> sp_returned p" "pa_DecodeStreamEvent up m (sp_upstreamState p) = (es, ust)"
    "process_all es (sp_aggregator p) = (os, sa)"
  shows "case encode_all entry os (sp_entryState p) of
      None \<Rightarrow> pipe_lines js up entry upP ep (sse_lines c @ ls) p = None
    | Some (ms, st) \<Rightarrow>
        (\<exists>q. pipe_lines js up entry upP ep (sse_lines c @ ls) p = pipe_lines js up entry upP ep ls q \<and>
           payloads_of (sp_written q) = payloads_of (sp_written p) @ ms \<and>
           sp_entryState q = st \<and> sp_aggregator q = sa \<and> sp_upstreamState q = ust \<and> sp_currentData q = [] \<and> \<not> sp_returned q)"
proof -
  let ?p0 = "case fst c of Some n \<Rightarrow> p\<lparr>sp_currentEventType := n\<rparr> | None \<Rightarrow> p"
  let ?p = "?p0\<lparr>sp_currentData := snd c\<rparr>"
  have c: "snd c \<noteq> []" "snd c \<noteq> ''[DONE]''" "body_object js (snd c) = Some m" using assms(1) by (simp_all add: carries_def)
  have "pipe_lines js up entry upP ep (sse_lines c @ ls) p =
      (case flushEvent js up entry ep ?p of None \<Rightarrow> None
       | Some q \<Rightarrow> if sp_returned q then Some q else pipe_lines js up entry upP ep ls q)"
    using c(1,2) assms(2,3) by (cases "fst c") (simp_all add: sse_lines_def pipe_line_def)
  moreover have "sp_upstreamState ?p = sp_upstreamState p" "sp_aggregator ?p = sp_aggregator p" "sp_entryState ?p = sp_entryState p"
    "sp_written ?p = sp_written p" "sp_returned ?p = sp_returned p"
    by (simp_all split: option.splits)
  ultimately show ?thesis
    using flush_advances [of ?p "snd c" js m up es ust os sa entry ep] c assms(3-5) by (auto split: option.splits)
qed

lemma end_advances:
  assumes "stream_end ends" "sp_currentData p = []" "\<not> sp_returned p"
  shows "map_option (\<lambda>q. payloads_of (sp_written q)) (pipe_lines js up entry upP ep ends p) =
     map_option (\<lambda>(ms, st). payloads_of (sp_written p) @ ms) (encode_all entry (fst (Finalize (sp_aggregator p))) (sp_entryState p))"
proof -
  obtain fs sa where f: "Finalize (sp_aggregator p) = (fs, sa)" by fastforce
  have w: "advanced p sa fs entry (finalizeStream entry ep p)"
    using write_advances [of p sa fs entry ep] f by (simp add: finalizeStream_def)
  have done_p: "fs = []" if "sa_doneSent (sp_aggregator p)" using f that by (simp add: Finalize_def)
  have fl: "flushEvent js up entry ep p = Some p" using assms(2) by (simp add: flushEvent_def)
  consider "ends = []" | rest where "ends = ''data: [DONE]'' # rest" using assms(1) by (auto simp: stream_end_def)
  then show ?thesis
  proof cases
    case 1
    then show ?thesis using w f done_p by (auto simp: IsDone_def advanced_def split: option.splits)
  next
    case (2 rest)
    then have "pipe_lines js up entry upP ep ends p = map_option
        (\<lambda>p. p\<lparr>sp_written := sp_written p @ (if upP = ProtocolOpenAIChat then [Done_marker] else []), sp_returned := True\<rparr>)
        (finalizeStream entry ep p)"
      by (cases "finalizeStream entry ep p") (simp_all add: pipe_line_def fl)
    then show ?thesis using w f by (auto simp: advanced_def split: option.splits)
  qed
qed

lemma pipe_payloads_from:
  assumes "list_all2 (carries js) cs ms" "stream_end ends" "sp_currentData p = []" "\<not> sp_returned p"
    "decode_all up ms (sp_upstreamState p) = (es, ust)" "process_all es (sp_aggregator p) = (os, sa)"
  shows "map_option (\<lambda>q. payloads_of (sp_written q)) (pipe_lines js up entry upP ep (concat (map sse_lines cs) @ ends) p) =
     map_option (\<lambda>(x, st). payloads_of (sp_written p) @ x) (encode_all entry (os @ fst (Finalize sa)) (sp_entryState p))"
  using assms(1,3-6)
proof (induction arbitrary: p es ust os sa rule: list_all2_induct)
  case Nil
  then show ?case using end_advances [OF assms(2), of p js up entry upP ep] by simp
next
  case (Cons c cs m ms)
  obtain e1 u1 where d1: "pa_DecodeStreamEvent up m (sp_upstreamState p) = (e1, u1)" by fastforce
  obtain e2 u2 where d2: "decode_all up ms u1 = (e2, u2)" by fastforce
  obtain o1 a1 where p1: "process_all e1 (sp_aggregator p) = (o1, a1)" by fastforce
  obtain o2 a2 where p2: "process_all e2 a1 = (o2, a2)" by fastforce
  have es: "es = e1 @ e2" "os = o1 @ o2" "sa = a2"
    using Cons.prems(3,4) d1 d2 p1 p2 by (auto simp: process_all_append)
  note step = chunk_advances [OF Cons.hyps(1) Cons.prems(1,2) d1 p1, of entry upP ep "concat (map sse_lines cs) @ ends"]
  show ?case
  proof (cases "encode_all entry o1 (sp_entryState p)")
    case None
    then show ?thesis using step by (simp add: es encode_all_append)
  next
    case (Some x)
    obtain x1 st1 where x: "x = (x1, st1)" by fastforce
    obtain q where q: "pipe_lines js up entry upP ep (sse_lines c @ concat (map sse_lines cs) @ ends) p =
        pipe_lines js up entry upP ep (concat (map sse_lines cs) @ ends) q"
      "payloads_of (sp_written q) = payloads_of (sp_written p) @ x1" "sp_entryState q = st1" "sp_aggregator q = a1"
      "sp_upstreamState q = u1" "sp_currentData q = []" "\<not> sp_returned q"
      using step Some x by auto
    have "map_option (\<lambda>q. payloads_of (sp_written q)) (pipe_lines js up entry upP ep (concat (map sse_lines cs) @ ends) q) =
        map_option (\<lambda>(x, st). payloads_of (sp_written q) @ x) (encode_all entry (o2 @ fst (Finalize a2)) (sp_entryState q))"
      by (rule Cons.IH) (use q d2 p2 in simp_all)
    then show ?thesis using Some x q by (auto simp: es encode_all_append split: option.splits)
  qed
qed

text \<open>
  The payloads that a client is sent are the encoding of the completed stream of the decoded messages, whether the upstream closes its stream with
  \<open>[DONE]\<close> or just ends; the conversion panics exactly when the encoder does.
\<close>

lemma pipe_payloads:
  assumes "list_all2 (carries js) cs ms" "stream_end ends"
  shows "map_option payloads_of (pipeConvertedSSE js up entry upP ep (concat (map sse_lines cs) @ ends)) =
     map_option fst (encode_all entry (aggregated (fst (decode_all up ms (pa_NewStreamState up)))) (pa_NewStreamState entry))"
proof -
  obtain es u where d: "decode_all up ms (pa_NewStreamState up) = (es, u)" by fastforce
  obtain os sa where p: "process_all es NewStreamAggregator = (os, sa)" by fastforce
  have "map_option (\<lambda>q. payloads_of (sp_written q)) (pipe_lines js up entry upP ep (concat (map sse_lines cs) @ ends) (new_pipe up entry)) =
     map_option (\<lambda>(x, st). payloads_of (sp_written (new_pipe up entry)) @ x)
       (encode_all entry (os @ fst (Finalize sa)) (sp_entryState (new_pipe up entry)))"
    by (rule pipe_payloads_from [OF assms]) (use d p in \<open>simp_all add: new_pipe_def\<close>)
  moreover have "aggregated es = os @ fst (Finalize sa)" using p by (simp add: aggregated_def)
  ultimately show ?thesis using d
    by (cases "encode_all entry (os @ fst (Finalize sa)) (pa_NewStreamState entry)")
       (auto simp: pipeConvertedSSE_def new_pipe_def option.map_comp comp_def)
qed

end
