(* ===== verification/RouterStreams.thy ===== *)
theory RouterStreams
  imports ModelRouter
begin

text \<open>
  What the clients of the model proxy are shown of a stream that is converted between the Chat and the Anthropic protocol.

  Lemmas: the decoders' events, the payloads of the encoders, and their composition with the aggregator over a whole stream.
\<close>

section \<open>Chat upstream\<close>

text \<open>The first choice of a chunk, and what its delta says.\<close>

definition chunk_delta :: "amap \<Rightarrow> amap" where
  "chunk_delta m = (case getList m ''choices'' of Some (c # _) \<Rightarrow> map_or_nil (getMap (obj_elem c) ''delta'') | _ \<Rightarrow> fmempty)"

definition chunk_text :: "amap \<Rightarrow> string" where "chunk_text m = getString (chunk_delta m) ''content''"
definition chunk_thought :: "amap \<Rightarrow> string" where "chunk_thought m = getString (chunk_delta m) ''reasoning_content''"

definition event_text :: "IRStreamEvent list \<Rightarrow> string" where
  "event_text es = concat (map ie_DeltaText (deltas es))"

lemma event_text_simps [simp]: "event_text [] = []" "event_text (a @ b) = event_text a @ event_text b"
  by (simp_all add: event_text_def deltas_def)

text \<open>The events a Chat chunk can become: tool calls start with their call, and only a thought has a delta type.\<close>

definition plain_event :: "IRStreamEvent \<Rightarrow> bool" where
  "plain_event e \<longleftrightarrow>
     ie_DeltaType e = [] \<and> ie_Type e \<noteq> IRStreamDone \<and> ie_Type e \<noteq> IRStreamError \<and>
     (case ie_Part e of None \<Rightarrow> True | Some p \<Rightarrow> ie_Type e = IRStreamContentStart \<and> ip_Type p = IRPartToolCall \<and> ip_ToolCall p \<noteq> None)"

lemma plain_events:
  "plain_event ((event_of_type IRStreamContentDelta)\<lparr>ie_Index := i, ie_DeltaJSON := x\<rparr>)"
  "plain_event ((event_of_type IRStreamContentStart)\<lparr>ie_Index := i, ie_Part := Some (tool_part tc)\<rparr>)"
  "plain_event ((event_of_type IRStreamContentDelta)\<lparr>ie_DeltaText := t\<rparr>)"
  "plain_event ((event_of_type IRStreamMessageStart)\<lparr>ie_ResponseID := a, ie_ResponseModel := b\<rparr>)"
  "plain_event ((event_of_type IRStreamMessageDelta)\<lparr>ie_StopReason := r\<rparr>)"
  "plain_event ((event_of_type IRStreamMessageDelta)\<lparr>ie_Usage := u\<rparr>)"
  by (simp_all add: plain_event_def event_of_type_def tool_part_def)

lemma event_texts:
  "event_text [(event_of_type IRStreamContentDelta)\<lparr>ie_Index := i, ie_DeltaJSON := x\<rparr>] = []"
  "event_text [(event_of_type IRStreamContentStart)\<lparr>ie_Index := i, ie_Part := p\<rparr>] = []"
  "event_text [(event_of_type IRStreamContentDelta)\<lparr>ie_DeltaText := t\<rparr>] = t"
  "event_text [(event_of_type IRStreamMessageStart)\<lparr>ie_ResponseID := a, ie_ResponseModel := b\<rparr>] = []"
  "event_text [(event_of_type IRStreamMessageDelta)\<lparr>ie_StopReason := r\<rparr>] = []"
  "event_text [(event_of_type IRStreamMessageDelta)\<lparr>ie_Usage := u\<rparr>] = []"
  by (simp_all add: event_text_def deltas_def event_of_type_def)

lemma call_chunk_events:
  "list_all plain_event (fst (decode_call_chunk tc st)) \<and> event_text (fst (decode_call_chunk tc st)) = []"
proof -
  define idx where "idx = (case getFloat (obj_elem tc) ''index'' of Some f \<Rightarrow> int_of_float f | None \<Rightarrow> 0)"
  have "(\<exists>i c. fst (decode_call_chunk tc st) = [(event_of_type IRStreamContentStart)\<lparr>ie_Index := i, ie_Part := Some (tool_part c)\<rparr>]) \<or>
     (\<exists>i c x. fst (decode_call_chunk tc st) = [(event_of_type IRStreamContentStart)\<lparr>ie_Index := i, ie_Part := Some (tool_part c)\<rparr>] @
        [(event_of_type IRStreamContentDelta)\<lparr>ie_Index := i, ie_DeltaJSON := x\<rparr>]) \<or>
     (\<exists>i x. fst (decode_call_chunk tc st) = [(event_of_type IRStreamContentDelta)\<lparr>ie_Index := i, ie_DeltaJSON := x\<rparr>]) \<or>
     fst (decode_call_chunk tc st) = []"
    unfolding decode_call_chunk_def Let_def idx_def [symmetric]
    by (cases "getString (obj_elem tc) ''id'' = []"; cases "idx \<in> ch_toolStartEmitted st";
        cases "getString (map_or_nil (getMap (obj_elem tc) ''function'')) ''arguments'' = []";
        cases "fmlookup (ch_toolIndexToGlobalIndex st) idx") auto
  then show ?thesis
    by (elim disjE exE) (simp_all only: event_text_simps(2) list_all_append list.pred_inject plain_events event_texts append_Nil simp_thms event_text_simps(1))
qed

lemma call_chunks_events:
  "list_all plain_event (fst (decode_call_chunks tcs st)) \<and> event_text (fst (decode_call_chunks tcs st)) = []"
proof (induction tcs arbitrary: st)
  case (Cons tc tcs)
  then show ?case using call_chunk_events [of tc st] by (simp add: Let_def case_prod_beta)
qed simp

lemma attach_usage_kept:
  "list_all plain_event (attach_usage u es) = list_all plain_event es" "event_text (attach_usage u es) = event_text es"
proof -
  have last: "plain_event (e\<lparr>ie_Usage := u\<rparr>) = plain_event e" "event_text [e\<lparr>ie_Usage := u\<rparr>] = event_text [e]" for e
    by (simp_all add: plain_event_def event_text_def deltas_def split: option.splits)
  show "list_all plain_event (attach_usage u es) = list_all plain_event es" "event_text (attach_usage u es) = event_text es"
    by (cases es rule: rev_cases, simp_all add: attach_usage_def last)+
qed

lemma delta_events:
  assumes "getString delta ''reasoning_content'' = []"
  shows "list_all plain_event (fst (chat_delta_events delta st)) \<and>
     event_text (fst (chat_delta_events delta st)) = getString delta ''content''"
proof -
  define calls where "calls = fst (case getList delta ''tool_calls'' of Some tcs \<Rightarrow> decode_call_chunks tcs st | None \<Rightarrow> ([], st))"
  have "list_all plain_event calls \<and> event_text calls = []"
    using call_chunks_events by (auto simp: calls_def split: option.splits)
  moreover have "fst (chat_delta_events delta st) =
     (if getString delta ''role'' = ''assistant''
      then [(event_of_type IRStreamMessageStart)\<lparr>ie_ResponseID := ch_responseID st, ie_ResponseModel := ch_model st\<rparr>] else []) @
     (if getString delta ''content'' \<noteq> [] then [(event_of_type IRStreamContentDelta)\<lparr>ie_DeltaText := getString delta ''content''\<rparr>] else []) @
     calls"
    using assms by (simp add: chat_delta_events_def Let_def case_prod_beta calls_def)
  ultimately show ?thesis by (simp add: plain_events event_texts)
qed

lemma chat_chunk_events:
  assumes "chunk_thought m = []"
  shows "list_all plain_event (fst (chat_DecodeStreamEvent m st)) \<and> event_text (fst (chat_DecodeStreamEvent m st)) = chunk_text m"
proof (cases "\<exists>c cs. getList m ''choices'' = Some (c # cs)")
  case False
  then have "fst (chat_DecodeStreamEvent m st) = (case map_option decode_chat_usage (getMap m ''usage'') of
      Some u \<Rightarrow> [(event_of_type IRStreamMessageDelta)\<lparr>ie_Usage := Some u\<rparr>] | None \<Rightarrow> [])"
    by (auto simp: chat_DecodeStreamEvent_def Let_def split: option.splits list.splits)
  moreover have "chunk_text m = []"
    using False by (auto simp: chunk_text_def chunk_delta_def getString_def str_of_def split: option.splits list.splits)
  ultimately show ?thesis by (simp add: plain_event_def event_of_type_def event_text_def deltas_def split: option.splits)
next
  case True
  then obtain c cs where c: "getList m ''choices'' = Some (c # cs)" by blast
  have t: "chunk_text m = getString (map_or_nil (getMap (obj_elem c) ''delta'')) ''content''"
    "getString (map_or_nil (getMap (obj_elem c) ''delta'')) ''reasoning_content'' = []"
    using assms by (simp_all add: chunk_text_def chunk_thought_def chunk_delta_def c)
  define st1 where "st1 = noted (getString m ''id'') (getString m ''model'') st"
  have "fst (chat_DecodeStreamEvent m st) = attach_usage (map_option decode_chat_usage (getMap m ''usage''))
     (fst (chat_delta_events (map_or_nil (getMap (obj_elem c) ''delta'')) st1) @
      (if getString (obj_elem c) ''finish_reason'' \<noteq> []
       then [(event_of_type IRStreamMessageDelta)\<lparr>ie_StopReason := mapOpenAIFinishReason (getString (obj_elem c) ''finish_reason'')\<rparr>] else []))"
    by (simp add: chat_DecodeStreamEvent_def c Let_def case_prod_beta st1_def)
  then show ?thesis using delta_events [OF t(2), of st1] t(1) by (simp add: attach_usage_kept plain_events event_texts)
qed

lemma chat_decode_all:
  assumes "\<forall>m \<in> set ms. chunk_thought m = []"
  shows "list_all plain_event (fst (decode_all (openAIChatAdapter js clock) ms st)) \<and>
     event_text (fst (decode_all (openAIChatAdapter js clock) ms st)) = concat (map chunk_text ms)"
  using assms
proof (induction ms arbitrary: st)
  case (Cons m ms)
  then show ?case using chat_chunk_events [of m "as_chat st"]
    by (auto simp: openAIChatAdapter_def Let_def case_prod_beta apsnd_def map_prod_def)
qed simp

section \<open>The aggregator on plain events\<close>

text \<open>An event that the Anthropic encoder can write, and a delta that it writes as text or as arguments.\<close>

definition writable :: "IRStreamEvent \<Rightarrow> bool" where
  "writable e \<longleftrightarrow>
     ie_Type e \<noteq> IRStreamError \<and> (ie_Type e = IRStreamContentDelta \<longrightarrow> ie_Part e = None) \<and>
     (ie_Type e = IRStreamContentStart \<longrightarrow>
        (case ie_Part e of
           None \<Rightarrow> True
         | Some p \<Rightarrow> ip_Type p = IRPartText \<or> ip_Type p = IRPartToolCall \<and> ip_ToolCall p \<noteq> None))"

definition plain_items :: "StreamAggregator \<Rightarrow> bool" where
  "plain_items sa \<longleftrightarrow> (\<forall>i it. fmlookup (sa_items sa) i = Some it \<longrightarrow> li_itemType it \<noteq> ItemReasoning)"

lemma plain_ensure:
  assumes "plain_items sa" "t \<noteq> ItemReasoning" "ensureItem i t sa = (it, sa')"
  shows "plain_items sa' \<and> li_itemType it \<noteq> ItemReasoning"
  using assms by (auto simp: ensureItem_def plain_items_def Let_def split: option.splits if_splits)

lemma plain_put: "plain_items sa \<Longrightarrow> li_itemType it \<noteq> ItemReasoning \<Longrightarrow> plain_items (put_item it sa)"
  by (simp add: plain_items_def put_item_def)

lemma plain_preamble:
  assumes "plain_items sa" "ensureResponsePreamble sa = (r, sa')"
  shows "plain_items sa' \<and> list_all writable r"
  using assms by (auto simp: ensureResponsePreamble_def plain_items_def synthesizeResponseCreated_def event_of_type_def writable_def split: if_splits)

lemma plain_synthesized:
  assumes "li_itemType it \<noteq> ItemReasoning" "synthesizeOutputItemAdded it = (e, it')"
  shows "writable e \<and> li_itemType it' = li_itemType it"
  using assms by (auto simp: synthesizeOutputItemAdded_def Let_def event_of_type_def writable_def part_of_type_def
      split: ItemType.splits option.splits prod.splits)

lemma track_type [simp]: "li_itemType (track_tool e it) = li_itemType it" "li_itemType (track_id e it) = li_itemType it"
  by (simp_all add: track_tool_def track_id_def Let_def split: option.splits IRPartType.splits)

lemma plain_start:
  assumes "plain_items sa" "plain_event e" "ie_Type e = IRStreamContentStart" "handleContentStart e sa = (es, sa')"
  shows "plain_items sa' \<and> list_all writable es"
proof -
  obtain r sa1 where p: "ensureResponsePreamble sa = (r, sa1)" by fastforce
  obtain it sa2 where i: "ensureItem (ie_Index e) (start_item_type e) sa1 = (it, sa2)" by fastforce
  have "start_item_type e \<noteq> ItemReasoning" using assms(2) by (auto simp: start_item_type_def plain_event_def split: option.splits)
  then have "plain_items sa2 \<and> li_itemType it \<noteq> ItemReasoning" using plain_ensure plain_preamble [OF assms(1) p] i by blast
  then show ?thesis using assms(2-4) p i plain_preamble [OF assms(1) p]
    by (auto simp: handleContentStart_def Let_def plain_put writable_def plain_event_def split: option.splits)
qed

lemma plain_delta:
  assumes "plain_items sa" "plain_event e" "ie_Type e = IRStreamContentDelta" "handleContentDelta e sa = (es, sa')"
  shows "plain_items sa' \<and> list_all writable es"
proof -
  obtain r sa1 where p: "ensureResponsePreamble sa = (r, sa1)" by fastforce
  obtain it sa2 where i: "ensureItem (ie_Index (nonneg_index e)) (inferItemType e) sa1 = (it, sa2)" by fastforce
  obtain s it' where s: "synthesizeOutputItemAdded it = (s, it')" by fastforce
  have "inferItemType e \<noteq> ItemReasoning" using assms(2) by (auto simp: inferItemType_def plain_event_def)
  then have it: "plain_items sa2 \<and> li_itemType it \<noteq> ItemReasoning" using plain_ensure plain_preamble [OF assms(1) p] i by blast
  have "writable (nonneg_index e)"
    using assms(2,3) by (auto simp: writable_def nonneg_index_def plain_event_def split: option.splits)
  then show ?thesis using assms(4) p i s it plain_preamble [OF assms(1) p] plain_synthesized [of it s it']
    by (auto simp: handleContentDelta_def Let_def plain_put split: if_splits)
qed

lemma plain_stop:
  assumes "plain_items sa" "ie_Type e = IRStreamContentStop" "handleContentStop e sa = (es, sa')"
  shows "plain_items sa' \<and> list_all writable es"
proof -
  obtain r sa1 where p: "ensureResponsePreamble sa = (r, sa1)" by fastforce
  note pre = plain_preamble [OF assms(1) p]
  have e: "writable e" using assms(2) by (simp add: writable_def)
  show ?thesis
  proof (cases "fmlookup (sa_items sa1) (ie_Index e)")
    case (Some it)
    then have "li_itemType it \<noteq> ItemReasoning" using pre by (auto simp: plain_items_def)
    then show ?thesis using assms(3) p Some pre e by (auto simp: handleContentStop_def Let_def plain_put)
  next
    case None
    obtain it sa2 where i: "ensureItem (ie_Index e) ItemUnknown sa1 = (it, sa2)" by fastforce
    obtain s it' where s: "synthesizeOutputItemAdded it = (s, it')" by fastforce
    have it: "plain_items sa2 \<and> li_itemType it \<noteq> ItemReasoning" using plain_ensure [OF conjunct1 [OF pre] _ i] by simp
    then show ?thesis using assms(3) p i s None pre e plain_synthesized [of it s it']
      by (auto simp: handleContentStop_def Let_def plain_put split: if_splits)
  qed
qed

lemma plain_process:
  assumes "plain_items sa" "plain_event e" "ProcessIREvent e sa = (es, sa')"
  shows "plain_items sa' \<and> list_all writable es"
proof (cases "sa_doneSent sa")
  case True
  then show ?thesis using assms by (auto simp: ProcessIREvent_def)
next
  case False
  show ?thesis
  proof (cases "ie_Type e")
    case IRStreamContentStart
    then show ?thesis using plain_start [OF assms(1,2)] assms(3) False by (simp add: ProcessIREvent_def)
  next
    case IRStreamContentDelta
    then show ?thesis using plain_delta [OF assms(1,2)] assms(3) False by (simp add: ProcessIREvent_def)
  next
    case IRStreamContentStop
    then show ?thesis using plain_stop [OF assms(1)] assms(3) False by (simp add: ProcessIREvent_def)
  next
    case IRStreamMessageStart
    then show ?thesis using assms(1,3) False
      by (auto simp: ProcessIREvent_def handleMessageStart_def plain_items_def writable_def)
  next
    case IRStreamMessageDelta
    then show ?thesis using assms(1,3) False
      by (auto simp: ProcessIREvent_def handleMessageDelta_def Let_def plain_items_def writable_def synthesizeResponseCreated_def
          event_of_type_def split: if_splits)
  qed (use assms(2) in \<open>auto simp: plain_event_def\<close>)
qed

lemma plain_process_all:
  assumes "plain_items sa" "list_all plain_event es" "process_all es sa = (os, sa')"
  shows "plain_items sa' \<and> list_all writable os"
  using assms
proof (induction es arbitrary: sa os sa')
  case (Cons e es)
  obtain o1 sa1 where p: "ProcessIREvent e sa = (o1, sa1)" by fastforce
  obtain o2 sa2 where q: "process_all es sa1 = (o2, sa2)" by fastforce
  show ?case using plain_process [OF Cons.prems(1) _ p] Cons.IH [OF _ _ q] Cons.prems p q by auto
qed simp

lemma plain_close:
  assumes "plain_items sa" "close_items is sa = (es, sa')"
  shows "plain_items sa' \<and> list_all writable es"
  using assms
proof (induction "is" arbitrary: sa es sa')
  case (Cons i "is")
  show ?case
  proof (cases "fmlookup (sa_items sa) i")
    case None
    then show ?thesis using Cons by simp
  next
    case (Some it)
    obtain s it' where c: "close_item it = (s, it')" by fastforce
    obtain s1 it1 where s1: "synthesizeOutputItemAdded it = (s1, it1)" by fastforce
    have t: "li_itemType it \<noteq> ItemReasoning" using Some Cons.prems(1) by (auto simp: plain_items_def)
    then have "list_all writable s \<and> li_itemType it' \<noteq> ItemReasoning"
      using c s1 plain_synthesized [OF t s1] by (auto simp: close_item_def writable_def event_of_type_def split: if_splits)
    then show ?thesis using Some c Cons.IH [OF plain_put [OF Cons.prems(1)], of it'] Cons.IH [OF Cons.prems(1)] Cons.prems(2)
      by (auto split: if_splits prod.splits)
  qed
qed simp

lemma plain_aggregated:
  assumes "list_all plain_event es"
  shows "list_all writable (aggregated es)"
proof -
  obtain os sa where p: "process_all es NewStreamAggregator = (os, sa)" by fastforce
  have "plain_items NewStreamAggregator" by (simp add: plain_items_def NewStreamAggregator_def)
  then have os: "plain_items sa" "list_all writable os" using plain_process_all [OF _ assms p] by auto
  obtain r sa1 where r: "ensureResponsePreamble (sa\<lparr>sa_doneReceived := True\<rparr>) = (r, sa1)" by fastforce
  obtain cs sa2 where c: "close_items (sortedItemIndices sa1) sa1 = (cs, sa2)" by fastforce
  have "plain_items (sa\<lparr>sa_doneReceived := True\<rparr>)" using os(1) by (simp add: plain_items_def)
  then have "list_all writable (r @ cs)" using plain_preamble [OF _ r] plain_close [OF _ c] by auto
  moreover have "sa_doneSent sa \<or> sa_doneResult sa = None"
    using process_all_inv [OF stream_inv_new p] by (auto simp: stream_inv_def)
  ultimately have "list_all writable (fst (Finalize sa))"
    using r c by (auto simp: Finalize_def handleDone_def Let_def writable_def event_of_type_def)
  then show ?thesis using os(2) p by (simp add: aggregated_def)
qed

section \<open>Anthropic client\<close>

definition payload_type :: "amap \<Rightarrow> string" where "payload_type m = getString m ''type''"

text \<open>The text that a client adds to the visible answer for one payload.\<close>

definition shown_text :: "amap list \<Rightarrow> string" where
  "shown_text ms =
     concat (map (\<lambda>m. if payload_type m = ''content_block_delta'' then getString (map_or_nil (getMap m ''delta'')) ''text'' else []) ms)"

lemma shown_text_simps [simp]: "shown_text [] = []" "shown_text (a @ b) = shown_text a @ shown_text b"
  by (simp_all add: shown_text_def)

definition terminal_type :: "IRStreamEvent \<Rightarrow> string list" where
  "terminal_type e = (if ie_Type e = IRStreamDone then [''message_stop''] else [])"

lemma block_payloads:
  "payload_type (block_start i b) = ''content_block_start''" "shown_text [block_start i b] = []"
  "payload_type (block_delta i d) = ''content_block_delta''"
  "shown_text [block_delta i [(''type'', AStr ''text_delta''), (''text'', AStr t)]] = t"
  "shown_text [block_delta i [(''type'', AStr ''input_json_delta''), (''partial_json'', AStr t)]] = []"
  by (simp_all add: payload_type_def shown_text_def block_start_def block_delta_def get_defs map_or_nil_def)

lemma other_payloads:
  "payload_type (encode_message_start e) = ''message_start''" "shown_text [encode_message_start e] = []"
  "payload_type (encode_message_delta e) = ''message_delta''" "shown_text [encode_message_delta e] = []"
  "payload_type message_stop = ''message_stop''" "shown_text [message_stop] = []"
  "payload_type (block_stop i) = ''content_block_stop''" "shown_text [block_stop i] = []"
  by (simp_all add: message_stop_def block_stop_def payload_type_def shown_text_def encode_message_start_def encode_message_delta_def get_defs)

text \<open>What one event that can be written becomes.\<close>

lemma encode_writable:
  assumes "writable e"
  obtains ms st' where "anthropic_EncodeStreamEvent e st = Some (ms, st')" "shown_text ms = event_text [e]"
    "filter (\<lambda>t. t = ''message_stop'') (map payload_type ms) = terminal_type e"
    "ie_Type e = IRStreamMessageStart \<Longrightarrow> map payload_type ms = [''message_start'']"
    "ie_Type e = IRStreamMessageDelta \<Longrightarrow> map payload_type ms = [''message_delta'']"
proof (cases "ie_Type e")
  case IRStreamMessageStart
  then show thesis using that by (auto simp: anthropic_EncodeStreamEvent_def other_payloads event_text_def deltas_def terminal_type_def)
next
  case IRStreamMessageDelta
  then show thesis using that by (auto simp: anthropic_EncodeStreamEvent_def other_payloads event_text_def deltas_def terminal_type_def)
next
  case IRStreamDone
  then show thesis using that by (auto simp: anthropic_EncodeStreamEvent_def other_payloads event_text_def deltas_def terminal_type_def)
next
  case IRStreamContentStop
  then show thesis using that by (auto simp: anthropic_EncodeStreamEvent_def other_payloads event_text_def deltas_def terminal_type_def)
next
  case IRStreamContentStart
  then obtain b st' where "encode_content_start (ie_Index e) (ie_Part e) st = Some ([block_start (ie_Index e) b], st')"
    using assms by (auto simp: writable_def encode_content_start_def split: option.splits)
  then show thesis using that IRStreamContentStart
    by (auto simp: anthropic_EncodeStreamEvent_def block_payloads event_text_def deltas_def terminal_type_def)
next
  case IRStreamContentDelta
  then have p: "ie_Part e = None" using assms by (simp add: writable_def)
  obtain ms st' where d: "encode_content_delta e st = (ms, st')" by fastforce
  have started: "shown_text (block_start i b # [x]) = shown_text [x]" "shown_text (block_start i b # []) = []" for i b x
    using shown_text_simps(2) [of "[block_start i b]" "[x]"] by (simp_all add: block_payloads)
  have "shown_text ms = ie_DeltaText e \<and> filter (\<lambda>t. t = ''message_stop'') (map payload_type ms) = []"
    using d p by (auto simp: encode_content_delta_def Let_def block_payloads started split: if_splits)
  then show thesis using that IRStreamContentDelta d
    by (auto simp: anthropic_EncodeStreamEvent_def event_text_def deltas_def terminal_type_def)
next
  case IRStreamError
  then show thesis using assms by (simp add: writable_def)
qed

lemma anthropic_encodes:
  "pa_EncodeStreamEvent (anthropicMessagesAdapter js) e (Anthropic_state st) =
     map_option (apsnd Anthropic_state) (anthropic_EncodeStreamEvent e st)"
  by (simp add: anthropicMessagesAdapter_def as_anthropic_def)

abbreviation anthropic_enc :: "sonic \<Rightarrow> IRStreamEvent list \<Rightarrow> anthropicStreamState \<Rightarrow> (amap list \<times> 'o stream_state) option" where
  "anthropic_enc js es st \<equiv> encode_all (anthropicMessagesAdapter js) es (Anthropic_state st)"

lemma encode_all_writable:
  assumes "list_all writable es"
  shows "\<exists>ms st'. anthropic_enc js es st = Some (ms, Anthropic_state st' :: 'o stream_state) \<and> shown_text ms = event_text es \<and>
     filter (\<lambda>t. t = ''message_stop'') (map payload_type ms) = concat (map terminal_type es)"
  using assms
proof (induction es arbitrary: st)
  case (Cons e es)
  obtain m1 st1 where e: "anthropic_EncodeStreamEvent e st = Some (m1, st1)" "shown_text m1 = event_text [e]"
    "filter (\<lambda>t. t = ''message_stop'') (map payload_type m1) = terminal_type e"
    by (rule encode_writable [of e st]) (use Cons.prems in auto)
  obtain m2 st2 where "anthropic_enc js es st1 = Some (m2, Anthropic_state st2 :: 'o stream_state)" "shown_text m2 = event_text es"
    "filter (\<lambda>t. t = ''message_stop'') (map payload_type m2) = concat (map terminal_type es)"
    using Cons.IH [of st1] Cons.prems by auto
  then show ?case using e event_text_simps(2) [of "[e]" es]
    by (simp add: anthropic_encodes)
qed simp

section \<open>Streams from Chat to Anthropic\<close>

lemma terminal_complete:
  assumes "complete_stream out"
  shows "concat (map terminal_type out) = [''message_stop'']"
proof -
  obtain body d f where out: "out = body @ [d, f]" "no_done body" "ie_Type d = IRStreamMessageDelta" "ie_Type f = IRStreamDone"
    using assms by (auto simp: complete_stream_def)
  have "concat (map terminal_type body) = []" using out(2) by (induction body) (simp_all add: no_done_def terminal_type_def)
  then show ?thesis using out by (simp add: terminal_type_def)
qed

lemma plain_before_done: "list_all plain_event es \<Longrightarrow> before_done es = es"
  unfolding before_done_def by (induction es) (auto simp: plain_event_def)

lemma nonneg_text: "concat (map ie_DeltaText (map nonneg_index es)) = concat (map ie_DeltaText es)"
  by (induction es) (simp_all add: nonneg_index_def)


section \<open>Thoughts\<close>

text \<open>A thought that opens its item: the start that is made up for it has no thought to point to.\<close>

definition bad_start :: "IRStreamEvent \<Rightarrow> bool" where
  "bad_start e \<longleftrightarrow>
     ie_Type e = IRStreamContentStart \<and> (\<exists>p. ie_Part e = Some p \<and> ip_Type p = IRPartReasoning \<and> ip_Reasoning p = None)"

lemma bad_start_panics: "bad_start e \<Longrightarrow> anthropic_EncodeStreamEvent e st = None"
  by (auto simp: bad_start_def anthropic_EncodeStreamEvent_def encode_content_start_def)

lemma encode_all_panics:
  assumes "e \<in> set es" "bad_start e"
  shows "encode_all (anthropicMessagesAdapter js) es s = None"
  using assms(1)
proof (induction es arbitrary: s)
  case (Cons x xs)
  show ?case
  proof (cases "x = e")
    case True
    then show ?thesis using bad_start_panics [OF assms(2)] by (simp add: anthropicMessagesAdapter_def)
  next
    case False
    then show ?thesis using Cons by (auto split: option.splits)
  qed
qed simp

definition thought_event :: "IRStreamEvent \<Rightarrow> bool" where
  "thought_event e \<longleftrightarrow>
     ie_Type e = IRStreamContentDelta \<and> ie_Index e = 0 \<and> ie_DeltaText e \<noteq> [] \<and> ie_DeltaType e = ''reasoning''"

definition quiet_event :: "IRStreamEvent \<Rightarrow> bool" where
  "quiet_event e \<longleftrightarrow> ie_Type e = IRStreamMessageStart \<or> ie_Type e = IRStreamMessageDelta"

lemma thought_opens_item:
  assumes "thought_event e" "fmlookup (sa_items sa) 0 = None" "\<not> sa_doneSent sa"
  shows "\<exists>x \<in> set (fst (ProcessIREvent e sa)). bad_start x"
proof -
  obtain r sa1 where p: "ensureResponsePreamble sa = (r, sa1)" by fastforce
  define it where "it = \<lparr>li_index = 0, li_itemID = [], li_itemType = ItemReasoning, li_added = False, li_contentAdded = False,
     li_stopped = False, li_toolCall = None\<rparr>"
  have none: "fmlookup (sa_items sa1) 0 = None" using assms(2) p by (auto simp: ensureResponsePreamble_def split: if_splits)
  have "nonneg_index e = e" "inferItemType e = ItemReasoning" using assms(1) by (auto simp: thought_event_def nonneg_index_def inferItemType_def)
  moreover have "ensureItem 0 ItemReasoning sa1 =
      (it, sa1\<lparr>sa_items := fmupd 0 it (sa_items sa1), sa_itemIndices := sa_itemIndices sa1 @ [0]\<rparr>)"
    using none by (simp add: ensureItem_def it_def Let_def)
  moreover have "bad_start (fst (synthesizeOutputItemAdded it))"
    by (simp add: it_def synthesizeOutputItemAdded_def named_item_def Let_def event_of_type_def part_of_type_def bad_start_def)
  ultimately show ?thesis using assms(1,3) p
    by (auto simp: ProcessIREvent_def thought_event_def handleContentDelta_def Let_def it_def split: prod.splits)
qed

lemma quiet_process:
  assumes "list_all quiet_event es" "process_all es sa = (os, sa')"
  shows "sa_items sa' = sa_items sa \<and> sa_doneSent sa' = sa_doneSent sa"
  using assms
proof (induction es arbitrary: sa os sa')
  case (Cons e es)
  obtain o1 sa1 where p: "ProcessIREvent e sa = (o1, sa1)" by fastforce
  obtain o2 sa2 where q: "process_all es sa1 = (o2, sa2)" by fastforce
  have "sa_items sa1 = sa_items sa \<and> sa_doneSent sa1 = sa_doneSent sa"
    using p Cons.prems(1)
    by (auto simp: quiet_event_def ProcessIREvent_def handleMessageStart_def handleMessageDelta_def Let_def split: if_splits)
  then show ?case using Cons.IH [OF _ q] Cons.prems p q by auto
qed simp

lemma thought_panics:
  assumes "es = a @ t # b" "list_all quiet_event a" "thought_event t"
  shows "\<exists>x \<in> set (aggregated es). bad_start x"
proof -
  obtain o1 sa1 where p: "process_all a NewStreamAggregator = (o1, sa1)" by fastforce
  obtain o2 sa2 where q: "ProcessIREvent t sa1 = (o2, sa2)" by fastforce
  obtain o3 sa3 where r: "process_all b sa2 = (o3, sa3)" by fastforce
  have "sa_items sa1 = fmempty" "\<not> sa_doneSent sa1" using quiet_process [OF assms(2) p] by (simp_all add: NewStreamAggregator_def)
  then have "\<exists>x \<in> set o2. bad_start x" using thought_opens_item [OF assms(3), of sa1] q by simp
  then show ?thesis using p q r assms(1) by (auto simp: aggregated_def process_all_append)
qed

lemma attach_split:
  assumes "quiet_event e \<or> thought_event e"
  shows "quiet_event (e\<lparr>ie_Usage := u\<rparr>) = quiet_event e" "thought_event (e\<lparr>ie_Usage := u\<rparr>) = thought_event e"
  by (simp_all add: quiet_event_def thought_event_def)

lemma quiet_attach: "list_all quiet_event es \<Longrightarrow> list_all quiet_event (attach_usage u es)"
  by (cases es rule: rev_cases) (auto simp: attach_usage_def quiet_event_def)

lemma thought_attach:
  assumes "es = a @ t # b" "list_all quiet_event a" "thought_event t"
  shows "\<exists>a' t' b'. attach_usage u es = a' @ t' # b' \<and> list_all quiet_event a' \<and> thought_event t'"
proof (cases b rule: rev_cases)
  case Nil
  then show ?thesis using assms
    by (intro exI [of _ a] exI [of _ "last (attach_usage u es)"] exI [of _ "[]"]) (auto simp: attach_usage_def thought_event_def)
next
  case (snoc b' x)
  then show ?thesis using assms
    by (intro exI [of _ a] exI [of _ t] exI [of _ "if u = None \<or> ie_Usage x \<noteq> None then b' @ [x] else b' @ [x\<lparr>ie_Usage := u\<rparr>]"])
       (auto simp: attach_usage_def butlast_append)
qed

definition silent_chunk :: "amap \<Rightarrow> bool" where
  "silent_chunk m \<longleftrightarrow> chunk_text m = [] \<and> chunk_thought m = [] \<and> getList (chunk_delta m) ''tool_calls'' = None"

lemma silent_events:
  assumes "silent_chunk m"
  shows "list_all quiet_event (fst (chat_DecodeStreamEvent m st))"
proof (cases "\<exists>c cs. getList m ''choices'' = Some (c # cs)")
  case False
  then show ?thesis
    by (auto simp: chat_DecodeStreamEvent_def Let_def quiet_event_def event_of_type_def split: option.splits list.splits)
next
  case True
  then obtain c cs where c: "getList m ''choices'' = Some (c # cs)" by blast
  let ?d = "map_or_nil (getMap (obj_elem c) ''delta'')"
  have "getString ?d ''content'' = []" "getString ?d ''reasoning_content'' = []" "getList ?d ''tool_calls'' = None"
    using assms c by (simp_all add: silent_chunk_def chunk_text_def chunk_thought_def chunk_delta_def)
  then have "list_all quiet_event (fst (chat_delta_events ?d st'))" for st'
    by (simp add: chat_delta_events_def Let_def quiet_event_def event_of_type_def)
  moreover have "fst (chat_DecodeStreamEvent m st) = attach_usage (map_option decode_chat_usage (getMap m ''usage''))
     (fst (chat_delta_events ?d (noted (getString m ''id'') (getString m ''model'') st)) @
      (if getString (obj_elem c) ''finish_reason'' \<noteq> []
       then [(event_of_type IRStreamMessageDelta)\<lparr>ie_StopReason := mapOpenAIFinishReason (getString (obj_elem c) ''finish_reason'')\<rparr>] else []))"
    by (simp add: chat_DecodeStreamEvent_def c Let_def case_prod_beta)
  ultimately show ?thesis by (auto intro!: quiet_attach simp: quiet_event_def event_of_type_def)
qed

lemma thought_events:
  assumes "chunk_text m = []" "chunk_thought m \<noteq> []"
  shows "\<exists>a t b. fst (chat_DecodeStreamEvent m st) = a @ t # b \<and> list_all quiet_event a \<and> thought_event t"
proof -
  obtain c cs where c: "getList m ''choices'' = Some (c # cs)"
    using assms(2) by (auto simp: chunk_thought_def chunk_delta_def getString_def str_of_def split: option.splits list.splits)
  let ?d = "map_or_nil (getMap (obj_elem c) ''delta'')"
  let ?st = "noted (getString m ''id'') (getString m ''model'') st"
  have d: "getString ?d ''content'' = []" "getString ?d ''reasoning_content'' \<noteq> []"
    using assms c by (simp_all add: chunk_text_def chunk_thought_def chunk_delta_def)
  define a where "a = (if getString ?d ''role'' = ''assistant''
     then [(event_of_type IRStreamMessageStart)\<lparr>ie_ResponseID := ch_responseID ?st, ie_ResponseModel := ch_model ?st\<rparr>] else [])"
  define t where "t = (event_of_type IRStreamContentDelta)\<lparr>ie_DeltaText := getString ?d ''reasoning_content'', ie_DeltaType := ''reasoning''\<rparr>"
  obtain b where "fst (chat_delta_events ?d ?st) = a @ t # b"
    using d by (auto simp: chat_delta_events_def Let_def case_prod_beta a_def t_def)
  moreover have "list_all quiet_event a" "thought_event t" using d by (simp_all add: a_def t_def quiet_event_def thought_event_def event_of_type_def)
  moreover have "fst (chat_DecodeStreamEvent m st) = attach_usage (map_option decode_chat_usage (getMap m ''usage''))
     (fst (chat_delta_events ?d ?st) @
      (if getString (obj_elem c) ''finish_reason'' \<noteq> []
       then [(event_of_type IRStreamMessageDelta)\<lparr>ie_StopReason := mapOpenAIFinishReason (getString (obj_elem c) ''finish_reason'')\<rparr>] else []))"
    by (simp add: chat_DecodeStreamEvent_def c Let_def case_prod_beta)
  ultimately show ?thesis using thought_attach [of _ a t] by simp
qed

lemma decode_all_append:
  "decode_all up (a @ b) st = (let (x, st) = decode_all up a st; (y, st) = decode_all up b st in (x @ y, st))"
  by (induction a arbitrary: st) (auto simp: Let_def split: prod.splits)

lemma chat_decodes:
  "pa_DecodeStreamEvent (openAIChatAdapter js clock) m st = apsnd Chat_state (chat_DecodeStreamEvent m (as_chat st))"
  by (simp add: openAIChatAdapter_def)

lemma silent_decode_all:
  assumes "\<forall>m \<in> set ms. silent_chunk m"
  shows "list_all quiet_event (fst (decode_all (openAIChatAdapter js clock) ms st))"
  using assms
proof (induction ms arbitrary: st)
  case (Cons m ms)
  then show ?case using silent_events [of m "as_chat st"] by (simp add: chat_decodes Let_def case_prod_beta)
qed simp

text \<open>C27: A model that thinks before it answers breaks the stream: when the first thing that a Chat upstream says is a thought, as reasoning models do, the conversion
  for an Anthropic client ends in a nil pointer dereference, whatever follows. The aggregator makes up the start of a reasoning item without a thought, and
  the encoder reads the thought of it.\<close>

theorem thought_first_panics:
  assumes "list_all2 (carries js) cs (pre @ m # rest)" "stream_end ends" "\<forall>x \<in> set pre. silent_chunk x"
    "chunk_text m = []" "chunk_thought m \<noteq> []"
  shows "pipeConvertedSSE js (openAIChatAdapter js clock :: 'o stream_state ProtocolAdapter) (anthropicMessagesAdapter js :: 'o stream_state ProtocolAdapter)
       ProtocolOpenAIChat ProtocolAnthropicMessages (concat (map sse_lines cs) @ ends) = None"
proof -
  let ?up = "openAIChatAdapter js clock :: 'o stream_state ProtocolAdapter"
  obtain e1 s1 where d1: "decode_all ?up pre (pa_NewStreamState ?up) = (e1, s1)" by fastforce
  obtain a t b where m: "fst (chat_DecodeStreamEvent m (as_chat s1)) = a @ t # b" "list_all quiet_event a" "thought_event t"
    using thought_events [OF assms(4,5), of "as_chat s1"] by blast
  obtain c where "fst (decode_all ?up (pre @ m # rest) (pa_NewStreamState ?up)) = (e1 @ a) @ t # (b @ c)"
    using d1 m(1) by (auto simp: decode_all_append chat_decodes Let_def case_prod_beta)
  moreover have "list_all quiet_event (e1 @ a)" using silent_decode_all [OF assms(3), of js clock "pa_NewStreamState ?up"] d1 m(2) by simp
  ultimately obtain x where "x \<in> set (aggregated (fst (decode_all ?up (pre @ m # rest) (pa_NewStreamState ?up))))" "bad_start x"
    using thought_panics m(3) by blast
  then show ?thesis
    using pipe_payloads [OF assms(1,2), of ?up "anthropicMessagesAdapter js :: 'o stream_state ProtocolAdapter" ProtocolOpenAIChat ProtocolAnthropicMessages]
    by (simp add: encode_all_panics)
qed

section \<open>Anthropic upstream, Chat client\<close>

text \<open>The finish reasons that a Chat client reads from a payload.\<close>

definition finish_reasons :: "amap list \<Rightarrow> string list" where
  "finish_reasons ms =
     concat (map (\<lambda>m. case getList m ''choices'' of
         Some (c # _) \<Rightarrow> (case fmlookup (obj_elem c) ''finish_reason'' of Some (AStr r) \<Rightarrow> [r] | _ \<Rightarrow> [])
       | _ \<Rightarrow> []) ms)"

text \<open>Message deltas that bring usage, and no errors.\<close>

definition metered :: "IRStreamEvent \<Rightarrow> bool" where
  "metered e \<longleftrightarrow> ie_Type e \<noteq> IRStreamError \<and> (ie_Type e = IRStreamMessageDelta \<longrightarrow> ie_Usage e \<noteq> None)"

lemma metered_item: "is_item_event e \<Longrightarrow> metered e" "ie_Type e = IRStreamMessageStart \<Longrightarrow> metered e"
  by (auto simp: metered_def is_item_event_def)

lemma metered_handlers:
  assumes "is_item_event e"
  shows "list_all metered (fst (handleContentStart e sa)) \<and> sa_usage (snd (handleContentStart e sa)) = sa_usage sa"
    and "list_all metered (fst (handleContentDelta e sa)) \<and> sa_usage (snd (handleContentDelta e sa)) = sa_usage sa"
    and "list_all metered (fst (handleContentStop e sa)) \<and> sa_usage (snd (handleContentStop e sa)) = sa_usage sa"
proof -
  have pre: "list_all metered (fst (ensureResponsePreamble sa))" "sa_usage (snd (ensureResponsePreamble sa)) = sa_usage sa"
    by (simp_all add: ensureResponsePreamble_def synthesizeResponseCreated_def event_of_type_def metered_def)
  have item: "sa_usage (snd (ensureItem i t s)) = sa_usage s" for i t s
    by (simp add: ensureItem_def Let_def split: option.splits)
  have put: "sa_usage (put_item it s) = sa_usage s" for it s by (simp add: put_item_def)
  have syn: "metered (fst (synthesizeOutputItemAdded it))" for it
    using synthesized_start(1) [of it "fst (synthesizeOutputItemAdded it)" "snd (synthesizeOutputItemAdded it)"] by (simp add: metered_def)
  have e: "metered e" "metered (nonneg_index e)" using assms by (auto simp: metered_def is_item_event_def nonneg_index_def)
  show "list_all metered (fst (handleContentStart e sa)) \<and> sa_usage (snd (handleContentStart e sa)) = sa_usage sa"
    by (simp add: handleContentStart_def Let_def case_prod_beta pre item put e)
  show "list_all metered (fst (handleContentDelta e sa)) \<and> sa_usage (snd (handleContentDelta e sa)) = sa_usage sa"
    by (simp add: handleContentDelta_def Let_def case_prod_beta pre item put e syn)
  show "list_all metered (fst (handleContentStop e sa)) \<and> sa_usage (snd (handleContentStop e sa)) = sa_usage sa"
    by (simp add: handleContentStop_def Let_def case_prod_beta pre item put e syn split: option.splits)
qed

lemma close_metered: "list_all metered (fst (close_items is sa)) \<and> sa_usage (snd (close_items is sa)) = sa_usage sa"
proof (induction "is" arbitrary: sa)
  case (Cons i "is")
  have syn: "metered (fst (synthesizeOutputItemAdded it))" for it
    using synthesized_start(1) [of it "fst (synthesizeOutputItemAdded it)" "snd (synthesizeOutputItemAdded it)"] by (simp add: metered_def)
  have "list_all metered (fst (close_item it))" for it
    by (simp add: close_item_def case_prod_beta syn) (simp add: metered_def event_of_type_def)
  moreover have "sa_usage (put_item it s) = sa_usage s" for it s by (simp add: put_item_def)
  ultimately show ?case using Cons by (simp add: case_prod_beta Let_def split: option.splits)
qed simp

lemma done_metered: "sa_usage sa \<noteq> None \<Longrightarrow> sa_doneResult sa = None \<Longrightarrow> list_all metered (fst (handleDone sa))"
proof -
  assume usage: "sa_usage sa \<noteq> None" "sa_doneResult sa = None"
  let ?sa = "sa\<lparr>sa_doneReceived := True\<rparr>"
  have pre: "list_all metered (fst (ensureResponsePreamble ?sa))" "sa_usage (snd (ensureResponsePreamble ?sa)) = sa_usage sa"
    by (simp_all add: ensureResponsePreamble_def synthesizeResponseCreated_def event_of_type_def metered_def)
  then show ?thesis using usage close_metered
    by (auto simp: handleDone_def Let_def case_prod_beta) (simp_all add: metered_def event_of_type_def)
qed

lemma process_metered:
  assumes "metered e" "ie_Type e = IRStreamDone \<longrightarrow> sa_usage sa \<noteq> None" "sa_doneSent sa \<or> sa_doneResult sa = None"
  shows "list_all metered (fst (ProcessIREvent e sa))"
    and "sa_usage sa \<noteq> None \<or> (ie_Type e = IRStreamMessageDelta \<and> \<not> sa_doneSent sa) \<Longrightarrow> ie_Type e \<noteq> IRStreamDone \<Longrightarrow>
      sa_usage (snd (ProcessIREvent e sa)) \<noteq> None"
proof -
  have "list_all metered (fst (ProcessIREvent e sa)) \<and>
      (sa_usage sa \<noteq> None \<or> (ie_Type e = IRStreamMessageDelta \<and> \<not> sa_doneSent sa) \<longrightarrow> ie_Type e \<noteq> IRStreamDone \<longrightarrow>
       sa_usage (snd (ProcessIREvent e sa)) \<noteq> None)"
  proof (cases "sa_doneSent sa \<or> is_item_event e")
    case True
    then show ?thesis using metered_handlers [of e sa] by (auto simp: ProcessIREvent_def is_item_event_def)
  next
    case False
    show ?thesis
    proof (cases "ie_Type e")
      case IRStreamMessageDelta
      then show ?thesis using assms(1) False
        by (auto simp: ProcessIREvent_def handleMessageDelta_def Let_def metered_def synthesizeResponseCreated_def event_of_type_def)
    next
      case IRStreamMessageStart
      then show ?thesis using False by (auto simp: ProcessIREvent_def handleMessageStart_def metered_def)
    next
      case IRStreamDone
      then show ?thesis using assms(2,3) False done_metered by (simp add: ProcessIREvent_def)
    qed (use False assms(1) in \<open>auto simp: is_item_event_def metered_def\<close>)
  qed
  then show "list_all metered (fst (ProcessIREvent e sa))"
    "sa_usage sa \<noteq> None \<or> (ie_Type e = IRStreamMessageDelta \<and> \<not> sa_doneSent sa) \<Longrightarrow> ie_Type e \<noteq> IRStreamDone \<Longrightarrow>
      sa_usage (snd (ProcessIREvent e sa)) \<noteq> None"
    by auto
qed

lemma metered_before:
  assumes "stream_inv sa out" "list_all metered es" "list_all (\<lambda>e. ie_Type e \<noteq> IRStreamDone) es" "process_all es sa = (os, sa')"
  shows "stream_inv sa' (out @ os) \<and> list_all metered os"
  using assms
proof (induction es arbitrary: sa out os sa')
  case (Cons e es)
  obtain o1 sa1 where p: "ProcessIREvent e sa = (o1, sa1)" by fastforce
  obtain o2 sa2 where q: "process_all es sa1 = (o2, sa2)" by fastforce
  have "stream_inv sa1 (out @ o1)" using process_inv [OF Cons.prems(1) p] Cons.prems(3) by simp
  moreover have "list_all metered o1"
    using process_metered(1) [of e sa] Cons.prems(1-3) p by (simp add: stream_inv_def)
  ultimately show ?case using Cons.IH [OF _ _ _ q, of "out @ o1"] Cons.prems p q by auto
qed simp

lemma metered_after:
  assumes "sa_doneSent sa \<or> stream_inv sa out \<and> sa_usage sa \<noteq> None" "list_all metered es" "process_all es sa = (os, sa')"
  shows "(sa_doneSent sa' \<or> sa_doneResult sa' = None \<and> sa_usage sa' \<noteq> None) \<and> list_all metered os"
  using assms
proof (induction es arbitrary: sa out os sa')
  case Nil
  then show ?case by (auto simp: stream_inv_def)
next
  case (Cons e es)
  obtain o1 sa1 where p: "ProcessIREvent e sa = (o1, sa1)" by fastforce
  obtain o2 sa2 where q: "process_all es sa1 = (o2, sa2)" by fastforce
  have "list_all metered o1 \<and> (sa_doneSent sa1 \<or> stream_inv sa1 (out @ o1) \<and> sa_usage sa1 \<noteq> None)"
  proof (cases "sa_doneSent sa")
    case True
    then show ?thesis using p by (auto simp: ProcessIREvent_def)
  next
    case False
    then have inv: "stream_inv sa out" "sa_usage sa \<noteq> None" using Cons.prems(1) by auto
    then have m: "list_all metered o1" using process_metered(1) [of e sa] Cons.prems(2) p by (simp add: stream_inv_def)
    show ?thesis
    proof (cases "ie_Type e = IRStreamDone")
      case True
      then have "handleDone sa = (o1, sa1)" using p False by (simp add: ProcessIREvent_def)
      then show ?thesis using done_inv [OF inv(1)] m by blast
    next
      case False
      then have "sa_usage sa1 \<noteq> None" using process_metered(2) [of e sa] Cons.prems(2) p inv by (simp add: stream_inv_def)
      then show ?thesis using process_inv [OF inv(1) p False] m by blast
    qed
  qed
  then show ?case using Cons.IH [OF _ _ q, of "out @ o1"] Cons.prems p q by auto
qed

lemma aggregated_metered:
  assumes "list_all metered (a @ d # b)" "list_all (\<lambda>e. ie_Type e \<noteq> IRStreamDone) a" "ie_Type d = IRStreamMessageDelta"
  shows "list_all metered (aggregated (a @ d # b))"
proof -
  obtain o1 sa1 where p: "process_all a NewStreamAggregator = (o1, sa1)" by fastforce
  obtain o2 sa2 where q: "ProcessIREvent d sa1 = (o2, sa2)" by fastforce
  obtain o3 sa3 where r: "process_all b sa2 = (o3, sa3)" by fastforce
  have inv: "stream_inv sa1 o1" "list_all metered o1" using metered_before [OF stream_inv_new _ assms(2) p] assms(1) by auto
  have d: "metered d" using assms(1) by simp
  have "list_all metered o2" "sa_usage sa2 \<noteq> None"
    using process_metered [OF d, of sa1] assms(3) q inv(1) by (auto simp: stream_inv_def)
  moreover have "stream_inv sa2 (o1 @ o2)" using process_inv [OF inv(1) q] assms(3) by simp
  ultimately have end_state: "sa_doneSent sa3 \<or> sa_doneResult sa3 = None \<and> sa_usage sa3 \<noteq> None" "list_all metered o3"
    using metered_after [OF _ _ r, of "o1 @ o2"] assms(1) by auto
  then have "list_all metered (fst (Finalize sa3))" using done_metered [of sa3] by (auto simp: Finalize_def)
  then show ?thesis using p q r inv(2) \<open>list_all metered o2\<close> end_state(2)
    by (simp add: aggregated_def process_all_append)
qed

text \<open>The chunks that the Chat encoder writes for metered events never name a finish reason.\<close>

lemma finish_reasons_simps [simp]: "finish_reasons [] = []" "finish_reasons (a @ b) = finish_reasons a @ finish_reasons b"
  by (simp_all add: finish_reasons_def)

lemma encode_metered:
  assumes "metered e"
  shows "finish_reasons (fst (chat_EncodeStreamEvent js clock e st)) = []"
proof (cases "ie_Type e")
  case IRStreamContentStart
  then show ?thesis
    by (auto simp: chat_EncodeStreamEvent_def chat_stream_fields_def Let_def finish_reasons_def chat_choice_def get_defs obj_elem_def
        split: option.splits IRPartType.splits)
next
  case IRStreamContentDelta
  then show ?thesis
    by (auto simp: chat_EncodeStreamEvent_def chat_stream_fields_def Let_def finish_reasons_def chat_choice_def get_defs obj_elem_def)
qed (use assms in \<open>auto simp: metered_def chat_EncodeStreamEvent_def chat_stream_fields_def Let_def finish_reasons_def chat_choice_def get_defs
    obj_elem_def\<close>)

lemma chat_encodes:
  "pa_EncodeStreamEvent (openAIChatAdapter js clock) e (Chat_state st) = Some (apsnd Chat_state (chat_EncodeStreamEvent js clock e st))"
  by (simp add: openAIChatAdapter_def as_chat_def)

lemma encode_all_metered:
  assumes "list_all metered es"
  shows "\<exists>ms st'. encode_all (openAIChatAdapter js clock) es (Chat_state st) = Some (ms, Chat_state st' :: 'o stream_state) \<and> finish_reasons ms = []"
  using assms
proof (induction es arbitrary: st)
  case (Cons e es)
  obtain m1 st1 where e: "chat_EncodeStreamEvent js clock e st = (m1, st1)" by fastforce
  then have "finish_reasons m1 = []" using encode_metered [of e js clock st] Cons.prems by simp
  moreover obtain m2 st2 where "encode_all (openAIChatAdapter js clock) es (Chat_state st1) = Some (m2, Chat_state st2 :: 'o stream_state)"
    "finish_reasons m2 = []"
    using Cons.IH [of st1] Cons.prems by auto
  ultimately show ?case using e by (simp add: chat_encodes)
qed simp

text \<open>A message of an Anthropic stream: no error, and usage with every message delta, as the protocol has it.\<close>

definition metered_message :: "amap \<Rightarrow> bool" where
  "metered_message m \<longleftrightarrow> payload_type m \<noteq> ''error'' \<and> (payload_type m = ''message_delta'' \<longrightarrow> getMap m ''usage'' \<noteq> None)"

lemma metered_message_events:
  assumes "metered_message m"
  shows "list_all metered (fst (anthropic_DecodeStreamEvent m st))"
    and "payload_type m \<noteq> ''message_stop'' \<Longrightarrow> list_all (\<lambda>e. ie_Type e \<noteq> IRStreamDone) (fst (anthropic_DecodeStreamEvent m st))"
    and "payload_type m = ''message_delta'' \<Longrightarrow> \<exists>d. fst (anthropic_DecodeStreamEvent m st) = [d] \<and> ie_Type d = IRStreamMessageDelta"
proof -
  have start: "ie_Type (fst (decode_message_start x st)) = IRStreamMessageStart" for x
    by (simp add: decode_message_start_def Let_def event_of_type_def split: option.splits)
  have block: "ie_Type (fst (decode_block_start i x st)) = IRStreamContentStart" for i x
    by (simp add: decode_block_start_def Let_def event_of_type_def start_event_def)
  have delta: "list_all (\<lambda>e. ie_Type e = IRStreamContentDelta) (decode_block_delta i x st)" for i x
    by (simp add: decode_block_delta_def Let_def event_of_type_def)
  have items: "list_all metered (decode_block_delta i x st)" "list_all (\<lambda>e. ie_Type e \<noteq> IRStreamDone) (decode_block_delta i x st)" for i x
    using delta [of i x] by (auto simp: list_all_iff metered_def)
  have mdelta: "ie_Type (decode_message_delta x y st) = IRStreamMessageDelta" "ie_Usage (decode_message_delta x y st) = None \<longleftrightarrow> y = None" for x y
    by (simp_all add: decode_message_delta_def event_of_type_def)
  show "list_all metered (fst (anthropic_DecodeStreamEvent m st))"
    using assms by (simp add: anthropic_DecodeStreamEvent_def Let_def case_prod_beta items payload_type_def metered_message_def)
      (simp add: metered_def start block mdelta event_of_type_def)
  show "list_all (\<lambda>e. ie_Type e \<noteq> IRStreamDone) (fst (anthropic_DecodeStreamEvent m st))" if "payload_type m \<noteq> ''message_stop''"
    using that by (simp add: anthropic_DecodeStreamEvent_def Let_def case_prod_beta items payload_type_def start block mdelta)
      (simp add: event_of_type_def)
  show "\<exists>d. fst (anthropic_DecodeStreamEvent m st) = [d] \<and> ie_Type d = IRStreamMessageDelta" if "payload_type m = ''message_delta''"
    using that by (simp add: anthropic_DecodeStreamEvent_def Let_def payload_type_def mdelta)
qed

lemma anthropic_decodes:
  "pa_DecodeStreamEvent (anthropicMessagesAdapter js) m st = apsnd Anthropic_state (anthropic_DecodeStreamEvent m (as_anthropic st))"
  by (simp add: anthropicMessagesAdapter_def)

lemma metered_decode_all:
  assumes "\<forall>m \<in> set ms. metered_message m"
  shows "list_all metered (fst (decode_all (anthropicMessagesAdapter js) ms st))"
    and "\<forall>m \<in> set ms. payload_type m \<noteq> ''message_stop'' \<Longrightarrow>
      list_all (\<lambda>e. ie_Type e \<noteq> IRStreamDone) (fst (decode_all (anthropicMessagesAdapter js) ms st))"
  using assms
proof (induction ms arbitrary: st)
  case (Cons m ms)
  { case 1 then show ?case using Cons.IH(1) metered_message_events(1) [of m "as_anthropic st"]
      by (simp add: anthropic_decodes Let_def case_prod_beta) }
  { case 2 then show ?case using Cons.IH(2) metered_message_events(2) [of m "as_anthropic st"]
      by (simp add: anthropic_decodes Let_def case_prod_beta) }
qed simp_all

text \<open>C28: A Chat client of an Anthropic model is never told why the answer ended: in the protocol of the upstream the stop reason and the usage come in one
  \<open>message_delta\<close>, and of an event with usage the Chat encoder writes only the usage; the final message delta of the aggregator has the usage again. So no chunk of the
  converted stream has a finish reason, whether the model stopped, ran out of tokens or called a tool.\<close>

theorem finish_reason_lost:
  assumes "list_all2 (carries js) cs (pre @ m # rest)" "stream_end ends" "\<forall>x \<in> set (pre @ m # rest). metered_message x"
    "payload_type m = ''message_delta''" "\<forall>x \<in> set pre. payload_type x \<noteq> ''message_stop''"
  shows "\<exists>frames. pipeConvertedSSE js (anthropicMessagesAdapter js :: 'o stream_state ProtocolAdapter) (openAIChatAdapter js clock :: 'o stream_state ProtocolAdapter)
       ProtocolAnthropicMessages ProtocolOpenAIChat (concat (map sse_lines cs) @ ends) = Some frames \<and>
     finish_reasons (payloads_of frames) = []"
proof -
  let ?up = "anthropicMessagesAdapter js :: 'o stream_state ProtocolAdapter"
  let ?en = "openAIChatAdapter js clock :: 'o stream_state ProtocolAdapter"
  define st0 where "st0 = pa_NewStreamState ?up"
  obtain e1 s1 where d1: "decode_all ?up pre st0 = (e1, s1)" by fastforce
  obtain d where d2: "fst (anthropic_DecodeStreamEvent m (as_anthropic s1)) = [d]" "ie_Type d = IRStreamMessageDelta"
    using metered_message_events(3) assms(3,4) by fastforce
  obtain e3 where es: "fst (decode_all ?up (pre @ m # rest) st0) = e1 @ d # e3"
    using d1 d2(1) by (simp add: decode_all_append anthropic_decodes Let_def case_prod_beta)
  have "list_all metered (e1 @ d # e3)" using metered_decode_all(1) [OF assms(3), of js st0] es by simp
  moreover have "list_all (\<lambda>e. ie_Type e \<noteq> IRStreamDone) e1"
    using metered_decode_all(2) [of pre js st0] assms(3,5) d1 by simp
  ultimately have "list_all metered (aggregated (e1 @ d # e3))" using d2(2) by (rule aggregated_metered)
  then obtain ms st' where "encode_all ?en (aggregated (e1 @ d # e3)) (Chat_state chat_NewStreamState) = Some (ms, Chat_state st')"
    "finish_reasons ms = []"
    using encode_all_metered [of "aggregated (e1 @ d # e3)" js clock chat_NewStreamState] by blast
  moreover have "pa_NewStreamState ?en = Chat_state chat_NewStreamState" by (simp add: openAIChatAdapter_def)
  ultimately have "map_option payloads_of (pipeConvertedSSE js ?up ?en ProtocolAnthropicMessages ProtocolOpenAIChat (concat (map sse_lines cs) @ ends)) =
      Some ms"
    using pipe_payloads [OF assms(1,2), of ?up ?en ProtocolAnthropicMessages ProtocolOpenAIChat] es by (simp add: st0_def)
  then show ?thesis using \<open>finish_reasons ms = []\<close> by auto
qed

section \<open>Examples\<close>

text \<open>A library that knows three texts.\<close>

definition demo_delta :: "(string \<times> any) list \<Rightarrow> amap" where
  "demo_delta d = fmap_of_list [(''choices'', AArr [obj_of [(''delta'', obj_of d)]])]"

definition demo_stop :: amap where
  "demo_stop = fmap_of_list [(''type'', AStr ''message_delta''), (''delta'', obj_of [(''stop_reason'', AStr ''max_tokens'')]),
     (''usage'', obj_of [(''output_tokens'', ANat 5)])]"

definition demo_sonic :: sonic where
  "demo_sonic =
     \<lparr>js_parse = (\<lambda>s. if s = ''a'' then Some (AObj (demo_delta [(''content'', AStr ''hi'')]))
                      else if s = ''r'' then Some (AObj (demo_delta [(''reasoning_content'', AStr ''hm'')]))
                      else if s = ''m'' then Some (AObj demo_stop) else None),
      js_print = (\<lambda>_. ''{}'')\<rparr>"

lemma demo_carries:
  "carries demo_sonic (None, ''a'') (demo_delta [(''content'', AStr ''hi'')])"
  "carries demo_sonic (None, ''r'') (demo_delta [(''reasoning_content'', AStr ''hm'')])"
  "carries demo_sonic (Some ''message_delta'', ''m'') demo_stop"
  by (simp_all add: carries_def demo_sonic_def body_object_def)

lemma demo_chunks:
  "chunk_delta (demo_delta d) = fmap_of_list d"
  by (simp add: chunk_delta_def demo_delta_def get_defs obj_elem_def map_or_nil_def)


lemma thought_first_panics_witness:
  "pipeConvertedSSE demo_sonic (openAIChatAdapter demo_sonic 0 :: unit stream_state ProtocolAdapter) (anthropicMessagesAdapter demo_sonic :: unit stream_state ProtocolAdapter)
     ProtocolOpenAIChat ProtocolAnthropicMessages [''data: r'', [], ''data: a'', []] = None"
proof -
  have "chunk_text (demo_delta [(''reasoning_content'', AStr ''hm'')]) = []" "chunk_thought (demo_delta [(''reasoning_content'', AStr ''hm'')]) \<noteq> []"
    by (simp_all add: chunk_text_def chunk_thought_def demo_chunks get_defs)
  then show ?thesis
    using thought_first_panics [where 'o = unit, of demo_sonic "[(None, ''r''), (None, ''a'')]" "[]" "demo_delta [(''reasoning_content'', AStr ''hm'')]"
        "[demo_delta [(''content'', AStr ''hi'')]]" "[]" 0] demo_carries(1,2)
    by (simp add: stream_end_def sse_lines_def)
qed

lemma finish_reason_lost_witness:
  "\<exists>frames. pipeConvertedSSE demo_sonic (anthropicMessagesAdapter demo_sonic :: unit stream_state ProtocolAdapter) (openAIChatAdapter demo_sonic 0 :: unit stream_state ProtocolAdapter)
       ProtocolAnthropicMessages ProtocolOpenAIChat [''event: message_delta'', ''data: m'', []] = Some frames \<and>
     finish_reasons (payloads_of frames) = []"
proof -
  have "payload_type demo_stop = ''message_delta''" "metered_message demo_stop"
    by (simp_all add: payload_type_def metered_message_def demo_stop_def get_defs)
  then show ?thesis
    using finish_reason_lost [where 'o = unit, of demo_sonic "[(Some ''message_delta'', ''m'')]" "[]" demo_stop "[]" "[]" 0] demo_carries(3)
    by (simp add: stream_end_def sse_lines_def)
qed

section \<open>What a request becomes\<close>

text \<open>C29: A Chat client's system prompt reaches an Anthropic model twice: once as its system prompt and once more as the first words of the user, because
  the decoder keeps the system message among the messages and the Messages encoder sends a system message as a user's.\<close>

theorem system_prompt_sent_twice:
  assumes "getList raw ''messages'' = Some (AObj m # rest)" "getString m ''role'' = ''system''" "fmlookup m ''content'' = Some (AStr s)" "s \<noteq> []"
    "list_all (\<lambda>w. getString w ''role'' \<notin> {''system'', ''developer''}) (objects_in rest)" "\<not> prefix anthropicBillingHeaderPrefix s"
    "fmlookup m ''tool_calls'' = None"
    "NormalizeRequest (chat_DecodeRequest js raw) (CapabilitiesForProtocol ProtocolAnthropicMessages) = Inr (ir, ws)"
  shows "fmlookup (anthropic_EncodeRequest js (ir\<lparr>iq_Model := n\<rparr>)) ''system'' = Some (AStr s) \<and>
    (\<exists>ms. fmlookup (anthropic_EncodeRequest js (ir\<lparr>iq_Model := n\<rparr>)) ''messages'' =
       Some (AArr (obj_of [(''role'', AStr ''user''), (''content'', AArr [obj_of [(''type'', AStr ''text''), (''text'', AStr s)]])] # ms)))"
proof -
  let ?ir = "chat_DecodeRequest js raw" and ?first = "said IRRoleSystem [text_part s]"
  let ?caps = "CapabilitiesForProtocol ProtocolAnthropicMessages"
  have role: "mapOpenAIRole r = IRRoleSystem \<longleftrightarrow> r \<in> {''system'', ''developer''}" for r
    by (simp add: mapOpenAIRole_def)
  have first: "decode_chat_message js m = ?first"
    using assms(2-4,7) by (simp add: decode_chat_message_def getList_def present_content_def decodeOpenAIChatContent_def role said_def)
  have msgs: "iq_Messages ?ir = ?first # decodeOpenAIChatMessages js rest"
    using first by (simp add: chat_DecodeRequest_def assms(1) decodeOpenAIChatMessages_def objects_in_def map_filter_simps new_request_def Let_def)
  have "filter (\<lambda>m. im_Role m = IRRoleSystem) (decodeOpenAIChatMessages js rest) = []"
    using assms(5) by (auto simp: filter_empty_conv decodeOpenAIChatMessages_def decode_chat_message_def list_all_iff role Let_def)
  then have sys: "iq_System ?ir = s" "iq_SystemParts ?ir = []"
    using msgs by (simp_all add: chat_DecodeRequest_def new_request_def Let_def system_text_def said_def GetTextContent_def text_part_def)
  obtain xs tw c where t: "normalize_tools_from 0 (iq_Messages ?ir) = (xs, tw, c)" by (metis prod_cases3)
  have "iq_Messages ?ir ! 0 = ?first" "im_Role ?first \<noteq> IRRoleTool" by (simp_all add: msgs said_def)
  then have "xs ! 0 = ?first" "0 < length xs" using tools_from_roles [OF t] msgs by auto
  moreover have ir: "iq_Messages ir = map (supported_message ?caps) xs" "ir = ?ir\<lparr>iq_Messages := iq_Messages ir\<rparr>"
    using normalize_some [OF assms(8)] t by (auto simp: normalizeToolMessages_def)
  moreover have "supported_message ?caps ?first = ?first"
    by (simp add: supported_message_def said_def part_supported_def needed_cap_def text_part_def)
  ultimately obtain ys where ys: "iq_Messages ir = ?first # ys" by (cases xs) auto
  have "iq_System ir = s" "iq_SystemParts ir = []" by (subst ir(2), simp add: sys)+
  moreover have "encode_anthropic_message js ?first =
      obj_of [(''role'', AStr ''user''), (''content'', AArr [obj_of [(''type'', AStr ''text''), (''text'', AStr s)]])]"
    by (simp add: encode_anthropic_message_def said_def text_part_def cache_field_def field_if_def)
  ultimately show ?thesis using ys assms(4,6)
    by (simp add: anthropic_EncodeRequest_def Let_def encodeAnthropicMessages_def arr_of_def strip_kept)
qed

definition prompted_raw :: amap where
  "prompted_raw = fmap_of_list [(''messages'', AArr [obj_of [(''role'', AStr ''system''), (''content'', AStr ''be brief'')]])]"

lemma system_prompt_sent_twice_witness:
  "\<exists>ir ms. fmlookup (anthropic_EncodeRequest demo_sonic (ir\<lparr>iq_Model := ''m''\<rparr>)) ''system'' = Some (AStr ''be brief'') \<and>
     fmlookup (anthropic_EncodeRequest demo_sonic (ir\<lparr>iq_Model := ''m''\<rparr>)) ''messages'' =
       Some (AArr (obj_of [(''role'', AStr ''user''), (''content'', AArr [obj_of [(''type'', AStr ''text''), (''text'', AStr ''be brief'')]])] # ms))"
proof -
  let ?m = "fmap_of_list [(''role'', AStr ''system''), (''content'', AStr ''be brief'')]"
  have "iq_Tools (chat_DecodeRequest demo_sonic prompted_raw) = []"
    by (simp add: chat_DecodeRequest_def prompted_raw_def get_defs new_request_def Let_def)
  then obtain ir ws where n: "NormalizeRequest (chat_DecodeRequest demo_sonic prompted_raw) (CapabilitiesForProtocol ProtocolAnthropicMessages) = Inr (ir, ws)"
    by (cases "NormalizeRequest (chat_DecodeRequest demo_sonic prompted_raw) (CapabilitiesForProtocol ProtocolAnthropicMessages)")
       (auto simp: NormalizeRequest_def Let_def split: if_splits prod.splits)
  have "getList prompted_raw ''messages'' = Some (AObj ?m # [])" "getString ?m ''role'' = ''system''"
    by (simp_all add: prompted_raw_def get_defs obj_of_def)
  from system_prompt_sent_twice [OF this _ _ _ _ _ n, of "''be brief''" "''m''"] show ?thesis
    by (auto simp: anthropicBillingHeaderPrefix_def objects_in_def map_filter_simps)
qed

end
