(* ===== verification/Spec2Isabelle.thy ===== *)
theory Spec2Isabelle
  imports Pipeline Settling Assistant Titles RouterStreams
begin

text \<open>
  \<^bold>\<open>The program.\<close> Leros lets users talk to agents that run on workers. A server keeps sessions and their messages in a database and hands every
  user message, as a run command, to a message bus (NATS JetStream). A worker takes the commands of its organisation, merges
  messages of a session that come close together, runs an agent on them, and publishes the events of the run back to the bus. The server
  stores the outcome of a run as a message, stores declared artifacts, and shows the events to clients, live or replayed. On the worker
  a run is prepared (model route, git repository of the project, skills, prompts, tools), executed by a runtime and finalized (artifacts, push). This
  library models that path: everything between a posted message and its stored answer except the agent itself.

  \<^bold>\<open>Theories\<close>, in the order of the path; each opens with what it holds.
  \<^item> \<open>Prelude\<close>: strings as Go's \<open>strings\<close>, \<open>strconv\<close> and \<open>time\<close> treat them (trimming, decimal numbers, 64-bit wrap-around, zero time), slices that may be nil, the loop that
    removes duplicates, the collections \<open>msg_defs\<close>, \<open>deb_defs\<close>, \<open>seen_loop\<close>. \<open>Json\<close>: values, field access and the marshalling of structs as \<open>encoding/json\<close> does it;
    the locale \<open>codec\<close> is the contract of a struct's encoder and decoder. \<open>Decoded\<close>: what decoding can yield is well-formed.
  \<^item> \<open>Subjects\<close> (\<open>backend/pkg/messaging/subject.go\<close>): subjects, lanes, streams. \<open>Commands\<close> (\<open>command.go\<close>, \<open>envelope.go\<close>) and \<open>RunEvents\<close> (\<open>event.go\<close>): the
    messages of the bus with their JSON form, as interpretations of \<open>codec\<close>.
  \<^item> \<open>Requests\<close> (\<open>backend/internal/assistant/domain/request.go\<close>, \<open>backend/internal/worker/command/run/mapper.go\<close>): the request that the agent executes.
  \<^item> \<open>Debounce\<close> (\<open>backend/pkg/utils/trailing_debouncer.go\<close>) and \<open>Coordinator\<close> (\<open>backend/internal/worker/run/coordinator.go\<close>): every section under a mutex is
    a function on a record; goroutines, timers, callers and executions are the steps of \<open>deb_step\<close> and \<open>coord_step\<close>, whose multisets and maps hold
    the timer callbacks, handlers, blocked callers and due sends that exist. Invariants are proved by rule induction on reachable states. \<open>Settling\<close>: the
    measure of the work that the coordinator still has.
  \<^item> \<open>SeqTracker\<close> (\<open>backend/pkg/seqtracker/tracker.go\<close>): the SQLite table of deliveries; the locale \<open>seq_tracker\<close> is what the handler
    relies on. \<open>RunHandler\<close> (\<open>backend/internal/worker/command/run/handler.go\<close>): run and control commands.
  \<^item> \<open>AgentEvents\<close> (\<open>backend/agent/result.go\<close>, \<open>backend/agent/runtime/events/events.go\<close>, \<open>backend/internal/assistant/domain/result.go\<close>): the events of a runtime.
    \<open>Journal\<close>, \<open>Archive\<close> (\<open>backend/internal/assistant/journal.go\<close>): numbering, recording and archiving them. \<open>NatsSink\<close>
    (\<open>backend/internal/worker/eventpub/nats_sink.go\<close>): publishing them.
  \<^item> \<open>Executor\<close> (\<open>backend/agent/executor.go\<close>): Go errors, runtimes and the execution of one; a runtime is a program that emits events, sees the answer
    to each and ends; the locale \<open>observer_invariant\<close> is what an observer keeps over an execution. \<open>Paths\<close>: Go's \<open>path/filepath\<close>. \<open>Workspace\<close>, \<open>Checkout\<close>, \<open>Manifest\<close>
    (\<open>backend/internal/workspace\<close>): the directories of a task, its git repository, its artifacts. \<open>SkillInvoke\<close> and \<open>SystemPrompt\<close>
    (\<open>backend/internal/assistant/context\<close>, \<open>backend/internal/skill/token.go\<close>): what a message and a prompt become. \<open>Tools\<close> (\<open>backend/tools\<close>,
    \<open>tool_adapter.go\<close>), \<open>Preparer\<close>, \<open>Finalizer\<close>, \<open>Assistant\<close> (\<open>backend/internal/assistant\<close>, with the store of \<open>backend/internal/modelrouter\<close>): the
    life of a run from the request to its terminal event.
  \<^item> \<open>Projector\<close> (\<open>backend/internal/service/session_event_projector.go\<close>): what a client is shown, live and replayed.
  \<^item> \<open>SessionStore\<close> (\<open>backend/types/session.go\<close>, \<open>backend/internal/infra/db\<close>), \<open>Sessions\<close> (\<open>backend/internal/service/session_service.go\<close>), \<open>Artifacts\<close>,
    \<open>RunState\<close> (\<open>backend/internal/runnable\<close>), \<open>Poster\<close> (\<open>backend/internal/service/message_poster.go\<close>): the tables of the server and the operations that post a message and follow its
    run. \<open>ServerRuns\<close> is the step relation of all of them; \<open>Pipeline\<close> composes the two sides.
  \<^item> \<open>Streaming\<close> (\<open>StreamSessionEvents\<close>): what a connected client is sent: the transcript, the replay of a run, the live events, as a step relation.
    \<open>Interactions\<close> (\<open>backend/internal/worker/command/interaction\<close>): tool calls that wait for a user's answer, the dispatcher and the lane that delivers the answers.
    \<open>SessionCalls\<close> (\<open>session_service.go\<close>, \<open>worker_resolution.go\<close>): the calls that clients make on sessions, from creation to the control of a running run.
    \<open>Runes\<close>: Go's decoding of UTF-8. \<open>Titles\<close> (\<open>session_service.go\<close>): generated titles, from the request to the work they name.
  \<^item> \<open>LlmIR\<close>, \<open>StreamAgg\<close>, \<open>ChatAdapter\<close>, \<open>AnthropicAdapter\<close> (\<open>backend/pkg/llmprotocol\<close>): the canonical form of a model request, the aggregator that completes streams, and the
    adapters of two protocols, requests, answers and streams in both directions; the locale \<open>request_codec\<close> is their contract. \<open>ModelRouter\<close>
    (\<open>backend/internal/modelrouter/handler.go\<close>): the proxy between the agents of a worker and its model providers. \<open>RouterStreams\<close>: what a converted stream is.

  \<^bold>\<open>How the code is rendered.\<close> A struct is a record and a field keeps its name behind a prefix of the record; a pointer or a slice that may be nil is an option; a Go error is a value of an
  error datatype, or the left side of a sum. \<open>uint64\<close> and \<open>int64\<close> values are numbers with \<open>mod 2 ^ 64\<close> or \<open>wrap64\<close> where the code computes with them. Instants are nanoseconds and an operation takes
  the clock as an argument. A string is the list of its bytes. JSON numbers are integers; the order of object fields is the order of the struct.

  \<^bold>\<open>What the lemmas show.\<close> The worker never runs two executions of one session at a time, loses no caller and no message, gives every caller an outcome that covers
  its message, keeps to its number of slots, comes to rest, and does not run a settled delivery again (\<open>Debounce\<close>, \<open>Coordinator\<close>, \<open>Settling\<close>, \<open>RunHandler\<close>).
  A run that starts ends in one terminal event, whatever fails (\<open>Assistant\<close>, where the observer of the journal interprets \<open>observer_invariant\<close> twice); its paths stay inside its
  repository, apart from those of other tasks (\<open>Workspace\<close>, \<open>Manifest\<close>), and its model is reached through the proxy (\<open>Preparer\<close>). Every command and event survives the bus (\<open>Commands\<close>,
  \<open>RunEvents\<close>, \<open>NatsSink\<close>). A recorded run keeps the whole text of every message, in order, and replays to what was shown live (\<open>Archive\<close>, \<open>Projector\<close>).
  The server's transcript is ordered, nothing stored is rewritten, and a run's end is stored as one message with its status given to exactly
  the messages it answers (\<open>ServerRuns\<close>); a posted message is answered (\<open>Pipeline\<close>). A client is sent every event of a run once, in order, whatever the bus repeats (\<open>Streaming\<close>); a session is read and changed
  only by its owner inside its organisation, an ended session stays ended, a cancellation and an approval reach the run they are meant for (\<open>SessionCalls\<close>), and a user's answer reaches the
  call that asked (\<open>Interactions\<close>). A model request survives the conversion and holds only what its model can take (\<open>LlmIR\<close>, \<open>ChatAdapter\<close>, \<open>AnthropicAdapter\<close>); a converted stream
  is complete whatever the provider sends (\<open>StreamAgg\<close>), and its client is shown the answer and nothing else (\<open>RouterStreams\<close>). Some lemmas show where the code does less than it means to: a repeated completion is stored again, two racing
  answers share a number, \<open>Close\<close> does not wait, a project repository without a remote is emptied by each run, an attachment's name can leave its directory,
  two runs share an upstream by their model's name, a native skill call is not recorded, a file whose record fails once is never recorded,
  a title generated late undoes what was changed meanwhile, a second answer to one request stops the lane of all answers,
  a model that thinks first breaks the stream of an Anthropic client, a Chat client of an Anthropic model gets no finish reason, a Chat request loses its images.

  \<^bold>\<open>Bounds.\<close> No definition uses fuel. Hypotheses bound sequence numbers below the wrap-around: a session's numbers after fewer than $2^{63} - 1$ steps,
  a journal's numbers by the events recorded, row ids below $2^{64}$ as the column type has them, and deliveries without the highest bit, which the SQL driver refuses.

  \<^bold>\<open>Not modelled.\<close> The agent runtimes (third-party programs), the adapters of the Responses and Gemini protocols (arguments of the router) and its debug log, the HTTP API and its authentication, the
  skill store and marketplace, worker scheduling, file storage, the websocket and bus clients (I/O), the command line and the frontend. Of the modelled files: failing database
  statements, the opening and closing of databases and subscriptions, the creation of projects and tasks for a first message,
  \<open>AddMessage\<close> with its attachments, and the listing of sessions.
\<close>

end
